(* ===== verification/Prelude.thy ===== *)
theory Prelude
  imports Main "HOL-Library.Sublist"
begin

text \<open>
  Shared vocabulary of the development: the model's base types, results that may be an
  error, Go's \<^verbatim>\<open>strings.TrimSpace\<close>, decimal printing of identifiers, and
  the generic lemmas on lists and options the components use.
\<close>

section \<open>Base types\<close>

text \<open>
  A Go \<^verbatim>\<open>uint\<close> identifier is a \<^typ>\<open>nat\<close> (0 is the missing identifier, as
  in the code), a Go \<^verbatim>\<open>time.Time\<close> or \<^verbatim>\<open>time.Duration\<close> is an
  \<^typ>\<open>int\<close> of nanoseconds, counted from Go's zero time, so that
  \<^verbatim>\<open>t.IsZero()\<close> is \<open>t = 0\<close>. A pointer that may be nil is an option. A
  string is its UTF-8 bytes.
\<close>

type_synonym uid = nat
type_synonym time = int
type_synonym duration = int

abbreviation second :: duration where "second \<equiv> 1000000000"
abbreviation minute :: duration where "minute \<equiv> 60 * second"

named_theorems inv_simps "inversion of successful results"

section \<open>Results\<close>

text \<open>Go's \<^verbatim>\<open>(value, error)\<close> is a sum: the error to the left, the value to the right.\<close>

fun and_then :: "'e + 'a \<Rightarrow> ('a \<Rightarrow> 'e + 'b) \<Rightarrow> 'e + 'b" where
  "and_then (Inl e) f = Inl e"
| "and_then (Inr x) f = f x"

lemma and_then_eq_Inr [inv_simps]: "and_then m f = Inr y \<longleftrightarrow> (\<exists>x. m = Inr x \<and> f x = Inr y)"
  by (cases m) auto

lemma and_then_eq_Inl: "and_then m f = Inl e \<longleftrightarrow> m = Inl e \<or> (\<exists>x. m = Inr x \<and> f x = Inl e)"
  by (cases m) auto

lemma if_Inl_eq_Inr [inv_simps]: "(if b then Inl e else m) = Inr y \<longleftrightarrow> \<not> b \<and> m = Inr y"
  by simp

lemma case_option_Inl_eq_Inr [inv_simps]:
  "(case x of None \<Rightarrow> Inl e | Some v \<Rightarrow> f v) = Inr y \<longleftrightarrow> (\<exists>v. x = Some v \<and> f v = Inr y)"
  by (cases x) auto

text \<open>A loop over a list whose body may fail: the first error ends it.\<close>

fun fold_result :: "('x \<Rightarrow> 's \<Rightarrow> 'e + 's) \<Rightarrow> 'x list \<Rightarrow> 's \<Rightarrow> 'e + 's" where
  "fold_result f [] s = Inr s"
| "fold_result f (x # xs) s = and_then (f x s) (fold_result f xs)"

lemma fold_result_invariant:
  assumes "fold_result f xs s = Inr s'" and "I s"
    and "\<And>x s s'. x \<in> set xs \<Longrightarrow> I s \<Longrightarrow> f x s = Inr s' \<Longrightarrow> I s'"
  shows "I s'"
  using assms by (induction xs arbitrary: s) (auto simp: and_then_eq_Inr)

lemma fold_result_total:
  assumes "I s" and "\<And>x s. x \<in> set xs \<Longrightarrow> I s \<Longrightarrow> \<exists>s'. f x s = Inr s' \<and> I s'"
  shows "\<exists>s'. fold_result f xs s = Inr s' \<and> I s'"
  using assms
proof (induction xs arbitrary: s)
  case (Cons x xs)
  then obtain s1 where "f x s = Inr s1" "I s1" by (meson list.set_intros(1))
  with Cons show ?case by simp
qed simp

text \<open>A text of the source given by its UTF-8 bytes.\<close>

definition utf8 :: "nat list \<Rightarrow> string" where
  "utf8 bytes = map char_of bytes"

section \<open>White space\<close>

text \<open>
  The UTF-8 encodings of the code points Go's \<^verbatim>\<open>unicode.IsSpace\<close> accepts;
  \<^verbatim>\<open>strings.TrimSpace\<close> cuts them off both ends.
\<close>

definition space_encodings :: "string list" where
  "space_encodings = map (map char_of) ([[9], [10], [11], [12], [13], [32], [0xC2, 0x85], [0xC2, 0xA0],
     [0xE1, 0x9A, 0x80], [0xE2, 0x80, 0x80], [0xE2, 0x80, 0x81], [0xE2, 0x80, 0x82],
     [0xE2, 0x80, 0x83], [0xE2, 0x80, 0x84], [0xE2, 0x80, 0x85], [0xE2, 0x80, 0x86],
     [0xE2, 0x80, 0x87], [0xE2, 0x80, 0x88], [0xE2, 0x80, 0x89], [0xE2, 0x80, 0x8A],
     [0xE2, 0x80, 0xA8], [0xE2, 0x80, 0xA9], [0xE2, 0x80, 0xAF], [0xE2, 0x81, 0x9F],
     [0xE3, 0x80, 0x80]] :: nat list list)"

fun strip_one :: "string list \<Rightarrow> string \<Rightarrow> string option" where
  "strip_one [] s = None"
| "strip_one (e # es) s =
     (if e \<noteq> [] \<and> prefix e s then Some (drop (length e) s) else strip_one es s)"

lemma strip_one_shorter: "strip_one es s = Some s' \<Longrightarrow> length s' < length s"
  by (induction es s rule: strip_one.induct)
    (auto split: if_splits dest: prefix_length_le simp: prefix_def)

function strip_all :: "string list \<Rightarrow> string \<Rightarrow> string" where
  "strip_all es s = (case strip_one es s of None \<Rightarrow> s | Some s' \<Rightarrow> strip_all es s')"
  by pat_completeness auto
termination
  by (relation "measure (\<lambda>(es, s). length s)") (auto dest: strip_one_shorter)

declare strip_all.simps [simp del]

definition trim_left :: "string \<Rightarrow> string" where
  "trim_left s = strip_all space_encodings s"

definition trim_right :: "string \<Rightarrow> string" where
  "trim_right s = rev (strip_all (map rev space_encodings) (rev s))"

definition trim_space :: "string \<Rightarrow> string" where
  "trim_space s = trim_right (trim_left s)"

definition blank :: "string \<Rightarrow> bool" where
  "blank s \<longleftrightarrow> trim_space s = ''''"

lemma strip_one_Nil [simp]: "strip_one es [] = None"
  by (induction es) auto

lemma strip_all_Nil [simp]: "strip_all es [] = []"
  by (simp add: strip_all.simps)

lemma trim_space_Nil [simp]: "trim_space [] = []"
  by (simp add: trim_space_def trim_left_def trim_right_def)

lemma blank_Nil [simp]: "blank []"
  by (simp add: blank_def)

lemma strip_all_stripped: "strip_one es (strip_all es s) = None"
proof (induction es s rule: strip_all.induct)
  case (1 es s)
  then show ?case by (cases "strip_one es s") (simp_all add: strip_all.simps [of es s])
qed

lemma strip_all_suffix: "suffix (strip_all es s) s"
proof (induction es s rule: strip_all.induct)
  case (1 es s)
  have drop: "strip_one es s = Some s' \<Longrightarrow> suffix s' s" for s'
    by (induction es s rule: strip_one.induct) (auto split: if_splits intro: suffix_drop)
  show ?case
    using 1 drop by (cases "strip_one es s")
      (auto simp: strip_all.simps [of es s] intro: suffix_order.trans)
qed

lemma trim_space_subset: "set (trim_space s) \<subseteq> set s"
  using set_mono_suffix [OF strip_all_suffix [of space_encodings s]]
    set_mono_suffix [OF strip_all_suffix [of "map rev space_encodings" "rev (strip_all space_encodings s)"]]
  by (auto simp: trim_space_def trim_left_def trim_right_def)

text \<open>\<^verbatim>\<open>fallbackString\<close> of \<^verbatim>\<open>app.go\<close>.\<close>

definition fallback_string :: "string \<Rightarrow> string \<Rightarrow> string" where
  "fallback_string v fallback = (if blank v then fallback else v)"

text \<open>A byte of no space encoding survives the trimming, so a text that has one is not blank.\<close>

lemma strip_all_keeps:
  assumes "c \<in> set s" and "\<And>e. e \<in> set es \<Longrightarrow> c \<notin> set e"
  shows "c \<in> set (strip_all es s)"
  using assms
proof (induction es s rule: strip_all.induct)
  case (1 es s)
  have step: "c \<in> set s'" if "strip_one es s = Some s'" for s'
    using that 1(2,3)
  proof (induction es s rule: strip_one.induct)
    case (2 e es s)
    show ?case
    proof (cases "e \<noteq> [] \<and> prefix e s")
      case True
      then obtain r where "s = e @ r" by (auto simp: prefix_def)
      with True 2(2-4) show ?thesis by auto
    qed (use 2 in auto)
  qed simp
  show ?case
    using 1 step by (cases "strip_one es s") (auto simp: strip_all.simps [of es s])
qed

definition plain_byte :: "char \<Rightarrow> bool" where
  "plain_byte c \<longleftrightarrow> list_all (\<lambda>e. c \<notin> set e) space_encodings"

lemma trim_space_keeps: "c \<in> set s \<Longrightarrow> plain_byte c \<Longrightarrow> c \<in> set (trim_space s)"
  unfolding trim_space_def trim_right_def trim_left_def plain_byte_def list_all_iff
  by (auto intro!: strip_all_keeps)

lemma not_blank: "c \<in> set s \<Longrightarrow> plain_byte c \<Longrightarrow> \<not> blank s"
  using trim_space_keeps by (force simp: blank_def)

text \<open>Plain texts are not trimmed; the letters, digits and marks of a source literal are plain.\<close>

lemma strip_one_plain: "(\<And>e. e \<in> set es \<Longrightarrow> c \<notin> set e) \<Longrightarrow> strip_one es (c # s) = None"
  by (induction es) (auto simp: prefix_Cons, metis list.set_intros(1))

lemma strip_all_plain: "(\<And>e. e \<in> set es \<Longrightarrow> c \<notin> set e) \<Longrightarrow> strip_all es (c # s) = c # s"
  by (simp add: strip_all.simps strip_one_plain)

lemma trim_space_ends:
  assumes "s \<noteq> []" and "plain_byte (hd s)" and "plain_byte (last s)"
  shows "trim_space s = s"
proof -
  obtain c r where s: "s = c # r" using assms(1) by (cases s) auto
  then have "plain_byte c" using assms(2) by simp
  then have "trim_left s = s"
    unfolding trim_left_def s by (intro strip_all_plain) (simp add: plain_byte_def list_all_iff)
  moreover obtain d q where rev: "rev s = d # q" using assms(1) by (cases "rev s") auto
  then have "d = last s" by (metis last_rev list.sel(1) rev_rev_ident hd_rev)
  then have "strip_all (map rev space_encodings) (rev s) = rev s"
    unfolding rev using assms(3) by (intro strip_all_plain) (auto simp: plain_byte_def list_all_iff)
  ultimately show ?thesis by (simp add: trim_space_def trim_right_def)
qed

lemma trim_space_plain: "list_all plain_byte s \<Longrightarrow> trim_space s = s"
  by (cases "s = []") (auto simp: list_all_iff intro: trim_space_ends)

definition literal_bytes :: string where
  "literal_bytes = ''abcdefghijklmnopqrstuvwxyzABCDEFGHIJKLMNOPQRSTUVWXYZ0123456789_-:./''"

lemma literal_bytes_plain: "list_all plain_byte literal_bytes"
  unfolding plain_byte_def space_encodings_def literal_bytes_def by (simp add: char_of_def bit_Suc_0_iff)

lemma trim_space_literal: "list_all (\<lambda>c. c \<in> set literal_bytes) s \<Longrightarrow> trim_space s = s"
  using literal_bytes_plain by (intro trim_space_plain) (auto simp: list_all_iff)

lemma blank_literal: "list_all (\<lambda>c. c \<in> set literal_bytes) s \<Longrightarrow> blank s \<longleftrightarrow> s = []"
  by (simp add: blank_def trim_space_literal)

section \<open>Decimal printing\<close>

text \<open>Go's \<^verbatim>\<open>%d\<close> on an unsigned identifier.\<close>

fun show_nat :: "nat \<Rightarrow> string" where
  "show_nat n = (if n < 10 then [char_of (48 + n)] else show_nat (n div 10) @ [char_of (48 + n mod 10)])"

declare show_nat.simps [simp del]

definition read_nat :: "string \<Rightarrow> nat" where
  "read_nat s = foldl (\<lambda>a c. 10 * a + (of_char c - 48)) 0 s"

lemma read_show_nat [simp]: "read_nat (show_nat n) = n"
proof (induction n rule: show_nat.induct)
  case (1 n)
  show ?case
  proof (cases "n < 10")
    case True
    then show ?thesis by (simp add: read_nat_def show_nat.simps [of n])
  next
    case False
    have "(58::nat) < 256" by simp
    have "n mod 10 < 10" by simp
    then have c: "of_char (char_of (48 + n mod 10) :: char) = 48 + n mod 10"
      by simp
    have "read_nat (show_nat n) = 10 * read_nat (show_nat (n div 10)) + n mod 10"
      using False by (simp add: read_nat_def show_nat.simps [of n] c)
    also have "\<dots> = n" using 1 False by simp
    finally show ?thesis .
  qed
qed

lemma show_nat_inject [simp]: "show_nat m = show_nat n \<longleftrightarrow> m = n"
  by (metis read_show_nat)

text \<open>\<^verbatim>\<open>strconv.Itoa\<close>.\<close>

definition show_int :: "int \<Rightarrow> string" where
  "show_int n = (if n < 0 then CHR ''-'' # show_nat (nat (- n)) else show_nat (nat n))"

text \<open>\<^verbatim>\<open>%02d\<close>.\<close>

definition two_digits :: "nat \<Rightarrow> string" where
  "two_digits n = (if n < 10 then ''0'' @ show_nat n else show_nat n)"

lemma show_nat_digits: "c \<in> set (show_nat n) \<Longrightarrow> 48 \<le> (of_char c :: nat) \<and> (of_char c :: nat) \<le> 57"
proof (induction n rule: show_nat.induct)
  case (1 n)
  have d: "(of_char (char_of (48 + k mod 10) :: char) :: nat) = 48 + k mod 10" for k :: nat
  proof -
    have "k mod 10 < 10" by simp
    then have "48 + k mod 10 < 256" by linarith
    then show ?thesis by simp
  qed
  have "(of_char (char_of (48 + n) :: char) :: nat) = 48 + n" if "n < 10"
    using d [of n] that by simp
  with 1 d [of n] show ?case
    by (auto simp: show_nat.simps [of n] split: if_splits)
qed

lemma show_int_inject [simp]: "show_int m = show_int n \<longleftrightarrow> m = n"
proof -
  have "CHR ''-'' \<notin> set (show_nat k)" for k using show_nat_digits [of "CHR ''-''" k] by auto
  then have "CHR ''-'' # xs \<noteq> show_nat k" "show_nat k \<noteq> CHR ''-'' # xs" for k xs
    by (metis list.set_intros(1))+
  then show ?thesis by (auto simp: show_int_def eq_nat_nat_iff)
qed

lemma plain_printable: "32 < (of_char c :: nat) \<Longrightarrow> (of_char c :: nat) < 127 \<Longrightarrow> plain_byte c"
  by (auto simp: plain_byte_def space_encodings_def)

section \<open>Lower case\<close>

text \<open>
  \<^verbatim>\<open>strings.ToLower\<close> as far as comparing with a text needs it whose letters are ASCII or
  have no case: the ASCII letters and the two other letters whose lower case is an ASCII letter.
\<close>

definition lower_ascii :: "char \<Rightarrow> char" where
  "lower_ascii ch = (let n = of_char ch :: nat in if 65 \<le> n \<and> n \<le> 90 then char_of (n + 32) else ch)"

fun lower_key :: "string \<Rightarrow> string" where
  "lower_key (a # b # c # rest) =
     (if [a, b] = utf8 [196, 176] then CHR ''i'' # lower_key (c # rest)
      else if [a, b, c] = utf8 [226, 132, 170] then CHR ''k'' # lower_key rest
      else lower_ascii a # lower_key (b # c # rest))"
| "lower_key [a, b] = (if [a, b] = utf8 [196, 176] then ''i'' else [lower_ascii a, lower_ascii b])"
| "lower_key [a] = [lower_ascii a]"
| "lower_key [] = []"

end
