(* ===== verification/Tables.thy ===== *)
theory Tables
  imports Prelude
begin

text \<open>
  Database tables. A table is the list of its rows, by ascending primary key: rows are
  only added at the end, under a new key. A gorm statement is the SQL it issues: a
  conditional update that reports the affected rows, a select, an insert.
\<close>

definition update_where :: "('r \<Rightarrow> bool) \<Rightarrow> ('r \<Rightarrow> 'r) \<Rightarrow> 'r list \<Rightarrow> 'r list" where
  "update_where P f t = map (\<lambda>r. if P r then f r else r) t"

definition count_where :: "('r \<Rightarrow> bool) \<Rightarrow> 'r list \<Rightarrow> nat" where
  "count_where P t = length (filter P t)"

definition first_where :: "('r \<Rightarrow> bool) \<Rightarrow> 'r list \<Rightarrow> 'r option" where
  "first_where P t = find P t"

definition next_key :: "('r \<Rightarrow> nat) \<Rightarrow> 'r list \<Rightarrow> nat" where
  "next_key key t = Suc (fold max (map key t) 0)"

lemma update_where_Nil [simp]: "update_where P f [] = []"
  by (simp add: update_where_def)

lemma update_where_Cons [simp]:
  "update_where P f (r # t) = (if P r then f r else r) # update_where P f t"
  by (simp add: update_where_def)

lemma update_where_append [simp]:
  "update_where P f (t @ u) = update_where P f t @ update_where P f u"
  by (simp add: update_where_def)

lemma length_update_where [simp]: "length (update_where P f t) = length t"
  by (simp add: update_where_def)

lemma set_update_where: "set (update_where P f t) = (\<lambda>r. if P r then f r else r) ` set t"
  by (simp add: update_where_def)

lemma ball_update_where:
  "(\<forall>r \<in> set (update_where P f t). Q r) \<longleftrightarrow> (\<forall>r \<in> set t. Q (if P r then f r else r))"
  by (auto simp: update_where_def)

lemma update_where_none [simp]: "(\<And>r. r \<in> set t \<Longrightarrow> \<not> P r) \<Longrightarrow> update_where P f t = t"
  by (simp add: update_where_def map_idI)

lemma map_update_where: "(\<And>r. P r \<Longrightarrow> g (f r) = g r) \<Longrightarrow> map g (update_where P f t) = map g t"
  by (simp add: update_where_def)

lemma count_where_Nil [simp]: "count_where P [] = 0"
  by (simp add: count_where_def)

lemma count_where_Cons [simp]: "count_where P (r # t) = (if P r then 1 else 0) + count_where P t"
  by (simp add: count_where_def)

lemma count_where_0: "count_where P t = 0 \<longleftrightarrow> (\<forall>r \<in> set t. \<not> P r)"
  by (auto simp: count_where_def filter_empty_conv)

lemma count_where_eq_1D: "count_where P t = 1 \<Longrightarrow> \<exists>r \<in> set t. P r"
  by (metis count_where_0 zero_neq_one)

lemma first_where_Some: "first_where P t = Some r \<Longrightarrow> r \<in> set t \<and> P r"
  by (auto simp: first_where_def find_Some_iff)

lemma first_where_None: "first_where P t = None \<longleftrightarrow> (\<forall>r \<in> set t. \<not> P r)"
  by (auto simp: first_where_def find_None_iff)

lemma first_where_ex: "r \<in> set t \<Longrightarrow> P r \<Longrightarrow> \<exists>r'. first_where P t = Some r'"
  by (cases "first_where P t") (auto simp: first_where_None)

lemma first_where_append:
  "first_where P (t @ u) = (case first_where P t of None \<Rightarrow> first_where P u | Some r \<Rightarrow> Some r)"
  by (induction t) (auto simp: first_where_def)

lemma first_where_single: "first_where P [r] = (if P r then Some r else None)"
  by (simp add: first_where_def)

lemma fold_max_ge: "(\<forall>x \<in> set xs. x \<le> fold max xs a) \<and> a \<le> fold max xs (a::nat)"
proof (induction xs arbitrary: a)
  case (Cons x xs)
  have "\<forall>y \<in> set xs. y \<le> fold max xs (max x a)" "max x a \<le> fold max xs (max x a)"
    using Cons [of "max x a"] by auto
  then show ?case by auto
qed simp

lemma next_key_fresh: "r \<in> set t \<Longrightarrow> key r < next_key key t"
  using fold_max_ge [of "map key t" 0] by (force simp: next_key_def)

text \<open>\<^verbatim>\<open>SELECT SUM(g) WHERE P\<close>.\<close>

definition sum_where :: "('r \<Rightarrow> bool) \<Rightarrow> ('r \<Rightarrow> int) \<Rightarrow> 'r list \<Rightarrow> int" where
  "sum_where P g t = sum_list (map (\<lambda>r. if P r then g r else 0) t)"

lemma sum_where_Nil [simp]: "sum_where P g [] = 0"
  by (simp add: sum_where_def)

lemma sum_where_Cons [simp]: "sum_where P g (r # t) = (if P r then g r else 0) + sum_where P g t"
  by (simp add: sum_where_def)

lemma sum_where_append [simp]: "sum_where P g (t @ u) = sum_where P g t + sum_where P g u"
  by (simp add: sum_where_def)

lemma sum_where_same:
  "(\<And>r. Q r \<Longrightarrow> P (f r) = P r \<and> (P r \<longrightarrow> g (f r) = g r)) \<Longrightarrow>
     sum_where P g (update_where Q f t) = sum_where P g t"
  by (induction t) auto

lemma sum_where_zero: "(\<And>r. r \<in> set t \<Longrightarrow> \<not> P r) \<Longrightarrow> sum_where P g t = 0"
  by (induction t) auto

lemma sum_where_nonneg: "(\<And>r. r \<in> set t \<Longrightarrow> P r \<Longrightarrow> 0 \<le> g r) \<Longrightarrow> 0 \<le> sum_where P g t"
  by (induction t) auto

lemma sum_where_ge:
  "r \<in> set t \<Longrightarrow> P r \<Longrightarrow> (\<And>r. r \<in> set t \<Longrightarrow> P r \<Longrightarrow> 0 \<le> g r) \<Longrightarrow> g r \<le> sum_where P g t"
  by (induction t) (auto intro: sum_where_nonneg add_increasing add_increasing2)

lemma next_key_pos [simp]: "0 < next_key key t"
  by (simp add: next_key_def)

section \<open>Tables with a unique key\<close>

text \<open>
  What a primary key (or a unique index) promises: lookups by key find the row that was
  stored, updates that keep the key keep it unique, an inserted row gets a key of its own.
  Each table of the model interprets this interface at its own key column.
\<close>

locale keyed_table =
  fixes key :: "'r \<Rightarrow> nat"
begin

definition unique :: "'r list \<Rightarrow> bool" where
  "unique t \<longleftrightarrow> distinct (map key t)"

lemma unique_Nil [simp]: "unique []"
  by (simp add: unique_def)

lemma unique_same: "unique t \<Longrightarrow> r \<in> set t \<Longrightarrow> r' \<in> set t \<Longrightarrow> key r = key r' \<Longrightarrow> r = r'"
  by (auto simp: unique_def distinct_map inj_on_def)

lemma unique_update: "(\<And>r. P r \<Longrightarrow> key (f r) = key r) \<Longrightarrow> unique (update_where P f t) = unique t"
  by (simp add: unique_def map_update_where)

lemma unique_insert: "unique t \<Longrightarrow> key r = next_key key t \<Longrightarrow> unique (t @ [r])"
  using next_key_fresh [of _ t key] by (force simp: unique_def)

lemma first_by_key:
  assumes "unique t" and "r \<in> set t" and "P r" and "\<And>r'. P r' \<Longrightarrow> key r' = key r"
  shows "first_where P t = Some r"
proof -
  obtain r' where r': "first_where P t = Some r'" using assms(2,3) first_where_ex by metis
  with assms(4) have "key r' = key r" and "r' \<in> set t" by (auto dest: first_where_Some)
  with assms(1,2) have "r' = r" by (auto intro: unique_same)
  with r' show ?thesis by simp
qed

lemma count_by_key:
  assumes "unique t" and "\<And>r r'. P r \<Longrightarrow> P r' \<Longrightarrow> key r = key r'"
  shows "count_where P t \<le> 1"
  using assms(1)
proof (induction t)
  case (Cons r t)
  then have u: "unique t" by (simp add: unique_def)
  show ?case
  proof (cases "P r")
    case True
    have "key r \<notin> key ` set t" using Cons.prems by (simp add: unique_def)
    then have "\<not> P r'" if "r' \<in> set t" for r'
      using that True assms(2) by (metis imageI)
    then show ?thesis using True by (simp add: count_where_0)
  qed (use Cons u in simp)
qed simp

lemma sum_update:
  fixes g :: "'r \<Rightarrow> int"
  assumes "unique t" and "r \<in> set t" and "P r" and "\<And>r'. P r' \<Longrightarrow> key r' = key r"
  shows "sum_list (map g (update_where P f t)) = sum_list (map g t) - g r + g (f r)"
  using assms(1,2)
proof (induction t)
  case (Cons a t)
  then have u: "unique t" by (simp add: unique_def)
  show ?case
  proof (cases "a = r")
    case True
    then have "key r \<notin> key ` set t" using Cons.prems by (auto simp: unique_def)
    then have "\<not> P r'" if "r' \<in> set t" for r'
      using that assms(4) by (metis imageI)
    then have "update_where P f t = t" by simp
    with True assms(3) show ?thesis by simp
  next
    case False
    then have "r \<in> set t" using Cons.prems by simp
    moreover from this have "key a \<noteq> key r" using Cons.prems by (auto simp: unique_def)
    then have "\<not> P a" using assms(4) by metis
    ultimately show ?thesis using Cons u by simp
  qed
qed simp

lemma sum_where_update:
  assumes "unique t" and "r \<in> set t" and "Q r" and "\<And>r'. Q r' \<Longrightarrow> key r' = key r"
  shows "sum_where P g (update_where Q f t) =
    sum_where P g t - (if P r then g r else 0) + (if P (f r) then g (f r) else 0)"
  unfolding sum_where_def using assms by (rule sum_update [where P = Q])

text \<open>Replacing the row with a given key.\<close>

definition put :: "'r \<Rightarrow> 'r list \<Rightarrow> 'r list" where
  "put r t = update_where (\<lambda>x. key x = key r) (\<lambda>_. r) t"

lemma put_keys [simp]: "map key (put r t) = map key t"
  by (simp add: put_def update_where_def)

lemma unique_put [simp]: "unique (put r t) = unique t"
  by (simp add: unique_def)

lemma update_put:
  assumes "unique t" and "r \<in> set t" and "P r" and "\<And>x. P x \<Longrightarrow> key x = key r" and "key (f r) = key r"
  shows "update_where P f t = put (f r) t"
proof -
  have "(if P x then f x else x) = (if key x = key (f r) then f r else x)" if "x \<in> set t" for x
  proof (cases "key x = key r")
    case True
    then have "x = r" using that assms(1,2) unique_same by blast
    then show ?thesis using assms(3,5) by simp
  next
    case False
    then have "\<not> P x" using assms(4) by blast
    then show ?thesis using False assms(5) by simp
  qed
  then show ?thesis by (simp add: put_def update_where_def)
qed

lemma set_put: "unique t \<Longrightarrow> r \<in> set t \<Longrightarrow> key r' = key r \<Longrightarrow> set (put r' t) = insert r' (set t - {r})"
  using unique_same [of t] by (auto simp: put_def set_update_where)

lemma put_same: "unique t \<Longrightarrow> r \<in> set t \<Longrightarrow> put r t = t"
  using unique_same [of t r] by (auto simp: put_def update_where_def intro: map_idI)

lemma count_one:
  assumes "unique t" and "\<And>x. P x \<Longrightarrow> key x = k"
  shows "count_where P t = 1 \<longleftrightarrow> (\<exists>r \<in> set t. P r)"
proof -
  have "count_where P t \<le> 1" using assms by (intro count_by_key) auto
  then show ?thesis using count_where_0 [of P t] by (cases "count_where P t") auto
qed

lemma put_commute: "key r \<noteq> key r' \<Longrightarrow> put r (put r' t) = put r' (put r t)"
  by (auto simp: put_def update_where_def)

lemma put_put: "key r = key r' \<Longrightarrow> put r (put r' t) = put r t"
  by (auto simp: put_def update_where_def)

end

end
