(* ===== verification/CommerceModels.thy ===== *)
theory CommerceModels
  imports Tables
begin

text \<open>
  The commerce data model: the statuses and their transition tables
  (\<^verbatim>\<open>ecommerce/states.go\<close>), the persisted rows (\<^verbatim>\<open>ecommerce/models.go\<close>,
  \<^verbatim>\<open>types.go\<close> for the credit balances), the error values and the requests and
  results the components exchange (\<^verbatim>\<open>ecommerce/contracts.go\<close>), and the database as
  a record of tables. Creation and update times are kept only for generation items, the one
  table whose times the code reads.
\<close>

section \<open>Statuses\<close>

datatype item_status = ItemQueued | ItemRunning | ItemRetrying | ItemSucceeded | ItemFailed | ItemCanceled

datatype job_status = JobQueued | JobRunning | JobRetrying | JobSucceeded | JobFailed | JobCanceled

datatype batch_status = BatchQueued | BatchRunning | BatchPartialSucceeded | BatchSucceeded
  | BatchFailed | BatchCanceled

fun can_transition_item :: "item_status \<Rightarrow> item_status \<Rightarrow> bool" where
  "can_transition_item ItemQueued to = (to = ItemRunning \<or> to = ItemCanceled)"
| "can_transition_item ItemRunning to =
     (to = ItemRetrying \<or> to = ItemSucceeded \<or> to = ItemFailed \<or> to = ItemCanceled)"
| "can_transition_item ItemRetrying to = (to = ItemRunning \<or> to = ItemCanceled)"
| "can_transition_item _ to = False"

fun can_transition_job :: "job_status \<Rightarrow> job_status \<Rightarrow> bool" where
  "can_transition_job JobQueued to = (to = JobRunning \<or> to = JobCanceled)"
| "can_transition_job JobRunning to =
     (to = JobRetrying \<or> to = JobSucceeded \<or> to = JobFailed \<or> to = JobCanceled)"
| "can_transition_job JobRetrying to = (to = JobRunning \<or> to = JobCanceled)"
| "can_transition_job _ to = False"

section \<open>Errors\<close>

datatype commerce_error =
    ErrInvalidInput
  | FieldError string string
  | ErrCreditsInsufficient
  | ErrIdempotencyConflict
  | ErrPricingSnapshotStale
  | ErrCreditInvariant
  | ErrLeaseMismatch
  | ErrInvalidItemTransition
  | ErrGenerationItemRequired
  | ErrNotFound
  | ErrRecordNotFound
  | ErrConflict
  | ErrOwnershipMismatch
  | ErrInvalidPipeline
  | ErrProjectDeletionRequested
  | ErrVersionConflict
  | ErrReferenceAssetResolverUnavailable
  | ErrCategoryUnavailable
  | ErrCategoryConflict
  | ErrSKUSelectionRequired
  | ErrSKUSelectionTooLarge
  | ErrPrimarySKUNotSelected
  | ErrSKUDisabled
  | ErrRecipeNotFound
  | ErrRecipeModelUnavailable
  | ErrCreativeSpecNotConfirmed
  | ErrSKUVersionConflict
  | ErrDefaultSKUDisable
  | ErrLeaseRecoveryLost
  | ErrLeaseDuration
  | ErrWorkerID
  | ErrDecode
  | ErrInfrastructure
  | ErrResponsePending
  | ErrObjectGuardUnavailable
  | ErrObjectDeletionBusy
  | ErrBatchInfrastructure
  | ErrNilCompiler
  | ErrRecipeConstraint
  | ErrRecipeDefinitionInvalid
  | ErrRecipeAlreadyRegistered
  | ErrCompiledItemIdentityMismatch
  | ErrRecipeReferenceLimitExceeded
  | ErrLayoutInvalid
  | ErrLayoutTextOverflow
  | ErrExecutorInvalid
  | ErrExecutorAlreadyRegistered
  | ErrJob string string bool

section \<open>Rows\<close>

record credit_balance =
  bal_id :: uid
  bal_user :: uid
  bal_available :: int
  bal_reserved :: int

datatype credit_kind = CommerceReserve | CommerceRelease | GenerationReserve | GenerationSettle
  | GenerationRelease | GenerationCharge | SignupBonus | PaymentTopUp | ManualTopUp | ManualDeduct
  | PromptTemplateUse

record credit_transaction =
  txn_id :: uid
  txn_user :: uid
  txn_type :: credit_kind
  txn_amount :: int
  txn_balance_after :: int
  txn_reserved_after :: int
  txn_idempotency_key :: string
  txn_reason :: string
  txn_related_type :: string
  txn_related_id :: uid

record commerce_credit_reservation =
  rsv_id :: uid
  rsv_user :: uid
  rsv_project :: uid
  rsv_batch :: "uid option"
  rsv_scope_type :: string
  rsv_scope_key :: string
  rsv_idempotency_key :: string
  rsv_status :: string
  rsv_total :: int
  rsv_reserved :: int
  rsv_settled :: int
  rsv_released :: int
  rsv_completed_at :: "time option"

record commerce_credit_settlement =
  stl_id :: uid
  stl_user :: uid
  stl_project :: uid
  stl_batch :: uid
  stl_reservation :: uid
  stl_item :: uid
  stl_idempotency_key :: string
  stl_held :: int
  stl_actual :: int
  stl_settled :: int
  stl_released :: int
  stl_anomaly :: string

record commerce_generation_item =
  itm_id :: uid
  itm_user :: uid
  itm_project :: uid
  itm_batch :: uid
  itm_parent :: "uid option"
  itm_reservation :: uid
  itm_sku :: uid
  itm_scope :: string
  itm_slot_key :: string
  itm_candidate_index :: nat
  itm_pipeline :: string
  itm_recipe_key :: string
  itm_recipe_version :: int
  itm_quality_tier :: string
  itm_pricing_version :: string
  itm_pricing_snapshot :: string
  itm_idempotency_key :: string
  itm_status :: item_status
  itm_progress :: int
  itm_input_snapshot :: string
  itm_output_spec :: string
  itm_output_snapshot :: string
  itm_estimated :: int
  itm_reserved :: int
  itm_settled :: int
  itm_released :: int
  itm_record :: "uid option"
  itm_work :: "uid option"
  itm_error_code :: string
  itm_error_message :: string
  itm_cancel_requested_at :: "time option"
  itm_started_at :: "time option"
  itm_finished_at :: "time option"
  itm_created_at :: time
  itm_updated_at :: time

record commerce_job =
  job_id :: uid
  job_user :: uid
  job_project :: uid
  job_batch :: "uid option"
  job_item :: "uid option"
  job_subject :: "uid option"
  job_subject_type :: string
  job_kind :: string
  job_pipeline :: string
  job_recipe_key :: string
  job_status :: job_status
  job_idempotency_key :: string
  job_priority :: int
  job_attempt_count :: int
  job_max_attempts :: int
  job_next_attempt_at :: "time option"
  job_lease_owner :: string
  job_lease_token :: string
  job_lease_expires_at :: "time option"
  job_heartbeat_at :: "time option"
  job_cancel_requested_at :: "time option"
  job_payload :: string
  job_result :: string
  job_error_code :: string
  job_error_message :: string
  job_started_at :: "time option"
  job_finished_at :: "time option"
  job_dead_lettered_at :: "time option"

record commerce_generation_batch =
  bat_id :: uid
  bat_user :: uid
  bat_project :: uid
  bat_creative_spec :: "uid option"
  bat_parent :: "uid option"
  bat_reservation :: "uid option"
  bat_primary_sku :: uid
  bat_pipeline :: string
  bat_recipe_key :: string
  bat_recipe_version :: int
  bat_quality_tier :: string
  bat_status :: batch_status
  bat_idempotency_key :: string
  bat_request_digest :: string
  bat_request_snapshot :: string
  bat_pricing_version :: string
  bat_pricing_snapshot :: string
  bat_pricing_json :: string
  bat_total_items :: int
  bat_queued_items :: int
  bat_running_items :: int
  bat_retrying_items :: int
  bat_succeeded_items :: int
  bat_failed_items :: int
  bat_canceled_items :: int
  bat_estimated :: int
  bat_reserved :: int
  bat_settled :: int
  bat_released :: int
  bat_eta_seconds :: int
  bat_cancel_requested_at :: "time option"
  bat_started_at :: "time option"
  bat_finished_at :: "time option"

datatype meta_value = MetaInt int | MetaText string | MetaBool bool | MetaTime time

record commerce_event =
  evt_id :: uid
  evt_user :: uid
  evt_project :: uid
  evt_batch :: "uid option"
  evt_job :: "uid option"
  evt_entity_type :: string
  evt_entity :: uid
  evt_pipeline :: string
  evt_recipe_key :: string
  evt_type :: string
  evt_metadata :: "(string \<times> meta_value) list"

record commerce_project =
  prj_id :: uid
  prj_user :: uid
  prj_product :: uid
  prj_brand :: "uid option"
  prj_default_sku :: "uid option"
  prj_active_spec :: "uid option"
  prj_title :: string
  prj_pipeline :: string
  prj_status :: string
  prj_channel_profile :: string
  prj_deletion_requested_at :: "time option"
  prj_updated_at :: time
  prj_deleted_at :: "time option"

text \<open>
  The catalogue: brands, products and their SKUs; the assets bound to a project, with the
  columns of \<^verbatim>\<open>reference_assets\<close> the joins read; the creative specifications; the
  queue of storage objects to delete.
\<close>

record commerce_brand =
  brd_id :: uid
  brd_user :: uid
  brd_logo :: "uid option"
  brd_name :: string
  brd_color_palette :: string
  brd_fonts :: string
  brd_forbidden_terms :: string
  brd_visual_rules :: string
  brd_deleted_at :: "time option"

record commerce_product =
  prd_id :: uid
  prd_user :: uid
  prd_brand :: "uid option"
  prd_category_id :: "uid option"
  prd_name :: string
  prd_category :: string
  prd_category_source :: string
  prd_category_path :: string
  prd_spu_code :: string
  prd_selling_points :: string
  prd_target_channels :: string
  prd_status :: string
  prd_sku_version :: int
  prd_deleted_at :: "time option"

record commerce_sku =
  sku_id :: uid
  sku_user :: uid
  sku_product :: uid
  sku_code :: string
  sku_color :: string
  sku_style :: string
  sku_size :: string
  sku_attributes :: string
  sku_status :: string
  sku_deleted_at :: "time option"

record commerce_asset =
  ast_id :: uid
  ast_user :: uid
  ast_project :: uid
  ast_reference :: uid
  ast_sku :: "uid option"
  ast_role :: string
  ast_lifecycle :: string
  ast_sort_order :: int
  ast_metadata :: string
  ast_retain_until :: "time option"
  ast_object_deleted_at :: "time option"
  ast_deleted_at :: "time option"

record reference_asset =
  ref_id :: uid
  ref_user :: uid
  ref_asset_key :: string
  ref_storage_scope :: string
  ref_deleted_at :: "time option"

record commerce_object_cleanup =
  cln_id :: uid
  cln_user :: uid
  cln_project :: uid
  cln_asset :: "uid option"
  cln_reference :: "uid option"
  cln_record :: "uid option"
  cln_work :: "uid option"
  cln_storage_scope :: string
  cln_object_key :: string
  cln_reason :: string
  cln_status :: string
  cln_attempt_count :: int
  cln_max_attempts :: int
  cln_next_attempt_at :: "time option"
  cln_delete_after :: time
  cln_last_error :: string
  cln_object_deleted_at :: "time option"

record commerce_creative_spec =
  spc_id :: uid
  spc_user :: uid
  spc_project :: uid
  spc_version :: int
  spc_source :: string
  spc_status :: string
  spc_product_facts :: string
  spc_common_facts :: string
  spc_sku_overrides :: string
  spc_sku_context :: string
  spc_selling_points :: string
  spc_forbidden_changes :: string
  spc_brand_tone :: string
  spc_shot_plan :: string
  spc_copy_blocks :: string
  spc_risk_notices :: string
  spc_source_assets :: string
  spc_observed_facts :: string
  spc_user_overrides :: string
  spc_missing_fields :: string
  spc_suggested_sections :: string
  spc_analysis_error :: string
  spc_analysis_request_hash :: string
  spc_locked_at :: "time option"

text \<open>The specification matrix of a product, and the categories products are filed under.\<close>

record commerce_sku_dimension =
  dim_id :: uid
  dim_user :: uid
  dim_product :: uid
  dim_name :: string
  dim_version :: int
  dim_sort_order :: nat
  dim_status :: string

record commerce_sku_value =
  val_id :: uid
  val_user :: uid
  val_product :: uid
  val_dimension :: uid
  val_name :: string
  val_sort_order :: nat
  val_status :: string

record commerce_sku_value_link =
  lnk_id :: uid
  lnk_user :: uid
  lnk_product :: uid
  lnk_sku :: uid
  lnk_value :: uid

record commerce_sku_matrix_request =
  mrq_id :: uid
  mrq_user :: uid
  mrq_product :: uid
  mrq_idempotency_key :: string
  mrq_request_digest :: string
  mrq_response :: string

record commerce_system_category =
  cat_id :: uid
  cat_parent :: "uid option"
  cat_level :: int
  cat_name :: string
  cat_seed_key :: string
  cat_aliases :: string
  cat_sort_order :: int
  cat_status :: string
  cat_catalog_version :: string

record commerce_user_category =
  uct_id :: uid
  uct_user :: uid
  uct_parent :: uid
  uct_name :: string
  uct_aliases :: string
  uct_status :: string
  uct_updated_at :: time

text \<open>
  The guard of a stored object. The tables outside the commerce core that may refer to an asset
  are kept as their columns with references: the references of generations, video style
  templates, couple albums and video shots.
\<close>

record commerce_object_guard =
  grd_id :: uid
  grd_user :: uid
  grd_storage_scope :: string
  grd_object_key :: string
  grd_state :: string
  grd_delete_token :: string

record style_template =
  stp_reference :: uid
  stp_deleted_at :: "time option"

record couple_album =
  alb_male_reference :: uid
  alb_female_reference :: uid
  alb_deleted_at :: "time option"

text \<open>
  Generated works and the records of the generations, with the columns the commerce code reads
  or writes.
\<close>

record work =
  wrk_id :: uid
  wrk_user :: uid
  wrk_record :: uid
  wrk_asset_key :: string
  wrk_storage_scope :: string
  wrk_deleted_at :: "time option"

record generation_record =
  grc_id :: uid
  grc_user :: uid
  grc_work :: "uid option"
  grc_status :: string
  grc_asset_key :: string
  grc_preview_url :: string
  grc_download_url :: string
  grc_storage_scope :: string
  grc_error_code :: string
  grc_error_message :: string

text \<open>
  A \<^verbatim>\<open>PricingSnapshotEntry\<close>, the \<^verbatim>\<open>PricingSnapshot\<close> value of the
  contract, and its persisted row, whose \<^verbatim>\<open>SnapshotJSON\<close> is kept as text.
\<close>

record pricing_entry =
  pe_pipeline :: string
  pe_recipe_key :: string
  pe_quality_tier :: string
  pe_model :: uid
  pe_model_name :: string
  pe_channel :: uid
  pe_provider :: uid
  pe_runtime_model :: string
  pe_endpoint :: string
  pe_route_order :: int
  pe_capabilities :: "string list"
  pe_credits :: int

record pricing_snapshot =
  ps_id :: string
  ps_version :: string
  ps_request_digest :: string
  ps_hash :: string
  ps_status :: string
  ps_user :: uid
  ps_project :: uid
  ps_entries :: "pricing_entry list"
  ps_created_at :: time
  ps_expires_at :: time

record commerce_pricing_snapshot =
  cps_id :: string
  cps_user :: uid
  cps_project :: uid
  cps_request_digest :: string
  cps_json :: string
  cps_hash :: string
  cps_version :: string
  cps_status :: string
  cps_expires_at :: time
  cps_consumed_at :: "time option"
  cps_created_at :: time

section \<open>Requests and results\<close>

record lease_identity =
  ls_job :: uid
  ls_owner :: string
  ls_token :: string

record execution_result =
  er_record :: uid
  er_work :: uid
  er_actual_credits :: int
  er_metadata :: string

record execution_failure =
  ef_code :: string
  ef_message :: string
  ef_retryable :: bool
  ef_result_unknown :: bool

record reserve_request =
  rr_user :: uid
  rr_project :: uid
  rr_batch :: "uid option"
  rr_scope_type :: string
  rr_scope_key :: string
  rr_amount :: int
  rr_idempotency_key :: string

record reservation_snapshot =
  rs_reservation :: uid
  rs_user :: uid
  rs_batch :: "uid option"
  rs_scope_type :: string
  rs_scope_key :: string
  rs_reserved :: int
  rs_settled :: int
  rs_released :: int
  rs_available :: int

record settle_request =
  sr_user :: uid
  sr_project :: uid
  sr_batch :: uid
  sr_reservation :: uid
  sr_item :: uid
  sr_held :: int
  sr_actual :: int
  sr_idempotency_key :: string

record release_request =
  lr_user :: uid
  lr_project :: uid
  lr_batch :: uid
  lr_reservation :: uid
  lr_item :: uid
  lr_held :: int
  lr_reason :: string
  lr_idempotency_key :: string

record job_result =
  jr_execution :: "execution_result option"
  jr_metadata :: string

section \<open>The database\<close>

text \<open>
  \<open>clock\<close> is the reading of gorm's clock, which stamps the \<^verbatim>\<open>updated_at\<close> column
  of an updated row. The credit tables come first, in a record of their own: the image queue
  keeps its tables beside them in another extension.
\<close>

record credit_db =
  balances :: "credit_balance list"
  transactions :: "credit_transaction list"
  clock :: time

record commerce_db = credit_db +
  reservations :: "commerce_credit_reservation list"
  settlements :: "commerce_credit_settlement list"
  batches :: "commerce_generation_batch list"
  items :: "commerce_generation_item list"
  jobs :: "commerce_job list"
  events :: "commerce_event list"
  projects :: "commerce_project list"
  pricing_snapshots :: "commerce_pricing_snapshot list"
  brands :: "commerce_brand list"
  products :: "commerce_product list"
  skus :: "commerce_sku list"
  assets :: "commerce_asset list"
  reference_assets :: "reference_asset list"
  cleanups :: "commerce_object_cleanup list"
  creative_specs :: "commerce_creative_spec list"
  works :: "work list"
  generation_records :: "generation_record list"
  sku_dimensions :: "commerce_sku_dimension list"
  sku_values :: "commerce_sku_value list"
  sku_links :: "commerce_sku_value_link list"
  matrix_requests :: "commerce_sku_matrix_request list"
  system_categories :: "commerce_system_category list"
  user_categories :: "commerce_user_category list"
  object_guards :: "commerce_object_guard list"
  generation_references :: "uid list"
  style_templates :: "style_template list"
  couple_albums :: "couple_album list"
  video_shots :: "uid option list"

text \<open>Each table under its primary key.\<close>

interpretation bal_tab: keyed_table bal_user .
interpretation rsv_tab: keyed_table rsv_id .
interpretation stl_tab: keyed_table stl_item .
interpretation itm_tab: keyed_table itm_id .
interpretation job_tab: keyed_table job_id .
interpretation bat_tab: keyed_table bat_id .
interpretation prj_tab: keyed_table prj_id .
interpretation ast_tab: keyed_table ast_id .
interpretation sku_tab: keyed_table sku_id .

text \<open>The statements that change a table.\<close>

definition update_balances ::
  "(credit_balance \<Rightarrow> bool) \<Rightarrow> (credit_balance \<Rightarrow> credit_balance) \<Rightarrow> 'a credit_db_scheme \<Rightarrow> 'a credit_db_scheme" where
  "update_balances P f s = s\<lparr>balances := update_where P f (balances s)\<rparr>"

definition update_items ::
  "(commerce_generation_item \<Rightarrow> bool) \<Rightarrow> (commerce_generation_item \<Rightarrow> commerce_generation_item) \<Rightarrow>
     commerce_db \<Rightarrow> commerce_db" where
  "update_items P f s =
     s\<lparr>items := update_where P (\<lambda>i. (f i)\<lparr>itm_updated_at := clock s\<rparr>) (items s)\<rparr>"

definition update_jobs ::
  "(commerce_job \<Rightarrow> bool) \<Rightarrow> (commerce_job \<Rightarrow> commerce_job) \<Rightarrow> commerce_db \<Rightarrow> commerce_db" where
  "update_jobs P f s = s\<lparr>jobs := update_where P f (jobs s)\<rparr>"

definition update_batches ::
  "(commerce_generation_batch \<Rightarrow> bool) \<Rightarrow> (commerce_generation_batch \<Rightarrow> commerce_generation_batch) \<Rightarrow>
     commerce_db \<Rightarrow> commerce_db" where
  "update_batches P f s = s\<lparr>batches := update_where P f (batches s)\<rparr>"

definition update_reservations ::
  "(commerce_credit_reservation \<Rightarrow> bool) \<Rightarrow> (commerce_credit_reservation \<Rightarrow> commerce_credit_reservation) \<Rightarrow>
     commerce_db \<Rightarrow> commerce_db" where
  "update_reservations P f s = s\<lparr>reservations := update_where P f (reservations s)\<rparr>"

lemmas table_defs = update_balances_def update_items_def update_jobs_def update_batches_def
  update_reservations_def

text \<open>A transaction that fails leaves the database as it was.\<close>

definition run_tx :: "('s \<Rightarrow> 'e + 'a \<times> 's) \<Rightarrow> 's \<Rightarrow> ('e + 'a) \<times> 's" where
  "run_tx m s = (case m s of Inl e \<Rightarrow> (Inl e, s) | Inr (a, s') \<Rightarrow> (Inr a, s'))"

lemma run_tx_Inl: "m s = Inl e \<Longrightarrow> run_tx m s = (Inl e, s)"
  by (simp add: run_tx_def)

lemma run_tx_Inr: "m s = Inr (a, s') \<Longrightarrow> run_tx m s = (Inr a, s')"
  by (simp add: run_tx_def)

end
