(* ===== verification/CreditLedger.thy ===== *)
theory CreditLedger
  imports CommerceModels
begin

text \<open>
  The commerce credit ledger (\<^verbatim>\<open>ecommerce_credit_adapter.go\<close>): reserving credits for
  a batch, settling or releasing the hold of one generation item. The operations are the
  SQL statements in their order; \<^verbatim>\<open>time.Now\<close> is the clock of the database record.
  The lemmas show that the credits of a user are conserved, that an item is settled at most
  once, and that the detailed operations implement an abstract account.
\<close>

section \<open>Operations\<close>

definition credit_reservation_snapshot ::
  "commerce_credit_reservation \<Rightarrow> commerce_db \<Rightarrow> commerce_error + reservation_snapshot" where
  "credit_reservation_snapshot r s =
     (case first_where (\<lambda>b. bal_user b = rsv_user r) (balances s) of
        None \<Rightarrow> Inl ErrRecordNotFound
      | Some b \<Rightarrow> Inr \<lparr>rs_reservation = rsv_id r, rs_user = rsv_user r, rs_batch = rsv_batch r,
          rs_scope_type = rsv_scope_type r, rs_scope_key = rsv_scope_key r,
          rs_reserved = rsv_reserved r, rs_settled = rsv_settled r, rs_released = rsv_released r,
          rs_available = bal_available b\<rparr>)"

definition insert_transaction :: "credit_transaction \<Rightarrow> 'a credit_db_scheme \<Rightarrow> 'a credit_db_scheme" where
  "insert_transaction x s =
     s\<lparr>transactions := transactions s @ [x\<lparr>txn_id := next_key txn_id (transactions s)\<rparr>]\<rparr>"

definition insert_event :: "commerce_event \<Rightarrow> commerce_db \<Rightarrow> commerce_db" where
  "insert_event e s = s\<lparr>events := events s @ [e\<lparr>evt_id := next_key evt_id (events s)\<rparr>]\<rparr>"

definition reservation_row :: "reserve_request \<Rightarrow> uid \<Rightarrow> commerce_credit_reservation" where
  "reservation_row req k =
     \<lparr>rsv_id = k, rsv_user = rr_user req, rsv_project = rr_project req, rsv_batch = rr_batch req,
      rsv_scope_type = rr_scope_type req, rsv_scope_key = rr_scope_key req,
      rsv_idempotency_key = rr_idempotency_key req, rsv_status = ''reserved'',
      rsv_total = rr_amount req, rsv_reserved = rr_amount req,
      rsv_settled = 0, rsv_released = 0, rsv_completed_at = None\<rparr>"

definition reserve_tx ::
  "reserve_request \<Rightarrow> commerce_db \<Rightarrow> commerce_error + reservation_snapshot \<times> commerce_db" where
  "reserve_tx req s =
     (if rr_user req = 0 \<or> rr_project req = 0 \<or> rr_amount req \<le> 0 \<or> blank (rr_idempotency_key req)
      then Inl ErrInvalidInput
      else case first_where (\<lambda>r. rsv_user r = rr_user req \<and>
                 rsv_idempotency_key r = rr_idempotency_key req) (reservations s) of
        Some r \<Rightarrow>
          if rsv_project r \<noteq> rr_project req \<or> rsv_scope_type r \<noteq> rr_scope_type req \<or>
             rsv_scope_key r \<noteq> rr_scope_key req \<or> rsv_total r \<noteq> rr_amount req \<or>
             rsv_batch r \<noteq> rr_batch req
          then Inl ErrIdempotencyConflict
          else and_then (credit_reservation_snapshot r s) (\<lambda>snap. Inr (snap, s))
      | None \<Rightarrow>
          let affordable = (\<lambda>b. bal_user b = rr_user req \<and> bal_available b \<ge> rr_amount req) in
          if count_where affordable (balances s) = 0 then Inl ErrCreditsInsufficient
          else
            let s1 = update_balances affordable
                  (\<lambda>b. b\<lparr>bal_available := bal_available b - rr_amount req,
                         bal_reserved := bal_reserved b + rr_amount req\<rparr>) s;
                r = reservation_row req (next_key rsv_id (reservations s1));
                s2 = s1\<lparr>reservations := reservations s1 @ [r]\<rparr>
            in case first_where (\<lambda>b. bal_user b = rr_user req) (balances s2) of
                 None \<Rightarrow> Inl ErrRecordNotFound
               | Some b \<Rightarrow>
                   Inr (\<lparr>rs_reservation = rsv_id r, rs_user = rr_user req, rs_batch = rr_batch req,
                          rs_scope_type = rr_scope_type req, rs_scope_key = rr_scope_key req,
                          rs_reserved = rr_amount req, rs_settled = 0, rs_released = 0,
                          rs_available = bal_available b\<rparr>,
                        insert_transaction
                          \<lparr>txn_id = 0, txn_user = rr_user req, txn_type = CommerceReserve,
                           txn_amount = - rr_amount req, txn_balance_after = bal_available b,
                           txn_reserved_after = bal_reserved b,
                           txn_idempotency_key = rr_idempotency_key req,
                           txn_reason = ''commerce credit reservation'',
                           txn_related_type = ''commerce_credit_reservation'',
                           txn_related_id = rsv_id r\<rparr> s2))"

definition claim_commerce_settlement ::
  "commerce_credit_settlement \<Rightarrow> commerce_db \<Rightarrow> commerce_error + bool \<times> commerce_db" where
  "claim_commerce_settlement stl s =
     (case first_where (\<lambda>r. stl_item r = stl_item stl) (settlements s) of
        None \<Rightarrow> Inr (True, s\<lparr>settlements :=
          settlements s @ [stl\<lparr>stl_id := next_key stl_id (settlements s)\<rparr>]\<rparr>)
      | Some e \<Rightarrow>
          if stl_user e \<noteq> stl_user stl \<or> stl_project e \<noteq> stl_project stl \<or>
             stl_batch e \<noteq> stl_batch stl \<or> stl_reservation e \<noteq> stl_reservation stl
          then Inl ErrCreditInvariant
          else Inr (False, s))"

definition load_commerce_settlement_scope ::
  "uid \<Rightarrow> uid \<Rightarrow> uid \<Rightarrow> uid \<Rightarrow> uid \<Rightarrow> int \<Rightarrow> commerce_db \<Rightarrow>
     commerce_error + commerce_generation_item \<times> commerce_credit_reservation" where
  "load_commerce_settlement_scope user project batch reservation item held s =
     (case first_where (\<lambda>i. itm_id i = item \<and> itm_user i = user \<and> itm_project i = project \<and>
              itm_batch i = batch \<and> itm_reservation i = reservation \<and> itm_reserved i = held) (items s) of
        None \<Rightarrow> Inl ErrCreditInvariant
      | Some i \<Rightarrow>
          (case first_where (\<lambda>r. rsv_id r = reservation \<and> rsv_user r = user \<and> rsv_project r = project)
                  (reservations s) of
             None \<Rightarrow> Inl ErrCreditInvariant
           | Some r \<Rightarrow> if rsv_batch r \<noteq> None \<and> rsv_batch r \<noteq> Some batch
               then Inl ErrCreditInvariant else Inr (i, r)))"

definition move_reserved_credits ::
  "uid \<Rightarrow> int \<Rightarrow> int \<Rightarrow> commerce_db \<Rightarrow> commerce_error + commerce_db" where
  "move_reserved_credits user held released s =
     (let covered = (\<lambda>b. bal_user b = user \<and> bal_reserved b \<ge> held) in
      if count_where covered (balances s) = 0 then Inl ErrCreditInvariant
      else Inr (update_balances covered
        (\<lambda>b. b\<lparr>bal_available := bal_available b + released, bal_reserved := bal_reserved b - held\<rparr>) s))"

definition update_commerce_reservation_settlement ::
  "commerce_credit_reservation \<Rightarrow> int \<Rightarrow> int \<Rightarrow> int \<Rightarrow> commerce_db \<Rightarrow> commerce_error + commerce_db" where
  "update_commerce_reservation_settlement reservation held settled released s =
     (let covered = (\<lambda>r. rsv_id r = rsv_id reservation \<and> rsv_user r = rsv_user reservation \<and>
            rsv_reserved r \<ge> held);
          s1 = update_reservations covered
            (\<lambda>r. r\<lparr>rsv_reserved := rsv_reserved r - held, rsv_settled := rsv_settled r + settled,
                   rsv_released := rsv_released r + released\<rparr>) s
      in if count_where covered (reservations s) = 0 then Inl ErrCreditInvariant
         else case first_where (\<lambda>r. rsv_id r = rsv_id reservation) (reservations s1) of
           None \<Rightarrow> Inl ErrRecordNotFound
         | Some updated \<Rightarrow>
             if rsv_reserved updated = 0
             then Inr (update_reservations
               (\<lambda>r. rsv_id r = rsv_id updated \<and> rsv_user r = rsv_user updated)
               (\<lambda>r. r\<lparr>rsv_status := (if rsv_settled updated = 0 then ''released'' else ''settled''),
                      rsv_completed_at := Some (clock s)\<rparr>) s1)
             else Inr s1)"

definition create_commerce_release_transaction ::
  "uid \<Rightarrow> string \<Rightarrow> uid \<Rightarrow> int \<Rightarrow> string \<Rightarrow> commerce_db \<Rightarrow> commerce_error + commerce_db" where
  "create_commerce_release_transaction user key item released reason s =
     (if released = 0 then Inr s
      else case first_where (\<lambda>b. bal_user b = user) (balances s) of
        None \<Rightarrow> Inl ErrRecordNotFound
      | Some b \<Rightarrow> Inr (insert_transaction
          \<lparr>txn_id = 0, txn_user = user, txn_type = CommerceRelease, txn_amount = released,
           txn_balance_after = bal_available b, txn_reserved_after = bal_reserved b,
           txn_idempotency_key = key, txn_reason = reason,
           txn_related_type = ''commerce_generation_item'', txn_related_id = item\<rparr> s))"

text \<open>The held, settled and released amounts of one item, written back to its row.\<close>

definition record_item_settlement :: "uid \<Rightarrow> uid \<Rightarrow> uid \<Rightarrow> int \<Rightarrow> int \<Rightarrow> int \<Rightarrow> commerce_db \<Rightarrow> commerce_db" where
  "record_item_settlement item user reservation held settled released =
     update_items (\<lambda>i. itm_id i = item \<and> itm_user i = user \<and> itm_reservation i = reservation \<and>
         itm_reserved i = held)
       (\<lambda>i. i\<lparr>itm_settled := settled, itm_released := released\<rparr>)"

text \<open>
  \<^verbatim>\<open>SettleItemTx\<close> in three parts: the split of the held credits by the actual cost,
  the settlement row that claims the item, and the statements that follow a successful claim.
\<close>

definition settle_amounts :: "int \<Rightarrow> int \<Rightarrow> int \<times> int \<times> int \<times> string" where
  "settle_amounts held requested =
     (let actual = (if requested < 0 then 0 else requested) in
      if actual < held then (actual, actual, held - actual, '''')
      else if actual > held then (actual, held, 0, ''actual_exceeds_hold'')
      else (actual, actual, 0, ''''))"

definition settle_row :: "settle_request \<Rightarrow> commerce_credit_settlement" where
  "settle_row req =
     (case settle_amounts (sr_held req) (sr_actual req) of (actual, settled, released, anomaly) \<Rightarrow>
       \<lparr>stl_id = 0, stl_user = sr_user req, stl_project = sr_project req,
        stl_batch = sr_batch req, stl_reservation = sr_reservation req,
        stl_item = sr_item req, stl_idempotency_key = sr_idempotency_key req,
        stl_held = sr_held req, stl_actual = actual, stl_settled = settled,
        stl_released = released, stl_anomaly = anomaly\<rparr>)"

definition settle_claimed ::
  "settle_request \<Rightarrow> commerce_credit_settlement \<Rightarrow> commerce_db \<Rightarrow> commerce_error + commerce_db" where
  "settle_claimed req t s1 =
     and_then (load_commerce_settlement_scope (sr_user req) (sr_project req) (sr_batch req)
                 (sr_reservation req) (sr_item req) (sr_held req) s1) (\<lambda>(item, reservation).
     and_then (move_reserved_credits (sr_user req) (sr_held req) (stl_released t) s1) (\<lambda>s2.
     and_then (update_commerce_reservation_settlement reservation (sr_held req) (stl_settled t)
                 (stl_released t) s2) (\<lambda>s3.
     let s4 = record_item_settlement (itm_id item) (sr_user req) (sr_reservation req) (sr_held req)
                (stl_settled t) (stl_released t) s3
     in and_then (if stl_released t > 0
           then create_commerce_release_transaction (sr_user req)
                  (sr_idempotency_key req @ '':release'') (sr_item req) (stl_released t)
                  ''commerce unused hold released'' s4
           else Inr s4) (\<lambda>s5.
     Inr (if stl_anomaly t \<noteq> ''''
       then insert_event \<lparr>evt_id = 0, evt_user = sr_user req, evt_project = sr_project req,
              evt_batch = Some (sr_batch req), evt_job = None,
              evt_entity_type = ''generation_item'', evt_entity = sr_item req,
              evt_pipeline = itm_pipeline item, evt_recipe_key = itm_recipe_key item,
              evt_type = ''billing_actual_exceeds_hold'',
              evt_metadata = [(''held_credits'', MetaInt (sr_held req)),
                (''actual_credits'', MetaInt (stl_actual t))]\<rparr> s5
       else s5)))))"

definition settle_item_tx :: "settle_request \<Rightarrow> commerce_db \<Rightarrow> commerce_error + commerce_db" where
  "settle_item_tx req s =
     (if sr_user req = 0 \<or> sr_project req = 0 \<or> sr_batch req = 0 \<or> sr_reservation req = 0 \<or>
         sr_item req = 0 \<or> sr_held req < 0
      then Inl ErrInvalidInput
      else and_then (claim_commerce_settlement (settle_row req) s) (\<lambda>(claimed, s1).
        if \<not> claimed then Inr s1 else settle_claimed req (settle_row req) s1))"

definition release_row :: "release_request \<Rightarrow> commerce_credit_settlement" where
  "release_row req =
     \<lparr>stl_id = 0, stl_user = lr_user req, stl_project = lr_project req,
      stl_batch = lr_batch req, stl_reservation = lr_reservation req,
      stl_item = lr_item req, stl_idempotency_key = lr_idempotency_key req,
      stl_held = lr_held req, stl_actual = 0, stl_settled = 0,
      stl_released = lr_held req, stl_anomaly = ''''\<rparr>"

definition release_claimed :: "release_request \<Rightarrow> commerce_db \<Rightarrow> commerce_error + commerce_db" where
  "release_claimed req s1 =
     and_then (load_commerce_settlement_scope (lr_user req) (lr_project req) (lr_batch req)
                 (lr_reservation req) (lr_item req) (lr_held req) s1) (\<lambda>(item, reservation).
     and_then (move_reserved_credits (lr_user req) (lr_held req) (lr_held req) s1) (\<lambda>s2.
     and_then (update_commerce_reservation_settlement reservation (lr_held req) 0 (lr_held req) s2) (\<lambda>s3.
     create_commerce_release_transaction (lr_user req) (lr_idempotency_key req) (lr_item req)
       (lr_held req) (lr_reason req)
       (record_item_settlement (lr_item req) (lr_user req) (lr_reservation req) (lr_held req)
          0 (lr_held req) s3))))"

definition release_item_tx :: "release_request \<Rightarrow> commerce_db \<Rightarrow> commerce_error + commerce_db" where
  "release_item_tx req s =
     (if lr_user req = 0 \<or> lr_project req = 0 \<or> lr_batch req = 0 \<or> lr_reservation req = 0 \<or>
         lr_item req = 0 \<or> lr_held req < 0
      then Inl ErrInvalidInput
      else and_then (claim_commerce_settlement (release_row req) s) (\<lambda>(claimed, s1).
        if \<not> claimed then Inr s1 else release_claimed req s1))"

section \<open>The abstract account\<close>

text \<open>
  What the tables mean: the available and reserved credits of each user, the credits each
  user's settled items have cost, and the open hold of each reservation. Reserving moves
  credits from available to reserved and opens a hold; closing an item's hold splits it into
  a settled and a released part.
\<close>

record account =
  ac_available :: "uid \<Rightarrow> int"
  ac_reserved :: "uid \<Rightarrow> int"
  ac_spent :: "uid \<Rightarrow> int"
  ac_hold :: "uid \<Rightarrow> int"

definition account_of :: "commerce_db \<Rightarrow> account" where
  "account_of s =
     \<lparr>ac_available = (\<lambda>u. sum_where (\<lambda>b. bal_user b = u) bal_available (balances s)),
      ac_reserved = (\<lambda>u. sum_where (\<lambda>b. bal_user b = u) bal_reserved (balances s)),
      ac_spent = (\<lambda>u. sum_where (\<lambda>t. stl_user t = u) stl_settled (settlements s)),
      ac_hold = (\<lambda>r. sum_where (\<lambda>x. rsv_id x = r) rsv_reserved (reservations s))\<rparr>"

definition open_hold :: "uid \<Rightarrow> uid \<Rightarrow> int \<Rightarrow> account \<Rightarrow> account" where
  "open_hold u r n a = a\<lparr>ac_available := (ac_available a)(u := ac_available a u - n),
     ac_reserved := (ac_reserved a)(u := ac_reserved a u + n),
     ac_hold := (ac_hold a)(r := ac_hold a r + n)\<rparr>"

definition close_hold :: "uid \<Rightarrow> uid \<Rightarrow> int \<Rightarrow> int \<Rightarrow> account \<Rightarrow> account" where
  "close_hold u r settled released a =
     a\<lparr>ac_available := (ac_available a)(u := ac_available a u + released),
       ac_reserved := (ac_reserved a)(u := ac_reserved a u - (settled + released)),
       ac_spent := (ac_spent a)(u := ac_spent a u + settled),
       ac_hold := (ac_hold a)(r := ac_hold a r - (settled + released))\<rparr>"

text \<open>All credits of a user, wherever they are.\<close>

definition funds :: "uid \<Rightarrow> account \<Rightarrow> int" where
  "funds u a = ac_available a u + ac_reserved a u + ac_spent a u"

lemma funds_open_hold [simp]: "funds u (open_hold v r n a) = funds u a"
  by (simp add: funds_def open_hold_def)

lemma funds_close_hold [simp]: "funds u (close_hold v r x y a) = funds u a"
  by (simp add: funds_def close_hold_def)

section \<open>The ledger invariant\<close>

text \<open>
  Keys are unique, no amount is negative, every reservation is the sum of its open, settled
  and released parts, and its settled and released parts are what the settlements of its
  items add up to.
\<close>

definition balance_ok :: "credit_balance \<Rightarrow> bool" where
  "balance_ok b \<longleftrightarrow> 0 \<le> bal_available b \<and> 0 \<le> bal_reserved b"

definition settlement_ok :: "commerce_credit_settlement \<Rightarrow> bool" where
  "settlement_ok t \<longleftrightarrow> 0 \<le> stl_settled t \<and> 0 \<le> stl_released t \<and> stl_held t = stl_settled t + stl_released t"

definition reservation_ok :: "commerce_credit_settlement list \<Rightarrow> commerce_credit_reservation \<Rightarrow> bool" where
  "reservation_ok ts r \<longleftrightarrow> 0 \<le> rsv_reserved r \<and>
     rsv_total r = rsv_reserved r + rsv_settled r + rsv_released r \<and>
     rsv_settled r = sum_where (\<lambda>t. stl_reservation t = rsv_id r) stl_settled ts \<and>
     rsv_released r = sum_where (\<lambda>t. stl_reservation t = rsv_id r) stl_released ts"

definition ledger_ok :: "commerce_db \<Rightarrow> bool" where
  "ledger_ok s \<longleftrightarrow> bal_tab.unique (balances s) \<and> rsv_tab.unique (reservations s) \<and>
     stl_tab.unique (settlements s) \<and>
     (\<forall>b \<in> set (balances s). balance_ok b) \<and>
     (\<forall>t \<in> set (settlements s). settlement_ok t \<and> stl_reservation t \<in> rsv_id ` set (reservations s)) \<and>
     (\<forall>r \<in> set (reservations s). reservation_ok (settlements s) r)"

lemma ledger_okD:
  assumes "ledger_ok s"
  shows "bal_tab.unique (balances s)" "rsv_tab.unique (reservations s)" "stl_tab.unique (settlements s)"
    "b \<in> set (balances s) \<Longrightarrow> balance_ok b"
    "t \<in> set (settlements s) \<Longrightarrow> settlement_ok t"
    "t \<in> set (settlements s) \<Longrightarrow> stl_reservation t \<in> rsv_id ` set (reservations s)"
    "r \<in> set (reservations s) \<Longrightarrow> reservation_ok (settlements s) r"
  using assms by (auto simp: ledger_ok_def)

text \<open>The ledger reads four tables only.\<close>

definition same_ledger :: "commerce_db \<Rightarrow> commerce_db \<Rightarrow> bool" where
  "same_ledger s s' \<longleftrightarrow> balances s' = balances s \<and> reservations s' = reservations s \<and>
     settlements s' = settlements s"

lemma same_ledger_ok: "same_ledger s s' \<Longrightarrow> ledger_ok s' = ledger_ok s"
  by (simp add: same_ledger_def ledger_ok_def)

lemma same_ledger_account: "same_ledger s s' \<Longrightarrow> account_of s' = account_of s"
  by (simp add: same_ledger_def account_of_def)

lemma same_ledger_simps [simp]:
  "same_ledger s s" "same_ledger s (insert_transaction tx s') = same_ledger s s'"
  "same_ledger s (insert_event e s') = same_ledger s s'"
  "same_ledger s (record_item_settlement i u r h x y s') = same_ledger s s'"
  by (simp_all add: same_ledger_def insert_transaction_def insert_event_def record_item_settlement_def
      update_items_def)

section \<open>What each statement does to the account\<close>

lemma first_where_iff: "first_where P t = None \<longleftrightarrow> count_where P t = 0"
  by (simp add: first_where_None count_where_0)

lemma claim_commerce_settlement_Inr:
  "claim_commerce_settlement stl s = Inr (c, s') \<longleftrightarrow>
     (if c then first_where (\<lambda>r. stl_item r = stl_item stl) (settlements s) = None \<and>
        s' = s\<lparr>settlements := settlements s @ [stl\<lparr>stl_id := next_key stl_id (settlements s)\<rparr>]\<rparr>
      else s' = s \<and> (\<exists>e. first_where (\<lambda>r. stl_item r = stl_item stl) (settlements s) = Some e \<and>
        stl_user e = stl_user stl \<and> stl_project e = stl_project stl \<and> stl_batch e = stl_batch stl \<and>
        stl_reservation e = stl_reservation stl))"
  by (auto simp: claim_commerce_settlement_def split: option.splits)

lemma load_commerce_settlement_scope_Inr:
  assumes "load_commerce_settlement_scope u p b r i h s = Inr (it, x)"
  shows "it \<in> set (items s)" "itm_id it = i" "itm_user it = u" "itm_project it = p" "itm_batch it = b"
    "itm_reservation it = r" "itm_reserved it = h" "x \<in> set (reservations s)" "rsv_id x = r"
    "rsv_user x = u" "rsv_project x = p"
  using assms by (auto simp: load_commerce_settlement_scope_def split: option.splits if_splits
      dest: first_where_Some)

lemma move_reserved_credits_Inr:
  assumes "move_reserved_credits u h n s = Inr s'" and "bal_tab.unique (balances s)"
  obtains b where "b \<in> set (balances s)" "bal_user b = u" "h \<le> bal_reserved b"
    "s' = update_balances (\<lambda>b. bal_user b = u)
       (\<lambda>b. b\<lparr>bal_available := bal_available b + n, bal_reserved := bal_reserved b - h\<rparr>) s"
proof -
  let ?P = "\<lambda>b. bal_user b = u \<and> bal_reserved b \<ge> h"
  let ?f = "\<lambda>b. b\<lparr>bal_available := bal_available b + n, bal_reserved := bal_reserved b - h\<rparr>"
  from assms(1) have ne: "count_where ?P (balances s) \<noteq> 0" and s': "s' = update_balances ?P ?f s"
    by (auto simp: move_reserved_credits_def Let_def split: if_splits)
  then obtain b where b: "b \<in> set (balances s)" "?P b" by (auto simp: count_where_0)
  have "update_where ?P ?f (balances s) = update_where (\<lambda>b. bal_user b = u) ?f (balances s)"
    using b bal_tab.unique_same [OF assms(2)] by (auto simp: update_where_def)
  with s' b that show thesis by (simp add: update_balances_def)
qed

text \<open>A row update that moves a hold, whatever it does to the status columns.\<close>

definition moves_hold :: "int \<Rightarrow> int \<Rightarrow> int \<Rightarrow> (commerce_credit_reservation \<Rightarrow> commerce_credit_reservation) \<Rightarrow> bool" where
  "moves_hold h n m f \<longleftrightarrow> (\<forall>r. rsv_id (f r) = rsv_id r \<and> rsv_user (f r) = rsv_user r \<and>
     rsv_total (f r) = rsv_total r \<and> rsv_reserved (f r) = rsv_reserved r - h \<and>
     rsv_settled (f r) = rsv_settled r + n \<and> rsv_released (f r) = rsv_released r + m)"

lemma moves_holdD:
  assumes "moves_hold h n m f"
  shows "rsv_id (f r) = rsv_id r" "rsv_reserved (f r) = rsv_reserved r - h"
    "rsv_settled (f r) = rsv_settled r + n" "rsv_total (f r) = rsv_total r"
    "rsv_released (f r) = rsv_released r + m"
  using assms by (simp_all add: moves_hold_def)

lemma update_reservation_Inr:
  assumes upd: "update_commerce_reservation_settlement x h n m s = Inr s'"
    and u: "rsv_tab.unique (reservations s)" and x: "x \<in> set (reservations s)"
  obtains f where "h \<le> rsv_reserved x"
    "s' = s\<lparr>reservations := update_where (\<lambda>r. rsv_id r = rsv_id x) f (reservations s)\<rparr>"
    "moves_hold h n m f"
proof -
  let ?P = "\<lambda>r. rsv_id r = rsv_id x \<and> rsv_user r = rsv_user x \<and> rsv_reserved r \<ge> h"
  let ?g = "\<lambda>r. r\<lparr>rsv_reserved := rsv_reserved r - h, rsv_settled := rsv_settled r + n,
       rsv_released := rsv_released r + m\<rparr>"
  define st where "st = (if rsv_settled x + n = 0 then ''released'' else ''settled'')"
  let ?done = "\<lambda>r. r\<lparr>rsv_status := st, rsv_completed_at := Some (clock s)\<rparr>"
  let ?f = "\<lambda>r. if rsv_reserved (?g x) = 0 then ?done (?g r) else ?g r"
  from upd have ne: "count_where ?P (reservations s) \<noteq> 0"
    by (auto simp: update_commerce_reservation_settlement_def Let_def split: if_splits)
  then obtain r where "r \<in> set (reservations s)" "?P r" by (auto simp: count_where_0)
  with x have h: "h \<le> rsv_reserved x" and same: "\<And>r. r \<in> set (reservations s) \<Longrightarrow> rsv_id r = rsv_id x \<Longrightarrow> r = x"
    using rsv_tab.unique_same [OF u] by blast+
  have P: "update_where ?P ?g (reservations s) = update_where (\<lambda>r. rsv_id r = rsv_id x) ?g (reservations s)"
    using same h by (auto simp: update_where_def)
  let ?t = "update_where (\<lambda>r. rsv_id r = rsv_id x) ?g (reservations s)"
  have "?g x \<in> set ?t" using x by (auto simp: set_update_where intro: rev_image_eqI)
  moreover have "rsv_tab.unique ?t" using u by (simp add: rsv_tab.unique_update)
  ultimately have found: "first_where (\<lambda>r. rsv_id r = rsv_id x) ?t = Some (?g x)"
    by (intro rsv_tab.first_by_key) auto
  have twice: "update_where (\<lambda>r. rsv_id r = rsv_id x \<and> rsv_user r = rsv_user x) ?done ?t =
      update_where (\<lambda>r. rsv_id r = rsv_id x) (\<lambda>r. ?done (?g r)) (reservations s)"
    using same by (auto simp: update_where_def)
  have "s' = s\<lparr>reservations := update_where (\<lambda>r. rsv_id r = rsv_id x) ?f (reservations s)\<rparr>"
    using upd ne unfolding update_commerce_reservation_settlement_def Let_def update_reservations_def
    by (cases "rsv_reserved x = h") (simp_all add: P found twice flip: st_def)
  moreover have "moves_hold h n m ?f" by (simp add: moves_hold_def)
  ultimately show thesis using h that [of ?f] by blast
qed

lemma account_close:
  assumes ok: "ledger_ok s" and t: "settlement_ok t"
    and b: "b \<in> set (balances s)" "bal_user b = stl_user t"
    and x: "x \<in> set (reservations s)" "rsv_id x = stl_reservation t"
    and f: "moves_hold (stl_held t) (stl_settled t) (stl_released t) f"
    and s': "balances s' = update_where (\<lambda>b. bal_user b = stl_user t)
         (\<lambda>b. b\<lparr>bal_available := bal_available b + stl_released t, bal_reserved := bal_reserved b - stl_held t\<rparr>)
         (balances s)"
      "reservations s' = update_where (\<lambda>r. rsv_id r = rsv_id x) f (reservations s)"
      "settlements s' = settlements s @ [t]"
  shows "account_of s' = close_hold (stl_user t) (stl_reservation t) (stl_settled t) (stl_released t) (account_of s)"
proof -
  note fs = moves_holdD [OF f]
  have "sum_where (\<lambda>r. rsv_id r = k) rsv_reserved (reservations s') =
      sum_where (\<lambda>r. rsv_id r = k) rsv_reserved (reservations s) -
      (if k = stl_reservation t then stl_held t else 0)" for k
    unfolding s'(2) using x by (subst rsv_tab.sum_where_update [OF ledger_okD(2) [OF ok] x(1)]) (auto simp: fs)
  moreover have "sum_where (\<lambda>b. bal_user b = k) bal_available (balances s') =
      sum_where (\<lambda>b. bal_user b = k) bal_available (balances s) + (if k = stl_user t then stl_released t else 0)" for k
    unfolding s'(1) using b by (subst bal_tab.sum_where_update [OF ledger_okD(1) [OF ok] b(1)]) auto
  moreover have "sum_where (\<lambda>b. bal_user b = k) bal_reserved (balances s') =
      sum_where (\<lambda>b. bal_user b = k) bal_reserved (balances s) - (if k = stl_user t then stl_held t else 0)" for k
    unfolding s'(1) using b by (subst bal_tab.sum_where_update [OF ledger_okD(1) [OF ok] b(1)]) auto
  ultimately show ?thesis
    using t by (auto simp: account_of_def close_hold_def settlement_ok_def s'(3) fun_eq_iff)
qed

lemma ledger_ok_close:
  assumes ok: "ledger_ok s" and t: "settlement_ok t"
    and fresh: "\<And>t'. t' \<in> set (settlements s) \<Longrightarrow> stl_item t' \<noteq> stl_item t"
    and b: "b \<in> set (balances s)" "bal_user b = stl_user t" "stl_held t \<le> bal_reserved b"
    and x: "x \<in> set (reservations s)" "rsv_id x = stl_reservation t" "stl_held t \<le> rsv_reserved x"
    and f: "moves_hold (stl_held t) (stl_settled t) (stl_released t) f"
    and s': "balances s' = update_where (\<lambda>b. bal_user b = stl_user t)
         (\<lambda>b. b\<lparr>bal_available := bal_available b + stl_released t, bal_reserved := bal_reserved b - stl_held t\<rparr>)
         (balances s)"
      "reservations s' = update_where (\<lambda>r. rsv_id r = rsv_id x) f (reservations s)"
      "settlements s' = settlements s @ [t]"
  shows "ledger_ok s'"
proof -
  note fs = moves_holdD [OF f]
  have b': "b' = b" if "b' \<in> set (balances s)" "bal_user b' = stl_user t" for b'
    using that b bal_tab.unique_same [OF ledger_okD(1) [OF ok]] by metis
  have x': "r = x" if "r \<in> set (reservations s)" "rsv_id r = rsv_id x" for r
    using that x rsv_tab.unique_same [OF ledger_okD(2) [OF ok]] by metis
  have "balance_ok (if bal_user b' = stl_user t then b'\<lparr>bal_available := bal_available b' + stl_released t,
       bal_reserved := bal_reserved b' - stl_held t\<rparr> else b')" if "b' \<in> set (balances s)" for b'
    using t b(3) b' [OF that] ledger_okD(4) [OF ok that]
    by (cases "bal_user b' = stl_user t") (simp_all add: balance_ok_def settlement_ok_def)
  then have "\<forall>b \<in> set (balances s'). balance_ok b"
    unfolding s'(1) ball_update_where by blast
  moreover have "reservation_ok (settlements s') (if rsv_id r = rsv_id x then f r else r)"
    if r: "r \<in> set (reservations s)" for r
    using t x(2,3) x' [OF r] ledger_okD(7) [OF ok r]
    by (cases "rsv_id r = rsv_id x") (simp_all add: s' reservation_ok_def settlement_ok_def fs)
  then have "\<forall>r \<in> set (reservations s'). reservation_ok (settlements s') r"
    unfolding s'(2) ball_update_where by blast
  moreover have "map rsv_id (reservations s') = map rsv_id (reservations s)"
    by (simp add: s'(2) map_update_where fs)
  then have "rsv_id ` set (reservations s') = rsv_id ` set (reservations s)"
    by (metis list.set_map)
  moreover have "bal_tab.unique (balances s')" "rsv_tab.unique (reservations s')"
    using ledger_okD(1,2) [OF ok] by (simp_all add: s' bal_tab.unique_update rsv_tab.unique_update fs)
  moreover have "stl_tab.unique (settlements s')"
    using ledger_okD(3) [OF ok] fresh by (force simp: s' stl_tab.unique_def)
  moreover have "stl_reservation t \<in> rsv_id ` set (reservations s)"
    using x(1,2) by force
  ultimately show ?thesis
    using t ledger_okD(5,6) [OF ok] by (auto simp: ledger_ok_def s'(3))
qed

text \<open>
  The common path of settling and releasing: the new settlement row, the user's balance, the
  reservation and the item.
\<close>

lemma hold_closed:
  assumes ok: "ledger_ok s" and t: "settlement_ok t" and it: "stl_item t' = stl_item t"
    and claim: "claim_commerce_settlement t' s = Inr (True, s1)"
    and t': "settlements s1 = settlements s @ [t]"
    and load: "load_commerce_settlement_scope u p b r i h s1 = Inr (item, x)"
    and move: "move_reserved_credits u h (stl_released t) s1 = Inr s2"
    and upd: "update_commerce_reservation_settlement x h (stl_settled t) (stl_released t) s2 = Inr s3"
    and scope: "stl_user t = u" "stl_reservation t = r" "stl_held t = h"
  shows "ledger_ok s3 \<and>
    account_of s3 = close_hold u r (stl_settled t) (stl_released t) (account_of s) \<and>
    settlements s3 = settlements s @ [t]"
proof -
  have none: "first_where (\<lambda>e. stl_item e = stl_item t) (settlements s) = None"
    and s1: "balances s1 = balances s" "reservations s1 = reservations s"
    using claim it by (auto simp: claim_commerce_settlement_Inr)
  have bu: "bal_tab.unique (balances s1)" using ledger_okD(1) [OF ok] s1 by simp
  obtain w where w1: "w \<in> set (balances s1)" "bal_user w = u" "h \<le> bal_reserved w"
      "s2 = update_balances (\<lambda>b. bal_user b = u)
         (\<lambda>b. b\<lparr>bal_available := bal_available b + stl_released t, bal_reserved := bal_reserved b - h\<rparr>) s1"
    by (rule move_reserved_credits_Inr [OF move bu])
  note w = w1 [unfolded s1]
  have x: "x \<in> set (reservations s)" "rsv_id x = r"
    using load_commerce_settlement_scope_Inr [OF load] s1 by simp_all
  have s2: "reservations s2 = reservations s" "settlements s2 = settlements s @ [t]"
    using w s1 t' by (simp_all add: update_balances_def)
  have ru: "rsv_tab.unique (reservations s2)" "x \<in> set (reservations s2)"
    using ledger_okD(2) [OF ok] s2 x by simp_all
  obtain f where f: "h \<le> rsv_reserved x"
      "s3 = s2\<lparr>reservations := update_where (\<lambda>r. rsv_id r = rsv_id x) f (reservations s2)\<rparr>"
      "moves_hold h (stl_settled t) (stl_released t) f"
    by (rule update_reservation_Inr [OF upd ru])
  have s3: "balances s3 = update_where (\<lambda>b. bal_user b = stl_user t)
         (\<lambda>b. b\<lparr>bal_available := bal_available b + stl_released t, bal_reserved := bal_reserved b - stl_held t\<rparr>)
         (balances s)"
      "reservations s3 = update_where (\<lambda>r. rsv_id r = rsv_id x) f (reservations s)"
      "settlements s3 = settlements s @ [t]"
    using f(2) s2 w(4) s1 scope by (simp_all add: update_balances_def)
  have f': "moves_hold (stl_held t) (stl_settled t) (stl_released t) f"
    using f(3) unfolding scope .
  have "ledger_ok s3"
    by (rule ledger_ok_close [OF ok t _ w(1) _ _ x(1) _ _ f' s3]) (use none w x f scope in \<open>auto simp: first_where_None\<close>)
  moreover have "account_of s3 = close_hold (stl_user t) (stl_reservation t) (stl_settled t) (stl_released t) (account_of s)"
    by (rule account_close [OF ok t w(1) _ x(1) _ f' s3]) (use w x scope in auto)
  ultimately show ?thesis using scope s3(3) by simp
qed

section \<open>The operations implement the account\<close>

definition item_settled :: "uid \<Rightarrow> commerce_db \<Rightarrow> bool" where
  "item_settled i s \<longleftrightarrow> (\<exists>t \<in> set (settlements s). stl_item t = i)"

lemma item_settled_first: "first_where (\<lambda>r. stl_item r = i) (settlements s) = None \<longleftrightarrow> \<not> item_settled i s"
  by (simp add: first_where_None item_settled_def)

definition settled_part :: "int \<Rightarrow> int \<Rightarrow> int" where
  "settled_part held actual = max 0 (min actual held)"

lemma create_commerce_release_transaction_Inr:
  "create_commerce_release_transaction u k i n w s = Inr s' \<Longrightarrow>
     s' = s \<or> (\<exists>x. s' = insert_transaction x s)"
  by (auto simp: create_commerce_release_transaction_def split: if_splits option.splits)

lemma same_ledger_release_transaction:
  "create_commerce_release_transaction u k i n w s = Inr s' \<Longrightarrow> same_ledger s s'"
  by (auto dest!: create_commerce_release_transaction_Inr)

lemma same_ledger_result:
  "same_ledger s s' \<Longrightarrow> ledger_ok s \<and> account_of s = a \<Longrightarrow> ledger_ok s' \<and> account_of s' = a"
  by (simp add: same_ledger_ok same_ledger_account)

lemma same_ledger_trans [trans]: "same_ledger a b \<Longrightarrow> same_ledger b c \<Longrightarrow> same_ledger a c"
  by (simp add: same_ledger_def)

lemma item_settled_snoc:
  "settlements s' = settlements s @ [t] \<Longrightarrow> item_settled k s' \<longleftrightarrow> item_settled k s \<or> k = stl_item t"
  by (auto simp: item_settled_def)

lemma same_ledger_settled: "same_ledger s s' \<Longrightarrow> item_settled k s' = item_settled k s"
  by (simp add: same_ledger_def item_settled_def)

lemma settle_row_simps [simp]:
  "stl_user (settle_row req) = sr_user req" "stl_reservation (settle_row req) = sr_reservation req"
  "stl_item (settle_row req) = sr_item req" "stl_held (settle_row req) = sr_held req"
  by (simp_all add: settle_row_def settle_amounts_def Let_def)

lemma settle_row_parts:
  assumes "0 \<le> sr_held req"
  shows "stl_settled (settle_row req) = settled_part (sr_held req) (sr_actual req)"
    "stl_released (settle_row req) = sr_held req - settled_part (sr_held req) (sr_actual req)"
    "stl_anomaly (settle_row req) = (if sr_actual req > sr_held req then ''actual_exceeds_hold'' else '''')"
  using assms by (auto simp: settle_row_def settle_amounts_def Let_def settled_part_def)

lemma settle_row_ok: "0 \<le> sr_held req \<Longrightarrow> settlement_ok ((settle_row req)\<lparr>stl_id := k\<rparr>)"
  by (auto simp: settlement_ok_def settle_row_parts settled_part_def)

lemma settle_claimed_account:
  assumes ok: "ledger_ok s" and claim: "claim_commerce_settlement (settle_row req) s = Inr (True, s1)"
    and h: "0 \<le> sr_held req" and run: "settle_claimed req (settle_row req) s1 = Inr s'"
  shows "ledger_ok s' \<and> account_of s' = close_hold (sr_user req) (sr_reservation req)
    (stl_settled (settle_row req)) (stl_released (settle_row req)) (account_of s) \<and>
    (\<forall>k. item_settled k s' \<longleftrightarrow> item_settled k s \<or> k = sr_item req)"
proof -
  define t where "t = (settle_row req)\<lparr>stl_id := next_key stl_id (settlements s)\<rparr>"
  from claim have s1: "settlements s1 = settlements s @ [t]"
    by (auto simp: claim_commerce_settlement_Inr t_def)
  from run obtain i x s2 s3 where
    load: "load_commerce_settlement_scope (sr_user req) (sr_project req) (sr_batch req) (sr_reservation req)
       (sr_item req) (sr_held req) s1 = Inr (i, x)"
    and move: "move_reserved_credits (sr_user req) (sr_held req) (stl_released t) s1 = Inr s2"
    and upd: "update_commerce_reservation_settlement x (sr_held req) (stl_settled t) (stl_released t) s2 = Inr s3"
    and rest: "same_ledger s3 s'"
    by (auto simp: settle_claimed_def Let_def inv_simps t_def split: if_splits
        dest!: create_commerce_release_transaction_Inr)
  have "ledger_ok s3 \<and> account_of s3 = close_hold (sr_user req) (sr_reservation req)
      (stl_settled t) (stl_released t) (account_of s) \<and> settlements s3 = settlements s @ [t]"
    by (rule hold_closed [OF ok _ _ claim s1 load move upd])
      (use settle_row_ok [OF h] in \<open>simp_all add: t_def\<close>)
  with rest show ?thesis
    using item_settled_snoc [of s3 s t]
    by (simp add: same_ledger_ok same_ledger_account same_ledger_settled t_def)
qed

lemma settle_item_tx_account:
  assumes ok: "ledger_ok s" and run: "settle_item_tx req s = Inr s'"
  shows "ledger_ok s' \<and> account_of s' =
    (if item_settled (sr_item req) s then account_of s
     else close_hold (sr_user req) (sr_reservation req) (settled_part (sr_held req) (sr_actual req))
       (sr_held req - settled_part (sr_held req) (sr_actual req)) (account_of s)) \<and>
    (\<forall>k. item_settled k s' \<longleftrightarrow> item_settled k s \<or> k = sr_item req)"
proof -
  from run have h: "0 \<le> sr_held req" by (auto simp: settle_item_tx_def split: if_splits)
  from run obtain c s1 where claim: "claim_commerce_settlement (settle_row req) s = Inr (c, s1)"
    and cont: "if c then settle_claimed req (settle_row req) s1 = Inr s' else s' = s1"
    by (auto simp: settle_item_tx_def inv_simps split: if_splits)
  show ?thesis
  proof (cases c)
    case True
    then show ?thesis
      using settle_claimed_account [OF ok _ h, of s1] claim cont settle_row_parts [OF h] item_settled_first [of "sr_item req" s]
      by (simp add: claim_commerce_settlement_Inr)
  next
    case False
    then have "item_settled (sr_item req) s"
      using claim item_settled_first [of "sr_item req" s] by (auto simp: claim_commerce_settlement_Inr)
    with False show ?thesis using claim cont ok by (auto simp: claim_commerce_settlement_Inr)
  qed
qed

lemma release_row_simps [simp]:
  "stl_user (release_row req) = lr_user req" "stl_reservation (release_row req) = lr_reservation req"
  "stl_item (release_row req) = lr_item req" "stl_held (release_row req) = lr_held req"
  "stl_settled (release_row req) = 0" "stl_released (release_row req) = lr_held req"
  by (simp_all add: release_row_def)

lemma release_claimed_account:
  assumes ok: "ledger_ok s" and claim: "claim_commerce_settlement (release_row req) s = Inr (True, s1)"
    and h: "0 \<le> lr_held req" and run: "release_claimed req s1 = Inr s'"
  shows "ledger_ok s' \<and> account_of s' =
    close_hold (lr_user req) (lr_reservation req) 0 (lr_held req) (account_of s) \<and>
    (\<forall>k. item_settled k s' \<longleftrightarrow> item_settled k s \<or> k = lr_item req)"
proof -
  define t where "t = (release_row req)\<lparr>stl_id := next_key stl_id (settlements s)\<rparr>"
  from claim have s1: "settlements s1 = settlements s @ [t]"
    by (auto simp: claim_commerce_settlement_Inr t_def)
  from run obtain i x s2 s3 where
    load: "load_commerce_settlement_scope (lr_user req) (lr_project req) (lr_batch req) (lr_reservation req)
       (lr_item req) (lr_held req) s1 = Inr (i, x)"
    and move: "move_reserved_credits (lr_user req) (lr_held req) (stl_released t) s1 = Inr s2"
    and upd: "update_commerce_reservation_settlement x (lr_held req) (stl_settled t) (stl_released t) s2 = Inr s3"
    and rest: "same_ledger s3 s'"
    by (auto simp: release_claimed_def inv_simps t_def dest!: create_commerce_release_transaction_Inr)
  have "ledger_ok s3 \<and> account_of s3 = close_hold (lr_user req) (lr_reservation req)
      (stl_settled t) (stl_released t) (account_of s) \<and> settlements s3 = settlements s @ [t]"
    by (rule hold_closed [OF ok _ _ claim s1 load move upd]) (use h in \<open>simp_all add: t_def settlement_ok_def\<close>)
  with rest show ?thesis
    using item_settled_snoc [of s3 s t]
    by (simp add: same_ledger_ok same_ledger_account same_ledger_settled t_def)
qed

lemma release_item_tx_account:
  assumes ok: "ledger_ok s" and run: "release_item_tx req s = Inr s'"
  shows "ledger_ok s' \<and> account_of s' =
    (if item_settled (lr_item req) s then account_of s
     else close_hold (lr_user req) (lr_reservation req) 0 (lr_held req) (account_of s)) \<and>
    (\<forall>k. item_settled k s' \<longleftrightarrow> item_settled k s \<or> k = lr_item req)"
proof -
  from run have h: "0 \<le> lr_held req" by (auto simp: release_item_tx_def split: if_splits)
  from run obtain c s1 where claim: "claim_commerce_settlement (release_row req) s = Inr (c, s1)"
    and cont: "if c then release_claimed req s1 = Inr s' else s' = s1"
    by (auto simp: release_item_tx_def inv_simps split: if_splits)
  show ?thesis
  proof (cases c)
    case True
    then show ?thesis
      using release_claimed_account [OF ok _ h, of s1] claim cont item_settled_first [of "lr_item req" s]
      by (simp add: claim_commerce_settlement_Inr)
  next
    case False
    then have "item_settled (lr_item req) s"
      using claim item_settled_first [of "lr_item req" s] by (auto simp: claim_commerce_settlement_Inr)
    with False show ?thesis using claim cont ok by (auto simp: claim_commerce_settlement_Inr)
  qed
qed

text \<open>A new reservation opens a hold; a replayed one finds its row and changes nothing.\<close>

definition replayed :: "reserve_request \<Rightarrow> commerce_db \<Rightarrow> bool" where
  "replayed req s \<longleftrightarrow> (\<exists>r \<in> set (reservations s).
     rsv_user r = rr_user req \<and> rsv_idempotency_key r = rr_idempotency_key req)"

lemma fresh_reservation_sums:
  assumes "ledger_ok s"
  shows "sum_where (\<lambda>t. stl_reservation t = next_key rsv_id (reservations s)) g (settlements s) = 0"
    and "sum_where (\<lambda>r. rsv_id r = next_key rsv_id (reservations s)) g' (reservations s) = 0"
proof -
  have "rsv_id r < next_key rsv_id (reservations s)" if "r \<in> set (reservations s)" for r
    using that by (rule next_key_fresh)
  moreover from this have "stl_reservation t < next_key rsv_id (reservations s)" if "t \<in> set (settlements s)" for t
    using ledger_okD(6) [OF assms that] by auto
  ultimately show "sum_where (\<lambda>t. stl_reservation t = next_key rsv_id (reservations s)) g (settlements s) = 0"
    "sum_where (\<lambda>r. rsv_id r = next_key rsv_id (reservations s)) g' (reservations s) = 0"
    by - (rule sum_where_zero; metis less_irrefl)+
qed

lemma reservation_row_simps [simp]:
  "rsv_id (reservation_row req k) = k" "rsv_user (reservation_row req k) = rr_user req"
  "rsv_total (reservation_row req k) = rr_amount req" "rsv_reserved (reservation_row req k) = rr_amount req"
  "rsv_settled (reservation_row req k) = 0" "rsv_released (reservation_row req k) = 0"
  by (simp_all add: reservation_row_def)

lemma reserve_tx_new:
  assumes ok: "ledger_ok s" and run: "reserve_tx req s = Inr (snap, s')" and new: "\<not> replayed req s"
  obtains b where "b \<in> set (balances s)" "bal_user b = rr_user req" "rr_amount req \<le> bal_available b"
    "0 < rr_amount req" "rs_reservation snap = next_key rsv_id (reservations s)"
    "balances s' = update_where (\<lambda>b. bal_user b = rr_user req)
       (\<lambda>b. b\<lparr>bal_available := bal_available b - rr_amount req,
              bal_reserved := bal_reserved b + rr_amount req\<rparr>) (balances s)"
    "reservations s' = reservations s @ [reservation_row req (rs_reservation snap)]"
    "settlements s' = settlements s"
proof -
  let ?P = "\<lambda>b. bal_user b = rr_user req \<and> bal_available b \<ge> rr_amount req"
  let ?f = "\<lambda>b. b\<lparr>bal_available := bal_available b - rr_amount req, bal_reserved := bal_reserved b + rr_amount req\<rparr>"
  have none: "first_where (\<lambda>r. rsv_user r = rr_user req \<and>
      rsv_idempotency_key r = rr_idempotency_key req) (reservations s) = None"
    using new by (auto simp: first_where_None replayed_def)
  from run none have pos: "0 < rr_amount req" and ne: "count_where ?P (balances s) \<noteq> 0"
    by (auto simp: reserve_tx_def Let_def split: if_splits)
  then obtain b where b: "b \<in> set (balances s)" "?P b" by (auto simp: count_where_0)
  have same: "b' = b" if "b' \<in> set (balances s)" "bal_user b' = rr_user req" for b'
    using that b bal_tab.unique_same [OF ledger_okD(1) [OF ok]] by metis
  have upd: "update_where ?P ?f (balances s) = update_where (\<lambda>b. bal_user b = rr_user req) ?f (balances s)"
    using b by (auto simp: update_where_def dest: same)
  from run none ne have "rs_reservation snap = next_key rsv_id (reservations s)"
    "balances s' = update_where ?P ?f (balances s)"
    "reservations s' = reservations s @ [reservation_row req (next_key rsv_id (reservations s))]"
    "settlements s' = settlements s"
    by (auto simp: reserve_tx_def Let_def update_balances_def insert_transaction_def
        split: if_splits option.splits)
  with b pos upd that show thesis by metis
qed

lemma reserve_tx_account:
  assumes ok: "ledger_ok s" and run: "reserve_tx req s = Inr (snap, s')"
  shows "ledger_ok s' \<and> account_of s' = (if replayed req s then account_of s
     else open_hold (rr_user req) (rs_reservation snap) (rr_amount req) (account_of s))"
proof (cases "replayed req s")
  case True
  then obtain r where "first_where (\<lambda>r. rsv_user r = rr_user req \<and>
      rsv_idempotency_key r = rr_idempotency_key req) (reservations s) = Some r"
    unfolding replayed_def by (metis (mono_tags, lifting) first_where_ex)
  with run have "s' = s" by (auto simp: reserve_tx_def and_then_eq_Inr split: if_splits)
  with ok True show ?thesis by simp
next
  case new: False
  obtain b where b: "b \<in> set (balances s)" "bal_user b = rr_user req" "rr_amount req \<le> bal_available b"
      "0 < rr_amount req" and r: "rs_reservation snap = next_key rsv_id (reservations s)"
    and s': "balances s' = update_where (\<lambda>b. bal_user b = rr_user req)
       (\<lambda>b. b\<lparr>bal_available := bal_available b - rr_amount req,
              bal_reserved := bal_reserved b + rr_amount req\<rparr>) (balances s)"
      "reservations s' = reservations s @ [reservation_row req (rs_reservation snap)]"
      "settlements s' = settlements s"
    by (rule reserve_tx_new [OF ok run new])
  have b': "b' = b" if "b' \<in> set (balances s)" "bal_user b' = rr_user req" for b'
    using that b bal_tab.unique_same [OF ledger_okD(1) [OF ok]] by metis
  have "balance_ok (if bal_user b' = rr_user req then b'\<lparr>bal_available := bal_available b' - rr_amount req,
       bal_reserved := bal_reserved b' + rr_amount req\<rparr> else b')" if "b' \<in> set (balances s)" for b'
    using b(3,4) b' [OF that] ledger_okD(4) [OF ok that]
    by (cases "bal_user b' = rr_user req") (simp_all add: balance_ok_def)
  then have "\<forall>b \<in> set (balances s'). balance_ok b"
    unfolding s'(1) ball_update_where by blast
  moreover have "reservation_ok (settlements s') (reservation_row req (rs_reservation snap))"
    using b(4) r fresh_reservation_sums [OF ok] by (simp add: reservation_ok_def s')
  moreover have "bal_tab.unique (balances s')"
    using ledger_okD(1) [OF ok] by (simp add: s' bal_tab.unique_update)
  moreover have "rsv_tab.unique (reservations s')"
    using ledger_okD(2) [OF ok] r by (simp add: s' rsv_tab.unique_insert)
  ultimately have "ledger_ok s'"
    using ledger_okD(3,5,6,7) [OF ok] by (auto simp: ledger_ok_def s')
  moreover have "sum_where (\<lambda>b. bal_user b = k) bal_available (balances s') =
      sum_where (\<lambda>b. bal_user b = k) bal_available (balances s) - (if k = rr_user req then rr_amount req else 0)" for k
    unfolding s'(1) using b by (subst bal_tab.sum_where_update [OF ledger_okD(1) [OF ok] b(1)]) auto
  moreover have "sum_where (\<lambda>b. bal_user b = k) bal_reserved (balances s') =
      sum_where (\<lambda>b. bal_user b = k) bal_reserved (balances s) + (if k = rr_user req then rr_amount req else 0)" for k
    unfolding s'(1) using b by (subst bal_tab.sum_where_update [OF ledger_okD(1) [OF ok] b(1)]) auto
  ultimately show ?thesis
    using new r by (auto simp: account_of_def open_hold_def fun_eq_iff s')
qed

section \<open>The frame\<close>

text \<open>
  The ledger touches the credit tables, adds transactions and events, and writes only the
  settled and released amounts (and the update time) of generation items.
\<close>

definition item_core :: "commerce_generation_item \<Rightarrow> commerce_generation_item" where
  "item_core i = i\<lparr>itm_settled := 0, itm_released := 0, itm_updated_at := 0\<rparr>"

definition ledger_frame :: "commerce_db \<Rightarrow> commerce_db \<Rightarrow> bool" where
  "ledger_frame s s' \<longleftrightarrow> clock s' = clock s \<and> jobs s' = jobs s \<and> batches s' = batches s \<and>
     projects s' = projects s \<and> pricing_snapshots s' = pricing_snapshots s \<and>
     map item_core (items s') = map item_core (items s)"

lemma ledger_frame_refl [simp]: "ledger_frame s s"
  by (simp add: ledger_frame_def)

lemma ledger_frame_trans [trans]: "ledger_frame a b \<Longrightarrow> ledger_frame b c \<Longrightarrow> ledger_frame a c"
  by (simp add: ledger_frame_def)

lemma ledger_frame_steps [simp]:
  "ledger_frame s (insert_transaction x s') = ledger_frame s s'"
  "ledger_frame s (insert_event e s') = ledger_frame s s'"
  "ledger_frame s (update_balances P f s') = ledger_frame s s'"
  "ledger_frame s (update_reservations R g s') = ledger_frame s s'"
  "ledger_frame s (s'\<lparr>settlements := ts\<rparr>) = ledger_frame s s'"
  "ledger_frame s (s'\<lparr>reservations := rs\<rparr>) = ledger_frame s s'"
  by (simp_all add: ledger_frame_def insert_transaction_def insert_event_def update_balances_def
      update_reservations_def)

lemma ledger_frame_record [simp]: "ledger_frame s (record_item_settlement i u r h n m s') = ledger_frame s s'"
proof -
  have "map item_core (items (record_item_settlement i u r h n m s')) = map item_core (items s')"
    by (simp add: record_item_settlement_def update_items_def update_where_def item_core_def)
  then show ?thesis
    by (simp add: ledger_frame_def record_item_settlement_def update_items_def)
qed

lemma move_reserved_credits_frame: "move_reserved_credits u h n s = Inr s' \<Longrightarrow> ledger_frame s s'"
  by (auto simp: move_reserved_credits_def Let_def split: if_splits)

lemma update_reservation_frame:
  "update_commerce_reservation_settlement x h n m s = Inr s' \<Longrightarrow> ledger_frame s s'"
  by (auto simp: update_commerce_reservation_settlement_def Let_def split: if_splits option.splits)

lemma claim_commerce_settlement_frame: "claim_commerce_settlement t s = Inr (c, s') \<Longrightarrow> ledger_frame s s'"
  by (auto simp: claim_commerce_settlement_Inr split: if_splits)

lemma reserve_tx_frame: "reserve_tx req s = Inr (snap, s') \<Longrightarrow> ledger_frame s s'"
  by (auto simp: reserve_tx_def Let_def inv_simps split: if_splits option.splits)

lemma settle_item_tx_frame:
  assumes "settle_item_tx req s = Inr s'"
  shows "ledger_frame s s'"
proof -
  obtain c s1 where claim: "claim_commerce_settlement (settle_row req) s = Inr (c, s1)"
    and cont: "if c then settle_claimed req (settle_row req) s1 = Inr s' else s' = s1"
    using assms by (auto simp: settle_item_tx_def inv_simps split: if_splits)
  note start = claim_commerce_settlement_frame [OF claim]
  show ?thesis
  proof (cases c)
    case True
    with cont obtain x s2 s3 where "ledger_frame s1 s2" "ledger_frame s2 s3" "ledger_frame s3 s'"
      by (auto simp: settle_claimed_def Let_def inv_simps split: if_splits
          dest!: create_commerce_release_transaction_Inr move_reserved_credits_frame update_reservation_frame)
    with start show ?thesis by (meson ledger_frame_trans)
  qed (use start cont in simp)
qed

lemma release_item_tx_frame:
  assumes "release_item_tx req s = Inr s'"
  shows "ledger_frame s s'"
proof -
  obtain c s1 where claim: "claim_commerce_settlement (release_row req) s = Inr (c, s1)"
    and cont: "if c then release_claimed req s1 = Inr s' else s' = s1"
    using assms by (auto simp: release_item_tx_def inv_simps split: if_splits)
  note start = claim_commerce_settlement_frame [OF claim]
  show ?thesis
  proof (cases c)
    case True
    with cont obtain x s2 s3 where "ledger_frame s1 s2" "ledger_frame s2 s3" "ledger_frame s3 s'"
      by (auto simp: release_claimed_def inv_simps
          dest!: create_commerce_release_transaction_Inr move_reserved_credits_frame update_reservation_frame)
    with start show ?thesis by (meson ledger_frame_trans)
  qed (use start cont in simp)
qed

section \<open>At most once\<close>

lemma settle_again:
  assumes "item_settled (sr_item req) s" and "settle_item_tx req s = Inr s'"
  shows "s' = s"
  using assms by (auto simp: settle_item_tx_def inv_simps claim_commerce_settlement_Inr
      first_where_None item_settled_def split: if_splits)

lemma release_again:
  assumes "item_settled (lr_item req) s" and "release_item_tx req s = Inr s'"
  shows "s' = s"
  using assms by (auto simp: release_item_tx_def inv_simps claim_commerce_settlement_Inr
      first_where_None item_settled_def split: if_splits)

section \<open>The interface\<close>

text \<open>
  \<^verbatim>\<open>ecommerce.CreditLedger\<close>, the interface the batch service and the queue call, and
  what they rely on: a ledger reads only its own tables, keeps the frame, preserves its
  invariant and the funds of every user, and closes an item's hold at most once.
\<close>

record credit_ledger_ops =
  op_reserve :: "reserve_request \<Rightarrow> commerce_db \<Rightarrow> commerce_error + reservation_snapshot \<times> commerce_db"
  op_settle :: "settle_request \<Rightarrow> commerce_db \<Rightarrow> commerce_error + commerce_db"
  op_release :: "release_request \<Rightarrow> commerce_db \<Rightarrow> commerce_error + commerce_db"

definition commerce_credit_ledger :: credit_ledger_ops where
  "commerce_credit_ledger = \<lparr>op_reserve = reserve_tx, op_settle = settle_item_tx, op_release = release_item_tx\<rparr>"

locale credit_ledger =
  fixes ledger :: credit_ledger_ops
    and ok :: "commerce_db \<Rightarrow> bool"
    and acc :: "commerce_db \<Rightarrow> account"
    and closed :: "uid \<Rightarrow> commerce_db \<Rightarrow> bool"
    and used :: "uid \<Rightarrow> string \<Rightarrow> commerce_db \<Rightarrow> bool"
  assumes ok_local: "same_ledger s s' \<Longrightarrow> ok s' = ok s"
    and acc_local: "same_ledger s s' \<Longrightarrow> acc s' = acc s"
    and closed_local: "same_ledger s s' \<Longrightarrow> closed k s' = closed k s"
    and used_local: "same_ledger s s' \<Longrightarrow> used u key s' = used u key s"
    and reserve_frame: "op_reserve ledger rr s = Inr (snap, s') \<Longrightarrow> ledger_frame s s'"
    and settle_frame: "op_settle ledger sr s = Inr s' \<Longrightarrow> ledger_frame s s'"
    and release_frame: "op_release ledger lr s = Inr s' \<Longrightarrow> ledger_frame s s'"
    and reserve_funds: "ok s \<Longrightarrow> op_reserve ledger rr s = Inr (snap, s') \<Longrightarrow>
      ok s' \<and> funds u (acc s') = funds u (acc s)"
    and reserve_effect: "ok s \<Longrightarrow> \<not> used (rr_user rr) (rr_idempotency_key rr) s \<Longrightarrow>
      op_reserve ledger rr s = Inr (snap, s') \<Longrightarrow> 0 < rr_amount rr \<and> ac_hold (acc s) (rs_reservation snap) = 0 \<and>
      acc s' = open_hold (rr_user rr) (rs_reservation snap) (rr_amount rr) (acc s) \<and>
      (\<forall>k. closed k s' = closed k s) \<and>
      (\<forall>u key. used u key s' \<longleftrightarrow> used u key s \<or> (u = rr_user rr \<and> key = rr_idempotency_key rr))"
    and settle_used: "ok s \<Longrightarrow> op_settle ledger sr s = Inr s' \<Longrightarrow> used u key s' = used u key s"
    and release_used: "ok s \<Longrightarrow> op_release ledger lr s = Inr s' \<Longrightarrow> used u key s' = used u key s"
    and settle_effect: "ok s \<Longrightarrow> op_settle ledger sr s = Inr s' \<Longrightarrow> ok s' \<and> acc s' =
      (if closed (sr_item sr) s then acc s
       else close_hold (sr_user sr) (sr_reservation sr) (settled_part (sr_held sr) (sr_actual sr))
         (sr_held sr - settled_part (sr_held sr) (sr_actual sr)) (acc s)) \<and>
      (\<forall>k. closed k s' \<longleftrightarrow> closed k s \<or> k = sr_item sr)"
    and release_effect: "ok s \<Longrightarrow> op_release ledger lr s = Inr s' \<Longrightarrow> ok s' \<and> acc s' =
      (if closed (lr_item lr) s then acc s
       else close_hold (lr_user lr) (lr_reservation lr) 0 (lr_held lr) (acc s)) \<and>
      (\<forall>k. closed k s' \<longleftrightarrow> closed k s \<or> k = lr_item lr)"
    and settle_closed: "closed (sr_item sr) s \<Longrightarrow> op_settle ledger sr s = Inr s' \<Longrightarrow> s' = s"
    and release_closed: "closed (lr_item lr) s \<Longrightarrow> op_release ledger lr s = Inr s' \<Longrightarrow> s' = s"
begin

text \<open>A step of a client keeps the ledger's invariant and everyone's funds.\<close>

definition conserves :: "commerce_db \<Rightarrow> commerce_db \<Rightarrow> bool" where
  "conserves s s' \<longleftrightarrow> (ok s \<longrightarrow> ok s' \<and> (\<forall>u. funds u (acc s') = funds u (acc s)))"

lemma conserves_refl: "conserves s s"
  by (simp add: conserves_def)

lemma conserves_trans: "conserves a b \<Longrightarrow> conserves b c \<Longrightarrow> conserves a c"
  by (simp add: conserves_def)

lemma conserves_local: "same_ledger s s' \<Longrightarrow> conserves s s'"
  by (simp add: conserves_def ok_local acc_local)

lemma conserves_reserve: "op_reserve ledger rr s = Inr (snap, s') \<Longrightarrow> conserves s s'"
  using reserve_funds by (simp add: conserves_def)

lemma conserves_settle: "op_settle ledger sr s = Inr s' \<Longrightarrow> conserves s s'"
  using settle_effect by (auto simp: conserves_def)

lemma conserves_release: "op_release ledger lr s = Inr s' \<Longrightarrow> conserves s s'"
  using release_effect by (auto simp: conserves_def)

lemma conserves_local_trans: "same_ledger a b \<Longrightarrow> conserves b c \<Longrightarrow> conserves a c"
  by (meson conserves_local conserves_trans)

lemma conserves_fold:
  assumes "fold_result f xs s = Inr s'" and "\<And>x s s'. x \<in> set xs \<Longrightarrow> f x s = Inr s' \<Longrightarrow> conserves s s'"
  shows "conserves s s'"
  using assms
proof (induction xs arbitrary: s)
  case (Cons x xs)
  then obtain s1 where "f x s = Inr s1" "fold_result f xs s1 = Inr s'" by (auto simp: and_then_eq_Inr)
  with Cons show ?case by (meson conserves_trans list.set_intros)
qed (simp add: conserves_refl)

end

text \<open>The idempotency keys a user's reservations have used.\<close>

definition key_used :: "uid \<Rightarrow> string \<Rightarrow> commerce_db \<Rightarrow> bool" where
  "key_used u key s \<longleftrightarrow> (u, key) \<in> set (map (\<lambda>r. (rsv_user r, rsv_idempotency_key r)) (reservations s))"

lemma same_ledger_used: "same_ledger s s' \<Longrightarrow> key_used u key s' = key_used u key s"
  by (simp add: key_used_def same_ledger_def)

lemma replayed_used: "replayed req s = key_used (rr_user req) (rr_idempotency_key req) s"
  by (force simp: replayed_def key_used_def)

lemma update_reservation_names:
  "update_commerce_reservation_settlement x h n m s = Inr s' \<Longrightarrow> key_used u key s' = key_used u key s"
  by (auto simp: update_commerce_reservation_settlement_def Let_def update_reservations_def key_used_def
      map_update_where split: if_splits option.splits simp del: set_map)

lemma key_used_other [simp]:
  "key_used u key (insert_transaction x s) = key_used u key s" "key_used u key (insert_event e s) = key_used u key s"
  "key_used u key (record_item_settlement i v r h n m s) = key_used u key s"
  "key_used u key (update_balances P f s) = key_used u key s"
  "key_used u key (s\<lparr>settlements := ts\<rparr>) = key_used u key s"
  by (simp_all add: key_used_def insert_transaction_def insert_event_def record_item_settlement_def
      update_items_def update_balances_def)

lemma claim_commerce_settlement_used: "claim_commerce_settlement t s = Inr (c, s') \<Longrightarrow> key_used u key s' = key_used u key s"
  by (auto simp: claim_commerce_settlement_Inr split: if_splits)

lemma move_reserved_credits_used: "move_reserved_credits v h n s = Inr s' \<Longrightarrow> key_used u key s' = key_used u key s"
  by (auto simp: move_reserved_credits_def Let_def split: if_splits)

lemma create_release_used:
  "create_commerce_release_transaction v k i n w s = Inr s' \<Longrightarrow> key_used u key s' = key_used u key s"
  by (auto dest!: create_commerce_release_transaction_Inr)

lemma settle_item_tx_used:
  assumes "settle_item_tx req s = Inr s'"
  shows "key_used u key s' = key_used u key s"
proof -
  obtain c s1 where claim: "claim_commerce_settlement (settle_row req) s = Inr (c, s1)"
    and cont: "if c then settle_claimed req (settle_row req) s1 = Inr s' else s' = s1"
    using assms by (auto simp: settle_item_tx_def inv_simps split: if_splits)
  have "key_used u key s' = key_used u key s1"
  proof (cases c)
    case True
    with cont obtain r n x s2 s3 where "move_reserved_credits (sr_user req) (sr_held req) n s1 = Inr s2"
      "update_commerce_reservation_settlement x (sr_held req) r n s2 = Inr s3" "key_used u key s' = key_used u key s3"
      by (auto simp: settle_claimed_def Let_def inv_simps create_release_used split: if_splits)
    then show ?thesis by (simp add: move_reserved_credits_used update_reservation_names)
  qed (use cont in simp)
  then show ?thesis using claim_commerce_settlement_used [OF claim] by simp
qed

lemma release_item_tx_used:
  assumes "release_item_tx req s = Inr s'"
  shows "key_used u key s' = key_used u key s"
proof -
  obtain c s1 where claim: "claim_commerce_settlement (release_row req) s = Inr (c, s1)"
    and cont: "if c then release_claimed req s1 = Inr s' else s' = s1"
    using assms by (auto simp: release_item_tx_def inv_simps split: if_splits)
  have "key_used u key s' = key_used u key s1"
  proof (cases c)
    case True
    with cont obtain r n x s2 s3 where "move_reserved_credits (lr_user req) (lr_held req) n s1 = Inr s2"
      "update_commerce_reservation_settlement x (lr_held req) r n s2 = Inr s3" "key_used u key s' = key_used u key s3"
      by (auto simp: release_claimed_def inv_simps create_release_used)
    then show ?thesis by (simp add: move_reserved_credits_used update_reservation_names)
  qed (use cont in simp)
  then show ?thesis using claim_commerce_settlement_used [OF claim] by simp
qed

lemma reserve_tx_effect:
  assumes ok: "ledger_ok s" and new: "\<not> key_used (rr_user req) (rr_idempotency_key req) s"
    and run: "reserve_tx req s = Inr (snap, s')"
  shows "0 < rr_amount req \<and> ac_hold (account_of s) (rs_reservation snap) = 0 \<and>
    account_of s' = open_hold (rr_user req) (rs_reservation snap) (rr_amount req) (account_of s) \<and>
    (\<forall>k. item_settled k s' = item_settled k s) \<and>
    (\<forall>u key. key_used u key s' \<longleftrightarrow> key_used u key s \<or> (u = rr_user req \<and> key = rr_idempotency_key req))"
proof -
  have new': "\<not> replayed req s" using new by (simp add: replayed_used)
  show ?thesis
    using reserve_tx_account [OF ok run] new' fresh_reservation_sums(2) [OF ok]
    by (rule_tac reserve_tx_new [OF ok run new'])
      (auto simp: account_of_def item_settled_def key_used_def reservation_row_def)
qed

lemma reserve_tx_funds:
  "ledger_ok s \<Longrightarrow> reserve_tx req s = Inr (snap, s') \<Longrightarrow>
     ledger_ok s' \<and> funds u (account_of s') = funds u (account_of s)"
  by (drule (1) reserve_tx_account) (simp split: if_splits)

interpretation commerce_ledger: credit_ledger commerce_credit_ledger ledger_ok account_of item_settled key_used
  unfolding commerce_credit_ledger_def
  by (unfold_locales, unfold credit_ledger_ops.simps)
    (rule same_ledger_ok same_ledger_account same_ledger_settled same_ledger_used reserve_tx_frame settle_item_tx_frame
      release_item_tx_frame reserve_tx_funds reserve_tx_effect settle_item_tx_used release_item_tx_used
      settle_item_tx_account release_item_tx_account settle_again release_again; assumption)+

end
