(* ===== verification/BatchCounters.thy ===== *)
theory BatchCounters
  imports CreditLedger
begin

text \<open>
  The counters, the status and the remaining time of a generation batch, recomputed from its
  items after every change (\<^verbatim>\<open>refreshBatchCounters\<close> and
  \<^verbatim>\<open>commerceBatchETASeconds\<close> in \<^verbatim>\<open>ecommerce/batches.go\<close>).
\<close>

section \<open>Remaining time\<close>

definition default_commerce_item_eta_seconds :: int where
  "default_commerce_item_eta_seconds = 60"

text \<open>The loop's three counters: remaining items, sampled seconds, samples.\<close>

fun eta_step :: "commerce_generation_item \<Rightarrow> int \<times> int \<times> int \<Rightarrow> int \<times> int \<times> int" where
  "eta_step i (remaining, sample_seconds, samples) =
     (case itm_status i of
        ItemQueued \<Rightarrow> (remaining + 1, sample_seconds, samples)
      | ItemRetrying \<Rightarrow> (remaining + 1, sample_seconds, samples)
      | ItemRunning \<Rightarrow> (remaining + 1, sample_seconds, samples)
      | _ \<Rightarrow>
          let duration = itm_updated_at i - itm_created_at i in
          if duration \<le> 0 then (remaining, sample_seconds, samples)
          else
            let seconds = (duration + second - 1) div second;
                seconds = (if seconds < 10 then 10 else seconds);
                seconds = (if seconds > 600 then 600 else seconds)
            in (remaining, sample_seconds + seconds, samples + 1))"

definition commerce_batch_eta_seconds :: "commerce_generation_item list \<Rightarrow> int" where
  "commerce_batch_eta_seconds its =
     (case fold eta_step its (0, 0, 0) of (remaining, sample_seconds, samples) \<Rightarrow>
        if remaining = 0 then 0
        else (if samples > 0 then sample_seconds div samples else default_commerce_item_eta_seconds) * remaining)"

section \<open>Counters and status\<close>

definition count_items :: "item_status \<Rightarrow> commerce_generation_item list \<Rightarrow> int" where
  "count_items st its = int (count_where (\<lambda>i. itm_status i = st) its)"

definition batch_status_of :: "commerce_generation_item list \<Rightarrow> batch_status" where
  "batch_status_of its =
     (let total = int (length its);
          terminal = count_items ItemSucceeded its + count_items ItemFailed its + count_items ItemCanceled its
      in if terminal = total
         then if count_items ItemSucceeded its = total then BatchSucceeded
              else if count_items ItemCanceled its = total then BatchCanceled
              else if count_items ItemSucceeded its > 0 then BatchPartialSucceeded
              else BatchFailed
         else if count_items ItemQueued its = total \<and> total > 0 then BatchQueued
         else BatchRunning)"

definition batch_items :: "uid \<Rightarrow> uid \<Rightarrow> commerce_db \<Rightarrow> commerce_generation_item list" where
  "batch_items user batch s = filter (\<lambda>i. itm_user i = user \<and> itm_batch i = batch) (items s)"

definition refreshed_batch ::
  "commerce_generation_item list \<Rightarrow> time \<Rightarrow> commerce_generation_batch \<Rightarrow> commerce_generation_batch" where
  "refreshed_batch its now b =
     (let terminal = count_items ItemSucceeded its + count_items ItemFailed its + count_items ItemCanceled its;
          b = b\<lparr>bat_status := batch_status_of its,
                bat_queued_items := count_items ItemQueued its,
                bat_running_items := count_items ItemRunning its,
                bat_retrying_items := count_items ItemRetrying its,
                bat_succeeded_items := count_items ItemSucceeded its,
                bat_failed_items := count_items ItemFailed its,
                bat_canceled_items := count_items ItemCanceled its,
                bat_settled := sum_list (map itm_settled its),
                bat_released := sum_list (map itm_released its),
                bat_eta_seconds := commerce_batch_eta_seconds its\<rparr>
      in if terminal = int (length its) then b\<lparr>bat_finished_at := Some now\<rparr> else b)"

definition refresh_batch_counters :: "uid \<Rightarrow> uid \<Rightarrow> time \<Rightarrow> commerce_db \<Rightarrow> commerce_db" where
  "refresh_batch_counters user batch now s =
     update_batches (\<lambda>b. bat_id b = batch \<and> bat_user b = user)
       (refreshed_batch (batch_items user batch s) now) s"

section \<open>Correctness\<close>

definition item_terminal :: "item_status \<Rightarrow> bool" where
  "item_terminal st \<longleftrightarrow> st = ItemSucceeded \<or> st = ItemFailed \<or> st = ItemCanceled"

definition pending_items :: "commerce_generation_item list \<Rightarrow> int" where
  "pending_items its = int (count_where (\<lambda>i. \<not> item_terminal (itm_status i)) its)"

lemma eta_step_counts:
  assumes "eta_step i (r, t, n) = (r', t', n')"
  shows "r' = r + (if item_terminal (itm_status i) then 0 else 1)"
    and "10 * n \<le> t \<and> t \<le> 600 * n \<Longrightarrow> 10 * n' \<le> t' \<and> t' \<le> 600 * n'"
    and "0 \<le> n \<Longrightarrow> 0 \<le> n'"
  using assms by (auto simp: item_terminal_def Let_def split: item_status.splits if_splits)

declare eta_step.simps [simp del]

lemma eta_fold_counts:
  assumes "fold eta_step its (r, t, n) = (r', t', n')" and "10 * n \<le> t" "t \<le> 600 * n" "0 \<le> n"
  shows "r' = r + pending_items its \<and> 10 * n' \<le> t' \<and> t' \<le> 600 * n' \<and> 0 \<le> n'"
  using assms
proof (induction its arbitrary: r t n)
  case (Cons i its)
  obtain r1 t1 n1 where step: "eta_step i (r, t, n) = (r1, t1, n1)" by (cases "eta_step i (r, t, n)")
  then have "r' = r1 + pending_items its \<and> 10 * n' \<le> t' \<and> t' \<le> 600 * n' \<and> 0 \<le> n'"
    using Cons.prems eta_step_counts(2,3) [OF step] by (intro Cons.IH [of r1 t1 n1]) (simp_all add: step)
  with eta_step_counts(1) [OF step] show ?case by (simp add: pending_items_def)
qed (simp add: pending_items_def)

lemma commerce_batch_eta_bounds:
  "10 * pending_items its \<le> commerce_batch_eta_seconds its \<and>
   commerce_batch_eta_seconds its \<le> 600 * pending_items its"
proof -
  obtain r t n where f: "fold eta_step its (0, 0, 0) = (r, t, n)" by (cases "fold eta_step its (0, 0, 0)")
  from eta_fold_counts [OF f] have c: "r = pending_items its" "10 * n \<le> t" "t \<le> 600 * n" "0 \<le> n"
    by auto
  have p: "0 \<le> pending_items its" by (simp add: pending_items_def)
  define per where "per = (if n > 0 then t div n else default_commerce_item_eta_seconds)"
  have "10 \<le> per \<and> per \<le> 600"
  proof (cases "n > 0")
    case True
    then have "(10 * n) div n \<le> t div n" "t div n \<le> (600 * n) div n"
      using c by (intro zdiv_mono1; simp)+
    with True show ?thesis by (simp add: per_def)
  qed (simp add: per_def default_commerce_item_eta_seconds_def)
  moreover have "commerce_batch_eta_seconds its = per * pending_items its"
    using f c by (auto simp: commerce_batch_eta_seconds_def per_def)
  ultimately show ?thesis using p by (simp add: mult_right_mono)
qed

lemma count_items_le: "count_items st its \<le> int (length its)"
  by (simp add: count_items_def count_where_def)

lemma count_items_full: "count_items st its = int (length its) \<longleftrightarrow> (\<forall>i \<in> set its. itm_status i = st)"
proof (induction its)
  case (Cons i its)
  then show ?case using count_items_le [of st its] by (auto simp: count_items_def)
qed (simp add: count_items_def)

lemma count_items_pos: "count_items st its > 0 \<longleftrightarrow> (\<exists>i \<in> set its. itm_status i = st)"
  using count_where_0 [of "\<lambda>i. itm_status i = st" its] by (auto simp: count_items_def)

lemma count_items_total:
  "count_items ItemQueued its + count_items ItemRunning its + count_items ItemRetrying its +
   count_items ItemSucceeded its + count_items ItemFailed its + count_items ItemCanceled its = int (length its)"
proof (induction its)
  case (Cons i its)
  then show ?case by (cases "itm_status i") (simp_all add: count_items_def)
qed (simp add: count_items_def)

lemma terminal_count:
  "count_items ItemSucceeded its + count_items ItemFailed its + count_items ItemCanceled its = int (length its)
   \<longleftrightarrow> (\<forall>i \<in> set its. item_terminal (itm_status i))"
proof (induction its)
  case (Cons i its)
  have "count_items ItemSucceeded its + count_items ItemFailed its + count_items ItemCanceled its \<le> int (length its)"
    using count_items_total [of its] by (simp add: count_items_def)
  with Cons show ?case by (cases "itm_status i") (auto simp: count_items_def item_terminal_def)
qed (simp add: count_items_def)

text \<open>The status a batch should have, read off the statuses of its items.\<close>

definition batch_status_spec :: "commerce_generation_item list \<Rightarrow> batch_status" where
  "batch_status_spec its =
     (if \<forall>i \<in> set its. itm_status i = ItemSucceeded then BatchSucceeded
      else if \<forall>i \<in> set its. itm_status i = ItemCanceled then BatchCanceled
      else if \<forall>i \<in> set its. item_terminal (itm_status i)
      then (if \<exists>i \<in> set its. itm_status i = ItemSucceeded then BatchPartialSucceeded else BatchFailed)
      else if \<forall>i \<in> set its. itm_status i = ItemQueued then BatchQueued
      else BatchRunning)"

lemma batch_status_of_spec: "batch_status_of its = batch_status_spec its"
proof (cases "its = []")
  case False
  have "(\<forall>i \<in> set its. itm_status i = st) \<Longrightarrow> item_terminal st \<Longrightarrow> \<forall>i \<in> set its. item_terminal (itm_status i)" for st
    by simp
  then show ?thesis
    unfolding batch_status_of_def batch_status_spec_def Let_def
    by (simp add: False terminal_count count_items_full count_items_pos item_terminal_def)
qed (simp add: batch_status_of_def batch_status_spec_def count_items_def)

definition batch_terminal :: "batch_status \<Rightarrow> bool" where
  "batch_terminal st \<longleftrightarrow> st \<noteq> BatchQueued \<and> st \<noteq> BatchRunning"

lemma batch_terminal_iff: "batch_terminal (batch_status_of its) \<longleftrightarrow> (\<forall>i \<in> set its. item_terminal (itm_status i))"
  by (auto simp: batch_status_of_spec batch_status_spec_def batch_terminal_def item_terminal_def)

section \<open>The refreshed row\<close>

text \<open>A batch row agrees with its items: its status, its six counters and its credit sums.\<close>

definition batch_counted :: "commerce_db \<Rightarrow> commerce_generation_batch \<Rightarrow> bool" where
  "batch_counted s b \<longleftrightarrow> (let its = batch_items (bat_user b) (bat_id b) s in
     bat_status b = batch_status_spec its \<and>
     bat_queued_items b = count_items ItemQueued its \<and> bat_running_items b = count_items ItemRunning its \<and>
     bat_retrying_items b = count_items ItemRetrying its \<and>
     bat_succeeded_items b = count_items ItemSucceeded its \<and>
     bat_failed_items b = count_items ItemFailed its \<and> bat_canceled_items b = count_items ItemCanceled its \<and>
     bat_settled b = sum_list (map itm_settled its) \<and> bat_released b = sum_list (map itm_released its) \<and>
     bat_eta_seconds b = commerce_batch_eta_seconds its)"

lemma refreshed_batch_keys [simp]:
  "bat_id (refreshed_batch its now b) = bat_id b" "bat_user (refreshed_batch its now b) = bat_user b"
  "bat_reservation (refreshed_batch its now b) = bat_reservation b"
  "bat_project (refreshed_batch its now b) = bat_project b"
  "bat_cancel_requested_at (refreshed_batch its now b) = bat_cancel_requested_at b"
  "bat_idempotency_key (refreshed_batch its now b) = bat_idempotency_key b"
  "bat_request_digest (refreshed_batch its now b) = bat_request_digest b"
  by (simp_all add: refreshed_batch_def Let_def)

lemma refreshed_batch_counted:
  "its = batch_items (bat_user b) (bat_id b) s \<Longrightarrow> batch_counted s (refreshed_batch its now b)"
  by (simp add: batch_counted_def refreshed_batch_def Let_def batch_status_of_spec)

lemma refresh_frame [simp]:
  "clock (refresh_batch_counters u k now s) = clock s" "balances (refresh_batch_counters u k now s) = balances s"
  "transactions (refresh_batch_counters u k now s) = transactions s"
  "reservations (refresh_batch_counters u k now s) = reservations s"
  "settlements (refresh_batch_counters u k now s) = settlements s"
  "items (refresh_batch_counters u k now s) = items s" "jobs (refresh_batch_counters u k now s) = jobs s"
  "events (refresh_batch_counters u k now s) = events s"
  "projects (refresh_batch_counters u k now s) = projects s"
  "pricing_snapshots (refresh_batch_counters u k now s) = pricing_snapshots s"
  by (simp_all add: refresh_batch_counters_def update_batches_def)

lemma same_ledger_refresh [simp]: "same_ledger s (refresh_batch_counters u k now s') = same_ledger s s'"
  by (simp add: same_ledger_def)

lemma batch_items_cong: "items s' = items s \<Longrightarrow> batch_items u k s' = batch_items u k s"
  by (simp add: batch_items_def)

lemma batches_refresh:
  "batches (refresh_batch_counters u k now s) =
     update_where (\<lambda>b. bat_id b = k \<and> bat_user b = u) (refreshed_batch (batch_items u k s) now) (batches s)"
  by (simp add: refresh_batch_counters_def update_batches_def)

lemma refresh_counts:
  assumes "b \<in> set (batches (refresh_batch_counters u k now s))" and "bat_id b = k" "bat_user b = u"
  shows "batch_counted (refresh_batch_counters u k now s) b"
proof -
  from assms(1) obtain b0 where b0: "b0 \<in> set (batches s)"
    "b = (if bat_id b0 = k \<and> bat_user b0 = u then refreshed_batch (batch_items u k s) now b0 else b0)"
    by (auto simp: batches_refresh set_update_where)
  with assms have "b = refreshed_batch (batch_items u k s) now b0" "bat_id b0 = k" "bat_user b0 = u"
    by (auto split: if_splits)
  then show ?thesis
    by (auto intro!: refreshed_batch_counted simp: batch_items_def)
qed

lemma refresh_keeps_counted:
  assumes "\<forall>b \<in> set (batches s). b' = b \<longrightarrow> batch_counted s b" and "b' \<in> set (batches s)"
    and "bat_id b' \<noteq> k \<or> bat_user b' \<noteq> u"
  shows "b' \<in> set (batches (refresh_batch_counters u k now s)) \<and> batch_counted (refresh_batch_counters u k now s) b'"
  using assms by (auto simp: batches_refresh set_update_where batch_counted_def batch_items_def image_iff
      intro!: bexI [of _ b'])

end
