(* ===== verification/Projects.thy ===== *)
theory Projects
  imports BatchCounters
begin

text \<open>
  Commerce projects and their catalogue (\<^verbatim>\<open>ecommerce/service.go\<close>,
  \<^verbatim>\<open>ecommerce/repository.go\<close>): ownership checks, creating and changing projects,
  the request to delete a project, which cancels its open jobs, and the finalisation that
  removes it when no job is left. The queries on soft-deleted tables see only the rows with no
  deletion time.
\<close>

section \<open>Events and holds\<close>

text \<open>\<^verbatim>\<open>emitCommerceEventTx\<close> (\<^verbatim>\<open>queue.go\<close>).\<close>

definition emit_commerce_event ::
  "commerce_job \<Rightarrow> string \<Rightarrow> (string \<times> meta_value) list \<Rightarrow> commerce_db \<Rightarrow> commerce_db" where
  "emit_commerce_event job kind meta s = insert_event
     \<lparr>evt_id = 0, evt_user = job_user job, evt_project = job_project job, evt_batch = job_batch job,
      evt_job = Some (job_id job), evt_entity_type = ''job'', evt_entity = job_id job,
      evt_pipeline = job_pipeline job, evt_recipe_key = job_recipe_key job, evt_type = kind,
      evt_metadata = meta\<rparr> s"

text \<open>The idempotency key of an item's settlement, e.g. \<^verbatim>\<open>commerce:item:7:release\<close>.\<close>

definition item_key :: "uid \<Rightarrow> string \<Rightarrow> string" where
  "item_key i tag = ''commerce:item:'' @ show_nat i @ '':'' @ tag"

definition release_request_of :: "commerce_generation_item \<Rightarrow> string \<Rightarrow> string \<Rightarrow> release_request" where
  "release_request_of item reason tag =
     \<lparr>lr_user = itm_user item, lr_project = itm_project item, lr_batch = itm_batch item,
      lr_reservation = itm_reservation item, lr_item = itm_id item, lr_held = itm_reserved item,
      lr_reason = reason, lr_idempotency_key = item_key (itm_id item) tag\<rparr>"

text \<open>
  Releasing an item's hold. The ledger may be missing; then only the item's row records the
  release.
\<close>

definition release_hold ::
  "credit_ledger_ops option \<Rightarrow> commerce_generation_item \<Rightarrow> string \<Rightarrow> string \<Rightarrow> commerce_db \<Rightarrow>
     commerce_error + commerce_db" where
  "release_hold ledger item reason tag s =
     (case ledger of
        Some L \<Rightarrow> op_release L (release_request_of item reason tag) s
      | None \<Rightarrow> Inr (update_items (\<lambda>i. itm_id i = itm_id item)
          (\<lambda>i. i\<lparr>itm_released := itm_reserved item\<rparr>) s))"

section \<open>Reading rows\<close>

definition get_project :: "uid \<Rightarrow> uid \<Rightarrow> commerce_db \<Rightarrow> commerce_error + commerce_project" where
  "get_project user project s =
     (case first_where (\<lambda>p. prj_id p = project \<and> prj_user p = user \<and> prj_deleted_at p = None) (projects s) of
        None \<Rightarrow> Inl ErrNotFound | Some p \<Rightarrow> Inr p)"

definition get_product :: "uid \<Rightarrow> uid \<Rightarrow> commerce_db \<Rightarrow> commerce_error + commerce_product" where
  "get_product user product s =
     (case first_where (\<lambda>p. prd_id p = product \<and> prd_user p = user \<and> prd_deleted_at p = None) (products s) of
        None \<Rightarrow> Inl ErrNotFound | Some p \<Rightarrow> Inr p)"

definition get_brand :: "uid \<Rightarrow> uid \<Rightarrow> commerce_db \<Rightarrow> commerce_error + commerce_brand" where
  "get_brand user brand s =
     (case first_where (\<lambda>b. brd_id b = brand \<and> brd_user b = user \<and> brd_deleted_at b = None) (brands s) of
        None \<Rightarrow> Inl ErrNotFound | Some b \<Rightarrow> Inr b)"

definition get_sku :: "uid \<Rightarrow> uid \<Rightarrow> commerce_db \<Rightarrow> commerce_error + commerce_sku" where
  "get_sku user sku s =
     (case first_where (\<lambda>k. sku_id k = sku \<and> sku_user k = user \<and> sku_deleted_at k = None) (skus s) of
        None \<Rightarrow> Inl ErrNotFound | Some k \<Rightarrow> Inr k)"

text \<open>
  \<^verbatim>\<open>lockProjectRowTx\<close> reads the row even when it is soft-deleted; its lock (or the
  update that leaves the row as it is) has no effect on the tables.
\<close>

definition lock_project_row_tx :: "uid \<Rightarrow> uid \<Rightarrow> commerce_db \<Rightarrow> commerce_error + commerce_project" where
  "lock_project_row_tx user project s =
     (if user = 0 \<or> project = 0 then Inl ErrNotFound
      else case first_where (\<lambda>p. prj_id p = project \<and> prj_user p = user) (projects s) of
        None \<Rightarrow> Inl ErrNotFound | Some p \<Rightarrow> Inr p)"

definition lock_writable_project_tx :: "uid \<Rightarrow> uid \<Rightarrow> commerce_db \<Rightarrow> commerce_error + commerce_project" where
  "lock_writable_project_tx user project s =
     and_then (lock_project_row_tx user project s) (\<lambda>p.
     if prj_deleted_at p \<noteq> None \<or> prj_status p = ''deletion_requested'' \<or>
        prj_deletion_requested_at p \<noteq> None
     then Inl ErrProjectDeletionRequested else Inr p)"

definition validate_project_writable :: "uid \<Rightarrow> uid \<Rightarrow> commerce_db \<Rightarrow> commerce_error + commerce_project" where
  "validate_project_writable user project s =
     and_then (get_project user project s) (\<lambda>p.
     if prj_status p = ''deletion_requested'' \<or> prj_deletion_requested_at p \<noteq> None
     then Inl ErrProjectDeletionRequested else Inr p)"

section \<open>Ownership of SKUs\<close>

fun validate_skus :: "uid \<Rightarrow> uid \<Rightarrow> commerce_db \<Rightarrow> uid list \<Rightarrow> uid list \<Rightarrow> commerce_error + unit" where
  "validate_skus user product s seen [] = Inr ()"
| "validate_skus user product s seen (k # ks) =
     (if k = 0 then Inl ErrOwnershipMismatch
      else if k \<in> set seen then validate_skus user product s seen ks
      else case get_sku user k s of
        Inl e \<Rightarrow> Inl (if e = ErrNotFound then ErrOwnershipMismatch else e)
      | Inr sku \<Rightarrow> if sku_product sku \<noteq> product then Inl ErrOwnershipMismatch
          else validate_skus user product s (k # seen) ks)"

definition validate_project_skus :: "uid \<Rightarrow> uid \<Rightarrow> uid list \<Rightarrow> commerce_db \<Rightarrow> commerce_error + unit" where
  "validate_project_skus user product ks s =
     and_then (get_product user product s) (\<lambda>_. validate_skus user product s [] ks)"

definition validate_default_sku :: "uid \<Rightarrow> uid \<Rightarrow> uid option \<Rightarrow> commerce_db \<Rightarrow> commerce_error + unit" where
  "validate_default_sku user product sku s =
     (case sku of
        None \<Rightarrow> Inr ()
      | Some k \<Rightarrow>
          and_then (validate_project_skus user product [k] s) (\<lambda>_.
          and_then (get_sku user k s) (\<lambda>x.
          if sku_status x \<noteq> ''active'' then Inl ErrDefaultSKUDisable else Inr ())))"

definition allowed_pipelines :: "string list" where
  "allowed_pipelines = [''general'', ''fashion'', ''mixed'']"

definition is_allowed_pipeline :: "string \<Rightarrow> bool" where
  "is_allowed_pipeline p \<longleftrightarrow> p \<in> set allowed_pipelines"

definition default_json :: "string \<Rightarrow> string \<Rightarrow> string" where
  "default_json v fallback = (if trim_space v = '''' then fallback else v)"

definition default_string :: "string \<Rightarrow> string \<Rightarrow> string" where
  "default_string v fallback = (if trim_space v = '''' then fallback else trim_space v)"

definition assign_string :: "string \<Rightarrow> string option \<Rightarrow> string" where
  "assign_string target v = (case v of None \<Rightarrow> target | Some x \<Rightarrow> x)"

definition assign_trimmed :: "string \<Rightarrow> string option \<Rightarrow> string" where
  "assign_trimmed target v = (case v of None \<Rightarrow> target | Some x \<Rightarrow> trim_space x)"

section \<open>Creating and changing projects\<close>

record create_project_input =
  cpi_product :: uid
  cpi_brand :: "uid option"
  cpi_default_sku :: "uid option"
  cpi_title :: string
  cpi_pipeline :: string
  cpi_status :: string
  cpi_channel_profile :: string

definition active_sku_of :: "uid \<Rightarrow> uid \<Rightarrow> uid \<Rightarrow> commerce_db \<Rightarrow> bool" where
  "active_sku_of user product k s \<longleftrightarrow> count_where (\<lambda>x. sku_id x = k \<and> sku_user x = user \<and>
     sku_product x = product \<and> sku_status x = ''active'' \<and> sku_deleted_at x = None) (skus s) \<noteq> 0"

definition create_project ::
  "uid \<Rightarrow> create_project_input \<Rightarrow> commerce_db \<Rightarrow> commerce_error + commerce_project \<times> commerce_db" where
  "create_project user input s =
     and_then (get_product user (cpi_product input) s) (\<lambda>product.
     let pipeline = (if trim_space (cpi_pipeline input) = '''' then ''general'' else trim_space (cpi_pipeline input));
         brand = (if cpi_brand input = None then prd_brand product else cpi_brand input)
     in if \<not> is_allowed_pipeline pipeline then Inl ErrInvalidPipeline
     else and_then (case brand of None \<Rightarrow> Inr () | Some b \<Rightarrow> and_then (get_brand user b s) (\<lambda>_. Inr ())) (\<lambda>_.
     and_then (validate_default_sku user (cpi_product input) (cpi_default_sku input) s) (\<lambda>_.
     let p = \<lparr>prj_id = next_key prj_id (projects s), prj_user = user, prj_product = cpi_product input,
               prj_brand = brand, prj_default_sku = cpi_default_sku input, prj_active_spec = None,
               prj_title = trim_space (cpi_title input), prj_pipeline = pipeline,
               prj_status = default_string (cpi_status input) ''active'',
               prj_channel_profile = trim_space (cpi_channel_profile input),
               prj_deletion_requested_at = None, prj_updated_at = clock s, prj_deleted_at = None\<rparr>
     in and_then (get_product user (cpi_product input) s) (\<lambda>_.
     case cpi_default_sku input of
       None \<Rightarrow> Inr (p, s\<lparr>projects := projects s @ [p]\<rparr>)
     | Some k \<Rightarrow> if \<not> active_sku_of user (cpi_product input) k s then Inl ErrDefaultSKUDisable
         else Inr (p, s\<lparr>projects := projects s @ [p]\<rparr>)))))"

record patch_project_input =
  ppi_product :: "uid option"
  ppi_brand :: "uid option"
  ppi_default_sku :: "uid option"
  ppi_clear_brand :: bool
  ppi_clear_default_sku :: bool
  ppi_title :: "string option"
  ppi_pipeline :: "string option"
  ppi_status :: "string option"
  ppi_channel_profile :: "string option"

text \<open>
  The columns a patch sets, \<open>None\<close> where \<^verbatim>\<open>updates\<close> has no entry for it; the inner
  option of a brand or default SKU is the nullable column.
\<close>

record project_updates =
  pu_product :: "uid option"
  pu_brand :: "uid option option"
  pu_default_sku :: "uid option option"
  pu_title :: "string option"
  pu_pipeline :: "string option"
  pu_status :: "string option"
  pu_channel_profile :: "string option"

definition set_column :: "'a option \<Rightarrow> 'a \<Rightarrow> 'a" where
  "set_column v old = (case v of None \<Rightarrow> old | Some x \<Rightarrow> x)"

definition apply_project_updates :: "project_updates \<Rightarrow> time \<Rightarrow> commerce_project \<Rightarrow> commerce_project" where
  "apply_project_updates u now p =
     p\<lparr>prj_product := set_column (pu_product u) (prj_product p),
       prj_brand := set_column (pu_brand u) (prj_brand p),
       prj_default_sku := set_column (pu_default_sku u) (prj_default_sku p),
       prj_title := set_column (pu_title u) (prj_title p),
       prj_pipeline := set_column (pu_pipeline u) (prj_pipeline p),
       prj_status := set_column (pu_status u) (prj_status p),
       prj_channel_profile := set_column (pu_channel_profile u) (prj_channel_profile p),
       prj_updated_at := now\<rparr>"

text \<open>The checks of a patch, and the updates it leads to.\<close>

definition patch_project_updates ::
  "uid \<Rightarrow> patch_project_input \<Rightarrow> commerce_project \<Rightarrow> commerce_db \<Rightarrow> commerce_error + uid \<times> project_updates" where
  "patch_project_updates user input p s =
     and_then (case ppi_product input of None \<Rightarrow> Inr (prj_product p)
               | Some k \<Rightarrow> and_then (get_product user k s) (\<lambda>_. Inr k)) (\<lambda>product.
     and_then (if ppi_clear_brand input then Inr (Some None)
               else case ppi_brand input of None \<Rightarrow> Inr None
                 | Some b \<Rightarrow> and_then (get_brand user b s) (\<lambda>_. Inr (Some (Some b)))) (\<lambda>brand.
     let sku = (if ppi_clear_default_sku input then Some None
                else case ppi_default_sku input of None \<Rightarrow> None | Some k \<Rightarrow> Some (Some k))
     in and_then (validate_default_sku user product (set_column sku (prj_default_sku p)) s) (\<lambda>_.
     and_then (case ppi_pipeline input of None \<Rightarrow> Inr None
               | Some v \<Rightarrow> if \<not> is_allowed_pipeline (trim_space v) then Inl ErrInvalidPipeline
                   else Inr (Some (trim_space v))) (\<lambda>pipeline.
     Inr (product,
       \<lparr>pu_product = ppi_product input, pu_brand = brand, pu_default_sku = sku,
        pu_title = map_option trim_space (ppi_title input), pu_pipeline = pipeline,
        pu_status = map_option trim_space (ppi_status input),
        pu_channel_profile = map_option trim_space (ppi_channel_profile input)\<rparr>)))))"

definition writable_project_row :: "uid \<Rightarrow> uid \<Rightarrow> commerce_project \<Rightarrow> bool" where
  "writable_project_row user project p \<longleftrightarrow> prj_id p = project \<and> prj_user p = user \<and>
     prj_status p \<noteq> ''deletion_requested'' \<and> prj_deletion_requested_at p = None \<and> prj_deleted_at p = None"

definition update_project_row ::
  "uid \<Rightarrow> uid \<Rightarrow> project_updates \<Rightarrow> time \<Rightarrow> commerce_db \<Rightarrow> commerce_db" where
  "update_project_row user project u now s = s\<lparr>projects :=
     update_where (writable_project_row user project) (apply_project_updates u now) (projects s)\<rparr>"

definition patch_project ::
  "uid \<Rightarrow> uid \<Rightarrow> patch_project_input \<Rightarrow> time \<Rightarrow> commerce_db \<Rightarrow> commerce_error + commerce_project \<times> commerce_db" where
  "patch_project user project input now s =
     and_then (get_project user project s) (\<lambda>p.
     if prj_status p = ''deletion_requested'' then Inl ErrProjectDeletionRequested
     else and_then (patch_project_updates user input p s) (\<lambda>(product, u).
     let s' = update_project_row user project u now s;
         changed = count_where (writable_project_row user project) (projects s)
     in case ppi_default_sku input of
       Some k \<Rightarrow>
         and_then (get_product user product s) (\<lambda>_.
         if \<not> active_sku_of user product k s then Inl ErrDefaultSKUDisable
         else if changed \<noteq> 1 then Inl ErrProjectDeletionRequested
         else and_then (get_project user project s') (\<lambda>p'. Inr (p', s')))
     | None \<Rightarrow>
         if changed \<noteq> 1
         then (if prj_status p = ''deletion_requested'' \<or> prj_deletion_requested_at p \<noteq> None
               then Inl ErrProjectDeletionRequested else Inl ErrNotFound)
         else and_then (get_project user project s') (\<lambda>p'. Inr (p', s'))))"

section \<open>Requesting the deletion of a project\<close>

definition job_open :: "job_status \<Rightarrow> bool" where
  "job_open st \<longleftrightarrow> st = JobQueued \<or> st = JobRetrying \<or> st = JobRunning"

definition job_waiting :: "job_status \<Rightarrow> bool" where
  "job_waiting st \<longleftrightarrow> st = JobQueued \<or> st = JobRetrying"

definition item_waiting :: "item_status \<Rightarrow> bool" where
  "item_waiting st \<longleftrightarrow> st = ItemQueued \<or> st = ItemRetrying"

text \<open>A running job is only asked to stop; a waiting one is canceled and its hold released.\<close>

definition request_running_cancel :: "uid \<Rightarrow> time \<Rightarrow> commerce_job \<Rightarrow> commerce_db \<Rightarrow> commerce_db" where
  "request_running_cancel user now job s =
     (let s1 = update_jobs (\<lambda>j. job_id j = job_id job \<and> job_user j = user \<and> job_status j = JobRunning)
                 (\<lambda>j. j\<lparr>job_cancel_requested_at := Some now\<rparr>) s
      in case job_item job of
        None \<Rightarrow> s1
      | Some i \<Rightarrow> update_items (\<lambda>x. itm_id x = i \<and> itm_user x = user \<and> itm_status x = ItemRunning)
          (\<lambda>x. x\<lparr>itm_cancel_requested_at := Some now\<rparr>) s1)"

definition cancel_waiting_item ::
  "credit_ledger_ops option \<Rightarrow> uid \<Rightarrow> time \<Rightarrow> commerce_job \<Rightarrow> commerce_db \<Rightarrow> commerce_error + commerce_db" where
  "cancel_waiting_item ledger user now job s =
     (case job_item job of
        None \<Rightarrow> Inr s
      | Some i \<Rightarrow>
          (case first_where (\<lambda>x. itm_id x = i \<and> itm_user x = user) (items s) of
             None \<Rightarrow> Inl ErrRecordNotFound
           | Some item \<Rightarrow>
               if \<not> item_waiting (itm_status item) then Inr s
               else and_then (release_hold ledger item ''project_deleted'' ''project-delete'' s) (\<lambda>s1.
                 Inr (emit_commerce_event job ''item_released''
                   [(''item_id'', MetaInt (int (itm_id item))), (''reason'', MetaText ''project_deleted'')]
                   (update_items (\<lambda>x. itm_id x = itm_id item \<and> itm_user x = user \<and> item_waiting (itm_status x))
                     (\<lambda>x. x\<lparr>itm_status := ItemCanceled, itm_progress := 100,
                            itm_cancel_requested_at := Some now, itm_finished_at := Some now,
                            itm_error_code := ''canceled'', itm_error_message := ''project_deleted''\<rparr>) s1)))))"

definition delete_request_job ::
  "credit_ledger_ops option \<Rightarrow> uid \<Rightarrow> time \<Rightarrow> commerce_job \<Rightarrow> commerce_db \<Rightarrow> commerce_error + commerce_db" where
  "delete_request_job ledger user now job s =
     (if job_status job = JobRunning then Inr (request_running_cancel user now job s)
      else and_then (cancel_waiting_item ledger user now job s) (\<lambda>s1.
        let s2 = update_jobs (\<lambda>j. job_id j = job_id job \<and> job_user j = user \<and> job_waiting (job_status j))
              (\<lambda>j. j\<lparr>job_status := JobCanceled, job_cancel_requested_at := Some now,
                     job_finished_at := Some now, job_error_code := ''canceled'',
                     job_error_message := ''project_deleted''\<rparr>) s1
        in Inr (case job_batch job of None \<Rightarrow> s2
                | Some b \<Rightarrow> refresh_batch_counters user b now s2)))"

definition request_project_deletion ::
  "credit_ledger_ops option \<Rightarrow> uid \<Rightarrow> uid \<Rightarrow> time \<Rightarrow> commerce_db \<Rightarrow>
     commerce_error + commerce_project \<times> commerce_db" where
  "request_project_deletion ledger user project now s =
     and_then (lock_project_row_tx user project s) (\<lambda>p.
     if prj_deleted_at p \<noteq> None then Inl ErrNotFound
     else
       let mine = (\<lambda>x. prj_id x = project \<and> prj_user x = user \<and> prj_deleted_at x = None);
           f = (\<lambda>x. x\<lparr>prj_status := ''deletion_requested'', prj_deletion_requested_at := Some now,
                      prj_updated_at := now\<rparr>);
           s1 = s\<lparr>projects := update_where mine f (projects s)\<rparr>
       in if count_where mine (projects s) \<noteq> 1 then Inl ErrNotFound
          else and_then (fold_result (delete_request_job ledger user now)
              (filter (\<lambda>j. job_user j = user \<and> job_project j = project \<and> job_open (job_status j)) (jobs s1)) s1)
            (\<lambda>s2. Inr (f p, s2)))"

section \<open>Finalising the deletion\<close>

definition normalized_storage_scope :: "string \<Rightarrow> string" where
  "normalized_storage_scope scope = (if trim_space scope = '''' then ''default'' else trim_space scope)"

text \<open>The objects of a project's assets: \<^verbatim>\<open>commerce_assets JOIN reference_assets\<close>.\<close>

definition project_objects :: "uid \<Rightarrow> uid \<Rightarrow> commerce_db \<Rightarrow> (commerce_asset \<times> reference_asset) list" where
  "project_objects user project s =
     [(a, r). a \<leftarrow> assets s, r \<leftarrow> reference_assets s,
        ref_id r = ast_reference a \<and> ast_user a = user \<and> ast_project a = project \<and> ast_deleted_at a = None]"

fun queue_object_cleanup ::
  "uid \<Rightarrow> uid \<Rightarrow> time \<Rightarrow> commerce_asset \<times> reference_asset \<Rightarrow> commerce_db \<Rightarrow> commerce_db" where
  "queue_object_cleanup user project now (a, r) s =
     (if count_where (\<lambda>c. cln_asset c = Some (ast_id a) \<and> cln_object_deleted_at c = None) (cleanups s) = 0 \<and>
         trim_space (ref_asset_key r) \<noteq> ''''
      then s\<lparr>cleanups := cleanups s @ [
        \<lparr>cln_id = next_key cln_id (cleanups s), cln_user = user, cln_project = project,
         cln_asset = Some (ast_id a), cln_reference = Some (ast_reference a), cln_record = None,
         cln_work = None, cln_storage_scope = normalized_storage_scope (ref_storage_scope r),
         cln_object_key = ref_asset_key r, cln_reason = ''project_deleted'', cln_status = ''queued'',
         cln_attempt_count = 0, cln_max_attempts = 8, cln_next_attempt_at = Some now,
         cln_delete_after = now, cln_last_error = '''', cln_object_deleted_at = None\<rparr>]\<rparr>
      else s)"

definition remove_project_rows :: "uid \<Rightarrow> uid \<Rightarrow> commerce_db \<Rightarrow> commerce_db" where
  "remove_project_rows user project s = s\<lparr>
     assets := update_where (\<lambda>a. ast_user a = user \<and> ast_project a = project \<and> ast_deleted_at a = None)
       (\<lambda>a. a\<lparr>ast_deleted_at := Some (clock s)\<rparr>) (assets s),
     projects := update_where (\<lambda>p. prj_id p = project \<and> prj_user p = user \<and> prj_deleted_at p = None)
       (\<lambda>p. p\<lparr>prj_deleted_at := Some (clock s)\<rparr>) (projects s)\<rparr>"

definition finalize_project_deletion_tx :: "uid \<Rightarrow> uid \<Rightarrow> time \<Rightarrow> commerce_db \<Rightarrow> commerce_error + commerce_db" where
  "finalize_project_deletion_tx user project now s =
     (if project = 0 then Inr s
      else case lock_project_row_tx user project s of
        Inl e \<Rightarrow> if e = ErrNotFound then Inr s else Inl e
      | Inr p \<Rightarrow>
          if prj_deleted_at p \<noteq> None \<or> prj_status p \<noteq> ''deletion_requested'' \<or>
             prj_deletion_requested_at p = None
          then Inr s
          else if count_where (\<lambda>j. job_user j = user \<and> job_project j = project \<and> job_open (job_status j)) (jobs s) \<noteq> 0
          then Inr s
          else Inr (remove_project_rows user project
            (fold (queue_object_cleanup user project now) (project_objects user project s) s)))"

definition list_batch_events :: "uid \<Rightarrow> uid \<Rightarrow> uid \<Rightarrow> commerce_db \<Rightarrow> commerce_error + commerce_event list" where
  "list_batch_events user batch after s =
     (if count_where (\<lambda>b. bat_id b = batch \<and> bat_user b = user) (batches s) \<noteq> 1 then Inl ErrNotFound
      else Inr (take 500 (filter (\<lambda>e. evt_user e = user \<and> evt_batch e = Some batch \<and> evt_id e > after) (events s))))"

end
