(* ===== verification/Backoff.thy ===== *)
theory Backoff
  imports Prelude Complex_Main
begin

text \<open>
  The delays before a retry: \<^verbatim>\<open>Queue.retryDelay\<close> of \<^verbatim>\<open>ecommerce/queue.go\<close>,
  with its floating-point jitter, and \<^verbatim>\<open>cleanupRetryDelay\<close> of
  \<^verbatim>\<open>ecommerce/assets.go\<close>. A finite \<^verbatim>\<open>float64\<close> is the rational it stands for;
  a product is rounded to the nearest 53-bit significand, ties to even.
\<close>

section \<open>Rounding\<close>

fun ilog2 :: "nat \<Rightarrow> nat" where
  "ilog2 n = (if n \<le> 1 then 0 else Suc (ilog2 (n div 2)))"

declare ilog2.simps [simp del]

definition round_half_even :: "rat \<Rightarrow> int" where
  "round_half_even x =
     (let n = \<lfloor>x\<rfloor>; d = x - of_int n in
      if d < 1 / 2 then n else if d > 1 / 2 then n + 1 else if even n then n else n + 1)"

text \<open>
  Rounding of a non-negative value below \<open>2 ^ 53\<close>, which the delays are. Below 1 the grid of the
  interval from one half to 1 is used: the value is truncated to an integer afterwards, so only
  whether it rounds up to 1 matters there.
\<close>

definition float64_round :: "rat \<Rightarrow> rat" where
  "float64_round x =
     (let k = (if x < 1 then 53 else 52 - ilog2 (nat \<lfloor>x\<rfloor>)) in
      of_int (round_half_even (x * 2 ^ k)) / 2 ^ k)"

text \<open>The constant 0.20, as the \<^verbatim>\<open>float64\<close> nearest to it.\<close>

definition max_jitter :: rat where
  "max_jitter = 3602879701896397 / 18014398509481984"

section \<open>The retry delay of a job\<close>

definition retry_base :: "int \<Rightarrow> duration" where
  "retry_base attempt =
     (let attempt = (if attempt < 1 then 1 else attempt);
          exponent = (if attempt - 1 > 16 then 16 else attempt - 1);
          base = 2 ^ nat exponent * 5 * second
      in if base > 5 * minute then 5 * minute else base)"

definition clamp_jitter :: "rat option \<Rightarrow> rat" where
  "clamp_jitter jitter =
     (let j = (case jitter of None \<Rightarrow> 0 | Some x \<Rightarrow> x);
          j = (if j < 0 then 0 else j)
      in if j > max_jitter then max_jitter else j)"

definition retry_delay :: "int \<Rightarrow> rat option \<Rightarrow> duration" where
  "retry_delay attempt jitter =
     (let base = retry_base attempt;
          delay = base + \<lfloor>float64_round (of_int base * clamp_jitter jitter)\<rfloor>
      in if delay > 5 * minute then 5 * minute else delay)"

section \<open>The retry delay of a cleanup\<close>

definition max_cleanup_retry_delay :: duration where
  "max_cleanup_retry_delay = 24 * 60 * minute"

definition cleanup_retry_delay :: "int \<Rightarrow> duration" where
  "cleanup_retry_delay attempt =
     (let attempt = (if attempt < 1 then 1 else attempt);
          delay = minute * 2 ^ nat (min (attempt - 1) 10)
      in if delay > max_cleanup_retry_delay then max_cleanup_retry_delay else delay)"

section \<open>Bounds\<close>

lemma round_half_even_nonneg: "0 \<le> x \<Longrightarrow> 0 \<le> round_half_even x"
  by (auto simp: round_half_even_def Let_def)

lemma round_half_even_error: "\<bar>of_int (round_half_even x) - x\<bar> \<le> 1 / 2"
  using of_int_floor_le [of x] floor_correct [of x]
  by (simp add: round_half_even_def Let_def abs_if) linarith

lemma float64_round_nonneg: "0 \<le> x \<Longrightarrow> 0 \<le> float64_round x"
  by (simp add: float64_round_def Let_def round_half_even_nonneg)

lemma clamp_jitter_bounds: "0 \<le> clamp_jitter j \<and> clamp_jitter j \<le> max_jitter"
  by (auto simp: clamp_jitter_def max_jitter_def Let_def split: option.splits)

lemma power_ge_5: "(64::int) \<le> 2 ^ n" if "6 \<le> n"
  using that power_increasing [of 6 n "2::int"] by simp

text \<open>The base delay doubles from 5 seconds up to the cap of 5 minutes.\<close>

lemma retry_base_values:
  "retry_base attempt = (if attempt \<le> 1 then 5 * second
     else if attempt \<le> 6 then 2 ^ nat (attempt - 1) * 5 * second else 5 * minute)"
proof (cases "attempt \<le> 6")
  case True
  consider "attempt \<le> 1" | "attempt = 2" | "attempt = 3" | "attempt = 4" | "attempt = 5" | "attempt = 6"
    using True by linarith
  then show ?thesis by cases (simp_all add: retry_base_def Let_def)
next
  case False
  then have "64 \<le> (2::int) ^ nat (if attempt - 1 > 16 then 16 else attempt - 1)"
    by (intro power_ge_5) auto
  with False show ?thesis by (simp add: retry_base_def Let_def)
qed

lemma retry_base_bounds: "5 * second \<le> retry_base n \<and> retry_base n \<le> 5 * minute"
proof (cases "1 < n \<and> n \<le> 6")
  case True
  then have "1 \<le> nat (n - 1)" "nat (n - 1) \<le> 5" by auto
  then have "(2::int) ^ 1 \<le> 2 ^ nat (n - 1)" "(2::int) ^ nat (n - 1) \<le> 2 ^ 5"
    by (intro power_increasing; simp)+
  with True show ?thesis by (simp add: retry_base_def Let_def)
qed (auto simp: retry_base_values)

lemma retry_delay_bounds_aux:
  "retry_base n \<le> retry_delay n j \<and> retry_delay n j \<le> 5 * minute"
proof -
  have "0 \<le> of_int (retry_base n) * clamp_jitter j"
    using retry_base_bounds [of n] clamp_jitter_bounds [of j] by simp
  then have "0 \<le> \<lfloor>float64_round (of_int (retry_base n) * clamp_jitter j)\<rfloor>"
    by (simp add: float64_round_nonneg)
  with retry_base_bounds [of n] show ?thesis by (simp add: retry_delay_def Let_def)
qed

text \<open>The jitter adds at most a fifth of the base delay, rounding included.\<close>

lemma float64_round_le: "float64_round x \<le> x + 1 / 2"
proof -
  define k where "k = (if x < 1 then 53 else 52 - ilog2 (nat \<lfloor>x\<rfloor>))"
  have "of_int (round_half_even (x * 2 ^ k)) \<le> x * 2 ^ k + 1 / 2"
    using round_half_even_error [of "x * 2 ^ k"] by linarith
  then have "float64_round x \<le> (x * 2 ^ k + 1 / 2) / 2 ^ k"
    by (simp add: float64_round_def Let_def divide_right_mono flip: k_def)
  also have "\<dots> = x + 1 / 2 / 2 ^ k" by (simp add: field_simps)
  also have "\<dots> \<le> x + 1 / 2" by (simp add: field_simps)
  finally show ?thesis .
qed

lemma retry_base_fifth: "retry_base n = 5 * (retry_base n div 5)"
proof -
  have "5 dvd retry_base n" by (auto simp: retry_base_def Let_def)
  then show ?thesis by simp
qed

lemma retry_delay_le_fifth: "retry_delay n j \<le> retry_base n + retry_base n div 5"
proof -
  let ?b = "retry_base n" and ?x = "of_int (retry_base n) * clamp_jitter j"
  have b: "0 \<le> ?b" "?b \<le> 5 * minute" using retry_base_bounds [of n] by auto
  have "?x \<le> of_int ?b * max_jitter"
    using b clamp_jitter_bounds [of j] by (intro mult_left_mono) auto
  also have "\<dots> = of_int (?b div 5) * (5 * max_jitter)"
    by (subst retry_base_fifth) simp
  also have "\<dots> \<le> of_int (?b div 5) + 1 / 4"
  proof -
    have "(of_int (?b div 5) :: rat) \<le> of_int (minute :: int)"
      using b by (subst of_int_le_iff) linarith
    then show ?thesis by (simp add: max_jitter_def field_simps)
  qed
  finally have "float64_round ?x < of_int (?b div 5) + 1"
    using float64_round_le [of ?x] by simp
  then have "\<lfloor>float64_round ?x\<rfloor> \<le> ?b div 5"
    by (simp add: floor_le_iff)
  then show ?thesis by (simp add: retry_delay_def Let_def)
qed

lemma cleanup_retry_delay_bounds:
  "minute \<le> cleanup_retry_delay n \<and> cleanup_retry_delay n \<le> 1024 * minute"
proof -
  define e where "e = nat (min ((if n < 1 then 1 else n) - 1) 10)"
  have "e \<le> 10" by (simp add: e_def)
  then have "(2::int) ^ 0 \<le> 2 ^ e" "(2::int) ^ e \<le> 2 ^ 10"
    by (intro power_increasing; simp)+
  then show ?thesis
    by (simp add: cleanup_retry_delay_def max_cleanup_retry_delay_def Let_def flip: e_def)
qed

end
