(* ===== verification/Queue.thy ===== *)
theory Queue
  imports Projects Backoff
begin

text \<open>
  The job queue (\<^verbatim>\<open>ecommerce/queue.go\<close>): leased claims, heartbeats, completion,
  failure with retries and dead letters, cancellation and the recovery of expired leases.
  A \<^verbatim>\<open>..._tx\<close> function is the body of a database transaction; the operation around
  it keeps the database on an error. Lease tokens, the time and the jitter are arguments, drawn
  by the code from its environment. Terminal hooks and the late-result discarder are the
  interface values the queue is configured with.
\<close>

section \<open>Configuration\<close>

type_synonym terminal_hook = "commerce_job \<Rightarrow> time \<Rightarrow> commerce_db \<Rightarrow> commerce_error + commerce_db"
type_synonym late_discarder = "commerce_job \<Rightarrow> execution_result \<Rightarrow> commerce_db \<Rightarrow> commerce_error + commerce_db"

record commerce_service =
  svc_ledger :: "credit_ledger_ops option"

record commerce_queue =
  q_worker :: string
  q_service :: "commerce_service option"
  q_hooks :: "string \<Rightarrow> terminal_hook option"
  q_discard :: "late_discarder option"

definition queue_ledger :: "commerce_queue \<Rightarrow> credit_ledger_ops option" where
  "queue_ledger q = Option.bind (q_service q) svc_ledger"

definition validate_queue :: "commerce_queue \<Rightarrow> commerce_error + unit" where
  "validate_queue q = (if blank (q_worker q) then Inl ErrWorkerID else Inr ())"

definition generate_item_kind :: string where
  "generate_item_kind = ''generate_item''"

section \<open>Leases\<close>

definition leased_row :: "lease_identity \<Rightarrow> commerce_job \<Rightarrow> bool" where
  "leased_row lease j \<longleftrightarrow> job_id j = ls_job lease \<and> job_lease_owner j = ls_owner lease \<and>
     job_lease_token j = ls_token lease \<and> job_status j = JobRunning"

text \<open>\<open>before\<close> is the optional bound on the expiry of the lease, set when it is recovered.\<close>

definition expired_before :: "time option \<Rightarrow> commerce_job \<Rightarrow> bool" where
  "expired_before before j \<longleftrightarrow> (case before of None \<Rightarrow> True
     | Some t \<Rightarrow> (case job_lease_expires_at j of None \<Rightarrow> False | Some e \<Rightarrow> e < t))"

definition load_running_leased_job :: "lease_identity \<Rightarrow> commerce_db \<Rightarrow> commerce_error + commerce_job" where
  "load_running_leased_job lease s =
     (if ls_job lease = 0 \<or> blank (ls_owner lease) \<or> blank (ls_token lease) then Inl ErrLeaseMismatch
      else case first_where (leased_row lease) (jobs s) of
        None \<Rightarrow> Inl ErrLeaseMismatch | Some j \<Rightarrow> Inr j)"

definition clear_lease :: "commerce_job \<Rightarrow> commerce_job" where
  "clear_lease j = j\<lparr>job_lease_owner := '''', job_lease_token := '''', job_lease_expires_at := None\<rparr>"

text \<open>An update of the leased row that must hit exactly one row.\<close>

definition update_leased ::
  "lease_identity \<Rightarrow> time option \<Rightarrow> (commerce_job \<Rightarrow> commerce_job) \<Rightarrow> commerce_error \<Rightarrow> commerce_db \<Rightarrow>
     commerce_error + commerce_db" where
  "update_leased lease before f e s =
     (let hit = (\<lambda>j. leased_row lease j \<and> expired_before before j) in
      if count_where hit (jobs s) \<noteq> 1 then Inl e else Inr (update_jobs hit f s))"

section \<open>Terminal jobs\<close>

definition after_job_terminal_tx :: "commerce_queue \<Rightarrow> commerce_job \<Rightarrow> time \<Rightarrow> commerce_db \<Rightarrow> commerce_error + commerce_db" where
  "after_job_terminal_tx q job now s =
     and_then (case q_hooks q (job_kind job) of None \<Rightarrow> Inr s | Some hook \<Rightarrow> hook job now s) (\<lambda>s1.
     Inr (case job_batch job of None \<Rightarrow> s1 | Some b \<Rightarrow> refresh_batch_counters (job_user job) b now s1))"

definition finalize_project_deletion_best_effort ::
  "commerce_queue \<Rightarrow> uid \<Rightarrow> uid \<Rightarrow> time \<Rightarrow> commerce_db \<Rightarrow> commerce_db" where
  "finalize_project_deletion_best_effort q user project now s =
     (if q_service q = None \<or> project = 0 then s
      else case finalize_project_deletion_tx user project now s of Inl e \<Rightarrow> s | Inr s' \<Rightarrow> s')"

definition dead_letter_item ::
  "commerce_queue \<Rightarrow> commerce_job \<Rightarrow> string \<Rightarrow> string \<Rightarrow> time \<Rightarrow> commerce_db \<Rightarrow> commerce_error + commerce_db" where
  "dead_letter_item q job code msg now s =
     (case job_item job of
        None \<Rightarrow> Inr s
      | Some i \<Rightarrow>
          (case first_where (\<lambda>x. itm_id x = i \<and> itm_user x = job_user job) (items s) of
             None \<Rightarrow> Inl ErrRecordNotFound
           | Some item \<Rightarrow>
               let hit = (\<lambda>x. itm_id x = itm_id item \<and> itm_user x = itm_user item \<and> itm_status x = ItemRunning)
               in if count_where hit (items s) \<noteq> 1 then Inl ErrInvalidItemTransition
                  else and_then (release_hold (queue_ledger q) item ''generation_failed'' ''release''
                      (update_items hit (\<lambda>x. x\<lparr>itm_status := ItemFailed, itm_progress := 100,
                         itm_finished_at := Some now, itm_error_code := code, itm_error_message := msg\<rparr>) s))
                    (\<lambda>s1. Inr (emit_commerce_event job ''item_released''
                       [(''item_id'', MetaInt (int (itm_id item))), (''reason'', MetaText code)] s1))))"

definition dead_letter_leased_job_tx ::
  "commerce_queue \<Rightarrow> commerce_job \<Rightarrow> lease_identity \<Rightarrow> execution_failure \<Rightarrow> time \<Rightarrow> time option \<Rightarrow>
     commerce_db \<Rightarrow> commerce_error + commerce_db" where
  "dead_letter_leased_job_tx q job lease failure now before s =
     (let dead_lettered = job_attempt_count job \<ge> job_max_attempts job;
          code = (if dead_lettered then ''max_attempts_exceeded'' else trim_space (ef_code failure));
          code = (if code = '''' then ''job_failed'' else code)
      in and_then (dead_letter_item q job code (ef_message failure) now s) (\<lambda>s1.
         and_then (update_leased lease before
             (\<lambda>j. (clear_lease j)\<lparr>job_status := JobFailed, job_finished_at := Some now,
                    job_error_code := code, job_error_message := ef_message failure,
                    job_dead_lettered_at := (if dead_lettered then Some now else job_dead_lettered_at j)\<rparr>)
             ErrLeaseMismatch s1) (\<lambda>s2.
         after_job_terminal_tx q
           (job\<lparr>job_status := JobFailed, job_error_code := code, job_error_message := ef_message failure,
                job_dead_lettered_at := (if dead_lettered then Some now else job_dead_lettered_at job)\<rparr>) now
           (emit_commerce_event job ''job_failed''
             [(''error_code'', MetaText code), (''dead_lettered'', MetaBool dead_lettered)] s2))))"

definition cancel_leased_item ::
  "commerce_queue \<Rightarrow> commerce_job \<Rightarrow> string \<Rightarrow> time \<Rightarrow> commerce_db \<Rightarrow> commerce_error + commerce_db" where
  "cancel_leased_item q job reason now s =
     (case job_item job of
        None \<Rightarrow> Inr s
      | Some i \<Rightarrow>
          (case first_where (\<lambda>x. itm_id x = i \<and> itm_user x = job_user job) (items s) of
             None \<Rightarrow> Inl ErrRecordNotFound
           | Some item \<Rightarrow>
               if itm_status item \<noteq> ItemRunning then Inr s
               else and_then (release_hold (queue_ledger q) item reason ''release'' s) (\<lambda>s1.
                 Inr (emit_commerce_event job ''item_released''
                   [(''item_id'', MetaInt (int (itm_id item))), (''reason'', MetaText reason)]
                   (update_items (\<lambda>x. itm_id x = itm_id item \<and> itm_user x = itm_user item \<and> itm_status x = ItemRunning)
                     (\<lambda>x. x\<lparr>itm_status := ItemCanceled, itm_progress := 100, itm_finished_at := Some now,
                            itm_error_code := ''canceled'', itm_error_message := reason\<rparr>) s1)))))"

definition cancel_leased_job_tx ::
  "commerce_queue \<Rightarrow> commerce_job \<Rightarrow> lease_identity \<Rightarrow> string \<Rightarrow> time \<Rightarrow> time option \<Rightarrow>
     commerce_db \<Rightarrow> commerce_error + commerce_db" where
  "cancel_leased_job_tx q job lease reason now before s =
     (let reason = (if reason = '''' then ''worker_canceled'' else reason) in
      and_then (cancel_leased_item q job reason now s) (\<lambda>s1.
      and_then (update_leased lease before
          (\<lambda>j. (clear_lease j)\<lparr>job_status := JobCanceled, job_finished_at := Some now,
                 job_error_code := ''canceled'', job_error_message := reason\<rparr>) ErrLeaseMismatch s1) (\<lambda>s2.
      after_job_terminal_tx q
        (job\<lparr>job_status := JobCanceled, job_error_code := ''canceled'', job_error_message := reason\<rparr>) now s2)))"

section \<open>Claiming\<close>

definition claimable :: "time \<Rightarrow> commerce_job \<Rightarrow> bool" where
  "claimable now j \<longleftrightarrow> job_waiting (job_status j) \<and>
     (case job_next_attempt_at j of None \<Rightarrow> True | Some t \<Rightarrow> t \<le> now) \<and>
     (case job_lease_expires_at j of None \<Rightarrow> True | Some t \<Rightarrow> t < now)"

text \<open>
  \<^verbatim>\<open>ORDER BY priority DESC, id ASC LIMIT\<close>; on Postgres \<open>sel_now\<close> is the database's
  \<^verbatim>\<open>NOW()\<close>, otherwise the time of the claim.
\<close>

definition claimable_job_ids :: "time \<Rightarrow> nat \<Rightarrow> commerce_db \<Rightarrow> uid list" where
  "claimable_job_ids sel_now limit s =
     take limit (map job_id (sort_key (\<lambda>j. - job_priority j)
       (sort_key job_id (filter (claimable sel_now) (jobs s)))))"

definition claimed_row :: "string \<Rightarrow> string \<Rightarrow> time \<Rightarrow> duration \<Rightarrow> commerce_job \<Rightarrow> commerce_job" where
  "claimed_row worker token now lease_duration j =
     j\<lparr>job_status := JobRunning, job_lease_owner := worker, job_lease_token := token,
       job_lease_expires_at := Some (now + lease_duration), job_heartbeat_at := Some now,
       job_attempt_count := job_attempt_count j + 1,
       job_started_at := (case job_started_at j of None \<Rightarrow> Some now | Some t \<Rightarrow> Some t),
       job_next_attempt_at := None, job_error_code := '''', job_error_message := ''''\<rparr>"

definition started_item :: "time \<Rightarrow> commerce_generation_item \<Rightarrow> commerce_generation_item" where
  "started_item now i =
     i\<lparr>itm_status := ItemRunning, itm_progress := (if itm_progress i < 10 then 10 else itm_progress i),
       itm_started_at := (case itm_started_at i of None \<Rightarrow> Some now | Some t \<Rightarrow> Some t),
       itm_error_code := '''', itm_error_message := ''''\<rparr>"

type_synonym job_snapshot = "commerce_job \<times> commerce_generation_item option"

text \<open>The item of a claimed generation job starts to run.\<close>

definition claim_item ::
  "commerce_job \<Rightarrow> time \<Rightarrow> commerce_db \<Rightarrow> commerce_error + commerce_generation_item option \<times> commerce_db" where
  "claim_item job now s =
     (let item = Option.bind (job_item job) (\<lambda>i. first_where (\<lambda>x. itm_id x = i) (items s)) in
      if job_kind job \<noteq> generate_item_kind then Inr (item, s)
      else case item of
        None \<Rightarrow> Inl ErrGenerationItemRequired
      | Some x \<Rightarrow>
          let hit = (\<lambda>i. itm_id i = itm_id x \<and> itm_user i = job_user job \<and> item_waiting (itm_status i) \<and>
                 itm_cancel_requested_at i = None);
              s1 = update_items hit (started_item now) s
          in if count_where hit (items s) \<noteq> 1 then Inl ErrInvalidItemTransition
             else case first_where (\<lambda>i. itm_id i = itm_id x) (items s1) of
               None \<Rightarrow> Inl ErrRecordNotFound | Some i \<Rightarrow> Inr (Some i, s1))"

definition claim_one ::
  "commerce_queue \<Rightarrow> (uid \<Rightarrow> string) \<Rightarrow> time \<Rightarrow> duration \<Rightarrow> uid \<Rightarrow> job_snapshot list \<times> commerce_db \<Rightarrow>
     commerce_error + job_snapshot list \<times> commerce_db" where
  "claim_one q token now lease_duration k c =
     (case c of (claimed, s) \<Rightarrow>
      let hit = (\<lambda>j. job_id j = k \<and> claimable now j);
          s1 = update_jobs hit (claimed_row (q_worker q) (token k) now lease_duration) s
      in if count_where hit (jobs s) \<noteq> 1 then Inr (claimed, s)
         else case first_where (\<lambda>j. job_id j = k) (jobs s1) of
           None \<Rightarrow> Inl ErrRecordNotFound
         | Some job \<Rightarrow>
             and_then (claim_item job now s1) (\<lambda>(item, s2).
             let s3 = emit_commerce_event job ''job_claimed''
                   [(''attempt'', MetaInt (job_attempt_count job)), (''worker_id'', MetaText (q_worker q))] s2;
                 s4 = (case job_batch job of None \<Rightarrow> s3
                       | Some b \<Rightarrow> refresh_batch_counters (job_user job) b now s3)
             in Inr (claimed @ [(job, item)], s4)))"

definition claim_tx ::
  "commerce_queue \<Rightarrow> (uid \<Rightarrow> string) \<Rightarrow> time \<Rightarrow> time \<Rightarrow> nat \<Rightarrow> duration \<Rightarrow> commerce_db \<Rightarrow>
     commerce_error + job_snapshot list \<times> commerce_db" where
  "claim_tx q token sel_now now limit lease_duration s =
     fold_result (claim_one q token now lease_duration) (claimable_job_ids sel_now limit s) ([], s)"

section \<open>Heartbeats\<close>

definition batch_cancel_requested :: "commerce_job \<Rightarrow> commerce_db \<Rightarrow> bool option" where
  "batch_cancel_requested job s =
     (case job_batch job of
        None \<Rightarrow> Some False
      | Some b \<Rightarrow> map_option (\<lambda>x. bat_cancel_requested_at x \<noteq> None)
          (first_where (\<lambda>x. bat_id x = b \<and> bat_user x = job_user job) (batches s)))"

definition item_cancel_requested :: "commerce_job \<Rightarrow> commerce_db \<Rightarrow> bool option" where
  "item_cancel_requested job s =
     (case job_item job of
        None \<Rightarrow> Some False
      | Some i \<Rightarrow> map_option (\<lambda>x. itm_cancel_requested_at x \<noteq> None)
          (first_where (\<lambda>x. itm_id x = i \<and> itm_user x = job_user job) (items s)))"

definition heartbeat_tx ::
  "lease_identity \<Rightarrow> time \<Rightarrow> duration \<Rightarrow> commerce_db \<Rightarrow> commerce_error + bool \<times> commerce_db" where
  "heartbeat_tx lease now lease_duration s =
     and_then (load_running_leased_job lease s) (\<lambda>job.
     let canceled = job_cancel_requested_at job \<noteq> None \<or> batch_cancel_requested job s = Some True
     in case item_cancel_requested job s of
       None \<Rightarrow> Inl ErrRecordNotFound
     | Some c \<Rightarrow>
         and_then (update_leased lease None
             (\<lambda>j. j\<lparr>job_heartbeat_at := Some now, job_lease_expires_at := Some (now + lease_duration)\<rparr>)
             ErrLeaseMismatch s) (\<lambda>s1.
         Inr (canceled \<or> c, emit_commerce_event job ''job_heartbeat''
           [(''cancel_requested'', MetaBool (canceled \<or> c))] s1)))"

definition heartbeat ::
  "commerce_queue \<Rightarrow> lease_identity \<Rightarrow> time \<Rightarrow> duration \<Rightarrow> commerce_db \<Rightarrow> (commerce_error + bool) \<times> commerce_db" where
  "heartbeat q lease now lease_duration s =
     (case validate_queue q of
        Inl e \<Rightarrow> (Inl e, s)
      | Inr _ \<Rightarrow> if lease_duration \<le> 0 then (Inl ErrLeaseDuration, s)
          else run_tx (heartbeat_tx lease now lease_duration) s)"

section \<open>Completion\<close>

definition discard_late_result_tx ::
  "commerce_queue \<Rightarrow> commerce_job \<Rightarrow> job_result \<Rightarrow> commerce_db \<Rightarrow> commerce_error + commerce_db" where
  "discard_late_result_tx q job result s =
     (case (jr_execution result, q_discard q) of
        (Some r, Some d) \<Rightarrow> d job r s | _ \<Rightarrow> Inr s)"

text \<open>A result that arrives after a cancellation is discarded and the job is canceled.\<close>

definition discard_and_cancel_tx ::
  "commerce_queue \<Rightarrow> commerce_job \<Rightarrow> lease_identity \<Rightarrow> job_result \<Rightarrow> time \<Rightarrow> commerce_db \<Rightarrow>
     commerce_error + commerce_db" where
  "discard_and_cancel_tx q job lease result now s =
     and_then (discard_late_result_tx q job result s)
       (cancel_leased_job_tx q job lease ''late_result_discarded'' now None)"

definition settle_request_of :: "commerce_generation_item \<Rightarrow> int \<Rightarrow> settle_request" where
  "settle_request_of item actual =
     \<lparr>sr_user = itm_user item, sr_project = itm_project item, sr_batch = itm_batch item,
      sr_reservation = itm_reservation item, sr_item = itm_id item, sr_held = itm_reserved item,
      sr_actual = actual, sr_idempotency_key = item_key (itm_id item) ''settle''\<rparr>"

definition settle_hold ::
  "credit_ledger_ops option \<Rightarrow> commerce_generation_item \<Rightarrow> int \<Rightarrow> commerce_db \<Rightarrow> commerce_error + commerce_db" where
  "settle_hold ledger item actual s =
     (case ledger of
        Some L \<Rightarrow> op_settle L (settle_request_of item actual) s
      | None \<Rightarrow>
          let settled = (if actual > itm_reserved item then itm_reserved item else actual);
              settled = (if settled < 0 then 0 else settled)
          in Inr (update_items (\<lambda>i. itm_id i = itm_id item)
               (\<lambda>i. i\<lparr>itm_settled := settled, itm_released := itm_reserved item - settled\<rparr>) s))"

definition succeeded_item :: "execution_result \<Rightarrow> time \<Rightarrow> commerce_generation_item \<Rightarrow> commerce_generation_item" where
  "succeeded_item r now i =
     i\<lparr>itm_status := ItemSucceeded, itm_progress := 100, itm_finished_at := Some now,
       itm_error_code := '''', itm_error_message := '''',
       itm_record := (if er_record r \<noteq> 0 then Some (er_record r) else itm_record i),
       itm_work := (if er_work r \<noteq> 0 then Some (er_work r) else itm_work i)\<rparr>"

definition succeed_job_tx ::
  "commerce_queue \<Rightarrow> commerce_job \<Rightarrow> lease_identity \<Rightarrow> job_result \<Rightarrow> time \<Rightarrow> commerce_db \<Rightarrow>
     commerce_error + commerce_db" where
  "succeed_job_tx q job lease result now s =
     and_then (update_leased lease None
         (\<lambda>j. (clear_lease j)\<lparr>job_status := JobSucceeded, job_finished_at := Some now,
                job_result := jr_metadata result\<rparr>) ErrLeaseMismatch s) (\<lambda>s1.
     after_job_terminal_tx q (job\<lparr>job_status := JobSucceeded\<rparr>) now
       (emit_commerce_event job ''job_succeeded'' [] s1))"

definition complete_item_tx ::
  "commerce_queue \<Rightarrow> commerce_job \<Rightarrow> lease_identity \<Rightarrow> job_result \<Rightarrow> execution_result \<Rightarrow>
     commerce_generation_item \<Rightarrow> time \<Rightarrow> commerce_db \<Rightarrow> commerce_error + commerce_db" where
  "complete_item_tx q job lease result r item now s =
     (let hit = (\<lambda>i. itm_id i = itm_id item \<and> itm_user i = itm_user item \<and> itm_status i = ItemRunning \<and>
            itm_cancel_requested_at i = None)
      in if count_where hit (items s) \<noteq> 1
         then case first_where (\<lambda>i. itm_id i = itm_id item \<and> itm_user i = itm_user item) (items s) of
             None \<Rightarrow> Inl ErrRecordNotFound
           | Some current \<Rightarrow>
               if itm_cancel_requested_at current \<noteq> None
               then discard_and_cancel_tx q job lease result now s
               else Inl ErrInvalidItemTransition
         else and_then (settle_hold (queue_ledger q) item (er_actual_credits r)
                (update_items hit (succeeded_item r now) s)) (\<lambda>s1.
              succeed_job_tx q job lease result now
                (emit_commerce_event job ''item_settled''
                  [(''item_id'', MetaInt (int (itm_id item))),
                   (''actual_credits'', MetaInt (er_actual_credits r))] s1)))"

definition complete_tx ::
  "commerce_queue \<Rightarrow> lease_identity \<Rightarrow> job_result \<Rightarrow> time \<Rightarrow> commerce_db \<Rightarrow>
     commerce_error + commerce_job \<times> commerce_db" where
  "complete_tx q lease result now s =
     and_then (load_running_leased_job lease s) (\<lambda>job.
     and_then
       (if job_cancel_requested_at job \<noteq> None then discard_and_cancel_tx q job lease result now s
        else if job_kind job \<noteq> generate_item_kind then succeed_job_tx q job lease result now s
        else case (job_item job, jr_execution result) of
          (Some i, Some r) \<Rightarrow>
            (case first_where (\<lambda>x. itm_id x = i \<and> itm_user x = job_user job) (items s) of
               None \<Rightarrow> Inl ErrRecordNotFound
             | Some item \<Rightarrow>
                 if itm_cancel_requested_at item \<noteq> None
                 then discard_and_cancel_tx q job lease result now s
                 else complete_item_tx q job lease result r item now s)
        | _ \<Rightarrow> Inl ErrGenerationItemRequired)
       (\<lambda>s1. Inr (job, s1)))"

text \<open>A terminal job gives its project the occasion to be removed.\<close>

definition finish_operation ::
  "commerce_queue \<Rightarrow> time \<Rightarrow> (commerce_db \<Rightarrow> commerce_error + commerce_job option \<times> commerce_db) \<Rightarrow>
     commerce_db \<Rightarrow> (commerce_error + unit) \<times> commerce_db" where
  "finish_operation q now body s =
     (case validate_queue q of
        Inl e \<Rightarrow> (Inl e, s)
      | Inr _ \<Rightarrow>
          (case run_tx body s of
             (Inl e, s') \<Rightarrow> (Inl e, s')
           | (Inr None, s') \<Rightarrow> (Inr (), s')
           | (Inr (Some job), s') \<Rightarrow>
               (Inr (), finalize_project_deletion_best_effort q (job_user job) (job_project job) now s')))"

definition complete ::
  "commerce_queue \<Rightarrow> lease_identity \<Rightarrow> job_result \<Rightarrow> time \<Rightarrow> commerce_db \<Rightarrow>
     (commerce_error + unit) \<times> commerce_db" where
  "complete q lease result now =
     finish_operation q now (\<lambda>s. and_then (complete_tx q lease result now s) (\<lambda>(job, s'). Inr (Some job, s')))"

section \<open>Failure and cancellation\<close>

definition retry_item ::
  "commerce_job \<Rightarrow> string \<Rightarrow> string \<Rightarrow> commerce_db \<Rightarrow> nat \<times> commerce_db" where
  "retry_item job code msg s =
     (case job_item job of
        None \<Rightarrow> (1, s)
      | Some i \<Rightarrow>
          let hit = (\<lambda>x. itm_id x = i \<and> itm_user x = job_user job \<and> itm_status x = ItemRunning)
          in (count_where hit (items s),
              update_items hit (\<lambda>x. x\<lparr>itm_status := ItemRetrying, itm_error_code := code,
                                       itm_error_message := msg\<rparr>) s))"

definition retry_row :: "time \<Rightarrow> string \<Rightarrow> string \<Rightarrow> commerce_job \<Rightarrow> commerce_job" where
  "retry_row due code msg j =
     (clear_lease j)\<lparr>job_status := JobRetrying, job_next_attempt_at := Some due,
       job_error_code := code, job_error_message := msg\<rparr>"

definition fail_tx ::
  "commerce_queue \<Rightarrow> lease_identity \<Rightarrow> execution_failure \<Rightarrow> time \<Rightarrow> rat option \<Rightarrow> commerce_db \<Rightarrow>
     commerce_error + commerce_job option \<times> commerce_db" where
  "fail_tx q lease failure now jitter s =
     and_then (load_running_leased_job lease s) (\<lambda>job.
     if job_cancel_requested_at job \<noteq> None
     then and_then (cancel_leased_job_tx q job lease ''worker_canceled'' now None s) (\<lambda>s1. Inr (Some job, s1))
     else if ef_retryable failure \<and> job_attempt_count job < job_max_attempts job
     then
       let next = now + retry_delay (job_attempt_count job) jitter;
           (hits, s1) = retry_item job (ef_code failure) (ef_message failure) s
       in if hits \<noteq> 1 then Inl ErrInvalidItemTransition
          else and_then (update_leased lease None (retry_row next (ef_code failure) (ef_message failure))
                 ErrLeaseMismatch s1) (\<lambda>s2.
            let s3 = emit_commerce_event job ''job_retry_scheduled''
                  [(''attempt'', MetaInt (job_attempt_count job)), (''next_attempt_at'', MetaTime next)] s2
            in Inr (None, case job_batch job of None \<Rightarrow> s3
                 | Some b \<Rightarrow> refresh_batch_counters (job_user job) b now s3))
     else and_then (dead_letter_leased_job_tx q job lease failure now None s) (\<lambda>s1. Inr (Some job, s1)))"

definition fail ::
  "commerce_queue \<Rightarrow> lease_identity \<Rightarrow> execution_failure \<Rightarrow> time \<Rightarrow> rat option \<Rightarrow> commerce_db \<Rightarrow>
     (commerce_error + unit) \<times> commerce_db" where
  "fail q lease failure now jitter = finish_operation q now (fail_tx q lease failure now jitter)"

definition cancel ::
  "commerce_queue \<Rightarrow> lease_identity \<Rightarrow> string \<Rightarrow> time \<Rightarrow> commerce_db \<Rightarrow> (commerce_error + unit) \<times> commerce_db" where
  "cancel q lease reason now = finish_operation q now (\<lambda>s.
     and_then (load_running_leased_job lease s) (\<lambda>job.
     and_then (cancel_leased_job_tx q job lease reason now None s) (\<lambda>s1. Inr (Some job, s1))))"

section \<open>Recovery of expired leases\<close>

definition lease_expired :: "time \<Rightarrow> commerce_job \<Rightarrow> bool" where
  "lease_expired now j \<longleftrightarrow> job_status j = JobRunning \<and>
     (case job_lease_expires_at j of None \<Rightarrow> False | Some t \<Rightarrow> t < now)"

text \<open>\<^verbatim>\<open>ORDER BY lease_expires_at ASC, id ASC LIMIT\<close>.\<close>

definition expired_job_ids :: "time \<Rightarrow> nat \<Rightarrow> commerce_db \<Rightarrow> uid list" where
  "expired_job_ids now limit s =
     take limit (map job_id (sort_key (\<lambda>j. the (job_lease_expires_at j))
       (sort_key job_id (filter (lease_expired now) (jobs s)))))"

definition recover_retry_tx ::
  "commerce_job \<Rightarrow> time \<Rightarrow> rat option \<Rightarrow> commerce_db \<Rightarrow> commerce_error + commerce_db" where
  "recover_retry_tx job now jitter s =
     (let next = now + retry_delay (job_attempt_count job) jitter;
          s1 = snd (retry_item job ''lease_expired'' ''worker lease expired'' s);
          lease = \<lparr>ls_job = job_id job, ls_owner = job_lease_owner job, ls_token = job_lease_token job\<rparr>
      in and_then (update_leased lease (Some now) (retry_row next ''lease_expired'' ''worker lease expired'')
            ErrLeaseRecoveryLost s1) (\<lambda>s2.
         let s3 = emit_commerce_event job ''job_retry_scheduled''
               [(''attempt'', MetaInt (job_attempt_count job)), (''next_attempt_at'', MetaTime next),
                (''reason'', MetaText ''lease_expired'')] s2
         in Inr (case job_batch job of None \<Rightarrow> s3
              | Some b \<Rightarrow> refresh_batch_counters (job_user job) b now s3)))"

definition recover_one_tx ::
  "commerce_queue \<Rightarrow> (uid \<Rightarrow> rat option) \<Rightarrow> time \<Rightarrow> uid \<Rightarrow> commerce_db \<Rightarrow>
     commerce_error + commerce_job option \<times> commerce_db" where
  "recover_one_tx q jitter now k s =
     (case first_where (\<lambda>j. job_id j = k \<and> lease_expired now j) (jobs s) of
        None \<Rightarrow> Inr (None, s)
      | Some job \<Rightarrow>
          let lease = \<lparr>ls_job = job_id job, ls_owner = job_lease_owner job, ls_token = job_lease_token job\<rparr>
          in case (batch_cancel_requested job s, item_cancel_requested job s) of
            (Some b, Some c) \<Rightarrow>
              if job_cancel_requested_at job \<noteq> None \<or> b \<or> c
              then and_then (cancel_leased_job_tx q job lease ''cancel_requested'' now (Some now) s)
                (\<lambda>s1. Inr (Some job, s1))
              else if job_attempt_count job < job_max_attempts job
              then and_then (recover_retry_tx job now (jitter k) s) (\<lambda>s1. Inr (None, s1))
              else and_then (dead_letter_leased_job_tx q job lease
                  \<lparr>ef_code = ''max_attempts_exceeded'',
                   ef_message = ''worker lease expired after maximum attempts'',
                   ef_retryable = False, ef_result_unknown = False\<rparr> now (Some now) s)
                (\<lambda>s1. Inr (Some job, s1))
          | _ \<Rightarrow> Inl ErrRecordNotFound)"

text \<open>
  Each expired job is recovered in a transaction of its own; a lost race is skipped, any other
  error ends the loop with what has been done so far.
\<close>

fun recover_loop ::
  "commerce_queue \<Rightarrow> (uid \<Rightarrow> rat option) \<Rightarrow> time \<Rightarrow> uid list \<Rightarrow> commerce_db \<Rightarrow> (commerce_error + unit) \<times> commerce_db" where
  "recover_loop q jitter now [] s = (Inr (), s)"
| "recover_loop q jitter now (k # ks) s =
     (case run_tx (recover_one_tx q jitter now k) s of
        (Inl e, s') \<Rightarrow> if e = ErrLeaseRecoveryLost \<or> e = ErrLeaseMismatch
          then recover_loop q jitter now ks s' else (Inl e, s')
      | (Inr None, s') \<Rightarrow> recover_loop q jitter now ks s'
      | (Inr (Some job), s') \<Rightarrow> recover_loop q jitter now ks
          (finalize_project_deletion_best_effort q (job_user job) (job_project job) now s'))"

definition clamp_limit :: "int \<Rightarrow> nat" where
  "clamp_limit limit = nat (if limit \<le> 0 \<or> limit > 100 then 100 else limit)"

fun reconcile_loop :: "time \<Rightarrow> (uid \<times> uid) list \<Rightarrow> commerce_db \<Rightarrow> (commerce_error + unit) \<times> commerce_db" where
  "reconcile_loop now [] s = (Inr (), s)"
| "reconcile_loop now ((user, project) # ps) s =
     (case finalize_project_deletion_tx user project now s of
        Inl e \<Rightarrow> (Inl e, s) | Inr s' \<Rightarrow> reconcile_loop now ps s')"

definition reconcile_project_deletions ::
  "commerce_queue \<Rightarrow> int \<Rightarrow> time \<Rightarrow> commerce_db \<Rightarrow> (commerce_error + unit) \<times> commerce_db" where
  "reconcile_project_deletions q limit now s =
     (case validate_queue q of
        Inl e \<Rightarrow> (Inl e, s)
      | Inr _ \<Rightarrow> if q_service q = None then (Inr (), s)
          else reconcile_loop now
            (take (clamp_limit limit) (map (\<lambda>p. (prj_user p, prj_id p)) (sort_key prj_id
              (filter (\<lambda>p. prj_status p = ''deletion_requested'' \<and> prj_deletion_requested_at p \<noteq> None \<and>
                 prj_deleted_at p = None) (projects s))))) s)"

definition recover_expired ::
  "commerce_queue \<Rightarrow> (uid \<Rightarrow> rat option) \<Rightarrow> int \<Rightarrow> time \<Rightarrow> commerce_db \<Rightarrow> (commerce_error + unit) \<times> commerce_db" where
  "recover_expired q jitter limit now s =
     (case validate_queue q of
        Inl e \<Rightarrow> (Inl e, s)
      | Inr _ \<Rightarrow>
          (case recover_loop q jitter now (expired_job_ids now (clamp_limit limit) s) s of
             (Inl e, s') \<Rightarrow> (Inl e, s')
           | (Inr _, s') \<Rightarrow> (Inr (), snd (reconcile_project_deletions q (int (clamp_limit limit)) now s'))))"

section \<open>The whole claim\<close>

text \<open>
  The recovery and the claim each read the clock: \<open>now0\<close> and \<open>now\<close>. On an error the code also
  returns the jobs claimed so far, whose claims are rolled back; its only caller ignores them.
\<close>

definition claim ::
  "commerce_queue \<Rightarrow> (uid \<Rightarrow> string) \<Rightarrow> (uid \<Rightarrow> rat option) \<Rightarrow> time \<Rightarrow> time \<Rightarrow> time \<Rightarrow> int \<Rightarrow> duration \<Rightarrow>
     commerce_db \<Rightarrow> (commerce_error + job_snapshot list) \<times> commerce_db" where
  "claim q token jitter now0 sel_now now limit lease_duration s =
     (case validate_queue q of
        Inl e \<Rightarrow> (Inl e, s)
      | Inr _ \<Rightarrow>
          if limit \<le> 0 then (Inr [], s)
          else if lease_duration \<le> 0 then (Inl ErrLeaseDuration, s)
          else (case recover_expired q jitter limit now0 s of
             (Inl e, s') \<Rightarrow> (Inl e, s')
           | (Inr _, s') \<Rightarrow>
               run_tx (claim_tx q token sel_now now (nat (if limit > 100 then 100 else limit)) lease_duration) s'))"

end
