(* ===== verification/WorkState.thy ===== *)
theory WorkState
  imports Queue
begin

text \<open>
  The invariant that ties jobs, items and batches together. It reads only part of an item, its
  view; the ledger and the batch counters leave that part alone. Every operation changes the
  rows of one job and of its item; the lemmas here say when such a change keeps the invariant.
\<close>

section \<open>The view of an item\<close>

record item_view =
  iv_id :: uid
  iv_user :: uid
  iv_project :: uid
  iv_batch :: uid
  iv_reservation :: uid
  iv_reserved :: int
  iv_status :: item_status
  iv_cancel :: "time option"

definition view_item :: "commerce_generation_item \<Rightarrow> item_view" where
  "view_item i = \<lparr>iv_id = itm_id i, iv_user = itm_user i, iv_project = itm_project i, iv_batch = itm_batch i,
     iv_reservation = itm_reservation i, iv_reserved = itm_reserved i, iv_status = itm_status i,
     iv_cancel = itm_cancel_requested_at i\<rparr>"

definition view_items :: "commerce_db \<Rightarrow> item_view list" where
  "view_items s = map view_item (items s)"

definition batch_keys :: "commerce_db \<Rightarrow> (uid \<times> uid \<times> string) list" where
  "batch_keys s = map (\<lambda>b. (bat_id b, bat_user b, bat_idempotency_key b)) (batches s)"

interpretation iv_tab: keyed_table iv_id .

lemma view_item_simps [simp]:
  "iv_id (view_item i) = itm_id i" "iv_user (view_item i) = itm_user i" "iv_project (view_item i) = itm_project i"
  "iv_batch (view_item i) = itm_batch i" "iv_reservation (view_item i) = itm_reservation i"
  "iv_reserved (view_item i) = itm_reserved i" "iv_status (view_item i) = itm_status i"
  "iv_cancel (view_item i) = itm_cancel_requested_at i"
  by (simp_all add: view_item_def)

lemma view_item_core: "view_item (item_core i) = view_item i"
  by (simp add: view_item_def item_core_def)

lemma view_item_updated [simp]: "view_item (i\<lparr>itm_updated_at := t\<rparr>) = view_item i"
  by (simp add: view_item_def)

lemma view_unique: "iv_tab.unique (view_items s) = itm_tab.unique (items s)"
  by (simp add: iv_tab.unique_def itm_tab.unique_def view_items_def comp_def)

lemma view_items_I: "i \<in> set (items s) \<Longrightarrow> view_item i \<in> set (view_items s)"
  by (simp add: view_items_def)

lemma view_items_E:
  assumes "v \<in> set (view_items s)" obtains i where "i \<in> set (items s)" "v = view_item i"
  using assms by (auto simp: view_items_def)

text \<open>What a statement may leave alone: jobs, item views, batch keys.\<close>

definition work_frame :: "commerce_db \<Rightarrow> commerce_db \<Rightarrow> bool" where
  "work_frame s s' \<longleftrightarrow> jobs s' = jobs s \<and> view_items s' = view_items s \<and> batch_keys s' = batch_keys s"

lemma work_frame_refl [simp]: "work_frame s s"
  by (simp add: work_frame_def)

lemma work_frame_trans [trans]: "work_frame a b \<Longrightarrow> work_frame b c \<Longrightarrow> work_frame a c"
  by (simp add: work_frame_def)

lemma ledger_work_frame:
  assumes "ledger_frame s s'" shows "work_frame s s'"
proof -
  have "map view_item (map item_core (items s')) = map view_item (map item_core (items s))"
    using assms by (simp add: ledger_frame_def)
  then show ?thesis
    using assms by (simp add: ledger_frame_def work_frame_def batch_keys_def view_items_def view_item_core comp_def)
qed

lemma refresh_work_frame [simp]: "work_frame s (refresh_batch_counters u k now s') = work_frame s s'"
proof -
  have "batch_keys (refresh_batch_counters u k now s') = batch_keys s'"
    by (simp add: batch_keys_def batches_refresh map_update_where)
  then show ?thesis by (simp add: work_frame_def view_items_def)
qed

lemma event_work_frame [simp]: "work_frame s (insert_event e s') = work_frame s s'"
  by (simp add: work_frame_def insert_event_def view_items_def batch_keys_def)

lemma emit_work_frame [simp]: "work_frame s (emit_commerce_event j k m s') = work_frame s s'"
  by (simp add: emit_commerce_event_def)

lemma view_items_jobs [simp]: "view_items (s\<lparr>jobs := js\<rparr>) = view_items s"
  by (simp add: view_items_def)

lemma batch_keys_jobs [simp]: "batch_keys (s\<lparr>jobs := js\<rparr>) = batch_keys s"
  by (simp add: batch_keys_def)

lemma batch_keys_items [simp]: "batch_keys (s\<lparr>items := is\<rparr>) = batch_keys s"
  by (simp add: batch_keys_def)

text \<open>The keys under which a batch reserves its credits.\<close>

definition batch_key_known :: "uid \<Rightarrow> string \<Rightarrow> (uid \<times> uid \<times> string) list \<Rightarrow> bool" where
  "batch_key_known u key bs \<longleftrightarrow> (\<exists>(b, v, name) \<in> set bs. v = u \<and>
     (key = ''commerce:batch:'' @ name \<or> key = ''commerce:retry:'' @ name))"

section \<open>Coupling\<close>

text \<open>
  A job of kind \<^verbatim>\<open>generate_item\<close> and its item have the same status; while the job
  waits no cancellation is requested, and while it runs a cancellation is requested on both or
  on neither.
\<close>

fun item_status_of :: "job_status \<Rightarrow> item_status" where
  "item_status_of JobQueued = ItemQueued"
| "item_status_of JobRunning = ItemRunning"
| "item_status_of JobRetrying = ItemRetrying"
| "item_status_of JobSucceeded = ItemSucceeded"
| "item_status_of JobFailed = ItemFailed"
| "item_status_of JobCanceled = ItemCanceled"

definition couple :: "commerce_job \<Rightarrow> item_view \<Rightarrow> bool" where
  "couple j v \<longleftrightarrow> iv_user v = job_user j \<and> iv_project v = job_project j \<and> job_batch j = Some (iv_batch v) \<and>
     iv_status v = item_status_of (job_status j) \<and>
     (job_waiting (job_status j) \<longrightarrow> job_cancel_requested_at j = None \<and> iv_cancel v = None) \<and>
     (job_status j = JobRunning \<longrightarrow> (job_cancel_requested_at j = None \<longleftrightarrow> iv_cancel v = None))"

text \<open>A job by itself: its attempts are bounded and it holds a lease exactly while it runs.\<close>

definition job_row_ok :: "commerce_job \<Rightarrow> bool" where
  "job_row_ok j \<longleftrightarrow> job_id j \<noteq> 0 \<and> 0 \<le> job_attempt_count j \<and> job_attempt_count j \<le> job_max_attempts j \<and>
     0 < job_max_attempts j \<and>
     (job_waiting (job_status j) \<longrightarrow> job_attempt_count j < job_max_attempts j) \<and>
     (job_status j = JobRunning \<longleftrightarrow> job_lease_expires_at j \<noteq> None) \<and>
     (job_status j = JobRunning \<longrightarrow> \<not> blank (job_lease_owner j) \<and> \<not> blank (job_lease_token j)) \<and>
     (job_kind j = generate_item_kind \<longleftrightarrow> job_item j \<noteq> None)"

definition coupled_rows :: "commerce_job list \<Rightarrow> item_view list \<Rightarrow> (uid \<times> uid \<times> string) list \<Rightarrow> bool" where
  "coupled_rows js vs bs \<longleftrightarrow> job_tab.unique js \<and> iv_tab.unique vs \<and>
     (\<forall>j \<in> set js. job_row_ok j) \<and>
     (\<forall>j \<in> set js. \<forall>b. job_batch j = Some b \<longrightarrow> (\<exists>key. (b, job_user j, key) \<in> set bs)) \<and>
     (\<forall>j \<in> set js. \<forall>i. job_item j = Some i \<longrightarrow> (\<exists>v \<in> set vs. iv_id v = i \<and> couple j v)) \<and>
     (\<forall>j \<in> set js. \<forall>j' \<in> set js. job_item j = job_item j' \<longrightarrow> job_item j \<noteq> None \<longrightarrow> j = j') \<and>
     (\<forall>v \<in> set vs. \<exists>j \<in> set js. job_item j = Some (iv_id v))"

definition coupled :: "commerce_db \<Rightarrow> bool" where
  "coupled s \<longleftrightarrow> coupled_rows (jobs s) (view_items s) (batch_keys s)"

lemma coupled_frame: "work_frame s s' \<Longrightarrow> coupled s' = coupled s"
  by (simp add: coupled_def work_frame_def)

lemma coupledD:
  assumes "coupled s"
  shows "job_tab.unique (jobs s)" "itm_tab.unique (items s)"
    "j \<in> set (jobs s) \<Longrightarrow> job_row_ok j"
    "j \<in> set (jobs s) \<Longrightarrow> job_batch j = Some b \<Longrightarrow> (\<exists>key. (b, job_user j, key) \<in> set (batch_keys s))"
    "j \<in> set (jobs s) \<Longrightarrow> j' \<in> set (jobs s) \<Longrightarrow> job_item j = Some i \<Longrightarrow> job_item j' = Some i \<Longrightarrow> j = j'"
  using assms by (auto simp: coupled_def coupled_rows_def view_unique)

lemma coupled_item:
  assumes "coupled s" and "j \<in> set (jobs s)" and "job_item j = Some i"
  obtains x where "x \<in> set (items s)" "itm_id x = i" "couple j (view_item x)"
proof -
  have "\<exists>v \<in> set (view_items s). iv_id v = i \<and> couple j v"
    using assms by (auto simp: coupled_def coupled_rows_def)
  with that show thesis by (auto elim!: view_items_E)
qed

lemma coupled_job:
  assumes "coupled s" and "x \<in> set (items s)"
  obtains j where "j \<in> set (jobs s)" "job_item j = Some (itm_id x)" "couple j (view_item x)"
proof -
  obtain j where j: "j \<in> set (jobs s)" "job_item j = Some (itm_id x)"
    using assms view_items_I [of x s] by (fastforce simp: coupled_def coupled_rows_def)
  then obtain y where "y \<in> set (items s)" "itm_id y = itm_id x" "couple j (view_item y)"
    using assms(1) by (auto elim: coupled_item)
  moreover from this have "y = x" using itm_tab.unique_same [OF coupledD(2)] assms by metis
  ultimately show thesis using j that by blast
qed

section \<open>Changing a job and its item\<close>

definition same_job :: "commerce_job \<Rightarrow> commerce_job \<Rightarrow> bool" where
  "same_job j j' \<longleftrightarrow> job_id j' = job_id j \<and> job_user j' = job_user j \<and> job_project j' = job_project j \<and>
     job_batch j' = job_batch j \<and> job_item j' = job_item j \<and> job_kind j' = job_kind j"

definition same_item :: "item_view \<Rightarrow> item_view \<Rightarrow> bool" where
  "same_item v v' \<longleftrightarrow> iv_id v' = iv_id v \<and> iv_user v' = iv_user v \<and> iv_project v' = iv_project v \<and>
     iv_batch v' = iv_batch v \<and> iv_reservation v' = iv_reservation v \<and> iv_reserved v' = iv_reserved v"

lemma put_item_unique:
  assumes u: "\<forall>j \<in> J. \<forall>j' \<in> J. job_item j = job_item j' \<longrightarrow> job_item j \<noteq> None \<longrightarrow> j = j'"
    and j: "j \<in> J" "job_item j' = job_item j" and k: "k \<in> insert j' (J - {j})" "k' \<in> insert j' (J - {j})"
    and eq: "job_item k = job_item k'" "job_item k \<noteq> None"
  shows "k = k'"
proof -
  have key: "l \<in> J - {j} \<Longrightarrow> job_item l \<noteq> None \<Longrightarrow> job_item l \<noteq> job_item j" for l
    using u j(1) by blast
  consider "k = j'" "k' = j'" | "k = j'" "k' \<in> J - {j}" | "k \<in> J - {j}" "k' = j'" | "k \<in> J" "k' \<in> J"
    using k by blast
  then show ?thesis
  proof cases
    case 2
    then show ?thesis using key [of k'] eq j(2) by simp
  next
    case 3
    then show ?thesis using key [of k] eq j(2) by simp
  next
    case 4
    then show ?thesis using u eq by blast
  qed simp
qed

lemma coupled_rowsD:
  assumes "coupled_rows js vs bs"
  shows "job_tab.unique js" "iv_tab.unique vs" "j \<in> set js \<Longrightarrow> job_row_ok j"
    "j \<in> set js \<Longrightarrow> job_batch j = Some b \<Longrightarrow> (\<exists>key. (b, job_user j, key) \<in> set bs)"
    "j \<in> set js \<Longrightarrow> job_item j = Some i \<Longrightarrow> \<exists>v \<in> set vs. iv_id v = i \<and> couple j v"
    "\<forall>j \<in> set js. \<forall>j' \<in> set js. job_item j = job_item j' \<longrightarrow> job_item j \<noteq> None \<longrightarrow> j = j'"
    "v \<in> set vs \<Longrightarrow> \<exists>j \<in> set js. job_item j = Some (iv_id v)"
  using assms unfolding coupled_rows_def by blast+

text \<open>The clauses that concern the jobs alone, after a job is replaced.\<close>

lemma replaced_jobs:
  assumes c: "coupled_rows js vs bs" and j: "j \<in> set js" and s: "same_job j j'" and ok: "job_row_ok j'"
  defines "js' \<equiv> job_tab.put j' js"
  shows "set js' = insert j' (set js - {j})" "job_tab.unique js'" "\<forall>k \<in> set js'. job_row_ok k"
    "\<forall>k \<in> set js'. \<forall>b. job_batch k = Some b \<longrightarrow> (\<exists>key. (b, job_user k, key) \<in> set bs)"
    "\<forall>k \<in> set js'. \<forall>k' \<in> set js'. job_item k = job_item k' \<longrightarrow> job_item k \<noteq> None \<longrightarrow> k = k'"
    "k \<in> set js \<Longrightarrow> \<exists>k' \<in> set js'. job_item k' = job_item k"
proof -
  show set: "set js' = insert j' (set js - {j})"
    unfolding js'_def using coupled_rowsD(1) [OF c] j s by (intro job_tab.set_put) (simp_all add: same_job_def)
  show "job_tab.unique js'" using coupled_rowsD(1) [OF c] by (simp add: js'_def)
  show "\<forall>k \<in> set js'. job_row_ok k" using coupled_rowsD(3) [OF c] ok set by auto
  show "\<forall>k \<in> set js'. \<forall>b. job_batch k = Some b \<longrightarrow> (\<exists>key. (b, job_user k, key) \<in> set bs)"
    using coupled_rowsD(4) [OF c] j s set by (auto simp: same_job_def)
  have "job_item j' = job_item j" using s by (simp add: same_job_def)
  then show "\<forall>k \<in> set js'. \<forall>k' \<in> set js'. job_item k = job_item k' \<longrightarrow> job_item k \<noteq> None \<longrightarrow> k = k'"
    using put_item_unique [OF coupled_rowsD(6) [OF c] j] unfolding set by blast
  show "k \<in> set js \<Longrightarrow> \<exists>k' \<in> set js'. job_item k' = job_item k"
    using s set by (cases "k = j") (auto simp: same_job_def)
qed

lemma coupled_put_job:
  assumes c: "coupled_rows js vs bs" and j: "j \<in> set js" and s: "same_job j j'" and ok: "job_row_ok j'"
    and couple: "\<And>v. v \<in> set vs \<Longrightarrow> job_item j = Some (iv_id v) \<Longrightarrow> couple j v \<Longrightarrow> couple j' v"
  shows "coupled_rows (job_tab.put j' js) vs bs"
proof -
  note R = replaced_jobs [OF c j s ok]
  have "\<exists>v \<in> set vs. iv_id v = i \<and> couple k v" if k: "k \<in> set (job_tab.put j' js)" "job_item k = Some i" for k i
  proof (cases "k = j'")
    case True
    with k s have i: "job_item j = Some i" by (simp add: same_job_def)
    then obtain v where "v \<in> set vs" "iv_id v = i" "couple j v" using coupled_rowsD(5) [OF c j] by blast
    with True couple i show ?thesis by blast
  next
    case False
    with k R(1) have "k \<in> set js" by auto
    with k(2) show ?thesis using coupled_rowsD(5) [OF c] by blast
  qed
  moreover have "\<exists>k \<in> set (job_tab.put j' js). job_item k = Some (iv_id v)" if "v \<in> set vs" for v
    using coupled_rowsD(7) [OF c that] R(6) by metis
  ultimately show ?thesis using R(2-5) coupled_rowsD(2) [OF c] unfolding coupled_rows_def by blast
qed

lemma coupled_put_pair:
  assumes c: "coupled_rows js vs bs" and j: "j \<in> set js" and v: "v \<in> set vs" "job_item j = Some (iv_id v)"
    and s: "same_job j j'" "same_item v v'" and ok: "job_row_ok j'" and couple: "couple j' v'"
  shows "coupled_rows (job_tab.put j' js) (iv_tab.put v' vs) bs"
proof -
  note R = replaced_jobs [OF c j s(1) ok]
  have vs: "set (iv_tab.put v' vs) = insert v' (set vs - {v})"
    using coupled_rowsD(2) [OF c] v s by (intro iv_tab.set_put) (simp_all add: same_item_def)
  have "\<exists>w \<in> set (iv_tab.put v' vs). iv_id w = i \<and> couple k w"
    if k: "k \<in> set (job_tab.put j' js)" "job_item k = Some i" for k i
  proof (cases "k = j'")
    case True
    with k v s couple show ?thesis unfolding vs by (simp add: same_job_def same_item_def)
  next
    case False
    with k R(1) have k': "k \<in> set js" "k \<noteq> j" by auto
    then obtain w where w: "w \<in> set vs" "iv_id w = i" "couple k w" using coupled_rowsD(5) [OF c] k(2) by blast
    have "w \<noteq> v" using coupled_rowsD(6) [OF c] k(2) k' j v w(2) by (metis option.distinct(1))
    with w show ?thesis unfolding vs by blast
  qed
  moreover have "\<exists>k \<in> set (job_tab.put j' js). job_item k = Some (iv_id w)" if w: "w \<in> set (iv_tab.put v' vs)" for w
  proof -
    obtain w0 where "w0 \<in> set vs" "iv_id w0 = iv_id w"
      using w s(2) v(1) unfolding vs by (auto simp: same_item_def)
    then show ?thesis using coupled_rowsD(7) [OF c] R(6) by metis
  qed
  moreover have "iv_tab.unique (iv_tab.put v' vs)" using coupled_rowsD(2) [OF c] by simp
  ultimately show ?thesis using R(2-5) unfolding coupled_rows_def by blast
qed

end
