(* ===== verification/QueueSafety.thy ===== *)
theory QueueSafety
  imports WorkState
begin

text \<open>
  What the queue's operations do to a job and its item. The lemmas are proved for any credit
  ledger and any hooks that keep to their contract, in the locale \<open>queue_env\<close>.
\<close>

section \<open>Moving a job and its item\<close>

text \<open>
  The job \<open>job\<close> becomes \<open>job'\<close> and its item, if it has one, takes the same status; nothing
  else of the work state changes.
\<close>

definition moved :: "commerce_job \<Rightarrow> commerce_job \<Rightarrow> commerce_db \<Rightarrow> commerce_db \<Rightarrow> bool" where
  "moved job job' s s' \<longleftrightarrow> job \<in> set (jobs s) \<and> same_job job job' \<and>
     job_cancel_requested_at job' = job_cancel_requested_at job \<and>
     jobs s' = job_tab.put job' (jobs s) \<and> batch_keys s' = batch_keys s \<and>
     (case job_item job of
        None \<Rightarrow> view_items s' = view_items s
      | Some i \<Rightarrow> \<exists>x \<in> set (items s). itm_id x = i \<and> itm_user x = job_user job \<and>
          view_items s' = iv_tab.put ((view_item x)\<lparr>iv_status := item_status_of (job_status job')\<rparr>) (view_items s))"

lemma moved_coupled:
  assumes c: "coupled s" and m: "moved job job' s s'" and ok: "job_row_ok job'"
    and open_job: "job_open (job_status job)"
    and wait: "job_waiting (job_status job') \<Longrightarrow> job_cancel_requested_at job = None"
  shows "coupled s'"
proof -
  from m have j: "job \<in> set (jobs s)" "same_job job job'"
    "job_cancel_requested_at job' = job_cancel_requested_at job"
    and s': "jobs s' = job_tab.put job' (jobs s)" "batch_keys s' = batch_keys s"
    by (simp_all add: moved_def)
  have rows: "coupled_rows (jobs s) (view_items s) (batch_keys s)" using c by (simp add: coupled_def)
  show ?thesis
  proof (cases "job_item job")
    case None
    with m have "view_items s' = view_items s" by (simp add: moved_def)
    with None show ?thesis
      unfolding coupled_def s' using coupled_put_job [OF rows j(1,2) ok] by simp
  next
    case (Some i)
    with m obtain x where x: "x \<in> set (items s)" "itm_id x = i" "itm_user x = job_user job" and
      v: "view_items s' = iv_tab.put ((view_item x)\<lparr>iv_status := item_status_of (job_status job')\<rparr>) (view_items s)"
      by (auto simp: moved_def)
    obtain y where "y \<in> set (items s)" "itm_id y = i" and cp: "couple job (view_item y)"
      using coupled_item [OF c j(1) Some] .
    with x have "y = x" using itm_tab.unique_same [OF coupledD(2) [OF c]] by metis
    with cp have cp: "couple job (view_item x)" by simp
    have "couple job' ((view_item x)\<lparr>iv_status := item_status_of (job_status job')\<rparr>)"
      using cp j(2,3) open_job wait unfolding couple_def same_job_def job_open_def job_waiting_def by auto
    moreover have "same_item (view_item x) ((view_item x)\<lparr>iv_status := item_status_of (job_status job')\<rparr>)"
      by (simp add: same_item_def)
    ultimately show ?thesis
      unfolding coupled_def s' v using Some x
      by (intro coupled_put_pair [OF rows j(1) view_items_I [OF x(1)] _ j(2) _ ok]) simp_all
  qed
qed

section \<open>Statements on one row\<close>

lemma update_leased_Inr:
  assumes u: "job_tab.unique (jobs s)" and upd: "update_leased lease before f e s = Inr s'"
    and j: "j \<in> set (jobs s)" "leased_row lease j" and f: "job_id (f j) = job_id j"
  shows "s' = s\<lparr>jobs := job_tab.put (f j) (jobs s)\<rparr>" "expired_before before j"
proof -
  let ?P = "\<lambda>j. leased_row lease j \<and> expired_before before j"
  from upd have one: "count_where ?P (jobs s) = 1" and s': "s' = update_jobs ?P f s"
    by (auto simp: update_leased_def Let_def split: if_splits)
  obtain r where r: "r \<in> set (jobs s)" "?P r" using count_where_eq_1D [OF one] by blast
  then have "r = j" using j job_tab.unique_same [OF u] by (simp add: leased_row_def)
  with r show b: "expired_before before j" by simp
  have "update_where ?P f (jobs s) = job_tab.put (f j) (jobs s)"
    using j b f by (intro job_tab.update_put [OF u]) (auto simp: leased_row_def)
  with s' show "s' = s\<lparr>jobs := job_tab.put (f j) (jobs s)\<rparr>" by (simp add: update_jobs_def)
qed

lemma update_leased_e:
  assumes "job_tab.unique (jobs s)" and "j \<in> set (jobs s)" "leased_row lease j" "expired_before before j"
  shows "\<exists>s'. update_leased lease before f e s = Inr s'"
proof -
  have "count_where (\<lambda>j. leased_row lease j \<and> expired_before before j) (jobs s) = 1"
    using assms by (subst job_tab.count_one [of _ _ "job_id j"]) (auto simp: leased_row_def)
  then show ?thesis by (simp add: update_leased_def Let_def)
qed

lemma view_update_items:
  assumes u: "itm_tab.unique (items s)" and x: "x \<in> set (items s)" "P x"
    and key: "\<And>y. P y \<Longrightarrow> itm_id y = itm_id x" and f: "itm_id (f x) = itm_id x"
  shows "view_items (update_items P f s) = iv_tab.put (view_item (f x)) (view_items s)"
proof -
  let ?f = "\<lambda>i. (f i)\<lparr>itm_updated_at := clock s\<rparr>"
  have "update_where P ?f (items s) = itm_tab.put (?f x) (items s)"
    by (rule itm_tab.update_put [where P = P, OF u x key]) (simp_all add: f)
  then have "items (update_items P f s) = itm_tab.put (?f x) (items s)"
    by (simp add: update_items_def)
  then show ?thesis
    using f by (simp add: view_items_def itm_tab.put_def iv_tab.put_def update_where_def comp_def if_distrib cong: if_cong)
qed

text \<open>The same for a statement that sets the status of an item, some ledger call after it was read.\<close>

lemma view_set_status:
  assumes u: "itm_tab.unique (items s)" and w: "work_frame s s'" and x: "x \<in> set (items s)"
    and hit: "\<And>y. view_item y = view_item x \<Longrightarrow> P y" and key: "\<And>y. P y \<Longrightarrow> itm_id y = itm_id x"
    and f: "\<And>y. view_item (f y) = (view_item y)\<lparr>iv_status := st\<rparr>"
  shows "view_items (update_items P f s') = iv_tab.put ((view_item x)\<lparr>iv_status := st\<rparr>) (view_items s)"
proof -
  have v: "view_items s' = view_items s" using w by (simp add: work_frame_def)
  obtain y where y: "y \<in> set (items s')" "view_item y = view_item x"
    using view_items_I [OF x] v by (metis view_items_E)
  have "itm_tab.unique (items s')" using u v by (simp flip: view_unique)
  moreover have id: "itm_id (f y) = itm_id y" "itm_id y = itm_id x"
    using f [of y] y(2) by (metis view_item_simps(1) item_view.select_convs(1) item_view.update_convs(7)
        item_view.surjective)+
  ultimately have "view_items (update_items P f s') = iv_tab.put (view_item (f y)) (view_items s')"
    using key by (intro view_update_items y(1) hit [OF y(2)]) simp_all
  then show ?thesis by (simp add: f y(2) v)
qed

lemma update_items_other [simp]:
  "jobs (update_items P f s) = jobs s" "batch_keys (update_items P f s) = batch_keys s"
  "same_ledger s' (update_items P f s) = same_ledger s' s" "clock (update_items P f s) = clock s"
  "batches (update_items P f s) = batches s"
  by (simp_all add: update_items_def same_ledger_def batch_keys_def)

lemma update_jobs_other [simp]:
  "view_items (update_jobs P f s) = view_items s" "items (update_jobs P f s) = items s"
  "batch_keys (update_jobs P f s) = batch_keys s" "batches (update_jobs P f s) = batches s"
  "same_ledger s' (update_jobs P f s) = same_ledger s' s"
  by (simp_all add: update_jobs_def same_ledger_def)

lemma emit_other [simp]:
  "view_items (emit_commerce_event j k m s) = view_items s" "jobs (emit_commerce_event j k m s) = jobs s"
  "items (emit_commerce_event j k m s) = items s" "batch_keys (emit_commerce_event j k m s) = batch_keys s"
  "batches (emit_commerce_event j k m s) = batches s" "clock (emit_commerce_event j k m s) = clock s"
  by (simp_all add: emit_commerce_event_def insert_event_def view_items_def batch_keys_def)

lemma emit_frame_left [simp]:
  "work_frame (emit_commerce_event j k m s) s' = work_frame s s'"
  "same_ledger (emit_commerce_event j k m s) s' = same_ledger s s'"
  by (simp_all add: work_frame_def same_ledger_def emit_commerce_event_def insert_event_def
      view_items_def batch_keys_def)

lemma same_ledger_jobs [simp]: "same_ledger s' (s\<lparr>jobs := js\<rparr>) = same_ledger s' s"
  by (simp add: same_ledger_def)

lemma same_ledger_emit [simp]: "same_ledger s' (emit_commerce_event j k m s) = same_ledger s' s"
  by (simp add: emit_commerce_event_def)

lemma load_running_leased_job_Inr:
  "load_running_leased_job lease s = Inr j \<Longrightarrow> j \<in> set (jobs s) \<and> leased_row lease j"
  by (auto simp: load_running_leased_job_def split: if_splits option.splits dest: first_where_Some)

lemma count_item_one:
  assumes "itm_tab.unique (items s)" and "\<And>y. P y \<Longrightarrow> itm_id y = k"
  shows "count_where P (items s) = 1 \<longleftrightarrow> (\<exists>x \<in> set (items s). P x)"
  using assms by (rule itm_tab.count_one)

section \<open>The environment of a queue\<close>

text \<open>
  A queue whose service has a lawful credit ledger and whose hooks and discarder keep to their
  own tables.
\<close>

locale queue_env = credit_ledger +
  fixes q :: commerce_queue
  assumes ledger_set: "queue_ledger q = Some ledger"
    and worker_named: "\<not> blank (q_worker q)"
    and hook_frame: "q_hooks q kind = Some hook \<Longrightarrow> hook job now s = Inr s' \<Longrightarrow>
      work_frame s s' \<and> same_ledger s s'"
    and discard_frame: "q_discard q = Some d \<Longrightarrow> d job r s = Inr s' \<Longrightarrow> work_frame s s' \<and> same_ledger s s'"
begin

definition untouched :: "commerce_db \<Rightarrow> commerce_db \<Rightarrow> bool" where
  "untouched s s' \<longleftrightarrow> ok s' = ok s \<and> acc s' = acc s \<and> (\<forall>k. closed k s' = closed k s) \<and>
     (\<forall>u key. used u key s' = used u key s)"

text \<open>The hold of an item is closed: part of it is settled, the rest released.\<close>

definition closing :: "commerce_generation_item \<Rightarrow> commerce_db \<Rightarrow> commerce_db \<Rightarrow> bool" where
  "closing x s s' \<longleftrightarrow> (ok s \<longrightarrow> ok s' \<and> (\<forall>u key. used u key s' = used u key s) \<and> (\<forall>k. closed k s' \<longleftrightarrow> closed k s \<or> k = itm_id x) \<and>
     (\<exists>m n. m + n = itm_reserved x \<and> acc s' =
        (if closed (itm_id x) s then acc s else close_hold (itm_user x) (itm_reservation x) m n (acc s))))"

definition finished :: "commerce_job \<Rightarrow> commerce_db \<Rightarrow> commerce_db \<Rightarrow> bool" where
  "finished job s s' \<longleftrightarrow> (case job_item job of None \<Rightarrow> untouched s s'
     | Some i \<Rightarrow> \<exists>x \<in> set (items s). itm_id x = i \<and> itm_user x = job_user job \<and> closing x s s')"

text \<open>A legal step of a job and its item, with the matching effect on the ledger.\<close>

definition queue_step :: "commerce_job \<Rightarrow> job_status \<Rightarrow> commerce_db \<Rightarrow> commerce_db \<Rightarrow> bool" where
  "queue_step job st s s' \<longleftrightarrow> can_transition_job (job_status job) st \<and>
     (\<exists>job'. moved job job' s s' \<and> job_status job' = st \<and> job_row_ok job') \<and>
     (job_waiting st \<longrightarrow> job_cancel_requested_at job = None) \<and>
     (if job_open st then untouched s s' else finished job s s')"

lemma untouched_same_ledger: "same_ledger s s' \<Longrightarrow> untouched s s'"
  by (simp add: untouched_def ok_local acc_local closed_local used_local)

lemma untouched_refl [simp]: "untouched s s"
  by (simp add: untouched_def)

lemma closingI:
  assumes "ok s \<Longrightarrow> ok s' \<and> acc s' =
      (if closed (itm_id x) s then acc s else close_hold (itm_user x) (itm_reservation x) m n (acc s)) \<and>
      (\<forall>k. closed k s' \<longleftrightarrow> closed k s \<or> k = itm_id x) \<and> (\<forall>u key. used u key s' = used u key s)"
    and "m + n = itm_reserved x"
  shows "closing x s s'"
  using assms unfolding closing_def by blast

lemma closing_before: "same_ledger s s1 \<Longrightarrow> closing x s1 s' \<Longrightarrow> closing x s s'"
  by (simp add: closing_def ok_local acc_local closed_local used_local split del: if_split cong: if_cong)

lemma closing_after: "closing x s s1 \<Longrightarrow> same_ledger s1 s' \<Longrightarrow> closing x s s'"
  unfolding closing_def by (frule ok_local, frule acc_local) (simp add: closed_local used_local)

lemma finished_after: "finished job s s1 \<Longrightarrow> same_ledger s1 s' \<Longrightarrow> finished job s s'"
  unfolding finished_def untouched_def
  by (auto simp: ok_local acc_local closed_local used_local dest: closing_after split: option.splits)

lemma moved_after: "moved job job' s s1 \<Longrightarrow> work_frame s1 s' \<Longrightarrow> moved job job' s s'"
  by (simp add: moved_def work_frame_def split: option.splits)

lemma queue_step_after:
  assumes "queue_step job st s s1" and "work_frame s1 s'" and "same_ledger s1 s'"
  shows "queue_step job st s s'"
proof -
  have "untouched s s1 \<Longrightarrow> untouched s s'"
    using assms(3) by (simp add: untouched_def ok_local acc_local closed_local used_local)
  then show ?thesis
    using assms unfolding queue_step_def by (auto intro: moved_after finished_after)
qed

lemma release_hold_effect:
  assumes "release_hold (queue_ledger q) x reason tag s = Inr s'"
  shows "work_frame s s'" "closing x s s'"
proof -
  have r: "op_release ledger (release_request_of x reason tag) s = Inr s'"
    using assms by (simp add: release_hold_def ledger_set)
  show "work_frame s s'" using release_frame [OF r] by (rule ledger_work_frame)
  show "closing x s s'"
    using release_effect [OF _ r] release_used [OF _ r] by (intro closingI [of _ _ _ 0 "itm_reserved x"]) (simp_all add: release_request_of_def)
qed

lemma settle_hold_effect:
  assumes "settle_hold (queue_ledger q) x actual s = Inr s'"
  shows "work_frame s s'" "closing x s s'"
proof -
  have r: "op_settle ledger (settle_request_of x actual) s = Inr s'"
    using assms by (simp add: settle_hold_def ledger_set)
  show "work_frame s s'" using settle_frame [OF r] by (rule ledger_work_frame)
  show "closing x s s'"
    using settle_effect [OF _ r] settle_used [OF _ r]
    by (intro closingI [of _ _ _ "settled_part (itm_reserved x) actual"
        "itm_reserved x - settled_part (itm_reserved x) actual"]) (simp_all add: settle_request_of_def)
qed

lemma after_job_terminal_frame:
  assumes "after_job_terminal_tx q job now s = Inr s'"
  shows "work_frame s s'" "same_ledger s s'"
  using assms hook_frame by (auto simp: after_job_terminal_tx_def inv_simps split: option.splits)

lemma discard_late_frame:
  assumes "discard_late_result_tx q job result s = Inr s'"
  shows "work_frame s s'" "same_ledger s s'"
  using assms discard_frame by (auto simp: discard_late_result_tx_def split: option.splits)

text \<open>The part of a transition that concerns the item and the ledger, before the job is updated.\<close>

definition item_phase :: "commerce_job \<Rightarrow> job_status \<Rightarrow> commerce_db \<Rightarrow> commerce_db \<Rightarrow> bool" where
  "item_phase job st s s' \<longleftrightarrow> jobs s' = jobs s \<and> batch_keys s' = batch_keys s \<and>
     (case job_item job of
        None \<Rightarrow> view_items s' = view_items s \<and> untouched s s'
      | Some i \<Rightarrow> \<exists>x \<in> set (items s). itm_id x = i \<and> itm_user x = job_user job \<and>
          view_items s' = iv_tab.put ((view_item x)\<lparr>iv_status := item_status_of st\<rparr>) (view_items s) \<and>
          (if job_open st then untouched s s' else closing x s s'))"

lemma item_phase_none: "job_item job = None \<Longrightarrow> item_phase job st s s"
  by (simp add: item_phase_def)

lemma queue_stepI:
  assumes c: "coupled s" and j: "job \<in> set (jobs s)" "leased_row lease job"
    and ph: "item_phase job st s s1" and upd: "update_leased lease before f e s1 = Inr s2"
    and f: "same_job job (f job)" "job_status (f job) = st"
      "job_cancel_requested_at (f job) = job_cancel_requested_at job" "job_row_ok (f job)"
    and st: "can_transition_job JobRunning st" "job_waiting st \<Longrightarrow> job_cancel_requested_at job = None"
  shows "queue_step job st s s2"
proof -
  from ph have s1: "jobs s1 = jobs s" "batch_keys s1 = batch_keys s" by (simp_all add: item_phase_def)
  have run: "job_status job = JobRunning" using j(2) by (simp add: leased_row_def)
  have "job_tab.unique (jobs s1)" using coupledD(1) [OF c] s1 by simp
  then have s2: "s2 = s1\<lparr>jobs := job_tab.put (f job) (jobs s1)\<rparr>"
    using update_leased_Inr(1) [OF _ upd] j f(1) s1 by (simp add: same_job_def)
  have "moved job (f job) s s2"
    using ph j(1) f unfolding moved_def s2 item_phase_def by (auto split: option.splits)
  moreover have "if job_open st then untouched s s2 else finished job s s2"
    using ph s1 untouched_same_ledger [of s1 s2] s2 closing_after [of _ s s1 s2]
    by (auto simp: item_phase_def finished_def untouched_def same_ledger_def split: option.splits if_splits)
  ultimately show ?thesis
    using f(2,4) st run unfolding queue_step_def by auto
qed

lemma cancel_leased_item_phase:
  assumes c: "coupled s" and j: "job \<in> set (jobs s)" "job_status job = JobRunning"
    and run: "cancel_leased_item q job reason now s = Inr s1"
  shows "item_phase job JobCanceled s s1"
proof (cases "job_item job")
  case None
  with run show ?thesis by (simp add: cancel_leased_item_def item_phase_def)
next
  case (Some i)
  obtain x where x: "x \<in> set (items s)" "itm_id x = i" "couple job (view_item x)"
    using coupled_item [OF c j(1) Some] .
  then have xr: "itm_user x = job_user job" "itm_status x = ItemRunning"
    using j(2) by (simp_all add: couple_def)
  have found: "first_where (\<lambda>y. itm_id y = i \<and> itm_user y = job_user job) (items s) = Some x"
    using x xr by (intro itm_tab.first_by_key [OF coupledD(2) [OF c]]) auto
  from run obtain s' where rel: "release_hold (queue_ledger q) x reason ''release'' s = Inr s'" and
    s1: "s1 = emit_commerce_event job ''item_released''
        [(''item_id'', MetaInt (int (itm_id x))), (''reason'', MetaText reason)]
        (update_items (\<lambda>y. itm_id y = itm_id x \<and> itm_user y = itm_user x \<and> itm_status y = ItemRunning)
           (\<lambda>y. y\<lparr>itm_status := ItemCanceled, itm_progress := 100, itm_finished_at := Some now,
              itm_error_code := ''canceled'', itm_error_message := reason\<rparr>) s')"
    by (auto simp: cancel_leased_item_def Some found xr inv_simps)
  note eff = release_hold_effect [OF rel]
  have "view_items s1 = iv_tab.put ((view_item x)\<lparr>iv_status := ItemCanceled\<rparr>) (view_items s)"
    unfolding s1 by simp (rule view_set_status [OF coupledD(2) [OF c] eff(1) x(1)];
        use xr in \<open>simp add: view_item_def\<close>)
  moreover have "closing x s s1" using eff(2) by (rule closing_after) (simp add: s1)
  ultimately show ?thesis
    using x xr eff(1) Some by (auto simp: item_phase_def s1 work_frame_def job_open_def)
qed

text \<open>The item of a running job, as the operations find it.\<close>

lemma running_item:
  assumes c: "coupled s" and j: "job \<in> set (jobs s)" "job_status job = JobRunning" and i: "job_item job = Some i"
  obtains x where "x \<in> set (items s)" "itm_id x = i" "itm_user x = job_user job" "itm_status x = ItemRunning"
    "couple job (view_item x)"
    "first_where (\<lambda>y. itm_id y = i \<and> itm_user y = job_user job) (items s) = Some x"
proof -
  obtain x where x: "x \<in> set (items s)" "itm_id x = i" "couple job (view_item x)"
    using coupled_item [OF c j(1) i] .
  then have xr: "itm_user x = job_user job" "itm_status x = ItemRunning"
    using j(2) by (simp_all add: couple_def)
  have "first_where (\<lambda>y. itm_id y = i \<and> itm_user y = job_user job) (items s) = Some x"
    using x xr by (intro itm_tab.first_by_key [OF coupledD(2) [OF c]]) auto
  with x xr that show thesis by blast
qed

lemma item_phaseI:
  assumes "job_item job = Some i" and "x \<in> set (items s)" "itm_id x = i" "itm_user x = job_user job"
    and "jobs s1 = jobs s" "batch_keys s1 = batch_keys s"
    and "view_items s1 = iv_tab.put ((view_item x)\<lparr>iv_status := item_status_of st\<rparr>) (view_items s)"
    and "if job_open st then untouched s s1 else closing x s s1"
  shows "item_phase job st s s1"
  using assms by (auto simp: item_phase_def)

lemma dead_letter_item_phase:
  assumes c: "coupled s" and j: "job \<in> set (jobs s)" "job_status job = JobRunning"
    and run: "dead_letter_item q job code msg now s = Inr s1"
  shows "item_phase job JobFailed s s1"
proof (cases "job_item job")
  case None
  with run show ?thesis by (simp add: dead_letter_item_def item_phase_def)
next
  case (Some i)
  obtain x where x: "x \<in> set (items s)" "itm_id x = i" "itm_user x = job_user job" "itm_status x = ItemRunning"
    and "couple job (view_item x)"
    and found: "first_where (\<lambda>y. itm_id y = i \<and> itm_user y = job_user job) (items s) = Some x"
    by (rule running_item [OF c j Some])
  let ?hit = "\<lambda>y. itm_id y = itm_id x \<and> itm_user y = itm_user x \<and> itm_status y = ItemRunning"
  let ?s0 = "update_items ?hit (\<lambda>y. y\<lparr>itm_status := ItemFailed, itm_progress := 100,
      itm_finished_at := Some now, itm_error_code := code, itm_error_message := msg\<rparr>) s"
  from run obtain s' where rel: "release_hold (queue_ledger q) x ''generation_failed'' ''release'' ?s0 = Inr s'"
    and s1: "s1 = emit_commerce_event job ''item_released''
        [(''item_id'', MetaInt (int (itm_id x))), (''reason'', MetaText code)] s'"
    by (auto simp: dead_letter_item_def Some found inv_simps Let_def split: if_splits)
  note eff = release_hold_effect [OF rel]
  have "view_items ?s0 = iv_tab.put ((view_item x)\<lparr>iv_status := ItemFailed\<rparr>) (view_items s)"
    by (rule view_set_status [OF coupledD(2) [OF c] work_frame_refl x(1)]; use x in \<open>simp add: view_item_def\<close>)
  moreover have "closing x s s1"
    by (rule closing_after [OF closing_before [OF _ eff(2)]]) (simp_all add: s1)
  ultimately show ?thesis
    using x eff(1) by (intro item_phaseI [OF Some x(1-3)]) (simp_all add: s1 work_frame_def job_open_def)
qed

lemma settle_item_phase:
  assumes c: "coupled s" and j: "job \<in> set (jobs s)" "job_status job = JobRunning" and i: "job_item job = Some i"
    and x: "x \<in> set (items s)" "itm_id x = i" "itm_user x = job_user job" "itm_status x = ItemRunning"
      "itm_cancel_requested_at x = None"
    and run: "settle_hold (queue_ledger q) x actual (update_items
        (\<lambda>y. itm_id y = itm_id x \<and> itm_user y = itm_user x \<and> itm_status y = ItemRunning \<and>
           itm_cancel_requested_at y = None) (succeeded_item r now) s) = Inr s1"
  shows "item_phase job JobSucceeded s s1"
proof -
  note eff = settle_hold_effect [OF run]
  let ?s0 = "update_items
        (\<lambda>y. itm_id y = itm_id x \<and> itm_user y = itm_user x \<and> itm_status y = ItemRunning \<and>
           itm_cancel_requested_at y = None) (succeeded_item r now) s"
  have "view_items ?s0 = iv_tab.put ((view_item x)\<lparr>iv_status := ItemSucceeded\<rparr>) (view_items s)"
    by (rule view_set_status [OF coupledD(2) [OF c] work_frame_refl x(1)];
        use x in \<open>simp add: view_item_def succeeded_item_def\<close>)
  moreover have "closing x s s1"
    by (rule closing_before [OF _ eff(2)]) simp
  ultimately show ?thesis
    using eff(1) by (intro item_phaseI [OF i x(1-3)]) (simp_all add: work_frame_def job_open_def)
qed

lemma retry_item_phase:
  assumes c: "coupled s" and j: "job \<in> set (jobs s)" "job_status job = JobRunning"
    and run: "retry_item job code msg s = (hits, s1)"
  shows "item_phase job JobRetrying s s1" "hits = 1" "same_ledger s s1"
proof -
  show "same_ledger s s1"
    using run by (auto simp: retry_item_def Let_def split: option.splits)
  have "item_phase job JobRetrying s s1 \<and> hits = 1"
  proof (cases "job_item job")
    case None
    with run show ?thesis by (simp add: retry_item_def item_phase_def)
  next
    case (Some i)
    obtain x where x: "x \<in> set (items s)" "itm_id x = i" "itm_user x = job_user job" "itm_status x = ItemRunning"
      and "couple job (view_item x)"
      and "first_where (\<lambda>y. itm_id y = i \<and> itm_user y = job_user job) (items s) = Some x"
      by (rule running_item [OF c j Some])
    let ?hit = "\<lambda>y. itm_id y = i \<and> itm_user y = job_user job \<and> itm_status y = ItemRunning"
    from run Some have s1: "s1 = update_items ?hit (\<lambda>y. y\<lparr>itm_status := ItemRetrying, itm_error_code := code,
        itm_error_message := msg\<rparr>) s" and hits: "hits = count_where ?hit (items s)"
      by (simp_all add: retry_item_def Let_def)
    have "count_where ?hit (items s) = 1"
      using count_item_one [OF coupledD(2) [OF c], of ?hit i] x by blast
    moreover have "view_items s1 = iv_tab.put ((view_item x)\<lparr>iv_status := ItemRetrying\<rparr>) (view_items s)"
      unfolding s1
      by (rule view_set_status [OF coupledD(2) [OF c] work_frame_refl x(1)]; use x in \<open>simp add: view_item_def\<close>)
    ultimately show ?thesis
      using hits by (auto intro!: item_phaseI [OF Some x(1-3)] untouched_same_ledger simp: s1 job_open_def)
  qed
  then show "item_phase job JobRetrying s s1" "hits = 1" by simp_all
qed

section \<open>The operations as steps\<close>

lemma terminal_row_ok:
  assumes "job_row_ok job" and "same_job job job'" and "\<not> job_open (job_status job')"
    and "job_lease_expires_at job' = None" "job_attempt_count job' = job_attempt_count job"
    "job_max_attempts job' = job_max_attempts job"
  shows "job_row_ok job'"
  using assms by (simp add: job_row_ok_def same_job_def job_open_def job_waiting_def)

lemma cancel_leased_job_step:
  assumes c: "coupled s" and j: "job \<in> set (jobs s)" "leased_row lease job"
    and run: "cancel_leased_job_tx q job lease reason now before s = Inr s'"
  shows "queue_step job JobCanceled s s'"
proof -
  define why where "why = (if reason = '''' then ''worker_canceled'' else reason)"
  let ?f = "\<lambda>j. (clear_lease j)\<lparr>job_status := JobCanceled, job_finished_at := Some now,
     job_error_code := ''canceled'', job_error_message := why\<rparr>"
  from run obtain s1 s2 where item: "cancel_leased_item q job why now s = Inr s1"
    and upd: "update_leased lease before ?f ErrLeaseMismatch s1 = Inr s2"
    and after: "after_job_terminal_tx q (job\<lparr>job_status := JobCanceled, job_error_code := ''canceled'',
        job_error_message := why\<rparr>) now s2 = Inr s'"
    by (auto simp: cancel_leased_job_tx_def Let_def inv_simps simp flip: why_def)
  have run: "job_status job = JobRunning" using j(2) by (simp add: leased_row_def)
  have "queue_step job JobCanceled s s2"
    by (rule queue_stepI [OF c j cancel_leased_item_phase [OF c j(1) run item] upd])
      (use coupledD(3) [OF c j(1)] in \<open>auto simp: same_job_def clear_lease_def job_row_ok_def job_waiting_def\<close>)
  then show ?thesis
    using after_job_terminal_frame [OF after] by (rule queue_step_after)
qed

lemma dead_letter_leased_job_step:
  assumes c: "coupled s" and j: "job \<in> set (jobs s)" "leased_row lease job"
    and run: "dead_letter_leased_job_tx q job lease failure now before s = Inr s'"
  shows "queue_step job JobFailed s s'"
proof -
  have running: "job_status job = JobRunning" using j(2) by (simp add: leased_row_def)
  from run obtain code dl s1 s2 job' where item: "dead_letter_item q job code (ef_message failure) now s = Inr s1"
    and upd: "update_leased lease before (\<lambda>j. (clear_lease j)\<lparr>job_status := JobFailed,
        job_finished_at := Some now, job_error_code := code, job_error_message := ef_message failure,
        job_dead_lettered_at := (if dl then Some now else job_dead_lettered_at j)\<rparr>) ErrLeaseMismatch s1 = Inr s2"
    and after: "after_job_terminal_tx q job' now (emit_commerce_event job ''job_failed''
        [(''error_code'', MetaText code), (''dead_lettered'', MetaBool dl)] s2) = Inr s'"
    unfolding dead_letter_leased_job_tx_def Let_def and_then_eq_Inr by blast
  have "queue_step job JobFailed s s2"
    by (rule queue_stepI [OF c j dead_letter_item_phase [OF c j(1) running item] upd])
      (use coupledD(3) [OF c j(1)] in \<open>auto simp: same_job_def clear_lease_def job_row_ok_def job_waiting_def\<close>)
  then show ?thesis
    using after_job_terminal_frame [OF after] queue_step_after [of job JobFailed s s2 s'] by simp
qed

lemma closing_cong: "view_item x = view_item y \<Longrightarrow> closing x s s' = closing y s s'"
  by (simp add: closing_def view_item_def)

lemma queue_step_before:
  assumes w: "work_frame s s1" and l: "same_ledger s s1" and step: "queue_step job st s1 s'"
  shows "queue_step job st s s'"
proof -
  have v: "jobs s1 = jobs s" "view_items s1 = view_items s" "batch_keys s1 = batch_keys s"
    using w by (simp_all add: work_frame_def)
  have item: "\<exists>y \<in> set (items s). view_item y = view_item x" if "x \<in> set (items s1)" for x
    using view_items_I [OF that] v(2) by (metis view_items_E)
  have "moved job job' s s'" if m: "moved job job' s1 s'" for job'
  proof (cases "job_item job")
    case (Some i)
    with m obtain x where x: "x \<in> set (items s1)" "itm_id x = i" "itm_user x = job_user job"
      "view_items s' = iv_tab.put ((view_item x)\<lparr>iv_status := item_status_of (job_status job')\<rparr>) (view_items s1)"
      by (auto simp: moved_def)
    obtain y where "y \<in> set (items s)" "view_item y = view_item x" using item [OF x(1)] by blast
    moreover from this have "itm_id y = i" "itm_user y = job_user job"
      using x by (metis view_item_simps(1), metis view_item_simps(2))
    ultimately show ?thesis using m Some x(4) v by (auto simp: moved_def intro!: bexI [of _ y])
  qed (use m v in \<open>simp add: moved_def\<close>)
  moreover have "untouched s1 s' \<Longrightarrow> untouched s s'"
    using l by (simp add: untouched_def ok_local acc_local closed_local used_local)
  moreover have "finished job s s'" if f: "finished job s1 s'"
  proof (cases "job_item job")
    case (Some i)
    with f obtain x where x: "x \<in> set (items s1)" "itm_id x = i" "itm_user x = job_user job" "closing x s1 s'"
      by (auto simp: finished_def)
    obtain y where "y \<in> set (items s)" "view_item y = view_item x" using item [OF x(1)] by blast
    moreover from this have "itm_id y = i" "itm_user y = job_user job"
      using x by (metis view_item_simps(1), metis view_item_simps(2))
    moreover have "closing y s s'" using closing_before [OF l x(4)] closing_cong calculation(2) by blast
    ultimately show ?thesis using Some by (auto simp: finished_def)
  qed (use f l in \<open>simp add: finished_def untouched_def ok_local acc_local closed_local used_local\<close>)
  moreover obtain job' where "moved job job' s1 s'" "job_status job' = st" "job_row_ok job'"
    using step by (auto simp: queue_step_def)
  ultimately have "moved job job' s s' \<and> job_status job' = st \<and> job_row_ok job'"
    "untouched s1 s' \<Longrightarrow> untouched s s'" "finished job s1 s' \<Longrightarrow> finished job s s'" by blast+
  with step show ?thesis unfolding queue_step_def by (metis (full_types))
qed

lemma discard_and_cancel_step:
  assumes c: "coupled s" and j: "job \<in> set (jobs s)" "leased_row lease job"
    and run: "discard_and_cancel_tx q job lease result now s = Inr s'"
  shows "queue_step job JobCanceled s s'"
proof -
  from run obtain s1 where d: "discard_late_result_tx q job result s = Inr s1"
    and cancel: "cancel_leased_job_tx q job lease ''late_result_discarded'' now None s1 = Inr s'"
    by (auto simp: discard_and_cancel_tx_def inv_simps)
  note fr = discard_late_frame [OF d]
  have c1: "coupled s1" using c coupled_frame [OF fr(1)] by simp
  have j1: "job \<in> set (jobs s1)" using j(1) fr(1) by (simp add: work_frame_def)
  from cancel_leased_job_step [OF c1 j1 j(2) cancel] have "queue_step job JobCanceled s1 s'" .
  then show ?thesis by (rule queue_step_before [OF fr])
qed

lemma succeed_job_step:
  assumes c: "coupled s" and j: "job \<in> set (jobs s)" "leased_row lease job"
    and ph: "item_phase job JobSucceeded s s1" and run: "succeed_job_tx q job lease result now s1 = Inr s'"
  shows "queue_step job JobSucceeded s s'"
proof -
  from run obtain s2 where
    upd: "update_leased lease None (\<lambda>j. (clear_lease j)\<lparr>job_status := JobSucceeded, job_finished_at := Some now,
      job_result := jr_metadata result\<rparr>) ErrLeaseMismatch s1 = Inr s2"
    and after: "after_job_terminal_tx q (job\<lparr>job_status := JobSucceeded\<rparr>) now
      (emit_commerce_event job ''job_succeeded'' [] s2) = Inr s'"
    by (auto simp: succeed_job_tx_def inv_simps)
  have "queue_step job JobSucceeded s s2"
    by (rule queue_stepI [OF c j ph upd])
      (use coupledD(3) [OF c j(1)] in \<open>auto simp: same_job_def clear_lease_def job_row_ok_def job_waiting_def\<close>)
  then show ?thesis
    using after_job_terminal_frame [OF after] queue_step_after [of job JobSucceeded s s2 s'] by simp
qed

lemma item_phase_emit [simp]: "item_phase job st s (emit_commerce_event j k m s') = item_phase job st s s'"
proof -
  have "untouched s (emit_commerce_event j k m s') = untouched s s'"
    "closing x s (emit_commerce_event j k m s') = closing x s s'" for x
    using ok_local [of s' "emit_commerce_event j k m s'"] acc_local [of s' "emit_commerce_event j k m s'"]
      closed_local [of s' "emit_commerce_event j k m s'"] used_local [of s' "emit_commerce_event j k m s'"]
    by (simp_all add: untouched_def closing_def)
  then show ?thesis by (simp add: item_phase_def cong: option.case_cong)
qed

lemma complete_tx_step:
  assumes c: "coupled s" and run: "complete_tx q lease result now s = Inr (job, s')"
  shows "job \<in> set (jobs s) \<and> leased_row lease job \<and>
    (queue_step job JobSucceeded s s' \<or> queue_step job JobCanceled s s')"
proof -
  from run have "load_running_leased_job lease s = Inr job"
    by (auto simp: complete_tx_def inv_simps)
  then have load: "load_running_leased_job lease s = Inr job" and j: "job \<in> set (jobs s)" "leased_row lease job"
    using load_running_leased_job_Inr by blast+
  have running: "job_status job = JobRunning" using j(2) by (simp add: leased_row_def)
  note row = coupledD(3) [OF c j(1)]
  consider (discard) "discard_and_cancel_tx q job lease result now s = Inr s'"
    | (plain) "job_kind job \<noteq> generate_item_kind" "succeed_job_tx q job lease result now s = Inr s'"
    | (item) i r x where "job_item job = Some i" "jr_execution result = Some r"
        "first_where (\<lambda>x. itm_id x = i \<and> itm_user x = job_user job) (items s) = Some x"
        "itm_cancel_requested_at x = None" "complete_item_tx q job lease result r x now s = Inr s'"
    using run load by (auto simp: complete_tx_def inv_simps split: if_splits option.splits)
  then show ?thesis
  proof cases
    case discard
    with discard_and_cancel_step [OF c j] j show ?thesis by blast
  next
    case plain
    then have "job_item job = None" using row by (simp add: job_row_ok_def)
    then have "item_phase job JobSucceeded s s" by (rule item_phase_none)
    with succeed_job_step [OF c j _ plain(2)] j show ?thesis by blast
  next
    case item
    from running_item [OF c j(1) running item(1)] item(3)
    have x: "x \<in> set (items s)" "itm_id x = i" "itm_user x = job_user job" "itm_status x = ItemRunning"
      by auto
    let ?hit = "\<lambda>y. itm_id y = itm_id x \<and> itm_user y = itm_user x \<and> itm_status y = ItemRunning \<and>
        itm_cancel_requested_at y = None"
    have "count_where ?hit (items s) = 1"
      using count_item_one [OF coupledD(2) [OF c], of ?hit "itm_id x"] x item(4) by blast
    with item(5) obtain s1 where
      settle: "settle_hold (queue_ledger q) x (er_actual_credits r) (update_items ?hit (succeeded_item r now) s) = Inr s1"
      and succ: "succeed_job_tx q job lease result now (emit_commerce_event job ''item_settled''
          [(''item_id'', MetaInt (int (itm_id x))), (''actual_credits'', MetaInt (er_actual_credits r))] s1) = Inr s'"
      by (auto simp: complete_item_tx_def Let_def inv_simps)
    have "item_phase job JobSucceeded s s1"
      by (rule settle_item_phase [OF c j(1) running item(1) x item(4) settle])
    then show ?thesis using succeed_job_step [OF c j _ succ] j by simp
  qed
qed

lemma retry_step:
  assumes c: "coupled s" and j: "job \<in> set (jobs s)" "leased_row lease job"
    and item: "retry_item job code msg s = (hits, s1)"
    and upd: "update_leased lease before (retry_row due code' msg') e s1 = Inr s2"
    and st: "job_cancel_requested_at job = None" "job_attempt_count job < job_max_attempts job"
  shows "queue_step job JobRetrying s s2"
proof -
  have running: "job_status job = JobRunning" using j(2) by (simp add: leased_row_def)
  show ?thesis
    by (rule queue_stepI [OF c j retry_item_phase(1) [OF c j(1) running item] upd])
      (use coupledD(3) [OF c j(1)] st in
        \<open>auto simp: same_job_def retry_row_def clear_lease_def job_row_ok_def job_waiting_def\<close>)
qed

lemma fail_tx_step:
  assumes c: "coupled s" and run: "fail_tx q lease failure now jitter s = Inr (r, s')"
  shows "\<exists>job \<in> set (jobs s). leased_row lease job \<and> (r = None \<or> r = Some job) \<and>
    (queue_step job JobRetrying s s' \<and> job_attempt_count job < job_max_attempts job \<and> ef_retryable failure \<or>
     queue_step job JobCanceled s s' \<or> queue_step job JobFailed s s')"
proof -
  obtain job where load: "load_running_leased_job lease s = Inr job"
    using run by (auto simp: fail_tx_def inv_simps)
  note j = load_running_leased_job_Inr [OF load, THEN conjunct1] load_running_leased_job_Inr [OF load, THEN conjunct2]
  have running: "job_status job = JobRunning" using j(2) by (simp add: leased_row_def)
  consider (cancel) "cancel_leased_job_tx q job lease ''worker_canceled'' now None s = Inr s'" "r = Some job"
    | (retry) "job_cancel_requested_at job = None" "ef_retryable failure" "job_attempt_count job < job_max_attempts job"
    | (dead) "dead_letter_leased_job_tx q job lease failure now None s = Inr s'" "r = Some job"
    using run load by (auto simp: fail_tx_def inv_simps split: if_splits)
  then show ?thesis
  proof cases
    case cancel
    with cancel_leased_job_step [OF c j] j show ?thesis by blast
  next
    case dead
    with dead_letter_leased_job_step [OF c j] j show ?thesis by blast
  next
    case retry
    obtain hits s1 where item: "retry_item job (ef_code failure) (ef_message failure) s = (hits, s1)"
      by (cases "retry_item job (ef_code failure) (ef_message failure) s")
    with run load retry obtain s2 where "r = None" and
      upd: "update_leased lease None (retry_row (now + retry_delay (job_attempt_count job) jitter)
          (ef_code failure) (ef_message failure)) ErrLeaseMismatch s1 = Inr s2" and
      s': "work_frame s2 s'" "same_ledger s2 s'"
      by (auto simp: fail_tx_def inv_simps Let_def split: if_splits option.splits)
    have "queue_step job JobRetrying s s2"
      by (rule retry_step [OF c j item upd retry(1,3)])
    then have "queue_step job JobRetrying s s'" using s' by (rule queue_step_after)
    with j \<open>r = None\<close> retry show ?thesis by blast
  qed
qed

lemma recover_one_tx_step:
  assumes c: "coupled s" and run: "recover_one_tx q jitter now k s = Inr (r, s')"
  shows "(\<nexists>j. j \<in> set (jobs s) \<and> job_id j = k \<and> lease_expired now j) \<and> r = None \<and> s' = s \<or>
    (\<exists>job \<in> set (jobs s). job_id job = k \<and> lease_expired now job \<and> (r = None \<or> r = Some job) \<and>
       (queue_step job JobRetrying s s' \<and> job_attempt_count job < job_max_attempts job \<or>
        queue_step job JobCanceled s s' \<or> queue_step job JobFailed s s'))"
proof (cases "first_where (\<lambda>j. job_id j = k \<and> lease_expired now j) (jobs s)")
  case None
  with run have "r = None \<and> s' = s" by (simp add: recover_one_tx_def)
  with None show ?thesis by (auto simp: first_where_None)
next
  case (Some job)
  from first_where_Some [OF Some] have j: "job \<in> set (jobs s)" "job_id job = k" "lease_expired now job" by auto
  let ?lease = "\<lparr>ls_job = job_id job, ls_owner = job_lease_owner job, ls_token = job_lease_token job\<rparr>"
  have lr: "leased_row ?lease job" using j(3) by (simp add: leased_row_def lease_expired_def)
  consider (cancel) "cancel_leased_job_tx q job ?lease ''cancel_requested'' now (Some now) s = Inr s'" "r = Some job"
    | (retry) "recover_retry_tx job now (jitter k) s = Inr s'" "r = None" "job_cancel_requested_at job = None"
        "job_attempt_count job < job_max_attempts job"
    | (dead) f where "dead_letter_leased_job_tx q job ?lease f now (Some now) s = Inr s'" "r = Some job"
    using run Some by (auto simp: recover_one_tx_def inv_simps Let_def split: if_splits option.splits)
  then show ?thesis
  proof cases
    case cancel
    with cancel_leased_job_step [OF c j(1) lr] j show ?thesis by blast
  next
    case dead
    with dead_letter_leased_job_step [OF c j(1) lr] j show ?thesis by blast
  next
    case retry
    obtain hits s1 where item: "retry_item job ''lease_expired'' ''worker lease expired'' s = (hits, s1)"
      by (cases "retry_item job ''lease_expired'' ''worker lease expired'' s")
    with retry(1) obtain s2 where
      upd: "update_leased ?lease (Some now) (retry_row (now + retry_delay (job_attempt_count job) (jitter k))
          ''lease_expired'' ''worker lease expired'') ErrLeaseRecoveryLost s1 = Inr s2" and
      s': "work_frame s2 s'" "same_ledger s2 s'"
      by (auto simp: recover_retry_tx_def inv_simps Let_def split: option.splits)
    have "queue_step job JobRetrying s s2"
      by (rule retry_step [OF c j(1) lr item upd retry(3,4)])
    then have "queue_step job JobRetrying s s'" using s' by (rule queue_step_after)
    with j retry show ?thesis by blast
  qed
qed

text \<open>
  A claim of one job succeeds on every coupled state: the job is skipped, or it and its item
  start to run.
\<close>

lemma claimed_row_ok:
  assumes "job_row_ok job" and "claimable now job" and "\<not> blank token"
  shows "job_row_ok (claimed_row (q_worker q) token now d job)"
  using assms worker_named
  by (auto simp: job_row_ok_def claimed_row_def claimable_def job_waiting_def)

lemma claim_item_total:
  assumes c: "coupled s" and j: "job \<in> set (jobs s)" "job_waiting (job_status job)"
    and s1: "view_items s1 = view_items s" "items s1 = items s" and same: "same_job job job'"
  shows "\<exists>item s2. claim_item job' now s1 = Inr (item, s2) \<and> jobs s2 = jobs s1 \<and> batch_keys s2 = batch_keys s1 \<and>
    same_ledger s1 s2 \<and> (case job_item job of
        None \<Rightarrow> view_items s2 = view_items s
      | Some i \<Rightarrow> \<exists>x \<in> set (items s). itm_id x = i \<and> itm_user x = job_user job \<and>
          view_items s2 = iv_tab.put ((view_item x)\<lparr>iv_status := ItemRunning\<rparr>) (view_items s))"
proof (cases "job_item job")
  case None
  then have "job_kind job' \<noteq> generate_item_kind"
    using coupledD(3) [OF c j(1)] same by (simp add: job_row_ok_def same_job_def)
  then show ?thesis using None s1 by (simp add: claim_item_def)
next
  case (Some i)
  then have kind: "job_kind job' = generate_item_kind" "job_item job' = Some i" "job_user job' = job_user job"
    using coupledD(3) [OF c j(1)] same by (simp_all add: job_row_ok_def same_job_def)
  obtain x where x: "x \<in> set (items s)" "itm_id x = i" "couple job (view_item x)"
    using coupled_item [OF c j(1) Some] .
  then have xr: "itm_user x = job_user job" "item_waiting (itm_status x)" "itm_cancel_requested_at x = None"
    using j(2) by (auto simp: couple_def job_waiting_def item_waiting_def)
  let ?hit = "\<lambda>y. itm_id y = itm_id x \<and> itm_user y = job_user job' \<and> item_waiting (itm_status y) \<and>
      itm_cancel_requested_at y = None"
  have u: "itm_tab.unique (items s1)" using coupledD(2) [OF c] s1 by simp
  have found: "first_where (\<lambda>y. itm_id y = i) (items s1) = Some x"
    using x s1 by (intro itm_tab.first_by_key [OF u]) auto
  have one: "count_where ?hit (items s1) = 1"
    using count_item_one [OF u, of ?hit "itm_id x"] x xr kind s1 by auto
  let ?s2 = "update_items ?hit (started_item now) s1"
  have v: "view_items ?s2 = iv_tab.put ((view_item x)\<lparr>iv_status := ItemRunning\<rparr>) (view_items s1)"
    by (rule view_set_status [OF u work_frame_refl]; use x xr kind s1 in \<open>simp add: view_item_def started_item_def\<close>)
  let ?f = "\<lambda>y. (started_item now y)\<lparr>itm_updated_at := clock s1\<rparr>"
  have "?f x \<in> set (items ?s2)"
    using x xr kind s1 by (auto simp: update_items_def set_update_where intro!: rev_image_eqI [of x])
  moreover have "itm_id (?f x) = itm_id x" by (simp add: started_item_def)
  ultimately have "\<exists>y \<in> set (items ?s2). itm_id y = itm_id x" by blast
  then obtain y where "first_where (\<lambda>y. itm_id y = itm_id x) (items ?s2) = Some y"
    using first_where_ex [of _ "items ?s2" "\<lambda>y. itm_id y = itm_id x"] by blast
  then have "claim_item job' now s1 = Inr (Some y, ?s2)"
    using kind found one x by (simp add: claim_item_def Let_def)
  with v s1 x xr Some show ?thesis by auto
qed

lemma claim_one_total:
  assumes c: "coupled s" and tok: "\<not> blank (token k)"
  shows "\<exists>new s'. claim_one q token now d k (claimed, s) = Inr (claimed @ new, s') \<and>
    (new = [] \<and> s' = s \<and> (\<nexists>j. j \<in> set (jobs s) \<and> job_id j = k \<and> claimable now j) \<or>
     (\<exists>job \<in> set (jobs s). \<exists>item. job_id job = k \<and> claimable now job \<and> queue_step job JobRunning s s' \<and>
        claimed_row (q_worker q) (token k) now d job \<in> set (jobs s') \<and>
        new = [(claimed_row (q_worker q) (token k) now d job, item)]))"
proof -
  let ?hit = "\<lambda>j. job_id j = k \<and> claimable now j"
  let ?row = "claimed_row (q_worker q) (token k) now d"
  have one: "count_where ?hit (jobs s) = 1 \<longleftrightarrow> (\<exists>j \<in> set (jobs s). ?hit j)"
    by (rule job_tab.count_one [OF coupledD(1) [OF c]]) simp
  show ?thesis
  proof (cases "\<exists>j \<in> set (jobs s). ?hit j")
    case False
    with one show ?thesis by (auto simp: claim_one_def Let_def)
  next
    case True
    then obtain job where job: "job \<in> set (jobs s)" "job_id job = k" "claimable now job" by auto
    let ?s1 = "update_jobs ?hit ?row s"
    have same: "same_job job (?row job)" by (simp add: same_job_def claimed_row_def)
    have "update_where ?hit ?row (jobs s) = job_tab.put (?row job) (jobs s)"
      using job by (intro job_tab.update_put [OF coupledD(1) [OF c]]) (auto simp: claimed_row_def)
    then have jobs1: "jobs ?s1 = job_tab.put (?row job) (jobs s)" by (simp add: update_jobs_def)
    have in1: "?row job \<in> set (jobs ?s1)"
      using job_tab.set_put [OF coupledD(1) [OF c] job(1)] same unfolding jobs1 by (simp add: same_job_def)
    have u1: "job_tab.unique (jobs ?s1)" using coupledD(1) [OF c] unfolding jobs1 by simp
    have found: "first_where (\<lambda>j. job_id j = k) (jobs ?s1) = Some (?row job)"
      using in1 job by (intro job_tab.first_by_key [OF u1]) (auto simp: claimed_row_def)
    have w: "job_waiting (job_status job)" using job(3) by (simp add: claimable_def)
    obtain item s2 where item: "claim_item (?row job) now ?s1 = Inr (item, s2)" "jobs s2 = jobs ?s1"
      "batch_keys s2 = batch_keys ?s1" "same_ledger ?s1 s2" "case job_item job of
        None \<Rightarrow> view_items s2 = view_items s
      | Some i \<Rightarrow> \<exists>x \<in> set (items s). itm_id x = i \<and> itm_user x = job_user job \<and>
          view_items s2 = iv_tab.put ((view_item x)\<lparr>iv_status := ItemRunning\<rparr>) (view_items s)"
      using claim_item_total [OF c job(1) w, of ?s1 "?row job" now] same by auto
    define s4 where "s4 = (let s3 = emit_commerce_event (?row job) ''job_claimed''
          [(''attempt'', MetaInt (job_attempt_count (?row job))), (''worker_id'', MetaText (q_worker q))] s2
        in case job_batch (?row job) of None \<Rightarrow> s3
           | Some b \<Rightarrow> refresh_batch_counters (job_user (?row job)) b now s3)"
    have run: "claim_one q token now d k (claimed, s) = Inr (claimed @ [(?row job, item)], s4)"
      using True one found item(1) by (simp add: claim_one_def Let_def s4_def)
    have fr: "work_frame s2 s4" "same_ledger s2 s4"
      by (auto simp: s4_def Let_def split: option.splits)
    have "moved job (?row job) s s2"
      using item job same jobs1 unfolding moved_def by (auto simp: claimed_row_def split: option.splits)
    moreover have "same_ledger s s2" using item(4) by (simp add: same_ledger_def update_jobs_def)
    moreover have "can_transition_job (job_status job) JobRunning"
      using w by (auto simp: job_waiting_def)
    ultimately have "queue_step job JobRunning s s2"
      using claimed_row_ok [OF coupledD(3) [OF c job(1)] job(3) tok] untouched_same_ledger
      unfolding queue_step_def by (auto simp: job_open_def job_waiting_def claimed_row_def)
    then have "queue_step job JobRunning s s4" using fr by (rule queue_step_after)
    moreover have "?row job \<in> set (jobs s4)" using in1 item(2) fr(1) by (simp add: work_frame_def)
    ultimately show ?thesis using run job by blast
  qed
qed

section \<open>What a step keeps\<close>

text \<open>
  Holds agree with the work: an item is settled exactly when it is terminal, and the open hold
  of a reservation is what its unfinished items have reserved.
\<close>

definition holds_ok :: "commerce_db \<Rightarrow> bool" where
  "holds_ok s \<longleftrightarrow>
     (\<forall>v \<in> set (view_items s). closed (iv_id v) s \<longleftrightarrow> item_terminal (iv_status v)) \<and>
     (\<forall>r. ac_hold (acc s) r =
        sum_where (\<lambda>v. iv_reservation v = r \<and> \<not> item_terminal (iv_status v)) iv_reserved (view_items s)) \<and>
     (\<forall>k. closed k s \<longrightarrow> k \<in> iv_id ` set (view_items s)) \<and>
     (\<forall>u key. used u key s \<longrightarrow> batch_key_known u key (batch_keys s))"

definition good :: "commerce_db \<Rightarrow> bool" where
  "good s \<longleftrightarrow> coupled s \<and> ok s \<and> holds_ok s"

definition keeps :: "commerce_db \<Rightarrow> commerce_db \<Rightarrow> bool" where
  "keeps s s' \<longleftrightarrow> (good s \<longrightarrow> good s' \<and> (\<forall>u. funds u (acc s') = funds u (acc s)))"

lemma keeps_refl [simp]: "keeps s s"
  by (simp add: keeps_def)

lemma keeps_trans: "keeps a b \<Longrightarrow> keeps b c \<Longrightarrow> keeps a c"
  by (simp add: keeps_def)

lemma keeps_frame:
  assumes w: "work_frame s s'" and l: "same_ledger s s'"
  shows "keeps s s'"
proof -
  note [simp] = ok_local [OF l] acc_local [OF l] closed_local [OF l] used_local [OF l] coupled_frame [OF w]
  have "view_items s' = view_items s" "batch_keys s' = batch_keys s" using w by (simp_all add: work_frame_def)
  then show ?thesis by (simp add: keeps_def good_def holds_ok_def)
qed

lemma ac_hold_close_hold [simp]:
  "ac_hold (close_hold u r m n a) = (ac_hold a)(r := ac_hold a r - (m + n))"
  by (simp add: close_hold_def)

lemma item_terminal_of [simp]: "item_terminal (item_status_of st) \<longleftrightarrow> \<not> job_open st"
  by (cases st) (simp_all add: item_terminal_def job_open_def)

lemma can_transition_open: "can_transition_job st st' \<Longrightarrow> job_open st"
  by (cases st) (simp_all add: job_open_def)

lemma queue_step_coupled:
  assumes "coupled s" and "queue_step job st s s'" shows "coupled s'"
proof -
  obtain job' where "moved job job' s s'" "job_status job' = st" "job_row_ok job'"
    using assms(2) by (auto simp: queue_step_def)
  then show ?thesis
    using assms can_transition_open by (intro moved_coupled [OF assms(1)]) (auto simp: queue_step_def)
qed

lemma queue_step_holds:
  assumes c: "coupled s" and o: "ok s" and h: "holds_ok s" and step: "queue_step job st s s'"
  shows "ok s' \<and> holds_ok s' \<and> (\<forall>u. funds u (acc s') = funds u (acc s))"
proof -
  obtain job' where m: "moved job job' s s'" and st: "job_status job' = st" "can_transition_job (job_status job) st"
    and eff: "if job_open st then untouched s s' else finished job s s'"
    using step by (auto simp: queue_step_def)
  have j: "job \<in> set (jobs s)" using m by (simp add: moved_def)
  have op: "job_open (job_status job)" using st(2) by (rule can_transition_open)
  have bk: "batch_keys s' = batch_keys s" using m by (simp add: moved_def)
  show ?thesis
  proof (cases "job_item job")
    case None
    then have "untouched s s'" "view_items s' = view_items s"
      using eff m by (auto simp: finished_def moved_def split: if_splits)
    with o h bk show ?thesis by (simp add: holds_ok_def untouched_def)
  next
    case (Some i)
    then obtain x where x: "x \<in> set (items s)" "itm_id x = i" and
      v: "view_items s' = iv_tab.put ((view_item x)\<lparr>iv_status := item_status_of st\<rparr>) (view_items s)"
      using m st(1) by (auto simp: moved_def)
    obtain y where "y \<in> set (items s)" "itm_id y = i" "couple job (view_item y)"
      using coupled_item [OF c j Some] .
    with x have "couple job (view_item x)" using itm_tab.unique_same [OF coupledD(2) [OF c]] by metis
    then have nt: "\<not> item_terminal (itm_status x)" using op by (simp add: couple_def)
    have nc: "\<not> closed i s"
      using h nt view_items_I [OF x(1)] x(2) by (auto simp: holds_ok_def)
    have u: "iv_tab.unique (view_items s)" using coupledD(2) [OF c] by (simp add: view_unique)
    let ?P = "\<lambda>r v. iv_reservation v = r \<and> \<not> item_terminal (iv_status v)"
    have sum: "sum_where (?P r) iv_reserved (view_items s') = sum_where (?P r) iv_reserved (view_items s) -
        (if itm_reservation x = r \<and> \<not> job_open st then itm_reserved x else 0)" for r
      unfolding v iv_tab.put_def
      by (subst iv_tab.sum_where_update [OF u view_items_I [OF x(1)]]) (use nt in auto)
    have set: "set (view_items s') =
        insert ((view_item x)\<lparr>iv_status := item_status_of st\<rparr>) (set (view_items s) - {view_item x})"
      unfolding v by (rule iv_tab.set_put [OF u view_items_I [OF x(1)]]) simp
    have ids: "iv_id ` set (view_items s') = iv_id ` set (view_items s)"
      unfolding v by (metis iv_tab.put_keys set_map)
    have rest: "k = itm_id x" if "k \<in> iv_id ` set (view_items s)" "k \<notin> iv_id ` (set (view_items s) - {view_item x})" for k
      using that by auto
    have other: "iv_id w \<noteq> i" if "w \<in> set (view_items s) - {view_item x}" for w
      using that iv_tab.unique_same [OF u, of w "view_item x"] view_items_I [OF x(1)] x(2) by auto
    show ?thesis
    proof (cases "job_open st")
      case True
      with eff have "untouched s s'" by simp
      with o h sum True other x nc ids bk show ?thesis unfolding holds_ok_def ids set untouched_def by auto
    next
      case False
      with eff Some obtain z where z: "z \<in> set (items s)" "itm_id z = i" "closing z s s'"
        by (auto simp: finished_def)
      with x have "z = x" using itm_tab.unique_same [OF coupledD(2) [OF c]] by metis
      with z o nc x obtain a b where "ok s'" "\<forall>u key. used u key s' = used u key s" "\<forall>k. closed k s' \<longleftrightarrow> closed k s \<or> k = i" "a + b = itm_reserved x"
        "acc s' = close_hold (itm_user x) (itm_reservation x) a b (acc s)"
        by (auto simp: closing_def)
      with h sum False other x bk rest view_items_I [OF x(1)] show ?thesis unfolding holds_ok_def ids set by auto
    qed
  qed
qed

lemma queue_step_keeps: "queue_step job st s s' \<Longrightarrow> keeps s s'"
  unfolding keeps_def good_def using queue_step_coupled queue_step_holds by blast

section \<open>The whole operations\<close>

lemma fold_cleanup_frame:
  "work_frame s (fold (queue_object_cleanup u p now) xs s) \<and>
   same_ledger s (fold (queue_object_cleanup u p now) xs s)"
proof (induction xs arbitrary: s)
  case (Cons x xs)
  obtain a r where x: "x = (a, r)" by (cases x)
  have "work_frame s (queue_object_cleanup u p now x s) \<and> same_ledger s (queue_object_cleanup u p now x s)"
    by (simp add: x work_frame_def same_ledger_def view_items_def batch_keys_def)
  with Cons [of "queue_object_cleanup u p now x s"] show ?case
    by (auto intro: work_frame_trans same_ledger_trans)
qed simp

lemma finalize_project_deletion_frame:
  assumes "finalize_project_deletion_tx u p now s = Inr s'"
  shows "work_frame s s'" "same_ledger s s'"
proof -
  have rem: "work_frame s (remove_project_rows u p s1) = work_frame s s1"
    "same_ledger s (remove_project_rows u p s1) = same_ledger s s1" for s1
    by (simp_all add: remove_project_rows_def work_frame_def same_ledger_def view_items_def batch_keys_def)
  have "work_frame s s' \<and> same_ledger s s'"
    using assms fold_cleanup_frame [of s]
    by (auto simp: finalize_project_deletion_tx_def rem split: if_splits sum.splits)
  then show "work_frame s s'" "same_ledger s s'" by simp_all
qed

lemma finalize_best_effort_keeps: "keeps s (finalize_project_deletion_best_effort q' u p now s)"
  using finalize_project_deletion_frame
  by (auto simp: finalize_project_deletion_best_effort_def intro: keeps_frame split: sum.splits)

lemma finish_operation_keeps:
  assumes "\<And>r s'. good s \<Longrightarrow> body s = Inr (r, s') \<Longrightarrow> keeps s s'"
  shows "keeps s (snd (finish_operation q now body s))"
proof (cases "good s")
  case True
  then show ?thesis
    using assms finalize_best_effort_keeps keeps_trans
    by (auto simp: finish_operation_def run_tx_def split: sum.splits prod.splits option.splits)
qed (simp add: keeps_def)

lemma complete_keeps: "keeps s (snd (complete q lease result now s))"
  unfolding complete_def
  by (rule finish_operation_keeps)
    (auto simp: and_then_eq_Inr good_def dest!: complete_tx_step intro: queue_step_keeps)

lemma fail_keeps: "keeps s (snd (fail q lease failure now jitter s))"
  unfolding fail_def
  by (rule finish_operation_keeps) (auto simp: good_def dest!: fail_tx_step intro: queue_step_keeps)

lemma cancel_keeps: "keeps s (snd (cancel q lease reason now s))"
  unfolding cancel_def
  by (rule finish_operation_keeps)
    (auto simp: and_then_eq_Inr good_def dest!: load_running_leased_job_Inr cancel_leased_job_step
      intro: queue_step_keeps)

lemma recover_loop_keeps: "keeps s (snd (recover_loop q jitter now ks s))"
proof (induction ks arbitrary: s)
  case (Cons k ks)
  have one: "keeps s s'" if "recover_one_tx q jitter now k s = Inr (r, s')" for r s'
    using that recover_one_tx_step [of s jitter now k r s'] queue_step_keeps
    by (cases "coupled s") (auto simp: keeps_def good_def)
  have "keeps s s'" if "run_tx (recover_one_tx q jitter now k) s = (r, s')" for r s'
    using that one by (auto simp: run_tx_def split: sum.splits prod.splits)
  moreover have "keeps s' (snd (recover_loop q jitter now ks
      (finalize_project_deletion_best_effort q u p now s')))" for s' u p
    by (rule keeps_trans [OF finalize_best_effort_keeps Cons])
  ultimately show ?case
    using Cons by (auto split: sum.splits prod.splits option.splits intro: keeps_trans)
qed simp

lemma reconcile_loop_keeps: "keeps s (snd (reconcile_loop now ps s))"
proof (induction now ps s rule: reconcile_loop.induct)
  case (2 now u p ps s)
  have "finalize_project_deletion_tx u p now s = Inr s' \<Longrightarrow> keeps s s'" for s'
    using finalize_project_deletion_frame keeps_frame by blast
  with 2 show ?case by (auto split: sum.splits intro: keeps_trans)
qed simp

lemma reconcile_keeps: "keeps s (snd (reconcile_project_deletions q limit now s))"
  unfolding reconcile_project_deletions_def by (auto simp: reconcile_loop_keeps split: sum.splits)

lemma recover_expired_keeps: "keeps s (snd (recover_expired q jitter limit now s))"
proof -
  have "keeps s s'" if "recover_loop q jitter now ks s = (r, s')" for ks r s'
    using recover_loop_keeps [of s jitter now ks] that by simp
  then show ?thesis
    unfolding recover_expired_def
    by (auto split: sum.splits prod.splits intro: keeps_trans [OF _ reconcile_keeps])
qed

text \<open>
  A claim transaction on a good state never fails, claims only claimable jobs, and each claimed
  job runs under the lease it was given.
\<close>

lemma claim_loop:
  assumes "good s" and "\<And>k. k \<in> set ks \<Longrightarrow> \<not> blank (token k)" and "distinct ks"
  shows "\<exists>new s'. fold_result (claim_one q token now d) ks (claimed, s) = Inr (claimed @ new, s') \<and>
    keeps s s' \<and> distinct (map (\<lambda>(j, _). job_id j) new) \<and>
    (\<forall>(j, item) \<in> set new. job_id j \<in> set ks \<and> job_status j = JobRunning \<and> job_lease_owner j = q_worker q \<and>
       job_lease_token j = token (job_id j) \<and> job_lease_expires_at j = Some (now + d) \<and> j \<in> set (jobs s')) \<and>
    (\<forall>j \<in> set (jobs s). job_id j \<notin> set ks \<longrightarrow> j \<in> set (jobs s'))"
  using assms
proof (induction ks arbitrary: s claimed)
  case (Cons k ks)
  have c: "coupled s" using Cons.prems(1) by (simp add: good_def)
  have tok: "\<not> blank (token k)" using Cons.prems(2) by simp
  obtain new1 s1 where step: "claim_one q token now d k (claimed, s) = Inr (claimed @ new1, s1)" and
    cases: "new1 = [] \<and> s1 = s \<or>
      (\<exists>job \<in> set (jobs s). \<exists>item. job_id job = k \<and> queue_step job JobRunning s s1 \<and>
        claimed_row (q_worker q) (token k) now d job \<in> set (jobs s1) \<and>
        new1 = [(claimed_row (q_worker q) (token k) now d job, item)])"
    using claim_one_total [where token = token and k = k, OF c tok] by blast
  have keep1: "keeps s s1" using cases queue_step_keeps by auto
  then have "good s1" using Cons.prems(1) by (simp add: keeps_def)
  then obtain new2 s2 where rest: "fold_result (claim_one q token now d) ks (claimed @ new1, s1) =
      Inr ((claimed @ new1) @ new2, s2)" and r: "keeps s1 s2" "distinct (map (\<lambda>(j, _). job_id j) new2)"
      "\<forall>(j, item) \<in> set new2. job_id j \<in> set ks \<and> job_status j = JobRunning \<and> job_lease_owner j = q_worker q \<and>
       job_lease_token j = token (job_id j) \<and> job_lease_expires_at j = Some (now + d) \<and> j \<in> set (jobs s2)"
      "\<forall>j \<in> set (jobs s1). job_id j \<notin> set ks \<longrightarrow> j \<in> set (jobs s2)"
    using Cons.IH [of s1 "claimed @ new1"] Cons.prems(2,3) by auto
  have other: "j \<in> set (jobs s1)" if "j \<in> set (jobs s)" "job_id j \<noteq> k" for j
    using cases
  proof
    assume "\<exists>job \<in> set (jobs s). \<exists>item. job_id job = k \<and> queue_step job JobRunning s s1 \<and>
        claimed_row (q_worker q) (token k) now d job \<in> set (jobs s1) \<and>
        new1 = [(claimed_row (q_worker q) (token k) now d job, item)]"
    then obtain job job' where m: "moved job job' s s1" "job_id job = k" by (auto simp: queue_step_def)
    then have "set (jobs s1) = insert job' (set (jobs s) - {job})"
      using job_tab.set_put [OF coupledD(1) [OF c], of job job'] by (auto simp: moved_def same_job_def)
    with that m show ?thesis by auto
  qed (use that in simp)
  have new1: "\<forall>(j, item) \<in> set new1. job_id j = k \<and> job_status j = JobRunning \<and> job_lease_owner j = q_worker q \<and>
       job_lease_token j = token k \<and> job_lease_expires_at j = Some (now + d) \<and> j \<in> set (jobs s1)"
    using cases by (auto simp: claimed_row_def)
  have len: "length new1 \<le> 1" using cases by auto
  have d: "distinct (map (\<lambda>(j, _). job_id j) (new1 @ new2))"
    using r(2,3) new1 len Cons.prems(3) by (cases new1) (auto split: prod.splits)
  have "fold_result (claim_one q token now d) (k # ks) (claimed, s) = Inr (claimed @ (new1 @ new2), s2)"
    using step rest by simp
  moreover have "keeps s s2" using keep1 r(1) by (rule keeps_trans)
  moreover have "\<forall>(j, item) \<in> set (new1 @ new2). job_id j \<in> set (k # ks) \<and> job_status j = JobRunning \<and>
       job_lease_owner j = q_worker q \<and> job_lease_token j = token (job_id j) \<and>
       job_lease_expires_at j = Some (now + d) \<and> j \<in> set (jobs s2)"
    using new1 r(3,4) Cons.prems(3) by (auto split: prod.splits)
  moreover have "\<forall>j \<in> set (jobs s). job_id j \<notin> set (k # ks) \<longrightarrow> j \<in> set (jobs s2)"
    using other r(4) by auto
  ultimately show ?case using d by blast
qed simp

lemma heartbeat_tx_effect:
  assumes c: "coupled s" and d: "heartbeat_tx lease now dur s = Inr (canceled, s')"
  shows "\<exists>job \<in> set (jobs s). leased_row lease job \<and>
    jobs s' = job_tab.put (job\<lparr>job_heartbeat_at := Some now, job_lease_expires_at := Some (now + dur)\<rparr>) (jobs s) \<and>
    view_items s' = view_items s \<and> batch_keys s' = batch_keys s \<and> same_ledger s s' \<and>
    (canceled \<longleftrightarrow> job_cancel_requested_at job \<noteq> None \<or> batch_cancel_requested job s = Some True \<or>
       item_cancel_requested job s = Some True)"
proof -
  obtain job s1 c where load: "load_running_leased_job lease s = Inr job" and
    upd: "update_leased lease None (\<lambda>j. j\<lparr>job_heartbeat_at := Some now, job_lease_expires_at := Some (now + dur)\<rparr>)
       ErrLeaseMismatch s = Inr s1" and
    s': "s' = emit_commerce_event job ''job_heartbeat'' [(''cancel_requested'', MetaBool canceled)] s1" and
    cc: "item_cancel_requested job s = Some c" "canceled =
       ((job_cancel_requested_at job \<noteq> None \<or> batch_cancel_requested job s = Some True) \<or> c)"
    using d unfolding heartbeat_tx_def Let_def by (auto simp only: inv_simps sum.inject prod.inject)
  note j = load_running_leased_job_Inr [OF load, THEN conjunct1] load_running_leased_job_Inr [OF load, THEN conjunct2]
  have "s1 = s\<lparr>jobs := job_tab.put (job\<lparr>job_heartbeat_at := Some now, job_lease_expires_at := Some (now + dur)\<rparr>) (jobs s)\<rparr>"
    using update_leased_Inr(1) [OF coupledD(1) [OF c] upd j] by simp
  with j cc show ?thesis unfolding s' by (intro bexI [of _ job]) auto
qed

lemma heartbeat_keeps: "keeps s (snd (heartbeat q lease now dur s))"
proof -
  have "keeps s s'" if d: "heartbeat_tx lease now dur s = Inr (canceled, s')" for canceled s'
  proof (cases "coupled s")
    case True
    then obtain job where job: "job \<in> set (jobs s)" "leased_row lease job" and
      s': "jobs s' = job_tab.put (job\<lparr>job_heartbeat_at := Some now, job_lease_expires_at := Some (now + dur)\<rparr>) (jobs s)"
        "view_items s' = view_items s" "batch_keys s' = batch_keys s" "same_ledger s s'"
      using heartbeat_tx_effect [OF True d] by blast
    have "coupled s'"
      using True unfolding coupled_def s'
      by (rule coupled_put_job [OF _ job(1)])
        (use coupledD(3) [OF True job(1)] job(2) in
          \<open>auto simp: same_job_def job_row_ok_def couple_def leased_row_def\<close>)
    then show ?thesis
      using s' ok_local [OF s'(4)] acc_local [OF s'(4)] closed_local [OF s'(4)] used_local [OF s'(4)]
      by (simp add: keeps_def good_def holds_ok_def)
  qed (simp add: keeps_def good_def)
  then show ?thesis
    by (auto simp: heartbeat_def run_tx_def split: sum.splits prod.splits)
qed

lemma claim_tx_total:
  assumes g: "good s" and tok: "\<And>k. \<not> blank (token k)"
  shows "\<exists>new s'. claim_tx q token sel_now now limit d s = Inr (new, s') \<and> keeps s s' \<and>
    length new \<le> limit \<and> distinct (map (\<lambda>(j, _). job_id j) new) \<and>
    (\<forall>(j, item) \<in> set new. job_status j = JobRunning \<and> job_lease_owner j = q_worker q \<and>
       job_lease_token j = token (job_id j) \<and> job_lease_expires_at j = Some (now + d) \<and> j \<in> set (jobs s'))"
proof -
  let ?ids = "claimable_job_ids sel_now limit s"
  have "job_tab.unique (jobs s)" using g coupledD(1) by (simp add: good_def)
  then have "distinct (map job_id (filter (claimable sel_now) (jobs s)))"
    by (simp add: job_tab.unique_def distinct_map_filter)
  then have dist: "distinct ?ids"
    by (simp add: claimable_job_ids_def distinct_map distinct_take inj_on_def)
  have len: "length ?ids \<le> limit" by (simp add: claimable_job_ids_def)
  obtain new s' where run: "fold_result (claim_one q token now d) ?ids ([], s) = Inr (new, s')" and "keeps s s'" and
    new: "distinct (map (\<lambda>(j, _). job_id j) new)" "\<forall>(j, item) \<in> set new. job_id j \<in> set ?ids \<and>
       job_status j = JobRunning \<and> job_lease_owner j = q_worker q \<and>
       job_lease_token j = token (job_id j) \<and> job_lease_expires_at j = Some (now + d) \<and> j \<in> set (jobs s')"
    using claim_loop [where token = token and ks = ?ids and claimed = "[]" and now = now and d = d, OF g]
      tok dist by auto
  have "set (map (\<lambda>(j, _). job_id j) new) \<subseteq> set ?ids" using new(2) by auto
  then have "length new \<le> length ?ids"
    using new(1) dist by (metis card_mono distinct_card length_map List.finite_set)
  with run \<open>keeps s s'\<close> new len show ?thesis by (auto simp: claim_tx_def)
qed

lemma claim_keeps:
  assumes tok: "\<And>k. \<not> blank (token k)"
  shows "keeps s (snd (claim q token jitter now0 sel_now now limit d s))"
proof -
  have tx: "keeps s1 s2" if "run_tx (claim_tx q token sel_now now n d) s1 = (r, s2)" for s1 s2 r n
  proof (cases "good s1")
    case True
    with that show ?thesis using claim_tx_total [where token = token and sel_now = sel_now and now = now and
        limit = n and d = d, OF True] tok by (auto simp: run_tx_def)
  qed (simp add: keeps_def)
  have rec: "keeps s s1" if "recover_expired q jitter limit now0 s = (r, s1)" for r s1
    using recover_expired_keeps [of s jitter limit now0] that by simp
  show ?thesis
    using rec tx unfolding claim_def
    by (auto split: sum.splits prod.splits if_splits) (metis keeps_trans prod.collapse)+
qed

end

end
