(* ===== verification/WorkerAdapter.thy ===== *)
theory WorkerAdapter
  imports QueueSafety
begin

text \<open>
  The commerce worker's queue as the application configures it
  (\<^verbatim>\<open>ecommerce_worker_adapter.go\<close>): the discarder of late results, and the terminal
  hook of product analyses with the payload it decodes
  (\<^verbatim>\<open>ecommerce/product_report.go\<close>). Both keep to the contract of the queue, so the
  queue's lemmas hold for the application.
\<close>

section \<open>Late results\<close>

text \<open>The message is Chinese for ``generation canceled, no credits deducted'', as its UTF-8 bytes.\<close>

definition image_generation_cancelled_message :: string where
  "image_generation_cancelled_message = map char_of ([229, 183, 178, 229, 143, 150, 230, 182, 136,
     231, 148, 159, 230, 136, 144, 239, 188, 140, 230, 156, 170, 230, 137, 163, 231, 130, 185,
     227, 128, 130] :: nat list)"

definition discard_late_commerce_result_tx ::
  "commerce_job \<Rightarrow> execution_result \<Rightarrow> commerce_db \<Rightarrow> commerce_error + commerce_db" where
  "discard_late_commerce_result_tx job r s =
     (if er_work r = 0 then Inr s
      else case first_where (\<lambda>w. wrk_id w = er_work r \<and> wrk_deleted_at w = None) (works s) of
        None \<Rightarrow> Inr s
      | Some w \<Rightarrow>
          let mine = (\<lambda>g. grc_id g = er_record r \<and> grc_user g = job_user job \<and> grc_work g = Some (er_work r)) in
          if wrk_user w \<noteq> job_user job \<or> er_record r = 0 \<or> wrk_record w \<noteq> er_record r
          then Inl ErrOwnershipMismatch
          else if first_where mine (generation_records s) = None then Inl ErrOwnershipMismatch
          else Inr (s\<lparr>
            generation_records := update_where mine
              (\<lambda>g. g\<lparr>grc_status := ''failed'', grc_work := None, grc_asset_key := '''', grc_preview_url := '''',
                     grc_download_url := '''', grc_storage_scope := ''default'',
                     grc_error_code := ''user_cancelled'',
                     grc_error_message := image_generation_cancelled_message\<rparr>) (generation_records s),
            works := update_where (\<lambda>x. wrk_id x = wrk_id w \<and> wrk_deleted_at x = None)
              (\<lambda>x. x\<lparr>wrk_deleted_at := Some (clock s)\<rparr>) (works s),
            cleanups := cleanups s @ [
              \<lparr>cln_id = next_key cln_id (cleanups s), cln_user = wrk_user w, cln_project = job_project job,
               cln_asset = None, cln_reference = None, cln_record = Some (er_record r),
               cln_work = Some (er_work r), cln_storage_scope = ''commerce_private'',
               cln_object_key = wrk_asset_key w, cln_reason = ''late_result_discarded'',
               cln_status = ''queued'', cln_attempt_count = 0, cln_max_attempts = 8,
               cln_next_attempt_at = Some (clock s), cln_delete_after = clock s, cln_last_error = '''',
               cln_object_deleted_at = None\<rparr>]\<rparr>))"

section \<open>Product analyses\<close>

record analysis_payload =
  ap_source_assets :: "uid list"
  ap_requirements :: string
  ap_request_hash :: string
  ap_spec_version :: int
  ap_project :: uid
  ap_spec :: uid

fun first_occurrences :: "uid set \<Rightarrow> uid list \<Rightarrow> uid list" where
  "first_occurrences seen [] = []"
| "first_occurrences seen (v # vs) =
     (if v = 0 \<or> v \<in> seen then first_occurrences seen vs
      else v # first_occurrences (insert v seen) vs)"

definition unique_sorted_ids :: "uid list \<Rightarrow> uid list" where
  "unique_sorted_ids vs = sort (first_occurrences {} vs)"

text \<open>
  The JSON decoder of Go's standard library, strict about unknown fields and trailing text, is
  an argument; the checks that follow it are here. An error is \<open>None\<close>: the hook only looks at
  whether there is one.
\<close>

definition decode_product_analysis_job_payload ::
  "(string \<Rightarrow> analysis_payload option) \<Rightarrow> string \<Rightarrow> analysis_payload option" where
  "decode_product_analysis_job_payload json raw =
     (case json raw of
        None \<Rightarrow> None
      | Some p \<Rightarrow>
          if ap_request_hash p = '''' \<or> ap_spec_version p \<le> 0 \<or> ap_project p = 0 \<or> ap_spec p = 0 \<or>
             ap_source_assets p = []
          then None
          else if unique_sorted_ids (ap_source_assets p) \<noteq> ap_source_assets p then None
          else Some (p\<lparr>ap_requirements := trim_space (ap_requirements p)\<rparr>))"

definition product_analysis_terminal_hook :: "(string \<Rightarrow> analysis_payload option) \<Rightarrow> terminal_hook" where
  "product_analysis_terminal_hook json job now s =
     (case job_subject job of
        None \<Rightarrow> Inr s
      | Some subject \<Rightarrow>
          if job_status job \<noteq> JobFailed \<or> job_error_code job \<noteq> ''max_attempts_exceeded'' \<or>
             job_dead_lettered_at job = None \<or> job_subject_type job \<noteq> ''creative_spec''
          then Inr s
          else case decode_product_analysis_job_payload json (job_payload job) of
            None \<Rightarrow> Inr s
          | Some p \<Rightarrow>
              if ap_project p \<noteq> job_project job \<or> ap_spec p \<noteq> subject then Inr s
              else Inr (s\<lparr>creative_specs := update_where
                (\<lambda>c. spc_id c = subject \<and> spc_user c = job_user job \<and> spc_project c = job_project job \<and>
                   spc_status c = ''analyzing'' \<and> spc_version c = ap_spec_version p \<and>
                   spc_analysis_request_hash c = ap_request_hash p)
                (\<lambda>c. c\<lparr>spc_status := ''analysis_failed'', spc_analysis_error := ''analysis retries exhausted''\<rparr>)
                (creative_specs s)\<rparr>))"

section \<open>The worker's queue\<close>

text \<open>
  The worker's name is the host name (or \<^verbatim>\<open>dz-ai-creator\<close>) with the process id;
  \<^verbatim>\<open>NewQueue\<close> trims it and falls back to a random name.
\<close>

definition worker_id :: "string \<Rightarrow> nat \<Rightarrow> string" where
  "worker_id host pid = (if host = '''' then ''dz-ai-creator'' else host) @ ''-'' @ show_nat pid"

definition new_queue_worker :: "string \<Rightarrow> string \<Rightarrow> string" where
  "new_queue_worker name token =
     (let w = trim_space name in if w = '''' then ''commerce-worker-'' @ token else w)"

definition commerce_worker_queue ::
  "(string \<Rightarrow> analysis_payload option) \<Rightarrow> string \<Rightarrow> nat \<Rightarrow> string \<Rightarrow> commerce_queue" where
  "commerce_worker_queue json host pid token =
     \<lparr>q_worker = new_queue_worker (worker_id host pid) token,
      q_service = Some \<lparr>svc_ledger = Some commerce_credit_ledger\<rparr>,
      q_hooks = (\<lambda>kind. if kind = ''product_analysis'' then Some (product_analysis_terminal_hook json) else None),
      q_discard = Some discard_late_commerce_result_tx\<rparr>"

section \<open>The contract\<close>

lemma discard_late_commerce_result_frame:
  assumes "discard_late_commerce_result_tx job r s = Inr s'"
  shows "work_frame s s' \<and> same_ledger s s'"
  using assms by (auto simp: discard_late_commerce_result_tx_def Let_def work_frame_def same_ledger_def
      view_items_def batch_keys_def split: if_splits option.splits)

lemma product_analysis_terminal_hook_frame:
  assumes "product_analysis_terminal_hook json job now s = Inr s'"
  shows "work_frame s s' \<and> same_ledger s s'"
  using assms by (auto simp: product_analysis_terminal_hook_def work_frame_def same_ledger_def
      view_items_def batch_keys_def split: if_splits option.splits)

lemma plain_dash: "plain_byte (CHR ''-'')"
  unfolding plain_byte_def space_encodings_def by (simp add: char_of_def)

lemma new_queue_worker_named: "\<not> blank (new_queue_worker (worker_id host pid) token)"
proof -
  have "CHR ''-'' \<in> set (worker_id host pid)" by (simp add: worker_id_def)
  then have "CHR ''-'' \<in> set (trim_space (worker_id host pid))" by (rule trim_space_keeps [OF _ plain_dash])
  moreover have "CHR ''-'' \<in> set (''commerce-worker-'' @ token)" by simp
  ultimately have "CHR ''-'' \<in> set (new_queue_worker (worker_id host pid) token)"
    unfolding new_queue_worker_def Let_def by (simp split: if_split)
  then show ?thesis by (rule not_blank [OF _ plain_dash])
qed

interpretation worker: queue_env commerce_credit_ledger ledger_ok account_of item_settled key_used
  "commerce_worker_queue json host pid token" for json host pid token
proof unfold_locales
  show "queue_ledger (commerce_worker_queue json host pid token) = Some commerce_credit_ledger"
    by (simp add: queue_ledger_def commerce_worker_queue_def)
  show "\<not> blank (q_worker (commerce_worker_queue json host pid token))"
    by (simp add: commerce_worker_queue_def new_queue_worker_named)
  show "work_frame s s' \<and> same_ledger s s'"
    if "q_hooks (commerce_worker_queue json host pid token) kind = Some hook" "hook job now s = Inr s'"
    for kind hook job now s s'
    using that product_analysis_terminal_hook_frame by (auto simp: commerce_worker_queue_def split: if_splits)
  show "work_frame s s' \<and> same_ledger s s'"
    if "q_discard (commerce_worker_queue json host pid token) = Some d" "d job r s = Inr s'" for d job r s s'
    using that discard_late_commerce_result_frame by (auto simp: commerce_worker_queue_def)
qed

section \<open>Canonical identifiers\<close>

lemma set_first_occurrences: "set (first_occurrences seen vs) = {v \<in> set vs. v \<noteq> 0 \<and> v \<notin> seen}"
  by (induction seen vs rule: first_occurrences.induct) auto

lemma distinct_first_occurrences: "distinct (first_occurrences seen vs)"
  by (induction seen vs rule: first_occurrences.induct) (auto simp: set_first_occurrences)

lemma unique_sorted_ids_props:
  "sorted (unique_sorted_ids vs) \<and> distinct (unique_sorted_ids vs) \<and>
   set (unique_sorted_ids vs) = set vs - {0}"
  by (auto simp: unique_sorted_ids_def set_first_occurrences distinct_first_occurrences)

lemma unique_sorted_ids_canonical: "unique_sorted_ids vs = vs \<longleftrightarrow> sorted vs \<and> distinct vs \<and> 0 \<notin> set vs"
  using unique_sorted_ids_props [of vs]
  by (metis Diff_empty Diff_insert0 Diff_iff insertI1 sorted_distinct_set_unique)

section \<open>The work invariant\<close>

text \<open>
  The queue's invariant over the application's ledger, written out: jobs and items are
  coupled, the ledger is consistent, an item is settled exactly when it is terminal, a
  reservation's open hold is what its unfinished items have reserved, every settlement is of
  an item and every reservation is of a batch.
\<close>

definition holds_match :: "commerce_db \<Rightarrow> bool" where
  "holds_match s \<longleftrightarrow>
     (\<forall>i \<in> set (items s). item_settled (itm_id i) s \<longleftrightarrow> item_terminal (itm_status i)) \<and>
     (\<forall>r. ac_hold (account_of s) r =
        sum_where (\<lambda>i. itm_reservation i = r \<and> \<not> item_terminal (itm_status i)) itm_reserved (items s)) \<and>
     (\<forall>t \<in> set (settlements s). stl_item t \<in> itm_id ` set (items s)) \<and>
     (\<forall>r \<in> set (reservations s). batch_key_known (rsv_user r) (rsv_idempotency_key r) (batch_keys s))"

definition work_ok :: "commerce_db \<Rightarrow> bool" where
  "work_ok s \<longleftrightarrow> coupled s \<and> ledger_ok s \<and> holds_match s"

lemma sum_where_view:
  "sum_where (\<lambda>v. P (iv_reservation v) (iv_status v)) iv_reserved (view_items s) =
     sum_where (\<lambda>i. P (itm_reservation i) (itm_status i)) itm_reserved (items s)"
  by (simp add: sum_where_def view_items_def comp_def cong: if_cong)

lemma good_iff_work_ok: "worker.good s \<longleftrightarrow> work_ok s"
proof -
  have "(\<forall>v \<in> set (view_items s). item_settled (iv_id v) s = item_terminal (iv_status v)) \<longleftrightarrow>
      (\<forall>i \<in> set (items s). item_settled (itm_id i) s = item_terminal (itm_status i))"
    by (simp add: view_items_def)
  moreover have "sum_where (\<lambda>v. iv_reservation v = r \<and> \<not> item_terminal (iv_status v)) iv_reserved (view_items s) =
      sum_where (\<lambda>i. itm_reservation i = r \<and> \<not> item_terminal (itm_status i)) itm_reserved (items s)" for r
    by (rule sum_where_view [where P = "\<lambda>x st. x = r \<and> \<not> item_terminal st"])
  moreover have "(\<forall>k. item_settled k s \<longrightarrow> k \<in> iv_id ` set (view_items s)) \<longleftrightarrow>
      (\<forall>t \<in> set (settlements s). stl_item t \<in> itm_id ` set (items s))"
    by (auto simp: item_settled_def view_items_def image_image)
  moreover have "(\<forall>u key. key_used u key s \<longrightarrow> batch_key_known u key (batch_keys s)) \<longleftrightarrow>
      (\<forall>r \<in> set (reservations s). batch_key_known (rsv_user r) (rsv_idempotency_key r) (batch_keys s))"
    by (auto simp: key_used_def)
  ultimately show ?thesis
    unfolding worker.good_def worker.holds_ok_def work_ok_def holds_match_def by simp
qed

end
