(* ===== verification/Demo.thy ===== *)
theory Demo
  imports WorkerAdapter
begin

text \<open>
  A small database for the witnesses: one user with 100 credits, one project, one batch of two
  items of 10 credits each. The first item's job runs under the lease \<open>demo_lease\<close>, the
  second waits in the queue.
\<close>

definition demo_balance :: credit_balance where
  "demo_balance = \<lparr>bal_id = 1, bal_user = 7, bal_available = 80, bal_reserved = 20\<rparr>"

definition demo_reservation :: commerce_credit_reservation where
  "demo_reservation = \<lparr>rsv_id = 1, rsv_user = 7, rsv_project = 3, rsv_batch = Some 1,
     rsv_scope_type = ''batch'', rsv_scope_key = ''1'', rsv_idempotency_key = ''commerce:batch:k'',
     rsv_status = ''reserved'', rsv_total = 20, rsv_reserved = 20, rsv_settled = 0, rsv_released = 0,
     rsv_completed_at = None\<rparr>"

definition demo_item :: "uid \<Rightarrow> item_status \<Rightarrow> commerce_generation_item" where
  "demo_item k st = \<lparr>itm_id = k, itm_user = 7, itm_project = 3, itm_batch = 1, itm_parent = None,
     itm_reservation = 1, itm_sku = 5, itm_scope = ''sku'', itm_slot_key = ''hero'', itm_candidate_index = 0,
     itm_pipeline = ''general'', itm_recipe_key = ''r'', itm_recipe_version = 1, itm_quality_tier = ''standard'',
     itm_pricing_version = ''v1'', itm_pricing_snapshot = ''ps'', itm_idempotency_key = ''k:item:0'',
     itm_status = st, itm_progress = 10, itm_input_snapshot = '''', itm_output_spec = '''',
     itm_output_snapshot = '''', itm_estimated = 10, itm_reserved = 10, itm_settled = 0, itm_released = 0,
     itm_record = None, itm_work = None, itm_error_code = '''', itm_error_message = '''',
     itm_cancel_requested_at = None, itm_started_at = None, itm_finished_at = None,
     itm_created_at = 1, itm_updated_at = 1\<rparr>"

definition demo_job :: "uid \<Rightarrow> job_status \<Rightarrow> string \<Rightarrow> string \<Rightarrow> time option \<Rightarrow> int \<Rightarrow> commerce_job" where
  "demo_job k st owner token expiry attempts = \<lparr>job_id = k, job_user = 7, job_project = 3,
     job_batch = Some 1, job_item = Some k, job_subject = None, job_subject_type = '''',
     job_kind = generate_item_kind, job_pipeline = ''general'', job_recipe_key = ''r'', job_status = st,
     job_idempotency_key = ''k:job'', job_priority = 0, job_attempt_count = attempts, job_max_attempts = 3,
     job_next_attempt_at = None, job_lease_owner = owner, job_lease_token = token,
     job_lease_expires_at = expiry, job_heartbeat_at = None, job_cancel_requested_at = None,
     job_payload = '''', job_result = '''', job_error_code = '''', job_error_message = '''',
     job_started_at = None, job_finished_at = None, job_dead_lettered_at = None\<rparr>"

definition demo_batch :: commerce_generation_batch where
  "demo_batch = \<lparr>bat_id = 1, bat_user = 7, bat_project = 3, bat_creative_spec = Some 4, bat_parent = None,
     bat_reservation = Some 1, bat_primary_sku = 5, bat_pipeline = ''general'', bat_recipe_key = ''r'',
     bat_recipe_version = 1, bat_quality_tier = ''standard'', bat_status = BatchRunning,
     bat_idempotency_key = ''k'', bat_request_digest = ''d'', bat_request_snapshot = '''',
     bat_pricing_version = ''v1'', bat_pricing_snapshot = ''ps'', bat_pricing_json = '''',
     bat_total_items = 2, bat_queued_items = 1, bat_running_items = 1, bat_retrying_items = 0,
     bat_succeeded_items = 0, bat_failed_items = 0, bat_canceled_items = 0, bat_estimated = 20,
     bat_reserved = 20, bat_settled = 0, bat_released = 0, bat_eta_seconds = 120,
     bat_cancel_requested_at = None, bat_started_at = None, bat_finished_at = None\<rparr>"

definition demo_project :: commerce_project where
  "demo_project = \<lparr>prj_id = 3, prj_user = 7, prj_product = 2, prj_brand = None, prj_default_sku = None,
     prj_active_spec = None, prj_title = ''p'', prj_pipeline = ''general'', prj_status = ''active'',
     prj_channel_profile = '''', prj_deletion_requested_at = None, prj_updated_at = 1, prj_deleted_at = None\<rparr>"

definition demo_db :: commerce_db where
  "demo_db = \<lparr>balances = [demo_balance], transactions = [], clock = 1000,
     reservations = [demo_reservation], settlements = [], batches = [demo_batch],
     items = [demo_item 1 ItemRunning, demo_item 2 ItemQueued],
     jobs = [demo_job 1 JobRunning ''w'' ''t'' (Some 5000) 1, demo_job 2 JobQueued '''' '''' None 0],
     events = [], projects = [demo_project], pricing_snapshots = [], brands = [], products = [], skus = [],
     assets = [], reference_assets = [], cleanups = [], creative_specs = [], works = [],
     generation_records = [], sku_dimensions = [], sku_values = [], sku_links = [], matrix_requests = [],
     system_categories = [], user_categories = [], object_guards = [], generation_references = [],
     style_templates = [], couple_albums = [], video_shots = []\<rparr>"

definition demo_lease :: lease_identity where
  "demo_lease = \<lparr>ls_job = 1, ls_owner = ''w'', ls_token = ''t''\<rparr>"

lemmas demo_defs = demo_db_def demo_balance_def demo_reservation_def demo_item_def demo_job_def
  demo_batch_def demo_project_def demo_lease_def

text \<open>A queue over the application's ledger, for a worker with a plain name.\<close>

definition demo_queue :: commerce_queue where
  "demo_queue = commerce_worker_queue (\<lambda>_. None) ''host'' 1 ''tok''"

lemma demo_not_blank [simp]: "\<not> blank ''w''" "\<not> blank ''t''"
proof -
  have "plain_byte (CHR ''w'')" "plain_byte (CHR ''t'')"
    unfolding plain_byte_def space_encodings_def by (simp_all add: char_of_def)
  then show "\<not> blank ''w''" "\<not> blank ''t''" 
    using not_blank [of "CHR ''w''" "''w''"] not_blank [of "CHR ''t''" "''t''"] by simp_all
qed

lemma demo_ledger_ok: "ledger_ok demo_db"
  by (simp add: demo_defs ledger_ok_def balance_ok_def reservation_ok_def bal_tab.unique_def
      rsv_tab.unique_def stl_tab.unique_def)

lemma demo_coupled: "coupled demo_db"
  by (simp add: demo_defs coupled_def coupled_rows_def job_tab.unique_def iv_tab.unique_def view_items_def
      view_item_def batch_keys_def job_row_ok_def couple_def job_waiting_def)

lemma demo_work_ok: "work_ok demo_db"
proof -
  have "holds_match demo_db"
    by (auto simp: demo_defs holds_match_def item_settled_def item_terminal_def account_of_def
        batch_key_known_def batch_keys_def)
  then show ?thesis using demo_ledger_ok demo_coupled by (simp add: work_ok_def)
qed

end
