(* ===== verification/Layout.thy ===== *)
theory Layout
  imports CommerceModels Backoff
begin

text \<open>
  Layout documents (\<^verbatim>\<open>ecommerce/layout.go\<close>): their validation, the default
  layout of a product detail page and the wrapping of its texts. Drawing and the measuring of
  glyphs belong to the image libraries; the width of a text is an argument.
\<close>

section \<open>Documents\<close>

record layout_rect =
  lr_x :: int
  lr_y :: int
  lr_width :: int
  lr_height :: int

record layout_canvas =
  cv_width :: int
  cv_height :: int
  cv_safe :: layout_rect

record layout_text_block =
  tb_text :: string
  tb_x :: int
  tb_y :: int
  tb_width :: int
  tb_height :: int
  tb_font_size :: int
  tb_max_lines :: int
  tb_color :: string

record layout_document =
  ld_version :: int
  ld_canvas :: layout_canvas
  ld_background :: string
  ld_template :: string
  ld_blocks :: "layout_text_block list"

definition valid_layout_template :: "string \<Rightarrow> bool" where
  "valid_layout_template v \<longleftrightarrow> v = ''clean'' \<or> v = ''dark_gradient'' \<or> v = ''brand_band''"

definition block_invalid :: "layout_rect \<Rightarrow> layout_text_block \<Rightarrow> bool" where
  "block_invalid safe b \<longleftrightarrow> tb_font_size b < 12 \<or> tb_font_size b > 240 \<or> tb_width b \<le> 0 \<or>
     tb_height b \<le> 0 \<or> tb_max_lines b \<le> 0 \<or> tb_x b < lr_x safe \<or> tb_y b < lr_y safe \<or>
     tb_x b + tb_width b > lr_x safe + lr_width safe \<or> tb_y b + tb_height b > lr_y safe + lr_height safe"

definition validate_layout_document :: "layout_document \<Rightarrow> commerce_error + unit" where
  "validate_layout_document doc =
     (let c = ld_canvas doc; safe = cv_safe c in
      if ld_version doc \<noteq> 1 \<or> cv_width c < 512 \<or> cv_width c > 4096 \<or> cv_height c < 512 \<or>
         cv_height c > 4096 \<or> length (ld_blocks doc) > 20 \<or> \<not> valid_layout_template (ld_template doc)
      then Inl ErrLayoutInvalid
      else if lr_x safe < 0 \<or> lr_y safe < 0 \<or> lr_width safe \<le> 0 \<or> lr_height safe \<le> 0 \<or>
         lr_x safe + lr_width safe > cv_width c \<or> lr_y safe + lr_height safe > cv_height c
      then Inl ErrLayoutInvalid
      else if list_ex (block_invalid safe) (ld_blocks doc) then Inl ErrLayoutInvalid
      else Inr ())"

section \<open>The default layout\<close>

definition layout_size :: "string \<Rightarrow> int \<times> int" where
  "layout_size ratio =
     (if ratio = ''3:4'' then (1024, 1365)
      else if ratio = ''4:5'' then (1024, 1280)
      else if ratio = ''9:16'' then (1024, 1820)
      else (1024, 1024))"

text \<open>
  The constants 0.05, 0.57 and 0.01 as \<^verbatim>\<open>float64\<close>s; a product is truncated by
  \<^verbatim>\<open>int\<close> or rounded half away from zero by \<^verbatim>\<open>math.Round\<close>.
\<close>

definition float_0_05 :: rat where "float_0_05 = 3602879701896397 / 72057594037927936"
definition float_0_57 :: rat where "float_0_57 = 5134103575202365 / 9007199254740992"
definition float_0_01 :: rat where "float_0_01 = 5764607523034235 / 576460752303423488"

definition scaled :: "int \<Rightarrow> rat \<Rightarrow> int" where
  "scaled n c = \<lfloor>float64_round (of_int n * c)\<rfloor>"

definition scaled_round :: "int \<Rightarrow> rat \<Rightarrow> int" where
  "scaled_round n c = \<lfloor>float64_round (of_int n * c) + 1 / 2\<rfloor>"

definition detail_text_block :: "string \<Rightarrow> int \<Rightarrow> int \<Rightarrow> int \<Rightarrow> int \<Rightarrow> string \<Rightarrow> layout_text_block" where
  "detail_text_block template margin width height y text =
     \<lparr>tb_text = text, tb_x = margin + 20, tb_y = y, tb_width = width - 2 * margin - 40,
      tb_height = height, tb_font_size = max 12 (min 48 (height div 2)), tb_max_lines = 2,
      tb_color = (if template = ''dark_gradient'' \<or> template = ''brand_band'' then ''#ffffff'' else ''#111111'')\<rparr>"

definition default_product_detail_layout :: "string \<Rightarrow> string \<Rightarrow> string \<Rightarrow> string list \<Rightarrow> layout_document" where
  "default_product_detail_layout sect template ratio texts =
     (let (width, height) = layout_size ratio;
          margin = max 32 (scaled_round width float_0_05);
          safe = \<lparr>lr_x = margin, lr_y = margin, lr_width = width - 2 * margin, lr_height = height - 2 * margin\<rparr>;
          doc = \<lparr>ld_version = 1, ld_canvas = \<lparr>cv_width = width, cv_height = height, cv_safe = safe\<rparr>,
                 ld_background = (if template = ''dark_gradient'' then ''#111827'' else ''#ffffff''),
                 ld_template = template, ld_blocks = []\<rparr>
      in if texts = [] then doc
         else
           let start_y = (if length texts > 3 then lr_y safe else scaled height float_0_57);
               gap = max 8 (scaled height float_0_01);
               available = lr_y safe + lr_height safe - start_y - gap * (int (length texts) - 1);
               block_height = available div int (length texts)
           in doc\<lparr>ld_blocks := map (\<lambda>(i, t). detail_text_block template margin width block_height
                  (start_y + int i * (block_height + gap)) t) (enumerate 0 texts)\<rparr>)"

section \<open>Wrapping\<close>

text \<open>The loop of \<^verbatim>\<open>wrapLayoutText\<close> over the code points; \<open>None\<close> is an overflow.\<close>

fun wrap_loop :: "(nat list \<Rightarrow> int) \<Rightarrow> int \<Rightarrow> int \<Rightarrow> nat list \<Rightarrow> nat list list \<Rightarrow> nat list \<Rightarrow>
     (nat list list \<times> nat list) option" where
  "wrap_loop wd width max_lines [] ls current = Some (ls, current)"
| "wrap_loop wd width max_lines (r # rs) ls current =
     (if wd (current @ [r]) \<le> width then wrap_loop wd width max_lines rs ls (current @ [r])
      else if current = [] then None
      else if int (length (ls @ [current])) \<ge> max_lines then None
      else wrap_loop wd width max_lines rs (ls @ [current]) [r])"

definition wrap_layout_text :: "(nat list \<Rightarrow> int) \<Rightarrow> nat list \<Rightarrow> int \<Rightarrow> int \<Rightarrow> nat list list option" where
  "wrap_layout_text wd trimmed width max_lines =
     (if trimmed = [] then Some []
      else case wrap_loop wd width max_lines trimmed [] [] of
        None \<Rightarrow> None
      | Some (ls, current) \<Rightarrow>
          let ls = (if current \<noteq> [] then ls @ [current] else ls)
          in if int (length ls) > max_lines then None else Some ls)"

section \<open>The default layout is valid\<close>

lemma layout_size_cases:
  "layout_size ratio \<in> {(1024, 1365), (1024, 1280), (1024, 1820), (1024, 1024)}"
  by (simp add: layout_size_def)

lemma ilog2_less: "n < 2 ^ Suc m \<Longrightarrow> ilog2 n \<le> m"
proof (induction m arbitrary: n)
  case (Suc m)
  then have "ilog2 (n div 2) \<le> m" by (intro Suc.IH) auto
  then show ?case by (simp add: ilog2.simps [of n])
qed (simp add: ilog2.simps)

text \<open>Rounding a value below \<open>2 ^ 12\<close> moves it by less than a thousandth.\<close>

lemma float64_round_close:
  assumes "x < 4096"
  shows "\<bar>float64_round x - x\<bar> \<le> 1 / 1024"
proof -
  define k where "k = (if x < 1 then 53 else 52 - ilog2 (nat \<lfloor>x\<rfloor>))"
  have "nat \<lfloor>x\<rfloor> < 2 ^ Suc 11" using assms by (cases "0 \<le> \<lfloor>x\<rfloor>") (simp_all add: nat_less_iff floor_less_iff)
  then have "10 \<le> k" using ilog2_less [of "nat \<lfloor>x\<rfloor>" 11] by (simp add: k_def) linarith
  then have "(2::rat) ^ 10 \<le> 2 ^ k" by (intro power_increasing) auto
  then have p: "1 / 2 / (2::rat) ^ k \<le> 1 / 1024" by (simp add: field_simps)
  have "float64_round x - x = (of_int (round_half_even (x * 2 ^ k)) - x * 2 ^ k) / 2 ^ k"
    by (simp add: float64_round_def Let_def diff_divide_distrib flip: k_def)
  then have "\<bar>float64_round x - x\<bar> = \<bar>of_int (round_half_even (x * 2 ^ k)) - x * 2 ^ k\<bar> / 2 ^ k"
    by (simp add: abs_divide)
  also have "\<dots> \<le> 1 / 2 / 2 ^ k"
    by (intro divide_right_mono round_half_even_error) simp
  finally show ?thesis using p by linarith
qed

lemma floor_float64_round:
  assumes "x < 4096" and "of_int n \<le> x + d - 1 / 1024" and "x + d + 1 / 1024 < of_int n + 1"
  shows "\<lfloor>float64_round x + d\<rfloor> = n"
  using float64_round_close [OF assms(1)] assms(2,3) by (intro floor_unique) linarith+

lemmas floor_float64_trunc = floor_float64_round [where d = 0, simplified]

lemma scaled_values:
  "scaled_round 1024 float_0_05 = 51"
  "scaled 1024 float_0_57 = 583" "scaled 1365 float_0_57 = 778" "scaled 1280 float_0_57 = 729"
  "scaled 1820 float_0_57 = 1037"
  "scaled 1024 float_0_01 = 10" "scaled 1365 float_0_01 = 13" "scaled 1280 float_0_01 = 12"
  "scaled 1820 float_0_01 = 18"
  unfolding scaled_def scaled_round_def float_0_05_def float_0_57_def float_0_01_def
  by (rule floor_float64_round floor_float64_trunc; simp)+

text \<open>Blocks of an equal share of the height stay within it.\<close>

lemma blocks_fit:
  fixes n :: int
  assumes n: "0 < n" and i: "0 \<le> i" "i < n" and g: "0 \<le> gap" and t: "n \<le> tot - gap * (n - 1)"
  defines "h \<equiv> (tot - gap * (n - 1)) div n"
  shows "0 < h" "i * (h + gap) + h \<le> tot"
proof -
  show h: "0 < h" using n t by (simp add: h_def pos_imp_zdiv_pos_iff)
  have "i * (h + gap) \<le> (n - 1) * (h + gap)" using i h g by (intro mult_right_mono) auto
  moreover have "n * h \<le> tot - gap * (n - 1)"
    unfolding h_def using n minus_mod_eq_mult_div [of "tot - gap * (n - 1)" n]
      pos_mod_sign [OF n, of "tot - gap * (n - 1)"] by linarith
  ultimately show "i * (h + gap) + h \<le> tot" by (simp add: algebra_simps)
qed

lemma detail_block_ok:
  assumes s: "lr_x safe = m" "lr_y safe = m" "lr_width safe = w - 2 * m" "lr_height safe = h - 2 * m" "40 < w - 2 * m"
    and y: "m \<le> y" "0 < bh" "y + bh \<le> h - m"
  shows "\<not> block_invalid safe (detail_text_block template m w bh y text)"
proof -
  have "12 \<le> max 12 (min 48 (bh div 2))" "max 12 (min 48 (bh div 2)) \<le> 240" by auto
  then show ?thesis using assms by (simp add: block_invalid_def detail_text_block_def del: max.bounded_iff min.bounded_iff)
qed

lemma default_product_detail_layout_valid:
  assumes "length texts \<le> 20" and "valid_layout_template template"
  shows "validate_layout_document (default_product_detail_layout sect template ratio texts) = Inr ()"
proof -
  obtain w h where wh: "layout_size ratio = (w, h)" by (cases "layout_size ratio")
  have wh': "w = 1024" "h \<in> {1365, 1280, 1820, 1024}" using layout_size_cases [of ratio] wh by auto
  define n where "n = int (length texts)"
  define sy where "sy = (if length texts > 3 then 51 else scaled h float_0_57)"
  define gap where "gap = max 8 (scaled h float_0_01)"
  define bh where "bh = (51 + (h - 2 * 51) - sy - gap * (n - 1)) div n"
  let ?safe = "\<lparr>lr_x = 51, lr_y = 51, lr_width = w - 2 * 51, lr_height = h - 2 * 51\<rparr>"
  have m: "max 32 (51::int) = 51" by simp
  have blocks: "ld_blocks (default_product_detail_layout sect template ratio texts) =
      map (\<lambda>(i, t). detail_text_block template 51 w bh (sy + int i * (bh + gap)) t) (enumerate 0 texts)"
    unfolding default_product_detail_layout_def wh wh'(1) prod.case Let_def scaled_values bh_def sy_def gap_def n_def
    by (cases "texts = []") (simp_all only: layout_document.simps layout_canvas.simps layout_rect.simps if_True if_False
        enumerate_simps list.map simp_thms m)
  have ok: "\<not> block_invalid ?safe (detail_text_block template 51 w bh (sy + int i * (bh + gap)) t)"
    if "i < length texts" for i t
  proof (rule detail_block_ok)
    have n: "0 < n" "n \<le> 20" "0 \<le> int i" "int i < n" using that assms(1) by (auto simp: n_def)
    have g: "0 \<le> gap" by (simp add: gap_def)
    have room: "n \<le> (51 + (h - 2 * 51) - sy) - gap * (n - 1)"
      using wh'(2) n by (auto simp: sy_def gap_def scaled_values n_def)
    note fit = blocks_fit [OF n(1,3,4) g room]
    show "0 < bh" using fit(1) by (simp add: bh_def)
    moreover have "51 \<le> sy" using wh'(2) by (auto simp: sy_def scaled_values)
    ultimately show "51 \<le> sy + int i * (bh + gap)" using g by (simp add: add_increasing2)
    show "sy + int i * (bh + gap) + bh \<le> h - 51" using fit(2) by (simp add: bh_def)
  qed (use wh'(1) in simp_all)
  have canvas: "ld_version (default_product_detail_layout sect template ratio texts) = 1"
    "ld_template (default_product_detail_layout sect template ratio texts) = template"
    "ld_canvas (default_product_detail_layout sect template ratio texts) =
      \<lparr>cv_width = w, cv_height = h, cv_safe = ?safe\<rparr>"
    using wh'(1) by (simp_all add: default_product_detail_layout_def wh scaled_values Let_def)
  have "\<not> list_ex (block_invalid ?safe) (ld_blocks (default_product_detail_layout sect template ratio texts))"
    unfolding blocks using ok by (auto simp: list_ex_iff in_set_enumerate_eq)
  moreover have "length (ld_blocks (default_product_detail_layout sect template ratio texts)) \<le> 20"
    unfolding blocks using assms(1) by simp
  ultimately show ?thesis
    using wh' assms(2) by (auto simp: validate_layout_document_def Let_def canvas)
qed

section \<open>Wrapping keeps the text\<close>

lemma wrap_loop_lines:
  assumes "wrap_loop wd width max_lines rs ls current = Some (ls', current')"
    and "ls = [] \<or> int (length ls) < max_lines"
    and "\<forall>l \<in> set (ls @ [current]). length l \<le> 1 \<or> wd l \<le> width"
  shows "concat ls' @ current' = concat ls @ current @ rs \<and> (ls' = [] \<or> int (length ls') < max_lines) \<and>
    (\<forall>l \<in> set (ls' @ [current']). length l \<le> 1 \<or> wd l \<le> width)"
  using assms
proof (induction wd width max_lines rs ls current rule: wrap_loop.induct)
  case (2 wd width max_lines r rs ls current)
  show ?case
  proof (cases "wd (current @ [r]) \<le> width")
    case True
    then show ?thesis using 2(1) [OF True] 2(3-5) by (auto split: if_splits)
  next
    case False
    then show ?thesis using 2(2) [OF False] 2(3-5) by (auto split: if_splits)
  qed
qed simp

lemma wrap_layout_text_lines:
  assumes "wrap_layout_text wd text width max_lines = Some ls" and "text \<noteq> []"
  shows "concat ls = text \<and> int (length ls) \<le> max_lines \<and> (\<forall>l \<in> set ls. length l \<le> 1 \<or> wd l \<le> width)"
proof -
  obtain ls0 current where loop: "wrap_loop wd width max_lines text [] [] = Some (ls0, current)"
    and ls: "ls = (if current \<noteq> [] then ls0 @ [current] else ls0)" "int (length ls) \<le> max_lines"
    using assms by (auto simp: wrap_layout_text_def Let_def split: option.splits if_splits)
  show ?thesis using wrap_loop_lines [OF loop] ls by auto
qed

end
