(* ===== verification/Recipes.thy ===== *)
theory Recipes
  imports CommerceModels "HOL-Library.List_Lexorder" "HOL-Library.Char_ord"
begin

text \<open>
  The recipe registry (\<^verbatim>\<open>ecommerce/recipes.go\<close>): recipe definitions and their
  validation, the registry that compilers are registered with, and the checks around a
  compilation. A compiler is an interface of the code, so it is a record with a function.
  A Go map is the list of its entries, in the (unspecified) order of an iteration.
\<close>

section \<open>Data\<close>

text \<open>A value of type \<^verbatim>\<open>any\<close>, as decoding JSON or a caller in Go makes it.\<close>

datatype any_value = AnyNil | AnyBool bool | AnyNumber string | AnyString string
  | AnyStrings "string list" | AnyList "any_value list" | AnyMap "(string \<times> any_value) list"

record asset_requirement =
  rq_role :: string
  rq_min :: int
  rq_max :: int
  rq_media :: string
  rq_required :: bool

record display_option =
  do_value :: string
  do_label :: string

record section_scope =
  ss_scope :: string
  ss_configurable :: bool

record recipe_definition =
  rd_key :: string
  rd_version :: int
  rd_title :: string
  rd_pipeline :: string
  rd_required_assets :: "asset_requirement list"
  rd_optional_assets :: "asset_requirement list"
  rd_output_counts :: "int list"
  rd_aspect_ratios :: "string list"
  rd_quality_tiers :: "string list"
  rd_quality_options :: "display_option list"
  rd_parameters :: "(string \<times> any_value) list"
  rd_capabilities :: "string list"
  rd_sections :: "string list"
  rd_section_options :: "display_option list"
  rd_section_scopes :: "(string \<times> section_scope) list"
  rd_layout_templates :: "string list"
  rd_layout_options :: "display_option list"
  rd_max_attempts :: int

record creative_spec_snapshot =
  cs_id :: uid
  cs_version :: int
  cs_status :: string
  cs_sha256 :: string
  cs_product_facts :: string
  cs_common_facts :: string
  cs_sku_overrides :: string
  cs_sku_context :: string
  cs_selling_points :: string
  cs_forbidden_changes :: string
  cs_brand_tone :: string
  cs_shot_plan :: string
  cs_copy_blocks :: string
  cs_risk_notices :: string
  cs_source_assets :: string

record asset_binding_snapshot =
  ab_asset :: uid
  ab_reference :: uid
  ab_sku :: "uid option"
  ab_role :: string
  ab_metadata :: string

record sku_snapshot =
  sn_id :: uid
  sn_code :: string
  sn_path :: string
  sn_attributes :: string

record compile_input =
  ci_user :: uid
  ci_project :: uid
  ci_primary_sku :: uid
  ci_creative_spec_id :: uid
  ci_creative_spec :: creative_spec_snapshot
  ci_selected_skus :: "uid list"
  ci_recipe_key :: string
  ci_pipeline :: string
  ci_quality_tier :: string
  ci_recipe_version :: int
  ci_output_count :: int
  ci_aspect_ratio :: string
  ci_bindings :: "(string \<times> uid list) list"
  ci_assets :: "asset_binding_snapshot list"
  ci_pricing :: pricing_snapshot
  ci_parameters :: "(string \<times> any_value) list"
  ci_sku_snapshots :: "(uid \<times> sku_snapshot) list"

record compiled_item =
  cp_sku :: uid
  cp_pipeline :: string
  cp_recipe_key :: string
  cp_recipe_version :: int
  cp_slot_key :: string
  cp_prompt :: string
  cp_negative_prompt :: string
  cp_tool_mode :: string
  cp_reference_intent :: string
  cp_background_role :: string
  cp_asset_ids :: "uid list"
  cp_aspect_ratio :: string
  cp_work_category :: string
  cp_post_process :: string
  cp_pricing_version :: string
  cp_pricing_snapshot :: string
  cp_estimated :: int
  cp_section :: string
  cp_scope :: string
  cp_sku_code :: string
  cp_specification_path :: string
  cp_asset_snapshot :: string
  cp_sku_snapshot :: string
  cp_inherited :: bool
  cp_creative_spec :: creative_spec_snapshot
  cp_model_snapshot :: string
  cp_layout_document :: string
  cp_layout_sha256 :: string
  cp_reference_snapshot :: string

record compiler =
  cm_definition :: recipe_definition
  cm_compile :: "compile_input \<Rightarrow> commerce_error + compiled_item list"

section \<open>Validating a definition\<close>

fun validate_display_options :: "string list \<Rightarrow> string list \<Rightarrow> display_option list \<Rightarrow> commerce_error + unit" where
  "validate_display_options seen [] [] = Inr ()"
| "validate_display_options seen (v # vs) (p # ps) =
     (if do_value p \<noteq> v then Inl ErrRecipeDefinitionInvalid
      else if do_value p \<in> set seen then Inl ErrRecipeDefinitionInvalid
      else if blank (do_label p) then Inl ErrRecipeDefinitionInvalid
      else validate_display_options (do_value p # seen) vs ps)"
| "validate_display_options seen _ _ = Inl ErrRecipeDefinitionInvalid"

fun validate_requirements :: "string list \<Rightarrow> asset_requirement list \<Rightarrow> commerce_error + unit" where
  "validate_requirements seen [] = Inr ()"
| "validate_requirements seen (r # rs) =
     (let role = trim_space (rq_role r) in
      if role = '''' \<or> rq_min r < 0 \<or> rq_max r < rq_min r then Inl ErrRecipeConstraint
      else if role \<in> set seen then Inl ErrRecipeConstraint
      else validate_requirements (role # seen) rs)"

definition validate_recipe_definition :: "recipe_definition \<Rightarrow> commerce_error + unit" where
  "validate_recipe_definition d =
     (if blank (rd_pipeline d) \<or> blank (rd_key d) \<or> rd_version d \<le> 0 then Inl ErrRecipeConstraint
      else if rd_output_counts d = [] \<or> rd_aspect_ratios d = [] \<or> rd_quality_tiers d = []
      then Inl ErrRecipeConstraint
      else and_then
        (if length (rd_section_options d) + length (rd_quality_options d) + length (rd_layout_options d) > 0
         then and_then (validate_display_options [] (rd_sections d) (rd_section_options d)) (\<lambda>_.
              and_then (validate_display_options [] (rd_quality_tiers d) (rd_quality_options d)) (\<lambda>_.
              validate_display_options [] (rd_layout_templates d) (rd_layout_options d)))
         else Inr ())
        (\<lambda>_. validate_requirements [] (rd_required_assets d @ rd_optional_assets d)))"

section \<open>The registry\<close>

definition registry_key :: "string \<Rightarrow> string \<Rightarrow> int \<Rightarrow> string" where
  "registry_key pipeline key version = pipeline @ [CHR 0x00] @ key @ [CHR 0x00] @ show_int version"

type_synonym registry = "(string \<times> compiler) list"

definition definition_key :: "recipe_definition \<Rightarrow> string" where
  "definition_key d = registry_key (rd_pipeline d) (rd_key d) (rd_version d)"

definition default_commerce_job_max_attempts :: int where
  "default_commerce_job_max_attempts = 3"

definition default_max_attempts :: "recipe_definition \<Rightarrow> recipe_definition" where
  "default_max_attempts d =
     (if rd_max_attempts d \<le> 0 then d\<lparr>rd_max_attempts := default_commerce_job_max_attempts\<rparr> else d)"

text \<open>A registered compiler answers with the definition it was registered under.\<close>

definition register :: "compiler option \<Rightarrow> registry \<Rightarrow> commerce_error + registry" where
  "register c r =
     (case c of
        None \<Rightarrow> Inl ErrNilCompiler
      | Some x \<Rightarrow>
          let d = default_max_attempts (cm_definition x)
          in and_then (validate_recipe_definition d) (\<lambda>_.
             if map_of r (definition_key d) \<noteq> None then Inl ErrRecipeAlreadyRegistered
             else Inr (r @ [(definition_key d, x\<lparr>cm_definition := d\<rparr>)])))"

definition registry_get :: "registry \<Rightarrow> string \<Rightarrow> string \<Rightarrow> int \<Rightarrow> compiler option" where
  "registry_get r pipeline key version = map_of r (registry_key pipeline key version)"

text \<open>Definitions by pipeline, key and version, for all pipelines when none is named.\<close>

definition registry_list :: "string \<Rightarrow> registry \<Rightarrow> recipe_definition list" where
  "registry_list pipeline r =
     sort_key rd_pipeline (sort_key rd_key (sort_key rd_version
       (filter (\<lambda>d. pipeline = '''' \<or> rd_pipeline d = pipeline) (map (\<lambda>(_, c). cm_definition c) r))))"

section \<open>Compiling\<close>

text \<open>Assets by the role they are bound to; an asset is bound once, \<open>e\<close> is the error otherwise.\<close>

fun bind_roles :: "commerce_error \<Rightarrow> (uid \<times> string) list \<Rightarrow> (uid \<times> string) list \<Rightarrow>
     commerce_error + (uid \<times> string) list" where
  "bind_roles e bound [] = Inr bound"
| "bind_roles e bound ((k, role) # rest) =
     (if k = 0 \<or> map_of bound k \<noteq> None then Inl e else bind_roles e (bound @ [(k, role)]) rest)"

definition binding_pairs :: "(string \<times> uid list) list \<Rightarrow> (uid \<times> string) list" where
  "binding_pairs bindings = [(k, role). (role, ks) \<leftarrow> bindings, k \<leftarrow> ks]"

fun check_asset_snapshots ::
  "(uid \<times> string) list \<Rightarrow> uid list \<Rightarrow> uid list \<Rightarrow> asset_binding_snapshot list \<Rightarrow> commerce_error + uid list" where
  "check_asset_snapshots bound allowed seen [] = Inr seen"
| "check_asset_snapshots bound allowed seen (a # as) =
     (if ab_asset a = 0 \<or> ab_reference a = 0 then Inl ErrRecipeConstraint
      else if ab_asset a \<in> set seen then Inl ErrRecipeConstraint
      else if map_of bound (ab_asset a) \<noteq> Some (ab_role a) then Inl ErrRecipeConstraint
      else if (case ab_sku a of None \<Rightarrow> False | Some k \<Rightarrow> k = 0 \<or> k \<notin> set allowed)
      then Inl ErrRecipeConstraint
      else check_asset_snapshots bound allowed (ab_asset a # seen) as)"

definition validate_asset_binding_snapshots :: "compile_input \<Rightarrow> commerce_error + unit" where
  "validate_asset_binding_snapshots input =
     and_then (bind_roles ErrRecipeConstraint [] (binding_pairs (ci_bindings input))) (\<lambda>bound.
     let allowed = filter (\<lambda>k. k \<noteq> 0) (ci_primary_sku input # ci_selected_skus input)
     in and_then (check_asset_snapshots bound allowed [] (ci_assets input)) (\<lambda>seen.
        if list_all (\<lambda>(k, _). k \<in> set seen) bound then Inr () else Inl ErrRecipeConstraint))"

text \<open>
  The roles a definition allows; an optional requirement replaces a required one with the same
  (untrimmed) role, as the second loop over the map does.
\<close>

definition allowed_roles :: "recipe_definition \<Rightarrow> (string \<times> asset_requirement) list" where
  "allowed_roles d =
     (let opt = map (\<lambda>r. (rq_role r, r)) (rev (rd_optional_assets d));
          req = map (\<lambda>r. (rq_role r, r)) (rev (rd_required_assets d))
      in fold (\<lambda>(k, r) m. if map_of m k = None then m @ [(k, r)] else m) (opt @ req) [])"

definition role_count_ok :: "compile_input \<Rightarrow> string \<times> asset_requirement \<Rightarrow> bool" where
  "role_count_ok input = (\<lambda>(role, r).
     let n = (case map_of (ci_bindings input) role of None \<Rightarrow> 0 | Some ks \<Rightarrow> int (length ks));
         least = (if rq_required r \<and> rq_min r = 0 then 1 else rq_min r)
     in \<not> (n < least \<or> (rq_max r > 0 \<and> n > rq_max r)))"

definition product_detail_set_key :: string where
  "product_detail_set_key = ''product_detail_set''"

definition product_detail_set_version :: int where
  "product_detail_set_version = 1"

definition validate_compile_input :: "recipe_definition \<Rightarrow> compile_input \<Rightarrow> commerce_error + unit" where
  "validate_compile_input d input =
     (if ci_pipeline input \<noteq> rd_pipeline d \<or> ci_recipe_key input \<noteq> rd_key d \<or>
         ci_recipe_version input \<noteq> rd_version d
      then Inl ErrRecipeConstraint
      else if ci_creative_spec_id input = 0 \<or> cs_id (ci_creative_spec input) \<noteq> ci_creative_spec_id input \<or>
         cs_status (ci_creative_spec input) \<noteq> ''confirmed'' \<or> blank (cs_sha256 (ci_creative_spec input))
      then Inl ErrCreativeSpecNotConfirmed
      else if ci_output_count input \<notin> set (rd_output_counts d) \<and>
         \<not> (rd_key d = product_detail_set_key \<and> ci_output_count input \<ge> 1 \<and> ci_output_count input \<le> 304)
      then Inl ErrRecipeConstraint
      else if ci_aspect_ratio input \<notin> set (rd_aspect_ratios d) then Inl ErrRecipeConstraint
      else if ci_quality_tier input \<notin> set (rd_quality_tiers d) then Inl ErrRecipeConstraint
      else if \<not> list_all (\<lambda>(role, _). map_of (allowed_roles d) role \<noteq> None) (ci_bindings input)
      then Inl ErrRecipeConstraint
      else if \<not> list_all (role_count_ok input) (allowed_roles d) then Inl ErrRecipeConstraint
      else validate_asset_binding_snapshots input)"

text \<open>The checks of one compiled item: the recipe it is of, and the SKU it is for.\<close>

definition check_compiled_item :: "recipe_definition \<Rightarrow> compile_input \<Rightarrow> compiled_item \<Rightarrow> commerce_error + unit" where
  "check_compiled_item d input i =
     (if cp_pipeline i \<noteq> rd_pipeline d \<or> cp_recipe_key i \<noteq> rd_key d \<or> cp_recipe_version i \<noteq> rd_version d
      then Inl ErrCompiledItemIdentityMismatch
      else if cp_scope i \<noteq> ''shared'' \<and> cp_sku i = 0 then Inl ErrRecipeConstraint
      else if cp_scope i \<noteq> ''shared'' \<and> cp_sku i \<notin> set (ci_primary_sku input # ci_selected_skus input)
      then Inl ErrRecipeConstraint
      else Inr ())"

definition registry_compile :: "registry \<Rightarrow> compile_input \<Rightarrow> commerce_error + compiled_item list" where
  "registry_compile r input =
     (case registry_get r (ci_pipeline input) (ci_recipe_key input) (ci_recipe_version input) of
        None \<Rightarrow> Inl ErrRecipeNotFound
      | Some c \<Rightarrow>
          and_then (validate_compile_input (cm_definition c) input) (\<lambda>_.
          and_then (cm_compile c input) (\<lambda>its.
          if int (length its) \<noteq> ci_output_count input then Inl ErrRecipeConstraint
          else and_then (fold_result (\<lambda>i _. check_compiled_item (cm_definition c) input i) its ())
            (\<lambda>_. Inr its))))"

section \<open>The registry's invariant\<close>

text \<open>
  Every registered recipe is stored under its own key, has a valid definition and allows at
  least one attempt.
\<close>

definition registry_ok :: "registry \<Rightarrow> bool" where
  "registry_ok r \<longleftrightarrow> distinct (map fst r) \<and>
     (\<forall>(k, c) \<in> set r. k = definition_key (cm_definition c) \<and> 0 < rd_max_attempts (cm_definition c) \<and>
        validate_recipe_definition (cm_definition c) = Inr ())"

lemma registry_ok_Nil [simp]: "registry_ok []"
  by (simp add: registry_ok_def)

lemma default_max_attempts_pos: "0 < rd_max_attempts (default_max_attempts d)"
  by (simp add: default_max_attempts_def default_commerce_job_max_attempts_def)

lemma default_max_attempts_key [simp]: "definition_key (default_max_attempts d) = definition_key d"
  by (simp add: default_max_attempts_def definition_key_def)

lemma register_Inr:
  "register c r = Inr r' \<Longrightarrow> \<exists>x. c = Some x \<and> map_of r (definition_key (cm_definition x)) = None \<and>
     validate_recipe_definition (default_max_attempts (cm_definition x)) = Inr () \<and>
     r' = r @ [(definition_key (cm_definition x), x\<lparr>cm_definition := default_max_attempts (cm_definition x)\<rparr>)]"
  by (auto simp: register_def Let_def inv_simps)

lemma register_registry_ok:
  assumes "registry_ok r" and "register c r = Inr r'"
  shows "registry_ok r'"
  using register_Inr [OF assms(2)] assms(1) default_max_attempts_pos
  by (auto simp: registry_ok_def map_of_eq_None_iff)

text \<open>A registered recipe is found under its key, with its attempts defaulted; nothing else changes.\<close>

lemma register_get:
  assumes "register (Some c) r = Inr r'"
  shows "registry_get r' p k v = (if registry_key p k v = definition_key (cm_definition c)
     then Some (c\<lparr>cm_definition := default_max_attempts (cm_definition c)\<rparr>) else registry_get r p k v)"
  using register_Inr [OF assms] by (auto simp: registry_get_def map_add_def split: option.splits)

lemma registry_get_ok:
  assumes "registry_ok r" and "registry_get r p k v = Some c"
  shows "0 < rd_max_attempts (cm_definition c)" "definition_key (cm_definition c) = registry_key p k v"
    "validate_recipe_definition (cm_definition c) = Inr ()"
  using assms map_of_SomeD by (fastforce simp: registry_ok_def registry_get_def)+

lemma split_at_first: "c \<notin> set xs \<Longrightarrow> c \<notin> set ys \<Longrightarrow> xs @ c # us = ys @ c # vs \<longleftrightarrow> xs = ys \<and> us = vs"
proof (induction xs arbitrary: ys)
  case Nil
  then show ?case by (cases ys) auto
next
  case (Cons x xs)
  then show ?case by (cases ys) auto
qed

text \<open>Keys of different recipes differ, as names have no NUL byte.\<close>

lemma registry_key_inject:
  assumes "CHR 0x00 \<notin> set p" "CHR 0x00 \<notin> set p'" "CHR 0x00 \<notin> set k" "CHR 0x00 \<notin> set k'"
  shows "registry_key p k v = registry_key p' k' v' \<longleftrightarrow> p = p' \<and> k = k' \<and> v = v'"
  using assms by (auto simp: registry_key_def split_at_first)

section \<open>What a compilation promises\<close>

lemma check_compiled_item_Inr:
  "check_compiled_item d input i = Inr () \<longleftrightarrow>
     cp_pipeline i = rd_pipeline d \<and> cp_recipe_key i = rd_key d \<and> cp_recipe_version i = rd_version d \<and>
     (cp_scope i = ''shared'' \<or> cp_sku i \<noteq> 0 \<and> cp_sku i \<in> set (ci_primary_sku input # ci_selected_skus input))"
  by (auto simp: check_compiled_item_def)

lemma fold_checks: "fold_result (\<lambda>i _. f i) xs () = Inr () \<longleftrightarrow> (\<forall>x \<in> set xs. f x = Inr ())"
  by (induction xs) (auto simp: and_then_eq_Inr)

lemma registry_compile_Inr:
  assumes "registry_compile r input = Inr its"
  obtains c where "registry_get r (ci_pipeline input) (ci_recipe_key input) (ci_recipe_version input) = Some c"
    "validate_compile_input (cm_definition c) input = Inr ()" "cm_compile c input = Inr its"
    "int (length its) = ci_output_count input"
    "\<forall>i \<in> set its. check_compiled_item (cm_definition c) input i = Inr ()"
  using assms by (auto simp: registry_compile_def inv_simps fold_checks)

lemma registry_compile_items:
  assumes "registry_compile r input = Inr its"
  shows "int (length its) = ci_output_count input \<and> (\<forall>i \<in> set its.
    cp_pipeline i = ci_pipeline input \<and> cp_recipe_key i = ci_recipe_key input \<and>
    cp_recipe_version i = ci_recipe_version input \<and>
    (cp_scope i = ''shared'' \<or> cp_sku i \<noteq> 0 \<and> cp_sku i \<in> set (ci_primary_sku input # ci_selected_skus input)))"
  using assms
  by (rule registry_compile_Inr) (auto simp: check_compiled_item_Inr validate_compile_input_def split: if_splits)

lemma bind_roles_Inr:
  "bind_roles e bound ps = Inr bound' \<longleftrightarrow>
     bound' = bound @ ps \<and> (\<forall>(k, _) \<in> set ps. k \<noteq> 0 \<and> map_of bound k = None) \<and> distinct (map fst ps)"
  by (induction e bound ps arbitrary: bound' rule: bind_roles.induct)
    (auto simp: map_of_eq_None_iff image_iff split: if_splits)

lemma check_asset_snapshots_Inr:
  assumes "check_asset_snapshots bound allowed seen as = Inr seen'"
  shows "set seen' = ab_asset ` set as \<union> set seen \<and> distinct (map ab_asset as) \<and>
    (\<forall>a \<in> set as. ab_asset a \<notin> set seen \<and> ab_asset a \<noteq> 0 \<and> ab_reference a \<noteq> 0 \<and>
       map_of bound (ab_asset a) = Some (ab_role a) \<and>
       (\<forall>k. ab_sku a = Some k \<longrightarrow> k \<in> set allowed))"
  using assms
proof (induction bound allowed seen as arbitrary: seen' rule: check_asset_snapshots.induct)
  case (2 bound allowed seen a as)
  from 2(2) have a: "ab_asset a \<noteq> 0" "ab_reference a \<noteq> 0" "ab_asset a \<notin> set seen"
    "map_of bound (ab_asset a) = Some (ab_role a)" "\<forall>k. ab_sku a = Some k \<longrightarrow> k \<in> set allowed"
    "check_asset_snapshots bound allowed (ab_asset a # seen) as = Inr seen'"
    by (auto split: if_splits option.splits)
  have "\<not> (case ab_sku a of None \<Rightarrow> False | Some k \<Rightarrow> k = 0 \<or> k \<notin> set allowed)"
    using 2(2) by (auto split: if_splits)
  then have "set seen' = ab_asset ` set as \<union> set (ab_asset a # seen) \<and> distinct (map ab_asset as) \<and>
    (\<forall>x \<in> set as. ab_asset x \<notin> set (ab_asset a # seen) \<and> ab_asset x \<noteq> 0 \<and> ab_reference x \<noteq> 0 \<and>
       map_of bound (ab_asset x) = Some (ab_role x) \<and> (\<forall>k. ab_sku x = Some k \<longrightarrow> k \<in> set allowed))"
    using a by (intro 2(1)) auto
  with a(1-5) show ?case by auto
qed simp

text \<open>
  The assets of a valid input: the bound ones, each once and under its role, and none of a SKU
  that is not selected.
\<close>

lemma validate_compile_input_assets:
  assumes "validate_compile_input d input = Inr ()"
  shows "distinct (map ab_asset (ci_assets input)) \<and>
    ab_asset ` set (ci_assets input) = fst ` set (binding_pairs (ci_bindings input)) \<and>
    (\<forall>a \<in> set (ci_assets input). \<forall>k. ab_sku a = Some k \<longrightarrow>
       k \<noteq> 0 \<and> k \<in> set (ci_primary_sku input # ci_selected_skus input))"
proof -
  define allowed where "allowed = filter (\<lambda>k. k \<noteq> 0) (ci_primary_sku input # ci_selected_skus input)"
  have "validate_asset_binding_snapshots input = Inr ()"
    using assms by (auto simp: validate_compile_input_def split: if_splits)
  then obtain seen where b: "bind_roles ErrRecipeConstraint [] (binding_pairs (ci_bindings input)) =
      Inr (binding_pairs (ci_bindings input))" and
    c: "check_asset_snapshots (binding_pairs (ci_bindings input)) allowed [] (ci_assets input) = Inr seen" and
    s: "\<forall>(k, _) \<in> set (binding_pairs (ci_bindings input)). k \<in> set seen"
    by (auto simp: validate_asset_binding_snapshots_def Let_def and_then_eq_Inr bind_roles_Inr list_all_iff
        allowed_def split: if_splits)
  note r = check_asset_snapshots_Inr [OF c]
  have "ab_asset ` set (ci_assets input) = fst ` set (binding_pairs (ci_bindings input))"
    using r s by (auto simp: rev_image_eqI dest!: map_of_SomeD)
  moreover have "k \<in> set allowed \<longleftrightarrow> k \<noteq> 0 \<and> k \<in> set (ci_primary_sku input # ci_selected_skus input)" for k
    by (auto simp: allowed_def)
  ultimately show ?thesis using r by blast
qed

end
