(* ===== verification/DemoRecipe.thy ===== *)
theory DemoRecipe
  imports Recipes
begin

text \<open>A recipe, a compiler and an input for the witnesses: one item for the primary SKU.\<close>

definition demo_recipe :: recipe_definition where
  "demo_recipe = \<lparr>rd_key = ''card'', rd_version = 1, rd_title = ''Card'', rd_pipeline = ''general'',
     rd_required_assets = [], rd_optional_assets = [], rd_output_counts = [1], rd_aspect_ratios = [''1:1''],
     rd_quality_tiers = [''standard''], rd_quality_options = [], rd_parameters = [], rd_capabilities = [],
     rd_sections = [], rd_section_options = [], rd_section_scopes = [], rd_layout_templates = [],
     rd_layout_options = [], rd_max_attempts = 0\<rparr>"

definition demo_spec :: creative_spec_snapshot where
  "demo_spec = \<lparr>cs_id = 4, cs_version = 1, cs_status = ''confirmed'', cs_sha256 = ''ab'', cs_product_facts = '''',
     cs_common_facts = '''', cs_sku_overrides = '''', cs_sku_context = '''', cs_selling_points = '''',
     cs_forbidden_changes = '''', cs_brand_tone = '''', cs_shot_plan = '''', cs_copy_blocks = '''',
     cs_risk_notices = '''', cs_source_assets = ''''\<rparr>"

definition demo_compiled :: compiled_item where
  "demo_compiled = \<lparr>cp_sku = 5, cp_pipeline = ''general'', cp_recipe_key = ''card'', cp_recipe_version = 1,
     cp_slot_key = ''a'', cp_prompt = ''p'', cp_negative_prompt = '''', cp_tool_mode = '''', cp_reference_intent = '''',
     cp_background_role = '''', cp_asset_ids = [], cp_aspect_ratio = ''1:1'', cp_work_category = '''',
     cp_post_process = '''', cp_pricing_version = ''v'', cp_pricing_snapshot = '''', cp_estimated = 10,
     cp_section = '''', cp_scope = '''', cp_sku_code = '''', cp_specification_path = '''', cp_asset_snapshot = '''',
     cp_sku_snapshot = '''', cp_inherited = False, cp_creative_spec = demo_spec, cp_model_snapshot = '''',
     cp_layout_document = '''', cp_layout_sha256 = '''', cp_reference_snapshot = ''''\<rparr>"

definition demo_compiler :: compiler where
  "demo_compiler = \<lparr>cm_definition = demo_recipe, cm_compile = (\<lambda>_. Inr [demo_compiled])\<rparr>"

definition demo_pricing :: pricing_snapshot where
  "demo_pricing = \<lparr>ps_id = ''i'', ps_version = ''v'', ps_request_digest = ''d'', ps_hash = ''h'', ps_status = ''consumed'',
     ps_user = 7, ps_project = 3, ps_entries = [], ps_created_at = 1, ps_expires_at = 9\<rparr>"

definition demo_input :: compile_input where
  "demo_input = \<lparr>ci_user = 7, ci_project = 3, ci_primary_sku = 5, ci_creative_spec_id = 4, ci_creative_spec = demo_spec,
     ci_selected_skus = [5], ci_recipe_key = ''card'', ci_pipeline = ''general'', ci_quality_tier = ''standard'',
     ci_recipe_version = 1, ci_output_count = 1, ci_aspect_ratio = ''1:1'', ci_bindings = [], ci_assets = [],
     ci_pricing = demo_pricing, ci_parameters = [], ci_sku_snapshots = []\<rparr>"

lemma demo_recipe_valid: "validate_recipe_definition (default_max_attempts demo_recipe) = Inr ()"
proof -
  have "\<not> blank ''general''" "\<not> blank ''card''"
    by (subst blank_literal; simp add: literal_bytes_def)+
  then show ?thesis
    by (simp add: validate_recipe_definition_def demo_recipe_def default_max_attempts_def)
qed

definition demo_registry :: registry where
  "demo_registry = [(definition_key demo_recipe, demo_compiler\<lparr>cm_definition := default_max_attempts demo_recipe\<rparr>)]"

lemma demo_register: "register (Some demo_compiler) [] = Inr demo_registry"
  using demo_recipe_valid
  by (simp add: register_def demo_compiler_def demo_registry_def Let_def)

lemma demo_compile: "registry_compile demo_registry demo_input = Inr [demo_compiled]"
proof -
  have "\<not> blank ''ab''" by (subst blank_literal; simp add: literal_bytes_def)
  moreover have "registry_get demo_registry ''general'' ''card'' 1 =
      Some (demo_compiler\<lparr>cm_definition := default_max_attempts demo_recipe\<rparr>)"
    by (simp add: registry_get_def demo_registry_def definition_key_def demo_recipe_def)
  ultimately show ?thesis
    by (simp add: registry_compile_def demo_input_def demo_compiler_def validate_compile_input_def demo_recipe_def
        demo_spec_def default_max_attempts_def allowed_roles_def validate_asset_binding_snapshots_def
        binding_pairs_def check_compiled_item_def demo_compiled_def)
qed

end
