(* ===== verification/ProductDetail.thy ===== *)
theory ProductDetail
  imports Recipes Layout Projects "HOL-Library.AList"
begin

text \<open>
  The product detail set (\<^verbatim>\<open>ecommerce/product_detail.go\<close>): the recipe that
  compiles a project's sections into items for shared use or for one SKU, with their prompts,
  layouts and frozen references. Texts are UTF-8 bytes. The JSON encoder and decoders and the
  hexadecimal SHA-256 are the components of \<open>detail_codec\<close>, each at the type the code uses it
  at; a decoder that fails gives \<open>None\<close>.
\<close>

section \<open>Data\<close>

record item_price =
  ip_credits :: int
  ip_version :: string

record execution_reference =
  xr_asset :: uid
  xr_reference :: uid
  xr_role :: string
  xr_order :: nat

record model_candidate =
  mc_model :: uid
  mc_model_name :: string
  mc_channel :: uid
  mc_provider :: uid
  mc_runtime_model :: string
  mc_endpoint :: string
  mc_route_order :: int
  mc_credits :: int
  mc_capabilities :: "string list"

record model_snapshot =
  ms_pricing_version :: string
  ms_quality_tier :: string
  ms_candidates :: "model_candidate list"

record detail_codec =
  dc_parse :: "string \<Rightarrow> any_value option"
  dc_print :: "any_value \<Rightarrow> string option"
  dc_raw_fields :: "string \<Rightarrow> (string \<times> string) list option"
  dc_observed :: "string \<Rightarrow> (string \<times> string) list option"
  dc_layout :: "layout_document \<Rightarrow> string option"
  dc_references :: "execution_reference list \<Rightarrow> string option"
  dc_read_references :: "string \<Rightarrow> execution_reference list option"
  dc_sku :: "sku_snapshot \<Rightarrow> string option"
  dc_models :: "model_snapshot \<Rightarrow> string option"
  dc_sha :: "string \<Rightarrow> string"

definition encoded :: "('a \<Rightarrow> string option) \<Rightarrow> 'a \<Rightarrow> commerce_error + string" where
  "encoded enc x = (case enc x of None \<Rightarrow> Inl ErrInfrastructure | Some t \<Rightarrow> Inr t)"

section \<open>Prices\<close>

type_synonym cost_resolver = "pricing_snapshot \<Rightarrow> string \<Rightarrow> string list \<Rightarrow> commerce_error + item_price"

fun first_price :: "string \<Rightarrow> string list \<Rightarrow> string \<Rightarrow> pricing_entry list \<Rightarrow> commerce_error + item_price" where
  "first_price quality caps version [] = Inl ErrRecipeModelUnavailable"
| "first_price quality caps version (e # es) =
     (if pe_pipeline e = ''general'' \<and> pe_recipe_key e = product_detail_set_key \<and>
         pe_quality_tier e = quality \<and> pe_credits e > 0
      then if list_all (\<lambda>c. c \<in> set (pe_capabilities e)) caps
           then Inr \<lparr>ip_credits = pe_credits e, ip_version = version\<rparr>
           else first_price quality caps version es
      else first_price quality caps version es)"

definition snapshot_cost_resolver :: cost_resolver where
  "snapshot_cost_resolver snapshot quality caps = first_price quality caps (ps_version snapshot) (ps_entries snapshot)"

definition candidate_of :: "pricing_entry \<Rightarrow> model_candidate" where
  "candidate_of e =
     \<lparr>mc_model = pe_model e, mc_model_name = pe_model_name e, mc_channel = pe_channel e,
      mc_provider = pe_provider e, mc_runtime_model = pe_runtime_model e, mc_endpoint = pe_endpoint e,
      mc_route_order = pe_route_order e, mc_credits = pe_credits e,
      mc_capabilities = sort (pe_capabilities e)\<rparr>"

text \<open>The candidates of the first model named; \<open>0\<close> is no model yet.\<close>

fun model_candidates :: "string \<Rightarrow> uid \<Rightarrow> pricing_entry list \<Rightarrow> model_candidate list" where
  "model_candidates quality selected [] = []"
| "model_candidates quality selected (e # es) =
     (if pe_pipeline e = ''general'' \<and> pe_recipe_key e = product_detail_set_key \<and> pe_quality_tier e = quality
      then let selected = (if selected = 0 then pe_model e else selected)
           in if pe_model e \<noteq> selected then model_candidates quality selected es
              else candidate_of e # model_candidates quality selected es
      else model_candidates quality selected es)"

definition model_snapshot_json :: "detail_codec \<Rightarrow> pricing_snapshot \<Rightarrow> string \<Rightarrow> commerce_error + string" where
  "model_snapshot_json c snapshot quality =
     (let cands = model_candidates quality 0 (ps_entries snapshot) in
      if cands = [] then Inl ErrRecipeModelUnavailable
      else encoded (dc_models c) \<lparr>ms_pricing_version = ps_version snapshot, ms_quality_tier = quality, ms_candidates = cands\<rparr>)"

section \<open>The definition\<close>

definition image_requirement :: "string \<Rightarrow> int \<Rightarrow> int \<Rightarrow> bool \<Rightarrow> asset_requirement" where
  "image_requirement role least most required =
     \<lparr>rq_role = role, rq_min = least, rq_max = most, rq_media = ''image'', rq_required = required\<rparr>"

definition option_of :: "string \<Rightarrow> string \<Rightarrow> display_option" where
  "option_of v label = \<lparr>do_value = v, do_label = label\<rparr>"

definition product_detail_set_definition :: recipe_definition where
  "product_detail_set_definition =
     \<lparr>rd_key = product_detail_set_key, rd_version = product_detail_set_version,
      rd_title = utf8 [229, 149, 134, 229, 147, 129, 232, 175, 166, 230, 131, 133, 233, 161, 181, 229,
       165, 151, 229, 155, 190],
      rd_pipeline = ''general'',
      rd_required_assets = [image_requirement ''product_front'' 1 101 True],
      rd_optional_assets = [image_requirement ''product_back'' 0 101 False,
        image_requirement ''product_detail'' 0 800 False, image_requirement ''logo'' 0 101 False,
        image_requirement ''pattern'' 0 400 False],
      rd_output_counts = [1, 2, 3, 4, 5, 6, 7],
      rd_aspect_ratios = [''1:1'', ''3:4'', ''4:5'', ''9:16''],
      rd_quality_tiers = [''standard'', ''high_fidelity''],
      rd_quality_options = [option_of ''standard'' (utf8 [230, 160, 135, 229, 135, 134]),
        option_of ''high_fidelity'' (utf8 [233, 171, 152, 230, 184, 133])],
      rd_parameters = [(''layout_template'', AnyString ''clean'')],
      rd_capabilities = [''image''],
      rd_sections = [''hero'', ''selling_points'', ''material'', ''detail'', ''usage'', ''specification'', ''closing''],
      rd_section_options = [
        option_of ''hero'' (utf8 [233, 166, 150, 229, 177, 143, 228, 184, 187, 232, 167, 134, 232, 167, 137]),
        option_of ''selling_points'' (utf8 [230, 160, 184, 229, 191, 131, 229, 141, 150, 231, 130, 185]),
        option_of ''material'' (utf8 [230, 157, 144, 232, 180, 168, 229, 183, 165, 232, 137, 186]),
        option_of ''detail'' (utf8 [231, 187, 134, 232, 138, 130, 229, 177, 149, 231, 164, 186]),
        option_of ''usage'' (utf8 [228, 189, 191, 231, 148, 168, 229, 156, 186, 230, 153, 175]),
        option_of ''specification'' (utf8 [232, 167, 132, 230, 160, 188, 229, 143, 130, 230, 149, 176]),
        option_of ''closing'' (utf8 [230, 148, 182, 229, 176, 190, 232, 189, 172, 229, 140, 150])],
      rd_section_scopes = [(''hero'', \<lparr>ss_scope = ''sku'', ss_configurable = False\<rparr>),
        (''selling_points'', \<lparr>ss_scope = ''shared'', ss_configurable = False\<rparr>),
        (''material'', \<lparr>ss_scope = ''shared'', ss_configurable = False\<rparr>),
        (''detail'', \<lparr>ss_scope = ''sku'', ss_configurable = True\<rparr>),
        (''usage'', \<lparr>ss_scope = ''shared'', ss_configurable = False\<rparr>),
        (''specification'', \<lparr>ss_scope = ''sku'', ss_configurable = False\<rparr>),
        (''closing'', \<lparr>ss_scope = ''shared'', ss_configurable = False\<rparr>)],
      rd_layout_templates = [''clean'', ''dark_gradient'', ''brand_band''],
      rd_layout_options = [
        option_of ''clean'' (utf8 [231, 174, 128, 230, 180, 129, 231, 149, 153, 231, 153, 189]),
        option_of ''dark_gradient'' (utf8 [230, 183, 177, 232, 137, 178, 230, 184, 144, 229, 143, 152]),
        option_of ''brand_band'' (utf8 [229, 147, 129, 231, 137, 140, 232, 137, 178, 229, 184, 166])],
      rd_max_attempts = 3\<rparr>"

section \<open>Parameters\<close>

fun string_elements :: "any_value list \<Rightarrow> commerce_error + string list" where
  "string_elements [] = Inr []"
| "string_elements (AnyString t # vs) = and_then (string_elements vs) (\<lambda>ts. Inr (t # ts))"
| "string_elements (_ # vs) = Inl ErrRecipeConstraint"

fun check_sections :: "string list \<Rightarrow> string list \<Rightarrow> string list \<Rightarrow> commerce_error + string list" where
  "check_sections known seen [] = Inr []"
| "check_sections known seen (v # vs) =
     (let sect = trim_space v in
      if sect \<notin> set known then Inl ErrRecipeConstraint
      else if sect \<in> set seen then Inl ErrRecipeConstraint
      else and_then (check_sections known (sect # seen) vs) (\<lambda>rest. Inr (sect # rest)))"

definition text_parameter :: "string \<Rightarrow> (string \<times> any_value) list \<Rightarrow> string" where
  "text_parameter k params = (case map_of params k of Some (AnyString t) \<Rightarrow> trim_space t | _ \<Rightarrow> '''')"

definition override_scope ::
  "(string \<times> section_scope) list \<Rightarrow> string \<times> any_value \<Rightarrow> (string \<times> string) list \<Rightarrow>
     commerce_error + (string \<times> string) list" where
  "override_scope known = (\<lambda>(sect, raw) scopes.
     (case (map_of known sect, raw) of
        (Some m, AnyString scope) \<Rightarrow>
          if \<not> ss_configurable m \<or> (scope \<noteq> ''shared'' \<and> scope \<noteq> ''sku'') then Inl ErrRecipeConstraint
          else Inr (AList.update sect scope scopes)
      | _ \<Rightarrow> Inl ErrRecipeConstraint))"

definition raw_detail_sections :: "(string \<times> any_value) list \<Rightarrow> commerce_error + string list" where
  "raw_detail_sections params =
     (case map_of params ''detail_sections'' of
        Some (AnyStrings ts) \<Rightarrow> Inr ts
      | Some (AnyList vs) \<Rightarrow> string_elements vs
      | _ \<Rightarrow> Inl ErrRecipeConstraint)"

definition section_scope_names ::
  "(string \<times> any_value) list \<Rightarrow> recipe_definition \<Rightarrow> commerce_error + (string \<times> string) list" where
  "section_scope_names params d =
     (let scopes = map (\<lambda>(k, m). (k, ss_scope m)) (rd_section_scopes d)
      in case map_of params ''section_scopes'' of
        None \<Rightarrow> Inr scopes
      | Some (AnyMap overrides) \<Rightarrow> fold_result (override_scope (rd_section_scopes d)) overrides scopes
      | _ \<Rightarrow> Inl ErrRecipeConstraint)"

definition product_detail_parameters ::
  "(string \<times> any_value) list \<Rightarrow> recipe_definition \<Rightarrow>
     commerce_error + string list \<times> (string \<times> string) list \<times> string" where
  "product_detail_parameters params d =
     (if \<not> list_all (\<lambda>(k, _). k = ''detail_sections'' \<or> k = ''layout_template'' \<or> k = ''section_scopes'') params
      then Inl ErrRecipeConstraint
      else and_then (raw_detail_sections params) (\<lambda>raw.
        if length raw < 1 \<or> length raw > 7 then Inl ErrRecipeConstraint
        else and_then (check_sections (rd_sections d) [] raw) (\<lambda>sects.
        let given = text_parameter ''layout_template'' params;
            template = (if given = [] then text_parameter ''layout_template'' (rd_parameters d) else given)
        in if template \<notin> set (rd_layout_templates d) then Inl ErrRecipeConstraint
           else and_then (section_scope_names params d) (\<lambda>scopes. Inr (sects, scopes, template)))))"

text \<open>The items the sections compile to: one for a shared section, one per SKU for another.\<close>

definition wanted_items :: "(string \<times> string) list \<Rightarrow> nat \<Rightarrow> string list \<Rightarrow> nat" where
  "wanted_items scopes n sects =
     sum_list (map (\<lambda>sect. if map_of scopes sect = Some ''shared'' then 1 else n) sects)"

section \<open>References\<close>

definition visible_to :: "uid \<Rightarrow> asset_binding_snapshot \<Rightarrow> bool" where
  "visible_to target a \<longleftrightarrow> (case ab_sku a of None \<Rightarrow> True | Some k \<Rightarrow> target \<noteq> 0 \<and> k = target)"

definition eligible_assets :: "compile_input \<Rightarrow> uid \<Rightarrow> string \<Rightarrow> uid list" where
  "eligible_assets input target role =
     filter (\<lambda>k. list_ex (\<lambda>a. ab_asset a = k \<and> visible_to target a) (ci_assets input))
       (case map_of (ci_bindings input) role of None \<Rightarrow> [] | Some ks \<Rightarrow> ks)"

text \<open>The binding an asset is looked up under: the last one of the input, as in the code's maps.\<close>

definition asset_of :: "compile_input \<Rightarrow> uid \<Rightarrow> uid \<Rightarrow> asset_binding_snapshot option" where
  "asset_of input target =
     map_of (rev (map (\<lambda>a. (ab_asset a, a)) (filter (visible_to target) (ci_assets input))))"

definition reference_of :: "asset_binding_snapshot \<Rightarrow> uid" where
  "reference_of a = (if ab_reference a = 0 then ab_asset a else ab_reference a)"

fun collect_references ::
  "(uid \<Rightarrow> asset_binding_snapshot option) \<Rightarrow> uid list \<Rightarrow> execution_reference list \<Rightarrow> execution_reference list" where
  "collect_references lookup [] acc = acc"
| "collect_references lookup (k # ks) acc =
     (case lookup k of
        None \<Rightarrow> collect_references lookup ks acc
      | Some a \<Rightarrow>
          if reference_of a \<in> set (map xr_reference acc) then collect_references lookup ks acc
          else collect_references lookup ks (acc @
            [\<lparr>xr_asset = k, xr_reference = reference_of a, xr_role = ab_role a, xr_order = length acc\<rparr>]))"

definition ordered_detail_references :: "compile_input \<Rightarrow> nat \<Rightarrow> uid \<Rightarrow> execution_reference list" where
  "ordered_detail_references input index target =
     (let details = eligible_assets input target ''product_detail'';
          ordered = eligible_assets input target ''product_front'' @
            (if index < length details then [details ! index] else []) @
            eligible_assets input target ''logo'' @ eligible_assets input target ''pattern''
      in collect_references (asset_of input target) ordered [])"

definition has_sku_owned_asset :: "asset_binding_snapshot list \<Rightarrow> uid \<Rightarrow> bool" where
  "has_sku_owned_asset as k \<longleftrightarrow> list_ex (\<lambda>a. ab_sku a = Some k) as"

fun check_references :: "nat \<Rightarrow> uid list \<Rightarrow> uid list \<Rightarrow> execution_reference list \<Rightarrow> commerce_error + unit" where
  "check_references index seen_assets seen_references [] = Inr ()"
| "check_references index seen_assets seen_references (r # rs) =
     (if xr_asset r = 0 \<or> xr_reference r = 0 \<or> blank (xr_role r) \<or> xr_order r \<noteq> index then Inl ErrRecipeConstraint
      else if xr_asset r \<in> set seen_assets then Inl ErrRecipeConstraint
      else if xr_reference r \<in> set seen_references then Inl ErrRecipeConstraint
      else check_references (Suc index) (xr_asset r # seen_assets) (xr_reference r # seen_references) rs)"

definition decode_execution_reference_set :: "detail_codec \<Rightarrow> string \<Rightarrow> commerce_error + execution_reference list" where
  "decode_execution_reference_set c raw =
     (case dc_read_references c raw of
        None \<Rightarrow> Inl ErrDecode
      | Some rs \<Rightarrow>
          if length rs > 4 then Inl ErrRecipeReferenceLimitExceeded
          else and_then (check_references 0 [] [] rs) (\<lambda>_.
            and_then (encoded (dc_references c) rs) (\<lambda>canonical.
            if canonical \<noteq> raw then Inl ErrRecipeConstraint else Inr rs)))"

section \<open>Facts\<close>

definition has_json_content :: "detail_codec \<Rightarrow> string \<Rightarrow> bool" where
  "has_json_content c raw =
     (case dc_parse c raw of
        None \<Rightarrow> False
      | Some AnyNil \<Rightarrow> False
      | Some (AnyMap m) \<Rightarrow> m \<noteq> []
      | Some (AnyList vs) \<Rightarrow> vs \<noteq> []
      | Some (AnyString t) \<Rightarrow> \<not> blank t
      | Some _ \<Rightarrow> True)"

definition forbidden_fact_keys :: "string list" where
  "forbidden_fact_keys = [''price'', ''certification'', ''efficacy'', ''ingredients'',
     utf8 [228, 187, 183, 230, 160, 188], utf8 [232, 174, 164, 232, 175, 129],
     utf8 [229, 138, 159, 230, 149, 136], utf8 [230, 136, 144, 229, 136, 134]]"

definition forbidden_fact :: "string \<Rightarrow> bool" where
  "forbidden_fact k \<longleftrightarrow> lower_key (trim_space k) \<in> set forbidden_fact_keys"

fun strip_forbidden_facts :: "any_value \<Rightarrow> any_value" where
  "strip_forbidden_facts (AnyMap m) =
     AnyMap (map (\<lambda>(k, v). (k, strip_forbidden_facts v)) (filter (\<lambda>(k, _). \<not> forbidden_fact k) m))"
| "strip_forbidden_facts (AnyList vs) = AnyList (map strip_forbidden_facts vs)"
| "strip_forbidden_facts v = v"

definition creative_spec_facts_for_target :: "detail_codec \<Rightarrow> creative_spec_snapshot \<Rightarrow> uid \<Rightarrow> string \<Rightarrow> string list" where
  "creative_spec_facts_for_target c spec sku scope =
     (let common = trim_space (cs_common_facts spec); overrides = trim_space (cs_sku_overrides spec) in
      if \<not> has_json_content c common \<and> \<not> has_json_content c overrides then [cs_product_facts spec]
      else default_json common ''[]'' #
        (if scope = ''sku'' \<and> sku \<noteq> 0
         then case dc_raw_fields c (default_json overrides ''{}'') of
             None \<Rightarrow> []
           | Some raws \<Rightarrow> (case map_of raws (show_nat sku) of None \<Rightarrow> [] | Some raw \<Rightarrow> [raw])
         else []))"

definition semicolon :: string where "semicolon = utf8 [239, 188, 155]"
definition colon :: string where "colon = utf8 [239, 188, 154]"

definition join_with :: "string \<Rightarrow> string list \<Rightarrow> string" where
  "join_with sep ts = (case ts of [] \<Rightarrow> [] | t # rest \<Rightarrow> t @ concat (map (\<lambda>r. sep @ r) rest))"

definition prompt_part :: "detail_codec \<Rightarrow> string \<Rightarrow> string list" where
  "prompt_part c raw =
     (case dc_parse c raw of
        None \<Rightarrow> []
      | Some v \<Rightarrow>
          let t = (case dc_print c (strip_forbidden_facts v) of None \<Rightarrow> [] | Some t \<Rightarrow> t)
          in if t \<noteq> ''null'' \<and> t \<noteq> ''{}'' \<and> t \<noteq> ''[]'' then [t] else [])"

definition confirmed_product_detail_prompt :: "detail_codec \<Rightarrow> string \<Rightarrow> creative_spec_snapshot \<Rightarrow> uid \<Rightarrow> string \<Rightarrow> string" where
  "confirmed_product_detail_prompt c sect spec sku scope =
     join_with semicolon
       ([utf8 [228, 184, 186, 229, 149, 134, 229, 147, 129, 232, 175, 166, 230, 131, 133, 233,
       161, 181, 231, 148, 159, 230, 136, 144, 230, 151, 160, 230, 150, 135, 229, 173,
       151, 230, 145, 132, 229, 189, 177, 229, 186, 149, 229, 155, 190],
         (utf8 [231, 171, 160, 232, 138, 130, 61]) @ sect] @
        concat (map (prompt_part c) (creative_spec_facts_for_target c spec sku scope @
          [cs_selling_points spec, cs_forbidden_changes spec, cs_brand_tone spec])))"

section \<open>Layout texts\<close>

text \<open>Decoding to a list of maps, of strings and to a map; a JSON null is the zero value.\<close>

fun as_maps :: "any_value \<Rightarrow> (string \<times> any_value) list list option" where
  "as_maps AnyNil = Some []"
| "as_maps (AnyList vs) = those (map (\<lambda>v. case v of AnyMap m \<Rightarrow> Some m | AnyNil \<Rightarrow> Some [] | _ \<Rightarrow> None) vs)"
| "as_maps _ = None"

fun as_strings :: "any_value \<Rightarrow> string list option" where
  "as_strings AnyNil = Some []"
| "as_strings (AnyList vs) = those (map (\<lambda>v. case v of AnyString t \<Rightarrow> Some t | AnyNil \<Rightarrow> Some [] | _ \<Rightarrow> None) vs)"
| "as_strings _ = None"

fun as_map :: "any_value \<Rightarrow> (string \<times> any_value) list option" where
  "as_map AnyNil = Some []"
| "as_map (AnyMap m) = Some m"
| "as_map _ = None"

definition decoded :: "detail_codec \<Rightarrow> (any_value \<Rightarrow> 'a list option) \<Rightarrow> string \<Rightarrow> 'a list" where
  "decoded c f raw = (case Option.bind (dc_parse c raw) f of None \<Rightarrow> [] | Some xs \<Rightarrow> xs)"

definition copy_block_text :: "(string \<times> any_value) list \<Rightarrow> string list" where
  "copy_block_text block = (case map_of block ''text'' of
     Some (AnyString t) \<Rightarrow> if blank t then [] else [trim_space t] | _ \<Rightarrow> [])"

definition fact_text :: "(string \<times> any_value) list \<Rightarrow> string \<Rightarrow> string list" where
  "fact_text facts k =
     (if lower_key k \<in> set forbidden_fact_keys then []
      else case map_of facts k of Some (AnyString v) \<Rightarrow> if v = [] then [] else [k @ colon @ v] | _ \<Rightarrow> [])"

definition fact_texts :: "detail_codec \<Rightarrow> string \<Rightarrow> string list" where
  "fact_texts c raw =
     (let facts = decoded c as_map raw;
          observed = (case dc_observed c raw of None \<Rightarrow> [] | Some os \<Rightarrow> os)
      in concat (map (fact_text facts) (sort (map fst facts))) @
         concat (map (\<lambda>(field, v). if blank v then [] else [field @ colon @ v]) observed))"

definition confirmed_layout_texts :: "detail_codec \<Rightarrow> creative_spec_snapshot \<Rightarrow> uid \<Rightarrow> string \<Rightarrow> string list" where
  "confirmed_layout_texts c spec sku scope =
     concat (map copy_block_text (decoded c as_maps (cs_copy_blocks spec))) @
     decoded c as_strings (cs_selling_points spec) @
     concat (map (fact_texts c) (creative_spec_facts_for_target c spec sku scope))"

section \<open>Compiling\<close>

definition no_sku_snapshot :: sku_snapshot where
  "no_sku_snapshot = \<lparr>sn_id = 0, sn_code = [], sn_path = [], sn_attributes = []\<rparr>"

definition inherited_notice :: string where
  "inherited_notice = utf8 [239, 188, 155, 231, 188, 186, 229, 176, 145, 32, 83, 75, 85, 32, 228, 184, 147,
       229, 177, 158, 231, 180, 160, 230, 157, 144, 239, 188, 140, 229, 189, 147, 229,
       137, 141, 228, 187, 133, 231, 187, 167, 230, 137, 191, 229, 133, 172, 229, 133,
       177, 231, 180, 160, 230, 157, 144, 239, 188, 140, 228, 184, 141, 229, 190, 151,
       231, 140, 156, 230, 181, 139, 232, 167, 132, 230, 160, 188, 229, 183, 174, 229,
       188, 130]"

definition negative_prompt :: string where
  "negative_prompt = utf8 [231, 166, 129, 230, 173, 162, 231, 148, 159, 230, 136, 144, 228, 187, 187, 228,
       189, 149, 230, 150, 135, 229, 173, 151, 227, 128, 129, 230, 149, 176, 229, 173,
       151, 227, 128, 129, 228, 187, 183, 230, 160, 188, 227, 128, 129, 230, 160, 135,
       231, 173, 190, 227, 128, 129, 230, 176, 180, 229, 141, 176, 239, 188, 155, 231,
       166, 129, 230, 173, 162, 233, 135, 141, 231, 187, 152, 32, 76, 111, 103, 111,
       239, 188, 155, 231, 166, 129, 230, 173, 162, 232, 161, 165, 233, 128, 160, 232,
       167, 132, 230, 160, 188, 227, 128, 129, 232, 174, 164, 232, 175, 129, 227, 128,
       129, 229, 138, 159, 230, 149, 136, 227, 128, 129, 230, 136, 144, 229, 136, 134,
       227, 128, 130]"

definition slot_key :: "uid \<Rightarrow> string \<Rightarrow> string" where
  "slot_key sku sect =
     (if sku = 0 then ''product_detail_set:v1:shared:'' @ sect
      else ''product_detail_set:v1:sku-'' @ show_nat sku @ '':'' @ sect)"

definition compile_detail_item ::
  "detail_codec \<Rightarrow> compile_input \<Rightarrow> item_price \<Rightarrow> string \<Rightarrow> string \<Rightarrow> nat \<Rightarrow> string \<Rightarrow> uid \<Rightarrow>
     commerce_error + compiled_item" where
  "compile_detail_item c input price models template index sect sku =
     (let scope = (if sku = 0 then ''shared'' else ''sku'');
          texts = confirmed_layout_texts c (ci_creative_spec input) sku scope;
          refs = ordered_detail_references input index sku;
          doc = default_product_detail_layout sect template (ci_aspect_ratio input) texts;
          inherited = (sku \<noteq> 0 \<and> \<not> has_sku_owned_asset (ci_assets input) sku);
          prompt = confirmed_product_detail_prompt c sect (ci_creative_spec input) sku scope;
          snapshot = (case map_of (ci_sku_snapshots input) sku of None \<Rightarrow> no_sku_snapshot | Some x \<Rightarrow> x)
      in if length refs > 4 then Inl ErrRecipeReferenceLimitExceeded
         else if length texts > 20 then Inl ErrLayoutTextOverflow
         else and_then (validate_layout_document doc) (\<lambda>_.
           and_then (encoded (dc_layout c) doc) (\<lambda>doc_json.
           and_then (encoded (dc_references c) refs) (\<lambda>ref_json.
           Inr \<lparr>cp_sku = sku, cp_pipeline = ''general'', cp_recipe_key = product_detail_set_key,
             cp_recipe_version = product_detail_set_version, cp_slot_key = slot_key sku sect,
             cp_prompt = (if inherited then prompt @ inherited_notice else prompt),
             cp_negative_prompt = negative_prompt, cp_tool_mode = ''generate'',
             cp_reference_intent = ''product_consistency'', cp_background_role = [],
             cp_asset_ids = map xr_asset refs, cp_aspect_ratio = ci_aspect_ratio input,
             cp_work_category = ''product_main'', cp_post_process = doc_json,
             cp_pricing_version = ip_version price, cp_pricing_snapshot = [], cp_estimated = ip_credits price,
             cp_section = sect, cp_scope = scope, cp_sku_code = sn_code snapshot,
             cp_specification_path = sn_path snapshot, cp_asset_snapshot = ref_json,
             cp_sku_snapshot = (case dc_sku c snapshot of None \<Rightarrow> [] | Some t \<Rightarrow> t),
             cp_inherited = inherited, cp_creative_spec = ci_creative_spec input,
             cp_model_snapshot = models, cp_layout_document = doc_json,
             cp_layout_sha256 = dc_sha c doc_json, cp_reference_snapshot = ref_json\<rparr>))))"

definition section_targets :: "compile_input \<Rightarrow> (string \<times> string) list \<Rightarrow> string list \<Rightarrow> (nat \<times> string \<times> uid) list" where
  "section_targets input scopes sects =
     concat (map (\<lambda>(i, sect). map (\<lambda>k. (i, sect, k))
       (if map_of scopes sect = Some ''shared'' then [0] else ci_selected_skus input)) (enumerate 0 sects))"

definition compile_product_detail_set ::
  "detail_codec \<Rightarrow> cost_resolver option \<Rightarrow> compile_input \<Rightarrow> commerce_error + compiled_item list" where
  "compile_product_detail_set c costs input0 =
     (let input = (if ci_selected_skus input0 = [] \<and> ci_primary_sku input0 \<noteq> 0
                   then input0\<lparr>ci_selected_skus := [ci_primary_sku input0]\<rparr> else input0)
      in and_then (product_detail_parameters (ci_parameters input) product_detail_set_definition)
        (\<lambda>(sects, scopes, template).
         if int (wanted_items scopes (length (ci_selected_skus input)) sects) \<noteq> ci_output_count input
         then Inl ErrRecipeConstraint
         else case costs of
           None \<Rightarrow> Inl ErrRecipeModelUnavailable
         | Some resolve \<Rightarrow>
             and_then (resolve (ci_pricing input) (ci_quality_tier input) [''image'']) (\<lambda>price.
             and_then (model_snapshot_json c (ci_pricing input) (ci_quality_tier input)) (\<lambda>models.
             fold_result (\<lambda>(i, sect, k) compiled.
               and_then (compile_detail_item c input price models template i sect k) (\<lambda>item.
               Inr (compiled @ [item]))) (section_targets input scopes sects) []))))"

definition product_detail_set_compiler :: "detail_codec \<Rightarrow> cost_resolver option \<Rightarrow> compiler" where
  "product_detail_set_compiler c costs =
     \<lparr>cm_definition = product_detail_set_definition, cm_compile = compile_product_detail_set c costs\<rparr>"

section \<open>References are distinct, in order and visible\<close>

text \<open>A frozen reference stands for the binding found under its asset.\<close>

definition reference_ok :: "(uid \<Rightarrow> asset_binding_snapshot option) \<Rightarrow> execution_reference \<Rightarrow> bool" where
  "reference_ok lookup r \<longleftrightarrow> (\<exists>a. lookup (xr_asset r) = Some a \<and> xr_reference r = reference_of a \<and> xr_role r = ab_role a)"

definition references_ok :: "(uid \<Rightarrow> asset_binding_snapshot option) \<Rightarrow> execution_reference list \<Rightarrow> bool" where
  "references_ok lookup rs \<longleftrightarrow> distinct (map xr_reference rs) \<and> map xr_order rs = [0..<length rs] \<and>
     (\<forall>r \<in> set rs. reference_ok lookup r)"

lemma collect_references_ok: "references_ok lookup acc \<Longrightarrow> references_ok lookup (collect_references lookup ks acc)"
proof (induction lookup ks acc rule: collect_references.induct)
  case (2 lookup k ks acc)
  show ?case
  proof (cases "lookup k")
    case (Some a)
    show ?thesis
    proof (cases "reference_of a \<in> set (map xr_reference acc)")
      case True
      then show ?thesis using 2 Some by simp
    next
      case False
      have "references_ok lookup (acc @
          [\<lparr>xr_asset = k, xr_reference = reference_of a, xr_role = ab_role a, xr_order = length acc\<rparr>])"
        using 2(4) False Some by (auto simp: references_ok_def reference_ok_def)
      then show ?thesis using 2(3) [OF Some False] Some False by simp
    qed
  qed (use 2 in simp)
qed simp

lemma references_ok_assets:
  assumes "references_ok lookup rs" shows "distinct (map xr_asset rs)"
proof -
  have "inj_on xr_asset (set rs)"
  proof (rule inj_onI)
    fix r r' assume r: "r \<in> set rs" "r' \<in> set rs" "xr_asset r = xr_asset r'"
    have ok: "reference_ok lookup r" "reference_ok lookup r'" using assms r by (auto simp: references_ok_def)
    then obtain a a' where "lookup (xr_asset r) = Some a" "xr_reference r = reference_of a"
      "lookup (xr_asset r') = Some a'" "xr_reference r' = reference_of a'" by (auto simp: reference_ok_def)
    then have "xr_reference r = xr_reference r'" using r(3) by simp
    then show "r = r'" using assms r(1,2) by (auto simp: references_ok_def distinct_map inj_on_def)
  qed
  moreover have "distinct rs" using assms by (auto simp: references_ok_def distinct_map)
  ultimately show ?thesis by (simp add: distinct_map)
qed

lemma asset_of_Some:
  assumes "asset_of input target k = Some a"
  shows "a \<in> set (ci_assets input)" "ab_asset a = k" "visible_to target a"
  using map_of_SomeD [OF assms [unfolded asset_of_def]] by auto

lemma detail_references_ok: "references_ok (asset_of input target) (ordered_detail_references input index target)"
  unfolding ordered_detail_references_def Let_def
  by (rule collect_references_ok) (simp add: references_ok_def)

section \<open>Frozen references are accepted by the executor\<close>

lemma check_references_Inr:
  "check_references n as rfs rs = Inr () \<longleftrightarrow>
     map xr_order rs = [n..<n + length rs] \<and> distinct (map xr_asset rs) \<and> distinct (map xr_reference rs) \<and>
     (\<forall>r \<in> set rs. xr_asset r \<noteq> 0 \<and> xr_reference r \<noteq> 0 \<and> \<not> blank (xr_role r) \<and>
        xr_asset r \<notin> set as \<and> xr_reference r \<notin> set rfs)"
proof (induction n as rfs rs rule: check_references.induct)
  case (2 n as rfs r rs)
  have upt: "[n..<n + length (r # rs)] = n # [Suc n..<Suc n + length rs]"
    by (simp add: upt_rec [of n] Suc_le_eq)
  show ?case
  proof (cases "xr_asset r = 0 \<or> xr_reference r = 0 \<or> blank (xr_role r) \<or> xr_order r \<noteq> n \<or> xr_asset r \<in> set as \<or> xr_reference r \<in> set rfs")
    case True
    then have "check_references n as rfs (r # rs) \<noteq> Inr ()" by auto
    with True show ?thesis unfolding upt by (auto simp del: upt_Suc check_references.simps)
  next
    case False
    then have "check_references n as rfs (r # rs) = check_references (Suc n) (xr_asset r # as) (xr_reference r # rfs) rs"
      by simp
    also have "\<dots> = Inr () \<longleftrightarrow> map xr_order rs = [Suc n..<Suc n + length rs] \<and> distinct (map xr_asset rs) \<and>
        distinct (map xr_reference rs) \<and>
        (\<forall>x \<in> set rs. xr_asset x \<noteq> 0 \<and> xr_reference x \<noteq> 0 \<and> \<not> blank (xr_role x) \<and>
          xr_asset x \<notin> set (xr_asset r # as) \<and> xr_reference x \<notin> set (xr_reference r # rfs))"
      by (rule 2) (use False in auto)
    finally have eq: "check_references n as rfs (r # rs) = Inr () \<longleftrightarrow> map xr_order rs = [Suc n..<Suc n + length rs] \<and>
        distinct (map xr_asset rs) \<and> distinct (map xr_reference rs) \<and>
        (\<forall>x \<in> set rs. xr_asset x \<noteq> 0 \<and> xr_reference x \<noteq> 0 \<and> \<not> blank (xr_role x) \<and>
          xr_asset x \<notin> set (xr_asset r # as) \<and> xr_reference x \<notin> set (xr_reference r # rfs))" .
    from False have r: "xr_asset r \<noteq> 0" "xr_reference r \<noteq> 0" "\<not> blank (xr_role r)" "xr_order r = n"
      "xr_asset r \<notin> set as" "xr_reference r \<notin> set rfs" by simp_all
    have d: "distinct (map f (r # rs)) \<longleftrightarrow> (\<forall>x \<in> set rs. f x \<noteq> f r) \<and> distinct (map f rs)"
      for f :: "execution_reference \<Rightarrow> nat" by (auto simp: image_iff)
    show ?thesis unfolding eq upt d using r by (simp del: upt_Suc distinct.simps) blast
  qed
qed simp

lemma decode_detail_references:
  assumes codec: "\<And>rs t. dc_references c rs = Some t \<Longrightarrow> dc_read_references c t = Some rs"
    and rs: "references_ok lookup rs" "length rs \<le> 4" "dc_references c rs = Some raw"
    and fields: "\<forall>r \<in> set rs. xr_asset r \<noteq> 0 \<and> xr_reference r \<noteq> 0 \<and> \<not> blank (xr_role r)"
  shows "decode_execution_reference_set c raw = Inr rs"
proof -
  have "check_references 0 [] [] rs = Inr ()"
    using rs(1) references_ok_assets [OF rs(1)] fields by (simp add: check_references_Inr references_ok_def)
  then show ?thesis using codec [OF rs(3)] rs(2,3) by (simp add: decode_execution_reference_set_def encoded_def)
qed

end
