(* ===== verification/ProductDetailFacts.thy ===== *)
theory ProductDetailFacts
  imports ProductDetail
begin

text \<open>
  What a compiled product detail set promises: as many items as its sections and SKUs call for,
  each under a slot of its own and at a positive price; and no forbidden fact in the prompts.
\<close>

section \<open>Loops that collect results\<close>

lemma fold_result_collect:
  "fold_result (\<lambda>x acc. and_then (f x) (\<lambda>y. Inr (acc @ [y]))) xs acc = Inr r \<longleftrightarrow>
     (\<exists>ys. r = acc @ ys \<and> list_all2 (\<lambda>x y. f x = Inr y) xs ys)"
proof (induction xs arbitrary: acc)
  case (Cons x xs)
  show ?case
  proof (cases "f x")
    case (Inr y)
    then show ?thesis using Cons [of "acc @ [y]"] by (auto simp: list_all2_Cons1)
  qed (auto simp: list_all2_Cons1)
qed auto

section \<open>Sections and scopes\<close>

lemma check_sections_Inr:
  "check_sections known seen raw = Inr sects \<Longrightarrow>
     distinct sects \<and> set sects \<subseteq> set known \<and> set sects \<inter> set seen = {} \<and> length sects = length raw"
proof (induction known seen raw arbitrary: sects rule: check_sections.induct)
  case (2 known seen v vs)
  from 2(2) obtain rest where "trim_space v \<in> set known" "trim_space v \<notin> set seen"
    "check_sections known (trim_space v # seen) vs = Inr rest" "sects = trim_space v # rest"
    by (auto simp: Let_def inv_simps split: if_splits)
  with 2(1) show ?case by force
qed simp

definition detail_sections :: "string list" where
  "detail_sections = rd_sections product_detail_set_definition"

text \<open>Four sections are always shared, two always of a SKU; the detail section is configurable.\<close>

definition scopes_ok :: "(string \<times> string) list \<Rightarrow> bool" where
  "scopes_ok scopes \<longleftrightarrow>
     (\<forall>sect \<in> {''selling_points'', ''material'', ''usage'', ''closing''}. map_of scopes sect = Some ''shared'') \<and>
     (\<forall>sect \<in> {''hero'', ''specification''}. map_of scopes sect = Some ''sku'') \<and>
     (map_of scopes ''detail'' = Some ''sku'' \<or> map_of scopes ''detail'' = Some ''shared'')"

lemma override_scope_ok:
  assumes "scopes_ok scopes" and "override_scope (rd_section_scopes product_detail_set_definition) x scopes = Inr scopes'"
  shows "scopes_ok scopes'"
proof -
  obtain sect raw where x: "x = (sect, raw)" by force
  from assms(2) obtain m scope where m: "map_of (rd_section_scopes product_detail_set_definition) sect = Some m"
      "ss_configurable m" "scope = ''shared'' \<or> scope = ''sku''" "scopes' = AList.update sect scope scopes"
    unfolding x override_scope_def by (auto split: option.splits any_value.splits if_splits)
  from m(1,2) have "sect = ''detail''" by (auto simp: product_detail_set_definition_def split: if_splits)
  with m(3,4) assms(1) show ?thesis by (auto simp: scopes_ok_def AList.update_conv)
qed

lemma section_scope_names_ok:
  assumes "section_scope_names params product_detail_set_definition = Inr scopes"
  shows "scopes_ok scopes"
proof -
  let ?scopes = "map (\<lambda>(k, m). (k, ss_scope m)) (rd_section_scopes product_detail_set_definition)"
  have ok: "scopes_ok ?scopes" by (simp add: scopes_ok_def product_detail_set_definition_def)
  show ?thesis
  proof (cases "map_of params ''section_scopes''")
    case None
    then show ?thesis using assms ok by (simp add: section_scope_names_def)
  next
    case (Some v)
    then obtain os where
      "fold_result (override_scope (rd_section_scopes product_detail_set_definition)) os ?scopes = Inr scopes"
      using assms by (cases v) (simp_all add: section_scope_names_def)
    then show ?thesis using ok override_scope_ok by (rule fold_result_invariant [where I = scopes_ok])
  qed
qed

lemma product_detail_parameters_Inr:
  assumes "product_detail_parameters params product_detail_set_definition = Inr (sects, scopes, template)"
  shows "distinct sects" "set sects \<subseteq> set detail_sections" "1 \<le> length sects" "length sects \<le> 7" "scopes_ok scopes"
    "template \<in> {''clean'', ''dark_gradient'', ''brand_band''}"
proof -
  let ?d = product_detail_set_definition
  obtain raw where raw: "1 \<le> length raw" "length raw \<le> 7" "check_sections (rd_sections ?d) [] raw = Inr sects"
    and t: "template \<in> set (rd_layout_templates ?d)" and sc: "section_scope_names params ?d = Inr scopes"
    using assms by (auto simp: product_detail_parameters_def Let_def inv_simps not_less Suc_le_eq)
  show "distinct sects" "set sects \<subseteq> set detail_sections" "1 \<le> length sects" "length sects \<le> 7"
    using check_sections_Inr [OF raw(3)] raw(1,2) by (auto simp: detail_sections_def)
  show "scopes_ok scopes" using section_scope_names_ok [OF sc] .
  show "template \<in> {''clean'', ''dark_gradient'', ''brand_band''}"
    using t by (simp add: product_detail_set_definition_def)
qed

text \<open>At most four shared items and three per SKU.\<close>

lemma wanted_items_bound:
  assumes "distinct sects" "set sects \<subseteq> set detail_sections" "scopes_ok scopes"
  shows "wanted_items scopes n sects \<le> 4 + max 1 n + 2 * n"
proof -
  let ?f = "\<lambda>sect. if map_of scopes sect = Some ''shared'' then 1 else n"
  have "wanted_items scopes n sects = sum ?f (set sects)"
    using assms(1) by (simp add: wanted_items_def sum_list_distinct_conv_sum_set)
  also have "\<dots> \<le> sum ?f (set detail_sections)"
    using assms(2) by (intro sum_mono2) auto
  also have "\<dots> \<le> 4 + max 1 n + 2 * n"
    using assms(3) by (auto simp: detail_sections_def product_detail_set_definition_def scopes_ok_def)
  finally show ?thesis .
qed

section \<open>Targets and slots\<close>

lemma length_section_targets:
  "length (section_targets input scopes sects) = wanted_items scopes (length (ci_selected_skus input)) sects"
proof -
  have "sum_list (map (\<lambda>(i, sect). length (if map_of scopes sect = Some ''shared'' then [0] else ci_selected_skus input))
      (enumerate m sects)) = wanted_items scopes (length (ci_selected_skus input)) sects" for m
    by (induction sects arbitrary: m) (auto simp: wanted_items_def)
  from this [of 0] show ?thesis
    by (simp add: section_targets_def length_concat comp_def case_prod_unfold)
qed

lemma section_targets_mem:
  "(i, sect, k) \<in> set (section_targets input scopes sects) \<Longrightarrow>
     sect \<in> set sects \<and> (if map_of scopes sect = Some ''shared'' then k = 0 else k \<in> set (ci_selected_skus input))"
  by (auto simp: section_targets_def in_set_enumerate_eq split: if_splits)

lemma distinct_section_targets:
  assumes "distinct sects" and "distinct (ci_selected_skus input)"
  shows "distinct (map snd (section_targets input scopes sects))"
proof -
  have "distinct (map snd (concat (map (\<lambda>(i, sect). map (\<lambda>k. (i, sect, k))
      (if map_of scopes sect = Some ''shared'' then [0] else ci_selected_skus input)) (enumerate m sects))))" for m
    using assms(1)
  proof (induction sects arbitrary: m)
    case (Cons sect sects)
    have "inj_on (\<lambda>k. (sect, k)) A" for A by (simp add: inj_on_def)
    with Cons assms(2) show ?case
      by (auto simp: comp_def distinct_map in_set_enumerate_eq dest: nth_mem split: if_splits)
  qed simp
  then show ?thesis by (simp add: section_targets_def)
qed

lemma slot_key_inject:
  assumes "slot_key k sect = slot_key k' sect'" and "sect \<in> set detail_sections" "sect' \<in> set detail_sections"
  shows "k = k' \<and> sect = sect'"
proof -
  have "CHR '':'' \<notin> set (show_nat n)" for n using show_nat_digits [of "CHR '':''" n] by auto
  with assms(1) show ?thesis by (auto simp: slot_key_def split_at_first split: if_splits)
qed

section \<open>Compiled items\<close>

text \<open>The input with the primary SKU selected when none is.\<close>

definition selecting_primary :: "compile_input \<Rightarrow> compile_input" where
  "selecting_primary input = (if ci_selected_skus input = [] \<and> ci_primary_sku input \<noteq> 0
     then input\<lparr>ci_selected_skus := [ci_primary_sku input]\<rparr> else input)"

lemma selecting_primary_simps [simp]:
  "ci_assets (selecting_primary i) = ci_assets i" "ci_output_count (selecting_primary i) = ci_output_count i"
  "ci_pricing (selecting_primary i) = ci_pricing i" "ci_quality_tier (selecting_primary i) = ci_quality_tier i"
  "ci_parameters (selecting_primary i) = ci_parameters i" "ci_bindings (selecting_primary i) = ci_bindings i"
  "ci_primary_sku (selecting_primary i) = ci_primary_sku i"
  by (simp_all add: selecting_primary_def)

lemma compile_detail_item_Inr:
  assumes "compile_detail_item c input price models template index sect k = Inr item"
  shows "cp_sku item = k" "cp_section item = sect" "cp_slot_key item = slot_key k sect"
    "cp_scope item = (if k = 0 then ''shared'' else ''sku'')" "cp_estimated item = ip_credits price"
    "cp_pipeline item = ''general''" "cp_recipe_key item = product_detail_set_key"
    "cp_recipe_version item = product_detail_set_version"
    "length (ordered_detail_references input index k) \<le> 4"
    "cp_asset_ids item = map xr_asset (ordered_detail_references input index k)"
    "dc_references c (ordered_detail_references input index k) = Some (cp_reference_snapshot item)"
  using assms unfolding compile_detail_item_def Let_def
  by (auto simp: inv_simps encoded_def split: if_splits option.splits)

lemma compile_product_detail_set_Inr:
  assumes "compile_product_detail_set c costs input = Inr its"
  obtains sects scopes template resolve price models where
    "product_detail_parameters (ci_parameters input) product_detail_set_definition = Inr (sects, scopes, template)"
    "int (wanted_items scopes (length (ci_selected_skus (selecting_primary input))) sects) = ci_output_count input"
    "costs = Some resolve" "resolve (ci_pricing input) (ci_quality_tier input) [''image''] = Inr price"
    "list_all2 (\<lambda>(i, sect, k) item. compile_detail_item c (selecting_primary input) price models template i sect k = Inr item)
       (section_targets (selecting_primary input) scopes sects) its"
proof -
  have collect: "(\<lambda>(i, sect, k) compiled. and_then (compile_detail_item c j price models template i sect k)
      (\<lambda>item. Inr (compiled @ [item]))) = (\<lambda>x compiled. and_then
        ((\<lambda>(i, sect, k). compile_detail_item c j price models template i sect k) x) (\<lambda>item. Inr (compiled @ [item])))"
    for j price models template by (auto simp: fun_eq_iff)
  have pairs: "list_all2 (\<lambda>x y. (\<lambda>(i, sect, k). compile_detail_item c j price models template i sect k) x = Inr y) xs ys \<longleftrightarrow>
      list_all2 (\<lambda>(i, sect, k) item. compile_detail_item c j price models template i sect k = Inr item) xs ys"
    for j price models template xs ys by (simp add: case_prod_unfold)
  from assms [unfolded compile_product_detail_set_def, folded selecting_primary_def, unfolded Let_def collect]
  show thesis
    by (cases costs) (auto simp: inv_simps fold_result_collect pairs intro!: that split: if_splits)
qed

text \<open>Every compiled item comes from a target.\<close>

lemma compiled_detail_item:
  assumes "compile_product_detail_set c costs input = Inr its" and "item \<in> set its"
  obtains price models template index sect scopes sects resolve where
    "(index, sect, cp_sku item) \<in> set (section_targets (selecting_primary input) scopes sects)"
    "compile_detail_item c (selecting_primary input) price models template index sect (cp_sku item) = Inr item"
    "product_detail_parameters (ci_parameters input) product_detail_set_definition = Inr (sects, scopes, template)"
    "costs = Some resolve" "resolve (ci_pricing input) (ci_quality_tier input) [''image''] = Inr price"
proof (rule compile_product_detail_set_Inr [OF assms(1)])
  fix sects scopes template resolve price models
  assume p: "product_detail_parameters (ci_parameters input) product_detail_set_definition = Inr (sects, scopes, template)"
    and r: "costs = Some resolve" "resolve (ci_pricing input) (ci_quality_tier input) [''image''] = Inr price"
    and all: "list_all2 (\<lambda>(i, sect, k) item. compile_detail_item c (selecting_primary input) price models template i sect k = Inr item)
       (section_targets (selecting_primary input) scopes sects) its"
  obtain n where n: "n < length its" "item = its ! n" using assms(2) by (auto simp: in_set_conv_nth)
  obtain i sect k where t: "section_targets (selecting_primary input) scopes sects ! n = (i, sect, k)"
    by (metis prod.exhaust)
  have "compile_detail_item c (selecting_primary input) price models template i sect k = Inr item"
    using list_all2_nthD2 [OF all n(1)] n(2) t by simp
  moreover have "(i, sect, k) \<in> set (section_targets (selecting_primary input) scopes sects)"
    using n(1) list_all2_lengthD [OF all] t by (metis nth_mem)
  ultimately show thesis using that p r compile_detail_item_Inr(1) by metis
qed

lemma product_detail_set_size:
  assumes "compile_product_detail_set c costs input = Inr its"
  shows "int (length its) = ci_output_count input \<and>
    length its \<le> 4 + max 1 (length (ci_selected_skus (selecting_primary input))) +
       2 * length (ci_selected_skus (selecting_primary input))"
proof (rule compile_product_detail_set_Inr [OF assms])
  fix sects scopes template resolve price models
  assume p: "product_detail_parameters (ci_parameters input) product_detail_set_definition = Inr (sects, scopes, template)"
    and w: "int (wanted_items scopes (length (ci_selected_skus (selecting_primary input))) sects) = ci_output_count input"
    and all: "list_all2 (\<lambda>(i, sect, k) item. compile_detail_item c (selecting_primary input) price models template i sect k = Inr item)
       (section_targets (selecting_primary input) scopes sects) its"
  have "length its = wanted_items scopes (length (ci_selected_skus (selecting_primary input))) sects"
    using list_all2_lengthD [OF all] by (simp add: length_section_targets)
  then show ?thesis using w wanted_items_bound [OF product_detail_parameters_Inr(1,2,5) [OF p]] by simp
qed

text \<open>No two items of a set fill the same slot.\<close>

lemma product_detail_slots_distinct:
  assumes "compile_product_detail_set c costs input = Inr its"
    and d: "distinct (ci_selected_skus (selecting_primary input))"
  shows "distinct (map cp_slot_key its)"
proof (rule compile_product_detail_set_Inr [OF assms(1)])
  fix sects scopes template resolve price models
  assume p: "product_detail_parameters (ci_parameters input) product_detail_set_definition = Inr (sects, scopes, template)"
    and all: "list_all2 (\<lambda>(i, sect, k) item. compile_detail_item c (selecting_primary input) price models template i sect k = Inr item)
       (section_targets (selecting_primary input) scopes sects) its"
  let ?ts = "section_targets (selecting_primary input) scopes sects"
  have "map cp_slot_key its = map (\<lambda>(i, sect, k). slot_key k sect) ?ts"
  proof (rule nth_equalityI)
    fix n assume n: "n < length (map cp_slot_key its)"
    obtain i sect k where t: "?ts ! n = (i, sect, k)" by (metis prod.exhaust)
    have "compile_detail_item c (selecting_primary input) price models template i sect k = Inr (its ! n)"
      using list_all2_nthD2 [OF all, of n] n t by simp
    then show "map cp_slot_key its ! n = map (\<lambda>(i, sect, k). slot_key k sect) ?ts ! n"
      using n t list_all2_lengthD [OF all] by (simp add: compile_detail_item_Inr(3))
  qed (use list_all2_lengthD [OF all] in simp)
  also have "\<dots> = map (\<lambda>(sect, k). slot_key k sect) (map snd ?ts)" by (simp add: case_prod_unfold)
  also have "distinct \<dots>"
  proof (subst distinct_map, intro conjI inj_onI)
    show "distinct (map snd ?ts)"
      using distinct_section_targets [OF product_detail_parameters_Inr(1) [OF p] d] .
    fix x y assume x: "x \<in> set (map snd ?ts)" and y: "y \<in> set (map snd ?ts)"
      and eq: "(case x of (sect, k) \<Rightarrow> slot_key k sect) = (case y of (sect, k) \<Rightarrow> slot_key k sect)"
    have "fst z \<in> set detail_sections" if "z \<in> set (map snd ?ts)" for z
      using that section_targets_mem [of _ "fst z" "snd z"] product_detail_parameters_Inr(2) [OF p] by fastforce
    then have "fst x \<in> set detail_sections" "fst y \<in> set detail_sections" using x y by blast+
    then show "x = y" using eq slot_key_inject [of "snd x" "fst x" "snd y" "fst y"]
      by (simp add: case_prod_unfold prod_eq_iff)
  qed
  finally show ?thesis .
qed

text \<open>
  The references of an item: at most four, distinct, each an asset of the input that is shared
  or belongs to the item's own SKU.
\<close>

lemma product_detail_references:
  assumes "compile_product_detail_set c costs input = Inr its" and "item \<in> set its"
  shows "length (cp_asset_ids item) \<le> 4 \<and> distinct (cp_asset_ids item) \<and>
    (\<forall>k \<in> set (cp_asset_ids item). \<exists>a \<in> set (ci_assets input). ab_asset a = k \<and>
       (ab_sku a = None \<or> ab_sku a = Some (cp_sku item) \<and> cp_sku item \<noteq> 0))"
proof (rule compiled_detail_item [OF assms])
  fix price models template index sect
  assume i: "compile_detail_item c (selecting_primary input) price models template index sect (cp_sku item) = Inr item"
  let ?rs = "ordered_detail_references (selecting_primary input) index (cp_sku item)"
  note ok = detail_references_ok [of "selecting_primary input" "cp_sku item" index]
  have "\<exists>a \<in> set (ci_assets input). ab_asset a = xr_asset r \<and>
      (ab_sku a = None \<or> ab_sku a = Some (cp_sku item) \<and> cp_sku item \<noteq> 0)" if r: "r \<in> set ?rs" for r
  proof -
    obtain a where a: "asset_of (selecting_primary input) (cp_sku item) (xr_asset r) = Some a"
      using ok r by (auto simp: references_ok_def reference_ok_def)
    then show ?thesis using asset_of_Some [OF a] by (auto simp: visible_to_def split: option.splits)
  qed
  then show ?thesis
    using compile_detail_item_Inr(9,10) [OF i] references_ok_assets [OF ok] by simp
qed

text \<open>What an item freezes, the executor reads back, when assets, references and roles are set.\<close>

lemma product_detail_references_decode:
  assumes "compile_product_detail_set c costs input = Inr its" and "item \<in> set its"
    and codec: "\<And>rs t. dc_references c rs = Some t \<Longrightarrow> dc_read_references c t = Some rs"
    and assets: "\<forall>a \<in> set (ci_assets input). ab_asset a \<noteq> 0 \<and> \<not> blank (ab_role a)"
  shows "\<exists>rs. decode_execution_reference_set c (cp_reference_snapshot item) = Inr rs \<and>
    map xr_asset rs = cp_asset_ids item"
proof (rule compiled_detail_item [OF assms(1,2)])
  fix price models template index sect
  assume i: "compile_detail_item c (selecting_primary input) price models template index sect (cp_sku item) = Inr item"
  let ?rs = "ordered_detail_references (selecting_primary input) index (cp_sku item)"
  note ok = detail_references_ok [of "selecting_primary input" "cp_sku item" index]
  have "\<forall>r \<in> set ?rs. xr_asset r \<noteq> 0 \<and> xr_reference r \<noteq> 0 \<and> \<not> blank (xr_role r)"
  proof
    fix r assume "r \<in> set ?rs"
    then obtain a where a: "asset_of (selecting_primary input) (cp_sku item) (xr_asset r) = Some a"
      "xr_reference r = reference_of a" "xr_role r = ab_role a"
      using ok by (auto simp: references_ok_def reference_ok_def)
    then show "xr_asset r \<noteq> 0 \<and> xr_reference r \<noteq> 0 \<and> \<not> blank (xr_role r)"
      using asset_of_Some [OF a(1)] assets by (auto simp: reference_of_def)
  qed
  then show ?thesis
    using decode_detail_references [OF codec ok] compile_detail_item_Inr(9-11) [OF i] by metis
qed

section \<open>Prices\<close>

text \<open>
  What the batch service relies on: a resolver that answers names a positive price, so every
  compiled item has one.
\<close>

locale positive_costs =
  fixes resolve :: cost_resolver
  assumes positive: "resolve snapshot quality caps = Inr p \<Longrightarrow> 0 < ip_credits p"
begin

lemma compiled_positive:
  assumes "compile_product_detail_set c (Some resolve) input = Inr its" and "item \<in> set its"
  shows "0 < cp_estimated item"
proof (rule compiled_detail_item [OF assms])
  fix price models template index sect r
  assume "compile_detail_item c (selecting_primary input) price models template index sect (cp_sku item) = Inr item"
    and "Some resolve = Some r" "r (ci_pricing input) (ci_quality_tier input) [''image''] = Inr price"
  then show ?thesis using positive compile_detail_item_Inr(5) by auto
qed

end

lemma first_price_Inr:
  assumes "first_price quality caps version es = Inr p"
  shows "0 < ip_credits p \<and> ip_version p = version \<and> (\<exists>e \<in> set es. pe_pipeline e = ''general'' \<and>
    pe_recipe_key e = product_detail_set_key \<and> pe_quality_tier e = quality \<and> ip_credits p = pe_credits e \<and>
    set caps \<subseteq> set (pe_capabilities e))"
  using assms by (induction quality caps version es rule: first_price.induct) (auto simp: list_all_iff split: if_splits)

interpretation snapshot_costs: positive_costs snapshot_cost_resolver
  using first_price_Inr by unfold_locales (auto simp: snapshot_cost_resolver_def)

section \<open>The registry accepts what the recipe compiles\<close>

lemma product_detail_items_checked:
  assumes "compile_product_detail_set c costs input = Inr its" and "item \<in> set its"
  shows "check_compiled_item product_detail_set_definition input item = Inr ()"
proof (rule compiled_detail_item [OF assms])
  fix price models template index sect scopes sects
  assume t: "(index, sect, cp_sku item) \<in> set (section_targets (selecting_primary input) scopes sects)"
    and i: "compile_detail_item c (selecting_primary input) price models template index sect (cp_sku item) = Inr item"
  have "cp_sku item = 0 \<or> cp_sku item \<in> set (ci_selected_skus (selecting_primary input))"
    using section_targets_mem [OF t] by (auto split: if_splits)
  then show ?thesis
    using compile_detail_item_Inr(4,6-8) [OF i]
    by (auto simp: check_compiled_item_Inr product_detail_set_definition_def selecting_primary_def split: if_splits)
qed

lemma registry_compiles_product_detail_set:
  assumes get: "registry_get r (ci_pipeline input) (ci_recipe_key input) (ci_recipe_version input) =
      Some (product_detail_set_compiler c costs)"
    and valid: "validate_compile_input product_detail_set_definition input = Inr ()"
  shows "registry_compile r input = compile_product_detail_set c costs input"
proof (cases "compile_product_detail_set c costs input")
  case (Inl e)
  then show ?thesis using get valid by (simp add: registry_compile_def product_detail_set_compiler_def)
next
  case (Inr its)
  then have "fold_result (\<lambda>i _. check_compiled_item product_detail_set_definition input i) its () = Inr ()"
    using product_detail_items_checked by (simp add: fold_checks)
  then show ?thesis
    using get valid Inr product_detail_set_size [OF Inr] by (simp add: registry_compile_def product_detail_set_compiler_def)
qed

section \<open>Forbidden facts\<close>

text \<open>No object anywhere in the value has a forbidden key.\<close>

fun allowed_facts :: "any_value \<Rightarrow> bool" where
  "allowed_facts (AnyMap m) = list_all (\<lambda>(k, v). \<not> forbidden_fact k \<and> allowed_facts v) m"
| "allowed_facts (AnyList vs) = list_all allowed_facts vs"
| "allowed_facts _ = True"

lemma strip_forbidden_facts_allowed: "allowed_facts (strip_forbidden_facts v)"
  by (induction v rule: strip_forbidden_facts.induct) (auto simp: list_all_iff)

lemma strip_forbidden_facts_id: "allowed_facts v \<Longrightarrow> strip_forbidden_facts v = v"
proof (induction v rule: strip_forbidden_facts.induct)
  case (1 m)
  then have "filter (\<lambda>(k, _). \<not> forbidden_fact k) m = m" by (auto simp: filter_id_conv list_all_iff)
  moreover have "(case x of (k, v) \<Rightarrow> (k, strip_forbidden_facts v)) = x" if "x \<in> set m" for x
    using 1 that by (fastforce simp: list_all_iff)
  ultimately show ?case by (simp add: map_idI)
qed (auto simp: list_all_iff intro!: map_idI)

end
