(* ===== verification/DemoDetail.thy ===== *)
theory DemoDetail
  imports DemoRecipe ProductDetailFacts
begin

text \<open>
  A product detail set for the witnesses: a hero section for SKU 5 and a shared material section,
  with one bound image. The codec knows the texts of the values that occur.
\<close>

definition demo_references :: "execution_reference list" where
  "demo_references = [\<lparr>xr_asset = 11, xr_reference = 21, xr_role = ''product_front'', xr_order = 0\<rparr>]"

definition demo_codec :: detail_codec where
  "demo_codec = \<lparr>dc_parse = (\<lambda>_. None), dc_print = (\<lambda>_. None), dc_raw_fields = (\<lambda>_. None), dc_observed = (\<lambda>_. None),
     dc_layout = (\<lambda>_. Some ''L''), dc_references = (\<lambda>rs. if rs = demo_references then Some ''R'' else None),
     dc_read_references = (\<lambda>t. if t = ''R'' then Some demo_references else None),
     dc_sku = (\<lambda>_. Some ''S''), dc_models = (\<lambda>_. Some ''M''), dc_sha = (\<lambda>t. t)\<rparr>"

lemma demo_codec_reads: "dc_references demo_codec rs = Some t \<Longrightarrow> dc_read_references demo_codec t = Some rs"
  by (simp add: demo_codec_def split: if_splits)

definition demo_entry :: pricing_entry where
  "demo_entry = \<lparr>pe_pipeline = ''general'', pe_recipe_key = product_detail_set_key, pe_quality_tier = ''standard'',
     pe_model = 1, pe_model_name = ''m'', pe_channel = 1, pe_provider = 1, pe_runtime_model = ''m'',
     pe_endpoint = ''e'', pe_route_order = 0, pe_capabilities = [''image''], pe_credits = 12\<rparr>"

definition demo_front :: asset_binding_snapshot where
  "demo_front = \<lparr>ab_asset = 11, ab_reference = 21, ab_sku = None, ab_role = ''product_front'', ab_metadata = []\<rparr>"

definition demo_detail_input :: compile_input where
  "demo_detail_input = demo_input\<lparr>ci_recipe_key := product_detail_set_key, ci_recipe_version := product_detail_set_version,
     ci_output_count := 2, ci_bindings := [(''product_front'', [11])], ci_assets := [demo_front],
     ci_pricing := demo_pricing\<lparr>ps_entries := [demo_entry]\<rparr>,
     ci_parameters := [(''detail_sections'', AnyStrings [''hero'', ''material''])]\<rparr>"

lemma demo_detail_parameters:
  "product_detail_parameters (ci_parameters demo_detail_input) product_detail_set_definition =
     Inr ([''hero'', ''material''], map (\<lambda>(k, m). (k, ss_scope m)) (rd_section_scopes product_detail_set_definition), ''clean'')"
proof -
  have "trim_space ''hero'' = ''hero''" "trim_space ''material'' = ''material''" "trim_space ''clean'' = ''clean''"
    by (rule trim_space_literal; simp add: literal_bytes_def)+
  then show ?thesis
    by (simp add: demo_detail_input_def product_detail_parameters_def raw_detail_sections_def text_parameter_def
        section_scope_names_def product_detail_set_definition_def Let_def)
qed

lemma demo_detail_texts: "confirmed_layout_texts demo_codec demo_spec k scope = []"
  by (simp add: confirmed_layout_texts_def creative_spec_facts_for_target_def has_json_content_def decoded_def
      fact_texts_def demo_codec_def demo_spec_def Let_def)

lemma demo_detail_references: "ordered_detail_references demo_detail_input i k = demo_references"
  by (simp add: ordered_detail_references_def eligible_assets_def asset_of_def visible_to_def demo_front_def
      demo_detail_input_def reference_of_def demo_references_def Let_def)

lemma demo_detail_item:
  "\<exists>item. compile_detail_item demo_codec demo_detail_input price ''M'' ''clean'' i sect k = Inr item"
proof -
  have "ci_creative_spec demo_detail_input = demo_spec" by (simp add: demo_detail_input_def demo_input_def)
  moreover have "validate_layout_document
      (default_product_detail_layout sect ''clean'' (ci_aspect_ratio demo_detail_input) []) = Inr ()"
    by (rule default_product_detail_layout_valid) (simp_all add: valid_layout_template_def)
  ultimately show ?thesis
    unfolding compile_detail_item_def Let_def demo_detail_references
    by (simp add: demo_detail_texts) (simp add: demo_references_def demo_codec_def encoded_def)
qed

text \<open>The converse of \<open>compile_product_detail_set_Inr\<close>.\<close>

lemma compile_product_detail_set_I:
  assumes "ci_selected_skus input \<noteq> []"
    and "product_detail_parameters (ci_parameters input) product_detail_set_definition = Inr (sects, scopes, template)"
    and "int (wanted_items scopes (length (ci_selected_skus input)) sects) = ci_output_count input"
    and "resolve (ci_pricing input) (ci_quality_tier input) [''image''] = Inr price"
    and "model_snapshot_json c (ci_pricing input) (ci_quality_tier input) = Inr models"
    and "list_all2 (\<lambda>(i, sect, k) item. compile_detail_item c input price models template i sect k = Inr item)
       (section_targets input scopes sects) its"
  shows "compile_product_detail_set c (Some resolve) input = Inr its"
proof -
  have "(\<lambda>(i, sect, k) compiled. and_then (compile_detail_item c input price models template i sect k)
      (\<lambda>item. Inr (compiled @ [item]))) =
    (\<lambda>x acc. and_then ((\<lambda>(i, sect, k). compile_detail_item c input price models template i sect k) x)
      (\<lambda>item. Inr (acc @ [item])))" by (auto simp: fun_eq_iff)
  then show ?thesis
    using assms by (simp add: compile_product_detail_set_def fold_result_collect case_prod_unfold)
qed

text \<open>The compiled set: one item for the SKU, one shared.\<close>

lemma demo_detail_compile:
  obtains its where "compile_product_detail_set demo_codec (Some snapshot_cost_resolver) demo_detail_input = Inr its"
    "map cp_sku its = [5, 0]" "map cp_section its = [''hero'', ''material'']"
proof -
  let ?price = "\<lparr>ip_credits = 12, ip_version = ''v''\<rparr>"
  let ?compile = "compile_detail_item demo_codec demo_detail_input ?price ''M'' ''clean''"
  obtain i1 i2 where i: "?compile 0 ''hero'' 5 = Inr i1" "?compile 1 ''material'' 0 = Inr i2"
    using demo_detail_item by metis
  have sel: "ci_selected_skus demo_detail_input = [5]" by (simp add: demo_detail_input_def demo_input_def)
  then have sel': "ci_selected_skus demo_detail_input \<noteq> []" by simp
  let ?scopes = "map (\<lambda>(k, m). (k, ss_scope m)) (rd_section_scopes product_detail_set_definition)"
  have t: "section_targets demo_detail_input ?scopes [''hero'', ''material''] = [(0, ''hero'', 5), (1, ''material'', 0)]"
    by (simp add: section_targets_def sel product_detail_set_definition_def)
  have price: "snapshot_cost_resolver (ci_pricing demo_detail_input) (ci_quality_tier demo_detail_input) [''image''] = Inr ?price"
    by (simp add: snapshot_cost_resolver_def demo_detail_input_def demo_input_def demo_entry_def demo_pricing_def)
  have models: "model_snapshot_json demo_codec (ci_pricing demo_detail_input) (ci_quality_tier demo_detail_input) = Inr ''M''"
    by (simp add: model_snapshot_json_def demo_detail_input_def demo_input_def demo_entry_def demo_pricing_def demo_codec_def
        encoded_def Let_def)
  have w: "int (wanted_items ?scopes (length (ci_selected_skus demo_detail_input)) [''hero'', ''material'']) =
      ci_output_count demo_detail_input"
    by (simp add: sel wanted_items_def product_detail_set_definition_def) (simp add: demo_detail_input_def)
  have "list_all2 (\<lambda>(i, sect, k) item. ?compile i sect k = Inr item)
      (section_targets demo_detail_input ?scopes [''hero'', ''material'']) [i1, i2]"
    unfolding t using i by simp
  then have run: "compile_product_detail_set demo_codec (Some snapshot_cost_resolver) demo_detail_input = Inr [i1, i2]"
    by (rule compile_product_detail_set_I [where input = demo_detail_input and resolve = snapshot_cost_resolver, OF sel' demo_detail_parameters w price models])
  show thesis
    by (rule that [OF run]) (simp_all add: compile_detail_item_Inr(1,2) [OF i(1)] compile_detail_item_Inr(1,2) [OF i(2)])
qed

end
