(* ===== verification/DetailClaims.thy ===== *)
theory DetailClaims
  imports DemoDetail
begin

text \<open>What the product detail set promises, with a compiled set as the witness.\<close>

text \<open>
  A compilation yields exactly the requested number of items, and at most 304 for at most 100
  SKUs.
\<close>
theorem product_detail_set_bounded:
  assumes "compile_product_detail_set c costs input = Inr its"
    and "length (ci_selected_skus (selecting_primary input)) \<le> 100"
  shows "int (length its) = ci_output_count input \<and> length its \<le> 304"
proof -
  have "4 + max 1 n + 2 * n \<le> 304" if "n \<le> 100" for n :: nat using that by (simp add: max_def)
  then show ?thesis using product_detail_set_size [OF assms(1)] assms(2) le_trans by blast
qed

theorem product_detail_set_bounded_witness:
  "\<exists>its. compile_product_detail_set demo_codec (Some snapshot_cost_resolver) demo_detail_input = Inr its \<and>
     length its = 2 \<and> int (length its) = ci_output_count demo_detail_input"
proof (rule demo_detail_compile)
  fix its assume its: "compile_product_detail_set demo_codec (Some snapshot_cost_resolver) demo_detail_input = Inr its"
  have "length (ci_selected_skus (selecting_primary demo_detail_input)) \<le> 100"
    by (simp add: selecting_primary_def demo_detail_input_def demo_input_def)
  from product_detail_set_bounded [OF its this] its show ?thesis
    by (simp add: demo_detail_input_def)
qed

text \<open>
  The items compiled for distinct SKUs have distinct slot keys.
\<close>
theorem product_detail_slots_unique:
  assumes "compile_product_detail_set c costs input = Inr its"
    and "distinct (ci_selected_skus (selecting_primary input))"
  shows "distinct (map cp_slot_key its)"
  using assms by (rule product_detail_slots_distinct)

theorem product_detail_slots_unique_witness:
  "\<exists>its. compile_product_detail_set demo_codec (Some snapshot_cost_resolver) demo_detail_input = Inr its \<and>
     length its = 2 \<and> distinct (map cp_slot_key its)"
proof (rule demo_detail_compile)
  fix its assume its: "compile_product_detail_set demo_codec (Some snapshot_cost_resolver) demo_detail_input = Inr its"
    and two: "map cp_sku its = [5, 0]"
  have "distinct (ci_selected_skus (selecting_primary demo_detail_input))"
    by (simp add: selecting_primary_def demo_detail_input_def demo_input_def)
  from product_detail_slots_unique [OF its this] its two show ?thesis
    by (metis length_Cons length_map list.size(3) numeral_2_eq_2)
qed

text \<open>
  C26. A compiled item has at most four references, without repetitions, and each is an asset of
  the request that is shared or belongs to the SKU of the item: no image of another SKU gets into
  it.
\<close>
theorem product_detail_references_visible:
  assumes "compile_product_detail_set c costs input = Inr its" and "item \<in> set its"
  shows "length (cp_asset_ids item) \<le> 4 \<and> distinct (cp_asset_ids item) \<and>
    (\<forall>k \<in> set (cp_asset_ids item). \<exists>a \<in> set (ci_assets input). ab_asset a = k \<and>
       (ab_sku a = None \<or> ab_sku a = Some (cp_sku item) \<and> cp_sku item \<noteq> 0))"
  using assms by (rule product_detail_references)

theorem product_detail_references_visible_witness:
  "\<exists>its. compile_product_detail_set demo_codec (Some snapshot_cost_resolver) demo_detail_input = Inr its \<and>
     (\<exists>item \<in> set its. cp_sku item = 5 \<and> set (cp_asset_ids item) \<subseteq> {11})"
proof (rule demo_detail_compile)
  fix its assume its: "compile_product_detail_set demo_codec (Some snapshot_cost_resolver) demo_detail_input = Inr its"
    and two: "map cp_sku its = [5, 0]"
  have item: "hd its \<in> set its" "cp_sku (hd its) = 5" using two by (cases its; simp)+
  have "ci_assets demo_detail_input = [demo_front]" by (simp add: demo_detail_input_def)
  then have "set (cp_asset_ids (hd its)) \<subseteq> {11}"
    using product_detail_references_visible [OF its item(1)] by (auto simp: demo_front_def)
  with its item show ?thesis by blast
qed

text \<open>
  Provided that the JSON codec reads what it writes, the decoder accepts the frozen
  references of every compiled item and returns them in order.
\<close>
theorem product_detail_references_accepted:
  assumes "compile_product_detail_set c costs input = Inr its" and "item \<in> set its"
    and codec: "\<And>rs t. dc_references c rs = Some t \<Longrightarrow> dc_read_references c t = Some rs"
    and "\<forall>a \<in> set (ci_assets input). ab_asset a \<noteq> 0 \<and> \<not> blank (ab_role a)"
  shows "\<exists>rs. decode_execution_reference_set c (cp_reference_snapshot item) = Inr rs \<and>
    map xr_asset rs = cp_asset_ids item"
  using assms by (rule product_detail_references_decode)

theorem product_detail_references_accepted_witness:
  "\<exists>its. compile_product_detail_set demo_codec (Some snapshot_cost_resolver) demo_detail_input = Inr its \<and>
     (\<exists>item \<in> set its. \<exists>rs. decode_execution_reference_set demo_codec (cp_reference_snapshot item) = Inr rs \<and>
        map xr_asset rs = cp_asset_ids item)"
proof (rule demo_detail_compile)
  fix its assume its: "compile_product_detail_set demo_codec (Some snapshot_cost_resolver) demo_detail_input = Inr its"
    and two: "map cp_sku its = [5, 0]"
  have item: "hd its \<in> set its" using two by (cases its) auto
  have "\<not> blank ''product_front''" by (subst blank_literal; simp add: literal_bytes_def)
  then have "\<forall>a \<in> set (ci_assets demo_detail_input). ab_asset a \<noteq> 0 \<and> \<not> blank (ab_role a)"
    by (simp add: demo_detail_input_def demo_front_def)
  from product_detail_references_accepted [OF its item demo_codec_reads this] its item show ?thesis by blast
qed

text \<open>
  With prices from a snapshot, every compiled item costs a positive number of credits.
\<close>
theorem product_detail_prices_positive:
  assumes "compile_product_detail_set c (Some snapshot_cost_resolver) input = Inr its" and "item \<in> set its"
  shows "0 < cp_estimated item"
  using assms by (rule snapshot_costs.compiled_positive)

theorem product_detail_prices_positive_witness:
  "\<exists>its. compile_product_detail_set demo_codec (Some snapshot_cost_resolver) demo_detail_input = Inr its \<and>
     (\<exists>item \<in> set its. 0 < cp_estimated item)"
proof (rule demo_detail_compile)
  fix its assume its: "compile_product_detail_set demo_codec (Some snapshot_cost_resolver) demo_detail_input = Inr its"
    and two: "map cp_sku its = [5, 0]"
  have item: "hd its \<in> set its" using two by (cases its) auto
  from product_detail_prices_positive [OF its item] its item show ?thesis by blast
qed

text \<open>
  On an input that passes the checks of the registry, the checks of the registry on compiled
  items never refuse what the product detail set compiles: the registry returns its items or its
  error.
\<close>
theorem registry_accepts_product_detail_set:
  assumes "registry_get r (ci_pipeline input) (ci_recipe_key input) (ci_recipe_version input) =
      Some (product_detail_set_compiler c costs)"
    and "validate_compile_input product_detail_set_definition input = Inr ()"
  shows "registry_compile r input = compile_product_detail_set c costs input"
  using assms by (rule registry_compiles_product_detail_set)

definition demo_detail_registry :: registry where
  "demo_detail_registry = [(registry_key ''general'' product_detail_set_key product_detail_set_version,
     product_detail_set_compiler demo_codec (Some snapshot_cost_resolver))]"

lemma demo_detail_valid: "validate_compile_input product_detail_set_definition demo_detail_input = Inr ()"
proof -
  have "\<not> blank ''ab''" by (subst blank_literal; simp add: literal_bytes_def)
  then show ?thesis
    by (simp add: demo_detail_input_def demo_input_def product_detail_set_definition_def validate_compile_input_def
        demo_spec_def allowed_roles_def image_requirement_def role_count_ok_def validate_asset_binding_snapshots_def
        binding_pairs_def demo_front_def)
qed

theorem registry_accepts_product_detail_set_witness:
  "\<exists>its. registry_compile demo_detail_registry demo_detail_input = Inr its \<and> map cp_sku its = [5, 0]"
proof (rule demo_detail_compile)
  fix its assume its: "compile_product_detail_set demo_codec (Some snapshot_cost_resolver) demo_detail_input = Inr its"
    and two: "map cp_sku its = [5, 0]"
  have "registry_get demo_detail_registry (ci_pipeline demo_detail_input) (ci_recipe_key demo_detail_input)
      (ci_recipe_version demo_detail_input) = Some (product_detail_set_compiler demo_codec (Some snapshot_cost_resolver))"
    by (simp add: registry_get_def demo_detail_registry_def demo_detail_input_def demo_input_def)
  from registry_accepts_product_detail_set [OF this demo_detail_valid] its two show ?thesis by simp
qed

text \<open>
  Stripping leaves no forbidden key at any depth, and stripping again changes nothing.
\<close>
theorem forbidden_facts_stripped:
  "allowed_facts (strip_forbidden_facts v) \<and> strip_forbidden_facts (strip_forbidden_facts v) = strip_forbidden_facts v"
  by (simp add: strip_forbidden_facts_allowed strip_forbidden_facts_id)

end
