(* ===== verification/Pricing.thy ===== *)
theory Pricing
  imports CommerceModels
begin

text \<open>
  Pricing snapshots (\<^verbatim>\<open>ecommerce/credits.go\<close>): an estimate issues a snapshot of the
  prices it used, a submission resolves it, once, for the same user, project and request. The
  JSON text of the persisted payload, the hexadecimal SHA-256 of it and the random bytes of a new
  identifier come from Go's library: they are the components of \<open>pricing_codec\<close>.
\<close>

section \<open>Operations\<close>

record persisted_pricing_snapshot =
  pp_version :: string
  pp_request_digest :: string
  pp_user :: uid
  pp_project :: uid
  pp_entries :: "pricing_entry list"
  pp_created_at :: time
  pp_expires_at :: time

record pricing_codec =
  pc_encode :: "persisted_pricing_snapshot \<Rightarrow> string option"
  pc_decode :: "string \<Rightarrow> persisted_pricing_snapshot option"
  pc_sha :: "string \<Rightarrow> string"
  pc_random_hex :: "string option"

definition snapshot_payload :: "pricing_snapshot \<Rightarrow> persisted_pricing_snapshot" where
  "snapshot_payload p =
     \<lparr>pp_version = ps_version p, pp_request_digest = ps_request_digest p, pp_user = ps_user p,
      pp_project = ps_project p, pp_entries = ps_entries p, pp_created_at = ps_created_at p,
      pp_expires_at = ps_expires_at p\<rparr>"

definition opaque_snapshot_id :: "pricing_codec \<Rightarrow> commerce_error + string" where
  "opaque_snapshot_id c = (case pc_random_hex c of None \<Rightarrow> Inl ErrInfrastructure | Some h \<Rightarrow> Inr (''ps_'' @ h))"

definition insert_pricing_row :: "commerce_pricing_snapshot \<Rightarrow> commerce_db \<Rightarrow> commerce_error + commerce_db" where
  "insert_pricing_row row s =
     (if first_where (\<lambda>r. cps_id r = cps_id row) (pricing_snapshots s) \<noteq> None then Inl ErrInfrastructure
      else Inr (s\<lparr>pricing_snapshots := pricing_snapshots s @ [row]\<rparr>))"

definition pricing_row :: "string \<Rightarrow> string \<Rightarrow> pricing_snapshot \<Rightarrow> commerce_pricing_snapshot" where
  "pricing_row payload hash p =
     \<lparr>cps_id = ps_id p, cps_user = ps_user p, cps_project = ps_project p,
      cps_request_digest = ps_request_digest p, cps_json = payload, cps_hash = hash,
      cps_version = ps_version p, cps_status = ps_status p, cps_expires_at = ps_expires_at p,
      cps_consumed_at = None, cps_created_at = ps_created_at p\<rparr>"

definition issue_tx ::
  "pricing_codec \<Rightarrow> pricing_snapshot \<Rightarrow> commerce_db \<Rightarrow> commerce_error + pricing_snapshot \<times> commerce_db" where
  "issue_tx c p s =
     (if ps_user p = 0 \<or> ps_project p = 0 \<or> blank (ps_request_digest p) then Inl ErrInvalidInput
      else
        let p = (if ps_created_at p = 0 then p\<lparr>ps_created_at := clock s\<rparr> else p)
        in if ps_expires_at p = 0 \<or> \<not> ps_expires_at p > ps_created_at p
           then Inl (FieldError ''pricing_expires_at'' ''pricing snapshot expiration must be after creation'')
           else
             let p = (if ps_status p = '''' then p\<lparr>ps_status := ''issued''\<rparr> else p)
             in if ps_status p \<noteq> ''issued''
                then Inl (FieldError ''pricing_status'' ''new pricing snapshot must be issued'')
                else and_then (if ps_id p = '''' then opaque_snapshot_id c else Inr (ps_id p)) (\<lambda>k.
                  let p = p\<lparr>ps_id := k\<rparr>
                  in case pc_encode c (snapshot_payload p) of
                    None \<Rightarrow> Inl ErrInfrastructure
                  | Some payload \<Rightarrow>
                      let p = p\<lparr>ps_hash := pc_sha c payload\<rparr>
                      in and_then (insert_pricing_row (pricing_row payload (ps_hash p) p) s) (\<lambda>s'. Inr (p, s'))))"

text \<open>The reason a snapshot is stale; only \<open>''valid''\<close> lets it through.\<close>

definition classify_pricing_snapshot_resolution_failure ::
  "commerce_pricing_snapshot option \<Rightarrow> uid \<Rightarrow> uid \<Rightarrow> string \<Rightarrow> time \<Rightarrow> string" where
  "classify_pricing_snapshot_resolution_failure found user project digest now =
     (case found of
        None \<Rightarrow> ''not_found''
      | Some row \<Rightarrow>
          if cps_user row \<noteq> user \<or> cps_project row \<noteq> project then ''ownership_mismatch''
          else if cps_request_digest row \<noteq> digest then ''request_digest_mismatch''
          else if cps_status row \<noteq> ''issued''
          then (if cps_status row = ''consumed'' then ''status_consumed'' else ''status_unavailable'')
          else if \<not> cps_expires_at row > now then ''expired''
          else ''valid'')"

definition resolve_for_submit_tx ::
  "pricing_codec \<Rightarrow> uid \<Rightarrow> uid \<Rightarrow> string \<Rightarrow> string \<Rightarrow> time \<Rightarrow> commerce_db \<Rightarrow> commerce_error + pricing_snapshot" where
  "resolve_for_submit_tx c user project snapshot_id digest now s =
     (if user = 0 \<or> project = 0 \<or> blank snapshot_id \<or> blank digest then Inl ErrPricingSnapshotStale
      else case first_where (\<lambda>r. cps_id r = snapshot_id) (pricing_snapshots s) of
        None \<Rightarrow> Inl ErrPricingSnapshotStale
      | Some row \<Rightarrow>
          if classify_pricing_snapshot_resolution_failure (Some row) user project digest now \<noteq> ''valid''
          then Inl ErrPricingSnapshotStale
          else if pc_sha c (cps_json row) \<noteq> cps_hash row then Inl ErrPricingSnapshotStale
          else case pc_decode c (cps_json row) of
            None \<Rightarrow> Inl ErrDecode
          | Some p \<Rightarrow>
              if pp_version p \<noteq> cps_version row \<or> pp_request_digest p \<noteq> cps_request_digest row \<or>
                 pp_user p \<noteq> cps_user row \<or> pp_project p \<noteq> cps_project row
              then Inl ErrPricingSnapshotStale
              else Inr \<lparr>ps_id = cps_id row, ps_version = pp_version p, ps_request_digest = pp_request_digest p,
                 ps_hash = cps_hash row, ps_status = cps_status row, ps_user = pp_user p,
                 ps_project = pp_project p, ps_entries = pp_entries p, ps_created_at = pp_created_at p,
                 ps_expires_at = pp_expires_at p\<rparr>)"

section \<open>Properties\<close>

text \<open>A snapshot that is issued has the fields it was asked for; its row is the only change.\<close>

lemma issue_tx_Inr:
  assumes "issue_tx c p s = Inr (p', s')"
  obtains payload where "pc_encode c (snapshot_payload p') = Some payload" "ps_hash p' = pc_sha c payload"
    "s' = s\<lparr>pricing_snapshots := pricing_snapshots s @ [pricing_row payload (ps_hash p') p']\<rparr>"
    "first_where (\<lambda>r. cps_id r = ps_id p') (pricing_snapshots s) = None"
    "ps_status p' = ''issued''" "ps_user p' = ps_user p" "ps_project p' = ps_project p"
    "ps_request_digest p' = ps_request_digest p" "ps_entries p' = ps_entries p" "ps_version p' = ps_version p"
    "ps_expires_at p' = ps_expires_at p" "ps_created_at p' < ps_expires_at p'"
    "ps_user p \<noteq> 0" "ps_project p \<noteq> 0" "\<not> blank (ps_request_digest p)"
    "ps_id p \<noteq> '''' \<longrightarrow> ps_id p' = ps_id p"
  using assms
  by (auto simp: issue_tx_def insert_pricing_row_def pricing_row_def snapshot_payload_def Let_def inv_simps
      split: if_splits option.splits)

lemma classify_valid:
  "classify_pricing_snapshot_resolution_failure (Some row) user project digest now = ''valid'' \<longleftrightarrow>
     cps_user row = user \<and> cps_project row = project \<and> cps_request_digest row = digest \<and>
     cps_status row = ''issued'' \<and> now < cps_expires_at row"
  by (auto simp: classify_pricing_snapshot_resolution_failure_def)

text \<open>
  A resolved snapshot is one stored for the same user, project and request, issued, not expired,
  with a payload that its hash matches.
\<close>

lemma resolve_for_submit_tx_Inr:
  assumes "resolve_for_submit_tx c user project k digest now s = Inr p"
  obtains row where "row \<in> set (pricing_snapshots s)" "cps_id row = k" "cps_user row = user" "cps_project row = project"
    "cps_request_digest row = digest" "cps_status row = ''issued''" "now < cps_expires_at row"
    "pc_sha c (cps_json row) = cps_hash row" "ps_id p = k" "ps_user p = user" "ps_project p = project"
    "ps_request_digest p = digest" "ps_status p = ''issued''"
    "pc_decode c (cps_json row) = Some (snapshot_payload p)" "ps_version p = cps_version row"
    "first_where (\<lambda>r. cps_id r = k) (pricing_snapshots s) = Some row"
proof -
  obtain row x where row: "first_where (\<lambda>r. cps_id r = k) (pricing_snapshots s) = Some row"
      "classify_pricing_snapshot_resolution_failure (Some row) user project digest now = ''valid''"
      "pc_sha c (cps_json row) = cps_hash row" "pc_decode c (cps_json row) = Some x"
      "pp_version x = cps_version row" "pp_request_digest x = cps_request_digest row" "pp_user x = cps_user row"
      "pp_project x = cps_project row"
    and p: "p = \<lparr>ps_id = cps_id row, ps_version = pp_version x, ps_request_digest = pp_request_digest x,
                 ps_hash = cps_hash row, ps_status = cps_status row, ps_user = pp_user x,
                 ps_project = pp_project x, ps_entries = pp_entries x, ps_created_at = pp_created_at x,
                 ps_expires_at = pp_expires_at x\<rparr>"
    using assms by (auto simp: resolve_for_submit_tx_def split: if_splits option.splits)
  have "snapshot_payload p = x" by (simp add: snapshot_payload_def p)
  with row p show thesis
    using first_where_Some [OF row(1)] unfolding classify_valid by (intro that [of row]) simp_all
qed

text \<open>What was issued resolves to itself until it expires.\<close>

lemma issue_resolve:
  assumes run: "issue_tx c p s = Inr (p', s')"
    and codec: "\<And>x t. pc_encode c x = Some t \<Longrightarrow> pc_decode c t = Some x"
    and k: "\<not> blank (ps_id p')" and now: "now < ps_expires_at p'"
  shows "resolve_for_submit_tx c (ps_user p') (ps_project p') (ps_id p') (ps_request_digest p') now s' = Inr p'"
proof -
  from run obtain payload where e: "pc_encode c (snapshot_payload p') = Some payload" "ps_hash p' = pc_sha c payload"
    and s': "s' = s\<lparr>pricing_snapshots := pricing_snapshots s @ [pricing_row payload (ps_hash p') p']\<rparr>"
    and new: "first_where (\<lambda>r. cps_id r = ps_id p') (pricing_snapshots s) = None"
    and f: "ps_status p' = ''issued''" "ps_user p' = ps_user p" "ps_project p' = ps_project p"
      "ps_request_digest p' = ps_request_digest p" "ps_user p \<noteq> 0" "ps_project p \<noteq> 0"
      "\<not> blank (ps_request_digest p)"
    by (rule issue_tx_Inr)
  have row: "first_where (\<lambda>r. cps_id r = ps_id p') (pricing_snapshots s') =
      Some (pricing_row payload (ps_hash p') p')"
    using new by (simp add: s' first_where_append first_where_single pricing_row_def)
  show ?thesis
    using codec [OF e(1)] row e(2) f k now
    by (simp add: resolve_for_submit_tx_def classify_valid pricing_row_def snapshot_payload_def)
qed

end
