(* ===== verification/BatchInputs.thy ===== *)
theory BatchInputs
  imports ProductDetail Pricing "HOL-Library.Multiset"
begin

text \<open>
  What a batch is compiled from (\<^verbatim>\<open>ecommerce/batches.go\<close> and
  \<^verbatim>\<open>ecommerce/creative_specs.go\<close>): the request and its canonical digest, the
  ownership checks on SKUs and assets, the confirmed creative specification, the compile input.
  JSON encoding and the hexadecimal SHA-256 are the components of \<open>batch_codec\<close>.
\<close>

section \<open>Requests\<close>

record estimate_request =
  er_recipe_key :: string
  er_quality_tier :: string
  er_recipe_version :: int
  er_output_count :: int
  er_creative_spec :: uid
  er_primary_sku :: uid
  er_selected_skus :: "uid list"
  er_aspect_ratio :: string
  er_bindings :: "(string \<times> uid list) list"
  er_parameters :: "(string \<times> any_value) list"

record canonical_request =
  cr_recipe_key :: string
  cr_quality_tier :: string
  cr_recipe_version :: int
  cr_output_count :: int
  cr_creative_spec :: uid
  cr_primary_sku :: uid
  cr_selected_skus :: "uid list"
  cr_aspect_ratio :: string
  cr_bindings :: "(string \<times> uid list) list"
  cr_parameters :: "(string \<times> string) list"

text \<open>The rows a creative specification's SKU context is the digest of.\<close>

record sku_context =
  sc_sku_version :: int
  sc_default_sku :: "uid option"
  sc_skus :: "commerce_sku list"
  sc_assets :: "commerce_asset list"
  sc_dimensions :: "commerce_sku_dimension list"
  sc_values :: "commerce_sku_value list"
  sc_links :: "commerce_sku_value_link list"

record batch_codec =
  bc_value :: "any_value \<Rightarrow> string option"
  bc_request :: "canonical_request \<Rightarrow> string option"
  bc_canonical_json :: "string \<Rightarrow> string option"
  bc_spec :: "creative_spec_snapshot \<Rightarrow> string option"
  bc_context :: "sku_context \<Rightarrow> string option"
  bc_snapshot :: "pricing_snapshot \<Rightarrow> string option"
  bc_item :: "compiled_item \<Rightarrow> string option"
  bc_sha :: "string \<Rightarrow> string"

fun encode_parameters :: "(any_value \<Rightarrow> string option) \<Rightarrow> (string \<times> any_value) list \<Rightarrow>
     commerce_error + (string \<times> string) list" where
  "encode_parameters enc [] = Inr []"
| "encode_parameters enc ((k, v) # ps) =
     and_then (encoded enc v) (\<lambda>t. and_then (encode_parameters enc ps) (\<lambda>rest. Inr ((k, t) # rest)))"

definition canonical_request_of :: "batch_codec \<Rightarrow> estimate_request \<Rightarrow> commerce_error + canonical_request" where
  "canonical_request_of c req =
     and_then (encode_parameters (bc_value c) (er_parameters req)) (\<lambda>ps.
     Inr \<lparr>cr_recipe_key = er_recipe_key req, cr_quality_tier = er_quality_tier req,
       cr_recipe_version = er_recipe_version req, cr_output_count = er_output_count req,
       cr_creative_spec = er_creative_spec req, cr_primary_sku = er_primary_sku req,
       cr_selected_skus = er_selected_skus req, cr_aspect_ratio = er_aspect_ratio req,
       cr_bindings = sort_key fst (er_bindings req), cr_parameters = sort_key fst ps\<rparr>)"

definition canonical_batch_request_digest :: "batch_codec \<Rightarrow> estimate_request \<Rightarrow> commerce_error + string \<times> string" where
  "canonical_batch_request_digest c req =
     and_then (canonical_request_of c req) (\<lambda>canonical.
     and_then (encoded (bc_request c) canonical) (\<lambda>raw. Inr (bc_sha c raw, raw)))"

definition validate_idempotency_replay :: "string \<Rightarrow> string \<Rightarrow> string \<Rightarrow> string \<Rightarrow> commerce_error + unit" where
  "validate_idempotency_replay existing_key existing_digest key digest =
     (if existing_key \<noteq> key \<or> existing_digest \<noteq> digest then Inl ErrIdempotencyConflict else Inr ())"

section \<open>SKUs and assets\<close>

fun validate_selected_skus :: "uid \<Rightarrow> uid \<Rightarrow> commerce_db \<Rightarrow> uid list \<Rightarrow> uid list \<Rightarrow> commerce_error + unit" where
  "validate_selected_skus user product s seen [] = Inr ()"
| "validate_selected_skus user product s seen (k # ks) =
     (if k = 0 then Inl ErrOwnershipMismatch
      else if k \<in> set seen then validate_selected_skus user product s seen ks
      else case first_where (\<lambda>x. sku_id x = k \<and> sku_user x = user \<and> sku_product x = product \<and>
               sku_deleted_at x = None) (skus s) of
        None \<Rightarrow> Inl ErrOwnershipMismatch
      | Some sku \<Rightarrow> if sku_status sku \<noteq> ''active'' then Inl ErrSKUDisabled
          else validate_selected_skus user product s (k # seen) ks)"

definition validate_project_skus_tx :: "uid \<Rightarrow> uid \<Rightarrow> uid \<Rightarrow> uid list \<Rightarrow> commerce_db \<Rightarrow> commerce_error + unit" where
  "validate_project_skus_tx user product primary ks s =
     and_then (get_product user product s) (\<lambda>_.
     if ks = [] then Inl ErrSKUSelectionRequired
     else if length ks > 100 then Inl ErrSKUSelectionTooLarge
     else if primary \<notin> set ks then Inl ErrPrimarySKUNotSelected
     else validate_selected_skus user product s [] ks)"

definition binding_snapshot :: "(uid \<times> string) list \<Rightarrow> commerce_asset \<Rightarrow> asset_binding_snapshot" where
  "binding_snapshot roles a =
     \<lparr>ab_asset = ast_id a, ab_reference = ast_reference a, ab_sku = ast_sku a,
      ab_role = (case map_of roles (ast_id a) of None \<Rightarrow> [] | Some r \<Rightarrow> r), ab_metadata = ast_metadata a\<rparr>"

definition load_asset_binding_snapshots ::
  "uid \<Rightarrow> uid \<Rightarrow> (string \<times> uid list) list \<Rightarrow> commerce_db \<Rightarrow> commerce_error + asset_binding_snapshot list" where
  "load_asset_binding_snapshots user project bindings s =
     and_then (bind_roles ErrOwnershipMismatch [] (binding_pairs bindings)) (\<lambda>roles.
     if roles = [] then Inr []
     else
       let found = filter (\<lambda>a. ast_user a = user \<and> ast_project a = project \<and>
             ast_id a \<in> set (map fst roles) \<and> ast_deleted_at a = None) (assets s)
       in if length found \<noteq> length roles then Inl ErrOwnershipMismatch
          else Inr (sort_key ab_asset (map (binding_snapshot roles) found)))"

definition sku_snapshot_of :: "commerce_sku \<Rightarrow> sku_snapshot" where
  "sku_snapshot_of k =
     \<lparr>sn_id = sku_id k, sn_code = sku_code k,
      sn_path = join_with ''/'' (map trim_space (filter (\<lambda>v. \<not> blank v) [sku_color k, sku_style k, sku_size k])),
      sn_attributes = default_json (sku_attributes k) ''{}''\<rparr>"

definition load_sku_snapshots :: "uid \<Rightarrow> uid \<Rightarrow> uid list \<Rightarrow> commerce_db \<Rightarrow> (uid \<times> sku_snapshot) list" where
  "load_sku_snapshots user product ks s =
     map (\<lambda>x. (sku_id x, sku_snapshot_of x))
       (filter (\<lambda>x. sku_user x = user \<and> sku_product x = product \<and> sku_id x \<in> set ks \<and>
          sku_deleted_at x = None) (skus s))"

section \<open>The confirmed creative specification\<close>

definition normalize_json :: "batch_codec \<Rightarrow> string \<Rightarrow> string \<Rightarrow> commerce_error + string" where
  "normalize_json c raw fallback =
     (if blank raw then Inr fallback
      else case bc_canonical_json c raw of None \<Rightarrow> Inl ErrDecode | Some t \<Rightarrow> Inr t)"

text \<open>The fallback of the common facts is read before the product facts are normalised.\<close>

definition normalize_creative_spec_snapshot ::
  "batch_codec \<Rightarrow> creative_spec_snapshot \<Rightarrow> commerce_error + creative_spec_snapshot" where
  "normalize_creative_spec_snapshot c x =
     and_then (normalize_json c (cs_product_facts x) ''{}'') (\<lambda>product_facts.
     and_then (normalize_json c (cs_common_facts x) (cs_product_facts x)) (\<lambda>common_facts.
     and_then (normalize_json c (cs_sku_overrides x) ''{}'') (\<lambda>sku_overrides.
     and_then (normalize_json c (cs_selling_points x) ''[]'') (\<lambda>selling_points.
     and_then (normalize_json c (cs_forbidden_changes x) ''[]'') (\<lambda>forbidden_changes.
     and_then (normalize_json c (cs_brand_tone x) ''{}'') (\<lambda>brand_tone.
     and_then (normalize_json c (cs_shot_plan x) ''[]'') (\<lambda>shot_plan.
     and_then (normalize_json c (cs_copy_blocks x) ''[]'') (\<lambda>copy_blocks.
     and_then (normalize_json c (cs_risk_notices x) ''[]'') (\<lambda>risk_notices.
     and_then (normalize_json c (cs_source_assets x) ''[]'') (\<lambda>source_assets.
     Inr (x\<lparr>cs_product_facts := product_facts, cs_common_facts := common_facts,
            cs_sku_overrides := sku_overrides, cs_selling_points := selling_points,
            cs_forbidden_changes := forbidden_changes, cs_brand_tone := brand_tone,
            cs_shot_plan := shot_plan, cs_copy_blocks := copy_blocks,
            cs_risk_notices := risk_notices, cs_source_assets := source_assets\<rparr>)))))))))))"

definition sku_context_of :: "commerce_project \<Rightarrow> commerce_product \<Rightarrow> commerce_db \<Rightarrow> sku_context" where
  "sku_context_of p product s =
     \<lparr>sc_sku_version = prd_sku_version product, sc_default_sku = prj_default_sku p,
      sc_skus = filter (\<lambda>x. sku_product x = prj_product p \<and> sku_user x = prj_user p \<and> sku_deleted_at x = None) (skus s),
      sc_assets = filter (\<lambda>a. ast_project a = prj_id p \<and> ast_user a = prj_user p \<and> ast_sku a \<noteq> None \<and>
        ast_deleted_at a = None) (assets s),
      sc_dimensions = filter (\<lambda>x. dim_product x = prj_product p \<and> dim_user x = prj_user p) (sku_dimensions s),
      sc_values = filter (\<lambda>x. val_product x = prj_product p \<and> val_user x = prj_user p) (sku_values s),
      sc_links = filter (\<lambda>x. lnk_product x = prj_product p \<and> lnk_user x = prj_user p) (sku_links s)\<rparr>"

definition creative_spec_sku_context_digest :: "batch_codec \<Rightarrow> commerce_project \<Rightarrow> commerce_db \<Rightarrow> commerce_error + string" where
  "creative_spec_sku_context_digest c p s =
     (case first_where (\<lambda>x. prd_id x = prj_product p \<and> prd_user x = prj_user p \<and> prd_deleted_at x = None) (products s) of
        None \<Rightarrow> Inl ErrRecordNotFound
      | Some product \<Rightarrow> and_then (encoded (bc_context c) (sku_context_of p product s)) (\<lambda>t. Inr (bc_sha c t)))"

definition spec_snapshot_of :: "commerce_creative_spec \<Rightarrow> creative_spec_snapshot" where
  "spec_snapshot_of x =
     \<lparr>cs_id = spc_id x, cs_version = nat (spc_version x mod 2 ^ 64), cs_status = spc_status x, cs_sha256 = [],
      cs_product_facts = spc_product_facts x,
      cs_common_facts = default_json (spc_common_facts x) (spc_product_facts x),
      cs_sku_overrides = default_json (spc_sku_overrides x) ''{}'', cs_sku_context = spc_sku_context x,
      cs_selling_points = spc_selling_points x, cs_forbidden_changes = spc_forbidden_changes x,
      cs_brand_tone = spc_brand_tone x, cs_shot_plan = spc_shot_plan x, cs_copy_blocks = spc_copy_blocks x,
      cs_risk_notices = spc_risk_notices x, cs_source_assets = spc_source_assets x\<rparr>"

definition build_confirmed_creative_spec_snapshot_tx ::
  "batch_codec \<Rightarrow> uid \<Rightarrow> uid \<Rightarrow> uid \<Rightarrow> commerce_db \<Rightarrow> commerce_error + creative_spec_snapshot" where
  "build_confirmed_creative_spec_snapshot_tx c user project spec s =
     (case first_where (\<lambda>x. spc_id x = spec \<and> spc_user x = user \<and> spc_project x = project) (creative_specs s) of
        None \<Rightarrow> Inl ErrNotFound
      | Some x \<Rightarrow>
          if spc_status x \<noteq> ''confirmed'' \<or> spc_locked_at x = None then Inl ErrCreativeSpecNotConfirmed
          else and_then
            (if spc_sku_context x \<noteq> []
             then and_then (get_project user project s) (\<lambda>p.
               and_then (creative_spec_sku_context_digest c p s) (\<lambda>current.
               if current \<noteq> spc_sku_context x then Inl ErrCreativeSpecNotConfirmed else Inr ()))
             else Inr ()) (\<lambda>_.
            and_then (normalize_creative_spec_snapshot c (spec_snapshot_of x)) (\<lambda>snapshot.
            and_then (encoded (bc_spec c) snapshot) (\<lambda>payload.
            Inr (snapshot\<lparr>cs_sha256 := bc_sha c payload\<rparr>)))))"

section \<open>The compile input\<close>

definition batch_output_count :: "estimate_request \<Rightarrow> uid list \<Rightarrow> recipe_definition \<Rightarrow> commerce_error + int" where
  "batch_output_count req selected d =
     (if rd_key d = product_detail_set_key
      then and_then (product_detail_parameters (er_parameters req) d) (\<lambda>(sects, scopes, _).
        Inr (int (wanted_items scopes (length selected) sects)))
      else Inr (er_output_count req))"

definition batch_compile_input ::
  "registry \<Rightarrow> batch_codec \<Rightarrow> uid \<Rightarrow> uid \<Rightarrow> estimate_request \<Rightarrow> commerce_db \<Rightarrow>
     commerce_error + commerce_project \<times> compile_input \<times> recipe_definition" where
  "batch_compile_input registry c user project req s =
     and_then (get_project user project s) (\<lambda>p.
     if prj_status p = ''deletion_requested'' \<or> prj_deletion_requested_at p \<noteq> None
     then Inl ErrProjectDeletionRequested
     else case registry_get registry (prj_pipeline p) (er_recipe_key req) (er_recipe_version req) of
       None \<Rightarrow>
         if prj_pipeline p = ''general'' \<and> er_recipe_key req = product_detail_set_key \<and>
            er_recipe_version req = product_detail_set_version
         then Inl ErrRecipeModelUnavailable else Inl ErrRecipeNotFound
     | Some compiler \<Rightarrow>
         let d = cm_definition compiler;
             selected = (if er_selected_skus req = [] \<and> er_primary_sku req \<noteq> 0 then [er_primary_sku req]
                         else er_selected_skus req)
         in and_then (build_confirmed_creative_spec_snapshot_tx c user project (er_creative_spec req) s) (\<lambda>spec.
            and_then (validate_project_skus_tx user (prj_product p) (er_primary_sku req) selected s) (\<lambda>_.
            and_then (load_asset_binding_snapshots user project (er_bindings req) s) (\<lambda>as.
            and_then (batch_output_count req selected d) (\<lambda>count.
            Inr (p, \<lparr>ci_user = user, ci_project = project, ci_primary_sku = er_primary_sku req,
              ci_creative_spec_id = er_creative_spec req, ci_creative_spec = spec,
              ci_selected_skus = selected, ci_recipe_key = er_recipe_key req, ci_pipeline = prj_pipeline p,
              ci_quality_tier = er_quality_tier req, ci_recipe_version = er_recipe_version req,
              ci_output_count = count, ci_aspect_ratio = er_aspect_ratio req, ci_bindings = er_bindings req,
              ci_assets = as, ci_pricing = \<lparr>ps_id = [], ps_version = [], ps_request_digest = [], ps_hash = [],
                ps_status = [], ps_user = 0, ps_project = 0, ps_entries = [], ps_created_at = 0, ps_expires_at = 0\<rparr>,
              ci_parameters = er_parameters req,
              ci_sku_snapshots = load_sku_snapshots user (prj_product p) selected s\<rparr>, d))))))"

end
