(* ===== verification/Batches.thy ===== *)
theory Batches
  imports BatchInputs WorkState
begin

text \<open>
  Batches of generation items (\<^verbatim>\<open>ecommerce/batches.go\<close>): estimating, submitting,
  reading, canceling and retrying them, and finishing an item under a lease. The operations are
  the statements of their transactions in order; \<open>t\<close>, \<open>t1\<close> and \<open>t2\<close> are the readings of the
  service's clock.
\<close>

section \<open>The service\<close>

type_synonym pricing_provider =
  "uid \<Rightarrow> uid \<Rightarrow> recipe_definition \<Rightarrow> estimate_request \<Rightarrow> commerce_db \<Rightarrow> commerce_error + pricing_snapshot"

record batch_service =
  bs_registry :: "registry option"
  bs_ledger :: "credit_ledger_ops option"
  bs_pricing :: "pricing_codec option"
  bs_provider :: "pricing_provider option"
  bs_codec :: batch_codec

record batch_snapshot =
  br_batch :: commerce_generation_batch
  br_items :: "commerce_generation_item list"

record batch_estimate =
  be_items :: "compiled_item list"
  be_total_items :: nat
  be_estimated :: int
  be_eta_seconds :: int
  be_pricing_version :: string
  be_pricing_snapshot :: string
  be_pricing_expires_at :: time
  be_request_digest :: string

definition ensure_batch_infrastructure ::
  "batch_service \<Rightarrow> commerce_error + registry \<times> credit_ledger_ops \<times> pricing_codec" where
  "ensure_batch_infrastructure svc =
     (case (bs_registry svc, bs_ledger svc, bs_pricing svc) of
        (Some r, Some l, Some p) \<Rightarrow> Inr (r, l, p)
      | _ \<Rightarrow> Inl ErrBatchInfrastructure)"

text \<open>
  \<^verbatim>\<open>runProjectMutationTransaction\<close> (\<^verbatim>\<open>service.go\<close>): on SQLite a transaction
  that meets a locked database is tried again, up to 50 times; \<open>locks\<close> says which attempts do.
\<close>

fun project_mutation :: "bool \<Rightarrow> nat \<Rightarrow> bool list \<Rightarrow> ('s \<Rightarrow> commerce_error + 'a \<times> 's) \<Rightarrow> 's \<Rightarrow> (commerce_error + 'a) \<times> 's" where
  "project_mutation sqlite attempts (True # locks) m s =
     (if \<not> sqlite \<or> attempts \<le> 1 then (Inl ErrInfrastructure, s)
      else project_mutation sqlite (attempts - 1) locks m s)"
| "project_mutation sqlite attempts _ m s = run_tx m s"

definition sqlite_lock_attempts :: nat where "sqlite_lock_attempts = 50"

section \<open>Rows\<close>

definition empty_batch :: commerce_generation_batch where
  "empty_batch = \<lparr>bat_id = 0, bat_user = 0, bat_project = 0, bat_creative_spec = None, bat_parent = None,
     bat_reservation = None, bat_primary_sku = 0, bat_pipeline = [], bat_recipe_key = [],
     bat_recipe_version = 0, bat_quality_tier = [], bat_status = BatchQueued, bat_idempotency_key = [],
     bat_request_digest = [], bat_request_snapshot = [], bat_pricing_version = [], bat_pricing_snapshot = [],
     bat_pricing_json = [], bat_total_items = 0, bat_queued_items = 0, bat_running_items = 0,
     bat_retrying_items = 0, bat_succeeded_items = 0, bat_failed_items = 0, bat_canceled_items = 0,
     bat_estimated = 0, bat_reserved = 0, bat_settled = 0, bat_released = 0, bat_eta_seconds = 0,
     bat_cancel_requested_at = None, bat_started_at = None, bat_finished_at = None\<rparr>"

definition queued_job :: commerce_job where
  "queued_job = \<lparr>job_id = 0, job_user = 0, job_project = 0, job_batch = None, job_item = None,
     job_subject = None, job_subject_type = [], job_kind = generate_item_kind, job_pipeline = [],
     job_recipe_key = [], job_status = JobQueued, job_idempotency_key = [], job_priority = 0,
     job_attempt_count = 0, job_max_attempts = 0, job_next_attempt_at = None, job_lease_owner = [],
     job_lease_token = [], job_lease_expires_at = None, job_heartbeat_at = None,
     job_cancel_requested_at = None, job_payload = [], job_result = [], job_error_code = [],
     job_error_message = [], job_started_at = None, job_finished_at = None, job_dead_lettered_at = None\<rparr>"

text \<open>
  \<^verbatim>\<open>INSERT ... ON CONFLICT (user_id, idempotency_key) DO NOTHING\<close>: \<open>None\<close> when the key is
  taken.
\<close>

definition claim_batch_row ::
  "commerce_generation_batch \<Rightarrow> commerce_db \<Rightarrow> (commerce_generation_batch \<times> commerce_db) option" where
  "claim_batch_row b s =
     (if first_where (\<lambda>x. bat_user x = bat_user b \<and> bat_idempotency_key x = bat_idempotency_key b) (batches s) \<noteq> None
      then None
      else let b' = b\<lparr>bat_id := next_key bat_id (batches s)\<rparr> in Some (b', s\<lparr>batches := batches s @ [b']\<rparr>))"

definition save_batch :: "commerce_generation_batch \<Rightarrow> commerce_db \<Rightarrow> commerce_db" where
  "save_batch b s = update_batches (\<lambda>x. bat_id x = bat_id b) (\<lambda>_. b) s"

text \<open>Inserts that a unique index may refuse; the scope column has the default \<^verbatim>\<open>sku\<close>.\<close>

definition insert_item :: "commerce_generation_item \<Rightarrow> commerce_db \<Rightarrow> commerce_error + commerce_generation_item \<times> commerce_db" where
  "insert_item i s =
     (if first_where (\<lambda>x. itm_user x = itm_user i \<and> itm_idempotency_key x = itm_idempotency_key i) (items s) \<noteq> None
      then Inl ErrInfrastructure
      else let i' = i\<lparr>itm_id := next_key itm_id (items s), itm_created_at := clock s, itm_updated_at := clock s,
             itm_scope := (if itm_scope i = [] then ''sku'' else itm_scope i)\<rparr>
           in Inr (i', s\<lparr>items := items s @ [i']\<rparr>))"

definition insert_job :: "commerce_job \<Rightarrow> commerce_db \<Rightarrow> commerce_error + commerce_db" where
  "insert_job j s =
     (if first_where (\<lambda>x. job_user x = job_user j \<and> job_idempotency_key x = job_idempotency_key j \<or>
           job_item x \<noteq> None \<and> job_item x = job_item j) (jobs s) \<noteq> None
      then Inl ErrInfrastructure
      else Inr (s\<lparr>jobs := jobs s @ [j\<lparr>job_id := next_key job_id (jobs s)\<rparr>]\<rparr>))"

section \<open>Reading batches\<close>

text \<open>The result of the last succeeded job of an item that has one, newest first.\<close>

definition item_result :: "uid \<Rightarrow> commerce_job list \<Rightarrow> string" where
  "item_result k js =
     (case find (\<lambda>j. job_item j = Some k \<and> job_result j \<noteq> []) (rev js) of None \<Rightarrow> [] | Some j \<Rightarrow> job_result j)"

definition load_batch_items :: "uid \<Rightarrow> uid \<Rightarrow> commerce_db \<Rightarrow> commerce_generation_item list" where
  "load_batch_items user batch s =
     (let succeeded = filter (\<lambda>j. job_user j = user \<and> job_status j = JobSucceeded) (jobs s)
      in map (\<lambda>i. i\<lparr>itm_output_snapshot := item_result (itm_id i) succeeded\<rparr>) (batch_items user batch s))"

definition get_batch :: "uid \<Rightarrow> uid \<Rightarrow> commerce_db \<Rightarrow> commerce_error + batch_snapshot" where
  "get_batch user batch s =
     (case first_where (\<lambda>b. bat_id b = batch \<and> bat_user b = user) (batches s) of
        None \<Rightarrow> Inl ErrNotFound
      | Some b \<Rightarrow> Inr \<lparr>br_batch = b, br_items = load_batch_items user batch s\<rparr>)"

definition list_batches :: "uid \<Rightarrow> uid \<Rightarrow> commerce_db \<Rightarrow> commerce_generation_batch list" where
  "list_batches user project s = rev (filter (\<lambda>b. bat_user b = user \<and> bat_project b = project) (batches s))"

section \<open>Estimating\<close>

definition pricing_entries_from_items :: "compiled_item list \<Rightarrow> string \<Rightarrow> pricing_entry list" where
  "pricing_entries_from_items its quality =
     map (\<lambda>i. \<lparr>pe_pipeline = cp_pipeline i, pe_recipe_key = cp_recipe_key i, pe_quality_tier = quality,
       pe_model = 0, pe_model_name = [], pe_channel = 0, pe_provider = 0, pe_runtime_model = [],
       pe_endpoint = [], pe_route_order = 0, pe_capabilities = [], pe_credits = cp_estimated i\<rparr>) its"

definition commerce_compiled_items_eta_seconds :: "compiled_item list \<Rightarrow> int" where
  "commerce_compiled_items_eta_seconds its =
     commerce_batch_eta_seconds (map (\<lambda>_. \<lparr>itm_id = 0, itm_user = 0, itm_project = 0, itm_batch = 0,
       itm_parent = None, itm_reservation = 0, itm_sku = 0, itm_scope = [], itm_slot_key = [],
       itm_candidate_index = 0, itm_pipeline = [], itm_recipe_key = [], itm_recipe_version = 0,
       itm_quality_tier = [], itm_pricing_version = [], itm_pricing_snapshot = [], itm_idempotency_key = [],
       itm_status = ItemQueued, itm_progress = 0, itm_input_snapshot = [], itm_output_spec = [],
       itm_output_snapshot = [], itm_estimated = 0, itm_reserved = 0, itm_settled = 0, itm_released = 0,
       itm_record = None, itm_work = None, itm_error_code = [], itm_error_message = [],
       itm_cancel_requested_at = None, itm_started_at = None, itm_finished_at = None,
       itm_created_at = 0, itm_updated_at = 0\<rparr>) its)"

definition estimate_snapshot ::
  "batch_service \<Rightarrow> uid \<Rightarrow> uid \<Rightarrow> recipe_definition \<Rightarrow> estimate_request \<Rightarrow> string \<Rightarrow> time \<Rightarrow> commerce_db \<Rightarrow>
     commerce_error + pricing_snapshot" where
  "estimate_snapshot svc user project d req digest now s =
     and_then (case bs_provider svc of
         None \<Rightarrow> Inr \<lparr>ps_id = [], ps_version = [], ps_request_digest = digest, ps_hash = [], ps_status = ''issued'',
           ps_user = user, ps_project = project, ps_entries = [], ps_created_at = now,
           ps_expires_at = now + 15 * minute\<rparr>
       | Some provide \<Rightarrow> provide user project d req s) (\<lambda>p.
     Inr (p\<lparr>ps_user := user, ps_project := project, ps_request_digest := digest, ps_status := ''issued'',
            ps_created_at := now, ps_expires_at := now + 15 * minute\<rparr>))"

definition priced_snapshot :: "pricing_snapshot \<Rightarrow> compiled_item list \<Rightarrow> string \<Rightarrow> pricing_snapshot" where
  "priced_snapshot p its quality =
     (let v = (if ps_version p = [] then cp_pricing_version (hd its) else ps_version p);
          v = (if v = [] then ''pricing-v1'' else v)
      in p\<lparr>ps_version := v,
           ps_entries := (if ps_entries p = [] then pricing_entries_from_items its quality else ps_entries p)\<rparr>)"

definition stamp_pricing :: "string \<Rightarrow> string \<Rightarrow> compiled_item \<Rightarrow> compiled_item" where
  "stamp_pricing snapshot_id version i =
     i\<lparr>cp_pricing_snapshot := snapshot_id,
       cp_pricing_version := (if cp_pricing_version i = [] then version else cp_pricing_version i)\<rparr>"

definition estimate_batch ::
  "batch_service \<Rightarrow> uid \<Rightarrow> uid \<Rightarrow> estimate_request \<Rightarrow> time \<Rightarrow> commerce_db \<Rightarrow>
     commerce_error + batch_estimate \<times> commerce_db" where
  "estimate_batch svc user project req now s =
     and_then (ensure_batch_infrastructure svc) (\<lambda>(registry, ledger, pricing).
     and_then (canonical_batch_request_digest (bs_codec svc) req) (\<lambda>(digest, _).
     and_then (batch_compile_input registry (bs_codec svc) user project req s) (\<lambda>(p, input, d).
     and_then (estimate_snapshot svc user project d req digest now s) (\<lambda>snapshot.
     and_then (registry_compile registry (input\<lparr>ci_pricing := snapshot\<rparr>)) (\<lambda>its.
     if its = [] then Inl (FieldError ''output_count'' ''compiled batch has no items'')
     else if list_ex (\<lambda>i. cp_estimated i \<le> 0) its
     then Inl (FieldError ''estimated_credits'' ''compiled item cost must be positive'')
     else and_then (issue_tx pricing (priced_snapshot snapshot its (er_quality_tier req)) s) (\<lambda>(issued, s').
     Inr (\<lparr>be_items = map (stamp_pricing (ps_id issued) (ps_version issued)) its,
            be_total_items = length its, be_estimated = sum_list (map cp_estimated its),
            be_eta_seconds = commerce_compiled_items_eta_seconds its,
            be_pricing_version = ps_version issued, be_pricing_snapshot = ps_id issued,
            be_pricing_expires_at = ps_expires_at issued, be_request_digest = digest\<rparr>, s')))))))"

section \<open>Submitting\<close>

definition replayed_batch ::
  "uid \<Rightarrow> uid \<Rightarrow> string \<Rightarrow> string \<Rightarrow> commerce_generation_batch \<Rightarrow> commerce_db \<Rightarrow> commerce_error + batch_snapshot" where
  "replayed_batch user project key digest b s =
     (if bat_project b \<noteq> project then Inl ErrIdempotencyConflict
      else and_then (validate_idempotency_replay (bat_idempotency_key b) (bat_request_digest b) key digest) (\<lambda>_.
      Inr \<lparr>br_batch = b, br_items = load_batch_items user (bat_id b) s\<rparr>))"

definition submitted_item ::
  "commerce_generation_batch \<Rightarrow> uid \<Rightarrow> string \<Rightarrow> string \<Rightarrow> string \<Rightarrow> nat \<Rightarrow> compiled_item \<Rightarrow> commerce_generation_item" where
  "submitted_item b reservation quality request_json output_json index compiled =
     \<lparr>itm_id = 0, itm_user = bat_user b, itm_project = bat_project b, itm_batch = bat_id b, itm_parent = None,
      itm_reservation = reservation, itm_sku = cp_sku compiled, itm_scope = cp_scope compiled,
      itm_slot_key = cp_slot_key compiled, itm_candidate_index = index, itm_pipeline = cp_pipeline compiled,
      itm_recipe_key = cp_recipe_key compiled, itm_recipe_version = cp_recipe_version compiled,
      itm_quality_tier = quality, itm_pricing_version = cp_pricing_version compiled,
      itm_pricing_snapshot = bat_pricing_snapshot b,
      itm_idempotency_key = bat_idempotency_key b @ '':item:'' @ show_nat index, itm_status = ItemQueued,
      itm_progress = 0, itm_input_snapshot = request_json, itm_output_spec = output_json,
      itm_output_snapshot = [], itm_estimated = cp_estimated compiled, itm_reserved = cp_estimated compiled,
      itm_settled = 0, itm_released = 0, itm_record = None, itm_work = None, itm_error_code = [],
      itm_error_message = [], itm_cancel_requested_at = None, itm_started_at = None, itm_finished_at = None,
      itm_created_at = 0, itm_updated_at = 0\<rparr>"

definition submitted_job :: "commerce_generation_item \<Rightarrow> string \<Rightarrow> int \<Rightarrow> commerce_job" where
  "submitted_job i key attempts = queued_job\<lparr>job_user := itm_user i, job_project := itm_project i,
     job_batch := Some (itm_batch i), job_item := Some (itm_id i), job_pipeline := itm_pipeline i,
     job_recipe_key := itm_recipe_key i, job_idempotency_key := key, job_max_attempts := attempts,
     job_payload := itm_output_spec i\<rparr>"

definition submit_item ::
  "batch_codec \<Rightarrow> commerce_generation_batch \<Rightarrow> uid \<Rightarrow> string \<Rightarrow> string \<Rightarrow> int \<Rightarrow> nat \<times> compiled_item \<Rightarrow>
     commerce_generation_item list \<times> commerce_db \<Rightarrow> commerce_error + commerce_generation_item list \<times> commerce_db" where
  "submit_item c b reservation quality request_json attempts = (\<lambda>(index, compiled) (created, s).
     and_then (encoded (bc_item c) compiled) (\<lambda>output_json.
     and_then (insert_item (submitted_item b reservation quality request_json output_json index compiled) s) (\<lambda>(i, s1).
     and_then (insert_job (submitted_job i (bat_idempotency_key b @ '':job:'' @ show_nat index) attempts) s1) (\<lambda>s2.
     Inr (created @ [i], s2)))))"

definition consume_snapshot :: "string \<Rightarrow> uid \<Rightarrow> uid \<Rightarrow> time \<Rightarrow> commerce_db \<Rightarrow> commerce_error + commerce_db" where
  "consume_snapshot k user project now s =
     (let hit = (\<lambda>r. cps_id r = k \<and> cps_user r = user \<and> cps_project r = project \<and>
            cps_status r = ''issued'' \<and> cps_expires_at r > now)
      in if count_where hit (pricing_snapshots s) \<noteq> 1 then Inl ErrPricingSnapshotStale
         else Inr (s\<lparr>pricing_snapshots := update_where hit
           (\<lambda>r. r\<lparr>cps_status := ''consumed'', cps_consumed_at := Some now\<rparr>) (pricing_snapshots s)\<rparr>))"

definition reservation_of_batch :: "commerce_generation_batch \<Rightarrow> int \<Rightarrow> string \<Rightarrow> reserve_request" where
  "reservation_of_batch b amount key =
     \<lparr>rr_user = bat_user b, rr_project = bat_project b, rr_batch = Some (bat_id b), rr_scope_type = ''batch'',
      rr_scope_key = show_nat (bat_id b), rr_amount = amount, rr_idempotency_key = key\<rparr>"

definition set_batch_reservation :: "uid \<Rightarrow> uid \<Rightarrow> uid \<Rightarrow> commerce_db \<Rightarrow> commerce_db" where
  "set_batch_reservation k user reservation s =
     update_batches (\<lambda>b. bat_id b = k \<and> bat_user b = user) (\<lambda>b. b\<lparr>bat_reservation := Some reservation\<rparr>) s"

definition claimed_batch :: "uid \<Rightarrow> uid \<Rightarrow> string \<Rightarrow> estimate_request \<Rightarrow> string \<Rightarrow> string \<Rightarrow> commerce_generation_batch" where
  "claimed_batch user project key req digest request_json =
     empty_batch\<lparr>bat_user := user, bat_project := project, bat_creative_spec := Some (er_creative_spec req),
       bat_primary_sku := er_primary_sku req, bat_recipe_key := er_recipe_key req,
       bat_recipe_version := er_recipe_version req, bat_quality_tier := er_quality_tier req,
       bat_status := BatchQueued, bat_idempotency_key := key, bat_request_digest := digest,
       bat_request_snapshot := request_json\<rparr>"

definition priced_batch ::
  "commerce_generation_batch \<Rightarrow> commerce_project \<Rightarrow> pricing_snapshot \<Rightarrow> string \<Rightarrow> compiled_item list \<Rightarrow>
     commerce_generation_batch" where
  "priced_batch b p snapshot pricing_json its =
     b\<lparr>bat_pipeline := prj_pipeline p, bat_pricing_version := ps_version snapshot,
       bat_pricing_snapshot := ps_id snapshot, bat_total_items := int (length its),
       bat_queued_items := int (length its), bat_estimated := sum_list (map cp_estimated its),
       bat_reserved := sum_list (map cp_estimated its), bat_pricing_json := pricing_json\<rparr>"

text \<open>From the claimed batch row on: compile, reserve, insert the items and jobs, consume the snapshot.\<close>

definition submit_claimed ::
  "registry \<Rightarrow> credit_ledger_ops \<Rightarrow> pricing_codec \<Rightarrow> batch_codec \<Rightarrow> uid \<Rightarrow> uid \<Rightarrow> estimate_request \<Rightarrow> string \<Rightarrow>
     string \<Rightarrow> string \<Rightarrow> time \<Rightarrow> time \<Rightarrow> commerce_generation_batch \<Rightarrow> commerce_db \<Rightarrow>
     commerce_error + batch_snapshot \<times> commerce_db" where
  "submit_claimed registry ledger pricing c user project req snapshot_id digest request_json t1 t2 b s =
     and_then (resolve_for_submit_tx pricing user project snapshot_id digest t1 s) (\<lambda>snapshot.
     and_then (batch_compile_input registry c user project req s) (\<lambda>(p, input, d).
     and_then (registry_compile registry (input\<lparr>ci_pricing := snapshot\<rparr>)) (\<lambda>compiled.
     if list_ex (\<lambda>i. cp_estimated i \<le> 0) compiled
     then Inl (FieldError ''estimated_credits'' ''compiled item cost must be positive'')
     else
       let its = map (stamp_pricing (ps_id snapshot) (ps_version snapshot)) compiled;
           amount = sum_list (map cp_estimated its)
       in and_then (encoded (bc_snapshot c) snapshot) (\<lambda>pricing_json.
       let b1 = priced_batch b p snapshot pricing_json its;
           s1 = save_batch b1 s
       in and_then (op_reserve ledger (reservation_of_batch b1 amount (''commerce:batch:'' @ bat_idempotency_key b)) s1)
         (\<lambda>(r, s2).
         let s3 = set_batch_reservation (bat_id b) user (rs_reservation r) s2
         in and_then (fold_result
              (submit_item c b1 (rs_reservation r) (er_quality_tier req) request_json (rd_max_attempts d))
              (enumerate 0 its) ([], s3)) (\<lambda>(created, s4).
            and_then (consume_snapshot (ps_id snapshot) user project t2 s4) (\<lambda>s5.
            let s6 = refresh_batch_counters user (bat_id b) t2 s5
            in case first_where (\<lambda>x. bat_id x = bat_id b \<and> bat_user x = user) (batches s6) of
                 None \<Rightarrow> Inl ErrRecordNotFound
               | Some b' \<Rightarrow> Inr (\<lparr>br_batch = b', br_items = created\<rparr>, s6))))))))"

definition submit_batch_tx ::
  "registry \<Rightarrow> credit_ledger_ops \<Rightarrow> pricing_codec \<Rightarrow> batch_codec \<Rightarrow> uid \<Rightarrow> uid \<Rightarrow> string \<Rightarrow> estimate_request \<Rightarrow> string \<Rightarrow>
     string \<Rightarrow> string \<Rightarrow> time \<Rightarrow> time \<Rightarrow> commerce_db \<Rightarrow> commerce_error + batch_snapshot \<times> commerce_db" where
  "submit_batch_tx registry ledger pricing c user project key req snapshot_id digest request_json t1 t2 s =
     (let mine = (\<lambda>b. bat_user b = user \<and> bat_idempotency_key b = key) in
      case first_where mine (batches s) of
        Some b \<Rightarrow>
          and_then (replayed_batch user project key digest b s) (\<lambda>result.
          and_then (lock_writable_project_tx user (bat_project b) s) (\<lambda>_. Inr (result, s)))
      | None \<Rightarrow>
          and_then (lock_writable_project_tx user project s) (\<lambda>_.
          case claim_batch_row (claimed_batch user project key req digest request_json) s of
            None \<Rightarrow>
              (case first_where mine (batches s) of
                 None \<Rightarrow> Inl ErrRecordNotFound
               | Some b \<Rightarrow> and_then (replayed_batch user project key digest b s) (\<lambda>result. Inr (result, s)))
          | Some (b, s1) \<Rightarrow>
              submit_claimed registry ledger pricing c user project req snapshot_id digest request_json t1 t2 b s1))"

definition submit_batch ::
  "batch_service \<Rightarrow> bool \<Rightarrow> bool list \<Rightarrow> uid \<Rightarrow> uid \<Rightarrow> string \<Rightarrow> estimate_request \<Rightarrow> string \<Rightarrow> time \<Rightarrow> time \<Rightarrow>
     commerce_db \<Rightarrow> (commerce_error + batch_snapshot) \<times> commerce_db" where
  "submit_batch svc sqlite locks user project raw_key req snapshot_id t1 t2 s =
     (case ensure_batch_infrastructure svc of
        Inl e \<Rightarrow> (Inl e, s)
      | Inr (registry, ledger, pricing) \<Rightarrow>
          let key = trim_space raw_key in
          if key = [] then (Inl (FieldError ''idempotency_key'' ''idempotency key is required''), s)
          else case canonical_batch_request_digest (bs_codec svc) req of
            Inl e \<Rightarrow> (Inl e, s)
          | Inr (digest, request_json) \<Rightarrow>
              project_mutation sqlite sqlite_lock_attempts locks
                (submit_batch_tx registry ledger pricing (bs_codec svc) user project key req snapshot_id
                   digest request_json t1 t2) s)"

section \<open>Canceling\<close>

definition user_cancel :: "commerce_generation_item \<Rightarrow> release_request" where
  "user_cancel i = release_request_of i ''user_canceled'' ''cancel''"

definition request_item_cancel :: "uid \<Rightarrow> uid \<Rightarrow> time \<Rightarrow> commerce_db \<Rightarrow> commerce_db" where
  "request_item_cancel k user now s =
     update_items (\<lambda>x. itm_id x = k \<and> itm_user x = user \<and> itm_status x = ItemRunning \<and>
         itm_cancel_requested_at x = None) (\<lambda>x. x\<lparr>itm_cancel_requested_at := Some now\<rparr>) s"

definition cancel_running_item_tx ::
  "uid \<Rightarrow> commerce_generation_item \<Rightarrow> time \<Rightarrow> commerce_db \<Rightarrow> commerce_error + commerce_generation_item \<times> commerce_db" where
  "cancel_running_item_tx user item now s =
     (let k = itm_id item;
          hit = (\<lambda>x. itm_id x = k \<and> itm_user x = user \<and> itm_status x = ItemRunning \<and> itm_cancel_requested_at x = None);
          s1 = request_item_cancel k user now s
      in if count_where hit (items s) \<noteq> 1
         then case first_where (\<lambda>x. itm_id x = k \<and> itm_user x = user) (items s1) of
             None \<Rightarrow> Inl ErrNotFound | Some x \<Rightarrow> Inr (x, s1)
         else Inr (item\<lparr>itm_cancel_requested_at := Some now\<rparr>,
           update_jobs (\<lambda>j. job_item j = Some k \<and> job_user j = user \<and> job_status j = JobRunning \<and>
               job_cancel_requested_at j = None) (\<lambda>j. j\<lparr>job_cancel_requested_at := Some now\<rparr>) s1))"

definition cancel_waiting_item_tx ::
  "credit_ledger_ops \<Rightarrow> uid \<Rightarrow> commerce_generation_item \<Rightarrow> time \<Rightarrow> commerce_db \<Rightarrow>
     commerce_error + commerce_generation_item \<times> commerce_db" where
  "cancel_waiting_item_tx ledger user item now s =
     (let k = itm_id item;
          hit = (\<lambda>x. itm_id x = k \<and> itm_user x = user \<and> item_waiting (itm_status x));
          s1 = update_items hit (\<lambda>x. x\<lparr>itm_status := ItemCanceled, itm_progress := 100, itm_finished_at := Some now\<rparr>) s
      in if count_where hit (items s) \<noteq> 1
         then case first_where (\<lambda>x. itm_id x = k \<and> itm_user x = user) (items s1) of
             None \<Rightarrow> Inl ErrNotFound | Some x \<Rightarrow> Inr (x, s1)
         else and_then (op_release ledger (user_cancel item) s1) (\<lambda>s2.
           let s3 = update_jobs (\<lambda>j. job_item j = Some k \<and> job_user j = user \<and> job_waiting (job_status j))
                 (\<lambda>j. j\<lparr>job_status := JobCanceled, job_finished_at := Some now\<rparr>) s2
           in Inr (item\<lparr>itm_status := ItemCanceled, itm_finished_at := Some now\<rparr>,
                refresh_batch_counters user (itm_batch item) now s3)))"

definition cancel_item_tx ::
  "credit_ledger_ops \<Rightarrow> uid \<Rightarrow> uid \<Rightarrow> time \<Rightarrow> commerce_db \<Rightarrow> commerce_error + commerce_generation_item \<times> commerce_db" where
  "cancel_item_tx ledger user k now s =
     (case first_where (\<lambda>x. itm_id x = k \<and> itm_user x = user) (items s) of
        None \<Rightarrow> Inl ErrNotFound
      | Some item \<Rightarrow>
          if itm_status item = ItemSucceeded \<or> itm_status item = ItemFailed \<or> itm_status item = ItemCanceled
          then Inr (item, s)
          else if itm_status item = ItemRunning then cancel_running_item_tx user item now s
          else cancel_waiting_item_tx ledger user item now s)"

definition cancel_item ::
  "batch_service \<Rightarrow> uid \<Rightarrow> uid \<Rightarrow> time \<Rightarrow> commerce_db \<Rightarrow> (commerce_error + commerce_generation_item) \<times> commerce_db" where
  "cancel_item svc user k now s =
     (case ensure_batch_infrastructure svc of
        Inl e \<Rightarrow> (Inl e, s)
      | Inr (registry, ledger, pricing) \<Rightarrow> run_tx (cancel_item_tx ledger user k now) s)"

text \<open>Canceling a batch: first its items, then its jobs, both as they were read.\<close>

definition cancel_batch_item ::
  "credit_ledger_ops \<Rightarrow> uid \<Rightarrow> time \<Rightarrow> commerce_job list \<Rightarrow> commerce_generation_item \<Rightarrow> commerce_db \<Rightarrow>
     commerce_error + commerce_db" where
  "cancel_batch_item ledger user now js item s =
     (if item_waiting (itm_status item)
      then and_then (op_release ledger (user_cancel item) s) (\<lambda>s1.
        let hit = (\<lambda>x. itm_id x = itm_id item \<and> itm_user x = user \<and> item_waiting (itm_status x));
            s2 = update_items hit (\<lambda>x. x\<lparr>itm_status := ItemCanceled, itm_progress := 100,
                  itm_cancel_requested_at := Some now, itm_finished_at := Some now\<rparr>) s1
        in if count_where hit (items s1) \<noteq> 1 then Inl ErrInvalidItemTransition
           else Inr (case find (\<lambda>j. job_item j = Some (itm_id item)) (rev js) of
                None \<Rightarrow> s2
              | Some j \<Rightarrow> emit_commerce_event j ''item_released''
                  [(''item_id'', MetaInt (int (itm_id item))), (''reason'', MetaText ''user_canceled'')] s2))
      else if itm_status item = ItemRunning then Inr (request_item_cancel (itm_id item) user now s)
      else Inr s)"

definition cancel_batch_job :: "uid \<Rightarrow> time \<Rightarrow> commerce_job \<Rightarrow> commerce_db \<Rightarrow> commerce_error + commerce_db" where
  "cancel_batch_job user now job s =
     (if job_waiting (job_status job)
      then let hit = (\<lambda>j. job_id j = job_id job \<and> job_user j = user \<and> job_waiting (job_status j))
           in if count_where hit (jobs s) \<noteq> 1 then Inl ErrInvalidItemTransition
              else Inr (update_jobs hit (\<lambda>j. j\<lparr>job_status := JobCanceled, job_cancel_requested_at := Some now,
                     job_finished_at := Some now\<rparr>) s)
      else if job_status job = JobRunning
      then Inr (update_jobs (\<lambda>j. job_id j = job_id job \<and> job_user j = user \<and> job_status j = JobRunning \<and>
               job_cancel_requested_at j = None) (\<lambda>j. j\<lparr>job_cancel_requested_at := Some now\<rparr>) s)
      else Inr s)"

definition item_open :: "item_status \<Rightarrow> bool" where
  "item_open st \<longleftrightarrow> item_waiting st \<or> st = ItemRunning"

definition cancel_batch_tx ::
  "credit_ledger_ops \<Rightarrow> uid \<Rightarrow> uid \<Rightarrow> uid \<Rightarrow> time \<Rightarrow> commerce_db \<Rightarrow> commerce_error + batch_snapshot \<times> commerce_db" where
  "cancel_batch_tx ledger user batch project now s =
     and_then (lock_project_row_tx user project s) (\<lambda>_.
     case first_where (\<lambda>b. bat_id b = batch \<and> bat_user b = user \<and> bat_project b = project) (batches s) of
       None \<Rightarrow> Inl ErrNotFound
     | Some _ \<Rightarrow>
         let js = filter (\<lambda>j. job_user j = user \<and> job_batch j = Some batch \<and> job_open (job_status j)) (jobs s);
             its = filter (\<lambda>i. itm_user i = user \<and> itm_batch i = batch \<and> item_open (itm_status i)) (items s)
         in and_then (fold_result (cancel_batch_item ledger user now js) its s) (\<lambda>s1.
            and_then (fold_result (cancel_batch_job user now) js s1) (\<lambda>s2.
            let s3 = update_batches (\<lambda>b. bat_id b = batch \<and> bat_user b = user)
                  (\<lambda>b. b\<lparr>bat_cancel_requested_at := Some now\<rparr>) s2;
                s4 = refresh_batch_counters user batch now s3
            in case first_where (\<lambda>b. bat_id b = batch \<and> bat_user b = user) (batches s4) of
                 None \<Rightarrow> Inl ErrRecordNotFound
               | Some b \<Rightarrow> Inr (\<lparr>br_batch = b, br_items = load_batch_items user batch s4\<rparr>, s4))))"

definition cancel_batch ::
  "batch_service \<Rightarrow> bool \<Rightarrow> bool list \<Rightarrow> uid \<Rightarrow> uid \<Rightarrow> time \<Rightarrow> commerce_db \<Rightarrow> (commerce_error + batch_snapshot) \<times> commerce_db" where
  "cancel_batch svc sqlite locks user batch now s =
     (case ensure_batch_infrastructure svc of
        Inl e \<Rightarrow> (Inl e, s)
      | Inr (registry, ledger, pricing) \<Rightarrow>
          (case first_where (\<lambda>b. bat_id b = batch \<and> bat_user b = user) (batches s) of
             None \<Rightarrow> (Inl ErrNotFound, s)
           | Some b \<Rightarrow> project_mutation sqlite sqlite_lock_attempts locks
               (cancel_batch_tx ledger user batch (bat_project b) now) s))"

section \<open>Retrying an item\<close>

definition retried_batch ::
  "commerce_generation_batch \<Rightarrow> commerce_generation_item \<Rightarrow> uid \<Rightarrow> string \<Rightarrow> string \<Rightarrow> commerce_generation_batch" where
  "retried_batch parent item k key digest =
     parent\<lparr>bat_id := k, bat_parent := Some (bat_id parent), bat_reservation := None, bat_idempotency_key := key,
       bat_request_digest := digest, bat_total_items := 1, bat_queued_items := 1, bat_running_items := 0,
       bat_retrying_items := 0, bat_succeeded_items := 0, bat_failed_items := 0, bat_canceled_items := 0,
       bat_estimated := itm_estimated item, bat_reserved := itm_estimated item, bat_settled := 0,
       bat_released := 0, bat_status := BatchQueued, bat_started_at := None, bat_finished_at := None,
       bat_cancel_requested_at := None\<rparr>"

definition retried_item :: "commerce_generation_item \<Rightarrow> uid \<Rightarrow> uid \<Rightarrow> string \<Rightarrow> commerce_generation_item" where
  "retried_item parent batch reservation key =
     parent\<lparr>itm_id := 0, itm_parent := Some (itm_id parent), itm_batch := batch, itm_reservation := reservation,
       itm_idempotency_key := key @ '':item:0'', itm_status := ItemQueued, itm_progress := 0, itm_settled := 0,
       itm_released := 0, itm_record := None, itm_work := None, itm_error_code := [], itm_error_message := [],
       itm_cancel_requested_at := None, itm_started_at := None, itm_finished_at := None, itm_created_at := 0,
       itm_updated_at := 0\<rparr>"

definition retry_claimed ::
  "credit_ledger_ops \<Rightarrow> uid \<Rightarrow> commerce_generation_item \<Rightarrow> string \<Rightarrow> string \<Rightarrow> time \<Rightarrow> uid \<Rightarrow> commerce_db \<Rightarrow>
     commerce_error + batch_snapshot \<times> commerce_db" where
  "retry_claimed ledger user parent key digest now k s =
     (case first_where (\<lambda>j. job_item j = Some (itm_id parent) \<and> job_user j = user) (jobs s) of
        None \<Rightarrow> Inl ErrNotFound
      | Some parent_job \<Rightarrow>
          (case first_where (\<lambda>b. bat_id b = itm_batch parent \<and> bat_user b = user) (batches s) of
             None \<Rightarrow> Inl ErrNotFound
           | Some parent_batch \<Rightarrow>
               let b = retried_batch parent_batch parent k key digest;
                   s1 = save_batch b s;
                   request = \<lparr>rr_user = itm_user parent, rr_project = itm_project parent, rr_batch = Some k,
                     rr_scope_type = ''batch'', rr_scope_key = show_nat k, rr_amount = itm_reserved parent,
                     rr_idempotency_key = ''commerce:retry:'' @ key\<rparr>
               in and_then (op_reserve ledger request s1) (\<lambda>(r, s2).
                  let s3 = set_batch_reservation k user (rs_reservation r) s2
                  in and_then (insert_item (retried_item parent k (rs_reservation r) key) s3) (\<lambda>(i, s4).
                     and_then (insert_job ((submitted_job i (key @ '':job:0'') (job_max_attempts parent_job))\<lparr>job_user := user\<rparr>) s4)
                       (\<lambda>s5.
                     let s6 = refresh_batch_counters user k now s5
                     in case first_where (\<lambda>x. bat_id x = k \<and> bat_user x = user) (batches s6) of
                          None \<Rightarrow> Inl ErrRecordNotFound
                        | Some b' \<Rightarrow> Inr (\<lparr>br_batch = b', br_items = [i]\<rparr>, s6))))))"

definition retry_item_tx ::
  "credit_ledger_ops \<Rightarrow> uid \<Rightarrow> uid \<Rightarrow> string \<Rightarrow> time \<Rightarrow> commerce_db \<Rightarrow> commerce_error + batch_snapshot \<times> commerce_db" where
  "retry_item_tx ledger user k key now s =
     (let digest = ''retry:'' @ show_nat k in
      case first_where (\<lambda>x. itm_id x = k \<and> itm_user x = user) (items s) of
        None \<Rightarrow> Inl ErrNotFound
      | Some parent \<Rightarrow>
          if itm_status parent \<noteq> ItemFailed \<and> itm_status parent \<noteq> ItemCanceled then Inl ErrInvalidItemTransition
          else and_then (lock_writable_project_tx user (itm_project parent) s) (\<lambda>_.
            case claim_batch_row (empty_batch\<lparr>bat_user := user, bat_status := BatchQueued,
                bat_idempotency_key := key, bat_request_digest := digest\<rparr>) s of
              None \<Rightarrow>
                (case first_where (\<lambda>b. bat_user b = user \<and> bat_idempotency_key b = key) (batches s) of
                   None \<Rightarrow> Inl ErrRecordNotFound
                 | Some b \<Rightarrow>
                     and_then (validate_idempotency_replay (bat_idempotency_key b) (bat_request_digest b) key digest) (\<lambda>_.
                     Inr (\<lparr>br_batch = b, br_items = load_batch_items user (bat_id b) s\<rparr>, s)))
            | Some (placed, s1) \<Rightarrow> retry_claimed ledger user parent key digest now (bat_id placed) s1))"

definition retry_generation_item ::
  "batch_service \<Rightarrow> bool \<Rightarrow> bool list \<Rightarrow> uid \<Rightarrow> uid \<Rightarrow> string \<Rightarrow> time \<Rightarrow> commerce_db \<Rightarrow>
     (commerce_error + batch_snapshot) \<times> commerce_db" where
  "retry_generation_item svc sqlite locks user k raw_key now s =
     (case ensure_batch_infrastructure svc of
        Inl e \<Rightarrow> (Inl e, s)
      | Inr (registry, ledger, pricing) \<Rightarrow>
          let key = trim_space raw_key in
          if key = [] then (Inl (FieldError ''idempotency_key'' ''idempotency key is required''), s)
          else project_mutation sqlite sqlite_lock_attempts locks (retry_item_tx ledger user k key now) s)"

section \<open>Finishing an item under a lease\<close>

definition load_leased_item ::
  "lease_identity \<Rightarrow> uid \<Rightarrow> commerce_db \<Rightarrow> commerce_error + commerce_generation_item \<times> commerce_job" where
  "load_leased_item lease k s =
     (case first_where (\<lambda>x. itm_id x = k) (items s) of
        None \<Rightarrow> Inl ErrNotFound
      | Some item \<Rightarrow>
          (case first_where (\<lambda>j. job_id j = ls_job lease \<and> job_item j = Some k) (jobs s) of
             None \<Rightarrow> Inl ErrLeaseMismatch
           | Some job \<Rightarrow>
               if job_lease_owner job \<noteq> ls_owner lease \<or> job_lease_token job \<noteq> ls_token lease \<or>
                  blank (ls_owner lease) \<or> blank (ls_token lease)
               then Inl ErrLeaseMismatch else Inr (item, job)))"

definition leased_by :: "lease_identity \<Rightarrow> commerce_job \<Rightarrow> uid \<Rightarrow> commerce_job \<Rightarrow> bool" where
  "leased_by lease job user j \<longleftrightarrow> job_id j = job_id job \<and> job_user j = user \<and> job_lease_owner j = ls_owner lease \<and>
     job_lease_token j = ls_token lease \<and> job_status j = JobRunning"

definition update_leased_job ::
  "(commerce_job \<Rightarrow> bool) \<Rightarrow> (commerce_job \<Rightarrow> commerce_job) \<Rightarrow> commerce_error \<Rightarrow> commerce_db \<Rightarrow> commerce_error + commerce_db" where
  "update_leased_job hit f e s = (if count_where hit (jobs s) \<noteq> 1 then Inl e else Inr (update_jobs hit f s))"

definition cancel_leased_running_item_tx ::
  "credit_ledger_ops \<Rightarrow> lease_identity \<Rightarrow> commerce_generation_item \<Rightarrow> commerce_job \<Rightarrow> string \<Rightarrow> time \<Rightarrow> commerce_db \<Rightarrow>
     commerce_error + commerce_db" where
  "cancel_leased_running_item_tx ledger lease item job reason now s =
     and_then (op_release ledger (release_request_of item reason ''cancel'') s) (\<lambda>s1.
     let s2 = update_items (\<lambda>x. itm_id x = itm_id item \<and> itm_user x = itm_user item)
           (\<lambda>x. x\<lparr>itm_status := ItemCanceled, itm_progress := 100, itm_finished_at := Some now\<rparr>) s1
     in and_then (update_leased_job (leased_by lease job (itm_user item))
          (\<lambda>j. j\<lparr>job_status := JobCanceled, job_finished_at := Some now\<rparr>) ErrLeaseMismatch s2) (\<lambda>s3.
        Inr (refresh_batch_counters (itm_user item) (itm_batch item) now s3)))"

definition resolve_lost_worker_transition ::
  "credit_ledger_ops \<Rightarrow> lease_identity \<Rightarrow> uid \<Rightarrow> item_status \<Rightarrow> string \<Rightarrow> time \<Rightarrow> commerce_db \<Rightarrow>
     commerce_error + commerce_db" where
  "resolve_lost_worker_transition ledger lease k target reason now s =
     and_then (load_leased_item lease k s) (\<lambda>(item, job).
     if itm_status item = target \<or> itm_status item = ItemCanceled then Inr s
     else if itm_status item = ItemRunning \<and> (itm_cancel_requested_at item \<noteq> None \<or> job_cancel_requested_at job \<noteq> None)
     then cancel_leased_running_item_tx ledger lease item job reason now s
     else Inl ErrInvalidItemTransition)"

text \<open>
  The conditional update of a running item, the ledger call \<open>pay\<close> when it hits, the update of
  the job; when it misses, the transition was lost to somebody else.
\<close>

definition finish_leased_item ::
  "credit_ledger_ops \<Rightarrow> lease_identity \<Rightarrow> commerce_generation_item \<Rightarrow> commerce_job \<Rightarrow>
     (commerce_generation_item \<Rightarrow> commerce_generation_item) \<Rightarrow> (commerce_db \<Rightarrow> commerce_error + commerce_db) \<Rightarrow>
     (commerce_job \<Rightarrow> commerce_job) \<Rightarrow> item_status \<Rightarrow> string \<Rightarrow> time \<Rightarrow> commerce_db \<Rightarrow> commerce_error + commerce_db" where
  "finish_leased_item ledger lease item job f pay g target reason now s =
     (let hit = (\<lambda>x. itm_id x = itm_id item \<and> itm_user x = itm_user item \<and> itm_status x = ItemRunning \<and>
            itm_cancel_requested_at x = None);
          s1 = update_items hit f s
      in if count_where hit (items s) \<noteq> 1
         then resolve_lost_worker_transition ledger lease (itm_id item) target reason now s1
         else and_then (pay s1) (\<lambda>s2.
           and_then (update_leased_job (\<lambda>j. leased_by lease job (itm_user item) j \<and> job_cancel_requested_at j = None)
             g ErrInvalidItemTransition s2) (\<lambda>s3.
           Inr (refresh_batch_counters (itm_user item) (itm_batch item) now s3))))"

definition complete_generation_item_tx ::
  "credit_ledger_ops \<Rightarrow> lease_identity \<Rightarrow> uid \<Rightarrow> execution_result \<Rightarrow> time \<Rightarrow> commerce_db \<Rightarrow> commerce_error + commerce_db" where
  "complete_generation_item_tx ledger lease k result now s =
     and_then (load_leased_item lease k s) (\<lambda>(item, job).
     if itm_status item = ItemSucceeded then Inr s
     else if itm_status item \<noteq> ItemRunning \<or> job_status job \<noteq> JobRunning then Inl ErrInvalidItemTransition
     else if itm_cancel_requested_at item \<noteq> None \<or> job_cancel_requested_at job \<noteq> None
     then cancel_leased_running_item_tx ledger lease item job ''late_result_discarded'' now s
     else finish_leased_item ledger lease item job
       (\<lambda>x. x\<lparr>itm_status := ItemSucceeded, itm_progress := 100, itm_finished_at := Some now, itm_error_code := [],
          itm_error_message := [],
          itm_record := (if er_record result \<noteq> 0 then Some (er_record result) else itm_record x),
          itm_work := (if er_work result \<noteq> 0 then Some (er_work result) else itm_work x)\<rparr>)
       (op_settle ledger (settle_request_of item (er_actual_credits result)))
       (\<lambda>j. j\<lparr>job_status := JobSucceeded, job_finished_at := Some now, job_result := er_metadata result\<rparr>)
       ItemSucceeded ''late_result_discarded'' now s)"

definition fail_generation_item_tx ::
  "credit_ledger_ops \<Rightarrow> lease_identity \<Rightarrow> uid \<Rightarrow> execution_failure \<Rightarrow> time \<Rightarrow> commerce_db \<Rightarrow> commerce_error + commerce_db" where
  "fail_generation_item_tx ledger lease k failure now s =
     and_then (load_leased_item lease k s) (\<lambda>(item, job).
     if itm_status item = ItemFailed \<or> itm_status item = ItemCanceled then Inr s
     else if itm_status item \<noteq> ItemRunning \<or> job_status job \<noteq> JobRunning then Inl ErrInvalidItemTransition
     else if itm_cancel_requested_at item \<noteq> None \<or> job_cancel_requested_at job \<noteq> None
     then cancel_leased_running_item_tx ledger lease item job ''worker_canceled'' now s
     else if ef_retryable failure \<and> job_attempt_count job < job_max_attempts job
     then finish_leased_item ledger lease item job
       (\<lambda>x. x\<lparr>itm_status := ItemRetrying, itm_error_code := ef_code failure, itm_error_message := ef_message failure\<rparr>)
       Inr
       (\<lambda>j. j\<lparr>job_status := JobRetrying, job_error_code := ef_code failure, job_error_message := ef_message failure\<rparr>)
       ItemRetrying ''worker_canceled'' now s
     else finish_leased_item ledger lease item job
       (\<lambda>x. x\<lparr>itm_status := ItemFailed, itm_progress := 100, itm_finished_at := Some now,
          itm_error_code := ef_code failure, itm_error_message := ef_message failure\<rparr>)
       (op_release ledger (release_request_of item ''generation_failed'' ''release''))
       (\<lambda>j. j\<lparr>job_status := JobFailed, job_finished_at := Some now, job_error_code := ef_code failure,
          job_error_message := ef_message failure\<rparr>)
       ItemFailed ''worker_canceled'' now s)"

definition complete_generation_item ::
  "batch_service \<Rightarrow> lease_identity \<Rightarrow> uid \<Rightarrow> execution_result \<Rightarrow> time \<Rightarrow> commerce_db \<Rightarrow> (commerce_error + unit) \<times> commerce_db" where
  "complete_generation_item svc lease k result now s =
     (case ensure_batch_infrastructure svc of
        Inl e \<Rightarrow> (Inl e, s)
      | Inr (registry, ledger, pricing) \<Rightarrow>
          run_tx (\<lambda>s. and_then (complete_generation_item_tx ledger lease k result now s) (\<lambda>s'. Inr ((), s'))) s)"

definition fail_generation_item ::
  "batch_service \<Rightarrow> lease_identity \<Rightarrow> uid \<Rightarrow> execution_failure \<Rightarrow> time \<Rightarrow> commerce_db \<Rightarrow> (commerce_error + unit) \<times> commerce_db" where
  "fail_generation_item svc lease k failure now s =
     (case ensure_batch_infrastructure svc of
        Inl e \<Rightarrow> (Inl e, s)
      | Inr (registry, ledger, pricing) \<Rightarrow>
          run_tx (\<lambda>s. and_then (fail_generation_item_tx ledger lease k failure now s) (\<lambda>s'. Inr ((), s'))) s)"

end
