(* ===== verification/BatchSafety.thy ===== *)
theory BatchSafety
  imports Batches WorkerAdapter
begin

text \<open>
  The batch operations keep the invariant of the queue: canceling changes many rows at once, so
  jobs and item views are mapped; submitting and retrying add rows and the hold that covers them.
\<close>

section \<open>Loops over what was read before\<close>

text \<open>An invariant that knows which elements are past.\<close>

lemma fold_result_prefix:
  assumes "fold_result f xs s = Inr s'" and "I [] s"
    and "\<And>past x rest s s'. xs = past @ x # rest \<Longrightarrow> I past s \<Longrightarrow> f x s = Inr s' \<Longrightarrow> I (past @ [x]) s'"
  shows "I xs s'"
proof -
  have "fold_result f rest s = Inr s' \<Longrightarrow> I past s \<Longrightarrow> xs = past @ rest \<Longrightarrow> I xs s'" for past rest s
  proof (induction rest arbitrary: past s)
    case (Cons x rest)
    then obtain s1 where "f x s = Inr s1" "fold_result f rest s1 = Inr s'" by (auto simp: and_then_eq_Inr)
    with Cons assms(3) [of "past" x rest s s1] show ?case by auto
  qed simp
  from this [of xs s "[]"] assms(1,2) show ?thesis by simp
qed

section \<open>Rows changed in place\<close>

lemma view_items_update:
  assumes "\<And>y. P y = Q (view_item y)" and "\<And>y. view_item (f y) = F (view_item y)"
  shows "view_items (update_items P f s) = map (\<lambda>v. if Q v then F v else v) (view_items s)"
  using assms by (simp add: view_items_def update_items_def update_where_def comp_def if_distrib cong: if_cong)

lemma count_items_view:
  assumes "\<And>y. P y = Q (view_item y)"
  shows "count_where P (items s) = count_where Q (view_items s)"
proof -
  have "P = (\<lambda>y. Q (view_item y))" using assms by blast
  then show ?thesis by (simp add: count_where_def view_items_def filter_map comp_def)
qed

lemma update_batches_other:
  "jobs (update_batches P f s) = jobs s" "items (update_batches P f s) = items s"
  "view_items (update_batches P f s) = view_items s" "same_ledger s' (update_batches P f s) = same_ledger s' s"
  "(\<And>b. P b \<Longrightarrow> bat_id (f b) = bat_id b \<and> bat_user (f b) = bat_user b \<and> bat_idempotency_key (f b) = bat_idempotency_key b) \<Longrightarrow>
     work_frame s (update_batches P f s) \<and> batch_keys (update_batches P f s) = batch_keys s"
  by (simp_all add: update_batches_def same_ledger_def work_frame_def view_items_def batch_keys_def map_update_where)

lemma coupled_map:
  assumes c: "coupled_rows js vs bs"
    and f: "\<And>j. j \<in> set js \<Longrightarrow> same_job j (f j) \<and> job_row_ok (f j)"
    and g: "\<And>v. v \<in> set vs \<Longrightarrow> same_item v (g v)"
    and fg: "\<And>j v. j \<in> set js \<Longrightarrow> v \<in> set vs \<Longrightarrow> job_item j = Some (iv_id v) \<Longrightarrow> couple j v \<Longrightarrow> couple (f j) (g v)"
  shows "coupled_rows (map f js) (map g vs) bs"
proof -
  have ids: "map job_id (map f js) = map job_id js" "map iv_id (map g vs) = map iv_id vs"
    using f g by (auto simp: same_job_def same_item_def)
  have "\<exists>v \<in> set (map g vs). iv_id v = i \<and> couple (f j) v" if j: "j \<in> set js" "job_item (f j) = Some i" for j i
  proof -
    have i: "job_item j = Some i" using j f by (simp add: same_job_def)
    then obtain v where v: "v \<in> set vs" "iv_id v = i" "couple j v" using coupled_rowsD(5) [OF c j(1)] by blast
    with fg [OF j(1) v(1)] i g [OF v(1)] show ?thesis by (auto simp: same_item_def)
  qed
  moreover have "f j = f j'" if "j \<in> set js" "j' \<in> set js" "job_item (f j) = job_item (f j')" "job_item (f j) \<noteq> None" for j j'
    using coupled_rowsD(6) [OF c] that f by (metis same_job_def)
  moreover have "\<exists>j \<in> set (map f js). job_item j = Some (iv_id (g v))" if "v \<in> set vs" for v
    using coupled_rowsD(7) [OF c that] f g [OF that] by (fastforce simp: same_job_def same_item_def)
  moreover have "\<exists>key. (b, job_user (f j), key) \<in> set bs" if "j \<in> set js" "job_batch (f j) = Some b" for j b
    using coupled_rowsD(4) [OF c that(1)] f [OF that(1)] that(2) by (simp add: same_job_def)
  moreover have "job_tab.unique (map f js)" "iv_tab.unique (map g vs)"
    using coupled_rowsD(1,2) [OF c] unfolding job_tab.unique_def iv_tab.unique_def ids by simp_all
  ultimately show ?thesis using f unfolding coupled_rows_def by auto
qed

section \<open>Rows added\<close>

lemma coupled_rows_keys: "coupled_rows js vs bs \<Longrightarrow> set bs \<subseteq> set bs' \<Longrightarrow> coupled_rows js vs bs'"
  unfolding coupled_rows_def by blast

lemma coupled_snoc:
  assumes c: "coupled_rows js vs bs" and ok: "job_row_ok j" and cp: "couple j v" "job_item j = Some (iv_id v)"
    and new: "job_id j \<notin> job_id ` set js" "iv_id v \<notin> iv_id ` set vs"
    and b: "(iv_batch v, job_user j, key) \<in> set bs"
  shows "coupled_rows (js @ [j]) (vs @ [v]) bs"
proof -
  have fresh: "job_item k \<noteq> job_item j" if "k \<in> set js" for k
    using coupled_rowsD(5) [OF c that] new(2) cp(2) by (metis imageI)
  have "job_batch j = Some (iv_batch v)" using cp(1) by (simp add: couple_def)
  moreover have "job_item k \<noteq> Some (iv_id v)" if "k \<in> set js" for k using fresh [OF that] cp(2) by simp
  ultimately show ?thesis
    using c ok cp new b fresh unfolding coupled_rows_def job_tab.unique_def iv_tab.unique_def
    by (auto simp: Ball_def)
qed

context keyed_table
begin

text \<open>A statement that hits one row rewrites the row with its key.\<close>

lemma map_one:
  assumes "unique vs" and "v \<in> set vs" and "P v" and "\<And>y. P y \<Longrightarrow> key y = key v"
  shows "map (\<lambda>y. if P y then F y else y) vs = map (\<lambda>y. if key y = key v then F v else y) vs"
proof (rule map_cong [OF refl])
  fix y assume y: "y \<in> set vs"
  show "(if P y then F y else y) = (if key y = key v then F v else y)"
  proof (cases "key y = key v")
    case True
    with unique_same [OF assms(1) y assms(2)] assms(3) show ?thesis by simp
  qed (use assms(4) [of y] in auto)
qed

end

section \<open>A batch that is canceled\<close>

definition cancel_view :: "time \<Rightarrow> item_view \<Rightarrow> item_view" where
  "cancel_view now v =
     (if item_waiting (iv_status v) then v\<lparr>iv_status := ItemCanceled, iv_cancel := Some now\<rparr>
      else if iv_status v = ItemRunning \<and> iv_cancel v = None then v\<lparr>iv_cancel := Some now\<rparr> else v)"

definition cancel_row :: "time \<Rightarrow> commerce_job \<Rightarrow> commerce_job" where
  "cancel_row now j =
     (if job_waiting (job_status j)
      then j\<lparr>job_status := JobCanceled, job_cancel_requested_at := Some now, job_finished_at := Some now\<rparr>
      else if job_status j = JobRunning \<and> job_cancel_requested_at j = None
      then j\<lparr>job_cancel_requested_at := Some now\<rparr> else j)"

lemma same_cancel_view: "same_item v (cancel_view now v)"
  by (simp add: cancel_view_def same_item_def)

lemma cancel_row_ok: "job_row_ok j \<Longrightarrow> same_job j (cancel_row now j) \<and> job_row_ok (cancel_row now j)"
  by (auto simp: cancel_row_def same_job_def job_row_ok_def job_waiting_def)

lemma cancel_couple: "couple j v \<Longrightarrow> couple (cancel_row now j) (cancel_view now v)"
  by (cases "job_status j") (auto simp: couple_def cancel_row_def cancel_view_def job_waiting_def item_waiting_def)

lemma cancel_job_step:
  assumes run: "cancel_batch_job user now job s = Inr s'"
    and u: "job_tab.unique (jobs s)" and j: "job \<in> set (jobs s)" and p: "job_user job = user" "job_open (job_status job)"
  shows "same_ledger s s' \<and> view_items s' = view_items s \<and> batch_keys s' = batch_keys s \<and> batches s' = batches s \<and>
    jobs s' = map (\<lambda>y. if job_id y = job_id job then cancel_row now y else y) (jobs s)"
proof -
  have rest: "map (\<lambda>y. if job_id y = job_id job then cancel_row now job else y) (jobs s) =
      map (\<lambda>y. if job_id y = job_id job then cancel_row now y else y) (jobs s)"
    using job_tab.unique_same [OF u _ j] by (intro map_cong) auto
  consider "job_waiting (job_status job)" | "\<not> job_waiting (job_status job)" "job_status job = JobRunning"
    using p(2) by (auto simp: job_open_def job_waiting_def)
  then show ?thesis
  proof cases
    case 1
    let ?hit = "\<lambda>j. job_id j = job_id job \<and> job_user j = user \<and> job_waiting (job_status j)"
    let ?f = "\<lambda>j. j\<lparr>job_status := JobCanceled, job_cancel_requested_at := Some now, job_finished_at := Some now\<rparr>"
    have s': "s' = update_jobs ?hit ?f s" using run 1 by (simp add: cancel_batch_job_def Let_def split: if_splits)
    have "jobs s' = map (\<lambda>y. if ?hit y then ?f y else y) (jobs s)"
      by (simp add: s' update_jobs_def update_where_def)
    also have "\<dots> = map (\<lambda>y. if job_id y = job_id job then ?f job else y) (jobs s)"
      by (rule job_tab.map_one [OF u j]) (use p 1 in auto)
    also have "?f job = cancel_row now job" using 1 by (simp add: cancel_row_def)
    finally show ?thesis unfolding rest by (simp add: s')
  next
    case 2
    let ?hit = "\<lambda>j. job_id j = job_id job \<and> job_user j = user \<and> job_status j = JobRunning \<and> job_cancel_requested_at j = None"
    let ?f = "\<lambda>j. j\<lparr>job_cancel_requested_at := Some now\<rparr>"
    have s': "s' = update_jobs ?hit ?f s" using run 2 by (simp add: cancel_batch_job_def)
    have "jobs s' = map (\<lambda>y. if ?hit y then ?f y else y) (jobs s)"
      by (simp add: s' update_jobs_def update_where_def)
    also have "\<dots> = map (\<lambda>y. if job_id y = job_id job then cancel_row now y else y) (jobs s)"
    proof (rule map_cong [OF refl])
      fix y assume y: "y \<in> set (jobs s)"
      show "(if ?hit y then ?f y else y) = (if job_id y = job_id job then cancel_row now y else y)"
      proof (cases "job_id y = job_id job")
        case True
        with job_tab.unique_same [OF u y j] have "y = job" by simp
        then show ?thesis using p 2 by (simp add: cancel_row_def)
      qed simp
    qed
    finally show ?thesis by (simp add: s')
  qed
qed

lemma cancel_jobs_loop:
  assumes run: "fold_result (cancel_batch_job user now) js s = Inr s1" and u: "job_tab.unique (jobs s)"
    and js: "js = filter P (jobs s0)" "jobs s0 = jobs s"
    and P: "\<And>j. P j \<Longrightarrow> job_user j = user \<and> job_open (job_status j)"
  shows "same_ledger s s1 \<and> view_items s1 = view_items s \<and> batch_keys s1 = batch_keys s \<and> batches s1 = batches s \<and>
    jobs s1 = map (\<lambda>j. if job_id j \<in> job_id ` set js then cancel_row now j else j) (jobs s)"
proof -
  have key: "job_id (cancel_row now j) = job_id j" for j by (simp add: cancel_row_def)
  have d: "distinct (map job_id js)" using u unfolding js by (simp add: job_tab.unique_def distinct_map_filter)
  let ?done = "\<lambda>past. map (\<lambda>j. if job_id j \<in> job_id ` set past then cancel_row now j else j) (jobs s)"
  show ?thesis
  proof (rule fold_result_prefix [OF run, where I = "\<lambda>past t. same_ledger s t \<and> view_items t = view_items s \<and>
      batch_keys t = batch_keys s \<and> batches t = batches s \<and> jobs t = ?done past"])
    fix past x rest t t'
    assume eq: "js = past @ x # rest" and I: "same_ledger s t \<and> view_items t = view_items s \<and>
      batch_keys t = batch_keys s \<and> batches t = batches s \<and> jobs t = ?done past" and step: "cancel_batch_job user now x t = Inr t'"
    have "x \<in> set js" unfolding eq by simp
    then have x: "x \<in> set (jobs s)" "P x" unfolding js by simp_all
    have fresh: "job_id x \<notin> job_id ` set past" using d unfolding eq by auto
    have ut: "job_tab.unique (jobs t)"
      using u I unfolding job_tab.unique_def by (simp add: comp_def key if_distrib cong: if_cong)
    have xt: "x \<in> set (jobs t)" using I fresh x(1) by (auto intro!: image_eqI [of _ _ x])
    have "same_ledger t t' \<and> view_items t' = view_items t \<and> batch_keys t' = batch_keys t \<and> batches t' = batches t \<and>
        jobs t' = map (\<lambda>y. if job_id y = job_id x then cancel_row now y else y) (jobs t)"
      by (rule cancel_job_step [OF step ut xt]) (use P [OF x(2)] in auto)
    moreover have "map (\<lambda>y. if job_id y = job_id x then cancel_row now y else y) (?done past) = ?done (past @ [x])"
      using fresh by (auto simp: key)
    ultimately show "same_ledger s t' \<and> view_items t' = view_items s \<and> batch_keys t' = batch_keys s \<and>
        batches t' = batches s \<and> jobs t' = ?done (past @ [x])" using I by (auto intro: same_ledger_trans)
  qed (simp add: same_ledger_def)
qed

lemma cancel_batch_coupled:
  assumes "coupled_rows js vs bs"
  shows "coupled_rows (map (\<lambda>j. if job_user j = user \<and> job_batch j = Some batch then cancel_row now j else j) js)
    (map (\<lambda>v. if iv_user v = user \<and> iv_batch v = batch then cancel_view now v else v) vs) bs"
proof (rule coupled_map [OF assms])
  show "same_job j (if job_user j = user \<and> job_batch j = Some batch then cancel_row now j else j) \<and>
      job_row_ok (if job_user j = user \<and> job_batch j = Some batch then cancel_row now j else j)" if "j \<in> set js" for j
    using cancel_row_ok [of j now] coupled_rowsD(3) [OF assms that] by (simp add: same_job_def)
  show "same_item v (if iv_user v = user \<and> iv_batch v = batch then cancel_view now v else v)" for v
    using same_cancel_view by (simp add: same_item_def)
  show "couple (if job_user j = user \<and> job_batch j = Some batch then cancel_row now j else j)
      (if iv_user v = user \<and> iv_batch v = batch then cancel_view now v else v)" if "couple j v" for j v
  proof -
    have "iv_user v = job_user j" "job_batch j = Some (iv_batch v)" using that by (simp_all add: couple_def)
    with that cancel_couple [OF that, of now] show ?thesis by simp
  qed
qed

lemma cancel_row_closed: "\<not> job_open (job_status j) \<Longrightarrow> cancel_row now j = j"
  by (cases "job_status j") (auto simp: cancel_row_def job_open_def job_waiting_def)

lemma cancel_view_closed: "\<not> item_open (iv_status v) \<Longrightarrow> cancel_view now v = v"
  by (auto simp: cancel_view_def item_open_def)

text \<open>A waiting job of a project that is deleted.\<close>

definition delete_row :: "time \<Rightarrow> commerce_job \<Rightarrow> commerce_job" where
  "delete_row now j = j\<lparr>job_status := JobCanceled, job_cancel_requested_at := Some now,
     job_finished_at := Some now, job_error_code := ''canceled'', job_error_message := ''project_deleted''\<rparr>"

context queue_env
begin

text \<open>Every account entry the holds invariant reads, for a list of views.\<close>

definition holds_of :: "item_view list \<Rightarrow> commerce_db \<Rightarrow> bool" where
  "holds_of vs s \<longleftrightarrow>
     (\<forall>v \<in> set vs. closed (iv_id v) s \<longleftrightarrow> item_terminal (iv_status v)) \<and>
     (\<forall>r. ac_hold (acc s) r = sum_where (\<lambda>v. iv_reservation v = r \<and> \<not> item_terminal (iv_status v)) iv_reserved vs) \<and>
     (\<forall>k. closed k s \<longrightarrow> k \<in> iv_id ` set vs)"

lemma holds_ok_of: "holds_ok s \<longleftrightarrow> holds_of (view_items s) s \<and> (\<forall>u key. used u key s \<longrightarrow> batch_key_known u key (batch_keys s))"
  by (auto simp: holds_ok_def holds_of_def)

text \<open>A change of the views that keeps holds and terminal items is invisible to the ledger.\<close>

lemma holds_of_map:
  assumes "holds_of vs s" and "\<And>v. v \<in> set vs \<Longrightarrow> same_item v (g v) \<and> item_terminal (iv_status (g v)) = item_terminal (iv_status v)"
  shows "holds_of (map g vs) s"
proof -
  have "sum_where (\<lambda>v. iv_reservation v = r \<and> \<not> item_terminal (iv_status v)) iv_reserved (map g vs) =
      sum_where (\<lambda>v. iv_reservation v = r \<and> \<not> item_terminal (iv_status v)) iv_reserved vs" for r
    unfolding sum_where_def map_map comp_def using assms(2)
    by (intro arg_cong [where f = sum_list] map_cong) (auto simp: same_item_def)
  moreover have "iv_id ` g ` set vs = iv_id ` set vs"
    using assms(2) by (force simp: same_item_def image_image)
  ultimately show ?thesis using assms by (auto simp: holds_of_def same_item_def)
qed

lemma holds_of_untouched: "untouched s s' \<Longrightarrow> holds_of vs s' = holds_of vs s"
  by (simp add: holds_of_def untouched_def)

text \<open>Closing the hold of one unfinished item and marking its view terminal.\<close>

lemma holds_of_close:
  assumes h: "holds_of vs s" and o: "ok s" and u: "iv_tab.unique vs" and v: "v \<in> set vs" "\<not> item_terminal (iv_status v)"
    and x: "view_item x = w" "iv_id w = iv_id v" "iv_user w = iv_user v" "iv_reservation w = iv_reservation v"
      "iv_reserved w = iv_reserved v" "closing x s s'"
    and v': "same_item v v'" "item_terminal (iv_status v')"
  shows "ok s' \<and> holds_of (map (\<lambda>y. if iv_id y = iv_id v then v' else y) vs) s' \<and>
    (\<forall>u. funds u (acc s') = funds u (acc s)) \<and> (\<forall>u key. used u key s' = used u key s)"
proof -
  let ?vs = "map (\<lambda>y. if iv_id y = iv_id v then v' else y) vs"
  have put: "?vs = iv_tab.put v' vs"
    using v'(1) by (simp add: iv_tab.put_def update_where_def same_item_def)
  have xs: "itm_id x = iv_id v" "itm_user x = iv_user v" "itm_reservation x = iv_reservation v" "itm_reserved x = iv_reserved v"
    using x(1-5) by auto
  have nc: "\<not> closed (iv_id v) s" using h v by (auto simp: holds_of_def)
  obtain a b where e: "ok s'" "\<forall>u key. used u key s' = used u key s" "\<forall>k. closed k s' \<longleftrightarrow> closed k s \<or> k = iv_id v"
      "a + b = iv_reserved v" "acc s' = close_hold (iv_user v) (iv_reservation v) a b (acc s)"
    using x(6) o nc xs by (auto simp: closing_def)
  have sum: "sum_where (\<lambda>v. iv_reservation v = r \<and> \<not> item_terminal (iv_status v)) iv_reserved ?vs =
      sum_where (\<lambda>v. iv_reservation v = r \<and> \<not> item_terminal (iv_status v)) iv_reserved vs -
        (if iv_reservation v = r then iv_reserved v else 0)" for r
    unfolding put iv_tab.put_def
    by (subst iv_tab.sum_where_update [OF u v(1)]) (use v v' in \<open>auto simp: same_item_def\<close>)
  have set: "set ?vs = insert v' (set vs - {v})"
    unfolding put by (rule iv_tab.set_put [OF u v(1)]) (use v'(1) in \<open>simp add: same_item_def\<close>)
  have ids: "iv_id ` set ?vs = iv_id ` set vs"
    unfolding put by (metis iv_tab.put_keys set_map)
  have other: "iv_id w \<noteq> iv_id v" if "w \<in> set vs - {v}" for w
    using that iv_tab.unique_same [OF u, of w v] v(1) by auto
  have "ok s' \<and> holds_of ?vs s'"
    unfolding holds_of_def ids
    using h e sum v v' other unfolding holds_of_def set by (auto simp: same_item_def)
  moreover have "\<forall>u. funds u (acc s') = funds u (acc s)" using e(5) by simp
  ultimately show ?thesis using e(2) by simp
qed


lemma release_request_effect:
  assumes "op_release ledger (release_request_of x reason tag) s = Inr s'"
  shows "work_frame s s'" "closing x s s'"
  using release_hold_effect [of x reason tag s s'] assms by (simp_all add: release_hold_def ledger_set)

text \<open>The ledger side of the invariant, with what a step may not change.\<close>

definition ledger_step :: "commerce_db \<Rightarrow> commerce_db \<Rightarrow> bool" where
  "ledger_step s s' \<longleftrightarrow> ok s' \<and> holds_of (view_items s') s' \<and> (\<forall>u. funds u (acc s') = funds u (acc s)) \<and>
     (\<forall>u key. used u key s' = used u key s)"

lemma ledger_step_trans: "ledger_step a b \<Longrightarrow> ledger_step b c \<Longrightarrow> ledger_step a c"
  by (simp add: ledger_step_def)

lemma ledger_step_after:
  assumes "ledger_step a b" and "untouched b c" and "view_items c = view_items b"
  shows "ledger_step a c"
  using assms by (simp add: ledger_step_def holds_of_untouched) (simp add: untouched_def)

lemma ledger_step_frame:
  assumes "ledger_step a b" and "work_frame b c" and "same_ledger b c"
  shows "ledger_step a c"
proof -
  have "untouched b c" using assms(3) by (rule untouched_same_ledger)
  with assms(1,2) show ?thesis
    by (simp add: ledger_step_def holds_of_untouched work_frame_def) (simp add: untouched_def)
qed

text \<open>From the parts to the whole: the invariant and the funds are kept.\<close>

lemma keepsI:
  assumes "coupled s" and "coupled s'" and "ledger_step s s'" and "batch_keys s' = batch_keys s"
  shows "keeps s s'"
  using assms by (auto simp: keeps_def good_def holds_ok_of ledger_step_def)

lemma good_ledger_step: "good s \<Longrightarrow> ledger_step s s"
  by (simp add: good_def ledger_step_def holds_ok_of)

lemma put_map:
  assumes "iv_tab.unique vs" and "v \<in> set vs" and "iv_id v' = iv_id v"
  shows "iv_tab.put v' vs = map (\<lambda>y. if iv_id y = iv_id v then v' else y) vs"
  using assms(3) by (simp add: iv_tab.put_def update_where_def)

section \<open>Canceling a batch\<close>

lemma cancel_batch_item_step:
  assumes run: "cancel_batch_item ledger user now js item s = Inr s'" and st: "ledger_step s0 s"
    and u: "iv_tab.unique (view_items s)" and v: "view_item item \<in> set (view_items s)"
    and p: "itm_user item = user" "item_open (itm_status item)"
  shows "jobs s' = jobs s \<and> batch_keys s' = batch_keys s \<and> ledger_step s0 s' \<and>
    view_items s' = map (\<lambda>y. if iv_id y = itm_id item then cancel_view now y else y) (view_items s)"
proof -
  let ?v = "view_item item"
  have same: "(if iv_id y = itm_id item then cancel_view now y else y) =
      (if iv_id y = iv_id ?v then cancel_view now ?v else y)" if "y \<in> set (view_items s)" for y
    using iv_tab.unique_same [OF u that v] by auto
  then have map: "map (\<lambda>y. if iv_id y = itm_id item then cancel_view now y else y) (view_items s) =
      map (\<lambda>y. if iv_id y = iv_id ?v then cancel_view now ?v else y) (view_items s)" by (intro map_cong) auto
  show ?thesis
  proof (cases "item_waiting (itm_status item)")
    case True
    let ?hit = "\<lambda>x. itm_id x = itm_id item \<and> itm_user x = user \<and> item_waiting (itm_status x)"
    let ?f = "\<lambda>x. x\<lparr>itm_status := ItemCanceled, itm_progress := 100, itm_cancel_requested_at := Some now, itm_finished_at := Some now\<rparr>"
    from run True obtain s1 where rel: "op_release ledger (user_cancel item) s = Inr s1"
      and s': "s' = update_items ?hit ?f s1 \<or> (\<exists>j m. s' = emit_commerce_event j ''item_released'' m (update_items ?hit ?f s1))"
      by (auto simp: cancel_batch_item_def Let_def inv_simps split: option.splits if_splits)
    note eff = release_request_effect [OF rel [unfolded user_cancel_def]]
    have vs1: "view_items s1 = view_items s" using eff(1) by (simp add: work_frame_def)
    have "view_items (update_items ?hit ?f s1) = map (\<lambda>y. if iv_id y = itm_id item \<and> iv_user y = user \<and>
        item_waiting (iv_status y) then y\<lparr>iv_status := ItemCanceled, iv_cancel := Some now\<rparr> else y) (view_items s1)"
      by (rule view_items_update) (auto simp: view_item_def)
    also have "\<dots> = map (\<lambda>y. if iv_id y = iv_id ?v then ?v\<lparr>iv_status := ItemCanceled, iv_cancel := Some now\<rparr> else y) (view_items s)"
      unfolding vs1 by (rule iv_tab.map_one [OF u v]) (use p True in auto)
    finally have views: "view_items s' = map (\<lambda>y. if iv_id y = iv_id ?v then cancel_view now ?v else y) (view_items s)"
      using s' True by (auto simp: cancel_view_def)
    have "ok s1 \<and> holds_of (map (\<lambda>y. if iv_id y = iv_id ?v then cancel_view now ?v else y) (view_items s)) s1 \<and>
        (\<forall>u. funds u (acc s1) = funds u (acc s)) \<and> (\<forall>u key. used u key s1 = used u key s)"
      using st True
      by (intro holds_of_close [OF _ _ u v _ refl _ _ _ _ eff(2)])
        (auto simp: ledger_step_def cancel_view_def same_item_def item_terminal_def item_waiting_def)
    moreover have un: "untouched s1 s'" by (rule untouched_same_ledger) (use s' in auto)
    ultimately have "ledger_step s0 s'"
      using st unfolding ledger_step_def views by (simp add: holds_of_untouched [OF un]) (use un in \<open>simp add: untouched_def\<close>)
    then show ?thesis using s' eff(1) views map by (auto simp: work_frame_def)
  next
    case False
    with p(2) have r: "itm_status item = ItemRunning" by (simp add: item_open_def)
    then have s': "s' = request_item_cancel (itm_id item) user now s" using run False by (simp add: cancel_batch_item_def)
    have "view_items s' = map (\<lambda>y. if iv_id y = itm_id item \<and> iv_user y = user \<and> iv_status y = ItemRunning \<and>
        iv_cancel y = None then y\<lparr>iv_cancel := Some now\<rparr> else y) (view_items s)"
      unfolding s' request_item_cancel_def by (rule view_items_update) (auto simp: view_item_def)
    also have "\<dots> = map (\<lambda>y. if iv_id y = iv_id ?v then cancel_view now ?v else y) (view_items s)"
    proof (rule map_cong [OF refl])
      fix y assume y: "y \<in> set (view_items s)"
      show "(if iv_id y = itm_id item \<and> iv_user y = user \<and> iv_status y = ItemRunning \<and>
          iv_cancel y = None then y\<lparr>iv_cancel := Some now\<rparr> else y) =
          (if iv_id y = iv_id ?v then cancel_view now ?v else y)"
      proof (cases "iv_id y = iv_id ?v")
        case True
        with iv_tab.unique_same [OF u y v] have "y = ?v" by simp
        then show ?thesis using p(1) r False by (simp add: cancel_view_def)
      qed simp
    qed
    finally have views: "view_items s' = map (\<lambda>y. if iv_id y = iv_id ?v then cancel_view now ?v else y) (view_items s)" .
    have un: "untouched s s'" unfolding s' request_item_cancel_def by (rule untouched_same_ledger) simp
    have "holds_of (view_items s') s'"
      unfolding views holds_of_untouched [OF un] using st r v
      by (intro holds_of_map) (auto simp: ledger_step_def cancel_view_def same_item_def item_terminal_def item_waiting_def
          dest: iv_tab.unique_same [OF u])
    then have "ledger_step s0 s'" using st un by (simp add: ledger_step_def untouched_def)
    then show ?thesis using views map by (simp add: s' request_item_cancel_def)
  qed
qed

lemma cancel_items_loop:
  assumes run: "fold_result (cancel_batch_item ledger user now js) its s = Inr s1"
    and st: "ledger_step s s" and u: "iv_tab.unique (view_items s)"
    and its: "its = filter P (items s)" and P: "\<And>x. P x \<Longrightarrow> itm_user x = user \<and> item_open (itm_status x)"
  shows "jobs s1 = jobs s \<and> batch_keys s1 = batch_keys s \<and> ledger_step s s1 \<and>
    view_items s1 = map (\<lambda>v. if iv_id v \<in> itm_id ` set its then cancel_view now v else v) (view_items s)"
proof -
  have key: "iv_id (cancel_view now v) = iv_id v" for v using same_cancel_view by (simp add: same_item_def)
  have d: "distinct (map itm_id its)"
    using u unfolding its by (simp add: iv_tab.unique_def view_items_def comp_def distinct_map_filter)
  let ?done = "\<lambda>past. map (\<lambda>v. if iv_id v \<in> itm_id ` set past then cancel_view now v else v) (view_items s)"
  show ?thesis
  proof (rule fold_result_prefix [OF run, where I = "\<lambda>past t. jobs t = jobs s \<and> batch_keys t = batch_keys s \<and>
      ledger_step s t \<and> view_items t = ?done past"])
    fix past x rest t t'
    assume eq: "its = past @ x # rest" and I: "jobs t = jobs s \<and> batch_keys t = batch_keys s \<and>
      ledger_step s t \<and> view_items t = ?done past" and step: "cancel_batch_item ledger user now js x t = Inr t'"
    have "x \<in> set its" unfolding eq by simp
    then have x: "x \<in> set (items s)" "P x" unfolding its by simp_all
    have fresh: "itm_id x \<notin> itm_id ` set past" using d unfolding eq by auto
    have ut: "iv_tab.unique (view_items t)"
      using u I unfolding iv_tab.unique_def by (simp add: comp_def key if_distrib cong: if_cong)
    have "view_item x \<in> set (view_items t)"
      using I fresh view_items_I [OF x(1)] by (auto intro!: image_eqI [of _ _ "view_item x"])
    then have "jobs t' = jobs t \<and> batch_keys t' = batch_keys t \<and> ledger_step s t' \<and>
        view_items t' = map (\<lambda>y. if iv_id y = itm_id x then cancel_view now y else y) (view_items t)"
      using cancel_batch_item_step [OF step _ ut] I P [OF x(2)] by blast
    moreover have "map (\<lambda>y. if iv_id y = itm_id x then cancel_view now y else y) (?done past) = ?done (past @ [x])"
      using fresh by (auto simp: key)
    ultimately show "jobs t' = jobs s \<and> batch_keys t' = batch_keys s \<and> ledger_step s t' \<and>
        view_items t' = ?done (past @ [x])" using I by simp
  qed (use st in simp)
qed

lemma cancel_batch_tx_effect:
  assumes g: "good s" and run: "cancel_batch_tx ledger user batch project now s = Inr (r, s')"
  shows "keeps s s'"
    and "jobs s' = map (\<lambda>j. if job_user j = user \<and> job_batch j = Some batch then cancel_row now j else j) (jobs s)"
    and "view_items s' = map (\<lambda>v. if iv_user v = user \<and> iv_batch v = batch then cancel_view now v else v) (view_items s)"
proof -
  let ?P = "\<lambda>j. job_user j = user \<and> job_batch j = Some batch \<and> job_open (job_status j)"
  let ?Q = "\<lambda>i. itm_user i = user \<and> itm_batch i = batch \<and> item_open (itm_status i)"
  let ?js = "filter ?P (jobs s)" and ?its = "filter ?Q (items s)"
  have c: "coupled s" using g by (simp add: good_def)
  from run obtain s1 s2 where its: "fold_result (cancel_batch_item ledger user now ?js) ?its s = Inr s1"
    and js: "fold_result (cancel_batch_job user now) ?js s1 = Inr s2"
    and s': "s' = refresh_batch_counters user batch now
      (update_batches (\<lambda>b. bat_id b = batch \<and> bat_user b = user) (\<lambda>b. b\<lparr>bat_cancel_requested_at := Some now\<rparr>) s2)"
    by (auto simp: cancel_batch_tx_def Let_def inv_simps split: option.splits)
  have I: "jobs s1 = jobs s \<and> batch_keys s1 = batch_keys s \<and> ledger_step s s1 \<and>
      view_items s1 = map (\<lambda>v. if iv_id v \<in> itm_id ` set ?its then cancel_view now v else v) (view_items s)"
    by (rule cancel_items_loop [where P = ?Q, OF its good_ledger_step [OF g] _ refl])
      (use coupledD(2) [OF c] in \<open>simp_all add: view_unique\<close>)
  have J: "same_ledger s1 s2 \<and> view_items s2 = view_items s1 \<and> batch_keys s2 = batch_keys s1 \<and> batches s2 = batches s1 \<and>
      jobs s2 = map (\<lambda>j. if job_id j \<in> job_id ` set ?js then cancel_row now j else j) (jobs s1)"
    by (rule cancel_jobs_loop [where P = ?P, OF js _ refl]) (use I coupledD(1) [OF c] in auto)
  have f: "work_frame s2 s'" "same_ledger s2 s'"
    by (simp_all add: s' update_batches_other)
  have "jobs s2 = map (\<lambda>j. if job_user j = user \<and> job_batch j = Some batch then cancel_row now j else j) (jobs s)"
    unfolding conjunct2 [OF conjunct2 [OF conjunct2 [OF conjunct2 [OF J]]]] conjunct1 [OF I]
  proof (rule map_cong [OF refl])
    fix j assume j: "j \<in> set (jobs s)"
    have "job_id j \<in> job_id ` set ?js \<longleftrightarrow> ?P j"
      using job_tab.unique_same [OF coupledD(1) [OF c] j] j by auto
    then show "(if job_id j \<in> job_id ` set ?js then cancel_row now j else j) =
        (if job_user j = user \<and> job_batch j = Some batch then cancel_row now j else j)"
      using cancel_row_closed [of j now] by auto
  qed
  then show jobs': "jobs s' = map (\<lambda>j. if job_user j = user \<and> job_batch j = Some batch then cancel_row now j else j) (jobs s)"
    using f(1) by (simp add: work_frame_def)
  have "view_items s1 = map (\<lambda>v. if iv_user v = user \<and> iv_batch v = batch then cancel_view now v else v) (view_items s)"
    unfolding conjunct2 [OF conjunct2 [OF conjunct2 [OF I]]]
  proof (rule map_cong [OF refl])
    fix v assume "v \<in> set (view_items s)"
    then obtain i where i: "i \<in> set (items s)" "v = view_item i" by (rule view_items_E)
    have "itm_id i \<in> itm_id ` set ?its \<longleftrightarrow> ?Q i"
      using itm_tab.unique_same [OF coupledD(2) [OF c] i(1)] i(1) by auto
    then show "(if iv_id v \<in> itm_id ` set ?its then cancel_view now v else v) =
        (if iv_user v = user \<and> iv_batch v = batch then cancel_view now v else v)"
      using cancel_view_closed [of v now] by (auto simp: i(2))
  qed
  then show views: "view_items s' = map (\<lambda>v. if iv_user v = user \<and> iv_batch v = batch then cancel_view now v else v) (view_items s)"
    using f(1) J by (simp add: work_frame_def)
  have bk: "batch_keys s' = batch_keys s" using f(1) J I by (simp add: work_frame_def)
  have "coupled s'"
    unfolding coupled_def jobs' views bk by (rule cancel_batch_coupled) (use c in \<open>simp add: coupled_def\<close>)
  moreover have "ledger_step s s1" using I by blast
  moreover have "untouched s1 s'" using J f(2) by (intro untouched_same_ledger) (auto intro: same_ledger_trans)
  moreover have "view_items s' = view_items s1" using J f(1) by (simp add: work_frame_def)
  ultimately show "keeps s s'"
    using c bk by (intro keepsI) (simp_all add: ledger_step_def holds_of_untouched, simp_all add: untouched_def)
qed

lemma run_tx_keeps: "(\<And>r s'. m s = Inr (r, s') \<Longrightarrow> keeps s s') \<Longrightarrow> keeps s (snd (run_tx m s))"
  by (auto simp: run_tx_def split: sum.splits prod.splits)

lemma project_mutation_keeps:
  "(\<And>r s'. m s = Inr (r, s') \<Longrightarrow> keeps s s') \<Longrightarrow> keeps s (snd (project_mutation sqlite n locks m s))"
  by (induction sqlite n locks m s rule: project_mutation.induct) (auto intro: run_tx_keeps)

lemma cancel_batch_keeps:
  assumes "bs_ledger svc = Some ledger"
  shows "keeps s (snd (cancel_batch svc sqlite locks user batch now s))"
proof (cases "good s")
  case True
  have "keeps s s'" if "cancel_batch_tx ledger user batch project now s = Inr (r, s')" for project r s'
    using cancel_batch_tx_effect(1) [OF True that] .
  then show ?thesis
    unfolding cancel_batch_def
    by (auto simp: ensure_batch_infrastructure_def assms project_mutation_keeps split: option.splits)
qed (simp add: keeps_def)

section \<open>Canceling an item\<close>

text \<open>Jobs and views rewritten row by row keep the invariant when the pairs stay coupled.\<close>

lemma keeps_map:
  assumes g: "good s" and js: "jobs s' = map f (jobs s)" and vs: "view_items s' = map h (view_items s)"
    and bk: "batch_keys s' = batch_keys s" and st: "ledger_step s s'"
    and f: "\<And>j. j \<in> set (jobs s) \<Longrightarrow> same_job j (f j) \<and> job_row_ok (f j)"
    and h: "\<And>v. v \<in> set (view_items s) \<Longrightarrow> same_item v (h v)"
    and fh: "\<And>j v. j \<in> set (jobs s) \<Longrightarrow> v \<in> set (view_items s) \<Longrightarrow> job_item j = Some (iv_id v) \<Longrightarrow> couple j v \<Longrightarrow>
      couple (f j) (h v)"
  shows "keeps s s'"
proof -
  have c: "coupled s" using g by (simp add: good_def)
  then have "coupled s'"
    unfolding coupled_def js vs bk by (intro coupled_map f h fh)
  with c show ?thesis using st bk by (intro keepsI)
qed

lemma ledger_step_map:
  assumes g: "good s" and un: "untouched s s'" and vs: "view_items s' = map h (view_items s)"
    and h: "\<And>v. v \<in> set (view_items s) \<Longrightarrow> same_item v (h v) \<and> item_terminal (iv_status (h v)) = item_terminal (iv_status v)"
  shows "ledger_step s s'"
proof -
  have "holds_of (view_items s') s'"
    unfolding vs holds_of_untouched [OF un] using g by (intro holds_of_map h) (simp_all add: good_def holds_ok_of)
  then show ?thesis using g un by (simp add: ledger_step_def untouched_def good_def)
qed

lemma cancel_running_keeps:
  assumes g: "good s" and run: "cancel_running_item_tx user item now s = Inr (r, s')"
  shows "keeps s s'"
proof -
  let ?k = "itm_id item"
  let ?hit = "\<lambda>x. itm_id x = ?k \<and> itm_user x = user \<and> itm_status x = ItemRunning \<and> itm_cancel_requested_at x = None"
  let ?hitv = "\<lambda>v. iv_id v = ?k \<and> iv_user v = user \<and> iv_status v = ItemRunning \<and> iv_cancel v = None"
  let ?hitj = "\<lambda>j. job_item j = Some ?k \<and> job_user j = user \<and> job_status j = JobRunning \<and> job_cancel_requested_at j = None"
  let ?s1 = "request_item_cancel ?k user now s"
  have u: "itm_tab.unique (items s)" using g coupledD(2) by (simp add: good_def)
  have v1: "view_items ?s1 = map (\<lambda>v. if ?hitv v then v\<lparr>iv_cancel := Some now\<rparr> else v) (view_items s)"
    unfolding request_item_cancel_def by (rule view_items_update) (auto simp: view_item_def)
  have s1: "jobs ?s1 = jobs s" "batch_keys ?s1 = batch_keys s" "same_ledger s ?s1"
    by (simp_all add: request_item_cancel_def)
  show ?thesis
  proof (cases "count_where ?hit (items s) = 1")
    case False
    with run have s': "s' = ?s1" by (auto simp: cancel_running_item_tx_def Let_def split: option.splits)
    have "\<forall>x \<in> set (items s). \<not> ?hit x" using False count_item_one [OF u, of ?hit ?k] by blast
    then have "\<forall>v \<in> set (view_items s). \<not> ?hitv v" by (auto elim!: view_items_E)
    then have "view_items s' = view_items s" unfolding s' v1 by (intro map_idI) auto
    then show ?thesis using s1 by (intro keeps_frame) (simp_all add: s' work_frame_def)
  next
    case True
    with run have s': "s' = update_jobs ?hitj (\<lambda>j. j\<lparr>job_cancel_requested_at := Some now\<rparr>) ?s1"
      by (simp add: cancel_running_item_tx_def Let_def)
    have js: "jobs s' = map (\<lambda>j. if ?hitj j then j\<lparr>job_cancel_requested_at := Some now\<rparr> else j) (jobs s)"
      by (simp add: s' s1 update_jobs_def update_where_def)
    have vs: "view_items s' = map (\<lambda>v. if ?hitv v then v\<lparr>iv_cancel := Some now\<rparr> else v) (view_items s)"
      by (simp add: s' v1)
    have un: "untouched s s'" by (rule untouched_same_ledger) (simp add: s' s1)
    show ?thesis
    proof (rule keeps_map [OF g js vs])
      show "ledger_step s s'" by (rule ledger_step_map [OF g un vs]) (simp add: same_item_def)
      show "same_job j (if ?hitj j then j\<lparr>job_cancel_requested_at := Some now\<rparr> else j) \<and>
          job_row_ok (if ?hitj j then j\<lparr>job_cancel_requested_at := Some now\<rparr> else j)" if "j \<in> set (jobs s)" for j
        using coupledD(3) [of s j] g that by (auto simp: good_def same_job_def job_row_ok_def)
    qed (auto simp: s' s1 same_item_def couple_def job_waiting_def)
  qed
qed

lemma cancel_waiting_keeps:
  assumes g: "good s" and x: "item \<in> set (items s)" "itm_user item = user"
    and run: "cancel_waiting_item_tx ledger user item now s = Inr (r, s')"
  shows "keeps s s'"
proof -
  let ?k = "itm_id item"
  let ?hit = "\<lambda>x. itm_id x = ?k \<and> itm_user x = user \<and> item_waiting (itm_status x)"
  let ?hitv = "\<lambda>v. iv_id v = ?k \<and> iv_user v = user \<and> item_waiting (iv_status v)"
  let ?hitj = "\<lambda>j. job_item j = Some ?k \<and> job_user j = user \<and> job_waiting (job_status j)"
  let ?s1 = "update_items ?hit (\<lambda>x. x\<lparr>itm_status := ItemCanceled, itm_progress := 100, itm_finished_at := Some now\<rparr>) s"
  let ?f = "\<lambda>j. j\<lparr>job_status := JobCanceled, job_finished_at := Some now\<rparr>"
  have c: "coupled s" using g by (simp add: good_def)
  have u: "itm_tab.unique (items s)" "iv_tab.unique (view_items s)" using coupledD(2) [OF c] by (simp_all add: view_unique)
  have v1: "view_items ?s1 = map (\<lambda>v. if ?hitv v then v\<lparr>iv_status := ItemCanceled\<rparr> else v) (view_items s)"
    by (rule view_items_update) (auto simp: view_item_def)
  show ?thesis
  proof (cases "count_where ?hit (items s) = 1")
    case False
    with run have s': "s' = ?s1" by (auto simp: cancel_waiting_item_tx_def Let_def split: option.splits)
    have "\<forall>x \<in> set (items s). \<not> ?hit x" using False count_item_one [OF u(1), of ?hit ?k] by blast
    then have "\<forall>v \<in> set (view_items s). \<not> ?hitv v" by (auto elim!: view_items_E)
    then have "view_items s' = view_items s" unfolding s' v1 by (intro map_idI) auto
    then show ?thesis by (intro keeps_frame) (simp_all add: s' work_frame_def)
  next
    case True
    then obtain y where "y \<in> set (items s)" "?hit y" using count_where_eq_1D by blast
    then have w: "item_waiting (itm_status item)" using itm_tab.unique_same [OF u(1) _ x(1)] by auto
    from run True obtain s2 where rel: "op_release ledger (user_cancel item) ?s1 = Inr s2"
      and s': "s' = refresh_batch_counters user (itm_batch item) now (update_jobs ?hitj ?f s2)"
      by (auto simp: cancel_waiting_item_tx_def Let_def inv_simps)
    note eff = release_request_effect [OF rel [unfolded user_cancel_def]]
    have s2: "jobs s2 = jobs s" "batch_keys s2 = batch_keys s" "view_items s2 = view_items ?s1"
      using eff(1) by (simp_all add: work_frame_def)
    have un: "untouched s ?s1" by (rule untouched_same_ledger) simp
    have v2: "view_items s2 = map (\<lambda>v. if iv_id v = iv_id (view_item item) then (view_item item)\<lparr>iv_status := ItemCanceled\<rparr> else v) (view_items s)"
      unfolding s2 v1 by (rule iv_tab.map_one [OF u(2) view_items_I [OF x(1)]]) (use x w in auto)
    have "ok s2 \<and> holds_of (view_items s2) s2 \<and> (\<forall>u. funds u (acc s2) = funds u (acc ?s1)) \<and>
        (\<forall>u key. used u key s2 = used u key ?s1)"
      unfolding v2
    proof (rule holds_of_close [OF _ _ u(2) view_items_I [OF x(1)] _ refl _ _ _ _ eff(2)])
      show "holds_of (view_items s) ?s1" "ok ?s1"
        using g un by (simp_all add: holds_of_untouched [OF un] good_def holds_ok_of) (simp add: untouched_def)
    qed (use w in \<open>auto simp: same_item_def item_terminal_def item_waiting_def\<close>)
    moreover have f: "same_ledger s2 s'" by (simp add: s')
    moreover have w': "work_frame (update_jobs ?hitj ?f s2) s'" by (simp add: s')
    moreover note untouched_same_ledger [OF f]
    ultimately have st: "ledger_step s s'"
      using un by (simp add: ledger_step_def holds_of_untouched work_frame_def) (simp add: untouched_def)
    have js: "jobs s' = map (\<lambda>j. if ?hitj j then ?f j else j) (jobs s)"
      using w' by (simp add: s2 work_frame_def) (simp add: update_jobs_def update_where_def s2)
    have vs: "view_items s' = map (\<lambda>v. if ?hitv v then v\<lparr>iv_status := ItemCanceled\<rparr> else v) (view_items s)"
      using w' by (simp add: work_frame_def s2 v1)
    show ?thesis
    proof (rule keeps_map [OF g js vs _ st])
      show "same_job j (if ?hitj j then ?f j else j) \<and> job_row_ok (if ?hitj j then ?f j else j)" if "j \<in> set (jobs s)" for j
        using coupledD(3) [OF c that] by (auto simp: same_job_def job_row_ok_def job_waiting_def)
      show "couple (if ?hitj j then ?f j else j) (if ?hitv v then v\<lparr>iv_status := ItemCanceled\<rparr> else v)"
        if "couple j v" "job_item j = Some (iv_id v)" for j v
      proof -
        have "item_waiting (iv_status v) \<longleftrightarrow> job_waiting (job_status j)" "iv_user v = job_user j"
          using that(1) by (cases "job_status j"; simp add: couple_def item_waiting_def job_waiting_def)+
        with that show ?thesis by (auto simp: couple_def job_waiting_def)
      qed
    qed (use w' s2 in \<open>simp_all add: same_item_def work_frame_def\<close>)
  qed
qed

lemma cancel_item_keeps:
  assumes "bs_ledger svc = Some ledger"
  shows "keeps s (snd (cancel_item svc user k now s))"
proof (cases "good s")
  case True
  have "keeps s s'" if "cancel_item_tx ledger user k now s = Inr (r, s')" for r s'
    using that cancel_running_keeps [OF True] cancel_waiting_keeps [OF True]
    by (auto simp: cancel_item_tx_def split: option.splits if_splits dest!: first_where_Some)
  then show ?thesis
    unfolding cancel_item_def
    by (auto simp: ensure_batch_infrastructure_def assms intro: run_tx_keeps split: option.splits)
qed (simp add: keeps_def)

section \<open>Deleting a project\<close>

lemma map_other: "j \<in> set js \<Longrightarrow> \<not> P j \<Longrightarrow> j \<in> set (map (\<lambda>j. if P j then F j else j) js)"
  by (auto intro!: image_eqI [of _ _ j])

lemma running_cancel_keeps:
  assumes g: "good s" and j: "job \<in> set (jobs s)" "job_user job = user" "job_status job = JobRunning"
  shows "keeps s (request_running_cancel user now job s)"
    and "k \<in> set (jobs s) \<Longrightarrow> job_id k \<noteq> job_id job \<Longrightarrow> k \<in> set (jobs (request_running_cancel user now job s))"
proof -
  let ?s' = "request_running_cancel user now job s"
  let ?hitj = "\<lambda>j. job_id j = job_id job \<and> job_user j = user \<and> job_status j = JobRunning"
  let ?hitv = "\<lambda>v. job_item job = Some (iv_id v) \<and> iv_user v = user \<and> iv_status v = ItemRunning"
  have c: "coupled s" using g by (simp add: good_def)
  have js: "jobs ?s' = map (\<lambda>j. if ?hitj j then j\<lparr>job_cancel_requested_at := Some now\<rparr> else j) (jobs s)"
    by (auto simp: request_running_cancel_def Let_def split: option.splits) (auto simp: update_jobs_def update_where_def)
  have vs: "view_items ?s' = map (\<lambda>v. if ?hitv v then v\<lparr>iv_cancel := Some now\<rparr> else v) (view_items s)"
  proof (cases "job_item job")
    case (Some i)
    have "view_items ?s' = map (\<lambda>v. if ?hitv v then v\<lparr>iv_cancel := Some now\<rparr> else v)
        (view_items (update_jobs ?hitj (\<lambda>j. j\<lparr>job_cancel_requested_at := Some now\<rparr>) s))"
      unfolding request_running_cancel_def Let_def Some option.case
      by (rule view_items_update) (auto simp: view_item_def)
    then show ?thesis by simp
  qed (simp add: request_running_cancel_def Let_def)
  have fr: "batch_keys ?s' = batch_keys s" "same_ledger s ?s'"
    by (simp_all add: request_running_cancel_def Let_def split: option.splits)
  have un: "untouched s ?s'" using fr(2) by (rule untouched_same_ledger)
  show "keeps s ?s'"
  proof (rule keeps_map [OF g js vs fr(1)])
    show "ledger_step s ?s'" by (rule ledger_step_map [OF g un vs]) (simp add: same_item_def)
    show "same_job j (if ?hitj j then j\<lparr>job_cancel_requested_at := Some now\<rparr> else j) \<and>
        job_row_ok (if ?hitj j then j\<lparr>job_cancel_requested_at := Some now\<rparr> else j)" if "j \<in> set (jobs s)" for j
      using coupledD(3) [OF c that] by (auto simp: same_job_def job_row_ok_def)
    show "couple (if ?hitj j then j\<lparr>job_cancel_requested_at := Some now\<rparr> else j)
        (if ?hitv v then v\<lparr>iv_cancel := Some now\<rparr> else v)"
      if "j \<in> set (jobs s)" "job_item j = Some (iv_id v)" "couple j v" for j v
    proof -
      have "job_id j = job_id job \<longleftrightarrow> job_item job = Some (iv_id v)"
        using coupledD(5) [OF c that(1) j(1) that(2)] job_tab.unique_same [OF coupledD(1) [OF c] that(1) j(1)] that(2) by auto
      with that show ?thesis by (cases "job_status j") (auto simp: couple_def job_waiting_def)
    qed
  qed (simp add: same_item_def)
  show "k \<in> set (jobs s) \<Longrightarrow> job_id k \<noteq> job_id job \<Longrightarrow> k \<in> set (jobs ?s')"
    unfolding js by (rule map_other) auto
qed

text \<open>A waiting job and its item are canceled; the hold of the item is released.\<close>

lemma waiting_item_deleted:
  assumes g: "good s" and j: "job \<in> set (jobs s)" "job_user job = user" "job_waiting (job_status job)"
    and run: "cancel_waiting_item (Some ledger) user now job s = Inr s1"
  shows "ledger_step s s1 \<and> jobs s1 = jobs s \<and> batch_keys s1 = batch_keys s \<and>
    view_items s1 = map (\<lambda>v. if job_item job = Some (iv_id v) then v\<lparr>iv_status := ItemCanceled, iv_cancel := Some now\<rparr> else v) (view_items s)"
proof (cases "job_item job")
  case None
  then show ?thesis using run good_ledger_step [OF g] by (simp add: cancel_waiting_item_def)
next
  case (Some i)
  have c: "coupled s" using g by (simp add: good_def)
  have u: "itm_tab.unique (items s)" "iv_tab.unique (view_items s)" using coupledD(2) [OF c] by (simp_all add: view_unique)
  obtain x where x: "x \<in> set (items s)" "itm_id x = i" "couple job (view_item x)" using coupled_item [OF c j(1) Some] .
  have w: "item_waiting (itm_status x)" "itm_user x = user"
    using x(3) j by (cases "job_status job"; simp add: couple_def item_waiting_def job_waiting_def)+
  have find: "first_where (\<lambda>x. itm_id x = i \<and> itm_user x = user) (items s) = Some x"
    using x(2) w(2) by (intro itm_tab.first_by_key [OF u(1) x(1)]) simp_all
  let ?hit = "\<lambda>y. itm_id y = itm_id x \<and> itm_user y = user \<and> item_waiting (itm_status y)"
  let ?f = "\<lambda>y. y\<lparr>itm_status := ItemCanceled, itm_progress := 100, itm_cancel_requested_at := Some now,
     itm_finished_at := Some now, itm_error_code := ''canceled'', itm_error_message := ''project_deleted''\<rparr>"
  let ?F = "\<lambda>v. v\<lparr>iv_status := ItemCanceled, iv_cancel := Some now\<rparr>"
  let ?v = "view_item x"
  from run find w(1) Some obtain s2 where rel: "op_release ledger (release_request_of x ''project_deleted'' ''project-delete'') s = Inr s2"
    and s1: "s1 = emit_commerce_event job ''item_released''
        [(''item_id'', MetaInt (int (itm_id x))), (''reason'', MetaText ''project_deleted'')] (update_items ?hit ?f s2)"
    by (auto simp: cancel_waiting_item_def release_hold_def inv_simps)
  note eff = release_request_effect [OF rel]
  have v2: "view_items s2 = view_items s" using eff(1) by (simp add: work_frame_def)
  have "view_items (update_items ?hit ?f s2) =
      map (\<lambda>v. if iv_id v = itm_id x \<and> iv_user v = user \<and> item_waiting (iv_status v) then ?F v else v) (view_items s2)"
    by (rule view_items_update) (auto simp: view_item_def)
  also have "\<dots> = map (\<lambda>v. if iv_id v = iv_id ?v then ?F ?v else v) (view_items s)"
    unfolding v2 by (rule iv_tab.map_one [OF u(2) view_items_I [OF x(1)]]) (use w in auto)
  finally have vs: "view_items s1 = map (\<lambda>v. if iv_id v = iv_id ?v then ?F ?v else v) (view_items s)" by (simp add: s1)
  also have "\<dots> = map (\<lambda>v. if job_item job = Some (iv_id v) then ?F v else v) (view_items s)"
    unfolding Some using iv_tab.map_one [OF u(2) view_items_I [OF x(1)], of "\<lambda>v. i = iv_id v" ?F] x(2)
    by (simp add: eq_commute)
  finally have views: "view_items s1 = map (\<lambda>v. if job_item job = Some (iv_id v) then ?F v else v) (view_items s)" .
  have "ok s2 \<and> holds_of (view_items s1) s2 \<and> (\<forall>u. funds u (acc s2) = funds u (acc s)) \<and>
      (\<forall>u key. used u key s2 = used u key s)"
    unfolding vs
    by (rule holds_of_close [OF _ _ u(2) view_items_I [OF x(1)] _ refl _ _ _ _ eff(2)])
      (use g w in \<open>auto simp: good_def holds_ok_of same_item_def item_terminal_def item_waiting_def\<close>)
  moreover have un: "untouched s2 s1" by (rule untouched_same_ledger) (simp add: s1)
  ultimately have "ledger_step s s1"
    by (simp add: ledger_step_def holds_of_untouched) (simp add: untouched_def)
  then show ?thesis using views eff(1) by (simp add: s1 work_frame_def)
qed

lemma delete_waiting_keeps:
  assumes g: "good s" and j: "job \<in> set (jobs s)" "job_user job = user" "job_waiting (job_status job)"
    and run: "delete_request_job (Some ledger) user now job s = Inr s'"
  shows "keeps s s'" and "k \<in> set (jobs s) \<Longrightarrow> job_id k \<noteq> job_id job \<Longrightarrow> k \<in> set (jobs s')"
proof -
  have c: "coupled s" using g by (simp add: good_def)
  let ?hit = "\<lambda>j. job_id j = job_id job \<and> job_user j = user \<and> job_waiting (job_status j)"
  let ?F = "\<lambda>v. v\<lparr>iv_status := ItemCanceled, iv_cancel := Some now\<rparr>"
  from run j(3) obtain s1 where item: "cancel_waiting_item (Some ledger) user now job s = Inr s1"
    and s': "work_frame (update_jobs ?hit (delete_row now) s1) s'" "same_ledger (update_jobs ?hit (delete_row now) s1) s'"
    by (auto simp: delete_request_job_def Let_def inv_simps delete_row_def[abs_def] job_waiting_def split: option.splits)
  note I = waiting_item_deleted [OF g j item]
  have js: "jobs s' = map (\<lambda>j. if ?hit j then delete_row now j else j) (jobs s)"
    using s'(1) I by (simp add: work_frame_def) (simp add: update_jobs_def update_where_def)
  have vs: "view_items s' = map (\<lambda>v. if job_item job = Some (iv_id v) then ?F v else v) (view_items s)"
    using s'(1) I by (simp add: work_frame_def)
  have bk: "batch_keys s' = batch_keys s" using s'(1) I by (simp add: work_frame_def)
  have "same_ledger s1 (update_jobs ?hit (delete_row now) s1)" by simp
  then have "same_ledger s1 s'" using s'(2) by (rule same_ledger_trans)
  then have un: "untouched s1 s'" by (rule untouched_same_ledger)
  have "view_items s' = view_items s1" using vs I by simp
  then have st: "ledger_step s s'"
    using I un by (blast intro: ledger_step_after)
  show "keeps s s'"
  proof (rule keeps_map [OF g js vs bk st])
    show "same_job j (if ?hit j then delete_row now j else j) \<and> job_row_ok (if ?hit j then delete_row now j else j)"
      if "j \<in> set (jobs s)" for j
      using coupledD(3) [OF c that] by (auto simp: same_job_def job_row_ok_def delete_row_def job_waiting_def)
    show "couple (if ?hit j then delete_row now j else j) (if job_item job = Some (iv_id v) then ?F v else v)"
      if "j \<in> set (jobs s)" "job_item j = Some (iv_id v)" "couple j v" for j v
    proof (cases "job_item job = Some (iv_id v)")
      case True
      with coupledD(5) [OF c that(1) j(1) that(2)] have "j = job" by simp
      with True that j show ?thesis by (simp add: couple_def delete_row_def job_waiting_def)
    next
      case False
      then have "job_id j \<noteq> job_id job"
        using job_tab.unique_same [OF coupledD(1) [OF c] that(1) j(1)] that(2) by auto
      with False that show ?thesis by simp
    qed
  qed (simp add: same_item_def)
  show "k \<in> set (jobs s) \<Longrightarrow> job_id k \<noteq> job_id job \<Longrightarrow> k \<in> set (jobs s')"
    unfolding js by (rule map_other) auto
qed

lemma request_project_deletion_keeps:
  assumes run: "request_project_deletion (Some ledger) user project now s = Inr (p, s')"
  shows "keeps s s'"
proof (cases "good s")
  case True
  let ?P = "\<lambda>j. job_user j = user \<and> job_project j = project \<and> job_open (job_status j)"
  from run obtain ps where "fold_result (delete_request_job (Some ledger) user now)
      (filter ?P (jobs (s\<lparr>projects := ps\<rparr>))) (s\<lparr>projects := ps\<rparr>) = Inr s'"
    by (auto simp: request_project_deletion_def Let_def inv_simps split: if_splits)
  then obtain s1 where loop: "fold_result (delete_request_job (Some ledger) user now) (filter ?P (jobs s1)) s1 = Inr s'"
    and s1: "work_frame s s1" "same_ledger s s1"
    by (simp add: work_frame_def same_ledger_def view_items_def batch_keys_def)
  have g1: "good s1" using keeps_frame [OF s1] True by (simp add: keeps_def)
  have u: "job_tab.unique (jobs s1)" using g1 coupledD(1) by (simp add: good_def)
  have "keeps s1 s' \<and> (\<forall>j \<in> set (jobs s1). job_id j \<notin> job_id ` set (filter ?P (jobs s1)) \<longrightarrow> j \<in> set (jobs s'))"
  proof (rule fold_result_prefix [OF loop, where I = "\<lambda>past t. keeps s1 t \<and>
      (\<forall>j \<in> set (jobs s1). job_id j \<notin> job_id ` set past \<longrightarrow> j \<in> set (jobs t))"])
    fix past x rest t t'
    assume eq: "filter ?P (jobs s1) = past @ x # rest" and I: "keeps s1 t \<and>
      (\<forall>j \<in> set (jobs s1). job_id j \<notin> job_id ` set past \<longrightarrow> j \<in> set (jobs t))"
      and step: "delete_request_job (Some ledger) user now x t = Inr t'"
    have "x \<in> set (filter ?P (jobs s1))" unfolding eq by simp
    then have x: "x \<in> set (jobs s1)" "?P x" by simp_all
    have "distinct (map job_id (past @ x # rest))"
      using u unfolding eq [symmetric] by (simp add: job_tab.unique_def distinct_map_filter)
    with I x have xt: "x \<in> set (jobs t)" by auto
    have gt: "good t" using I g1 by (simp add: keeps_def)
    have "keeps t t' \<and> (\<forall>k \<in> set (jobs t). job_id k \<noteq> job_id x \<longrightarrow> k \<in> set (jobs t'))"
    proof (cases "job_status x = JobRunning")
      case True
      then have "t' = request_running_cancel user now x t" using step by (simp add: delete_request_job_def)
      then show ?thesis using running_cancel_keeps [OF gt xt _ True] x(2) by blast
    next
      case False
      then have "job_waiting (job_status x)" using x(2) by (auto simp: job_open_def job_waiting_def)
      then show ?thesis using delete_waiting_keeps [OF gt xt _ _ step] x(2) by blast
    qed
    with I show "keeps s1 t' \<and> (\<forall>j \<in> set (jobs s1). job_id j \<notin> job_id ` set (past @ [x]) \<longrightarrow> j \<in> set (jobs t'))"
      by (auto intro: keeps_trans)
  qed simp
  then show ?thesis using keeps_frame [OF s1] keeps_trans by blast
qed (simp add: keeps_def)

end

end
