(* ===== verification/SubmitSafety.thy ===== *)
theory SubmitSafety
  imports BatchSafety
begin

text \<open>
  Submitting a batch and retrying an item: the hold is opened for the whole amount first and is
  covered item by item while the rows are inserted.
\<close>

section \<open>A claimed batch row\<close>

lemma claim_batch_row_Some:
  assumes "claim_batch_row b s = Some (b', s1)"
  shows "b' = b\<lparr>bat_id := next_key bat_id (batches s)\<rparr>" "s1 = s\<lparr>batches := batches s @ [b']\<rparr>"
    "\<And>x. x \<in> set (batches s) \<Longrightarrow> bat_user x = bat_user b \<Longrightarrow> bat_idempotency_key x \<noteq> bat_idempotency_key b"
  using assms by (auto simp: claim_batch_row_def Let_def first_where_None split: if_splits)

lemma save_claimed:
  assumes "claim_batch_row b s = Some (b', s1)" and "bat_id x = bat_id b'"
  shows "save_batch x s1 = s\<lparr>batches := batches s @ [x]\<rparr>"
proof -
  have "bat_id y \<noteq> bat_id x" if "y \<in> set (batches s)" for y
    using next_key_fresh [OF that, of bat_id] claim_batch_row_Some [OF assms(1)] assms(2) by auto
  then have "update_where (\<lambda>y. bat_id y = bat_id x) (\<lambda>_. x) (batches s) = batches s" by simp
  then show ?thesis
    using claim_batch_row_Some [OF assms(1)] assms(2) by (simp add: save_batch_def update_batches_def)
qed

lemma batch_keys_snoc: "batch_keys (s\<lparr>batches := batches s @ [b]\<rparr>) =
    batch_keys s @ [(bat_id b, bat_user b, bat_idempotency_key b)]"
  by (simp add: batch_keys_def)

lemma batch_key_known_snoc:
  "batch_key_known u key bs \<Longrightarrow> batch_key_known u key (bs @ [x])"
  by (auto simp: batch_key_known_def)

lemma batch_key_new:
  assumes "batch_key_known u key (batch_keys s)" and "key = ''commerce:batch:'' @ name \<or> key = ''commerce:retry:'' @ name"
  shows "\<exists>b \<in> set (batches s). bat_user b = u \<and> bat_idempotency_key b = name"
  using assms by (auto simp: batch_key_known_def batch_keys_def)

lemma set_batch_reservation_other [simp]:
  "work_frame s (set_batch_reservation k u r s)" "same_ledger s (set_batch_reservation k u r s)"
  by (simp_all add: set_batch_reservation_def update_batches_other)

lemma consume_snapshot_frame:
  assumes "consume_snapshot k u p now s = Inr s'" shows "work_frame s s'" "same_ledger s s'" "batches s' = batches s"
  using assms by (auto simp: consume_snapshot_def Let_def work_frame_def view_items_def batch_keys_def same_ledger_def
      split: if_splits)

lemma insert_item_Inr:
  assumes "insert_item i s = Inr (i', s')"
  shows "view_item i' = (view_item i)\<lparr>iv_id := next_key itm_id (items s)\<rparr>" "itm_id i' = next_key itm_id (items s)"
    "jobs s' = jobs s" "batch_keys s' = batch_keys s" "same_ledger s s'" "view_items s' = view_items s @ [view_item i']"
    "itm_user i' = itm_user i" "itm_project i' = itm_project i" "itm_batch i' = itm_batch i" "items s' = items s @ [i']"
    "batches s' = batches s"
  using assms by (auto simp: insert_item_def Let_def view_item_def view_items_def batch_keys_def same_ledger_def split: if_splits)

lemma insert_job_Inr:
  assumes "insert_job j s = Inr s'"
  shows "s' = s\<lparr>jobs := jobs s @ [j\<lparr>job_id := next_key job_id (jobs s)\<rparr>]\<rparr>"
  using assms by (simp add: insert_job_def split: if_splits)

lemma next_key_new: "next_key key t \<notin> key ` set t"
  by (metis imageE less_irrefl next_key_fresh)

context queue_env
begin

text \<open>The hold \<open>r\<close> still covers \<open>n\<close> credits of items that are not yet inserted.\<close>

definition hold_open :: "uid \<Rightarrow> int \<Rightarrow> commerce_db \<Rightarrow> commerce_db \<Rightarrow> bool" where
  "hold_open r n s0 s \<longleftrightarrow> coupled s \<and> ok s \<and> (\<forall>u. funds u (acc s) = funds u (acc s0)) \<and>
     (\<forall>v \<in> set (view_items s). closed (iv_id v) s \<longleftrightarrow> item_terminal (iv_status v)) \<and>
     (\<forall>r'. ac_hold (acc s) r' =
        sum_where (\<lambda>v. iv_reservation v = r' \<and> \<not> item_terminal (iv_status v)) iv_reserved (view_items s) +
          (if r' = r then n else 0)) \<and>
     (\<forall>k. closed k s \<longrightarrow> k \<in> iv_id ` set (view_items s)) \<and>
     (\<forall>u key. used u key s \<longrightarrow> batch_key_known u key (batch_keys s))"

lemma hold_open_keeps: "hold_open r 0 s0 s \<Longrightarrow> keeps s0 s"
  by (auto simp: hold_open_def keeps_def good_def holds_ok_def)

lemma hold_open_frame:
  assumes "hold_open r n s0 s" and "work_frame s s'" and "same_ledger s s'"
  shows "hold_open r n s0 s'"
proof -
  have "untouched s s'" using assms(3) by (rule untouched_same_ledger)
  with assms(1,2) coupled_frame [OF assms(2)] show ?thesis
    by (simp add: hold_open_def work_frame_def untouched_def)
qed

text \<open>An item with its job is inserted: its part of the hold is covered.\<close>

lemma hold_open_insert:
  assumes o: "hold_open r n s0 s" and ins: "insert_item i s = Inr (i', s1)" "insert_job j s1 = Inr s2"
    and v: "itm_status i = ItemQueued" "itm_cancel_requested_at i = None" "itm_reservation i = r"
    and j: "j = (submitted_job i' key attempts)\<lparr>job_user := itm_user i\<rparr>" "0 < attempts"
    and b: "(itm_batch i, itm_user i, name) \<in> set (batch_keys s)"
  shows "hold_open r (n - itm_reserved i) s0 s2" "batch_keys s2 = batch_keys s" "batches s2 = batches s"
proof -
  note I = insert_item_Inr [OF ins(1)]
  let ?j = "j\<lparr>job_id := next_key job_id (jobs s)\<rparr>"
  have s2: "s2 = s1\<lparr>jobs := jobs s @ [?j]\<rparr>" using insert_job_Inr [OF ins(2)] I(3) by simp
  have new: "iv_id (view_item i') \<notin> iv_id ` set (view_items s)"
    using next_key_new [of itm_id "items s"] I(2) by (auto simp: view_items_def)
  have un: "untouched s s2" by (rule untouched_same_ledger) (use I(5) in \<open>simp add: s2\<close>)
  have vs: "view_items s2 = view_items s @ [view_item i']" "batch_keys s2 = batch_keys s" using I by (simp_all add: s2)
  have iv: "itm_status i' = ItemQueued" "itm_cancel_requested_at i' = None" "itm_reservation i' = r" "itm_reserved i' = itm_reserved i"
    using arg_cong [OF I(1), of iv_status] arg_cong [OF I(1), of iv_cancel] arg_cong [OF I(1), of iv_reservation]
      arg_cong [OF I(1), of iv_reserved] v by simp_all
  have "coupled_rows (jobs s @ [?j]) (view_items s @ [view_item i']) (batch_keys s)"
  proof (rule coupled_snoc)
    show "coupled_rows (jobs s) (view_items s) (batch_keys s)" using o by (simp add: hold_open_def coupled_def)
    show "job_row_ok ?j" using j(2) by (simp add: j(1) submitted_job_def queued_job_def job_row_ok_def job_waiting_def)
    show "couple ?j (view_item i')"
      using iv v I by (simp add: j(1) submitted_job_def queued_job_def couple_def job_waiting_def)
    show "job_item ?j = Some (iv_id (view_item i'))" by (simp add: j(1) submitted_job_def)
    show "job_id ?j \<notin> job_id ` set (jobs s)" using next_key_new by simp
    show "(iv_batch (view_item i'), job_user ?j, name) \<in> set (batch_keys s)" using b I by (simp add: j(1))
  qed (rule new)
  then have "coupled s2" by (simp add: coupled_def vs) (simp add: s2)
  moreover have "\<not> closed (itm_id i') s" using o new by (auto simp: hold_open_def)
  ultimately show "hold_open r (n - itm_reserved i) s0 s2"
    using o un iv unfolding hold_open_def vs untouched_def by (auto simp: item_terminal_def)
  show "batch_keys s2 = batch_keys s" "batches s2 = batches s" using vs I by (simp_all add: s2)
qed

text \<open>Reserving for a batch that was just claimed opens the hold.\<close>

lemma hold_open_reserve:
  assumes g: "good s" and claim: "claim_batch_row b0 s = Some (b', s1)" and b: "bat_id b = bat_id b'"
      "bat_user b = bat_user b0" "bat_idempotency_key b = bat_idempotency_key b0"
    and rr: "rr_user rr = bat_user b0" "rr_idempotency_key rr = ''commerce:batch:'' @ bat_idempotency_key b0 \<or>
      rr_idempotency_key rr = ''commerce:retry:'' @ bat_idempotency_key b0"
    and res: "op_reserve ledger rr (save_batch b s1) = Inr (snap, s2)"
  shows "hold_open (rs_reservation snap) (rr_amount rr) s s2" "work_frame (save_batch b s1) s2"
    "(bat_id b, bat_user b, bat_idempotency_key b) \<in> set (batch_keys s2)"
proof -
  let ?s = "s\<lparr>batches := batches s @ [b]\<rparr>"
  have save: "save_batch b s1 = ?s" using save_claimed [OF claim b(1)] .
  have l: "same_ledger s ?s" by (simp add: same_ledger_def)
  have un: "untouched s ?s" using l by (rule untouched_same_ledger)
  have free: "\<not> used (rr_user rr) (rr_idempotency_key rr) s"
  proof
    assume "used (rr_user rr) (rr_idempotency_key rr) s"
    then have "batch_key_known (rr_user rr) (rr_idempotency_key rr) (batch_keys s)"
      using g by (simp add: good_def holds_ok_def)
    from batch_key_new [OF this rr(2)] claim_batch_row_Some(3) [OF claim] rr(1) show False by auto
  qed
  have g': "ok ?s" "\<not> used (rr_user rr) (rr_idempotency_key rr) ?s"
    using g free un by (auto simp: good_def untouched_def)
  note E = reserve_effect [OF g' res [unfolded save]] reserve_funds [OF g'(1) res [unfolded save]]
  show w: "work_frame (save_batch b s1) s2" using res by (intro ledger_work_frame reserve_frame)
  have keys: "batch_keys s2 = batch_keys s @ [(bat_id b, bat_user b, bat_idempotency_key b)]"
    using w unfolding save by (simp add: work_frame_def batch_keys_snoc)
  then show "(bat_id b, bat_user b, bat_idempotency_key b) \<in> set (batch_keys s2)" by simp
  have vs: "view_items s2 = view_items s" "jobs s2 = jobs s"
    using w unfolding save by (simp_all add: work_frame_def view_items_def)
  have "coupled s2"
    unfolding coupled_def vs keys by (rule coupled_rows_keys) (use g in \<open>auto simp: good_def coupled_def\<close>)
  moreover have "batch_key_known u key (batch_keys s2)" if "used u key s2" for u key
  proof -
    have "used u key s \<or> u = rr_user rr \<and> key = rr_idempotency_key rr" using that E un by (auto simp: untouched_def)
    then show ?thesis
    proof
      assume "used u key s"
      then show ?thesis using g unfolding keys by (intro batch_key_known_snoc) (simp add: good_def holds_ok_def)
    next
      assume "u = rr_user rr \<and> key = rr_idempotency_key rr"
      then show ?thesis using rr b unfolding keys by (auto simp: batch_key_known_def)
    qed
  qed
  moreover have "ac_hold (acc s2) r' = sum_where (\<lambda>v. iv_reservation v = r' \<and> \<not> item_terminal (iv_status v))
      iv_reserved (view_items s) + (if r' = rs_reservation snap then rr_amount rr else 0)" for r'
    using E un g by (auto simp: open_hold_def untouched_def good_def holds_ok_def)
  ultimately show "hold_open (rs_reservation snap) (rr_amount rr) s s2"
    using E g un unfolding hold_open_def vs by (auto simp: good_def holds_ok_def untouched_def)
qed

lemma submit_item_step:
  assumes run: "submit_item c b r quality request_json attempts x (created, s) = Inr (created', s')"
    and o: "hold_open r n s0 s" and a: "0 < attempts"
    and b: "(bat_id b, bat_user b, name) \<in> set (batch_keys s)"
  shows "hold_open r (n - cp_estimated (snd x)) s0 s'" "batch_keys s' = batch_keys s" "batches s' = batches s"
proof -
  obtain index compiled where x: "x = (index, compiled)" by (cases x)
  obtain out i' s1 where ins: "insert_item (submitted_item b r quality request_json out index compiled) s = Inr (i', s1)"
      "insert_job (submitted_job i' (bat_idempotency_key b @ '':job:'' @ show_nat index) attempts) s1 = Inr s'"
    using run by (auto simp: submit_item_def x inv_simps)
  let ?i = "submitted_item b r quality request_json out index compiled"
  have job: "submitted_job i' (bat_idempotency_key b @ '':job:'' @ show_nat index) attempts =
      (submitted_job i' (bat_idempotency_key b @ '':job:'' @ show_nat index) attempts)\<lparr>job_user := itm_user ?i\<rparr>"
    using insert_item_Inr(7) [OF ins(1)] by (simp add: submitted_job_def)
  have i: "itm_status ?i = ItemQueued" "itm_cancel_requested_at ?i = None" "itm_reservation ?i = r"
      "(itm_batch ?i, itm_user ?i, name) \<in> set (batch_keys s)" "itm_reserved ?i = cp_estimated (snd x)"
    using b by (simp_all add: submitted_item_def x)
  show "hold_open r (n - cp_estimated (snd x)) s0 s'" "batch_keys s' = batch_keys s" "batches s' = batches s"
    using hold_open_insert [OF o ins i(1-3) job a i(4)] i(5) by simp_all
qed

lemma submit_items_loop:
  assumes run: "fold_result (submit_item c b r quality request_json attempts) xs (created, s) = Inr (created', s')"
    and "hold_open r (sum_list (map (cp_estimated \<circ> snd) xs)) s0 s" and a: "0 < attempts"
    and "(bat_id b, bat_user b, name) \<in> set (batch_keys s)"
  shows "hold_open r 0 s0 s' \<and> batches s' = batches s"
  using assms(1,2,4)
proof (induction xs arbitrary: created s)
  case (Cons x xs)
  from Cons.prems(1) obtain created1 s1 where step: "submit_item c b r quality request_json attempts x (created, s) = Inr (created1, s1)"
    and rest: "fold_result (submit_item c b r quality request_json attempts) xs (created1, s1) = Inr (created', s')"
    by (auto simp: inv_simps)
  note I = submit_item_step [OF step Cons.prems(2) a Cons.prems(3)]
  have "hold_open r (sum_list (map (cp_estimated \<circ> snd) xs)) s0 s1" using I(1) by (simp add: comp_def)
  from Cons.IH [OF rest this] I(2,3) Cons.prems(3) show ?case by simp
qed simp

lemma batch_compile_input_attempts:
  assumes "registry_ok registry" and "batch_compile_input registry c user project req s = Inr (p, input, d)"
  shows "0 < rd_max_attempts d"
  using assms registry_get_ok(1) by (auto simp: batch_compile_input_def Let_def inv_simps split: option.splits if_splits)

lemma submit_claimed_keeps:
  assumes g: "good s" and reg: "registry_ok registry"
    and claim: "claim_batch_row b0 s = Some (b, s1)" and b0: "bat_user b0 = user"
    and run: "submit_claimed registry ledger pricing c user project req snapshot_id digest request_json t1 t2 b s1 = Inr (result, s')"
  shows "keeps s s'"
proof -
  have b: "bat_user b = user" "bat_idempotency_key b = bat_idempotency_key b0"
    using claim_batch_row_Some(1) [OF claim] b0 by simp_all
  from run obtain snapshot p input d compiled pricing_json r s2 created s4 s5 where
    d: "batch_compile_input registry c user project req s1 = Inr (p, input, d)" and
    res: "op_reserve ledger (reservation_of_batch
        (priced_batch b p snapshot pricing_json (map (stamp_pricing (ps_id snapshot) (ps_version snapshot)) compiled))
        (sum_list (map cp_estimated (map (stamp_pricing (ps_id snapshot) (ps_version snapshot)) compiled)))
        (''commerce:batch:'' @ bat_idempotency_key b))
      (save_batch (priced_batch b p snapshot pricing_json (map (stamp_pricing (ps_id snapshot) (ps_version snapshot)) compiled)) s1) =
      Inr (r, s2)" and
    loop: "fold_result (submit_item c (priced_batch b p snapshot pricing_json (map (stamp_pricing (ps_id snapshot) (ps_version snapshot)) compiled))
          (rs_reservation r) (er_quality_tier req) request_json (rd_max_attempts d))
        (enumerate 0 (map (stamp_pricing (ps_id snapshot) (ps_version snapshot)) compiled))
        ([], set_batch_reservation (bat_id b) user (rs_reservation r) s2) = Inr (created, s4)" and
    fin: "consume_snapshot (ps_id snapshot) user project t2 s4 = Inr s5" "s' = refresh_batch_counters user (bat_id b) t2 s5"
    unfolding submit_claimed_def Let_def by (auto simp: inv_simps split: if_splits option.splits)
  define its where "its = map (stamp_pricing (ps_id snapshot) (ps_version snapshot)) compiled"
  define b1 where "b1 = priced_batch b p snapshot pricing_json its"
  have b1: "bat_id b1 = bat_id b" "bat_user b1 = user" "bat_idempotency_key b1 = bat_idempotency_key b0"
    using b by (simp_all add: b1_def priced_batch_def)
  note res = res [folded its_def, folded b1_def]
  have open2: "hold_open (rs_reservation r) (sum_list (map cp_estimated its)) s s2"
    and key2: "(bat_id b1, bat_user b1, bat_idempotency_key b1) \<in> set (batch_keys s2)"
    using hold_open_reserve [OF g claim b1(1) _ b1(3) _ _ res] b b0 b1 by (simp_all add: reservation_of_batch_def)
  let ?s3 = "set_batch_reservation (bat_id b) user (rs_reservation r) s2"
  have open3: "hold_open (rs_reservation r) (sum_list (map (cp_estimated \<circ> snd) (enumerate 0 its))) s ?s3"
    using hold_open_frame [OF open2] by (simp flip: map_map)
  have key3: "(bat_id b1, bat_user b1, bat_idempotency_key b1) \<in> set (batch_keys ?s3)"
    using key2 set_batch_reservation_other(1) [where s = s2] by (simp add: work_frame_def)
  have "hold_open (rs_reservation r) 0 s s4"
    using submit_items_loop [OF loop [folded its_def, folded b1_def] open3 batch_compile_input_attempts [OF reg d] key3] by simp
  then have "hold_open (rs_reservation r) 0 s s5"
    by (rule hold_open_frame) (use consume_snapshot_frame [OF fin(1)] in simp_all)
  then have "hold_open (rs_reservation r) 0 s s'"
    by (rule hold_open_frame) (simp_all add: fin(2))
  then show ?thesis by (rule hold_open_keeps)
qed

lemma submit_batch_keeps:
  assumes svc: "bs_ledger svc = Some ledger" "bs_registry svc = Some registry" and reg: "registry_ok registry"
  shows "keeps s (snd (submit_batch svc sqlite locks user project key req snapshot_id t1 t2 s))"
proof (cases "good s")
  case True
  have "keeps s s'" if "submit_batch_tx registry ledger pricing (bs_codec svc) user project k req snapshot_id digest
      request_json t1 t2 s = Inr (r, s')" for pricing k digest request_json r s'
    using that submit_claimed_keeps [OF True reg, of "claimed_batch user project k req digest request_json"]
    by (auto simp: submit_batch_tx_def Let_def inv_simps claimed_batch_def split: option.splits)
  then show ?thesis
    unfolding submit_batch_def
    by (auto simp: ensure_batch_infrastructure_def svc Let_def intro!: project_mutation_keeps split: option.splits sum.splits)
qed (simp add: keeps_def)

section \<open>Retrying an item\<close>

lemma retry_claimed_keeps:
  assumes g: "good s" and parent: "itm_user parent = user"
    and claim: "claim_batch_row b0 s = Some (b', s1)" and b0: "bat_user b0 = user" "bat_idempotency_key b0 = key"
    and run: "retry_claimed ledger user parent key digest now (bat_id b') s1 = Inr (result, s')"
  shows "keeps s s'"
proof -
  let ?k = "bat_id b'"
  from run obtain parent_job parent_batch r s2 i s4 s5 where
    job: "first_where (\<lambda>j. job_item j = Some (itm_id parent) \<and> job_user j = user) (jobs s1) = Some parent_job" and
    batch: "first_where (\<lambda>b. bat_id b = itm_batch parent \<and> bat_user b = user) (batches s1) = Some parent_batch" and
    res: "op_reserve ledger \<lparr>rr_user = itm_user parent, rr_project = itm_project parent, rr_batch = Some ?k,
        rr_scope_type = ''batch'', rr_scope_key = show_nat ?k, rr_amount = itm_reserved parent,
        rr_idempotency_key = ''commerce:retry:'' @ key\<rparr> (save_batch (retried_batch parent_batch parent ?k key digest) s1) = Inr (r, s2)" and
    ins: "insert_item (retried_item parent ?k (rs_reservation r) key) (set_batch_reservation ?k user (rs_reservation r) s2) = Inr (i, s4)"
      "insert_job ((submitted_job i (key @ '':job:0'') (job_max_attempts parent_job))\<lparr>job_user := user\<rparr>) s4 = Inr s5" and
    s': "s' = refresh_batch_counters user ?k now s5"
    unfolding retry_claimed_def Let_def by (auto simp: inv_simps split: option.splits)
  let ?b = "retried_batch parent_batch parent ?k key digest"
  have "jobs s1 = jobs s" using claim_batch_row_Some(2) [OF claim] by simp
  then have "job_row_ok parent_job" using g job by (auto simp: good_def dest!: first_where_Some intro: coupledD(3))
  then have att: "0 < job_max_attempts parent_job" by (simp add: job_row_ok_def)
  have b: "bat_id ?b = ?k" "bat_user ?b = user" "bat_idempotency_key ?b = key"
    using batch by (auto simp: retried_batch_def dest: first_where_Some)
  have open2: "hold_open (rs_reservation r) (itm_reserved parent) s s2"
    and key2: "(?k, user, key) \<in> set (batch_keys s2)"
    using hold_open_reserve [OF g claim b(1) _ _ _ _ res] b b0 parent by simp_all
  let ?s3 = "set_batch_reservation ?k user (rs_reservation r) s2"
  let ?i = "retried_item parent ?k (rs_reservation r) key"
  have open3: "hold_open (rs_reservation r) (itm_reserved parent) s ?s3" using hold_open_frame [OF open2] by simp
  have i: "itm_status ?i = ItemQueued" "itm_cancel_requested_at ?i = None" "itm_reservation ?i = rs_reservation r"
      "itm_reserved ?i = itm_reserved parent" "itm_user ?i = user"
    using parent by (simp_all add: retried_item_def)
  have key3: "(itm_batch ?i, itm_user ?i, key) \<in> set (batch_keys ?s3)"
    using key2 parent set_batch_reservation_other(1) [where s = s2] by (simp add: work_frame_def retried_item_def)
  have "hold_open (rs_reservation r) (itm_reserved parent - itm_reserved ?i) s s5"
    using i(5) by (intro hold_open_insert(1) [OF open3 ins i(1-3) _ att key3]) simp
  then have "hold_open (rs_reservation r) 0 s s5" by (simp add: i(4))
  then have "hold_open (rs_reservation r) 0 s s'" by (rule hold_open_frame) (simp_all add: s')
  then show ?thesis by (rule hold_open_keeps)
qed

lemma retry_item_keeps:
  assumes svc: "bs_ledger svc = Some ledger"
  shows "keeps s (snd (retry_generation_item svc sqlite locks user k key now s))"
proof (cases "good s")
  case True
  have "keeps s s'" if "retry_item_tx ledger user k name now s = Inr (r, s')" for name r s'
    using that retry_claimed_keeps [OF True, where user = user and key = name]
    by (auto simp: retry_item_tx_def Let_def inv_simps split: option.splits if_splits dest!: first_where_Some)
  then show ?thesis
    unfolding retry_generation_item_def
    by (auto simp: ensure_batch_infrastructure_def svc Let_def intro!: project_mutation_keeps split: option.splits)
qed (simp add: keeps_def)

end

end
