(* ===== verification/System.thy ===== *)
theory System
  imports SubmitSafety
begin

text \<open>
  The commerce core as one system: the operations of the service, of the worker's queue and of
  project management, each an atomic step on the database. Whatever the users, the workers and
  their timing do, the work invariant holds and nobody's funds change.
\<close>

section \<open>Steps\<close>

text \<open>The service as the application builds it: the application's ledger and a registry of valid recipes.\<close>

definition service_ok :: "batch_service \<Rightarrow> bool" where
  "service_ok svc \<longleftrightarrow> bs_ledger svc = Some commerce_credit_ledger \<and>
     (case bs_registry svc of None \<Rightarrow> False | Some r \<Rightarrow> registry_ok r)"

inductive commerce_step :: "batch_service \<Rightarrow> commerce_queue \<Rightarrow> commerce_db \<Rightarrow> commerce_db \<Rightarrow> bool" for svc q where
  step_estimate: "estimate_batch svc user project req now s = Inr (estimate, s') \<Longrightarrow> commerce_step svc q s s'"
| step_submit: "commerce_step svc q s (snd (submit_batch svc sqlite locks user project key req snapshot_id t1 t2 s))"
| step_cancel_item: "commerce_step svc q s (snd (cancel_item svc user k now s))"
| step_cancel_batch: "commerce_step svc q s (snd (cancel_batch svc sqlite locks user batch now s))"
| step_retry: "commerce_step svc q s (snd (retry_generation_item svc sqlite locks user k key now s))"
| step_create_project: "create_project user cinput s = Inr (p, s') \<Longrightarrow> commerce_step svc q s s'"
| step_patch_project: "patch_project user project pinput now s = Inr (p, s') \<Longrightarrow> commerce_step svc q s s'"
| step_delete_project: "commerce_step svc q s
    (snd (project_mutation sqlite sqlite_lock_attempts locks
      (request_project_deletion (Some commerce_credit_ledger) user project now) s))"
| step_claim: "\<forall>k. \<not> blank (token k) \<Longrightarrow>
    commerce_step svc q s (snd (claim q token jitter now0 sel_now now limit d s))"
| step_heartbeat: "commerce_step svc q s (snd (heartbeat q lease now d s))"
| step_complete: "commerce_step svc q s (snd (complete q lease result now s))"
| step_fail: "commerce_step svc q s (snd (fail q lease failure now delay s))"
| step_cancel: "commerce_step svc q s (snd (cancel q lease reason now s))"
| step_recover: "commerce_step svc q s (snd (recover_expired q jitter limit now s))"
| step_reconcile: "commerce_step svc q s (snd (reconcile_project_deletions q limit now s))"
| step_tick: "commerce_step svc q s (s\<lparr>clock := t\<rparr>)"

inductive reachable :: "batch_service \<Rightarrow> commerce_queue \<Rightarrow> commerce_db \<Rightarrow> commerce_db \<Rightarrow> bool" for svc q s0 where
  reach_start: "reachable svc q s0 s0"
| reach_step: "reachable svc q s0 s \<Longrightarrow> commerce_step svc q s s' \<Longrightarrow> reachable svc q s0 s'"

text \<open>A database before any work: balances and catalogue as they may be, no batches and no holds.\<close>

definition no_work :: "commerce_db \<Rightarrow> bool" where
  "no_work s \<longleftrightarrow> ledger_ok s \<and> reservations s = [] \<and> settlements s = [] \<and> batches s = [] \<and> items s = [] \<and> jobs s = []"

section \<open>Frames\<close>

lemma estimate_batch_frame:
  assumes "estimate_batch svc user project req now s = Inr (estimate, s')"
  shows "work_frame s s' \<and> same_ledger s s'"
proof -
  obtain pricing p issued where "issue_tx pricing p s = Inr (issued, s')"
    using assms by (auto simp: estimate_batch_def inv_simps split: if_splits prod.splits)
  then show ?thesis
    by (elim issue_tx_Inr) (simp add: work_frame_def same_ledger_def view_items_def batch_keys_def)
qed

lemma projects_frame:
  "work_frame s (s\<lparr>projects := ps\<rparr>) \<and> same_ledger s (s\<lparr>projects := ps\<rparr>)"
  by (simp add: work_frame_def same_ledger_def view_items_def batch_keys_def)

lemma create_project_frame:
  "create_project user input s = Inr (p, s') \<Longrightarrow> work_frame s s' \<and> same_ledger s s'"
  by (auto simp: create_project_def Let_def inv_simps projects_frame split: if_splits option.splits)

lemma patch_project_frame:
  "patch_project user project input now s = Inr (p, s') \<Longrightarrow> work_frame s s' \<and> same_ledger s s'"
  by (auto simp: patch_project_def Let_def inv_simps projects_frame update_project_row_def
      split: if_splits option.splits)

section \<open>The invariant\<close>

lemma worker_keeps_I:
  "work_frame s s' \<and> same_ledger s s' \<Longrightarrow> worker.keeps s s'"
  using worker.keeps_frame by blast

lemma commerce_step_keeps:
  assumes "service_ok svc" and "commerce_step svc q s s'" and q: "q = commerce_worker_queue json host pid worker_token"
  shows "worker.keeps s s'"
proof -
  obtain registry where svc: "bs_ledger svc = Some commerce_credit_ledger" "bs_registry svc = Some registry" "registry_ok registry"
    using assms(1) by (auto simp: service_ok_def split: option.splits)
  from assms(2) show ?thesis
  proof cases
    case (step_estimate user project req now estimate)
    then show ?thesis by (intro worker_keeps_I estimate_batch_frame)
  next
    case step_submit
    then show ?thesis using worker.submit_batch_keeps [OF svc] by simp
  next
    case step_cancel_item
    then show ?thesis using worker.cancel_item_keeps [OF svc(1)] by simp
  next
    case step_cancel_batch
    then show ?thesis using worker.cancel_batch_keeps [OF svc(1)] by simp
  next
    case step_retry
    then show ?thesis using worker.retry_item_keeps [OF svc(1)] by simp
  next
    case step_create_project
    then show ?thesis by (intro worker_keeps_I create_project_frame)
  next
    case step_patch_project
    then show ?thesis by (intro worker_keeps_I patch_project_frame)
  next
    case step_delete_project
    then show ?thesis using worker.request_project_deletion_keeps by (auto intro: worker.project_mutation_keeps)
  next
    case step_claim
    then show ?thesis using worker.claim_keeps q by blast
  next
    case step_heartbeat
    then show ?thesis using worker.heartbeat_keeps q by blast
  next
    case step_complete
    then show ?thesis using worker.complete_keeps q by blast
  next
    case step_fail
    then show ?thesis using worker.fail_keeps q by blast
  next
    case step_cancel
    then show ?thesis using worker.cancel_keeps q by blast
  next
    case step_recover
    then show ?thesis using worker.recover_expired_keeps q by blast
  next
    case step_reconcile
    then show ?thesis using worker.reconcile_keeps q by blast
  next
    case (step_tick t)
    then show ?thesis
      by (intro worker_keeps_I) (simp add: work_frame_def same_ledger_def view_items_def batch_keys_def)
  qed
qed

lemma reachable_keeps:
  assumes "reachable svc q s0 s" and "service_ok svc" and "q = commerce_worker_queue json host pid worker_token"
  shows "worker.keeps s0 s"
  using assms(1)
proof induction
  case (reach_step s s')
  then show ?case using commerce_step_keeps [OF assms(2) _ assms(3)] worker.keeps_trans by blast
qed simp

lemma no_work_ok: "no_work s \<Longrightarrow> work_ok s"
  by (auto simp: no_work_def work_ok_def holds_match_def coupled_def coupled_rows_def view_items_def
      job_tab.unique_def iv_tab.unique_def item_settled_def account_of_def sum_where_def)

text \<open>What the invariant says of a reachable state.\<close>

lemma reachable_work_ok:
  assumes "reachable svc q s0 s" and "service_ok svc" and "q = commerce_worker_queue json host pid worker_token" and "no_work s0"
  shows "work_ok s" "funds u (account_of s) = funds u (account_of s0)"
  using reachable_keeps [OF assms(1-3)] no_work_ok [OF assms(4)]
  by (simp_all add: worker.keeps_def good_iff_work_ok)

lemma work_ok_item_job:
  assumes "work_ok s" and "i \<in> set (items s)"
  obtains j where "j \<in> set (jobs s)" "job_item j = Some (itm_id i)" "itm_status i = item_status_of (job_status j)"
    "itm_user i = job_user j" "\<And>j'. j' \<in> set (jobs s) \<Longrightarrow> job_item j' = Some (itm_id i) \<Longrightarrow> j' = j"
proof -
  have c: "coupled s" using assms(1) by (simp add: work_ok_def)
  obtain j where j: "j \<in> set (jobs s)" "job_item j = Some (itm_id i)" "couple j (view_item i)"
    using coupled_job [OF c assms(2)] .
  from j(3) have "itm_status i = item_status_of (job_status j)" "itm_user i = job_user j" by (simp_all add: couple_def)
  moreover have "j' = j" if "j' \<in> set (jobs s)" "job_item j' = Some (itm_id i)" for j'
    using coupledD(5) [OF c that(1) j(1) that(2) j(2)] .
  ultimately show thesis using j(1,2) that by blast
qed

lemma work_ok_finished:
  assumes "work_ok s" and "\<forall>j \<in> set (jobs s). \<not> job_open (job_status j)"
  shows "(\<forall>i \<in> set (items s). item_settled (itm_id i) s) \<and> (\<forall>r \<in> set (reservations s). rsv_reserved r = 0)"
proof -
  have closed: "item_terminal (itm_status i)" if i: "i \<in> set (items s)" for i
  proof -
    obtain j where "j \<in> set (jobs s)" "itm_status i = item_status_of (job_status j)"
      using work_ok_item_job [OF assms(1) i] by blast
    then show ?thesis using assms(2) by (cases "job_status j") (auto simp: item_terminal_def job_open_def)
  qed
  have "rsv_reserved r = 0" if r: "r \<in> set (reservations s)" for r
  proof -
    have "sum_where (\<lambda>x. rsv_id x = rsv_id r) rsv_reserved (reservations s) = ac_hold (account_of s) (rsv_id r)"
      by (simp add: account_of_def)
    also have "\<dots> = 0"
      using assms(1) closed by (simp add: work_ok_def holds_match_def sum_where_zero)
    finally have sum: "sum_where (\<lambda>x. rsv_id x = rsv_id r) rsv_reserved (reservations s) = 0" .
    have nonneg: "0 \<le> rsv_reserved x" if "x \<in> set (reservations s)" for x
      using assms(1) that by (simp add: work_ok_def ledger_ok_def reservation_ok_def)
    have "rsv_reserved r \<le> 0"
      using sum_where_ge [OF r, of "\<lambda>x. rsv_id x = rsv_id r" rsv_reserved] nonneg sum by simp
    with nonneg [OF r] show ?thesis by simp
  qed
  then show ?thesis using assms(1) closed by (auto simp: work_ok_def holds_match_def)
qed

end
