(* ===== verification/DemoShop.thy ===== *)
theory DemoShop
  imports Demo DemoRecipe System
begin

text \<open>
  A shop for the witnesses: the demo database with a product, a SKU, a confirmed specification
  and an issued pricing snapshot, and a service over it; a batch of one card is submitted.
\<close>

definition demo_payload :: persisted_pricing_snapshot where
  "demo_payload = \<lparr>pp_version = ''v'', pp_request_digest = ''q'', pp_user = 7, pp_project = 3, pp_entries = [],
     pp_created_at = 1000, pp_expires_at = 2000\<rparr>"

text \<open>The codecs know the texts of the values that occur; the digest of a text is the text.\<close>

definition demo_pricing_codec :: pricing_codec where
  "demo_pricing_codec = \<lparr>pc_encode = (\<lambda>p. if p = demo_payload then Some ''j'' else None),
     pc_decode = (\<lambda>t. if t = ''j'' then Some demo_payload else None), pc_sha = (\<lambda>t. t), pc_random_hex = Some ''1''\<rparr>"

definition demo_batch_codec :: batch_codec where
  "demo_batch_codec = \<lparr>bc_value = (\<lambda>_. Some ''v''), bc_request = (\<lambda>_. Some ''q''), bc_canonical_json = Some,
     bc_spec = (\<lambda>_. Some ''s''), bc_context = (\<lambda>_. Some ''c''), bc_snapshot = (\<lambda>_. Some ''p''),
     bc_item = (\<lambda>_. Some ''o''), bc_sha = (\<lambda>t. t)\<rparr>"

definition demo_snapshot :: pricing_snapshot where
  "demo_snapshot = \<lparr>ps_id = ''ps_1'', ps_version = ''v'', ps_request_digest = ''q'', ps_hash = ''j'', ps_status = ''issued'',
     ps_user = 7, ps_project = 3, ps_entries = [], ps_created_at = 1000, ps_expires_at = 2000\<rparr>"

definition demo_price_row :: commerce_pricing_snapshot where
  "demo_price_row = pricing_row ''j'' ''j'' demo_snapshot"

definition demo_product :: commerce_product where
  "demo_product = \<lparr>prd_id = 2, prd_user = 7, prd_brand = None, prd_category_id = None, prd_name = ''n'', prd_category = [],
     prd_category_source = [], prd_category_path = [], prd_spu_code = [], prd_selling_points = [],
     prd_target_channels = [], prd_status = ''active'', prd_sku_version = 1, prd_deleted_at = None\<rparr>"

definition demo_sku :: commerce_sku where
  "demo_sku = \<lparr>sku_id = 5, sku_user = 7, sku_product = 2, sku_code = ''c'', sku_color = ''red'', sku_style = [],
     sku_size = [], sku_attributes = [], sku_status = ''active'', sku_deleted_at = None\<rparr>"

definition demo_spec_row :: commerce_creative_spec where
  "demo_spec_row = \<lparr>spc_id = 4, spc_user = 7, spc_project = 3, spc_version = 1, spc_source = [], spc_status = ''confirmed'',
     spc_product_facts = [], spc_common_facts = [], spc_sku_overrides = [], spc_sku_context = [], spc_selling_points = [],
     spc_forbidden_changes = [], spc_brand_tone = [], spc_shot_plan = [], spc_copy_blocks = [], spc_risk_notices = [],
     spc_source_assets = [], spc_observed_facts = [], spc_user_overrides = [], spc_missing_fields = [],
     spc_suggested_sections = [], spc_analysis_error = [],
     spc_analysis_request_hash = [], spc_locked_at = Some 1\<rparr>"

definition demo_shop :: commerce_db where
  "demo_shop = demo_db\<lparr>products := [demo_product], skus := [demo_sku], creative_specs := [demo_spec_row],
     pricing_snapshots := [demo_price_row]\<rparr>"

definition demo_request :: estimate_request where
  "demo_request = \<lparr>er_recipe_key = ''card'', er_quality_tier = ''standard'', er_recipe_version = 1, er_output_count = 1,
     er_creative_spec = 4, er_primary_sku = 5, er_selected_skus = [5], er_aspect_ratio = ''1:1'', er_bindings = [],
     er_parameters = []\<rparr>"

definition demo_service :: batch_service where
  "demo_service = \<lparr>bs_registry = Some demo_registry, bs_ledger = Some commerce_credit_ledger,
     bs_pricing = Some demo_pricing_codec, bs_provider = None, bs_codec = demo_batch_codec\<rparr>"

lemma demo_registry_ok: "registry_ok demo_registry"
  using register_registry_ok [OF registry_ok_Nil demo_register] .

lemma demo_service_ok: "service_ok demo_service"
  by (simp add: service_ok_def demo_service_def demo_registry_ok)

lemma demo_resolve:
  "pricing_snapshots s = [demo_price_row] \<Longrightarrow>
     resolve_for_submit_tx demo_pricing_codec 7 3 ''ps_1'' ''q'' 1500 s = Inr demo_snapshot"
proof -
  assume p: "pricing_snapshots s = [demo_price_row]"
  have "\<not> blank ''ps_1''" "\<not> blank ''q''" by (subst blank_literal; simp add: literal_bytes_def)+
  then show ?thesis
    by (simp add: resolve_for_submit_tx_def p first_where_def demo_price_row_def pricing_row_def demo_snapshot_def
        classify_pricing_snapshot_resolution_failure_def demo_pricing_codec_def demo_payload_def)
qed

lemma demo_spec_built:
  assumes "creative_specs s = [demo_spec_row]"
  shows "\<exists>x. build_confirmed_creative_spec_snapshot_tx demo_batch_codec 7 3 4 s = Inr x \<and> cs_id x = 4 \<and>
    cs_status x = ''confirmed'' \<and> cs_sha256 x = ''s''"
  using assms
  by (simp add: build_confirmed_creative_spec_snapshot_tx_def first_where_def demo_spec_row_def spec_snapshot_of_def
      normalize_creative_spec_snapshot_def normalize_json_def demo_batch_codec_def encoded_def default_json_def)

lemma demo_request_simps [simp]:
  "er_recipe_key demo_request = ''card''" "er_quality_tier demo_request = ''standard''" "er_recipe_version demo_request = 1"
  "er_output_count demo_request = 1" "er_creative_spec demo_request = 4" "er_primary_sku demo_request = 5"
  "er_selected_skus demo_request = [5]" "er_aspect_ratio demo_request = ''1:1''" "er_bindings demo_request = []"
  "er_parameters demo_request = []"
  by (simp_all add: demo_request_def)

lemma demo_project_simps [simp]:
  "prj_id demo_project = 3" "prj_user demo_project = 7" "prj_product demo_project = 2" "prj_pipeline demo_project = ''general''"
  "prj_status demo_project = ''active''" "prj_deletion_requested_at demo_project = None" "prj_deleted_at demo_project = None"
  by (simp_all add: demo_project_def)

lemma demo_compile_input:
  assumes c: "creative_specs s = [demo_spec_row]" "projects s = [demo_project]" "products s = [demo_product]" "skus s = [demo_sku]"
  obtains input where "batch_compile_input demo_registry demo_batch_codec 7 3 demo_request s =
      Inr (demo_project, input, default_max_attempts demo_recipe)"
    "registry_compile demo_registry (input\<lparr>ci_pricing := demo_snapshot\<rparr>) = Inr [demo_compiled]"
proof -
  obtain x where x: "build_confirmed_creative_spec_snapshot_tx demo_batch_codec 7 3 4 s = Inr x" "cs_id x = 4"
      "cs_status x = ''confirmed''" "cs_sha256 x = ''s''"
    using demo_spec_built [OF c(1)] by blast
  let ?d = "default_max_attempts demo_recipe"
  let ?compiler = "demo_compiler\<lparr>cm_definition := ?d\<rparr>"
  have get: "registry_get demo_registry ''general'' ''card'' 1 = Some ?compiler"
    by (simp add: registry_get_def demo_registry_def definition_key_def demo_recipe_def)
  have p: "get_project 7 3 s = Inr demo_project" by (simp add: get_project_def c first_where_def)
  have k: "validate_project_skus_tx 7 2 5 [5] s = Inr ()"
    by (simp add: validate_project_skus_tx_def get_product_def c first_where_def demo_product_def demo_sku_def)
  have a: "load_asset_binding_snapshots 7 3 [] s = Inr []"
    by (simp add: load_asset_binding_snapshots_def binding_pairs_def)
  have n: "batch_output_count demo_request [5] ?d = Inr 1"
    by (simp add: batch_output_count_def default_max_attempts_def demo_recipe_def product_detail_set_key_def)
  obtain input where input: "batch_compile_input demo_registry demo_batch_codec 7 3 demo_request s = Inr (demo_project, input, ?d)"
      "ci_pipeline input = ''general''" "ci_recipe_key input = ''card''" "ci_recipe_version input = 1"
      "ci_creative_spec_id input = 4" "ci_creative_spec input = x" "ci_output_count input = 1" "ci_aspect_ratio input = ''1:1''"
      "ci_quality_tier input = ''standard''" "ci_bindings input = []" "ci_assets input = []" "ci_primary_sku input = 5"
      "ci_selected_skus input = [5]"
    by (simp add: batch_compile_input_def p get x k a n Let_def)
  have "\<not> blank ''s''" by (subst blank_literal; simp add: literal_bytes_def)
  then have "validate_compile_input ?d (input\<lparr>ci_pricing := demo_snapshot\<rparr>) = Inr ()"
    using x(2-4)
    by (simp add: validate_compile_input_def input demo_recipe_def default_max_attempts_def allowed_roles_def
        validate_asset_binding_snapshots_def binding_pairs_def)
  moreover have "check_compiled_item ?d (input\<lparr>ci_pricing := demo_snapshot\<rparr>) demo_compiled = Inr ()"
    by (simp add: check_compiled_item_def demo_compiled_def demo_recipe_def default_max_attempts_def input)
  ultimately have "registry_compile demo_registry (input\<lparr>ci_pricing := demo_snapshot\<rparr>) = Inr [demo_compiled]"
    by (simp add: registry_compile_def input get demo_compiler_def)
  with input(1) show thesis by (rule that)
qed

lemma demo_claim:
  "claim_batch_row (claimed_batch 7 3 ''n'' demo_request ''q'' ''q'') demo_shop =
     Some ((claimed_batch 7 3 ''n'' demo_request ''q'' ''q'')\<lparr>bat_id := 2\<rparr>,
       demo_shop\<lparr>batches := batches demo_shop @ [(claimed_batch 7 3 ''n'' demo_request ''q'' ''q'')\<lparr>bat_id := 2\<rparr>]\<rparr>)"
  by (simp add: claim_batch_row_def claimed_batch_def empty_batch_def demo_shop_def demo_db_def demo_batch_def
      first_where_def next_key_def Let_def)

lemma demo_reserves:
  assumes "balances s = [demo_balance]" "reservations s = [demo_reservation]" "transactions s = []"
    and rr: "rr_user rr = 7" "rr_project rr = 3" "rr_amount rr = 10" "rr_idempotency_key rr = ''commerce:batch:n''"
  shows "\<exists>r s2. reserve_tx rr s = Inr (r, s2) \<and> rs_reservation r = 2 \<and> items s2 = items s"
proof -
  have "\<not> blank ''commerce:batch:n''" by (subst blank_literal; simp add: literal_bytes_def)
  then show ?thesis
    using assms by (simp add: reserve_tx_def first_where_def table_defs demo_balance_def demo_reservation_def
        insert_transaction_def reservation_row_def next_key_def Let_def)
qed

lemma demo_item_inserted:
  assumes "items s = items demo_db" and "jobs s = jobs demo_db" and "bat_idempotency_key b = ''n''" and "bat_user b = 7"
  obtains i s' where "submit_item demo_batch_codec b r quality request_json attempts (0, compiled) ([], s) = Inr ([i], s')"
    "itm_status i = ItemQueued" "itm_user i = 7" "pricing_snapshots s' = pricing_snapshots s" "batches s' = batches s"
proof -
  let ?i = "submitted_item b r quality request_json ''o'' 0 compiled"
  have "\<exists>i s1. insert_item ?i s = Inr (i, s1) \<and> itm_id i = 3 \<and> itm_status i = ItemQueued \<and> itm_user i = 7 \<and>
      jobs s1 = jobs demo_db \<and> pricing_snapshots s1 = pricing_snapshots s \<and> batches s1 = batches s"
    using assms by (simp add: insert_item_def submitted_item_def demo_db_def demo_item_def first_where_def next_key_def Let_def)
  then obtain i s1 where i: "insert_item ?i s = Inr (i, s1)" "itm_id i = 3" "itm_status i = ItemQueued" "itm_user i = 7"
      "jobs s1 = jobs demo_db" "pricing_snapshots s1 = pricing_snapshots s" "batches s1 = batches s" by blast
  have "\<exists>s'. insert_job (submitted_job i (''n'' @ '':job:'' @ show_nat 0) attempts) s1 = Inr s' \<and>
      pricing_snapshots s' = pricing_snapshots s \<and> batches s' = batches s"
    using i by (simp add: insert_job_def submitted_job_def queued_job_def demo_db_def demo_job_def first_where_def)
  then obtain s' where s': "insert_job (submitted_job i (''n'' @ '':job:'' @ show_nat 0) attempts) s1 = Inr s'"
      "pricing_snapshots s' = pricing_snapshots s" "batches s' = batches s" by blast
  have "submit_item demo_batch_codec b r quality request_json attempts (0, compiled) ([], s) = Inr ([i], s')"
    using i(1) s'(1) assms(3) by (simp add: submit_item_def encoded_def demo_batch_codec_def)
  with i s' show thesis by (intro that)
qed

text \<open>Submitting under the key \<^verbatim>\<open>n\<close>: one item of 10 credits is reserved and queued.\<close>

lemma demo_submit:
  obtains result s' where
    "submit_batch_tx demo_registry commerce_credit_ledger demo_pricing_codec demo_batch_codec 7 3 ''n'' demo_request
       ''ps_1'' ''q'' ''q'' 1500 1500 demo_shop = Inr (result, s')"
    "map itm_status (br_items result) = [ItemQueued]"
proof -
  let ?b = "(claimed_batch 7 3 ''n'' demo_request ''q'' ''q'')\<lparr>bat_id := 2\<rparr>"
  let ?s1 = "demo_shop\<lparr>batches := batches demo_shop @ [?b]\<rparr>"
  have s1: "creative_specs ?s1 = [demo_spec_row]" "projects ?s1 = [demo_project]" "products ?s1 = [demo_product]"
      "skus ?s1 = [demo_sku]" "pricing_snapshots ?s1 = [demo_price_row]"
    by (simp_all add: demo_shop_def demo_db_def)
  obtain input where input: "batch_compile_input demo_registry demo_batch_codec 7 3 demo_request ?s1 =
      Inr (demo_project, input, default_max_attempts demo_recipe)"
    "registry_compile demo_registry (input\<lparr>ci_pricing := demo_snapshot\<rparr>) = Inr [demo_compiled]"
    using demo_compile_input [OF s1(1-4)] .
  let ?i = "stamp_pricing ''ps_1'' ''v'' demo_compiled"
  let ?b1 = "priced_batch ?b demo_project demo_snapshot ''p'' [?i]"
  have est: "cp_estimated demo_compiled = 10" "cp_estimated ?i = 10" by (simp_all add: stamp_pricing_def demo_compiled_def)
  have b1: "bat_id ?b1 = 2" "bat_user ?b1 = 7" "bat_project ?b1 = 3" "bat_idempotency_key ?b1 = ''n''"
    by (simp_all add: priced_batch_def claimed_batch_def)
  have save: "save_batch ?b1 ?s1 = demo_shop\<lparr>batches := batches demo_shop @ [?b1]\<rparr>"
    by (rule save_claimed [OF demo_claim]) (simp add: b1)
  have l: "balances (save_batch ?b1 ?s1) = [demo_balance]" "reservations (save_batch ?b1 ?s1) = [demo_reservation]"
      "transactions (save_batch ?b1 ?s1) = []"
    unfolding save by (simp_all add: demo_shop_def demo_db_def)
  let ?rr = "reservation_of_batch ?b1 10 ''commerce:batch:n''"
  have rr: "rr_user ?rr = 7" "rr_project ?rr = 3" "rr_amount ?rr = 10" "rr_idempotency_key ?rr = ''commerce:batch:n''"
    by (simp_all add: reservation_of_batch_def b1)
  obtain r s2 where res: "reserve_tx (reservation_of_batch ?b1 10 ''commerce:batch:n'') (save_batch ?b1 ?s1) = Inr (r, s2)"
      "rs_reservation r = 2" "items s2 = items (save_batch ?b1 ?s1)"
    using demo_reserves [OF l rr] by blast
  have fr: "jobs s2 = jobs demo_db" "pricing_snapshots s2 = [demo_price_row]" "batches s2 = [demo_batch, ?b1]"
      "items s2 = items demo_db"
    using reserve_tx_frame [OF res(1)] res(3) by (simp_all add: ledger_frame_def save) (simp_all add: demo_shop_def demo_db_def)
  let ?s3 = "set_batch_reservation 2 7 2 s2"
  have s3: "items ?s3 = items demo_db" "jobs ?s3 = jobs demo_db" "pricing_snapshots ?s3 = [demo_price_row]"
      "\<exists>x \<in> set (batches ?s3). bat_id x = 2 \<and> bat_user x = 7"
    using fr b1 by (simp_all add: set_batch_reservation_def update_batches_def)
  obtain i s4 where i: "submit_item demo_batch_codec ?b1 2 ''standard'' ''q'' (rd_max_attempts (default_max_attempts demo_recipe))
        (0, ?i) ([], ?s3) = Inr ([i], s4)" "itm_status i = ItemQueued"
      "pricing_snapshots s4 = pricing_snapshots ?s3" "batches s4 = batches ?s3"
    using demo_item_inserted [OF s3(1,2) b1(4,2)] by metis
  have "\<exists>s5. consume_snapshot ''ps_1'' 7 3 1500 s4 = Inr s5 \<and> batches s5 = batches s4"
    by (simp add: consume_snapshot_def i(3) s3(3) demo_price_row_def pricing_row_def demo_snapshot_def Let_def)
  then obtain s5 where s5: "consume_snapshot ''ps_1'' 7 3 1500 s4 = Inr s5" "batches s5 = batches s4" by blast
  let ?s6 = "refresh_batch_counters 7 2 1500 s5"
  obtain x where "x \<in> set (batches s5)" "bat_id x = 2" "bat_user x = 7" using s3(4) s5(2) i(4) by auto
  then have "refreshed_batch (batch_items 7 2 s5) 1500 x \<in> set (batches ?s6)"
    by (auto simp: batches_refresh set_update_where)
  then obtain b' where b': "first_where (\<lambda>y. bat_id y = 2 \<and> bat_user y = 7) (batches ?s6) = Some b'"
    using \<open>bat_id x = 2\<close> \<open>bat_user x = 7\<close> first_where_ex
    by (metis (mono_tags, lifting) refreshed_batch_keys(1,2))
  have "op_reserve commerce_credit_ledger = reserve_tx" by (simp add: commerce_credit_ledger_def)
  then have "submit_claimed demo_registry commerce_credit_ledger demo_pricing_codec demo_batch_codec 7 3 demo_request ''ps_1''
      ''q'' ''q'' 1500 1500 ?b ?s1 = Inr (\<lparr>br_batch = b', br_items = [i]\<rparr>, ?s6)"
    using demo_resolve [OF s1(5)] input res i s5 b' est
    by (simp add: submit_claimed_def Let_def demo_snapshot_def encoded_def demo_batch_codec_def claimed_batch_def)
  moreover have "first_where (\<lambda>b. bat_user b = 7 \<and> bat_idempotency_key b = ''n'') (batches demo_shop) = None"
    by (simp add: demo_shop_def demo_db_def demo_batch_def first_where_def)
  moreover have "lock_writable_project_tx 7 3 demo_shop = Inr demo_project"
    by (simp add: lock_writable_project_tx_def lock_project_row_tx_def demo_shop_def demo_db_def first_where_def)
  ultimately have "submit_batch_tx demo_registry commerce_credit_ledger demo_pricing_codec demo_batch_codec 7 3 ''n'' demo_request
       ''ps_1'' ''q'' ''q'' 1500 1500 demo_shop = Inr (\<lparr>br_batch = b', br_items = [i]\<rparr>, ?s6)"
    using demo_claim by (simp add: submit_batch_tx_def Let_def)
  then show thesis by (rule that) (simp add: i(2))
qed

end
