(* ===== verification/BatchFacts.thy ===== *)
theory BatchFacts
  imports System
begin

text \<open>
  Facts about single operations of the batch service: replaying a submission, canonical
  requests, repeated transactions.
\<close>

section \<open>Replays\<close>

definition batch_tag :: "commerce_generation_batch \<Rightarrow> uid \<times> uid \<times> uid \<times> string \<times> string" where
  "batch_tag b = (bat_id b, bat_user b, bat_project b, bat_idempotency_key b, bat_request_digest b)"

text \<open>What a replay reads: the tags of the batches and the projects.\<close>

definition tag_frame :: "commerce_db \<Rightarrow> commerce_db \<Rightarrow> bool" where
  "tag_frame s s' \<longleftrightarrow> map batch_tag (batches s') = map batch_tag (batches s) \<and> projects s' = projects s"

lemma tag_frame_trans: "tag_frame a b \<Longrightarrow> tag_frame b c \<Longrightarrow> tag_frame a c"
  by (simp add: tag_frame_def)

lemma tag_frame_refl: "tag_frame s s"
  by (simp add: tag_frame_def)

lemma reserve_tag_frame: "reserve_tx rr s = Inr (r, s') \<Longrightarrow> tag_frame s s'"
  by (drule reserve_tx_frame) (simp add: ledger_frame_def tag_frame_def)

lemma update_batches_tag_frame:
  "(\<And>b. P b \<Longrightarrow> batch_tag (f b) = batch_tag b) \<Longrightarrow> tag_frame s (update_batches P f s)"
  by (simp add: tag_frame_def update_batches_def map_update_where)

lemma refresh_tag_frame: "tag_frame s (refresh_batch_counters u k now s)"
  unfolding refresh_batch_counters_def by (rule update_batches_tag_frame) (simp add: batch_tag_def)

lemma set_reservation_tag_frame: "tag_frame s (set_batch_reservation k u r s)"
  unfolding set_batch_reservation_def by (rule update_batches_tag_frame) (simp add: batch_tag_def)

lemma consume_tag_frame: "consume_snapshot k u p now s = Inr s' \<Longrightarrow> tag_frame s s'"
  by (auto simp: consume_snapshot_def Let_def tag_frame_def split: if_splits)

lemma insert_tag_frame:
  "insert_item i s = Inr (i', s') \<Longrightarrow> tag_frame s s'" "insert_job j s = Inr s' \<Longrightarrow> tag_frame s s'"
  by (auto simp: insert_item_def insert_job_def tag_frame_def Let_def split: if_splits)

lemma submit_item_tag_frame:
  assumes "submit_item c b r quality json n x (created, s) = Inr (created', s')" shows "tag_frame s s'"
proof -
  obtain index compiled where x: "x = (index, compiled)" by (cases x)
  obtain out i' s1 where "insert_item (submitted_item b r quality json out index compiled) s = Inr (i', s1)"
      "insert_job (submitted_job i' (bat_idempotency_key b @ '':job:'' @ show_nat index) n) s1 = Inr s'"
    using assms by (auto simp: submit_item_def x inv_simps)
  then show ?thesis using insert_tag_frame tag_frame_trans by blast
qed

lemma submit_items_tag_frame:
  "fold_result (submit_item c b r quality json n) xs (created, s) = Inr (created', s') \<Longrightarrow> tag_frame s s'"
proof (induction xs arbitrary: created s)
  case (Cons x xs)
  from Cons.prems obtain created1 s1 where "submit_item c b r quality json n x (created, s) = Inr (created1, s1)"
    "fold_result (submit_item c b r quality json n) xs (created1, s1) = Inr (created', s')"
    by (auto simp: inv_simps)
  then show ?case using Cons.IH submit_item_tag_frame tag_frame_trans by blast
qed (simp add: tag_frame_refl)

lemma first_where_tagged:
  assumes tags: "map batch_tag (batches s') = map batch_tag (batches s) @ [(k, user, project, key, digest)]"
    and new: "\<And>b. b \<in> set (batches s) \<Longrightarrow> bat_user b = user \<Longrightarrow> bat_idempotency_key b \<noteq> key"
  obtains b where "first_where (\<lambda>b. bat_user b = user \<and> bat_idempotency_key b = key) (batches s') = Some b"
    "batch_tag b = (k, user, project, key, digest)"
proof -
  obtain bs b where split: "batches s' = bs @ [b]" "map batch_tag bs = map batch_tag (batches s)" "batch_tag b = (k, user, project, key, digest)"
    using tags by (auto simp: map_eq_append_conv)
  have "bat_idempotency_key x \<noteq> key" if x: "x \<in> set bs" "bat_user x = user" for x
  proof -
    have "batch_tag x \<in> set (map batch_tag (batches s))" using x(1) split(2) by (metis image_eqI list.set_map)
    then obtain y where "y \<in> set (batches s)" "batch_tag y = batch_tag x" by auto
    then show ?thesis using new [of y] x(2) by (auto simp: batch_tag_def)
  qed
  then have "first_where (\<lambda>b. bat_user b = user \<and> bat_idempotency_key b = key) bs = None"
    by (auto simp: first_where_None)
  then have "first_where (\<lambda>b. bat_user b = user \<and> bat_idempotency_key b = key) (batches s') = Some b"
    using split(1,3) by (simp add: first_where_append first_where_single batch_tag_def)
  with split(3) show thesis using that by blast
qed

lemma submit_claimed_tags:
  assumes claim: "claim_batch_row b0 s = Some (b, s1)"
    and run: "submit_claimed registry commerce_credit_ledger pricing c user project req snapshot_id digest json t1 t2 b s1 =
      Inr (result, s')"
  shows "map batch_tag (batches s') = map batch_tag (batches s) @ [batch_tag b]" "projects s' = projects s"
    "bat_id (br_batch result) = bat_id b"
proof -
  from run obtain snapshot p compiled amount pricing_json r s2 q n created s4 s5 where
    res: "op_reserve commerce_credit_ledger (reservation_of_batch
        (priced_batch b p snapshot pricing_json (map (stamp_pricing (ps_id snapshot) (ps_version snapshot)) compiled))
        (sum_list (map cp_estimated (map (stamp_pricing (ps_id snapshot) (ps_version snapshot)) compiled)))
        (''commerce:batch:'' @ bat_idempotency_key b))
      (save_batch (priced_batch b p snapshot pricing_json (map (stamp_pricing (ps_id snapshot) (ps_version snapshot)) compiled)) s1) =
      Inr (r, s2)" and
    loop: "fold_result (submit_item c (priced_batch b p snapshot pricing_json (map (stamp_pricing (ps_id snapshot) (ps_version snapshot)) compiled))
          (rs_reservation r) q json n)
        (enumerate 0 (map (stamp_pricing (ps_id snapshot) (ps_version snapshot)) compiled))
        ([], set_batch_reservation (bat_id b) user (rs_reservation r) s2) = Inr (created, s4)" and
    fin: "consume_snapshot (ps_id snapshot) user project t2 s4 = Inr s5" "s' = refresh_batch_counters user (bat_id b) t2 s5"
      "first_where (\<lambda>x. bat_id x = bat_id b \<and> bat_user x = user) (batches s') = Some (br_batch result)"
    unfolding submit_claimed_def Let_def by (auto simp: inv_simps split: if_splits option.splits)
  define its where "its = map (stamp_pricing (ps_id snapshot) (ps_version snapshot)) compiled"
  note res = res [folded its_def] and loop = loop [folded its_def]
  have reserve: "op_reserve commerce_credit_ledger rr s = Inr (r, s') \<Longrightarrow> tag_frame s s'" for rr s r s'
    using reserve_tag_frame by (simp add: commerce_credit_ledger_def)
  let ?b = "priced_batch b p snapshot pricing_json its"
  have save: "save_batch ?b s1 = s\<lparr>batches := batches s @ [?b]\<rparr>"
    by (rule save_claimed [OF claim]) (simp add: priced_batch_def)
  have "tag_frame (save_batch ?b s1) s'"
    using reserve [OF res] set_reservation_tag_frame [of s2] submit_items_tag_frame [OF loop]
      consume_tag_frame [OF fin(1)] refresh_tag_frame [of s5] fin(2) by (metis tag_frame_trans)
  then show "map batch_tag (batches s') = map batch_tag (batches s) @ [batch_tag b]" "projects s' = projects s"
    unfolding save by (simp_all add: tag_frame_def batch_tag_def priced_batch_def)
  show "bat_id (br_batch result) = bat_id b" using first_where_Some [OF fin(3)] by simp
qed

text \<open>A submission that succeeded is answered from the database from then on.\<close>

lemma submit_again:
  assumes run: "submit_batch_tx registry commerce_credit_ledger pricing c user project key req snapshot_id digest json t1 t2 s =
      Inr (result, s')"
  shows "\<exists>result'. submit_batch_tx registry' ledger' pricing' c' user project key req' snapshot_id' digest json' t1' t2' s' =
      Inr (result', s') \<and> bat_id (br_batch result') = bat_id (br_batch result)"
proof -
  let ?mine = "\<lambda>b. bat_user b = user \<and> bat_idempotency_key b = key"
  show ?thesis
  proof (cases "first_where ?mine (batches s)")
    case (Some b)
    have "submit_batch_tx r l pr cd user project key rq si digest js u1 u2 s =
        and_then (replayed_batch user project key digest b s) (\<lambda>result.
        and_then (lock_writable_project_tx user (bat_project b) s) (\<lambda>_. Inr (result, s)))" for r l pr cd rq si js u1 u2
      unfolding submit_batch_tx_def Let_def Some by simp
    with run show ?thesis by (auto simp: and_then_eq_Inr)
  next
    case None
    with run obtain p b s1 where lock: "lock_writable_project_tx user project s = Inr p"
      and claim: "claim_batch_row (claimed_batch user project key req digest json) s = Some (b, s1)"
      and sub: "submit_claimed registry commerce_credit_ledger pricing c user project req snapshot_id digest json t1 t2 b s1 =
        Inr (result, s')"
      by (auto simp: submit_batch_tx_def Let_def inv_simps split: option.splits)
    note T = submit_claimed_tags [OF claim sub]
    have b: "batch_tag b = (bat_id b, user, project, key, digest)"
      using claim_batch_row_Some(1) [OF claim] by (simp add: batch_tag_def claimed_batch_def)
    have new: "bat_idempotency_key x \<noteq> key" if "x \<in> set (batches s)" "bat_user x = user" for x
      using that None by (auto simp: first_where_None)
    obtain b' where b': "first_where ?mine (batches s') = Some b'" "batch_tag b' = (bat_id b, user, project, key, digest)"
      using T(1) new unfolding b by (rule first_where_tagged)
    have "lock_writable_project_tx user project s' = lock_writable_project_tx user project s"
      unfolding lock_writable_project_tx_def lock_project_row_tx_def T(2) ..
    then have "lock_writable_project_tx user project s' = Inr p" using lock by simp
    then show ?thesis
      using b' T(3) by (simp add: submit_batch_tx_def replayed_batch_def validate_idempotency_replay_def batch_tag_def)
  qed
qed

section \<open>Canonical requests\<close>

lemma sort_key_perm:
  assumes "mset xs = mset ys" and "distinct (map fst xs)"
  shows "sort_key fst xs = sort_key fst (ys :: (string \<times> 'a) list)"
proof (rule properties_for_sort_key)
  show "mset (sort_key fst ys) = mset xs" using assms(1) by simp
  show "filter (\<lambda>y. fst x = fst y) (sort_key fst ys) = filter (\<lambda>y. fst x = fst y) xs" if k: "x \<in> set (sort_key fst ys)" for x
  proof -
    have x: "x \<in> set xs" using k mset_eq_setD [OF assms(1)] by simp
    have one: "filter (\<lambda>y. fst x = fst y) zs = [x]" if "mset zs = mset xs" for zs
    proof -
      have d: "distinct (map fst zs)" using assms(2) that by (metis mset_eq_imp_distinct_iff mset_map)
      have "x \<in> set zs" using x that by (metis mset_eq_setD)
      with d show ?thesis
      proof (induction zs)
        case (Cons z zs)
        show ?case
        proof (cases "x = z")
          case True
          with Cons.prems(1) have "filter (\<lambda>y. fst x = fst y) zs = []" by (auto simp: filter_empty_conv)
          with True show ?thesis by simp
        next
          case False
          with Cons.prems(2) have x: "x \<in> set zs" by simp
          then have "fst x \<in> fst ` set zs" by (rule imageI)
          moreover have "fst z \<notin> fst ` set zs" using Cons.prems(1) by simp
          ultimately have "fst x \<noteq> fst z" by metis
          moreover have "filter (\<lambda>y. fst x = fst y) zs = [x]" using Cons x by simp
          ultimately show ?thesis by simp
        qed
      qed simp
    qed
    have "filter (\<lambda>y. fst x = fst y) (sort_key fst ys) = [x]"
      by (rule one) (use assms(1) in simp)
    with one [of xs] show ?thesis by simp
  qed
qed simp

lemma encode_parameters_map:
  "encode_parameters enc ps = Inr qs \<longleftrightarrow> (\<forall>(k, v) \<in> set ps. enc v \<noteq> None) \<and> qs = map (\<lambda>(k, v). (k, the (enc v))) ps"
proof (induction enc ps arbitrary: qs rule: encode_parameters.induct)
  case (2 enc k v ps)
  then show ?case by (cases "enc v") (auto simp: encoded_def inv_simps)
qed auto

lemma canonical_request_order:
  assumes run: "canonical_request_of c req = Inr canonical"
    and b: "mset bindings = mset (er_bindings req)" "distinct (map fst (er_bindings req))"
    and p: "mset params = mset (er_parameters req)" "distinct (map fst (er_parameters req))"
  shows "canonical_request_of c (req\<lparr>er_bindings := bindings, er_parameters := params\<rparr>) = Inr canonical"
proof -
  obtain qs where qs: "encode_parameters (bc_value c) (er_parameters req) = Inr qs"
    using run by (auto simp: canonical_request_of_def inv_simps)
  let ?f = "\<lambda>(k, v). (k, the (bc_value c v))"
  have "set params = set (er_parameters req)" using p(1) by (rule mset_eq_setD)
  then have q: "qs = map ?f (er_parameters req)" "\<forall>(k, v) \<in> set params. bc_value c v \<noteq> None"
    using qs by (simp_all add: encode_parameters_map)
  then have "encode_parameters (bc_value c) params = Inr (map ?f params)" by (simp add: encode_parameters_map)
  moreover have "sort_key fst (map ?f params) = sort_key fst qs"
  proof (rule sort_key_perm)
    show "mset (map ?f params) = mset qs" by (simp add: q(1) p(1))
    have "map fst (map ?f params) = map fst params" by (auto simp: comp_def)
    then show "distinct (map fst (map ?f params))"
      using p by (metis mset_eq_imp_distinct_iff mset_map)
  qed
  moreover have "sort_key fst bindings = sort_key fst (er_bindings req)"
  proof (rule sort_key_perm [OF b(1)])
    show "distinct (map fst bindings)" using b by (metis mset_eq_imp_distinct_iff mset_map)
  qed
  ultimately show ?thesis using run qs by (simp add: canonical_request_of_def)
qed

section \<open>Repeated transactions\<close>

lemma project_mutation_outcome:
  "project_mutation sqlite n locks m s = (Inl ErrInfrastructure, s) \<or> project_mutation sqlite n locks m s = run_tx m s"
  by (induction sqlite n locks m s rule: project_mutation.induct) auto

lemma project_mutation_retries:
  "k < n \<Longrightarrow> locks = [] \<or> \<not> hd locks \<Longrightarrow> project_mutation True n (replicate k True @ locks) m s = run_tx m s"
proof (induction k arbitrary: n)
  case 0
  then show ?case by (cases locks; cases "hd locks") auto
qed auto

end
