(* ===== verification/BatchClaims.thy ===== *)
theory BatchClaims
  imports DemoShop BatchFacts
begin

text \<open>What estimates, submissions and cancellations promise, with the demo shop as the witness.\<close>

section \<open>Pricing snapshots\<close>

text \<open>
  Provided that the JSON codec reads what it writes, an issued pricing snapshot resolves, for
  its own user, project and request until it expires, to exactly the snapshot that was issued.
\<close>
theorem issued_snapshot_resolves:
  assumes "issue_tx c p s = Inr (p', s')"
    and "\<And>x t. pc_encode c x = Some t \<Longrightarrow> pc_decode c t = Some x"
    and "\<not> blank (ps_id p')" and "now < ps_expires_at p'"
  shows "resolve_for_submit_tx c (ps_user p') (ps_project p') (ps_id p') (ps_request_digest p') now s' = Inr p'"
  using assms by (rule issue_resolve)

definition demo_unpriced :: commerce_db where
  "demo_unpriced = demo_shop\<lparr>pricing_snapshots := []\<rparr>"

theorem issued_snapshot_resolves_witness:
  "\<exists>s'. issue_tx demo_pricing_codec (demo_snapshot\<lparr>ps_id := []\<rparr>) demo_unpriced = Inr (demo_snapshot, s') \<and>
     resolve_for_submit_tx demo_pricing_codec 7 3 ''ps_1'' ''q'' 1500 s' = Inr demo_snapshot"
proof -
  have b: "\<not> blank ''q''" "\<not> blank ''ps_1''" by (subst blank_literal; simp add: literal_bytes_def)+
  then obtain s' where s': "issue_tx demo_pricing_codec (demo_snapshot\<lparr>ps_id := []\<rparr>) demo_unpriced = Inr (demo_snapshot, s')"
    by (simp add: issue_tx_def demo_snapshot_def demo_unpriced_def demo_pricing_codec_def opaque_snapshot_id_def
        snapshot_payload_def demo_payload_def insert_pricing_row_def first_where_def Let_def)
  have codec: "\<And>x t. pc_encode demo_pricing_codec x = Some t \<Longrightarrow> pc_decode demo_pricing_codec t = Some x"
    by (simp add: demo_pricing_codec_def split: if_splits)
  have "\<not> blank (ps_id demo_snapshot)" "1500 < ps_expires_at demo_snapshot" using b by (simp_all add: demo_snapshot_def)
  from issued_snapshot_resolves [OF s' codec this] s' show ?thesis by (simp add: demo_snapshot_def)
qed

text \<open>
  A pricing snapshot that a submission has consumed is refused as stale when it is consumed
  again.
\<close>
theorem snapshot_consumed_once:
  assumes "consume_snapshot k user project now s = Inr s'" and "now \<le> later"
  shows "consume_snapshot k user project later s' = Inl ErrPricingSnapshotStale"
proof -
  let ?hit = "\<lambda>t r. cps_id r = k \<and> cps_user r = user \<and> cps_project r = project \<and> cps_status r = ''issued'' \<and> t < cps_expires_at r"
  have rows: "pricing_snapshots s' = update_where (?hit now)
      (\<lambda>r. r\<lparr>cps_status := ''consumed'', cps_consumed_at := Some now\<rparr>) (pricing_snapshots s)"
    using assms(1) by (auto simp: consume_snapshot_def Let_def split: if_splits)
  have "count_where (?hit later) (pricing_snapshots s') = 0"
    unfolding rows count_where_0
  proof
    fix r assume "r \<in> set (update_where (?hit now) (\<lambda>r. r\<lparr>cps_status := ''consumed'', cps_consumed_at := Some now\<rparr>) (pricing_snapshots s))"
    then obtain x where "r = (if ?hit now x then x\<lparr>cps_status := ''consumed'', cps_consumed_at := Some now\<rparr> else x)"
      unfolding set_update_where by blast
    then show "\<not> ?hit later r" using assms(2) by (cases "?hit now x") auto
  qed
  then show ?thesis by (simp add: consume_snapshot_def)
qed

theorem snapshot_consumed_once_witness:
  "\<exists>s'. consume_snapshot ''ps_1'' 7 3 1500 demo_shop = Inr s' \<and>
     consume_snapshot ''ps_1'' 7 3 1600 s' = Inl ErrPricingSnapshotStale"
proof -
  obtain s' where s': "consume_snapshot ''ps_1'' 7 3 1500 demo_shop = Inr s'"
    by (simp add: consume_snapshot_def demo_shop_def demo_price_row_def pricing_row_def demo_snapshot_def Let_def)
  from snapshot_consumed_once [OF s', of 1600] s' show ?thesis by simp
qed

section \<open>Submissions\<close>

text \<open>
  Permuting the asset bindings and the parameters of a request, which Go iterates in any
  order, changes neither its canonical text nor its digest.
\<close>
theorem canonical_request_ignores_order:
  assumes "canonical_batch_request_digest c req = Inr (digest, json)"
    and "mset bindings = mset (er_bindings req)" and "distinct (map fst (er_bindings req))"
    and "mset params = mset (er_parameters req)" and "distinct (map fst (er_parameters req))"
  shows "canonical_batch_request_digest c (req\<lparr>er_bindings := bindings, er_parameters := params\<rparr>) = Inr (digest, json)"
proof -
  obtain canonical where "canonical_request_of c req = Inr canonical" "encoded (bc_request c) canonical = Inr json"
      "digest = bc_sha c json"
    using assms(1) by (auto simp: canonical_batch_request_digest_def inv_simps)
  with canonical_request_order [OF _ assms(2-5)] show ?thesis by (simp add: canonical_batch_request_digest_def)
qed

theorem canonical_request_ignores_order_witness:
  "let req = demo_request\<lparr>er_bindings := [(''a'', [1]), (''b'', [2])]\<rparr> in
   canonical_batch_request_digest demo_batch_codec (req\<lparr>er_bindings := [(''b'', [2]), (''a'', [1])], er_parameters := []\<rparr>) =
     Inr (''q'', ''q'')"
proof -
  let ?req = "demo_request\<lparr>er_bindings := [(''a'', [1]), (''b'', [2])]\<rparr>"
  have run: "canonical_batch_request_digest demo_batch_codec ?req = Inr (''q'', ''q'')"
    by (simp add: canonical_batch_request_digest_def canonical_request_of_def demo_batch_codec_def encoded_def)
  show ?thesis
    unfolding Let_def
    by (rule canonical_request_ignores_order [OF run]) (simp_all add: add_mset_commute)
qed

text \<open>
  A submission whose key the user has used already returns the stored batch with its items if
  project and digest are the same and the project is writable, is refused otherwise, and never
  changes the database.
\<close>
theorem submit_replays_stored_batch:
  assumes "first_where (\<lambda>b. bat_user b = user \<and> bat_idempotency_key b = key) (batches s) = Some b"
  shows "submit_batch_tx registry ledger pricing c user project key req snapshot_id digest json t1 t2 s =
    (if bat_project b \<noteq> project \<or> bat_request_digest b \<noteq> digest then Inl ErrIdempotencyConflict
     else and_then (lock_writable_project_tx user project s) (\<lambda>_.
       Inr (\<lparr>br_batch = b, br_items = load_batch_items user (bat_id b) s\<rparr>, s)))"
proof -
  have "bat_idempotency_key b = key" using first_where_Some [OF assms] by simp
  then show ?thesis
    unfolding submit_batch_tx_def Let_def assms
    by (simp add: replayed_batch_def validate_idempotency_replay_def)
qed

theorem submit_replays_stored_batch_witness:
  "submit_batch_tx demo_registry commerce_credit_ledger demo_pricing_codec demo_batch_codec 7 3 ''k'' demo_request
       ''ps_1'' ''d'' ''j'' 1 2 demo_shop =
     Inr (\<lparr>br_batch = demo_batch, br_items = load_batch_items 7 1 demo_shop\<rparr>, demo_shop)"
proof -
  have "first_where (\<lambda>b. bat_user b = 7 \<and> bat_idempotency_key b = ''k'') (batches demo_shop) = Some demo_batch"
    by (simp add: demo_shop_def demo_db_def demo_batch_def first_where_def)
  moreover have "lock_writable_project_tx 7 3 demo_shop = Inr demo_project"
    by (simp add: lock_writable_project_tx_def lock_project_row_tx_def demo_shop_def demo_db_def first_where_def)
  ultimately show ?thesis
    using submit_replays_stored_batch [of 7 "''k''" demo_shop demo_batch] by (simp add: demo_batch_def)
qed

text \<open>
  C15. After a successful submission, submitting again under the same user, project, key and
  digest succeeds and returns the same batch, whatever the rest of the second request says and
  however late it comes; the database does not change.
\<close>
theorem submit_is_idempotent:
  assumes "submit_batch_tx registry commerce_credit_ledger pricing c user project key req snapshot_id digest json t1 t2 s =
      Inr (result, s')"
  shows "\<exists>result'. submit_batch_tx registry' ledger' pricing' c' user project key req' snapshot_id' digest json' t1' t2' s' =
      Inr (result', s') \<and> bat_id (br_batch result') = bat_id (br_batch result)"
  using assms by (rule submit_again)

theorem submit_is_idempotent_witness:
  "\<exists>result s'. submit_batch_tx demo_registry commerce_credit_ledger demo_pricing_codec demo_batch_codec 7 3 ''n'' demo_request
       ''ps_1'' ''q'' ''q'' 1500 1500 demo_shop = Inr (result, s') \<and>
     (\<exists>result'. submit_batch_tx demo_registry commerce_credit_ledger demo_pricing_codec demo_batch_codec 7 3 ''n'' demo_request
       ''ps_1'' ''q'' ''q'' 1600 1600 s' = Inr (result', s'))"
proof (rule demo_submit)
  fix result s' assume run: "submit_batch_tx demo_registry commerce_credit_ledger demo_pricing_codec demo_batch_codec 7 3 ''n''
      demo_request ''ps_1'' ''q'' ''q'' 1500 1500 demo_shop = Inr (result, s')"
  from submit_is_idempotent [OF run, of demo_registry commerce_credit_ledger demo_pricing_codec demo_batch_codec demo_request
      "''ps_1''" "''q''" 1600 1600] run show ?thesis by blast
qed

text \<open>
  A submission, whether it succeeds, replays or fails, under any lock conflicts, keeps the
  work invariant and the funds of every user.
\<close>
theorem submit_keeps_work:
  assumes "work_ok s" and "service_ok svc"
    and "submit_batch svc sqlite locks user project key req snapshot_id t1 t2 s = (outcome, s')"
  shows "work_ok s' \<and> funds u (account_of s') = funds u (account_of s)"
proof -
  obtain registry where "bs_ledger svc = Some commerce_credit_ledger" "bs_registry svc = Some registry" "registry_ok registry"
    using assms(2) by (auto simp: service_ok_def split: option.splits)
  from worker.submit_batch_keeps [OF this, of s sqlite locks user project key req snapshot_id t1 t2] assms(1,3)
  show ?thesis by (simp add: worker.keeps_def good_iff_work_ok)
qed

lemma demo_shop_work_ok: "work_ok demo_shop"
proof -
  have "worker.keeps demo_db demo_shop"
    by (rule worker_keeps_I) (simp add: demo_shop_def work_frame_def same_ledger_def view_items_def batch_keys_def)
  then show ?thesis using demo_work_ok by (simp add: worker.keeps_def good_iff_work_ok)
qed

lemma demo_submit_batch:
  obtains result s' where
    "submit_batch demo_service True [True, False] 7 3 ''n'' demo_request ''ps_1'' 1500 1500 demo_shop = (Inr result, s')"
    "map itm_status (br_items result) = [ItemQueued]"
proof (rule demo_submit)
  fix result s' assume run: "submit_batch_tx demo_registry commerce_credit_ledger demo_pricing_codec demo_batch_codec 7 3 ''n''
      demo_request ''ps_1'' ''q'' ''q'' 1500 1500 demo_shop = Inr (result, s')" "map itm_status (br_items result) = [ItemQueued]"
  have "trim_space ''n'' = ''n''" by (rule trim_space_literal) (simp add: literal_bytes_def)
  moreover have "canonical_batch_request_digest demo_batch_codec demo_request = Inr (''q'', ''q'')"
    by (simp add: canonical_batch_request_digest_def canonical_request_of_def demo_batch_codec_def encoded_def)
  moreover have "project_mutation True sqlite_lock_attempts [True, False] m s = run_tx m s"
    for m :: "commerce_db \<Rightarrow> commerce_error + batch_snapshot \<times> commerce_db" and s
    by (simp add: sqlite_lock_attempts_def)
  ultimately have "submit_batch demo_service True [True, False] 7 3 ''n'' demo_request ''ps_1'' 1500 1500 demo_shop = (Inr result, s')"
    using run(1) by (simp add: submit_batch_def ensure_batch_infrastructure_def demo_service_def Let_def run_tx_def)
  from this run(2) show thesis by (rule that)
qed

theorem submit_keeps_work_witness:
  "\<exists>result s'. submit_batch demo_service True [True, False] 7 3 ''n'' demo_request ''ps_1'' 1500 1500 demo_shop = (Inr result, s') \<and>
     map itm_status (br_items result) = [ItemQueued] \<and> work_ok s' \<and> funds 7 (account_of s') = funds 7 (account_of demo_shop)"
proof (rule demo_submit_batch)
  fix result s' assume run: "submit_batch demo_service True [True, False] 7 3 ''n'' demo_request ''ps_1'' 1500 1500 demo_shop =
      (Inr result, s')" "map itm_status (br_items result) = [ItemQueued]"
  from submit_keeps_work [OF demo_shop_work_ok demo_service_ok run(1), of 7] run show ?thesis
    by (intro exI [of _ result] exI [of _ s']) simp
qed

section \<open>Cancellations\<close>

text \<open>
  C16. A successful cancellation of a batch keeps the work invariant and all funds, leaves no
  waiting job in the batch, requests the cancellation of its running jobs, and leaves the jobs of
  other batches as they are.
\<close>
theorem cancel_batch_stops_batch:
  assumes "work_ok s" and "cancel_batch_tx commerce_credit_ledger user batch project now s = Inr (result, s')"
  shows "work_ok s' \<and> funds u (account_of s') = funds u (account_of s) \<and>
    (\<forall>j \<in> set (jobs s'). job_user j = user \<and> job_batch j = Some batch \<longrightarrow> \<not> job_waiting (job_status j) \<and>
       (job_status j = JobRunning \<longrightarrow> job_cancel_requested_at j \<noteq> None)) \<and>
    (\<forall>j \<in> set (jobs s). \<not> (job_user j = user \<and> job_batch j = Some batch) \<longrightarrow> j \<in> set (jobs s'))"
proof -
  have g: "worker.good s" using assms(1) by (simp add: good_iff_work_ok)
  note E = worker.cancel_batch_tx_effect [OF g assms(2)]
  let ?mine = "\<lambda>j. job_user j = user \<and> job_batch j = Some batch"
  let ?stopped = "\<lambda>j. \<not> job_waiting (job_status j) \<and> (job_status j = JobRunning \<longrightarrow> job_cancel_requested_at j \<noteq> None)"
  have row: "?stopped (cancel_row now j)" for j by (auto simp: cancel_row_def job_waiting_def)
  have "?stopped j" if j: "j \<in> set (jobs s')" "?mine j" for j
  proof -
    obtain k where "j = (if ?mine k then cancel_row now k else k)" using j(1) unfolding E(2) set_map by blast
    with j(2) row show ?thesis by (cases "?mine k") auto
  qed
  moreover have "j \<in> set (jobs s')" if j: "j \<in> set (jobs s)" "\<not> ?mine j" for j
    unfolding E(2) set_map using j by (intro image_eqI [of _ _ j]) auto
  moreover have "work_ok s' \<and> funds u (account_of s') = funds u (account_of s)"
    using E(1) g by (simp add: worker.keeps_def good_iff_work_ok)
  ultimately show ?thesis by blast
qed

theorem cancel_batch_stops_batch_witness:
  "\<exists>result s'. cancel_batch_tx commerce_credit_ledger 7 1 3 1100 demo_db = Inr (result, s') \<and> work_ok s' \<and>
     (\<forall>j \<in> set (jobs s'). job_user j = 7 \<and> job_batch j = Some 1 \<longrightarrow> \<not> job_waiting (job_status j))"
proof -
  have "\<exists>result s'. cancel_batch_tx commerce_credit_ledger 7 1 3 1100 demo_db = Inr (result, s')"
    by (simp add: cancel_batch_tx_def lock_project_row_tx_def demo_defs first_where_def item_open_def item_waiting_def
        job_open_def cancel_batch_item_def commerce_credit_ledger_def user_cancel_def release_request_of_def
        release_item_tx_def claim_commerce_settlement_def release_claimed_def release_row_def
        load_commerce_settlement_scope_def request_item_cancel_def job_waiting_def
        move_reserved_credits_def update_commerce_reservation_settlement_def table_defs
        create_commerce_release_transaction_def record_item_settlement_def cancel_batch_job_def
        emit_commerce_event_def insert_event_def insert_transaction_def refresh_batch_counters_def Let_def)
  then obtain result s' where run: "cancel_batch_tx commerce_credit_ledger 7 1 3 1100 demo_db = Inr (result, s')" by blast
  from cancel_batch_stops_batch [OF demo_work_ok run, of 7] run show ?thesis
    by (intro exI [of _ result] exI [of _ s']) simp
qed

section \<open>The system\<close>

text \<open>
  C1. Every state that submissions, cancellations, retries, project deletions, estimates and queue
  operations reach in any order from a consistent state is consistent again: ledger, items, jobs
  and holds agree; and the funds of every user (available, held and settled credits together) are
  those of the start.
\<close>
theorem reachable_states_consistent:
  assumes "reachable svc q s0 s" and "service_ok svc" and "q = commerce_worker_queue json host pid token" and "work_ok s0"
  shows "work_ok s \<and> funds u (account_of s) = funds u (account_of s0)"
  using reachable_keeps [OF assms(1-3)] assms(4) by (simp add: worker.keeps_def good_iff_work_ok)

theorem reachable_states_consistent_witness:
  "\<exists>result s. submit_batch demo_service True [True, False] 7 3 ''n'' demo_request ''ps_1'' 1500 1500 demo_shop = (Inr result, s) \<and>
     reachable demo_service demo_queue demo_shop s \<and> work_ok s \<and> funds 7 (account_of s) = funds 7 (account_of demo_shop)"
proof (rule demo_submit_batch)
  fix result s assume run: "submit_batch demo_service True [True, False] 7 3 ''n'' demo_request ''ps_1'' 1500 1500 demo_shop =
      (Inr result, s)"
  have "commerce_step demo_service demo_queue demo_shop s"
    using step_submit [of demo_service demo_queue demo_shop True "[True, False]" 7 3 "''n''" demo_request "''ps_1''" 1500 1500] run
    by simp
  then have r: "reachable demo_service demo_queue demo_shop s" using reach_start by (rule reach_step [rotated])
  from reachable_states_consistent [OF r demo_service_ok demo_queue_def demo_shop_work_ok, of 7] run r show ?thesis
    by (intro exI [of _ result] exI [of _ s]) simp
qed

text \<open>
  C2. In a reachable state without an open job every item has been settled or released, and no
  reservation holds credits any more: no credits are stranded.
\<close>
theorem finished_work_holds_nothing:
  assumes "reachable svc q s0 s" and "service_ok svc" and "q = commerce_worker_queue json host pid token" and "work_ok s0"
    and "\<forall>j \<in> set (jobs s). \<not> job_open (job_status j)"
  shows "(\<forall>i \<in> set (items s). item_settled (itm_id i) s) \<and> (\<forall>r \<in> set (reservations s). rsv_reserved r = 0)"
  using reachable_keeps [OF assms(1-3)] assms(4,5)
  by (intro work_ok_finished) (simp_all add: worker.keeps_def good_iff_work_ok)

text \<open>An item and its job that succeeded, 6 of 10 credits settled.\<close>

definition demo_finished :: commerce_db where
  "demo_finished = demo_db\<lparr>items := [demo_item 1 ItemSucceeded], jobs := [demo_job 1 JobSucceeded [] [] None 1],
     settlements := [(settle_row (settle_request_of (demo_item 1 ItemRunning) 6))\<lparr>stl_id := 1\<rparr>],
     reservations := [demo_reservation\<lparr>rsv_total := 10, rsv_reserved := 0, rsv_settled := 6, rsv_released := 4\<rparr>],
     balances := [demo_balance\<lparr>bal_available := 94, bal_reserved := 0\<rparr>]\<rparr>"

lemma demo_finished_work_ok: "work_ok demo_finished"
proof -
  have "coupled demo_finished"
    by (simp add: demo_finished_def demo_defs coupled_def coupled_rows_def job_tab.unique_def iv_tab.unique_def view_items_def
        view_item_def batch_keys_def job_row_ok_def couple_def job_waiting_def)
  moreover have "ledger_ok demo_finished"
    by (simp add: demo_finished_def demo_defs ledger_ok_def balance_ok_def reservation_ok_def bal_tab.unique_def
        rsv_tab.unique_def stl_tab.unique_def settlement_ok_def settle_row_def settle_amounts_def settle_request_of_def)
  moreover have "holds_match demo_finished"
    by (auto simp: demo_finished_def demo_defs holds_match_def item_settled_def item_terminal_def account_of_def
        batch_key_known_def batch_keys_def settle_row_def settle_amounts_def settle_request_of_def)
  ultimately show ?thesis by (simp add: work_ok_def)
qed

theorem finished_work_holds_nothing_witness:
  "reachable demo_service demo_queue demo_finished demo_finished \<and> item_settled 1 demo_finished \<and>
   rsv_reserved (hd (reservations demo_finished)) = 0"
proof -
  have "\<forall>j \<in> set (jobs demo_finished). \<not> job_open (job_status j)"
    by (simp add: demo_finished_def demo_job_def job_open_def)
  from finished_work_holds_nothing [OF reach_start demo_service_ok demo_queue_def demo_finished_work_ok this] show ?thesis
    by (simp add: demo_finished_def demo_item_def reach_start)
qed

text \<open>
  C3. In every reachable state an item has exactly one job, of the same user, and the status of
  the item is the one that the status of the job stands for.
\<close>
theorem item_follows_its_job:
  assumes "reachable svc q s0 s" and "service_ok svc" and "q = commerce_worker_queue json host pid token" and "work_ok s0"
    and "i \<in> set (items s)"
  shows "(\<exists>!j. j \<in> set (jobs s) \<and> job_item j = Some (itm_id i)) \<and>
    (\<forall>j \<in> set (jobs s). job_item j = Some (itm_id i) \<longrightarrow> itm_status i = item_status_of (job_status j) \<and> itm_user i = job_user j)"
proof -
  have "work_ok s" using reachable_keeps [OF assms(1-3)] assms(4) by (simp add: worker.keeps_def good_iff_work_ok)
  then obtain j where "j \<in> set (jobs s)" "job_item j = Some (itm_id i)" "itm_status i = item_status_of (job_status j)"
    "itm_user i = job_user j" "\<And>j'. j' \<in> set (jobs s) \<Longrightarrow> job_item j' = Some (itm_id i) \<Longrightarrow> j' = j"
    using work_ok_item_job [OF _ assms(5)] by metis
  then show ?thesis by blast
qed

theorem item_follows_its_job_witness:
  "\<exists>!j. j \<in> set (jobs demo_db) \<and> job_item j = Some 2"
proof -
  have "demo_item 2 ItemQueued \<in> set (items demo_db)" by (simp add: demo_db_def)
  from item_follows_its_job [OF reach_start demo_service_ok demo_queue_def demo_work_ok this] show ?thesis
    by (simp add: demo_item_def)
qed

section \<open>Repeated transactions\<close>

text \<open>
  C27. When a SQLite database is locked fewer times than there are attempts, the transaction runs,
  once, with the effect it has on a database that is not locked.
\<close>
theorem locked_transaction_runs_once:
  assumes "k < sqlite_lock_attempts" and "locks = [] \<or> \<not> hd locks"
  shows "project_mutation True sqlite_lock_attempts (replicate k True @ locks) m s = run_tx m s"
  using assms by (rule project_mutation_retries)

theorem locked_transaction_runs_once_witness:
  "snd (project_mutation True sqlite_lock_attempts [True, True, False, True]
     (request_project_deletion (Some commerce_credit_ledger) 7 99 10) demo_db) = demo_db"
proof -
  have "project_mutation True sqlite_lock_attempts (replicate 2 True @ [False, True])
      (request_project_deletion (Some commerce_credit_ledger) 7 99 10) demo_db =
      run_tx (request_project_deletion (Some commerce_credit_ledger) 7 99 10) demo_db"
    by (rule locked_transaction_runs_once) (simp_all add: sqlite_lock_attempts_def)
  moreover have "request_project_deletion (Some commerce_credit_ledger) 7 99 10 demo_db = Inl ErrNotFound"
    by (simp add: request_project_deletion_def lock_project_row_tx_def demo_defs first_where_def)
  ultimately show ?thesis by (simp add: run_tx_def numeral_2_eq_2)
qed

end
