(* ===== verification/Limiter.thy ===== *)
theory Limiter
  imports Prelude
begin

text \<open>
  Request limits (\<^verbatim>\<open>limiter.go\<close>): a sliding window of request times per key that
  forgets idle keys, a lock per key, and a counting semaphore per key. A Go map is a function to
  options; the mutex around every method makes each a step of its own.
\<close>

section \<open>The rate limiter\<close>


record rate_limiter =
  rl_buckets :: "string \<Rightarrow> time list option"
  rl_last_gc :: time
  rl_gc_interval :: duration
  rl_idle_ttl :: duration



definition collect_idle :: "time \<Rightarrow> rate_limiter \<Rightarrow> rate_limiter" where
  "collect_idle now l =
     (if rl_gc_interval l \<le> 0 then l
      else if rl_last_gc l \<noteq> 0 \<and> now - rl_last_gc l < rl_gc_interval l then l
      else l\<lparr>rl_last_gc := now,
             rl_buckets := (\<lambda>key. case rl_buckets l key of None \<Rightarrow> None
               | Some ts \<Rightarrow> if ts = [] \<or> last ts < now - rl_idle_ttl l then None else Some ts)\<rparr>)"












lemma collect_idle_ttl [simp]: "rl_idle_ttl (collect_idle now l) = rl_idle_ttl l"
  by (simp add: collect_idle_def)







definition in_span :: "string \<Rightarrow> duration \<Rightarrow> time \<Rightarrow> (string \<times> time) list \<Rightarrow> nat" where
  "in_span key w t history = length (filter (\<lambda>(k, u). k = key \<and> t - w < u \<and> u \<le> t) history)"

lemma in_span_append [simp]: "in_span key w t (xs @ ys) = in_span key w t xs + in_span key w t ys"
  by (simp add: in_span_def)



section \<open>Locks and slots\<close>

definition try_lock :: "string \<Rightarrow> string set \<Rightarrow> bool \<times> string set" where
  "try_lock key locks = (if key \<in> locks then (False, locks) else (True, insert key locks))"

definition unlock :: "string \<Rightarrow> string set \<Rightarrow> string set" where
  "unlock key locks = locks - {key}"

record slot_limiter =
  sl_counts :: "string \<Rightarrow> int option"
  sl_limit :: int

definition new_slot_limiter :: "int \<Rightarrow> slot_limiter" where
  "new_slot_limiter limit = \<lparr>sl_counts = (\<lambda>_. None), sl_limit = (if limit < 1 then 1 else limit)\<rparr>"

definition slots_taken :: "slot_limiter \<Rightarrow> string \<Rightarrow> int" where
  "slots_taken l key = (case sl_counts l key of None \<Rightarrow> 0 | Some n \<Rightarrow> n)"

definition try_acquire :: "string \<Rightarrow> slot_limiter \<Rightarrow> bool \<times> slot_limiter" where
  "try_acquire key l =
     (if slots_taken l key \<ge> sl_limit l then (False, l)
      else (True, l\<lparr>sl_counts := (sl_counts l)(key := Some (slots_taken l key + 1))\<rparr>))"

definition release_slot :: "string \<Rightarrow> slot_limiter \<Rightarrow> slot_limiter" where
  "release_slot key l =
     (if slots_taken l key \<le> 1 then l\<lparr>sl_counts := (sl_counts l)(key := None)\<rparr>
      else l\<lparr>sl_counts := (sl_counts l)(key := Some (slots_taken l key - 1))\<rparr>)"

text \<open>
  Callers that hold slots: each may take one more or give one of its own back. \<open>held\<close> lists the
  keys of the slots that are out.
\<close>

inductive slots_reach :: "int \<Rightarrow> string list \<Rightarrow> slot_limiter \<Rightarrow> bool" for limit where
  slots_new: "slots_reach limit [] (new_slot_limiter limit)"
| slots_acquired: "slots_reach limit held l \<Longrightarrow> try_acquire key l = (True, l') \<Longrightarrow> slots_reach limit (key # held) l'"
| slots_refused: "slots_reach limit held l \<Longrightarrow> try_acquire key l = (False, l') \<Longrightarrow> slots_reach limit held l'"
| slots_released: "slots_reach limit held l \<Longrightarrow> key \<in> set held \<Longrightarrow> slots_reach limit (remove1 key held) (release_slot key l)"

lemma slots_taken_new: "slots_taken (new_slot_limiter limit) key = 0"
  by (simp add: new_slot_limiter_def slots_taken_def)

lemma try_acquire_True:
  assumes "try_acquire key l = (True, l')"
  shows "slots_taken l key < sl_limit l" and "sl_limit l' = sl_limit l"
    and "slots_taken l' k = slots_taken l k + (if k = key then 1 else 0)"
  using assms by (auto simp: try_acquire_def slots_taken_def split: if_splits)

lemma try_acquire_False: "try_acquire key l = (False, l') \<Longrightarrow> l' = l"
  by (simp add: try_acquire_def split: if_splits)

lemma release_slot_taken:
  "sl_limit (release_slot key l) = sl_limit l"
  "0 < slots_taken l key \<Longrightarrow> slots_taken (release_slot key l) k = slots_taken l k - (if k = key then 1 else 0)"
  by (auto simp: release_slot_def slots_taken_def split: option.splits)

lemma count_list_remove1: "count_list (remove1 key held) k = count_list held k - (if k = key then 1 else 0)"
  by (induction held) auto

lemma slots_counted:
  assumes "slots_reach limit held l"
  shows "sl_limit l = max 1 limit \<and> (\<forall>key. slots_taken l key = int (count_list held key) \<and>
     slots_taken l key \<le> max 1 limit)"
  using assms
proof induction
  case slots_new
  then show ?case by (auto simp: slots_taken_def new_slot_limiter_def)
next
  case (slots_acquired held l key l')
  then show ?case using try_acquire_True [OF slots_acquired(2)] by (auto intro: order_trans [rotated])
next
  case (slots_refused held l key l')
  then show ?case using try_acquire_False by metis
next
  case (slots_released held l key)
  then have "0 < count_list held key" by (metis count_list_0_iff gr0I)
  then have "0 < slots_taken l key" using slots_released.IH by simp
  moreover have le: "int (count_list held k) \<le> max 1 limit" for k using slots_released.IH by metis
  moreover have "int (count_list held k) - 1 \<le> max 1 limit" for k using le [of k] by linarith
  ultimately show ?case
    using release_slot_taken(2) [of l key] slots_released.IH \<open>0 < count_list held key\<close>
    by (simp add: release_slot_taken(1) count_list_remove1 of_nat_diff)
qed

section \<open>The properties\<close>




text \<open>
  The slots a user holds never exceed the limit, and the counter is exactly the number held.
\<close>
theorem slots_never_exceed_limit:
  assumes "slots_reach limit held l"
  shows "int (count_list held key) \<le> max 1 limit \<and> slots_taken l key = int (count_list held key)"
  using slots_counted [OF assms] by metis

theorem slots_never_exceed_limit_witness:
  "\<exists>l. slots_reach 1 [''u''] l \<and> slots_taken l ''u'' = 1 \<and> fst (try_acquire ''u'' l) = False"
proof -
  obtain l where l: "try_acquire ''u'' (new_slot_limiter 1) = (True, l)"
    by (simp add: try_acquire_def new_slot_limiter_def slots_taken_def)
  have "slots_reach 1 [''u''] l" by (rule slots_acquired [OF slots_new l])
  from slots_never_exceed_limit [OF this, of "''u''"] this l show ?thesis
    by (intro exI [of _ l]) (auto simp: try_acquire_def new_slot_limiter_def slots_taken_def)
qed

end
