(* ===== verification/Executors.thy ===== *)
theory Executors
  imports Recipes System
begin

text \<open>
  Executing jobs (\<^verbatim>\<open>executors.go\<close>, \<^verbatim>\<open>worker.go\<close> and the decoding of compiled
  items in \<^verbatim>\<open>contracts.go\<close>): a registry of executors by pipeline and recipe, the handler
  of generation jobs, and the worker that claims jobs and ends each with one transition of the
  queue. What the generating backend answers depends on the world outside, a value of type
  \<open>'w\<close>.
\<close>

section \<open>Errors of handlers\<close>

datatype handler_error = JobError string string bool | PlainError string

definition new_job_error :: "string \<Rightarrow> string \<Rightarrow> bool \<Rightarrow> handler_error" where
  "new_job_error code message retryable = JobError (trim_space code) (trim_space message) retryable"

fun job_error_text :: "handler_error \<Rightarrow> string" where
  "job_error_text (JobError code message _) = (if blank message then code else message)"
| "job_error_text (PlainError text) = text"

fun is_retryable_job_error :: "handler_error \<Rightarrow> bool" where
  "is_retryable_job_error (JobError _ _ retryable) = retryable"
| "is_retryable_job_error (PlainError _) = False"

fun job_error_code :: "handler_error \<Rightarrow> string" where
  "job_error_code (JobError code _ _) = code"
| "job_error_code (PlainError _) = ''job_handler_failed''"

section \<open>Compiled items as texts\<close>

text \<open>
  The JSON decoder reads a value and then what follows it: the end, another value, or something
  it cannot read. Errors carry the decoder's text.
\<close>

datatype json_rest = RestEnd | RestValue | RestError string

record item_codec =
  ic_decode :: "string \<Rightarrow> string + compiled_item \<times> json_rest"
  ic_encode :: "compiled_item \<Rightarrow> string + string"

definition decode_generation_item_snapshot :: "item_codec \<Rightarrow> string \<Rightarrow> string + compiled_item" where
  "decode_generation_item_snapshot c raw =
     (if raw = [] then Inl ''compiled generation item snapshot is empty''
      else case ic_decode c raw of
        Inl e \<Rightarrow> Inl (''decode compiled generation item snapshot: '' @ e)
      | Inr (compiled, RestValue) \<Rightarrow> Inl ''decode compiled generation item snapshot: multiple JSON values''
      | Inr (compiled, RestError e) \<Rightarrow> Inl (''decode compiled generation item snapshot trailing data: '' @ e)
      | Inr (compiled, RestEnd) \<Rightarrow>
          (case ic_encode c compiled of
             Inl e \<Rightarrow> Inl (''encode canonical compiled generation item snapshot: '' @ e)
           | Inr canonical \<Rightarrow>
               if raw \<noteq> canonical then Inl ''compiled generation item snapshot is not canonical JSON''
               else Inr compiled))"

section \<open>Executors\<close>

record executor_key =
  ek_pipeline :: string
  ek_recipe :: string

definition normalized_executor_key :: "executor_key \<Rightarrow> executor_key" where
  "normalized_executor_key k = \<lparr>ek_pipeline = trim_space (ek_pipeline k), ek_recipe = trim_space (ek_recipe k)\<rparr>"

record execution_request =
  xq_lease :: lease_identity
  xq_job :: commerce_job
  xq_item :: commerce_generation_item
  xq_compiled :: compiled_item
  xq_idempotency_key :: string

type_synonym 'w execution = "'w \<Rightarrow> execution_request \<Rightarrow> execution_failure + execution_result"

record 'w item_executor =
  ie_key :: executor_key
  ie_execute :: "'w execution"

type_synonym 'w executor_registry = "(executor_key \<times> 'w item_executor) list"

definition register_executor ::
  "'w item_executor option \<Rightarrow> 'w executor_registry \<Rightarrow> commerce_error + 'w executor_registry" where
  "register_executor executor r =
     (case executor of
        None \<Rightarrow> Inl ErrExecutorInvalid
      | Some e \<Rightarrow>
          let k = normalized_executor_key (ie_key e)
          in if ek_pipeline k = [] \<or> ek_recipe k = [] then Inl ErrExecutorInvalid
             else if map_of r k \<noteq> None then Inl ErrExecutorAlreadyRegistered
             else Inr ((k, e) # r))"

definition get_executor :: "'w executor_registry option \<Rightarrow> executor_key \<Rightarrow> 'w item_executor option" where
  "get_executor r k = Option.bind r (\<lambda>r. map_of r (normalized_executor_key k))"

definition compiled_key :: "compiled_item \<Rightarrow> executor_key" where
  "compiled_key i = normalized_executor_key \<lparr>ek_pipeline = cp_pipeline i, ek_recipe = cp_recipe_key i\<rparr>"

definition execution_refused :: "string \<Rightarrow> string \<Rightarrow> bool \<Rightarrow> execution_failure" where
  "execution_refused code message retryable =
     \<lparr>ef_code = code, ef_message = message, ef_retryable = retryable, ef_result_unknown = False\<rparr>"

definition key_bound_execute :: "executor_key \<Rightarrow> int list \<Rightarrow> 'w execution option \<Rightarrow> 'w execution" where
  "key_bound_execute key versions backend w request =
     (if compiled_key (xq_compiled request) \<noteq> key
      then Inl (execution_refused ''executor_identity_mismatch'' ''compiled item does not match executor key'' False)
      else if cp_recipe_version (xq_compiled request) \<notin> set versions
      then Inl (execution_refused ''executor_version_unsupported'' ''compiled recipe version is not supported'' False)
      else case backend of
        None \<Rightarrow> Inl (execution_refused ''executor_unavailable'' ''commerce execution backend is unavailable'' True)
      | Some execute \<Rightarrow> execute w request)"

definition new_key_bound_executor :: "executor_key \<Rightarrow> int list \<Rightarrow> 'w execution option \<Rightarrow> 'w item_executor" where
  "new_key_bound_executor key versions backend =
     \<lparr>ie_key = normalized_executor_key key,
      ie_execute = key_bound_execute (normalized_executor_key key) (filter (\<lambda>v. v > 0) versions) backend\<rparr>"

section \<open>The handler of generation jobs\<close>

definition snapshot_lease :: "job_snapshot \<Rightarrow> lease_identity" where
  "snapshot_lease = (\<lambda>(j, _). \<lparr>ls_job = job_id j, ls_owner = job_lease_owner j, ls_token = job_lease_token j\<rparr>)"

definition recipe_text :: "string \<Rightarrow> string \<Rightarrow> int \<Rightarrow> string" where
  "recipe_text pipeline recipe version = pipeline @ ''/'' @ recipe @ ''@'' @ show_int version"

definition handle_generate_item ::
  "item_codec \<Rightarrow> 'w executor_registry option \<Rightarrow> 'w \<Rightarrow> job_snapshot \<Rightarrow> handler_error + job_result" where
  "handle_generate_item c executors w snapshot =
     (case snd snapshot of
        None \<Rightarrow> Inl (PlainError ''generate_item job requires generation item'')
      | Some item \<Rightarrow>
          (case decode_generation_item_snapshot c (itm_output_spec item) of
             Inl e \<Rightarrow> Inl (new_job_error ''invalid_item_snapshot'' e False)
           | Inr compiled \<Rightarrow>
               if cp_pipeline compiled \<noteq> itm_pipeline item \<or> cp_recipe_key compiled \<noteq> itm_recipe_key item \<or>
                  cp_recipe_version compiled \<noteq> itm_recipe_version item
               then Inl (PlainError (''compiled generation item identity mismatch: decoded='' @
                 recipe_text (cp_pipeline compiled) (cp_recipe_key compiled) (cp_recipe_version compiled) @ '' item='' @
                 recipe_text (itm_pipeline item) (itm_recipe_key item) (itm_recipe_version item)))
               else case get_executor executors \<lparr>ek_pipeline = itm_pipeline item, ek_recipe = itm_recipe_key item\<rparr> of
                 None \<Rightarrow> Inl (new_job_error ''executor_unavailable''
                   (''executor '' @ itm_pipeline item @ ''/'' @ itm_recipe_key item @ '' is unavailable'') True)
               | Some executor \<Rightarrow>
                   (case ie_execute executor w \<lparr>xq_lease = snapshot_lease snapshot, xq_job = fst snapshot, xq_item = item,
                        xq_compiled = compiled, xq_idempotency_key = itm_idempotency_key item\<rparr> of
                      Inl failure \<Rightarrow> Inl (new_job_error (ef_code failure) (ef_message failure) (ef_retryable failure))
                    | Inr result \<Rightarrow> Inr \<lparr>jr_execution = Some result, jr_metadata = er_metadata result\<rparr>)))"

section \<open>The worker\<close>

record 'w job_handler =
  jh_kind :: string
  jh_handle :: "'w \<Rightarrow> job_snapshot \<Rightarrow> handler_error + job_result"

record 'w worker =
  wk_queue :: "commerce_queue option"
  wk_handlers :: "(string \<times> 'w job_handler option) list"
  wk_concurrency :: int
  wk_lease :: duration
  wk_poll :: duration
  wk_running :: bool

datatype worker_error = WorkerQueueRequired | WorkerHandlerNil string | WorkerHandlerKind string string

text \<open>The first handler that is missing or stands under a wrong kind.\<close>

fun check_handlers :: "(string \<times> 'w job_handler option) list \<Rightarrow> worker_error option" where
  "check_handlers [] = None"
| "check_handlers ((kind, None) # hs) = Some (WorkerHandlerNil kind)"
| "check_handlers ((kind, Some h) # hs) =
     (if jh_kind h \<noteq> kind then Some (WorkerHandlerKind kind (jh_kind h)) else check_handlers hs)"

definition start_worker :: "'w worker \<Rightarrow> worker_error option \<times> 'w worker" where
  "start_worker w =
     (if wk_queue w = None then (Some WorkerQueueRequired, w)
      else
        let w = w\<lparr>wk_concurrency := (if wk_concurrency w \<le> 0 then 1 else wk_concurrency w),
                  wk_lease := (if wk_lease w \<le> 0 then 30 * second else wk_lease w),
                  wk_poll := (if wk_poll w \<le> 0 then second else wk_poll w)\<rparr>
        in case check_handlers (wk_handlers w) of
             Some e \<Rightarrow> (Some e, w)
           | None \<Rightarrow> (None, w\<lparr>wk_running := True\<rparr>))"

text \<open>
  What a handler learns while it runs: that the worker stops, that a heartbeat failed (the lease
  may be lost), that the job is to be canceled.
\<close>

record handle_signals =
  hs_stopped :: bool
  hs_heartbeat_failed :: bool
  hs_cancel_requested :: bool

definition finish_handling ::
  "commerce_queue \<Rightarrow> (string \<times> 'w job_handler option) list \<Rightarrow> 'w \<Rightarrow> job_snapshot \<Rightarrow> handle_signals \<Rightarrow> time \<Rightarrow>
     rat option \<Rightarrow> commerce_db \<Rightarrow> commerce_db" where
  "finish_handling q handlers w snapshot sig now jitter s =
     (let lease = snapshot_lease snapshot in
      case map_of handlers (job_kind (fst snapshot)) of
        None \<Rightarrow> snd (fail q lease (execution_refused ''handler_unavailable'' ''job handler is unavailable'' True) now jitter s)
      | Some None \<Rightarrow> s
      | Some (Some h) \<Rightarrow>
          if hs_stopped sig \<or> hs_heartbeat_failed sig then s
          else if hs_cancel_requested sig then snd (cancel q lease ''cancel_requested'' now s)
          else case jh_handle h w snapshot of
            Inl e \<Rightarrow> snd (fail q lease (execution_refused (job_error_code e) (job_error_text e) (is_retryable_job_error e)) now jitter s)
          | Inr result \<Rightarrow> snd (complete q lease result now s))"

text \<open>
  The worker at work: the database and the jobs its handlers are running. Between its own steps
  anybody else may change the database.
\<close>

inductive worker_step ::
  "batch_service \<Rightarrow> commerce_queue \<Rightarrow> 'w worker \<Rightarrow> commerce_db \<times> job_snapshot list \<Rightarrow> commerce_db \<times> job_snapshot list \<Rightarrow> bool"
  for svc q w where
  worker_poll: "0 < wk_concurrency w - int (length active) \<Longrightarrow> \<forall>k. \<not> blank (token k) \<Longrightarrow>
    claim q token jitter now0 sel_now now (wk_concurrency w - int (length active)) (wk_lease w) s = (outcome, s') \<Longrightarrow>
    worker_step svc q w (s, active) (s', active @ (case outcome of Inl _ \<Rightarrow> [] | Inr claimed \<Rightarrow> claimed))"
| worker_beat: "snapshot \<in> set active \<Longrightarrow>
    worker_step svc q w (s, active) (snd (heartbeat q (snapshot_lease snapshot) now (wk_lease w) s), active)"
| worker_finish: "snapshot \<in> set active \<Longrightarrow>
    worker_step svc q w (s, active)
      (finish_handling q (wk_handlers w) world snapshot sig now delay s, remove1 snapshot active)"
| worker_other: "commerce_step svc q s s' \<Longrightarrow> worker_step svc q w (s, active) (s', active)"

inductive worker_reaches ::
  "batch_service \<Rightarrow> commerce_queue \<Rightarrow> 'w worker \<Rightarrow> commerce_db \<Rightarrow> commerce_db \<times> job_snapshot list \<Rightarrow> bool"
  for svc q w s0 where
  worker_start: "worker_reaches svc q w s0 (s0, [])"
| worker_next: "worker_reaches svc q w s0 c \<Longrightarrow> worker_step svc q w c c' \<Longrightarrow> worker_reaches svc q w s0 c'"

section \<open>Capacity\<close>

lemma fold_result_length:
  assumes "fold_result f xs (acc, s) = Inr (acc', s')"
    and "\<And>x acc s acc' s'. f x (acc, s) = Inr (acc', s') \<Longrightarrow> length acc' \<le> Suc (length acc)"
  shows "length acc' \<le> length acc + length xs"
  using assms(1)
proof (induction xs arbitrary: acc s)
  case (Cons x xs)
  then obtain acc1 s1 where x: "f x (acc, s) = Inr (acc1, s1)" and xs: "fold_result f xs (acc1, s1) = Inr (acc', s')"
    by (auto simp: and_then_eq_Inr)
  from assms(2) [OF x] Cons.IH [OF xs] show ?case by simp
qed simp

lemma claim_one_length: "claim_one q token now d k (acc, s) = Inr (acc', s') \<Longrightarrow> length acc' \<le> Suc (length acc)"
  by (auto simp: claim_one_def Let_def inv_simps split: if_splits option.splits)

lemma claim_length:
  assumes "claim q token jitter now0 sel_now now limit d s = (Inr claimed, s')"
  shows "int (length claimed) \<le> max 0 limit"
proof (cases "limit \<le> 0")
  case True
  then show ?thesis using assms by (auto simp: claim_def split: sum.splits)
next
  case False
  obtain r s1 where rec: "recover_expired q jitter limit now0 s = (r, s1)" by fastforce
  have run: "run_tx (claim_tx q token sel_now now (nat (if limit > 100 then 100 else limit)) d) s1 = (Inr claimed, s')"
    using assms False unfolding claim_def rec
    by (cases "validate_queue q"; cases r; cases "d \<le> 0"; simp)
  then have tx: "claim_tx q token sel_now now (nat (if limit > 100 then 100 else limit)) d s1 = Inr (claimed, s')"
    unfolding run_tx_def
    by (cases "claim_tx q token sel_now now (nat (if limit > 100 then 100 else limit)) d s1") auto
  let ?n = "nat (if limit > 100 then 100 else limit)"
  have "length claimed \<le> length ([] :: job_snapshot list) + length (claimable_job_ids sel_now ?n s1)"
    using tx unfolding claim_tx_def by (rule fold_result_length) (rule claim_one_length)
  also have "\<dots> \<le> ?n" by (simp add: claimable_job_ids_def)
  finally show ?thesis using False by (simp split: if_splits)
qed

lemma finish_handling_step:
  "finish_handling q handlers w snapshot sig now jitter s = s \<or>
   commerce_step svc q s (finish_handling q handlers w snapshot sig now jitter s)"
  unfolding finish_handling_def Let_def
  by (auto split: option.splits sum.splits intro: step_fail step_cancel step_complete)

lemma worker_step_invariant:
  assumes "worker_step svc q w c c'" and "reachable svc q s0 (fst c)" and "int (length (snd c)) \<le> wk_concurrency w"
  shows "reachable svc q s0 (fst c') \<and> int (length (snd c')) \<le> wk_concurrency w"
  using assms
proof cases
  case (worker_poll active token jitter now0 sel_now now s outcome s')
  have "commerce_step svc q s s'"
    using step_claim [OF worker_poll(4), of svc q s jitter now0 sel_now now] worker_poll(5) by (metis snd_conv)
  moreover have "int (length (case outcome of Inl _ \<Rightarrow> [] | Inr claimed \<Rightarrow> claimed)) \<le> wk_concurrency w - int (length active)"
    using claim_length [of q token jitter now0 sel_now now "wk_concurrency w - int (length active)" "wk_lease w" s _ s']
      worker_poll(3,5) by (cases outcome) auto
  ultimately show ?thesis using assms(2) worker_poll(1,2) by (auto intro: reach_step)
next
  case (worker_beat snapshot active s now)
  then show ?thesis using assms by (auto intro: reach_step step_heartbeat)
next
  case (worker_finish snapshot active s world sig now delay)
  then show ?thesis
    using assms finish_handling_step [of q "wk_handlers w" world snapshot sig now delay s svc]
    by (auto simp: length_remove1 intro: reach_step)
next
  case (worker_other s s' active)
  then show ?thesis using assms by (auto intro: reach_step)
qed

lemma worker_reaches_invariant:
  assumes "worker_reaches svc q w s0 c" and "0 \<le> wk_concurrency w"
  shows "reachable svc q s0 (fst c) \<and> int (length (snd c)) \<le> wk_concurrency w"
  using assms(1)
proof induction
  case worker_start
  then show ?case using assms(2) by (simp add: reach_start)
next
  case (worker_next c c')
  then show ?case using worker_step_invariant by blast
qed

lemma start_worker_started:
  assumes "start_worker w0 = (None, w)"
  shows "0 < wk_concurrency w \<and> 0 < wk_lease w \<and> 0 < wk_poll w \<and> wk_running w"
  using assms by (auto simp: start_worker_def Let_def split: if_splits option.splits)

section \<open>Dispatch\<close>

definition executors_ok :: "'w executor_registry \<Rightarrow> bool" where
  "executors_ok r \<longleftrightarrow> distinct (map fst r) \<and>
     (\<forall>(k, e) \<in> set r. k = normalized_executor_key (ie_key e) \<and> ek_pipeline k \<noteq> [] \<and> ek_recipe k \<noteq> [])"

lemma executors_ok_Nil [simp]: "executors_ok []"
  by (simp add: executors_ok_def)

lemma register_executor_ok:
  assumes "executors_ok r" and "register_executor executor r = Inr r'"
  shows "executors_ok r'"
  using assms
  by (auto simp: register_executor_def executors_ok_def Let_def map_of_eq_None_iff split: option.splits if_splits)

lemma register_executor_get:
  assumes "register_executor (Some e) r = Inr r'"
  shows "get_executor (Some r') k =
    (if normalized_executor_key k = normalized_executor_key (ie_key e) then Some e else get_executor (Some r) k)"
  using assms by (auto simp: register_executor_def get_executor_def Let_def split: if_splits)

lemma get_executor_key:
  assumes "executors_ok r" and "get_executor (Some r) k = Some e"
  shows "normalized_executor_key (ie_key e) = normalized_executor_key k"
  using assms by (auto simp: executors_ok_def get_executor_def dest!: map_of_SomeD)

lemma decode_generation_item_snapshot_Inr:
  assumes "decode_generation_item_snapshot c raw = Inr compiled"
  shows "ic_decode c raw = Inr (compiled, RestEnd) \<and> ic_encode c compiled = Inr raw"
  using assms by (auto simp: decode_generation_item_snapshot_def split: if_splits sum.splits json_rest.splits)

lemma handle_generate_item_Inr:
  assumes "handle_generate_item c executors w snapshot = Inr result"
  obtains item compiled executor outcome where "snd snapshot = Some item"
    "decode_generation_item_snapshot c (itm_output_spec item) = Inr compiled"
    "cp_pipeline compiled = itm_pipeline item" "cp_recipe_key compiled = itm_recipe_key item"
    "cp_recipe_version compiled = itm_recipe_version item"
    "get_executor executors \<lparr>ek_pipeline = itm_pipeline item, ek_recipe = itm_recipe_key item\<rparr> = Some executor"
    "ie_execute executor w \<lparr>xq_lease = snapshot_lease snapshot, xq_job = fst snapshot, xq_item = item,
        xq_compiled = compiled, xq_idempotency_key = itm_idempotency_key item\<rparr> = Inr outcome"
    "result = \<lparr>jr_execution = Some outcome, jr_metadata = er_metadata outcome\<rparr>"
  using assms by (auto simp: handle_generate_item_def split: option.splits sum.splits if_splits)

lemma key_bound_execute_Inr:
  assumes "key_bound_execute key versions backend w request = Inr result"
  shows "compiled_key (xq_compiled request) = key \<and> cp_recipe_version (xq_compiled request) \<in> set versions \<and>
    (\<exists>execute. backend = Some execute \<and> execute w request = Inr result)"
  using assms by (auto simp: key_bound_execute_def split: if_splits option.splits)

end
