(* ===== verification/ExecutorClaims.thy ===== *)
theory ExecutorClaims
  imports Executors DemoShop
begin

text \<open>What the worker and its executors promise, with a worker on the demo shop as the witness.\<close>

text \<open>
  C18. A worker never runs more handlers than its concurrency, whatever happens to the database
  meanwhile, and all its steps keep the database consistent.
\<close>
theorem worker_stays_within_capacity:
  assumes "start_worker w0 = (None, w)" and "worker_reaches svc q w s0 (s, active)" and "service_ok svc"
    and "q = commerce_worker_queue json host pid token" and "work_ok s0"
  shows "int (length active) \<le> wk_concurrency w \<and> reachable svc q s0 s \<and> work_ok s"
proof -
  have "reachable svc q s0 s" "int (length active) \<le> wk_concurrency w"
    using worker_reaches_invariant [OF assms(2)] start_worker_started [OF assms(1)] by simp_all
  moreover from reachable_keeps [OF this(1) assms(3,4)] assms(5) have "work_ok s"
    by (simp add: worker.keeps_def good_iff_work_ok)
  ultimately show ?thesis by simp
qed

definition demo_worker :: "unit worker" where
  "demo_worker = \<lparr>wk_queue = Some demo_queue, wk_handlers = [], wk_concurrency = 0, wk_lease = 0, wk_poll = 0, wk_running = False\<rparr>"

theorem worker_stays_within_capacity_witness:
  "\<exists>w s active. start_worker demo_worker = (None, w) \<and> wk_concurrency w = 1 \<and>
     worker_reaches demo_service demo_queue w demo_db (s, active) \<and> length active \<le> 1 \<and> work_ok s"
proof -
  obtain w where w: "start_worker demo_worker = (None, w)" "wk_concurrency w = 1"
    by (simp add: start_worker_def demo_worker_def Let_def)
  obtain outcome s where claim: "claim demo_queue (\<lambda>_. ''t'') (\<lambda>_. None) 2000 2000 2000 1 (wk_lease w) demo_db = (outcome, s)"
    by fastforce
  have "\<not> blank ''t''" by (subst blank_literal; simp add: literal_bytes_def)
  then have step: "worker_step demo_service demo_queue w (demo_db, []) (s, [] @ (case outcome of Inl _ \<Rightarrow> [] | Inr claimed \<Rightarrow> claimed))"
    by (intro worker_poll [where token = "\<lambda>_. ''t''"]) (use w claim in simp_all)
  have run: "worker_reaches demo_service demo_queue w demo_db (s, case outcome of Inl _ \<Rightarrow> [] | Inr claimed \<Rightarrow> claimed)"
    using worker_next [OF worker_start step] by simp
  from worker_stays_within_capacity [OF w(1) run demo_service_ok demo_queue_def demo_work_ok] w run show ?thesis
    by (intro exI [of _ w] exI [of _ s]) auto
qed





end
