(* ===== verification/AssetObjects.thy ===== *)
theory AssetObjects
  imports Projects Backoff ProductDetail
begin

text \<open>
  Uploaded objects and what refers to them (\<^verbatim>\<open>assets.go\<close>, \<^verbatim>\<open>object_guards.go\<close>, the
  clean-up loop and the deletion of an asset in \<^verbatim>\<open>ecommerce_storage.go\<close>, the triggers of
  \<^verbatim>\<open>migrations.go\<close>). A private object has a guard row; deleting the object takes the guard
  from active to deleting to deleted, and the triggers of the database let nothing refer to an
  object whose guard is not active. The object store is a parameter: what deleting an object
  answers. Every table the reference count asks for exists.
\<close>

section \<open>Counting references\<close>

definition commerce_private :: string where "commerce_private = ''commerce_private''"

record object_references =
  or_assets :: nat
  or_generations :: nat
  or_works :: nat
  or_records :: nat
  or_others :: nat

definition has_references :: "object_references \<Rightarrow> bool" where
  "has_references r \<longleftrightarrow> or_assets r + or_generations r + or_works r + or_records r + or_others r > 0"

definition scope_matches :: "string \<Rightarrow> string \<Rightarrow> bool" where
  "scope_matches scope x \<longleftrightarrow> x = scope \<or> scope = ''default'' \<and> x = ''''"

text \<open>The number of rows of a join.\<close>

definition count_join :: "('r \<Rightarrow> 'x \<Rightarrow> bool) \<Rightarrow> 'r list \<Rightarrow> 'x list \<Rightarrow> nat" where
  "count_join on rows ras = length (filter (\<lambda>(r, ra). on r ra) (List.product rows ras))"

definition asset_present :: "commerce_asset \<Rightarrow> bool" where
  "asset_present a \<longleftrightarrow> ast_deleted_at a = None \<and> ast_object_deleted_at a = None"

definition album_uses :: "couple_album \<Rightarrow> uid \<Rightarrow> bool" where
  "album_uses a k \<longleftrightarrow> alb_male_reference a = k \<or> alb_female_reference a = k"

definition count_object_references :: "string \<Rightarrow> string \<Rightarrow> uid option \<Rightarrow> commerce_db \<Rightarrow> object_references" where
  "count_object_references scope key exclude s =
     (let ras = filter (\<lambda>ra. ref_asset_key ra = key \<and> scope_matches scope (ref_storage_scope ra)) (reference_assets s)
      in \<lparr>or_assets = count_join (\<lambda>a ra. ref_id ra = ast_reference a \<and> asset_present a \<and>
            (case exclude of None \<Rightarrow> True | Some x \<Rightarrow> x = 0 \<or> ast_id a \<noteq> x)) (assets s) ras,
          or_generations = count_join (\<lambda>g ra. ref_id ra = g) (generation_references s) ras,
          or_works = count_where (\<lambda>w. wrk_deleted_at w = None \<and> wrk_asset_key w = key \<and>
            scope_matches scope (wrk_storage_scope w)) (works s),
          or_records = count_where (\<lambda>g. grc_asset_key g = key \<and> scope_matches scope (grc_storage_scope g))
            (generation_records s),
          or_others =
            count_join (\<lambda>t ra. stp_deleted_at t = None \<and> stp_reference t = ref_id ra) (style_templates s) ras +
            count_join (\<lambda>a ra. alb_deleted_at a = None \<and> album_uses a (ref_id ra)) (couple_albums s) ras +
            count_join (\<lambda>v ra. v = Some (ref_id ra)) (video_shots s) ras +
            count_join (\<lambda>b ra. brd_deleted_at b = None \<and> brd_logo b = Some (ref_id ra)) (brands s) ras\<rparr>)"

definition inspect_object_references ::
  "string \<Rightarrow> string \<Rightarrow> uid option \<Rightarrow> commerce_db \<Rightarrow> commerce_error + object_references" where
  "inspect_object_references raw_scope raw_key exclude s =
     (let scope = normalized_storage_scope raw_scope; key = trim_space raw_key
      in if key = [] then Inl ErrInvalidInput else Inr (count_object_references scope key exclude s))"

section \<open>Guards\<close>

definition guard_of :: "uid \<Rightarrow> string \<Rightarrow> commerce_object_guard \<Rightarrow> bool" where
  "guard_of user key g \<longleftrightarrow> grd_user g = user \<and> grd_storage_scope g = commerce_private \<and> grd_object_key g = key"

definition ensure_object_guard ::
  "uid \<Rightarrow> string \<Rightarrow> string \<Rightarrow> commerce_db \<Rightarrow> (commerce_error + unit) \<times> commerce_db" where
  "ensure_object_guard user scope raw_key s =
     (if normalized_storage_scope scope \<noteq> commerce_private then (Inr (), s)
      else if user = 0 \<or> blank raw_key then (Inl ErrInvalidInput, s)
      else
        let key = trim_space raw_key;
            s = (if first_where (guard_of user key) (object_guards s) \<noteq> None then s
                 else s\<lparr>object_guards := object_guards s @
                   [\<lparr>grd_id = next_key grd_id (object_guards s), grd_user = user, grd_storage_scope = commerce_private,
                     grd_object_key = key, grd_state = ''active'', grd_delete_token = ''''\<rparr>]\<rparr>)
        in case first_where (guard_of user key) (object_guards s) of
             None \<Rightarrow> (Inl ErrRecordNotFound, s)
           | Some g \<Rightarrow> (if grd_state g \<noteq> ''active'' then Inl ErrObjectGuardUnavailable else Inr (), s))"

record deletion_lease =
  dl_token :: string
  dl_references :: object_references
  dl_acquired :: bool

definition begin_deletion_tx ::
  "uid \<Rightarrow> string \<Rightarrow> uid option \<Rightarrow> string \<Rightarrow> commerce_db \<Rightarrow> commerce_error + deletion_lease \<times> commerce_db" where
  "begin_deletion_tx user key exclude token s =
     (case first_where (guard_of user key) (object_guards s) of
        None \<Rightarrow> Inl ErrRecordNotFound
      | Some g \<Rightarrow>
          if grd_state g \<noteq> ''active'' then Inl ErrObjectDeletionBusy
          else and_then (inspect_object_references commerce_private key exclude s) (\<lambda>references.
            if has_references references
            then Inr (\<lparr>dl_token = '''', dl_references = references, dl_acquired = False\<rparr>, s)
            else
              let hit = (\<lambda>x. grd_id x = grd_id g \<and> grd_state x = ''active'')
              in if count_where hit (object_guards s) \<noteq> 1 then Inl ErrObjectDeletionBusy
                 else Inr (\<lparr>dl_token = token, dl_references = references, dl_acquired = True\<rparr>,
                   s\<lparr>object_guards := update_where hit
                     (\<lambda>x. x\<lparr>grd_state := ''deleting'', grd_delete_token := token\<rparr>) (object_guards s)\<rparr>)))"

text \<open>\<open>token\<close> is the random token of the new deletion, \<open>None\<close> when there is none.\<close>

definition begin_object_deletion ::
  "uid \<Rightarrow> string \<Rightarrow> string \<Rightarrow> uid option \<Rightarrow> string option \<Rightarrow> commerce_db \<Rightarrow>
     (commerce_error + deletion_lease) \<times> commerce_db" where
  "begin_object_deletion user raw_scope raw_key exclude token s =
     (let scope = normalized_storage_scope raw_scope; key = trim_space raw_key in
      if scope \<noteq> commerce_private
      then (and_then (inspect_object_references scope key exclude s) (\<lambda>references.
              Inr \<lparr>dl_token = '''', dl_references = references, dl_acquired = True\<rparr>), s)
      else case ensure_object_guard user scope key s of
        (Inl e, s) \<Rightarrow> (Inl e, s)
      | (Inr _, s) \<Rightarrow>
          (case token of
             None \<Rightarrow> (Inl ErrInfrastructure, s)
           | Some t \<Rightarrow> run_tx (begin_deletion_tx user key exclude t) s))"

definition end_deletion ::
  "string \<Rightarrow> uid \<Rightarrow> string \<Rightarrow> string \<Rightarrow> string \<Rightarrow> commerce_db \<Rightarrow> commerce_error + commerce_db" where
  "end_deletion state user scope raw_key token s =
     (if normalized_storage_scope scope \<noteq> commerce_private then Inr s
      else
        let hit = (\<lambda>g. guard_of user (trim_space raw_key) g \<and> grd_state g = ''deleting'' \<and> grd_delete_token g = token)
        in if count_where hit (object_guards s) \<noteq> 1 then Inl ErrObjectDeletionBusy
           else Inr (s\<lparr>object_guards := update_where hit
             (\<lambda>g. g\<lparr>grd_state := state, grd_delete_token := ''''\<rparr>) (object_guards s)\<rparr>))"

definition complete_object_deletion_tx :: "uid \<Rightarrow> string \<Rightarrow> string \<Rightarrow> string \<Rightarrow> commerce_db \<Rightarrow> commerce_error + commerce_db" where
  "complete_object_deletion_tx = end_deletion ''deleted''"

definition release_object_deletion :: "uid \<Rightarrow> string \<Rightarrow> string \<Rightarrow> string \<Rightarrow> commerce_db \<Rightarrow> commerce_error + commerce_db" where
  "release_object_deletion = end_deletion ''active''"

section \<open>Triggers\<close>

text \<open>What the database checks before a row that names an object, or a reference asset, is written.\<close>

definition guard_active :: "uid \<Rightarrow> string \<Rightarrow> commerce_db \<Rightarrow> bool" where
  "guard_active user key s \<longleftrightarrow> list_ex (\<lambda>g. guard_of user key g \<and> grd_state g = ''active'') (object_guards s)"

definition object_allowed :: "uid \<Rightarrow> string \<Rightarrow> string \<Rightarrow> commerce_db \<Rightarrow> bool" where
  "object_allowed user scope key s \<longleftrightarrow> scope = commerce_private \<longrightarrow> guard_active user key s"

definition reference_allowed :: "uid \<Rightarrow> commerce_db \<Rightarrow> bool" where
  "reference_allowed k s \<longleftrightarrow>
     list_all (\<lambda>ra. ref_id ra = k \<longrightarrow> object_allowed (ref_user ra) (ref_storage_scope ra) (ref_asset_key ra) s)
       (reference_assets s)"

section \<open>Assets\<close>

record create_asset_input =
  cai_user :: uid
  cai_project :: uid
  cai_reference :: uid
  cai_sku :: "uid option"
  cai_role :: string
  cai_lifecycle :: string
  cai_sort_order :: int
  cai_metadata :: string
  cai_retention :: duration

definition default_temporary_retention :: duration where
  "default_temporary_retention = 7 * 24 * 60 * minute"

definition create_asset ::
  "create_asset_input \<Rightarrow> time \<Rightarrow> commerce_db \<Rightarrow> commerce_error + commerce_asset \<times> commerce_db" where
  "create_asset i now s =
     (if cai_user i = 0 \<or> cai_project i = 0 \<or> cai_reference i = 0 then Inl ErrInvalidInput
      else and_then (get_project (cai_user i) (cai_project i) s) (\<lambda>_.
        if count_where (\<lambda>ra. ref_id ra = cai_reference i \<and> ref_user ra = cai_user i) (reference_assets s) \<noteq> 1
        then Inl ErrOwnershipMismatch
        else
          let given = lower_key (trim_space (cai_lifecycle i));
              lifecycle = (if given = '''' then ''project'' else given)
          in if lifecycle \<noteq> ''project'' \<and> lifecycle \<noteq> ''temporary'' then Inl ErrInvalidInput
             else if \<not> reference_allowed (cai_reference i) s then Inl ErrInfrastructure
             else
               let role = trim_space (cai_role i);
                   retention = (if cai_retention i = 0 then default_temporary_retention else cai_retention i);
                   a = \<lparr>ast_id = next_key ast_id (assets s), ast_user = cai_user i, ast_project = cai_project i,
                        ast_reference = cai_reference i, ast_sku = cai_sku i,
                        ast_role = (if role = '''' then ''reference'' else role), ast_lifecycle = lifecycle,
                        ast_sort_order = cai_sort_order i, ast_metadata = cai_metadata i,
                        ast_retain_until = (if lifecycle = ''temporary'' then Some (now + retention) else None),
                        ast_object_deleted_at = None, ast_deleted_at = None\<rparr>
               in Inr (a, s\<lparr>assets := assets s @ [a]\<rparr>)))"

definition get_asset :: "uid \<Rightarrow> uid \<Rightarrow> commerce_db \<Rightarrow> commerce_error + commerce_asset" where
  "get_asset user k s =
     (case first_where (\<lambda>a. ast_id a = k \<and> ast_user a = user \<and> ast_deleted_at a = None) (assets s) of
        None \<Rightarrow> Inl ErrNotFound | Some a \<Rightarrow> Inr a)"

definition list_project_assets :: "uid \<Rightarrow> uid \<Rightarrow> commerce_db \<Rightarrow> commerce_error + commerce_asset list" where
  "list_project_assets user project s =
     and_then (get_project user project s) (\<lambda>_.
     Inr (sort_key ast_sort_order (sort_key ast_id
       (filter (\<lambda>a. ast_user a = user \<and> ast_project a = project \<and> ast_deleted_at a = None) (assets s)))))"

section \<open>Clean-ups\<close>

definition default_cleanup_max_attempts :: int where "default_cleanup_max_attempts = 8"

definition insert_cleanup :: "commerce_object_cleanup \<Rightarrow> commerce_db \<Rightarrow> commerce_object_cleanup \<times> commerce_db" where
  "insert_cleanup c s = (let c = c\<lparr>cln_id := next_key cln_id (cleanups s)\<rparr> in (c, s\<lparr>cleanups := cleanups s @ [c]\<rparr>))"

definition new_cleanup :: "uid \<Rightarrow> uid \<Rightarrow> string \<Rightarrow> string \<Rightarrow> string \<Rightarrow> time \<Rightarrow> commerce_object_cleanup" where
  "new_cleanup user project scope key reason delete_after =
     \<lparr>cln_id = 0, cln_user = user, cln_project = project, cln_asset = None, cln_reference = None, cln_record = None,
      cln_work = None, cln_storage_scope = normalized_storage_scope scope, cln_object_key = key, cln_reason = reason,
      cln_status = ''queued'', cln_attempt_count = 0, cln_max_attempts = default_cleanup_max_attempts,
      cln_next_attempt_at = Some delete_after, cln_delete_after = delete_after, cln_last_error = '''',
      cln_object_deleted_at = None\<rparr>"

text \<open>The expired temporary assets with their objects, and the queueing of one of them.\<close>

definition expired_assets :: "time \<Rightarrow> commerce_db \<Rightarrow> (commerce_asset \<times> reference_asset) list" where
  "expired_assets now s =
     filter (\<lambda>(a, ra). ref_id ra = ast_reference a \<and> ast_lifecycle a = ''temporary'' \<and>
         (case ast_retain_until a of None \<Rightarrow> False | Some t \<Rightarrow> t \<le> now) \<and> asset_present a)
       (List.product (assets s) (reference_assets s))"

definition queue_expired_asset ::
  "time \<Rightarrow> commerce_asset \<times> reference_asset \<Rightarrow> nat \<times> commerce_db \<Rightarrow> commerce_error + nat \<times> commerce_db" where
  "queue_expired_asset now = (\<lambda>(a, ra) (queued, s).
     and_then (inspect_object_references (ref_storage_scope ra) (ref_asset_key ra) (Some (ast_id a)) s) (\<lambda>references.
     if has_references references \<or>
        count_where (\<lambda>c. cln_asset c = Some (ast_id a) \<and> cln_object_deleted_at c = None) (cleanups s) > 0
     then Inr (queued, s)
     else Inr (Suc queued, snd (insert_cleanup
       ((new_cleanup (ast_user a) (ast_project a) (ref_storage_scope ra) (ref_asset_key ra) ''temporary_asset_expired'' now)
          \<lparr>cln_asset := Some (ast_id a), cln_reference := Some (ast_reference a)\<rparr>) s))))"

text \<open>Each candidate is queued in a transaction of its own; an error ends the loop and keeps what was queued.\<close>

fun queue_expired_loop ::
  "time \<Rightarrow> (commerce_asset \<times> reference_asset) list \<Rightarrow> nat \<times> commerce_db \<Rightarrow> commerce_error option \<times> nat \<times> commerce_db" where
  "queue_expired_loop now [] c = (None, c)"
| "queue_expired_loop now (x # xs) c =
     (case queue_expired_asset now x c of Inl e \<Rightarrow> (Some e, c) | Inr c' \<Rightarrow> queue_expired_loop now xs c')"

definition queue_expired_temporary_assets :: "time \<Rightarrow> commerce_db \<Rightarrow> commerce_error option \<times> nat \<times> commerce_db" where
  "queue_expired_temporary_assets now s = queue_expired_loop now (expired_assets now s) (0, s)"

record orphan_cleanup_input =
  oci_user :: uid
  oci_project :: uid
  oci_reference :: "uid option"
  oci_storage_scope :: string
  oci_object_key :: string
  oci_reason :: string
  oci_delete_after :: time

definition schedule_orphan_cleanup ::
  "orphan_cleanup_input \<Rightarrow> time \<Rightarrow> commerce_db \<Rightarrow> commerce_error + commerce_object_cleanup \<times> commerce_db" where
  "schedule_orphan_cleanup i now s =
     (let delete_after = (if oci_delete_after i = 0 then now + 24 * 60 * minute else oci_delete_after i);
          reason = trim_space (oci_reason i);
          key = trim_space (oci_object_key i)
      in if key = [] then Inl ErrInvalidInput
         else Inr (insert_cleanup ((new_cleanup (oci_user i) (oci_project i) (oci_storage_scope i) key
           (if reason = '''' then ''orphaned_upload'' else reason) delete_after)\<lparr>cln_reference := oci_reference i\<rparr>) s))"

definition due_cleanups :: "time \<Rightarrow> int \<Rightarrow> commerce_db \<Rightarrow> commerce_object_cleanup list" where
  "due_cleanups now limit s =
     take (nat (if limit \<le> 0 \<or> limit > 100 then 100 else limit))
       (sort_key cln_delete_after (sort_key cln_id (filter (\<lambda>c. cln_object_deleted_at c = None \<and>
          cln_delete_after c \<le> now \<and> (case cln_next_attempt_at c of None \<Rightarrow> True | Some t \<Rightarrow> t \<le> now) \<and>
          (cln_status c = ''queued'' \<or> cln_status c = ''retrying'')) (cleanups s))))"

definition failed_cleanup :: "string \<Rightarrow> time \<Rightarrow> commerce_object_cleanup \<Rightarrow> commerce_object_cleanup" where
  "failed_cleanup message now c =
     (let attempts = cln_attempt_count c + 1;
          limit = (if cln_max_attempts c \<le> 0 then default_cleanup_max_attempts else cln_max_attempts c);
          c = c\<lparr>cln_attempt_count := attempts, cln_max_attempts := limit, cln_last_error := message\<rparr>
      in if attempts \<ge> limit then c\<lparr>cln_status := ''failed'', cln_next_attempt_at := None\<rparr>
         else c\<lparr>cln_status := ''retrying'', cln_next_attempt_at := Some (now + cleanup_retry_delay attempts)\<rparr>)"

definition pending_cleanup :: "uid \<Rightarrow> commerce_db \<Rightarrow> commerce_error + commerce_object_cleanup" where
  "pending_cleanup k s =
     (case first_where (\<lambda>c. cln_id c = k \<and> cln_object_deleted_at c = None) (cleanups s) of
        None \<Rightarrow> Inl ErrNotFound | Some c \<Rightarrow> Inr c)"

definition record_cleanup_failure :: "uid \<Rightarrow> string \<Rightarrow> time \<Rightarrow> commerce_db \<Rightarrow> commerce_error + commerce_db" where
  "record_cleanup_failure k message now s =
     and_then (pending_cleanup k s) (\<lambda>_.
     Inr (s\<lparr>cleanups := update_where (\<lambda>c. cln_id c = k) (failed_cleanup message now) (cleanups s)\<rparr>))"

definition record_cleanup_success_with_guard :: "uid \<Rightarrow> string \<Rightarrow> time \<Rightarrow> commerce_db \<Rightarrow> commerce_error + commerce_db" where
  "record_cleanup_success_with_guard k token now s =
     and_then (pending_cleanup k s) (\<lambda>c.
     and_then (if \<not> blank token then complete_object_deletion_tx (cln_user c) (cln_storage_scope c) (cln_object_key c) token s
               else Inr s) (\<lambda>s1.
     let s2 = s1\<lparr>cleanups := update_where (\<lambda>x. cln_id x = k) (\<lambda>x. x\<lparr>cln_status := ''succeeded'',
           cln_object_deleted_at := Some now, cln_next_attempt_at := None, cln_last_error := ''''\<rparr>) (cleanups s1)\<rparr>
     in Inr (case cln_asset c of
          None \<Rightarrow> s2
        | Some a \<Rightarrow> s2\<lparr>assets := update_where (\<lambda>x. ast_id x = a \<and> ast_deleted_at x = None)
            (\<lambda>x. x\<lparr>ast_object_deleted_at := Some now\<rparr>) (assets s2)\<rparr>)))"

definition record_cleanup_protected :: "uid \<Rightarrow> string \<Rightarrow> time \<Rightarrow> commerce_db \<Rightarrow> commerce_error + commerce_db" where
  "record_cleanup_protected k reason now s =
     (let hit = (\<lambda>c. cln_id c = k \<and> cln_object_deleted_at c = None)
      in if count_where hit (cleanups s) = 0 then Inl ErrNotFound
         else Inr (s\<lparr>cleanups := update_where hit (\<lambda>c. c\<lparr>cln_status := ''retrying'',
           cln_next_attempt_at := Some (now + 24 * 60 * minute), cln_last_error := trim_space reason\<rparr>) (cleanups s)\<rparr>))"

end
