(* ===== verification/AssetSafety.thy ===== *)
theory AssetSafety
  imports AssetObjects
begin

text \<open>
  Deleting objects as the application does it, and the proof that nothing refers to a deleted
  object: the clean-up loop and the deletion of an asset (\<^verbatim>\<open>ecommerce_storage.go\<close>), a step
  relation in which these deletions interleave with any writes the triggers let through, and its
  invariant.
\<close>

section \<open>Processing clean-ups\<close>

definition protect_cleanup :: "uid \<Rightarrow> string \<Rightarrow> time \<Rightarrow> commerce_db \<Rightarrow> (commerce_error + bool) \<times> commerce_db" where
  "protect_cleanup k reason now s =
     (case record_cleanup_protected k reason now s of Inl e \<Rightarrow> (Inl e, s) | Inr s' \<Rightarrow> (Inr False, s'))"

text \<open>
  One clean-up: whether the object was deleted. \<open>delete\<close> is the store's answer, the text of an
  error or \<open>None\<close>.
\<close>

definition process_cleanup ::
  "(string \<Rightarrow> string \<Rightarrow> string option) \<Rightarrow> string option \<Rightarrow> time \<Rightarrow> commerce_object_cleanup \<Rightarrow> commerce_db \<Rightarrow>
     (commerce_error + bool) \<times> commerce_db" where
  "process_cleanup delete token now c s =
     (case begin_object_deletion (cln_user c) (cln_storage_scope c) (cln_object_key c) (cln_asset c) token s of
        (Inl e, s1) \<Rightarrow>
          if e = ErrObjectDeletionBusy then protect_cleanup (cln_id c) ''commerce object deletion already in progress'' now s1
          else if e = ErrObjectGuardUnavailable then protect_cleanup (cln_id c) ''commerce object guard unavailable'' now s1
          else (Inl e, s1)
      | (Inr lease, s1) \<Rightarrow>
          if has_references (dl_references lease) then protect_cleanup (cln_id c) ''object remains referenced'' now s1
          else case delete (cln_storage_scope c) (cln_object_key c) of
            Some message \<Rightarrow>
              (case release_object_deletion (cln_user c) (cln_storage_scope c) (cln_object_key c) (dl_token lease) s1 of
                 Inl e \<Rightarrow> (Inl e, s1)
               | Inr s2 \<Rightarrow>
                   (case record_cleanup_failure (cln_id c) message now s2 of Inl e \<Rightarrow> (Inl e, s2) | Inr s3 \<Rightarrow> (Inr False, s3)))
          | None \<Rightarrow>
              (case record_cleanup_success_with_guard (cln_id c) (dl_token lease) now s1 of
                 Inl e \<Rightarrow> (Inl e, s1) | Inr s2 \<Rightarrow> (Inr True, s2)))"

fun process_cleanups ::
  "(string \<Rightarrow> string \<Rightarrow> string option) \<Rightarrow> (uid \<Rightarrow> string option) \<Rightarrow> time \<Rightarrow> commerce_object_cleanup list \<Rightarrow> nat \<Rightarrow>
     commerce_db \<Rightarrow> (commerce_error option \<times> nat) \<times> commerce_db" where
  "process_cleanups delete token now [] n s = ((None, n), s)"
| "process_cleanups delete token now (c # cs) n s =
     (case process_cleanup delete (token (cln_id c)) now c s of
        (Inl e, s') \<Rightarrow> ((Some e, n), s')
      | (Inr deleted, s') \<Rightarrow> process_cleanups delete token now cs (if deleted then Suc n else n) s')"

definition process_due_object_cleanups ::
  "(string \<Rightarrow> string \<Rightarrow> string option) \<Rightarrow> (uid \<Rightarrow> string option) \<Rightarrow> time \<Rightarrow> int \<Rightarrow> commerce_db \<Rightarrow>
     (commerce_error option \<times> nat) \<times> commerce_db" where
  "process_due_object_cleanups delete token now limit s =
     process_cleanups delete token now (due_cleanups now limit s) 0 s"

section \<open>Deleting an asset\<close>

datatype delete_response = AssetNotFound | AssetDeleteFailed | AssetObjectRetained | AssetDeleted

definition load_commerce_assets :: "uid \<Rightarrow> uid \<Rightarrow> uid \<Rightarrow> commerce_db \<Rightarrow> (commerce_asset \<times> reference_asset) list" where
  "load_commerce_assets user project k s =
     sort_key (\<lambda>(a, _). ast_sort_order a) (sort_key (\<lambda>(a, _). ast_id a)
       (filter (\<lambda>(a, ra). ref_id ra = ast_reference a \<and> ref_deleted_at ra = None \<and> ast_user a = user \<and>
          ast_deleted_at a = None \<and> (project \<noteq> 0 \<longrightarrow> ast_project a = project) \<and> (k \<noteq> 0 \<longrightarrow> ast_id a = k))
        (List.product (assets s) (reference_assets s))))"

definition soft_delete_asset :: "uid \<Rightarrow> commerce_db \<Rightarrow> commerce_db" where
  "soft_delete_asset k s =
     s\<lparr>assets := update_where (\<lambda>a. ast_id a = k \<and> ast_deleted_at a = None)
       (\<lambda>a. a\<lparr>ast_deleted_at := Some (clock s)\<rparr>) (assets s)\<rparr>"

definition delete_asset_tx ::
  "uid \<Rightarrow> uid \<Rightarrow> commerce_asset \<Rightarrow> reference_asset \<Rightarrow> string \<Rightarrow> time \<Rightarrow> commerce_db \<Rightarrow> commerce_error + commerce_db" where
  "delete_asset_tx user project a ra token now s =
     and_then (complete_object_deletion_tx (ast_user a) (ref_storage_scope ra) (ref_asset_key ra) token s) (\<lambda>s1.
     let s2 = s1\<lparr>assets := update_where (\<lambda>x. ast_id x = ast_id a \<and> ast_user x = user \<and> ast_project x = project \<and>
           ast_deleted_at x = None) (\<lambda>x. x\<lparr>ast_object_deleted_at := Some now\<rparr>) (assets s1)\<rparr>;
         s3 = soft_delete_asset (ast_id a) s2
     in Inr (s3\<lparr>reference_assets := update_where (\<lambda>x. ref_id x = ast_reference a \<and> ref_deleted_at x = None)
          (\<lambda>x. x\<lparr>ref_deleted_at := Some (clock s3)\<rparr>) (reference_assets s3)\<rparr>))"

definition delete_commerce_asset ::
  "(string \<Rightarrow> string \<Rightarrow> string option) \<Rightarrow> string option \<Rightarrow> time \<Rightarrow> uid \<Rightarrow> uid \<Rightarrow> uid \<Rightarrow> commerce_db \<Rightarrow>
     delete_response \<times> commerce_db" where
  "delete_commerce_asset delete token now user project k s =
     (case get_project user project s of
        Inl _ \<Rightarrow> (AssetNotFound, s)
      | Inr _ \<Rightarrow>
          if project = 0 \<or> k = 0 then (AssetNotFound, s)
          else case load_commerce_assets user project k s of
            [(a, ra)] \<Rightarrow>
              (case begin_object_deletion (ast_user a) (ref_storage_scope ra) (ref_asset_key ra) (Some (ast_id a)) token s of
                 (Inl _, s1) \<Rightarrow> (AssetDeleteFailed, s1)
               | (Inr lease, s1) \<Rightarrow>
                   if has_references (dl_references lease) then (AssetObjectRetained, soft_delete_asset (ast_id a) s1)
                   else case delete (ref_storage_scope ra) (ref_asset_key ra) of
                     Some _ \<Rightarrow>
                       (AssetDeleteFailed,
                        case release_object_deletion (ast_user a) (ref_storage_scope ra) (ref_asset_key ra) (dl_token lease) s1 of
                          Inl _ \<Rightarrow> s1 | Inr s2 \<Rightarrow> s2)
                   | None \<Rightarrow>
                       (case delete_asset_tx user project a ra (dl_token lease) now s1 of
                          Inl _ \<Rightarrow> (AssetDeleteFailed, s1) | Inr s2 \<Rightarrow> (AssetDeleted, s2)))
          | _ \<Rightarrow> (AssetNotFound, s))"

section \<open>Writes that the triggers let through\<close>

text \<open>
  A new version of a table: every row passes the check of the triggers, or an old row has the
  same columns as far as the triggers look at them.
\<close>

definition lets_in :: "('r \<Rightarrow> bool) \<Rightarrow> ('r \<Rightarrow> 'c) \<Rightarrow> 'r list \<Rightarrow> 'r list \<Rightarrow> bool" where
  "lets_in check columns old new \<longleftrightarrow> (\<forall>r \<in> set new. check r \<or> columns r \<in> columns ` set old)"

definition asset_columns :: "commerce_asset \<Rightarrow> uid \<times> uid \<times> bool" where
  "asset_columns a = (ast_id a, ast_reference a, asset_present a)"

definition reference_columns :: "reference_asset \<Rightarrow> uid \<times> uid \<times> string \<times> string" where
  "reference_columns ra = (ref_id ra, ref_user ra, ref_storage_scope ra, ref_asset_key ra)"

text \<open>
  A soft-deleted reference asset is not checked; the application never changes which object a
  stored one names.
\<close>

definition guarded_write :: "commerce_db \<Rightarrow> commerce_db \<Rightarrow> bool" where
  "guarded_write s s' \<longleftrightarrow> object_guards s' = object_guards s \<and>
     lets_in (\<lambda>ra. ref_deleted_at ra = None \<and> object_allowed (ref_user ra) (ref_storage_scope ra) (ref_asset_key ra) s)
       reference_columns (reference_assets s) (reference_assets s') \<and>
     lets_in (\<lambda>a. asset_present a \<longrightarrow> reference_allowed (ast_reference a) s) asset_columns (assets s) (assets s') \<and>
     lets_in (\<lambda>k. reference_allowed k s) id (generation_references s) (generation_references s') \<and>
     lets_in (\<lambda>t. stp_deleted_at t = None \<longrightarrow> reference_allowed (stp_reference t) s)
       (\<lambda>t. (stp_reference t, stp_deleted_at t = None)) (style_templates s) (style_templates s') \<and>
     lets_in (\<lambda>a. alb_deleted_at a = None \<longrightarrow> reference_allowed (alb_male_reference a) s \<and> reference_allowed (alb_female_reference a) s)
       (\<lambda>a. (alb_male_reference a, alb_female_reference a, alb_deleted_at a = None)) (couple_albums s) (couple_albums s') \<and>
     lets_in (\<lambda>v. \<forall>k. v = Some k \<longrightarrow> reference_allowed k s) id (video_shots s) (video_shots s') \<and>
     lets_in (\<lambda>b. brd_deleted_at b = None \<longrightarrow> (\<forall>k. brd_logo b = Some k \<longrightarrow> reference_allowed k s))
       (\<lambda>b. (brd_logo b, brd_deleted_at b = None)) (brands s) (brands s') \<and>
     lets_in (\<lambda>w. wrk_deleted_at w = None \<longrightarrow> object_allowed (wrk_user w) (wrk_storage_scope w) (wrk_asset_key w) s)
       (\<lambda>w. (wrk_user w, wrk_storage_scope w, wrk_asset_key w, wrk_deleted_at w = None)) (works s) (works s') \<and>
     lets_in (\<lambda>g. object_allowed (grc_user g) (grc_storage_scope g) (grc_asset_key g) s)
       (\<lambda>g. (grc_user g, grc_storage_scope g, grc_asset_key g)) (generation_records s) (generation_records s')"

section \<open>Steps\<close>

text \<open>
  A deletion that has begun: whose object, under which token, for the sake of which asset. The
  log keeps all of them; a deletion that is never finished (the process died) is one nothing more
  happens to. Tokens are 16 random bytes: no two deletions share one.
\<close>

record deletion =
  dn_user :: uid
  dn_key :: string
  dn_token :: string
  dn_asset :: "uid option"

definition begun_deletion :: "uid \<Rightarrow> string \<Rightarrow> uid option \<Rightarrow> commerce_error + deletion_lease \<Rightarrow> deletion list" where
  "begun_deletion user key exclude outcome =
     (case outcome of
        Inl _ \<Rightarrow> []
      | Inr lease \<Rightarrow> if dl_token lease = [] then []
          else [\<lparr>dn_user = user, dn_key = trim_space key, dn_token = dl_token lease, dn_asset = exclude\<rparr>])"

inductive object_step :: "commerce_db \<times> deletion list \<Rightarrow> commerce_db \<times> deletion list \<Rightarrow> bool" where
  object_ensure: "object_step (s, begun) (snd (ensure_object_guard user scope key s), begun)"
| object_begin: "begin_object_deletion user scope key exclude (Some t) s = (outcome, s') \<Longrightarrow>
    \<not> blank t \<Longrightarrow> t \<notin> dn_token ` set begun \<Longrightarrow>
    object_step (s, begun) (s', begun_deletion user key exclude outcome @ begun)"
| object_cleaned: "pending_cleanup k s = Inr c \<Longrightarrow>
    d \<in> set begun \<Longrightarrow> dn_user d = cln_user c \<Longrightarrow> dn_key d = trim_space (cln_object_key c) \<Longrightarrow> dn_asset d = cln_asset c \<Longrightarrow>
    normalized_storage_scope (cln_storage_scope c) = commerce_private \<Longrightarrow>
    record_cleanup_success_with_guard k (dn_token d) now s = Inr s' \<Longrightarrow> object_step (s, begun) (s', begun)"
| object_unguarded_cleaned: "record_cleanup_success_with_guard k [] now s = Inr s' \<Longrightarrow> object_step (s, begun) (s', begun)"
| object_asset_deleted: "d \<in> set begun \<Longrightarrow> dn_user d = ast_user a \<Longrightarrow> dn_key d = trim_space (ref_asset_key ra) \<Longrightarrow>
    dn_asset d = Some (ast_id a) \<Longrightarrow> normalized_storage_scope (ref_storage_scope ra) = commerce_private \<Longrightarrow>
    delete_asset_tx user project a ra (dn_token d) now s = Inr s' \<Longrightarrow> object_step (s, begun) (s', begun)"
| object_released: "d \<in> set begun \<Longrightarrow>
    release_object_deletion (dn_user d) scope (dn_key d) (dn_token d) s = Inr s' \<Longrightarrow> object_step (s, begun) (s', begun)"
| object_written: "guarded_write s s' \<Longrightarrow> object_step (s, begun) (s', begun)"

inductive object_reachable :: "commerce_db \<times> deletion list \<Rightarrow> commerce_db \<times> deletion list \<Rightarrow> bool" for c0 where
  objects_start: "object_reachable c0 c0"
| objects_next: "object_reachable c0 c \<Longrightarrow> object_step c c' \<Longrightarrow> object_reachable c0 c'"

section \<open>The invariant\<close>

text \<open>An asset, or anything else, refers to the private object \<open>key\<close> of \<open>user\<close>.\<close>

definition object_reference :: "uid \<Rightarrow> string \<Rightarrow> commerce_db \<Rightarrow> uid \<Rightarrow> bool" where
  "object_reference user key s k \<longleftrightarrow> (\<exists>ra \<in> set (reference_assets s). ref_id ra = k \<and> ref_user ra = user \<and>
     ref_storage_scope ra = commerce_private \<and> ref_asset_key ra = key)"

definition asset_refers :: "uid \<Rightarrow> string \<Rightarrow> commerce_db \<Rightarrow> commerce_asset \<Rightarrow> bool" where
  "asset_refers user key s a \<longleftrightarrow> a \<in> set (assets s) \<and> asset_present a \<and> object_reference user key s (ast_reference a)"

definition otherwise_referenced :: "uid \<Rightarrow> string \<Rightarrow> commerce_db \<Rightarrow> bool" where
  "otherwise_referenced user key s \<longleftrightarrow>
     (\<exists>k \<in> set (generation_references s). object_reference user key s k) \<or>
     (\<exists>t \<in> set (style_templates s). stp_deleted_at t = None \<and> object_reference user key s (stp_reference t)) \<or>
     (\<exists>a \<in> set (couple_albums s). alb_deleted_at a = None \<and>
        (object_reference user key s (alb_male_reference a) \<or> object_reference user key s (alb_female_reference a))) \<or>
     (\<exists>k. Some k \<in> set (video_shots s) \<and> object_reference user key s k) \<or>
     (\<exists>b \<in> set (brands s). brd_deleted_at b = None \<and> (\<exists>k. brd_logo b = Some k \<and> object_reference user key s k)) \<or>
     (\<exists>w \<in> set (works s). wrk_deleted_at w = None \<and> wrk_user w = user \<and> wrk_storage_scope w = commerce_private \<and> wrk_asset_key w = key) \<or>
     (\<exists>g \<in> set (generation_records s). grc_user g = user \<and> grc_storage_scope g = commerce_private \<and> grc_asset_key g = key)"

definition guards_ok :: "commerce_db \<Rightarrow> bool" where
  "guards_ok s \<longleftrightarrow> distinct (map grd_id (object_guards s)) \<and>
     (\<forall>g \<in> set (object_guards s). \<forall>g' \<in> set (object_guards s). \<forall>user key.
        guard_of user key g \<longrightarrow> guard_of user key g' \<longrightarrow> g = g')"

text \<open>A guard that is not active, and the deletion it belongs to while it is deleting.\<close>

definition guard_safe :: "deletion list \<Rightarrow> commerce_db \<Rightarrow> commerce_object_guard \<Rightarrow> bool" where
  "guard_safe begun s g \<longleftrightarrow> grd_state g \<noteq> ''active'' \<longrightarrow>
     \<not> otherwise_referenced (grd_user g) (grd_object_key g) s \<and>
     (\<forall>a. asset_refers (grd_user g) (grd_object_key g) s a \<longrightarrow>
        grd_state g = ''deleting'' \<and> (\<exists>d \<in> set begun. dn_token d = grd_delete_token g \<and> dn_asset d = Some (ast_id a)))"

definition objects_ok :: "commerce_db \<times> deletion list \<Rightarrow> bool" where
  "objects_ok = (\<lambda>(s, begun). guards_ok s \<and>
     (\<forall>d \<in> set begun. \<not> blank (dn_token d) \<and> (\<forall>d' \<in> set begun. dn_token d = dn_token d' \<longrightarrow> d = d')) \<and>
     (\<forall>g \<in> set (object_guards s). grd_storage_scope g = commerce_private \<longrightarrow> guard_safe begun s g))"

section \<open>Preservation\<close>

lemma strip_one_prefix: "strip_one es l = None \<Longrightarrow> prefix t l \<Longrightarrow> strip_one es t = None"
  by (induction es) (auto split: if_splits intro: prefix_order.trans)

lemma strip_all_done: "strip_one es s = None \<Longrightarrow> strip_all es s = s"
  by (simp add: strip_all.simps)

lemma trim_space_trimmed [simp]: "trim_space (trim_space s) = trim_space s"
proof -
  let ?l = "trim_left s" and ?r = "strip_all (map rev space_encodings) (rev (trim_left s))"
  have "suffix ?r (rev ?l)" by (rule strip_all_suffix)
  then have "prefix (rev ?r) ?l" unfolding suffix_to_prefix [of ?r] rev_rev_ident .
  moreover have "strip_one space_encodings ?l = None" unfolding trim_left_def by (rule strip_all_stripped)
  ultimately have "strip_one space_encodings (rev ?r) = None" by (rule strip_one_prefix [rotated])
  then have "trim_left (rev ?r) = rev ?r" unfolding trim_left_def by (rule strip_all_done)
  moreover have "strip_all (map rev space_encodings) ?r = ?r" by (intro strip_all_done strip_all_stripped)
  ultimately show ?thesis by (simp add: trim_space_def trim_right_def)
qed

lemma commerce_private_trimmed [simp]: "trim_space commerce_private = commerce_private"
  unfolding commerce_private_def by (rule trim_space_literal) (simp add: literal_bytes_def)

lemma commerce_private_scope [simp]: "normalized_storage_scope commerce_private = commerce_private"
  unfolding normalized_storage_scope_def commerce_private_trimmed by (simp add: commerce_private_def)

lemma commerce_private_matches [simp]: "scope_matches commerce_private x \<longleftrightarrow> x = commerce_private"
  by (simp add: scope_matches_def commerce_private_def)

lemma count_join_0: "count_join on rows ras = 0 \<longleftrightarrow> (\<forall>r \<in> set rows. \<forall>ra \<in> set ras. \<not> on r ra)"
  by (auto simp: count_join_def filter_empty_conv)

lemma inspect_none:
  assumes "inspect_object_references commerce_private (trim_space key) exclude s = Inr r" and "\<not> has_references r"
  shows "\<not> otherwise_referenced u (trim_space key) s"
    and "asset_refers u (trim_space key) s a \<Longrightarrow> exclude = Some (ast_id a)"
proof -
  let ?ras = "filter (\<lambda>ra. ref_asset_key ra = trim_space key \<and> ref_storage_scope ra = commerce_private) (reference_assets s)"
  have counts: "r = count_object_references commerce_private (trim_space key) exclude s"
    using assms(1) by (simp add: inspect_object_references_def Let_def split: if_splits)
  have none: "or_assets r = 0" "or_generations r = 0" "or_works r = 0" "or_records r = 0" "or_others r = 0"
    using assms(2) by (simp_all add: has_references_def)
  note z = none [unfolded counts count_object_references_def Let_def commerce_private_matches object_references.simps
      add_is_0 count_join_0 count_where_0]
  note zero = z(1-4) conjunct1 [OF conjunct1 [OF conjunct1 [OF z(5)]]] conjunct2 [OF conjunct1 [OF conjunct1 [OF z(5)]]]
    conjunct2 [OF conjunct1 [OF z(5)]] conjunct2 [OF z(5)]
  have in_ras: "\<exists>ra \<in> set ?ras. ref_id ra = k" if "object_reference u (trim_space key) s k" for k
    using that unfolding object_reference_def by auto
  then have in_ras': "\<exists>ra \<in> set ?ras. k = ref_id ra" if "object_reference u (trim_space key) s k" for k
    using that by (metis (mono_tags, lifting))
  show "\<not> otherwise_referenced u (trim_space key) s"
  proof
    assume "otherwise_referenced u (trim_space key) s"
    then show False
      unfolding otherwise_referenced_def
    proof (elim disjE bexE conjE exE)
      fix k assume "k \<in> set (generation_references s)" and r: "object_reference u (trim_space key) s k"
      then show False using zero(2) in_ras [OF r] by blast
    next
      fix t assume "t \<in> set (style_templates s)" "stp_deleted_at t = None" and r: "object_reference u (trim_space key) s (stp_reference t)"
      then show False using zero(5) in_ras' [OF r] by blast
    next
      fix a assume "a \<in> set (couple_albums s)" "alb_deleted_at a = None" and r: "object_reference u (trim_space key) s (alb_male_reference a)"
      then show False using zero(6) in_ras' [OF r] unfolding album_uses_def by blast
    next
      fix a assume "a \<in> set (couple_albums s)" "alb_deleted_at a = None" and r: "object_reference u (trim_space key) s (alb_female_reference a)"
      then show False using zero(6) in_ras' [OF r] unfolding album_uses_def by blast
    next
      fix k assume "Some k \<in> set (video_shots s)" and r: "object_reference u (trim_space key) s k"
      then show False using zero(7) in_ras' [OF r] by blast
    next
      fix b k assume "b \<in> set (brands s)" "brd_deleted_at b = None" "brd_logo b = Some k" and r: "object_reference u (trim_space key) s k"
      then show False using zero(8) in_ras' [OF r] by blast
    next
      fix w assume "w \<in> set (works s)" "wrk_deleted_at w = None" "wrk_storage_scope w = commerce_private" "wrk_asset_key w = trim_space key"
      then show False using zero(3) by blast
    next
      fix g assume "g \<in> set (generation_records s)" "grc_storage_scope g = commerce_private" "grc_asset_key g = trim_space key"
      then show False using zero(4) by blast
    qed
  qed
  assume a: "asset_refers u (trim_space key) s a"
  obtain ra where "ra \<in> set ?ras" "ref_id ra = ast_reference a" using a in_ras unfolding asset_refers_def by blast
  then show "exclude = Some (ast_id a)" using zero(1) a unfolding asset_refers_def by (cases exclude) auto
qed

lemma object_reference_frame [simp]:
  "object_reference u k (s\<lparr>object_guards := gs\<rparr>) = object_reference u k s"
  "object_reference u k (s\<lparr>cleanups := cs\<rparr>) = object_reference u k s"
  "object_reference u k (s\<lparr>assets := as\<rparr>) = object_reference u k s"
  by (auto simp: object_reference_def fun_eq_iff)

lemma references_frame [simp]:
  "otherwise_referenced u k (s\<lparr>object_guards := gs\<rparr>) = otherwise_referenced u k s"
  "otherwise_referenced u k (s\<lparr>cleanups := cs\<rparr>) = otherwise_referenced u k s"
  "otherwise_referenced u k (s\<lparr>assets := as\<rparr>) = otherwise_referenced u k s"
  "asset_refers u k (s\<lparr>object_guards := gs\<rparr>) = asset_refers u k s"
  "asset_refers u k (s\<lparr>cleanups := cs\<rparr>) = asset_refers u k s"
  by (simp_all add: otherwise_referenced_def asset_refers_def fun_eq_iff)

lemma guard_safe_mono:
  assumes "guard_safe begun s g" and "set begun \<subseteq> set begun'"
    and "otherwise_referenced (grd_user g) (grd_object_key g) s' \<Longrightarrow> otherwise_referenced (grd_user g) (grd_object_key g) s"
    and "\<And>a. asset_refers (grd_user g) (grd_object_key g) s' a \<Longrightarrow>
       \<exists>a0. asset_refers (grd_user g) (grd_object_key g) s a0 \<and> ast_id a0 = ast_id a"
  shows "guard_safe begun' s' g"
  unfolding guard_safe_def
proof (intro impI conjI allI)
  assume inactive: "grd_state g \<noteq> ''active''"
  then show "\<not> otherwise_referenced (grd_user g) (grd_object_key g) s'"
    using assms(1,3) unfolding guard_safe_def by blast
  fix a assume "asset_refers (grd_user g) (grd_object_key g) s' a"
  then obtain a0 where a0: "asset_refers (grd_user g) (grd_object_key g) s a0" "ast_id a0 = ast_id a" using assms(4) by blast
  then have "grd_state g = ''deleting'' \<and> (\<exists>d \<in> set begun. dn_token d = grd_delete_token g \<and> dn_asset d = Some (ast_id a0))"
    using assms(1) inactive unfolding guard_safe_def by blast
  then show "grd_state g = ''deleting''" "\<exists>d \<in> set begun'. dn_token d = grd_delete_token g \<and> dn_asset d = Some (ast_id a)"
    using a0(2) assms(2) by auto
qed

lemma guards_okD: "guards_ok s \<Longrightarrow> g \<in> set (object_guards s) \<Longrightarrow> g' \<in> set (object_guards s) \<Longrightarrow>
    guard_of user key g \<Longrightarrow> guard_of user key g' \<Longrightarrow> g = g'"
  unfolding guards_ok_def by blast

lemma guards_ok_update:
  assumes ok: "guards_ok s"
    and f: "\<And>g. P g \<Longrightarrow> grd_id (f g) = grd_id g \<and> grd_user (f g) = grd_user g \<and>
       grd_storage_scope (f g) = grd_storage_scope g \<and> grd_object_key (f g) = grd_object_key g"
  shows "guards_ok (s\<lparr>object_guards := update_where P f (object_guards s)\<rparr>)"
proof -
  let ?u = "\<lambda>g. if P g then f g else g"
  have same: "guard_of u k (?u g) = guard_of u k g" for u k g using f by (simp add: guard_of_def)
  have "?u x = ?u y" if "x \<in> set (object_guards s)" "y \<in> set (object_guards s)" "guard_of u k (?u x)" "guard_of u k (?u y)" for x y u k
    using guards_okD [OF ok that(1,2), of u k] that(3,4) unfolding same by simp
  moreover have "map grd_id (update_where P f (object_guards s)) = map grd_id (object_guards s)"
    using f by (intro map_update_where) simp
  ultimately show ?thesis
    using ok unfolding guards_ok_def by (simp add: ball_update_where)
qed

lemma ensure_object_guard_ok:
  assumes "objects_ok (s, begun)"
  shows "objects_ok (snd (ensure_object_guard user scope key s), begun)"
proof (cases "first_where (guard_of user (trim_space key)) (object_guards s) = None")
  case False
  then have "snd (ensure_object_guard user scope key s) = s"
    by (auto simp: ensure_object_guard_def Let_def split: option.splits)
  then show ?thesis using assms by simp
next
  case True
  let ?g = "\<lparr>grd_id = next_key grd_id (object_guards s), grd_user = user, grd_storage_scope = commerce_private,
     grd_object_key = trim_space key, grd_state = ''active'', grd_delete_token = ''''\<rparr>"
  let ?s = "s\<lparr>object_guards := object_guards s @ [?g]\<rparr>"
  have none: "\<forall>g \<in> set (object_guards s). \<not> guard_of user (trim_space key) g"
    using True by (simp add: first_where_None)
  have ok: "guards_ok s" using assms by (simp add: objects_ok_def)
  have "next_key grd_id (object_guards s) \<notin> grd_id ` set (object_guards s)"
    using next_key_fresh [of _ "object_guards s" grd_id] by fastforce
  moreover have "\<not> guard_of u k ?g" if "g \<in> set (object_guards s)" "guard_of u k g" for u k g
    using none that by (auto simp: guard_of_def)
  ultimately have "guards_ok ?s"
    using ok unfolding guards_ok_def by auto
  moreover have "guard_safe begun ?s g"
    if "g \<in> set (object_guards ?s)" "grd_storage_scope g = commerce_private" for g
    using that assms by (auto simp: objects_ok_def guard_safe_def)
  ultimately have "objects_ok (?s, begun)" using assms by (simp add: objects_ok_def)
  moreover have "snd (ensure_object_guard user scope key s) = s \<or> snd (ensure_object_guard user scope key s) = ?s"
    using True by (auto simp: ensure_object_guard_def Let_def split: option.splits)
  ultimately show ?thesis using assms by (elim disjE) simp_all
qed

lemma begin_deletion_tx_ok:
  assumes ok: "objects_ok (s, begun)" and run: "begin_deletion_tx user (trim_space key) exclude t s = Inr (lease, s')"
    and t: "\<not> blank t" "t \<notin> dn_token ` set begun"
  shows "objects_ok (s', begun_deletion user key exclude (Inr lease) @ begun)"
proof -
  obtain g where g: "first_where (guard_of user (trim_space key)) (object_guards s) = Some g" "grd_state g = ''active''"
    using run by (auto simp: begin_deletion_tx_def split: option.splits if_splits)
  obtain references where refs: "inspect_object_references commerce_private (trim_space key) exclude s = Inr references"
    using run g by (auto simp: begin_deletion_tx_def inv_simps split: if_splits)
  show ?thesis
  proof (cases "has_references references")
    case True
    then have "s' = s" "dl_token lease = []" using run g refs by (auto simp: begin_deletion_tx_def)
    then show ?thesis using ok by (simp add: begun_deletion_def)
  next
    case False
    let ?hit = "\<lambda>x. grd_id x = grd_id g \<and> grd_state x = ''active''"
    let ?f = "\<lambda>x. x\<lparr>grd_state := ''deleting'', grd_delete_token := t\<rparr>"
    let ?d = "\<lparr>dn_user = user, dn_key = trim_space key, dn_token = t, dn_asset = exclude\<rparr>"
    have s': "s' = s\<lparr>object_guards := update_where ?hit ?f (object_guards s)\<rparr>" and tok: "dl_token lease = t"
      using run g refs False by (auto simp: begin_deletion_tx_def Let_def split: if_splits)
    have t0: "t \<noteq> []" using t(1) by auto
    have guard: "g \<in> set (object_guards s)" "guard_of user (trim_space key) g" using first_where_Some [OF g(1)] by auto
    have "guards_ok s'" unfolding s' using ok by (intro guards_ok_update) (simp_all add: objects_ok_def)
    moreover have "guard_safe (?d # begun) s' x" if x: "x \<in> set (object_guards s')" "grd_storage_scope x = commerce_private" for x
    proof -
      obtain y where y: "y \<in> set (object_guards s)" "x = (if ?hit y then ?f y else y)"
        using x(1) unfolding s' by (auto simp: set_update_where)
      show ?thesis
      proof (cases "?hit y")
        case True
        have "distinct (map grd_id (object_guards s))" using ok by (simp add: objects_ok_def guards_ok_def)
        then have "y = g" using True y(1) guard(1) by (auto simp: distinct_map inj_on_def)
        then have "grd_user x = user" "grd_object_key x = trim_space key" "grd_state x = ''deleting''" "grd_delete_token x = t"
          using y(2) True guard(2) by (auto simp: guard_of_def)
        then show ?thesis
          using inspect_none [OF refs False] by (auto simp: guard_safe_def s')
      next
        case False
        then have "guard_safe begun s x" using y ok x(2) by (auto simp: objects_ok_def)
        then show ?thesis by (rule guard_safe_mono) (auto simp: s')
      qed
    qed
    moreover have "\<forall>d \<in> set (?d # begun). \<not> blank (dn_token d) \<and> (\<forall>d' \<in> set (?d # begun). dn_token d = dn_token d' \<longrightarrow> d = d')"
      using ok t by (auto simp: objects_ok_def image_iff)
    ultimately show ?thesis using t0 by (simp add: objects_ok_def begun_deletion_def tok)
  qed
qed

lemma begin_object_deletion_ok:
  assumes "objects_ok (s, begun)" and "begin_object_deletion user scope key exclude (Some t) s = (outcome, s')"
    and "\<not> blank t" and "t \<notin> dn_token ` set begun"
  shows "objects_ok (s', begun_deletion user key exclude outcome @ begun)"
proof (cases "normalized_storage_scope scope = commerce_private")
  case False
  then have "s' = s" "begun_deletion user key exclude outcome = []"
    using assms(2) by (cases "inspect_object_references (normalized_storage_scope scope) (trim_space key) exclude s";
      auto simp: begin_object_deletion_def begun_deletion_def Let_def)+
  then show ?thesis using assms(1) by simp
next
  case True
  obtain r s1 where ensure: "ensure_object_guard user commerce_private (trim_space key) s = (r, s1)" by fastforce
  have ok: "objects_ok (s1, begun)"
    using ensure_object_guard_ok [OF assms(1), of user commerce_private "trim_space key"] by (simp add: ensure)
  show ?thesis
  proof (cases r)
    case (Inl e)
    then show ?thesis using assms(2) True ensure ok
      by (auto simp: begin_object_deletion_def Let_def begun_deletion_def)
  next
    case (Inr _)
    then have run: "run_tx (begin_deletion_tx user (trim_space key) exclude t) s1 = (outcome, s')"
      using assms(2) True ensure by (simp add: begin_object_deletion_def Let_def)
    show ?thesis
    proof (cases "begin_deletion_tx user (trim_space key) exclude t s1")
      case (Inl e)
      then show ?thesis using run ok by (auto simp: run_tx_def begun_deletion_def)
    next
      case (Inr x)
      then obtain lease where "begin_deletion_tx user (trim_space key) exclude t s1 = Inr (lease, s')" "outcome = Inr lease"
        using run by (cases x) (auto simp: run_tx_def)
      then show ?thesis using begin_deletion_tx_ok [OF ok _ assms(3,4)] by simp
    qed
  qed
qed

section \<open>Finishing deletions\<close>

lemma end_deletion_Inr:
  assumes "end_deletion state user scope key token s = Inr s'" and "normalized_storage_scope scope = commerce_private"
  obtains g where "g \<in> set (object_guards s)" "guard_of user (trim_space key) g" "grd_state g = ''deleting''"
    "grd_delete_token g = token"
    "s' = s\<lparr>object_guards := update_where (\<lambda>g. guard_of user (trim_space key) g \<and> grd_state g = ''deleting'' \<and>
       grd_delete_token g = token) (\<lambda>g. g\<lparr>grd_state := state, grd_delete_token := ''''\<rparr>) (object_guards s)\<rparr>"
proof -
  let ?hit = "\<lambda>g. guard_of user (trim_space key) g \<and> grd_state g = ''deleting'' \<and> grd_delete_token g = token"
  have run: "count_where ?hit (object_guards s) = 1"
    "s' = s\<lparr>object_guards := update_where ?hit (\<lambda>g. g\<lparr>grd_state := state, grd_delete_token := ''''\<rparr>) (object_guards s)\<rparr>"
    using assms by (auto simp: end_deletion_def Let_def split: if_splits)
  from count_where_eq_1D [OF run(1)] run(2) show thesis using that by blast
qed

text \<open>
  Ending a deletion: the guards that remain inactive are the old ones, and the one that ended.
\<close>

lemma end_deletion_guards:
  assumes ok: "objects_ok (s, begun)" and run: "end_deletion state user scope key token s = Inr s1"
    and scope: "normalized_storage_scope scope = commerce_private"
  shows "guards_ok s1"
    and "x \<in> set (object_guards s1) \<Longrightarrow> grd_storage_scope x = commerce_private \<Longrightarrow>
       x \<in> set (object_guards s) \<and> guard_safe begun s x \<and> \<not> guard_of user (trim_space key) x \<or>
       guard_of user (trim_space key) x \<and> grd_state x = state \<and> \<not> otherwise_referenced user (trim_space key) s \<and>
       (\<forall>a. asset_refers user (trim_space key) s a \<longrightarrow> (\<exists>d \<in> set begun. dn_token d = token \<and> dn_asset d = Some (ast_id a)))"
proof -
  let ?hit = "\<lambda>g. guard_of user (trim_space key) g \<and> grd_state g = ''deleting'' \<and> grd_delete_token g = token"
  let ?f = "\<lambda>g. g\<lparr>grd_state := state, grd_delete_token := ''''\<rparr>"
  obtain g where g: "g \<in> set (object_guards s)" "guard_of user (trim_space key) g" "grd_state g = ''deleting''" "grd_delete_token g = token"
    and s1: "s1 = s\<lparr>object_guards := update_where ?hit ?f (object_guards s)\<rparr>"
    using end_deletion_Inr [OF run scope] by blast
  show "guards_ok s1" unfolding s1 using ok by (intro guards_ok_update) (simp_all add: objects_ok_def)
  assume x: "x \<in> set (object_guards s1)" "grd_storage_scope x = commerce_private"
  obtain y where y: "y \<in> set (object_guards s)" "x = (if ?hit y then ?f y else y)"
    using x(1) unfolding s1 by (auto simp: set_update_where)
  have safe: "grd_storage_scope y = commerce_private \<Longrightarrow> guard_safe begun s y" using ok y(1) by (simp add: objects_ok_def)
  show "x \<in> set (object_guards s) \<and> guard_safe begun s x \<and> \<not> guard_of user (trim_space key) x \<or>
       guard_of user (trim_space key) x \<and> grd_state x = state \<and> \<not> otherwise_referenced user (trim_space key) s \<and>
       (\<forall>a. asset_refers user (trim_space key) s a \<longrightarrow> (\<exists>d \<in> set begun. dn_token d = token \<and> dn_asset d = Some (ast_id a)))"
  proof (cases "guard_of user (trim_space key) y")
    case True
    then have "y = g" using ok y(1) g(1,2) guards_okD by (auto simp: objects_ok_def)
    then have "?hit y" using g by simp
    moreover have "guard_safe begun s y" using safe True by (simp add: guard_of_def)
    ultimately show ?thesis using y(2) True by (auto simp: guard_safe_def guard_of_def)
  next
    case False
    then have "x = y" using y(2) by simp
    then show ?thesis using y(1) safe x(2) False by simp
  qed
qed

lemma refers_object_deleted:
  assumes "asset_refers u k (s\<lparr>assets := update_where P f (assets s)\<rparr>) a'"
    and "\<And>a. P a \<Longrightarrow> \<not> asset_present (f a)"
  shows "asset_refers u k s a' \<and> \<not> P a'"
proof -
  have in_s: "a' \<in> set (update_where P f (assets s))" and present: "asset_present a'"
    and ref: "object_reference u k s (ast_reference a')"
    using assms(1) by (auto simp: asset_refers_def)
  obtain a where a: "a \<in> set (assets s)" "a' = (if P a then f a else a)" using in_s by (auto simp: set_update_where)
  then have "\<not> P a" using assms(2) present by auto
  then show ?thesis using a present ref by (simp add: asset_refers_def)
qed

lemma complete_ok:
  assumes ok: "objects_ok (s, begun)" and d: "d \<in> set begun"
    and run: "complete_object_deletion_tx user scope key (dn_token d) s = Inr s1"
    and scope: "normalized_storage_scope scope = commerce_private"
    and guards: "object_guards s' = object_guards s1"
    and others: "\<And>u k. otherwise_referenced u k s' \<Longrightarrow> otherwise_referenced u k s"
    and assets: "\<And>u k a. asset_refers u k s' a \<Longrightarrow> \<exists>a0. asset_refers u k s a0 \<and> ast_id a0 = ast_id a \<and> dn_asset d \<noteq> Some (ast_id a)"
  shows "objects_ok (s', begun)"
proof -
  note E = end_deletion_guards [OF ok run [unfolded complete_object_deletion_tx_def] scope]
  have "guard_safe begun s' x" if x: "x \<in> set (object_guards s')" "grd_storage_scope x = commerce_private" for x
    using E(2) [OF x [unfolded guards]]
  proof
    assume "x \<in> set (object_guards s) \<and> guard_safe begun s x \<and> \<not> guard_of user (trim_space key) x"
    then have "guard_safe begun s x" by simp
    then show ?thesis by (rule guard_safe_mono) (use others assets in \<open>blast+\<close>)
  next
    assume A: "guard_of user (trim_space key) x \<and> grd_state x = ''deleted'' \<and> \<not> otherwise_referenced user (trim_space key) s \<and>
       (\<forall>a. asset_refers user (trim_space key) s a \<longrightarrow> (\<exists>d' \<in> set begun. dn_token d' = dn_token d \<and> dn_asset d' = Some (ast_id a)))"
    then have x: "grd_user x = user" "grd_object_key x = trim_space key" by (simp_all add: guard_of_def)
    have "\<not> asset_refers user (trim_space key) s' a" for a
    proof
      assume "asset_refers user (trim_space key) s' a"
      then obtain a0 where a0: "asset_refers user (trim_space key) s a0" "ast_id a0 = ast_id a" "dn_asset d \<noteq> Some (ast_id a)"
        using assets by blast
      then obtain d' where "d' \<in> set begun" "dn_token d' = dn_token d" "dn_asset d' = Some (ast_id a)" using A by metis
      moreover from this d ok have "d' = d" by (auto simp: objects_ok_def)
      ultimately show False using a0(3) by simp
    qed
    moreover have "\<not> otherwise_referenced user (trim_space key) s'" using A others by blast
    ultimately show ?thesis unfolding guard_safe_def x by simp
  qed
  then show ?thesis using E(1) ok guards by (simp add: objects_ok_def guards_ok_def)
qed

lemma release_ok:
  assumes ok: "objects_ok (s, begun)" and run: "release_object_deletion user scope key token s = Inr s'"
  shows "objects_ok (s', begun)"
proof (cases "normalized_storage_scope scope = commerce_private")
  case False
  then have "s' = s" using run by (simp add: release_object_deletion_def end_deletion_def)
  then show ?thesis using ok by simp
next
  case True
  note E = end_deletion_guards [OF ok run [unfolded release_object_deletion_def] True]
  obtain gs where s': "s' = s\<lparr>object_guards := gs\<rparr>"
    using end_deletion_Inr [OF run [unfolded release_object_deletion_def] True] by blast
  have "guard_safe begun s' x" if x: "x \<in> set (object_guards s')" "grd_storage_scope x = commerce_private" for x
    using E(2) [OF x]
  proof
    assume "x \<in> set (object_guards s) \<and> guard_safe begun s x \<and> \<not> guard_of user (trim_space key) x"
    then show ?thesis by (intro guard_safe_mono [of begun s x begun s']) (auto simp: s')
  next
    assume "guard_of user (trim_space key) x \<and> grd_state x = ''active'' \<and> \<not> otherwise_referenced user (trim_space key) s \<and>
       (\<forall>a. asset_refers user (trim_space key) s a \<longrightarrow> (\<exists>d \<in> set begun. dn_token d = token \<and> dn_asset d = Some (ast_id a)))"
    then show ?thesis by (simp add: guard_safe_def)
  qed
  then show ?thesis using E(1) ok by (simp add: objects_ok_def)
qed

section \<open>Writes\<close>

lemma inactive_guard:
  assumes "guards_ok s" and "g \<in> set (object_guards s)" and "grd_storage_scope g = commerce_private" and "grd_state g \<noteq> ''active''"
  shows "\<not> guard_active (grd_user g) (grd_object_key g) s"
proof
  assume "guard_active (grd_user g) (grd_object_key g) s"
  then obtain g' where g': "g' \<in> set (object_guards s)" "guard_of (grd_user g) (grd_object_key g) g'" "grd_state g' = ''active''"
    by (auto simp: guard_active_def list_ex_iff)
  moreover have "guard_of (grd_user g) (grd_object_key g) g" using assms(3) by (simp add: guard_of_def)
  ultimately show False using guards_okD [OF assms(1) assms(2)] assms(4) by blast
qed

lemma reference_to_inactive:
  "\<not> guard_active u key s \<Longrightarrow> object_reference u key s k \<Longrightarrow> \<not> reference_allowed k s"
  unfolding object_reference_def reference_allowed_def object_allowed_def list_all_iff by blast

lemma lets_inD: "lets_in check columns old new \<Longrightarrow> r \<in> set new \<Longrightarrow> \<not> check r \<Longrightarrow> \<exists>r0 \<in> set old. columns r0 = columns r"
  unfolding lets_in_def by (metis imageE)

lemma guarded_write_references:
  assumes written: "guarded_write s s'" and inactive: "\<not> guard_active u key s"
  shows "object_reference u key s' k \<Longrightarrow> object_reference u key s k"
proof -
  assume "object_reference u key s' k"
  then obtain ra where ra: "ra \<in> set (reference_assets s')" "ref_id ra = k" "ref_user ra = u"
    "ref_storage_scope ra = commerce_private" "ref_asset_key ra = key"
    unfolding object_reference_def by blast
  have "lets_in (\<lambda>ra. ref_deleted_at ra = None \<and> object_allowed (ref_user ra) (ref_storage_scope ra) (ref_asset_key ra) s)
       reference_columns (reference_assets s) (reference_assets s')"
    using written unfolding guarded_write_def by (elim conjE)
  from lets_inD [OF this ra(1)] ra inactive
  obtain r0 where "r0 \<in> set (reference_assets s)" "reference_columns r0 = reference_columns ra"
    by (auto simp: object_allowed_def)
  then show "object_reference u key s k" using ra by (auto simp: object_reference_def reference_columns_def)
qed

lemma guarded_write_assets:
  assumes written: "guarded_write s s'" and inactive: "\<not> guard_active u key s" and a: "asset_refers u key s' a"
  shows "\<exists>a0. asset_refers u key s a0 \<and> ast_id a0 = ast_id a"
proof -
  have a': "a \<in> set (assets s')" "asset_present a" "object_reference u key s (ast_reference a)"
    using a guarded_write_references [OF written inactive] by (simp_all add: asset_refers_def)
  have "lets_in (\<lambda>a. asset_present a \<longrightarrow> reference_allowed (ast_reference a) s) asset_columns (assets s) (assets s')"
    using written unfolding guarded_write_def by (elim conjE)
  from lets_inD [OF this a'(1)] a' reference_to_inactive [OF inactive a'(3)]
  obtain a0 where "a0 \<in> set (assets s)" "asset_columns a0 = asset_columns a" by auto
  then show ?thesis using a' by (auto simp: asset_columns_def asset_refers_def)
qed

lemma guarded_write_others:
  assumes written: "guarded_write s s'" and inactive: "\<not> guard_active u key s" and o: "otherwise_referenced u key s'"
  shows "otherwise_referenced u key s"
proof -
  note refs = guarded_write_references [OF written inactive]
  note bad = reference_to_inactive [OF inactive]
  have deny: "\<not> object_allowed u commerce_private key s" using inactive by (simp add: object_allowed_def)
  note W = written [unfolded guarded_write_def]
  note W1 = W [THEN conjunct2, THEN conjunct2, THEN conjunct2]
  note generation = W1 [THEN conjunct1] and W2 = W1 [THEN conjunct2]
  note style = W2 [THEN conjunct1] and W3 = W2 [THEN conjunct2]
  note album = W3 [THEN conjunct1] and W4 = W3 [THEN conjunct2]
  note shot = W4 [THEN conjunct1] and W5 = W4 [THEN conjunct2]
  note brand = W5 [THEN conjunct1] and W6 = W5 [THEN conjunct2]
  note work = W6 [THEN conjunct1] and rec = W6 [THEN conjunct2]
  from o show ?thesis
    unfolding otherwise_referenced_def [of u key s']
  proof (elim disjE bexE conjE exE)
    fix k assume k: "k \<in> set (generation_references s')" "object_reference u key s' k"
    have "k \<in> set (generation_references s)" using lets_inD [OF generation k(1)] bad [OF refs [OF k(2)]] by simp
    then show ?thesis using refs [OF k(2)] unfolding otherwise_referenced_def by blast
  next
    fix t assume t: "t \<in> set (style_templates s')" "stp_deleted_at t = None" "object_reference u key s' (stp_reference t)"
    obtain t0 where "t0 \<in> set (style_templates s)" "stp_deleted_at t0 = None" "stp_reference t0 = stp_reference t"
      using lets_inD [OF style t(1)] bad [OF refs [OF t(3)]] t(2) by auto
    then show ?thesis using refs [OF t(3)] unfolding otherwise_referenced_def by metis
  next
    fix a assume a: "a \<in> set (couple_albums s')" "alb_deleted_at a = None" "object_reference u key s' (alb_male_reference a)"
    obtain a0 where "a0 \<in> set (couple_albums s)" "alb_deleted_at a0 = None" "alb_male_reference a0 = alb_male_reference a"
      using lets_inD [OF album a(1)] bad [OF refs [OF a(3)]] a(2) by auto
    then show ?thesis using refs [OF a(3)] unfolding otherwise_referenced_def by metis
  next
    fix a assume a: "a \<in> set (couple_albums s')" "alb_deleted_at a = None" "object_reference u key s' (alb_female_reference a)"
    obtain a0 where "a0 \<in> set (couple_albums s)" "alb_deleted_at a0 = None" "alb_female_reference a0 = alb_female_reference a"
      using lets_inD [OF album a(1)] bad [OF refs [OF a(3)]] a(2) by auto
    then show ?thesis using refs [OF a(3)] unfolding otherwise_referenced_def by metis
  next
    fix k assume k: "Some k \<in> set (video_shots s')" "object_reference u key s' k"
    have "Some k \<in> set (video_shots s)" using lets_inD [OF shot k(1)] bad [OF refs [OF k(2)]] by auto
    then show ?thesis using refs [OF k(2)] unfolding otherwise_referenced_def by blast
  next
    fix b k assume b: "b \<in> set (brands s')" "brd_deleted_at b = None" "brd_logo b = Some k" "object_reference u key s' k"
    obtain b0 where "b0 \<in> set (brands s)" "brd_deleted_at b0 = None" "brd_logo b0 = Some k"
      using lets_inD [OF brand b(1)] bad [OF refs [OF b(4)]] b(2,3) by auto
    then show ?thesis using refs [OF b(4)] unfolding otherwise_referenced_def by blast
  next
    fix w assume w: "w \<in> set (works s')" "wrk_deleted_at w = None" "wrk_user w = u" "wrk_storage_scope w = commerce_private" "wrk_asset_key w = key"
    obtain w0 where "w0 \<in> set (works s)" "wrk_deleted_at w0 = None" "wrk_user w0 = u" "wrk_storage_scope w0 = commerce_private" "wrk_asset_key w0 = key"
      using lets_inD [OF work w(1)] deny w(2-5) by auto
    then show ?thesis unfolding otherwise_referenced_def by blast
  next
    fix g assume g: "g \<in> set (generation_records s')" "grc_user g = u" "grc_storage_scope g = commerce_private" "grc_asset_key g = key"
    obtain g0 where "g0 \<in> set (generation_records s)" "grc_user g0 = u" "grc_storage_scope g0 = commerce_private" "grc_asset_key g0 = key"
      using lets_inD [OF rec g(1)] deny g(2-4) by auto
    then show ?thesis unfolding otherwise_referenced_def by blast
  qed
qed

lemma guarded_write_ok:
  assumes ok: "objects_ok (s, begun)" and written: "guarded_write s s'"
  shows "objects_ok (s', begun)"
proof -
  have guards: "object_guards s' = object_guards s" using written unfolding guarded_write_def by (elim conjE)
  have "guard_safe begun s' g" if g: "g \<in> set (object_guards s)" "grd_storage_scope g = commerce_private" for g
  proof (cases "grd_state g = ''active''")
    case True
    then show ?thesis by (simp add: guard_safe_def)
  next
    case False
    have "\<not> guard_active (grd_user g) (grd_object_key g) s"
      using ok by (intro inactive_guard g False) (simp add: objects_ok_def)
    note mono = guarded_write_others [OF written this] guarded_write_assets [OF written this]
    have "guard_safe begun s g" using ok g by (simp add: objects_ok_def)
    then show ?thesis by (rule guard_safe_mono) (use mono in blast)+
  qed
  then show ?thesis using ok guards by (simp add: objects_ok_def guards_ok_def)
qed

section \<open>The steps\<close>

lemma complete_frame:
  assumes "complete_object_deletion_tx user scope key token s = Inr s1"
  obtains gs where "s1 = s\<lparr>object_guards := gs\<rparr>"
proof -
  have "s1 = s\<lparr>object_guards := object_guards s\<rparr> \<or> (\<exists>gs. s1 = s\<lparr>object_guards := gs\<rparr>)"
    using assms by (auto simp: complete_object_deletion_tx_def end_deletion_def Let_def split: if_splits)
  then show thesis using that by blast
qed

text \<open>The assets of a clean-up that succeeded are marked, and no longer refer to their object.\<close>

definition mark_cleaned :: "time \<Rightarrow> uid option \<Rightarrow> commerce_db \<Rightarrow> commerce_db" where
  "mark_cleaned now asset s = (case asset of None \<Rightarrow> s
     | Some a \<Rightarrow> s\<lparr>assets := update_where (\<lambda>x. ast_id x = a \<and> ast_deleted_at x = None)
            (\<lambda>x. x\<lparr>ast_object_deleted_at := Some now\<rparr>) (assets s)\<rparr>)"

lemma mark_cleaned_frame [simp]:
  "object_guards (mark_cleaned now asset s) = object_guards s"
  "otherwise_referenced u k (mark_cleaned now asset s) = otherwise_referenced u k s"
  by (simp_all add: mark_cleaned_def split: option.split)

lemma mark_cleaned_refers:
  assumes "asset_refers u k (mark_cleaned now asset s) a"
  shows "asset_refers u k s a \<and> asset \<noteq> Some (ast_id a)"
proof (cases asset)
  case None
  then show ?thesis using assms by (simp add: mark_cleaned_def)
next
  case (Some x)
  have "asset_refers u k s a \<and> \<not> (ast_id a = x \<and> ast_deleted_at a = None)"
    using assms unfolding mark_cleaned_def Some by (auto dest!: refers_object_deleted simp: asset_present_def)
  then show ?thesis using Some by (auto simp: asset_refers_def asset_present_def)
qed

lemma record_success_Inr:
  assumes "record_cleanup_success_with_guard k token now s = Inr s'"
  obtains c s1 cs where "pending_cleanup k s = Inr c"
    "(if \<not> blank token then complete_object_deletion_tx (cln_user c) (cln_storage_scope c) (cln_object_key c) token s
               else Inr s) = Inr s1"
    "s' = mark_cleaned now (cln_asset c) (s1\<lparr>cleanups := cs\<rparr>)"
proof -
  obtain c where c: "pending_cleanup k s = Inr c"
    using assms by (auto simp: record_cleanup_success_with_guard_def inv_simps)
  obtain s1 where s1: "(if \<not> blank token then complete_object_deletion_tx (cln_user c) (cln_storage_scope c) (cln_object_key c) token s
               else Inr s) = Inr s1"
    using assms c unfolding record_cleanup_success_with_guard_def by (auto simp: inv_simps)
  have "s' = mark_cleaned now (cln_asset c) (s1\<lparr>cleanups := cleanups s'\<rparr>)"
    using assms c s1 unfolding record_cleanup_success_with_guard_def
    by (auto simp: mark_cleaned_def Let_def split: option.splits)
  with c s1 show thesis by (rule that)
qed

lemma cleaned_ok:
  assumes ok: "objects_ok (s, begun)" and c: "pending_cleanup k s = Inr c" and d: "d \<in> set begun" "dn_asset d = cln_asset c"
    and scope: "normalized_storage_scope (cln_storage_scope c) = commerce_private"
    and run: "record_cleanup_success_with_guard k (dn_token d) now s = Inr s'"
  shows "objects_ok (s', begun)"
proof -
  have "\<not> blank (dn_token d)" using ok d(1) by (simp add: objects_ok_def)
  then obtain s1 cs where run1: "complete_object_deletion_tx (cln_user c) (cln_storage_scope c) (cln_object_key c) (dn_token d) s = Inr s1"
    and s': "s' = mark_cleaned now (cln_asset c) (s1\<lparr>cleanups := cs\<rparr>)"
    using record_success_Inr [OF run] c by (metis sum.inject(2))
  obtain gs where s1: "s1 = s\<lparr>object_guards := gs\<rparr>" using complete_frame [OF run1] .
  show ?thesis
  proof (rule complete_ok [OF ok d(1) run1 scope])
    show "object_guards s' = object_guards s1" by (simp add: s')
    show "otherwise_referenced u k s" if "otherwise_referenced u k s'" for u k using that by (simp add: s' s1)
    fix u k a assume "asset_refers u k s' a"
    from mark_cleaned_refers [OF this [unfolded s']]
    show "\<exists>a0. asset_refers u k s a0 \<and> ast_id a0 = ast_id a \<and> dn_asset d \<noteq> Some (ast_id a)"
      using d(2) by (auto simp: s1)
  qed
qed

lemma fewer_references_ok:
  assumes ok: "objects_ok (s, begun)" and guards: "object_guards s' = object_guards s"
    and others: "\<And>u k. otherwise_referenced u k s' \<Longrightarrow> otherwise_referenced u k s"
    and assets: "\<And>u k a. asset_refers u k s' a \<Longrightarrow> asset_refers u k s a"
  shows "objects_ok (s', begun)"
proof -
  have "guard_safe begun s' g" if g: "g \<in> set (object_guards s)" "grd_storage_scope g = commerce_private" for g
  proof (rule guard_safe_mono)
    show "guard_safe begun s g" using ok g by (simp add: objects_ok_def)
  qed (use others assets in blast)+
  then show ?thesis using ok guards by (simp add: objects_ok_def guards_ok_def)
qed

lemma unguarded_cleaned_ok:
  assumes ok: "objects_ok (s, begun)" and run: "record_cleanup_success_with_guard k [] now s = Inr s'"
  shows "objects_ok (s', begun)"
proof -
  obtain c :: commerce_object_cleanup and cs where s': "s' = mark_cleaned now (cln_asset c) (s\<lparr>cleanups := cs\<rparr>)"
  proof (rule record_success_Inr [OF run], goal_cases)
    case (1 c s1 cs)
    from 1(3) have "s1 = s" by simp
    with 1(4) show ?case by (intro 1(1) [of c cs]) simp
  qed
  show ?thesis
  proof (rule fewer_references_ok [OF ok])
    show "asset_refers u k s a" if "asset_refers u k s' a" for u k a
      using mark_cleaned_refers [OF that [unfolded s']] by simp
  qed (simp_all add: s')
qed

lemma reference_deleted_frame [simp]:
  "object_reference u k (s\<lparr>reference_assets := update_where P (\<lambda>x. x\<lparr>ref_deleted_at := t\<rparr>) (reference_assets s)\<rparr>) =
   object_reference u k s"
proof -
  have "(\<exists>ra \<in> set (update_where P (\<lambda>x. x\<lparr>ref_deleted_at := t\<rparr>) ras). ref_id ra = i \<and> ref_user ra = u \<and>
      ref_storage_scope ra = commerce_private \<and> ref_asset_key ra = k) =
    (\<exists>ra \<in> set ras. ref_id ra = i \<and> ref_user ra = u \<and> ref_storage_scope ra = commerce_private \<and> ref_asset_key ra = k)"
    for ras i by (induction ras) (auto simp: update_where_def)
  then show ?thesis unfolding object_reference_def fun_eq_iff by simp
qed

lemma asset_deleted_ok:
  assumes ok: "objects_ok (s, begun)" and d: "d \<in> set begun" "dn_asset d = Some (ast_id a)"
    and scope: "normalized_storage_scope (ref_storage_scope ra) = commerce_private"
    and run: "delete_asset_tx user project a ra (dn_token d) now s = Inr s'"
  shows "objects_ok (s', begun)"
proof -
  obtain s1 where run1: "complete_object_deletion_tx (ast_user a) (ref_storage_scope ra) (ref_asset_key ra) (dn_token d) s = Inr s1"
    using run by (auto simp: delete_asset_tx_def inv_simps)
  obtain gs where s1: "s1 = s\<lparr>object_guards := gs\<rparr>" using complete_frame [OF run1] .
  let ?P = "\<lambda>x. ast_id x = ast_id a \<and> ast_user x = user \<and> ast_project x = project \<and> ast_deleted_at x = None"
  let ?s2 = "s1\<lparr>assets := update_where ?P (\<lambda>x. x\<lparr>ast_object_deleted_at := Some now\<rparr>) (assets s1)\<rparr>"
  let ?s3 = "soft_delete_asset (ast_id a) ?s2"
  obtain f where f: "s' = ?s3\<lparr>reference_assets := update_where (\<lambda>x. ref_id x = ast_reference a \<and> ref_deleted_at x = None)
          (\<lambda>x. x\<lparr>ref_deleted_at := f\<rparr>) (reference_assets ?s3)\<rparr>"
    using run run1 by (auto simp: delete_asset_tx_def Let_def)
  have refs: "object_reference u k s' = object_reference u k ?s3" for u k
    unfolding f by (rule reference_deleted_frame)
  have "otherwise_referenced u k s' = otherwise_referenced u k ?s3" for u k
    unfolding otherwise_referenced_def refs by (simp add: f)
  then have others: "otherwise_referenced u k s' = otherwise_referenced u k s" for u k
    by (simp add: soft_delete_asset_def s1)
  have refers: "asset_refers u k s' x = asset_refers u k ?s3 x" for u k x
    unfolding asset_refers_def refs by (simp add: f)
  show ?thesis
  proof (rule complete_ok [OF ok d(1) run1 scope])
    show "object_guards s' = object_guards s1" by (simp add: f soft_delete_asset_def)
    show "otherwise_referenced u k s" if "otherwise_referenced u k s'" for u k using that by (simp add: others)
    fix u k x assume "asset_refers u k s' x"
    then have x: "asset_refers u k ?s2 x \<and> \<not> (ast_id x = ast_id a \<and> ast_deleted_at x = None)"
      unfolding refers soft_delete_asset_def by (rule refers_object_deleted) (simp add: asset_present_def)
    then have "asset_refers u k s1 x" by (auto dest!: refers_object_deleted simp: asset_present_def)
    then show "\<exists>a0. asset_refers u k s a0 \<and> ast_id a0 = ast_id x \<and> dn_asset d \<noteq> Some (ast_id x)"
      using x d(2) by (auto simp: s1 asset_refers_def asset_present_def)
  qed
qed

lemma object_step_ok: "object_step c c' \<Longrightarrow> objects_ok c \<Longrightarrow> objects_ok c'"
proof (induction rule: object_step.induct)
  case object_begin
  then show ?case by (intro begin_object_deletion_ok)
qed (blast intro: ensure_object_guard_ok cleaned_ok unguarded_cleaned_ok asset_deleted_ok release_ok guarded_write_ok)+

lemma object_reachable_ok: "object_reachable c0 c \<Longrightarrow> objects_ok c0 \<Longrightarrow> objects_ok c"
  by (induction rule: object_reachable.induct) (blast intro: object_step_ok)+

end
