(* ===== verification/AssetClaims.thy ===== *)
theory AssetClaims
  imports AssetSafety Demo
begin

text \<open>
  What the deletion of objects guarantees: the handlers of \<^verbatim>\<open>ecommerce_storage.go\<close> are runs of
  the step relation of \<^verbatim>\<open>AssetSafety\<close>, so nothing ever refers to an object that was deleted.
\<close>

section \<open>Writes of this package\<close>

lemma lets_in_refl [simp]: "lets_in check columns rows rows"
  by (simp add: lets_in_def)

lemma lets_in_update:
  "lets_in check columns rows rows' \<Longrightarrow> (\<And>r. P r \<Longrightarrow> check (f r) \<or> columns (f r) = columns r) \<Longrightarrow>
   (\<And>r. check r \<Longrightarrow> P r \<Longrightarrow> check (f r)) \<Longrightarrow> lets_in check columns rows (update_where P f rows')"
  unfolding lets_in_def ball_update_where by (metis (mono_tags, lifting))

lemma lets_in_touch: "(\<And>r. P r \<Longrightarrow> columns (f r) = columns r) \<Longrightarrow> lets_in check columns rows (update_where P f rows)"
  unfolding lets_in_def ball_update_where by auto

lemma cleanup_write: "guarded_write s (s\<lparr>cleanups := cs\<rparr>)"
  by (simp add: guarded_write_def)

lemma record_cleanup_failure_write: "record_cleanup_failure k message now s = Inr s' \<Longrightarrow> guarded_write s s'"
  by (auto simp: record_cleanup_failure_def inv_simps intro: cleanup_write)

lemma record_cleanup_protected_write: "record_cleanup_protected k reason now s = Inr s' \<Longrightarrow> guarded_write s s'"
  by (auto simp: record_cleanup_protected_def Let_def intro: cleanup_write split: if_splits)

lemma create_asset_write:
  assumes "create_asset i now s = Inr (a, s')"
  shows "guarded_write s s'"
proof -
  obtain a' where "s' = s\<lparr>assets := assets s @ [a']\<rparr>" "reference_allowed (ast_reference a') s"
    using assms by (auto simp: create_asset_def Let_def inv_simps split: if_splits)
  then show ?thesis by (auto simp: guarded_write_def lets_in_def)
qed

lemma soft_delete_write: "guarded_write s (soft_delete_asset k s)"
  by (auto simp: guarded_write_def soft_delete_asset_def lets_in_def set_update_where asset_present_def)

section \<open>Runs\<close>

lemma begin_private:
  assumes "begin_object_deletion user scope key exclude (Some t) s = (Inr lease, s1)"
    and "normalized_storage_scope scope = commerce_private" and "\<not> has_references (dl_references lease)"
  shows "dl_token lease = t"
  using assms
  by (auto simp: begin_object_deletion_def begin_deletion_tx_def run_tx_def Let_def inv_simps
      split: prod.splits sum.splits option.splits if_splits)

lemma begin_public:
  assumes "begin_object_deletion user scope key exclude token s = (Inr lease, s1)"
    and "normalized_storage_scope scope \<noteq> commerce_private"
  shows "dl_token lease = [] \<and> s1 = s"
  using assms by (auto simp: begin_object_deletion_def Let_def inv_simps)

lemma ensure_cleanups: "cleanups (snd (ensure_object_guard user scope key s)) = cleanups s"
  by (auto simp: ensure_object_guard_def Let_def split: option.splits)

lemma begin_deletion_tx_cleanups: "begin_deletion_tx user key exclude t s = Inr (lease, s') \<Longrightarrow> cleanups s' = cleanups s"
  by (auto simp: begin_deletion_tx_def Let_def inv_simps split: option.splits if_splits)

lemma begin_cleanups:
  assumes "begin_object_deletion user scope key exclude token s = (outcome, s')"
  shows "cleanups s' = cleanups s"
proof -
  obtain r s1 where e: "ensure_object_guard user commerce_private (trim_space key) s = (r, s1)" by fastforce
  then have "cleanups s1 = cleanups s" using ensure_cleanups by (metis snd_conv)
  then show ?thesis using assms begin_deletion_tx_cleanups
    by (auto simp: begin_object_deletion_def Let_def e run_tx_def split: if_splits sum.splits option.splits)
qed

lemma reach_step: "object_step c c' \<Longrightarrow> object_reachable c c'"
  by (blast intro: object_reachable.intros)

lemma reach_written: "guarded_write s s' \<Longrightarrow> object_reachable c (s, begun) \<Longrightarrow> object_reachable c (s', begun)"
  by (blast intro: object_reachable.intros object_written)

lemma protect_cleanup_reaches:
  assumes "protect_cleanup k reason now s = (outcome, s')"
  shows "object_reachable (s, begun) (s', begun)"
  using assms by (auto simp: protect_cleanup_def split: sum.splits
      intro: objects_start reach_written record_cleanup_protected_write)

text \<open>
  Starting a deletion is one step. A lease over a private object with no other references is a
  deletion of the log; over another object it has no token.
\<close>

lemma begin_reaches:
  assumes "begin_object_deletion user scope key exclude (Some t) s = (outcome, s1)"
    and "\<not> blank t" and "t \<notin> dn_token ` set begun"
  shows "object_reachable (s, begun) (s1, begun_deletion user key exclude outcome @ begun)"
  using assms by (intro reach_step object_begin)

lemma begun_in_log:
  assumes "begin_object_deletion user scope key exclude (Some t) s = (Inr lease, s1)" and "\<not> blank t"
    and "normalized_storage_scope scope = commerce_private" and "\<not> has_references (dl_references lease)"
  obtains d where "d \<in> set (begun_deletion user key exclude (Inr lease) @ begun)" "dn_user d = user" "dn_key d = trim_space key"
    "dn_asset d = exclude" "dn_token d = dl_token lease" "dl_token lease = t"
proof -
  have "dl_token lease = t" "t \<noteq> []" using begin_private [OF assms(1,3,4)] assms(2) by auto
  then show thesis by (intro that [of "\<lparr>dn_user = user, dn_key = trim_space key, dn_token = t, dn_asset = exclude\<rparr>"])
    (simp_all add: begun_deletion_def)
qed

text \<open>Giving a deletion up after the store refused it.\<close>

lemma release_reaches:
  assumes run: "begin_object_deletion user scope key exclude (Some t) s = (Inr lease, s1)" and t: "\<not> blank t"
    and none: "\<not> has_references (dl_references lease)"
    and release: "release_object_deletion user scope key (dl_token lease) s1 = Inr s2"
  shows "object_reachable (s1, begun_deletion user key exclude (Inr lease) @ begun)
     (s2, begun_deletion user key exclude (Inr lease) @ begun)"
proof (cases "normalized_storage_scope scope = commerce_private")
  case True
  obtain d where d: "d \<in> set (begun_deletion user key exclude (Inr lease) @ begun)" "dn_user d = user"
    "dn_key d = trim_space key" "dn_token d = dl_token lease"
    using begun_in_log [OF run t True none] by metis
  have "release_object_deletion (dn_user d) scope (dn_key d) (dn_token d) s1 = Inr s2"
    using release unfolding d release_object_deletion_def end_deletion_def trim_space_trimmed .
  then show ?thesis by (intro reach_step object_released [OF d(1)])
next
  case False
  then have "s2 = s1" using release by (simp add: release_object_deletion_def end_deletion_def)
  then show ?thesis by (simp add: objects_start)
qed

lemma object_reachable_trans: "object_reachable b c \<Longrightarrow> object_reachable a b \<Longrightarrow> object_reachable a c"
  by (induction rule: object_reachable.induct) (blast intro: object_reachable.intros)+

lemma pending_cleanup_id: "pending_cleanup k s = Inr c \<Longrightarrow> cln_id c = k"
  by (auto simp: pending_cleanup_def dest: first_where_Some split: option.splits)

lemma cleaned_reaches:
  fixes begun
  assumes run: "begin_object_deletion (cln_user c) (cln_storage_scope c) (cln_object_key c) (cln_asset c) (Some t) s = (Inr lease, s1)"
    and t: "\<not> blank t" and none: "\<not> has_references (dl_references lease)" and c: "pending_cleanup (cln_id c) s = Inr c"
    and success: "record_cleanup_success_with_guard (cln_id c) (dl_token lease) now s1 = Inr s2"
  defines "begun' \<equiv> begun_deletion (cln_user c) (cln_object_key c) (cln_asset c) (Inr lease) @ begun"
  shows "object_reachable (s1, begun') (s2, begun')"
proof (cases "normalized_storage_scope (cln_storage_scope c) = commerce_private")
  case True
  obtain d where d: "d \<in> set begun'" "dn_user d = cln_user c" "dn_key d = trim_space (cln_object_key c)" "dn_asset d = cln_asset c"
    "dn_token d = dl_token lease"
    using begun_in_log [OF run t True none] unfolding begun'_def by metis
  have "pending_cleanup (cln_id c) s1 = Inr c"
    using c begin_cleanups [OF run] by (simp add: pending_cleanup_def)
  from object_cleaned [OF this d(1-4) True, of now s2] success d(5) show ?thesis by (intro reach_step) simp
next
  case False
  then have "dl_token lease = []" using begin_public [OF run] by simp
  then show ?thesis using success by (intro reach_step object_unguarded_cleaned [of "cln_id c" now]) simp
qed

lemma process_cleanup_reaches:
  assumes run: "process_cleanup delete (Some t) now c s = (outcome, s')" and c: "pending_cleanup (cln_id c) s = Inr c"
    and t: "\<not> blank t" "t \<notin> dn_token ` set begun"
  shows "\<exists>begun'. object_reachable (s, begun) (s', begun')"
proof -
  obtain r s1 where b: "begin_object_deletion (cln_user c) (cln_storage_scope c) (cln_object_key c) (cln_asset c) (Some t) s = (r, s1)"
    by fastforce
  define begun' where "begun' = begun_deletion (cln_user c) (cln_object_key c) (cln_asset c) r @ begun"
  have first: "object_reachable (s, begun) (s1, begun')" unfolding begun'_def by (rule begin_reaches [OF b t])
  note whole = object_reachable_trans [OF _ first]
  have "object_reachable (s1, begun') (s', begun')"
  proof (cases r)
    case (Inl e)
    then show ?thesis using run b
      by (auto simp: process_cleanup_def intro: protect_cleanup_reaches objects_start split: if_splits)
  next
    case (Inr lease)
    show ?thesis
    proof (cases "has_references (dl_references lease)")
      case True
      then show ?thesis using run b Inr by (auto simp: process_cleanup_def intro: protect_cleanup_reaches)
    next
      case none: False
      show ?thesis
      proof (cases "delete (cln_storage_scope c) (cln_object_key c)")
        case None
        have success: "record_cleanup_success_with_guard (cln_id c) (dl_token lease) now s1 = Inr s2 \<Longrightarrow>
            object_reachable (s1, begun') (s2, begun')" for s2
          using cleaned_reaches [OF b [unfolded Inr] t(1) none c] unfolding begun'_def Inr by blast
        show ?thesis using run b Inr none None
          by (auto simp: process_cleanup_def intro: objects_start success split: sum.splits)
      next
        case (Some message)
        have release: "release_object_deletion (cln_user c) (cln_storage_scope c) (cln_object_key c) (dl_token lease) s1 = Inr s2 \<Longrightarrow>
            object_reachable (s1, begun') (s2, begun')" for s2
          using release_reaches [OF b [unfolded Inr] t(1) none] unfolding begun'_def Inr by blast
        show ?thesis using run b Inr none Some
          by (auto simp: process_cleanup_def intro: objects_start release reach_written [OF record_cleanup_failure_write]
              split: sum.splits)
      qed
    qed
  qed
  then show ?thesis using whole by blast
qed

lemma delete_asset_tx_public:
  assumes run: "delete_asset_tx user project a ra token now s = Inr s'"
    and scope: "normalized_storage_scope (ref_storage_scope ra) \<noteq> commerce_private"
  shows "guarded_write s s'"
proof -
  have "complete_object_deletion_tx (ast_user a) (ref_storage_scope ra) (ref_asset_key ra) token s = Inr s"
    using scope by (simp add: complete_object_deletion_tx_def end_deletion_def)
  then have s': "s' = s\<lparr>assets := update_where (\<lambda>x. ast_id x = ast_id a \<and> ast_deleted_at x = None)
           (\<lambda>x. x\<lparr>ast_deleted_at := Some (clock s)\<rparr>) (update_where (\<lambda>x. ast_id x = ast_id a \<and> ast_user x = user \<and>
             ast_project x = project \<and> ast_deleted_at x = None) (\<lambda>x. x\<lparr>ast_object_deleted_at := Some now\<rparr>) (assets s)),
         reference_assets := update_where (\<lambda>x. ref_id x = ast_reference a \<and> ref_deleted_at x = None) (\<lambda>x. x\<lparr>ref_deleted_at := Some (clock s)\<rparr>) (reference_assets s)\<rparr>"
    using run by (auto simp: delete_asset_tx_def Let_def soft_delete_asset_def)
  have "lets_in check reference_columns (reference_assets s) (reference_assets s')" for check
    unfolding s' by (simp add: lets_in_touch reference_columns_def)
  moreover have "lets_in (\<lambda>a. asset_present a \<longrightarrow> reference_allowed (ast_reference a) s) asset_columns (assets s) (assets s')"
    unfolding s' by simp (intro lets_in_update lets_in_refl; simp add: asset_present_def)
  ultimately show ?thesis by (simp add: guarded_write_def) (simp add: s')
qed

lemma asset_deleted_reaches:
  fixes begun
  assumes run: "begin_object_deletion (ast_user a) (ref_storage_scope ra) (ref_asset_key ra) (Some (ast_id a)) (Some t) s = (Inr lease, s1)"
    and t: "\<not> blank t" and none: "\<not> has_references (dl_references lease)"
    and tx: "delete_asset_tx user project a ra (dl_token lease) now s1 = Inr s2"
  defines "begun' \<equiv> begun_deletion (ast_user a) (ref_asset_key ra) (Some (ast_id a)) (Inr lease) @ begun"
  shows "object_reachable (s1, begun') (s2, begun')"
proof (cases "normalized_storage_scope (ref_storage_scope ra) = commerce_private")
  case True
  obtain d where d: "d \<in> set begun'" "dn_user d = ast_user a" "dn_key d = trim_space (ref_asset_key ra)"
    "dn_asset d = Some (ast_id a)" "dn_token d = dl_token lease"
    using begun_in_log [OF run t True none] unfolding begun'_def by metis
  show ?thesis using object_asset_deleted [OF d(1-4) True] tx d(5) by (intro reach_step) simp
next
  case False
  then show ?thesis using delete_asset_tx_public [OF tx] by (blast intro: reach_written objects_start)
qed

lemma delete_commerce_asset_reaches:
  assumes run: "delete_commerce_asset delete (Some t) now user project k s = (response, s')"
    and t: "\<not> blank t" "t \<notin> dn_token ` set begun"
  shows "\<exists>begun'. object_reachable (s, begun) (s', begun')"
proof (cases "\<exists>p a ra. get_project user project s = Inr p \<and> project \<noteq> 0 \<and> k \<noteq> 0 \<and> load_commerce_assets user project k s = [(a, ra)]")
  case False
  then have "s' = s" using run
    by (auto simp: delete_commerce_asset_def split: sum.splits if_splits list.splits prod.splits)
  then show ?thesis by (blast intro: objects_start)
next
  case True
  then obtain p a ra where found: "get_project user project s = Inr p" "project \<noteq> 0" "k \<noteq> 0"
    "load_commerce_assets user project k s = [(a, ra)]" by blast
  obtain r s1 where b: "begin_object_deletion (ast_user a) (ref_storage_scope ra) (ref_asset_key ra) (Some (ast_id a)) (Some t) s = (r, s1)"
    by fastforce
  define begun' where "begun' = begun_deletion (ast_user a) (ref_asset_key ra) (Some (ast_id a)) r @ begun"
  have first: "object_reachable (s, begun) (s1, begun')" unfolding begun'_def by (rule begin_reaches [OF b t])
  have run': "(case r of Inl _ \<Rightarrow> (AssetDeleteFailed, s1) | Inr lease \<Rightarrow>
       if has_references (dl_references lease) then (AssetObjectRetained, soft_delete_asset (ast_id a) s1)
       else case delete (ref_storage_scope ra) (ref_asset_key ra) of
         Some _ \<Rightarrow> (AssetDeleteFailed,
           case release_object_deletion (ast_user a) (ref_storage_scope ra) (ref_asset_key ra) (dl_token lease) s1 of
             Inl _ \<Rightarrow> s1 | Inr s2 \<Rightarrow> s2)
       | None \<Rightarrow> (case delete_asset_tx user project a ra (dl_token lease) now s1 of
           Inl _ \<Rightarrow> (AssetDeleteFailed, s1) | Inr s2 \<Rightarrow> (AssetDeleted, s2))) = (response, s')"
    using run found by (simp add: delete_commerce_asset_def b split: sum.splits)
  have "object_reachable (s1, begun') (s', begun')"
  proof (cases r)
    case (Inl e)
    then show ?thesis using run' by (auto intro: objects_start)
  next
    case (Inr lease)
    show ?thesis
    proof (cases "has_references (dl_references lease)")
      case True
      then show ?thesis using run' Inr by (auto intro: reach_written [OF soft_delete_write] objects_start)
    next
      case none: False
      have deleted: "delete_asset_tx user project a ra (dl_token lease) now s1 = Inr s2 \<Longrightarrow> object_reachable (s1, begun') (s2, begun')" for s2
        using asset_deleted_reaches [OF b [unfolded Inr] t(1) none] unfolding begun'_def Inr by blast
      have release: "release_object_deletion (ast_user a) (ref_storage_scope ra) (ref_asset_key ra) (dl_token lease) s1 = Inr s2 \<Longrightarrow>
            object_reachable (s1, begun') (s2, begun')" for s2
        using release_reaches [OF b [unfolded Inr] t(1) none] unfolding begun'_def Inr by blast
      show ?thesis using run' Inr none
        by (auto intro: objects_start deleted release split: option.splits sum.splits)
    qed
  qed
  then show ?thesis using object_reachable_trans [OF _ first] by blast
qed

section \<open>The guarantees\<close>

lemma no_guards_ok: "object_guards s = [] \<Longrightarrow> objects_ok (s, [])"
  by (simp add: objects_ok_def guards_ok_def)

lemma reachable_guard_safe:
  "object_guards s0 = [] \<Longrightarrow> object_reachable (s0, []) (s, begun) \<Longrightarrow> g \<in> set (object_guards s) \<Longrightarrow>
   grd_storage_scope g = commerce_private \<Longrightarrow> guard_safe begun s g"
  using object_reachable_ok [OF _ no_guards_ok] by (fastforce simp: objects_ok_def)

text \<open>
  C4. In every state that guards, deletions, clean-ups and any writes the triggers let through
  reach, in any interleaving, nothing refers to a private object whose guard is deleted, and only
  the asset being deleted may still refer to one whose guard is deleting.
\<close>
theorem deleted_objects_unreferenced:
  assumes "object_guards s0 = []" and "object_reachable (s0, []) (s, begun)"
    and "g \<in> set (object_guards s)" and "grd_storage_scope g = commerce_private" and "grd_state g \<noteq> ''active''"
  shows "\<not> otherwise_referenced (grd_user g) (grd_object_key g) s \<and>
    (\<forall>a. asset_refers (grd_user g) (grd_object_key g) s a \<longrightarrow> grd_state g = ''deleting'' \<and>
       (\<exists>d \<in> set begun. dn_token d = grd_delete_token g \<and> dn_asset d = Some (ast_id a)))"
  using reachable_guard_safe [OF assms(1-4)] assms(5) by (auto simp: guard_safe_def)

lemma process_cleanup_deleted:
  assumes run: "process_cleanup delete (Some t) now c s = (Inr True, s')"
    and scope: "normalized_storage_scope (cln_storage_scope c) = commerce_private"
    and c: "pending_cleanup (cln_id c) s = Inr c" and t: "\<not> blank t"
  obtains g where "g \<in> set (object_guards s')" "guard_of (cln_user c) (trim_space (cln_object_key c)) g" "grd_state g = ''deleted''"
    and "delete (cln_storage_scope c) (cln_object_key c) = None"
proof -
  obtain r s1 where b: "begin_object_deletion (cln_user c) (cln_storage_scope c) (cln_object_key c) (cln_asset c) (Some t) s = (r, s1)"
    by fastforce
  obtain lease where lease: "r = Inr lease" "\<not> has_references (dl_references lease)"
    and store: "delete (cln_storage_scope c) (cln_object_key c) = None"
    and success: "record_cleanup_success_with_guard (cln_id c) (dl_token lease) now s1 = Inr s'"
    using run b by (auto simp: process_cleanup_def protect_cleanup_def split: sum.splits if_splits option.splits)
  have "dl_token lease = t" using begin_private b lease scope by metis
  moreover have "pending_cleanup (cln_id c) s1 = Inr c" using c begin_cleanups [OF b] by (simp add: pending_cleanup_def)
  ultimately obtain s2 cs where e: "complete_object_deletion_tx (cln_user c) (cln_storage_scope c) (cln_object_key c) t s1 = Inr s2"
    and s': "s' = mark_cleaned now (cln_asset c) (s2\<lparr>cleanups := cs\<rparr>)"
    using record_success_Inr [OF success] t by (metis sum.inject(2))
  obtain g where "g \<in> set (object_guards s1)" "guard_of (cln_user c) (trim_space (cln_object_key c)) g" "grd_state g = ''deleting''"
    "grd_delete_token g = t" and s2: "s2 = s1\<lparr>object_guards := update_where (\<lambda>g. guard_of (cln_user c) (trim_space (cln_object_key c)) g \<and>
       grd_state g = ''deleting'' \<and> grd_delete_token g = t) (\<lambda>g. g\<lparr>grd_state := ''deleted'', grd_delete_token := ''''\<rparr>) (object_guards s1)\<rparr>"
    using end_deletion_Inr [OF e [unfolded complete_object_deletion_tx_def] scope] by blast
  then show thesis using store
    by (intro that [of "g\<lparr>grd_state := ''deleted'', grd_delete_token := ''''\<rparr>"])
      (auto simp: s' s2 set_update_where guard_of_def intro!: image_eqI [of _ _ g])
qed

text \<open>
  C17. When a clean-up of a private object reports a deletion, the store was asked to delete it
  and did, the guard is deleted and nothing refers to the object.
\<close>
theorem cleanup_deletes_unreferenced_object:
  assumes "object_guards s0 = []" and "object_reachable (s0, []) (s, begun)"
    and "process_cleanup delete (Some t) now c s = (Inr True, s')" and "pending_cleanup (cln_id c) s = Inr c"
    and "normalized_storage_scope (cln_storage_scope c) = commerce_private" and "\<not> blank t" and "t \<notin> dn_token ` set begun"
  shows "delete (cln_storage_scope c) (cln_object_key c) = None \<and>
    \<not> otherwise_referenced (cln_user c) (trim_space (cln_object_key c)) s' \<and>
    (\<forall>a. \<not> asset_refers (cln_user c) (trim_space (cln_object_key c)) s' a) \<and>
    (\<exists>g \<in> set (object_guards s'). guard_of (cln_user c) (trim_space (cln_object_key c)) g \<and> grd_state g = ''deleted'')"
proof -
  obtain g where g: "g \<in> set (object_guards s')" "guard_of (cln_user c) (trim_space (cln_object_key c)) g" "grd_state g = ''deleted''"
    and store: "delete (cln_storage_scope c) (cln_object_key c) = None"
    using process_cleanup_deleted [OF assms(3,5,4,6)] .
  obtain begun' where "object_reachable (s0, []) (s', begun')"
    using process_cleanup_reaches [OF assms(3,4,6,7)] object_reachable_trans [OF _ assms(2)] by blast
  then have "guard_safe begun' s' g" using reachable_guard_safe [OF assms(1)] g by (simp add: guard_of_def)
  then show ?thesis using g store by (auto simp: guard_safe_def guard_of_def)
qed

section \<open>Witnesses\<close>

text \<open>An expired temporary asset with a private object, and the clean-up queued for it.\<close>

definition demo_asset :: commerce_asset where
  "demo_asset = \<lparr>ast_id = 1, ast_user = 7, ast_project = 3, ast_reference = 9, ast_sku = None, ast_role = ''reference'',
     ast_lifecycle = ''temporary'', ast_sort_order = 0, ast_metadata = '''', ast_retain_until = Some 5,
     ast_object_deleted_at = None, ast_deleted_at = None\<rparr>"

definition demo_reference :: reference_asset where
  "demo_reference = \<lparr>ref_id = 9, ref_user = 7, ref_asset_key = ''k'', ref_storage_scope = commerce_private, ref_deleted_at = None\<rparr>"

definition demo_cleanup :: commerce_object_cleanup where
  "demo_cleanup = (new_cleanup 7 3 commerce_private ''k'' ''temporary_asset_expired'' 10)
     \<lparr>cln_id := 1, cln_asset := Some 1, cln_reference := Some 9\<rparr>"

definition demo_objects :: commerce_db where
  "demo_objects = demo_db\<lparr>assets := [demo_asset], reference_assets := [demo_reference], cleanups := [demo_cleanup]\<rparr>"

lemmas demo_object_defs = demo_asset_def demo_reference_def demo_cleanup_def new_cleanup_def demo_objects_def demo_db_def

lemma demo_trims [simp]: "trim_space ''k'' = ''k''" "blank ''k'' \<longleftrightarrow> False" "blank ''t'' \<longleftrightarrow> False"
  by (subst trim_space_literal blank_literal; simp add: literal_bytes_def)+

lemma demo_process:
  "fst (process_cleanup (\<lambda>_ _. None) (Some ''t'') 20 demo_cleanup demo_objects) = Inr True"
  "map grd_state (object_guards (snd (process_cleanup (\<lambda>_ _. None) (Some ''t'') 20 demo_cleanup demo_objects))) = [''deleted'']"
  by (simp_all add: demo_object_defs process_cleanup_def begin_object_deletion_def ensure_object_guard_def begin_deletion_tx_def
      run_tx_def first_where_def guard_of_def Let_def inspect_object_references_def count_object_references_def
      has_references_def count_join_def count_where_def update_where_def next_key_def record_cleanup_success_with_guard_def
      pending_cleanup_def complete_object_deletion_tx_def end_deletion_def)

definition demo_cleaned :: commerce_db where
  "demo_cleaned = snd (process_cleanup (\<lambda>_ _. None) (Some ''t'') 20 demo_cleanup demo_objects)"

lemma demo_pending: "pending_cleanup (cln_id demo_cleanup) demo_objects = Inr demo_cleanup"
  by (simp add: pending_cleanup_def demo_objects_def demo_cleanup_def new_cleanup_def first_where_def)

lemma demo_cleanup_run:
  "process_cleanup (\<lambda>_ _. None) (Some ''t'') 20 demo_cleanup demo_objects = (Inr True, demo_cleaned)"
  using demo_process(1) unfolding demo_cleaned_def by (metis prod.collapse)

lemma demo_start: "object_guards demo_objects = []"
  by (simp add: demo_objects_def demo_db_def)

lemma demo_private: "normalized_storage_scope (cln_storage_scope demo_cleanup) = commerce_private" "cln_object_key demo_cleanup = ''k''"
  by (simp_all add: demo_cleanup_def new_cleanup_def)

theorem cleanup_deletes_unreferenced_object_witness:
  "\<not> otherwise_referenced 7 ''k'' demo_cleaned \<and> (\<forall>a. \<not> asset_refers 7 ''k'' demo_cleaned a)"
  using cleanup_deletes_unreferenced_object [OF demo_start objects_start demo_cleanup_run demo_pending demo_private(1)]
  by (simp add: demo_private demo_cleanup_def new_cleanup_def)

theorem deleted_objects_unreferenced_witness:
  "\<exists>g \<in> set (object_guards demo_cleaned). grd_state g = ''deleted'' \<and>
     \<not> otherwise_referenced (grd_user g) (grd_object_key g) demo_cleaned"
proof -
  obtain begun where run: "object_reachable (demo_objects, []) (demo_cleaned, begun)"
    using process_cleanup_reaches [OF demo_cleanup_run demo_pending, of "[]"] by auto
  obtain g where g: "g \<in> set (object_guards demo_cleaned)" "guard_of (cln_user demo_cleanup) (trim_space ''k'') g" "grd_state g = ''deleted''"
    using process_cleanup_deleted [OF demo_cleanup_run demo_private(1) demo_pending] unfolding demo_private by auto
  have "grd_storage_scope g = commerce_private" using g(2) by (simp add: guard_of_def)
  from deleted_objects_unreferenced [OF demo_start run g(1) this] g show ?thesis by auto
qed

end
