(* ===== verification/Categories.thy ===== *)
theory Categories
  imports Projects
begin

text \<open>
  Product categories (\<^verbatim>\<open>ecommerce/categories.go\<close>): a catalogue of two levels that the
  administration keeps, and categories of the users below its roots. The texts of errors are the
  UTF-8 bytes of the source. The JSON of the aliases is a parameter; so is the creation time of a
  product, a column the rows of this model leave out.
\<close>

section \<open>Names\<close>

text \<open>The white space of Go's regular expressions, and \<^verbatim>\<open>ReplaceAllString\<close> of its runs by one space.\<close>

definition re_space :: "char \<Rightarrow> bool" where
  "re_space c \<longleftrightarrow> of_char c \<in> ({9, 10, 12, 13, 32} :: nat set)"

fun collapse_spaces :: "bool \<Rightarrow> string \<Rightarrow> string" where
  "collapse_spaces inside [] = []"
| "collapse_spaces inside (c # s) =
     (if \<not> re_space c then c # collapse_spaces False s
      else if inside then collapse_spaces True s else CHR '' '' # collapse_spaces True s)"

definition normalize_category_name :: "string \<Rightarrow> string" where
  "normalize_category_name v = collapse_spaces False (trim_space v)"

text \<open>
  The length of the first code point of a byte sequence as Go decodes it: the size that the first
  byte announces with the range of the second, or one byte if the sequence is not well formed.
\<close>

definition rune_class :: "nat \<Rightarrow> nat \<times> nat \<times> nat" where
  "rune_class a =
     (if 194 \<le> a \<and> a \<le> 223 then (2, 128, 191)
      else if a = 224 then (3, 160, 191)
      else if a = 237 then (3, 128, 159)
      else if 225 \<le> a \<and> a \<le> 239 then (3, 128, 191)
      else if a = 240 then (4, 144, 191)
      else if 241 \<le> a \<and> a \<le> 243 then (4, 128, 191)
      else if a = 244 then (4, 128, 143)
      else (1, 0, 0))"

definition rune_size :: "nat \<Rightarrow> nat list \<Rightarrow> nat" where
  "rune_size a rest =
     (let (n, lo, hi) = rune_class a;
          tail = take (n - 1) rest
      in if n > 1 \<and> length tail = n - 1 \<and> lo \<le> hd tail \<and> hd tail \<le> hi \<and>
            list_all (\<lambda>b. 128 \<le> b \<and> b \<le> 191) (tl tail) then n else 1)"

fun rune_count :: "nat list \<Rightarrow> nat" where
  "rune_count [] = 0"
| "rune_count (a # rest) = Suc (rune_count (drop (rune_size a rest - 1) rest))"

definition valid_category_name :: "string \<Rightarrow> bool" where
  "valid_category_name v \<longleftrightarrow> (let n = rune_count (map of_char v) in 2 \<le> n \<and> n \<le> 20)"

section \<open>Constants and inputs\<close>

definition category_catalog_version :: string where "category_catalog_version = ''cn-commerce-v1''"
definition category_active :: string where "category_active = ''active''"
definition category_inactive :: string where "category_inactive = ''inactive''"

definition category_name_length :: commerce_error where
  "category_name_length = FieldError ''name'' (utf8 [229, 147, 129, 231, 177, 187, 229, 144, 141, 231, 167, 176,
     233, 149, 191, 229, 186, 166, 229, 191, 133, 233, 161, 187, 228, 184, 186, 32, 50, 32, 229, 136, 176, 32, 50,
     48, 32, 228, 184, 170, 229, 173, 151, 231, 172, 166])"

definition category_status_invalid :: commerce_error where
  "category_status_invalid = FieldError ''status'' (utf8 [229, 147, 129, 231, 177, 187, 231, 138, 182, 230, 128, 129,
     230, 151, 160, 230, 149, 136])"

definition category_invalid :: commerce_error where
  "category_invalid = FieldError ''category'' (utf8 [229, 149, 134, 229, 147, 129, 229, 147, 129, 231, 177, 187, 230,
     151, 160, 230, 149, 136])"

definition category_parent_missing :: commerce_error where
  "category_parent_missing = FieldError ''parent_id'' (utf8 [232, 175, 183, 233, 128, 137, 230, 139, 169, 230, 137,
     128, 229, 177, 158, 228, 184, 128, 231, 186, 167, 229, 147, 129, 231, 177, 187])"

text \<open>The aliases in JSON: \<open>None\<close> is a nil slice, which is written as null.\<close>

record category_codec =
  kc_encode :: "string list option \<Rightarrow> string"
  kc_decode :: "string \<Rightarrow> string list"

record system_category_input =
  sci_parent :: "uid option"
  sci_level :: int
  sci_name :: string
  sci_aliases :: "string list option"
  sci_sort_order :: int

record patch_system_category_input =
  psc_name :: "string option"
  psc_status :: "string option"
  psc_aliases :: "string list option"
  psc_sort_order :: "int option"

record patch_custom_category_input =
  pcc_name :: "string option"
  pcc_status :: "string option"

section \<open>The catalogue of the administration\<close>

text \<open>
  Writing a system row under the unique indexes of the table: one name below a parent, and one
  row for a seed key that is not blank.
\<close>

definition same_category :: "commerce_system_category \<Rightarrow> commerce_system_category \<Rightarrow> bool" where
  "same_category r x \<longleftrightarrow> cat_parent x = cat_parent r \<and> cat_name x = cat_name r \<or>
     cat_seed_key r \<noteq> [] \<and> cat_seed_key x = cat_seed_key r"

definition insert_system_category ::
  "commerce_system_category \<Rightarrow> commerce_db \<Rightarrow> commerce_error + commerce_system_category \<times> commerce_db" where
  "insert_system_category row s =
     (let r = row\<lparr>cat_id := next_key cat_id (system_categories s)\<rparr>
      in if count_where (same_category r) (system_categories s) \<noteq> 0 then Inl ErrInfrastructure
         else Inr (r, s\<lparr>system_categories := system_categories s @ [r]\<rparr>))"

definition system_category_rows :: "commerce_db \<Rightarrow> commerce_system_category list" where
  "system_category_rows s =
     sort_key cat_level (sort_key cat_sort_order (sort_key cat_id (system_categories s)))"

definition list_admin_categories :: "commerce_db \<Rightarrow> commerce_system_category list" where
  "list_admin_categories s = system_category_rows s"

definition count_user_categories :: "commerce_db \<Rightarrow> nat" where
  "count_user_categories s = length (user_categories s)"

definition create_system_category ::
  "category_codec \<Rightarrow> system_category_input \<Rightarrow> commerce_db \<Rightarrow> commerce_error + commerce_system_category \<times> commerce_db" where
  "create_system_category c input s =
     (let name = normalize_category_name (sci_name input); level = sci_level input in
      if \<not> valid_category_name name \<or> (level \<noteq> 1 \<and> level \<noteq> 2) then Inl category_invalid
      else and_then
        (if level = 1 then Inr None
         else case sci_parent input of
           None \<Rightarrow> Inl category_parent_missing
         | Some p \<Rightarrow>
             if first_where (\<lambda>r. cat_id r = p \<and> cat_level r = 1) (system_categories s) = None
             then Inl ErrCategoryUnavailable else Inr (Some p))
        (\<lambda>parent.
        if count_where (\<lambda>r. cat_name r = name \<and> cat_parent r = parent) (system_categories s) > 0
        then Inl ErrCategoryConflict
        else insert_system_category
          \<lparr>cat_id = 0, cat_parent = parent, cat_level = level, cat_name = name, cat_seed_key = '''',
           cat_aliases = kc_encode c (sci_aliases input), cat_sort_order = sci_sort_order input,
           cat_status = category_active, cat_catalog_version = category_catalog_version\<rparr> s))"

definition patch_system_category ::
  "category_codec \<Rightarrow> uid \<Rightarrow> patch_system_category_input \<Rightarrow> commerce_db \<Rightarrow>
     commerce_error + commerce_system_category \<times> commerce_db" where
  "patch_system_category c k input s =
     (case first_where (\<lambda>r. cat_id r = k) (system_categories s) of
        None \<Rightarrow> Inl ErrNotFound
      | Some row \<Rightarrow>
          and_then (case psc_name input of
              None \<Rightarrow> Inr row
            | Some raw \<Rightarrow>
                let name = normalize_category_name raw in
                if \<not> valid_category_name name then Inl category_name_length
                else if count_where (\<lambda>r. cat_name r = name \<and> cat_id r \<noteq> cat_id row \<and> cat_parent r = cat_parent row)
                    (system_categories s) > 0
                then Inl ErrCategoryConflict
                else Inr (row\<lparr>cat_name := name\<rparr>)) (\<lambda>row1.
          let row2 = (case psc_aliases input of None \<Rightarrow> row1 | Some xs \<Rightarrow> row1\<lparr>cat_aliases := kc_encode c (Some xs)\<rparr>);
              row3 = (case psc_sort_order input of None \<Rightarrow> row2 | Some n \<Rightarrow> row2\<lparr>cat_sort_order := n\<rparr>)
          in and_then (case psc_status input of
              None \<Rightarrow> Inr row3
            | Some raw \<Rightarrow>
                let status = trim_space raw in
                if status \<noteq> category_active \<and> status \<noteq> category_inactive then Inl category_status_invalid
                else if status = category_inactive \<and> cat_level row3 = 1 \<and>
                    count_where (\<lambda>r. cat_parent r = Some (cat_id row3) \<and> cat_status r = category_active)
                      (system_categories s) > 0
                then Inl ErrCategoryConflict
                else Inr (row3\<lparr>cat_status := status\<rparr>)) (\<lambda>row4.
          Inr (row4, s\<lparr>system_categories := update_where (\<lambda>r. cat_id r = k) (\<lambda>_. row4) (system_categories s)\<rparr>))))"

text \<open>
  Seeding: a row is created unless its seed key is there. The identifier of a root, old or new,
  becomes the parent of its children. An error keeps the rows written so far.
\<close>

datatype category_seed = CategorySeed (sd_name: string) (sd_aliases: "string list option") (sd_children: "category_seed list")

definition seed_row ::
  "category_codec \<Rightarrow> uid option \<Rightarrow> int \<Rightarrow> string \<Rightarrow> nat \<Rightarrow> category_seed \<Rightarrow> commerce_system_category" where
  "seed_row c parent level key index seed =
     \<lparr>cat_id = 0, cat_parent = parent, cat_level = level, cat_name = sd_name seed, cat_seed_key = key,
      cat_aliases = kc_encode c (sd_aliases seed), cat_sort_order = int (index + 1) * 10,
      cat_status = category_active, cat_catalog_version = category_catalog_version\<rparr>"

definition first_or_create ::
  "commerce_system_category \<Rightarrow> commerce_db \<Rightarrow> commerce_error + commerce_system_category \<times> commerce_db" where
  "first_or_create row s =
     (case first_where (\<lambda>r. cat_seed_key r = cat_seed_key row) (system_categories s) of
        Some r \<Rightarrow> Inr (r, s)
      | None \<Rightarrow> insert_system_category row s)"

fun seed_children ::
  "category_codec \<Rightarrow> string \<Rightarrow> uid \<Rightarrow> nat \<Rightarrow> category_seed list \<Rightarrow> commerce_db \<Rightarrow> commerce_error option \<times> commerce_db" where
  "seed_children c root_key root index [] s = (None, s)"
| "seed_children c root_key root index (child # rest) s =
     (case first_or_create (seed_row c (Some root) 2 (root_key @ ''-child-'' @ two_digits (index + 1)) index child) s of
        Inl e \<Rightarrow> (Some e, s)
      | Inr (_, s') \<Rightarrow> seed_children c root_key root (index + 1) rest s')"

fun seed_categories ::
  "category_codec \<Rightarrow> nat \<Rightarrow> category_seed list \<Rightarrow> commerce_db \<Rightarrow> commerce_error option \<times> commerce_db" where
  "seed_categories c index [] s = (None, s)"
| "seed_categories c index (root # rest) s =
     (let key = ''root-'' @ two_digits (index + 1) in
      case first_or_create (seed_row c None 1 key index root) s of
        Inl e \<Rightarrow> (Some e, s)
      | Inr (r, s1) \<Rightarrow>
          (case seed_children c key (cat_id r) 0 (sd_children root) s1 of
             (Some e, s2) \<Rightarrow> (Some e, s2)
           | (None, s2) \<Rightarrow> seed_categories c (index + 1) rest s2))"

definition default_category_seeds :: "category_seed list" where
  "default_category_seeds = [
     CategorySeed (utf8 [230, 156, 141, 233, 165, 176, 233, 158, 139, 229, 140, 133]) None
      [CategorySeed (utf8 [229, 165, 179, 232, 163, 133]) None [],
       CategorySeed (utf8 [231, 148, 183, 232, 163, 133]) None [],
       CategorySeed (utf8 [229, 134, 133, 232, 161, 163]) None [],
       CategorySeed (utf8 [231, 171, 165, 232, 163, 133]) None [],
       CategorySeed (utf8 [233, 158, 139, 233, 157, 180]) None [],
       CategorySeed (utf8 [231, 174, 177, 229, 140, 133]) None [],
       CategorySeed (utf8 [230, 156, 141, 233, 165, 176, 233, 133, 141, 228, 187, 182]) None []],
     CategorySeed (utf8 [231, 190, 142, 229, 166, 134, 228, 184, 170, 230, 138, 164]) None
      [CategorySeed (utf8 [230, 138, 164, 232, 130, 164]) (Some [utf8 [233, 157, 162, 233, 156, 156], utf8 [231, 178, 190, 229, 141, 142], utf8 [233, 157, 162, 232, 134, 156]]) [],
       CategorySeed (utf8 [229, 189, 169, 229, 166, 134]) None [],
       CategorySeed (utf8 [233, 166, 153, 230, 176, 180]) None [],
       CategorySeed (utf8 [230, 180, 151, 229, 143, 145, 230, 138, 164, 229, 143, 145]) None [],
       CategorySeed (utf8 [232, 186, 171, 228, 189, 147, 230, 138, 164, 231, 144, 134]) None [],
       CategorySeed (utf8 [229, 143, 163, 232, 133, 148, 230, 138, 164, 231, 144, 134]) None [],
       CategorySeed (utf8 [231, 190, 142, 229, 174, 185, 229, 183, 165, 229, 133, 183]) None []],
     CategorySeed (utf8 [233, 163, 159, 229, 147, 129, 233, 165, 174, 230, 150, 153]) None
      [CategorySeed (utf8 [228, 188, 145, 233, 151, 178, 233, 155, 182, 233, 163, 159]) None [],
       CategorySeed (utf8 [231, 178, 174, 230, 178, 185, 232, 176, 131, 229, 145, 179]) None [],
       CategorySeed (utf8 [232, 140, 182, 233, 165, 174, 229, 134, 178, 232, 176, 131]) None [],
       CategorySeed (utf8 [233, 133, 146, 231, 177, 187]) None [],
       CategorySeed (utf8 [228, 185, 179, 229, 147, 129]) None [],
       CategorySeed (utf8 [231, 148, 159, 233, 178, 156]) None [],
       CategorySeed (utf8 [232, 144, 165, 229, 133, 187, 233, 163, 159, 229, 147, 129]) None []],
     CategorySeed (utf8 [229, 174, 182, 229, 177, 133, 230, 151, 165, 231, 148, 168]) (Some [utf8 [229, 174, 182, 229, 177, 133, 231, 153, 190, 232, 180, 167]])
      [CategorySeed (utf8 [230, 157, 175, 229, 163, 182, 233, 164, 144, 229, 133, 183]) (Some [utf8 [230, 176, 180, 230, 157, 175], utf8 [228, 191, 157, 230, 184, 169, 230, 157, 175], utf8 [230, 157, 175, 229, 173, 144], utf8 [233, 164, 144, 229, 133, 183]]) [],
       CategorySeed (utf8 [230, 148, 182, 231, 186, 179, 230, 149, 180, 231, 144, 134]) None [],
       CategorySeed (utf8 [230, 184, 133, 230, 180, 129, 231, 148, 168, 229, 147, 129]) None [],
       CategorySeed (utf8 [229, 142, 168, 229, 133, 183]) None [],
       CategorySeed (utf8 [229, 186, 138, 228, 184, 138, 231, 148, 168, 229, 147, 129]) None [],
       CategorySeed (utf8 [229, 174, 182, 231, 186, 186]) None [],
       CategorySeed (utf8 [229, 141, 171, 230, 181, 180, 231, 148, 168, 229, 147, 129]) None []],
     CategorySeed (utf8 [229, 174, 182, 232, 163, 133, 229, 187, 186, 230, 157, 144]) None
      [CategorySeed (utf8 [229, 174, 182, 229, 133, 183]) None [],
       CategorySeed (utf8 [231, 129, 175, 229, 133, 183]) None [],
       CategorySeed (utf8 [228, 186, 148, 233, 135, 145, 229, 183, 165, 229, 133, 183]) None [],
       CategorySeed (utf8 [229, 142, 168, 229, 141, 171, 229, 187, 186, 230, 157, 144]) None [],
       CategorySeed (utf8 [229, 162, 153, 229, 156, 176, 233, 157, 162, 230, 157, 144, 230, 150, 153]) None [],
       CategorySeed (utf8 [229, 133, 168, 229, 177, 139, 230, 153, 186, 232, 131, 189]) None [],
       CategorySeed (utf8 [232, 163, 133, 233, 165, 176, 230, 145, 134, 228, 187, 182]) None []],
     CategorySeed (utf8 [230, 149, 176, 231, 160, 129, 231, 148, 181, 229, 153, 168]) (Some [utf8 [51, 67, 230, 149, 176, 231, 160, 129]])
      [CategorySeed (utf8 [230, 137, 139, 230, 156, 186, 229, 143, 138, 233, 133, 141, 228, 187, 182]) None [],
       CategorySeed (utf8 [231, 148, 181, 232, 132, 145, 229, 138, 158, 229, 133, 172]) None [],
       CategorySeed (utf8 [230, 145, 132, 229, 189, 177, 230, 145, 132, 229, 131, 143]) None [],
       CategorySeed (utf8 [229, 189, 177, 233, 159, 179, 229, 168, 177, 228, 185, 144]) None [],
       CategorySeed (utf8 [229, 142, 168, 230, 136, 191, 231, 148, 181, 229, 153, 168]) None [],
       CategorySeed (utf8 [231, 148, 159, 230, 180, 187, 231, 148, 181, 229, 153, 168]) None [],
       CategorySeed (utf8 [229, 164, 167, 229, 174, 182, 231, 148, 181]) None []],
     CategorySeed (utf8 [230, 175, 141, 229, 169, 180, 231, 171, 165, 232, 163, 133]) None
      [CategorySeed (utf8 [229, 165, 182, 231, 178, 137, 232, 190, 133, 233, 163, 159]) None [],
       CategorySeed (utf8 [229, 176, 191, 232, 163, 164, 230, 185, 191, 229, 183, 190]) None [],
       CategorySeed (utf8 [229, 150, 130, 229, 133, 187, 231, 148, 168, 229, 147, 129]) None [],
       CategorySeed (utf8 [230, 180, 151, 230, 138, 164, 231, 148, 168, 229, 147, 129]) None [],
       CategorySeed (utf8 [229, 169, 180, 231, 171, 165, 231, 148, 168, 229, 147, 129]) None [],
       CategorySeed (utf8 [229, 173, 149, 228, 186, 167, 231, 148, 168, 229, 147, 129]) None [],
       CategorySeed (utf8 [231, 171, 165, 232, 163, 133, 231, 171, 165, 233, 158, 139]) None []],
     CategorySeed (utf8 [232, 191, 144, 229, 138, 168, 230, 136, 183, 229, 164, 150]) None
      [CategorySeed (utf8 [232, 191, 144, 229, 138, 168, 230, 156, 141, 233, 165, 176]) None [],
       CategorySeed (utf8 [232, 191, 144, 229, 138, 168, 233, 158, 139]) None [],
       CategorySeed (utf8 [229, 129, 165, 232, 186, 171, 229, 153, 168, 230, 157, 144]) None [],
       CategorySeed (utf8 [233, 156, 178, 232, 144, 165, 232, 163, 133, 229, 164, 135]) None [],
       CategorySeed (utf8 [233, 170, 145, 232, 161, 140]) None [],
       CategorySeed (utf8 [231, 144, 131, 231, 177, 187]) None [],
       CategorySeed (utf8 [229, 158, 130, 233, 146, 147]) None [],
       CategorySeed (utf8 [230, 136, 183, 229, 164, 150, 231, 148, 168, 229, 147, 129]) None []],
     CategorySeed (utf8 [231, 143, 160, 229, 174, 157, 233, 133, 141, 233, 165, 176]) None
      [CategorySeed (utf8 [233, 187, 132, 233, 135, 145]) None [],
       CategorySeed (utf8 [231, 143, 160, 229, 174, 157, 231, 142, 137, 231, 159, 179]) None [],
       CategorySeed (utf8 [230, 151, 182, 229, 176, 154, 233, 165, 176, 229, 147, 129]) None [],
       CategorySeed (utf8 [231, 156, 188, 233, 149, 156]) None [],
       CategorySeed (utf8 [233, 146, 159, 232, 161, 168]) None [],
       CategorySeed (utf8 [229, 143, 145, 233, 165, 176]) None []],
     CategorySeed (utf8 [229, 174, 160, 231, 137, 169, 231, 148, 168, 229, 147, 129]) None
      [CategorySeed (utf8 [229, 174, 160, 231, 137, 169, 233, 163, 159, 229, 147, 129]) None [],
       CategorySeed (utf8 [229, 174, 160, 231, 137, 169, 230, 184, 133, 230, 180, 129]) None [],
       CategorySeed (utf8 [229, 174, 160, 231, 137, 169, 230, 156, 141, 233, 165, 176]) None [],
       CategorySeed (utf8 [229, 174, 160, 231, 137, 169, 231, 142, 169, 229, 133, 183]) None [],
       CategorySeed (utf8 [229, 174, 160, 231, 137, 169, 229, 135, 186, 232, 161, 140]) None [],
       CategorySeed (utf8 [230, 176, 180, 230, 151, 143, 231, 148, 168, 229, 147, 129]) None []],
     CategorySeed (utf8 [230, 177, 189, 232, 189, 166, 231, 148, 168, 229, 147, 129]) None
      [CategorySeed (utf8 [230, 177, 189, 232, 189, 166, 229, 134, 133, 233, 165, 176]) None [],
       CategorySeed (utf8 [230, 177, 189, 232, 189, 166, 229, 164, 150, 233, 165, 176]) None [],
       CategorySeed (utf8 [230, 184, 133, 230, 180, 129, 229, 133, 187, 230, 138, 164]) None [],
       CategorySeed (utf8 [231, 148, 181, 229, 173, 144, 231, 148, 181, 229, 153, 168]) None [],
       CategorySeed (utf8 [229, 174, 137, 229, 133, 168, 229, 186, 148, 230, 128, 165]) None [],
       CategorySeed (utf8 [230, 145, 169, 230, 137, 152, 232, 189, 166, 231, 148, 168, 229, 147, 129]) None []],
     CategorySeed (utf8 [229, 138, 158, 229, 133, 172, 230, 150, 135, 230, 149, 153]) None
      [CategorySeed (utf8 [230, 150, 135, 229, 133, 183]) None [],
       CategorySeed (utf8 [229, 138, 158, 229, 133, 172, 231, 148, 168, 229, 147, 129]) None [],
       CategorySeed (utf8 [229, 173, 166, 231, 148, 159, 231, 148, 168, 229, 147, 129]) None [],
       CategorySeed (utf8 [229, 155, 190, 228, 185, 166]) None [],
       CategorySeed (utf8 [231, 187, 152, 231, 148, 187, 231, 148, 168, 229, 147, 129]) None [],
       CategorySeed (utf8 [230, 137, 147, 229, 141, 176, 232, 128, 151, 230, 157, 144]) None []],
     CategorySeed (utf8 [231, 142, 169, 229, 133, 183, 228, 185, 144, 229, 153, 168]) None
      [CategorySeed (utf8 [231, 155, 138, 230, 153, 186, 231, 142, 169, 229, 133, 183]) None [],
       CategorySeed (utf8 [230, 168, 161, 229, 158, 139, 229, 138, 168, 230, 188, 171]) None [],
       CategorySeed (utf8 [230, 175, 155, 231, 187, 146, 231, 142, 169, 229, 133, 183]) None [],
       CategorySeed (utf8 [229, 132, 191, 231, 171, 165, 231, 142, 169, 229, 133, 183]) None [],
       CategorySeed (utf8 [228, 185, 144, 229, 153, 168]) None [],
       CategorySeed (utf8 [230, 163, 139, 231, 137, 140, 229, 168, 177, 228, 185, 144]) None []],
     CategorySeed (utf8 [229, 140, 187, 232, 141, 175, 228, 191, 157, 229, 129, 165]) None
      [CategorySeed (utf8 [228, 191, 157, 229, 129, 165, 229, 153, 168, 230, 162, 176]) None [],
       CategorySeed (utf8 [229, 129, 165, 229, 186, 183, 231, 155, 145, 230, 181, 139]) None [],
       CategorySeed (utf8 [230, 138, 164, 231, 144, 134, 231, 148, 168, 229, 147, 129]) None [],
       CategorySeed (utf8 [230, 136, 144, 228, 186, 186, 228, 191, 157, 229, 129, 165]) None [],
       CategorySeed (utf8 [228, 188, 160, 231, 187, 159, 230, 187, 139, 232, 161, 165]) None []],
     CategorySeed (utf8 [230, 156, 172, 229, 156, 176, 231, 148, 159, 230, 180, 187, 47, 232, 153, 154, 230, 139, 159, 230, 156, 141, 229, 138, 161]) (Some [utf8 [230, 156, 172, 229, 156, 176, 231, 148, 159, 230, 180, 187], utf8 [232, 153, 154, 230, 139, 159, 230, 156, 141, 229, 138, 161]])
      [CategorySeed (utf8 [233, 164, 144, 233, 165, 174, 230, 156, 141, 229, 138, 161]) None [],
       CategorySeed (utf8 [230, 151, 133, 230, 184, 184, 229, 135, 186, 232, 161, 140]) None [],
       CategorySeed (utf8 [230, 149, 153, 232, 130, 178, 229, 159, 185, 232, 174, 173]) None [],
       CategorySeed (utf8 [231, 148, 159, 230, 180, 187, 230, 156, 141, 229, 138, 161]) None [],
       CategorySeed (utf8 [230, 149, 176, 229, 173, 151, 229, 149, 134, 229, 147, 129]) None [],
       CategorySeed (utf8 [232, 189, 175, 228, 187, 182, 230, 156, 141, 229, 138, 161]) None []],
     CategorySeed (utf8 [229, 133, 182, 228, 187, 150]) None
      [CategorySeed (utf8 [229, 183, 165, 228, 184, 154, 229, 147, 129]) None [],
       CategorySeed (utf8 [229, 134, 156, 232, 181, 132, 229, 155, 173, 232, 137, 186]) None [],
       CategorySeed (utf8 [229, 174, 154, 229, 136, 182, 229, 149, 134, 229, 147, 129]) None [],
       CategorySeed (utf8 [231, 164, 188, 229, 147, 129]) None [],
       CategorySeed (utf8 [230, 154, 130, 230, 156, 170, 229, 136, 134, 231, 177, 187]) None []]]"

definition seed_default_categories :: "category_codec \<Rightarrow> commerce_db \<Rightarrow> commerce_error option \<times> commerce_db" where
  "seed_default_categories c s = seed_categories c 0 default_category_seeds s"

section \<open>Categories of the users\<close>

definition user_category_known :: "uid \<Rightarrow> uid \<Rightarrow> string \<Rightarrow> uid option \<Rightarrow> commerce_db \<Rightarrow> bool" where
  "user_category_known user parent name except s \<longleftrightarrow>
     count_where (\<lambda>r. uct_user r = user \<and> uct_parent r = parent \<and> uct_name r = name \<and> except \<noteq> Some (uct_id r)) (user_categories s) > 0"

definition system_child_known :: "uid \<Rightarrow> string \<Rightarrow> commerce_db \<Rightarrow> bool" where
  "system_child_known parent name s \<longleftrightarrow>
     count_where (\<lambda>r. cat_parent r = Some parent \<and> cat_name r = name) (system_categories s) > 0"

definition create_custom_category ::
  "uid \<Rightarrow> uid \<Rightarrow> string \<Rightarrow> commerce_db \<Rightarrow> commerce_error + commerce_user_category \<times> commerce_db" where
  "create_custom_category user parent raw s =
     (let name = normalize_category_name raw in
      if \<not> valid_category_name name then Inl category_name_length
      else if first_where (\<lambda>r. cat_id r = parent \<and> cat_level r = 1 \<and> cat_status r = category_active) (system_categories s) = None
      then Inl ErrCategoryUnavailable
      else if user_category_known user parent name None s then Inl ErrCategoryConflict
      else if system_child_known parent name s then Inl ErrCategoryConflict
      else
        let row = \<lparr>uct_id = next_key uct_id (user_categories s), uct_user = user, uct_parent = parent, uct_name = name,
                   uct_aliases = ''[]'', uct_status = category_active, uct_updated_at = clock s\<rparr>
        in Inr (row, s\<lparr>user_categories := user_categories s @ [row]\<rparr>))"

definition patch_custom_category ::
  "uid \<Rightarrow> uid \<Rightarrow> patch_custom_category_input \<Rightarrow> commerce_db \<Rightarrow> commerce_error + commerce_user_category \<times> commerce_db" where
  "patch_custom_category user k input s =
     (case first_where (\<lambda>r. uct_id r = k) (user_categories s) of
        None \<Rightarrow> Inl ErrNotFound
      | Some row \<Rightarrow>
          if uct_user row \<noteq> user then Inl ErrOwnershipMismatch
          else and_then (case pcc_name input of
              None \<Rightarrow> Inr row
            | Some raw \<Rightarrow>
                let name = normalize_category_name raw in
                if \<not> valid_category_name name then Inl category_name_length
                else if user_category_known user (uct_parent row) name (Some (uct_id row)) s then Inl ErrCategoryConflict
                else if system_child_known (uct_parent row) name s then Inl ErrCategoryConflict
                else Inr (row\<lparr>uct_name := name\<rparr>)) (\<lambda>row1.
          and_then (case pcc_status input of
              None \<Rightarrow> Inr row1
            | Some raw \<Rightarrow>
                let status = trim_space raw in
                if status \<noteq> category_active \<and> status \<noteq> category_inactive then Inl category_status_invalid
                else Inr (row1\<lparr>uct_status := status\<rparr>)) (\<lambda>row2.
          let row3 = row2\<lparr>uct_updated_at := clock s\<rparr>
          in Inr (row3, s\<lparr>user_categories := update_where (\<lambda>r. uct_id r = k) (\<lambda>_. row3) (user_categories s)\<rparr>))))"

definition path_of :: "string \<Rightarrow> string \<Rightarrow> string" where
  "path_of parent name = parent @ '' / '' @ name"

definition active_parent :: "uid \<Rightarrow> commerce_db \<Rightarrow> commerce_error + commerce_system_category" where
  "active_parent k s =
     (case first_where (\<lambda>r. cat_id r = k \<and> cat_status r = category_active) (system_categories s) of
        None \<Rightarrow> Inl ErrCategoryUnavailable | Some r \<Rightarrow> Inr r)"

definition resolve_category_selection :: "uid \<Rightarrow> uid \<Rightarrow> string \<Rightarrow> commerce_db \<Rightarrow> commerce_error + string" where
  "resolve_category_selection user k raw_source s =
     (let source = trim_space raw_source in
      if source = ''system'' then
        (case first_where (\<lambda>r. cat_id r = k \<and> cat_level r = 2 \<and> cat_status r = category_active) (system_categories s) of
           None \<Rightarrow> Inl ErrCategoryUnavailable
         | Some child \<Rightarrow>
             (case cat_parent child of
                None \<Rightarrow> Inl ErrCategoryUnavailable
              | Some p \<Rightarrow> and_then (active_parent p s) (\<lambda>parent. Inr (path_of (cat_name parent) (cat_name child)))))
      else if source = ''user'' then
        (case first_where (\<lambda>r. uct_id r = k \<and> uct_user r = user \<and> uct_status r = category_active) (user_categories s) of
           None \<Rightarrow> Inl ErrCategoryUnavailable
         | Some custom \<Rightarrow>
             and_then (active_parent (uct_parent custom) s) (\<lambda>parent. Inr (path_of (cat_name parent) (uct_name custom))))
      else Inl ErrCategoryUnavailable)"

section \<open>Listing\<close>

datatype category_node = CategoryNode (nd_id: uid) (nd_parent: uid) (nd_source: string) (nd_name: string) (nd_path: string)
  (nd_status: string) (nd_aliases: "string list") (nd_sort_order: int) (nd_children: "category_node list")

definition system_category_node :: "category_codec \<Rightarrow> commerce_system_category \<Rightarrow> string \<Rightarrow> category_node list \<Rightarrow> category_node" where
  "system_category_node c r parent children =
     CategoryNode (cat_id r) (case cat_parent r of None \<Rightarrow> 0 | Some p \<Rightarrow> p) ''system'' (cat_name r)
       (if parent = [] then cat_name r else path_of parent (cat_name r)) (cat_status r) (kc_decode c (cat_aliases r))
       (cat_sort_order r) children"

definition user_category_node :: "category_codec \<Rightarrow> commerce_user_category \<Rightarrow> string \<Rightarrow> category_node" where
  "user_category_node c r parent =
     CategoryNode (uct_id r) (uct_parent r) ''user'' (uct_name r) (path_of parent (uct_name r)) (uct_status r)
       (kc_decode c (uct_aliases r)) 0 []"

text \<open>\<^verbatim>\<open>strings.Split(s, sep)[0]\<close>.\<close>

fun before_first :: "string \<Rightarrow> string \<Rightarrow> string" where
  "before_first sep [] = []"
| "before_first sep (c # s) = (if prefix sep (c # s) then [] else c # before_first sep s)"

text \<open>The category of a product as the list of recent ones shows it, if it still can be shown.\<close>

definition recent_node ::
  "category_codec \<Rightarrow> commerce_system_category list \<Rightarrow> commerce_user_category list \<Rightarrow> commerce_product \<Rightarrow> uid \<Rightarrow> category_node option" where
  "recent_node c system custom p k =
     (if prd_category_source p = ''user'' then
        (case map_of (map (\<lambda>r. (uct_id r, r)) custom) k of
           None \<Rightarrow> None
         | Some r \<Rightarrow> if uct_status r = category_active
             then Some (user_category_node c r (before_first '' / '' (prd_category_path p))) else None)
      else
        (case map_of (map (\<lambda>r. (cat_id r, r)) system) k of
           None \<Rightarrow> None
         | Some r \<Rightarrow>
             let parent = (case Option.bind (cat_parent r) (map_of (map (\<lambda>r. (cat_id r, cat_name r)) system)) of
                   None \<Rightarrow> [] | Some name \<Rightarrow> name)
             in Some (system_category_node c r parent [])))"

fun recent_nodes ::
  "category_codec \<Rightarrow> commerce_system_category list \<Rightarrow> commerce_user_category list \<Rightarrow> (string \<times> uid) list \<Rightarrow> nat \<Rightarrow>
     commerce_product list \<Rightarrow> category_node list" where
  "recent_nodes c system custom seen n [] = []"
| "recent_nodes c system custom seen n (p # ps) =
     (case prd_category_id p of
        None \<Rightarrow> recent_nodes c system custom seen n ps
      | Some k \<Rightarrow>
          if (prd_category_source p, k) \<in> set seen then recent_nodes c system custom seen n ps
          else case recent_node c system custom p k of
            None \<Rightarrow> recent_nodes c system custom seen n ps
          | Some node \<Rightarrow> node # (if n \<le> 1 then [] else
              recent_nodes c system custom ((prd_category_source p, k) # seen) (n - 1) ps))"

definition recent_category_nodes ::
  "category_codec \<Rightarrow> (uid \<Rightarrow> time) \<Rightarrow> uid \<Rightarrow> commerce_system_category list \<Rightarrow> commerce_user_category list \<Rightarrow> commerce_db \<Rightarrow>
     category_node list" where
  "recent_category_nodes c created user system custom s =
     recent_nodes c system custom [] 5 (take 30 (sort_key (\<lambda>p. - created (prd_id p))
       (filter (\<lambda>p. prd_user p = user \<and> prd_category_id p \<noteq> None \<and> prd_deleted_at p = None) (products s))))"

record category_catalog =
  cg_version :: string
  cg_system :: "category_node list"
  cg_custom :: "category_node list"
  cg_recent :: "category_node list"

definition list_categories :: "category_codec \<Rightarrow> (uid \<Rightarrow> time) \<Rightarrow> uid \<Rightarrow> commerce_db \<Rightarrow> category_catalog" where
  "list_categories c created user s =
     (let system = filter (\<lambda>r. cat_status r = category_active) (system_category_rows s);
          roots = filter (\<lambda>r. cat_level r = 1) system;
          children = (\<lambda>root. map (\<lambda>r. system_category_node c r (cat_name root) [])
            (filter (\<lambda>r. cat_level r = 2 \<and> cat_parent r = Some (cat_id root)) system));
          custom_rows = sort_key (\<lambda>r. - uct_updated_at r) (rev (sort_key uct_id
            (filter (\<lambda>r. uct_user r = user) (user_categories s))));
          parent_name = (\<lambda>k. case map_of (map (\<lambda>r. (cat_id r, cat_name r)) roots) k of None \<Rightarrow> [] | Some name \<Rightarrow> name)
      in \<lparr>cg_version = category_catalog_version,
          cg_system = map (\<lambda>r. system_category_node c r '''' (children r)) roots,
          cg_custom = map (\<lambda>r. user_category_node c r (parent_name (uct_parent r))) custom_rows,
          cg_recent = recent_category_nodes c created user system custom_rows s\<rparr>)"

end
