(* ===== verification/CategoryClaims.thy ===== *)
theory CategoryClaims
  imports Categories Demo
begin

text \<open>
  The catalogue of categories stays a tree of two levels with unique names, whatever the
  administration, the users and new seeds do; and what the catalogue lists can be selected.
\<close>

section \<open>The invariant\<close>

text \<open>
  A seed key tells the level of its row: root-01 has one dash, root-01-child-02 three. That the
  key found for a base is never a child's rests on it.
\<close>

definition category_row_ok :: "commerce_system_category list \<Rightarrow> commerce_system_category \<Rightarrow> bool" where
  "category_row_ok rows r \<longleftrightarrow> cat_name r \<noteq> [] \<and> cat_status r \<in> {category_active, category_inactive} \<and>
     (cat_seed_key r \<noteq> [] \<longrightarrow> count_list (cat_seed_key r) (CHR ''-'') = (if cat_level r = 1 then 1 else 3)) \<and>
     (cat_level r = 1 \<and> cat_parent r = None \<or>
      cat_level r = 2 \<and> (\<exists>p \<in> set rows. cat_parent r = Some (cat_id p) \<and> cat_level p = 1))"

definition categories_ok :: "commerce_db \<Rightarrow> bool" where
  "categories_ok s \<longleftrightarrow>
     distinct (map cat_id (system_categories s)) \<and>
     distinct (map (\<lambda>r. (cat_parent r, cat_name r)) (system_categories s)) \<and>
     (\<forall>r \<in> set (system_categories s). category_row_ok (system_categories s) r) \<and>
     distinct (map uct_id (user_categories s)) \<and>
     distinct (map (\<lambda>r. (uct_user r, uct_parent r, uct_name r)) (user_categories s)) \<and>
     (\<forall>r \<in> set (user_categories s). \<exists>p \<in> set (system_categories s). uct_parent r = cat_id p \<and> cat_level p = 1)"

text \<open>Seeds come with names, and their children have no children.\<close>

definition seeds_ok :: "category_seed list \<Rightarrow> bool" where
  "seeds_ok seeds \<longleftrightarrow> list_all (\<lambda>r. sd_name r \<noteq> [] \<and> list_all (\<lambda>x. sd_name x \<noteq> []) (sd_children r)) seeds"

inductive category_step :: "category_codec \<Rightarrow> commerce_db \<Rightarrow> commerce_db \<Rightarrow> bool" for c where
  system_created: "create_system_category c input s = Inr (r, s') \<Longrightarrow> category_step c s s'"
| system_patched: "patch_system_category c k patch s = Inr (r, s') \<Longrightarrow> category_step c s s'"
| categories_seeded: "seeds_ok seeds \<Longrightarrow> category_step c s (snd (seed_categories c 0 seeds s))"
| custom_created: "create_custom_category user parent name s = Inr (r', s') \<Longrightarrow> category_step c s s'"
| custom_patched: "patch_custom_category user k patch' s = Inr (r', s') \<Longrightarrow> category_step c s s'"

inductive category_reachable :: "category_codec \<Rightarrow> commerce_db \<Rightarrow> commerce_db \<Rightarrow> bool" for c s0 where
  categories_start: "category_reachable c s0 s0"
| categories_next: "category_reachable c s0 s \<Longrightarrow> category_step c s s' \<Longrightarrow> category_reachable c s0 s'"

section \<open>Preservation\<close>

lemma category_row_ok_more: "category_row_ok rows r \<Longrightarrow> set rows \<subseteq> set rows' \<Longrightarrow> category_row_ok rows' r"
  by (auto simp: category_row_ok_def)

lemma distinct_update_one:
  assumes "distinct (map key rows)" and "\<And>r. r \<in> set rows \<Longrightarrow> idf r \<noteq> k \<Longrightarrow> key r \<noteq> key x"
    and "distinct (map idf rows)"
  shows "distinct (map key (update_where (\<lambda>r. idf r = k) (\<lambda>_. x) rows))"
  using assms
proof (induction rows)
  case (Cons r rows)
  have rest: "distinct (map key (update_where (\<lambda>r. idf r = k) (\<lambda>_. x) rows))" using Cons by simp
  show ?case
  proof (cases "idf r = k")
    case True
    have "idf r' \<noteq> k" if "r' \<in> set rows" for r'
    proof -
      have "idf r \<notin> idf ` set rows" using Cons.prems(3) by simp
      then show ?thesis using that True by (metis imageI)
    qed
    note other = this
    then have "update_where (\<lambda>r. idf r = k) (\<lambda>_. x) rows = rows" by simp
    moreover have "key x \<notin> key ` set rows" using Cons.prems(2) other by force
    ultimately show ?thesis using True Cons.prems(1) by simp
  next
    case False
    then have "key r \<notin> key ` set (update_where (\<lambda>r. idf r = k) (\<lambda>_. x) rows)"
      using Cons.prems(1,2) by (auto simp: set_update_where)
    then show ?thesis using False rest by simp
  qed
qed simp

lemma insert_system_category_ok:
  assumes ok: "categories_ok s" and run: "insert_system_category row s = Inr (r, s')"
    and row: "\<And>rows. set (system_categories s) \<subseteq> set rows \<Longrightarrow> category_row_ok rows row"
  shows "categories_ok s' \<and> r \<in> set (system_categories s') \<and> cat_level r = cat_level row \<and>
    set (system_categories s) \<subseteq> set (system_categories s')"
proof -
  let ?r = "row\<lparr>cat_id := next_key cat_id (system_categories s)\<rparr>"
  have s': "r = ?r" "s' = s\<lparr>system_categories := system_categories s @ [?r]\<rparr>"
    and none: "count_where (same_category ?r) (system_categories s) = 0"
    using run by (auto simp: insert_system_category_def Let_def split: if_splits)
  have "next_key cat_id (system_categories s) \<notin> cat_id ` set (system_categories s)"
    using next_key_fresh [of _ "system_categories s" cat_id] by fastforce
  moreover have "(cat_parent row, cat_name row) \<notin> (\<lambda>r. (cat_parent r, cat_name r)) ` set (system_categories s)"
    using none by (auto simp: count_where_0 same_category_def)
  moreover have "category_row_ok (system_categories s) ?r" using row [OF subset_refl] by (simp add: category_row_ok_def)
  then have "category_row_ok (system_categories s @ [?r]) ?r" by (rule category_row_ok_more) auto
  moreover have "category_row_ok (system_categories s @ [?r]) x" if "x \<in> set (system_categories s)" for x
    using ok that by (auto simp: categories_ok_def intro: category_row_ok_more)
  ultimately have "categories_ok s'"
    using ok unfolding s' categories_ok_def by auto
  then show ?thesis by (simp add: s' subset_iff)
qed

lemma valid_category_name_nonempty: "valid_category_name v \<Longrightarrow> v \<noteq> []"
  by (auto simp: valid_category_name_def Let_def)

lemma create_system_category_ok:
  assumes ok: "categories_ok s" and run: "create_system_category c input s = Inr (r, s')"
  shows "categories_ok s'"
proof -
  let ?name = "normalize_category_name (sci_name input)"
  obtain parent where name: "valid_category_name ?name" and level: "sci_level input = 1 \<or> sci_level input = 2"
    and parent: "(if sci_level input = 1 then Inr None
         else case sci_parent input of
           None \<Rightarrow> Inl category_parent_missing
         | Some p \<Rightarrow>
             if first_where (\<lambda>r. cat_id r = p \<and> cat_level r = 1) (system_categories s) = None
             then Inl ErrCategoryUnavailable else Inr (Some p)) = Inr parent"
    and ins: "insert_system_category
          \<lparr>cat_id = 0, cat_parent = parent, cat_level = sci_level input, cat_name = ?name, cat_seed_key = '''',
           cat_aliases = kc_encode c (sci_aliases input), cat_sort_order = sci_sort_order input,
           cat_status = category_active, cat_catalog_version = category_catalog_version\<rparr> s = Inr (r, s')"
    using run unfolding create_system_category_def Let_def and_then_eq_Inr if_Inl_eq_Inr by blast
  have "sci_level input = 1 \<and> parent = None \<or>
      sci_level input = 2 \<and> (\<exists>p \<in> set (system_categories s). parent = Some (cat_id p) \<and> cat_level p = 1)"
    using parent level
    by (cases "sci_parent input") (force dest!: first_where_Some split: if_splits option.splits)+
  then show ?thesis
    using insert_system_category_ok [OF ok ins] valid_category_name_nonempty [OF name]
    by (force simp: category_row_ok_def)
qed

lemma patch_system_category_Inr:
  assumes "patch_system_category c k input s = Inr (r, s')"
  obtains row where "row \<in> set (system_categories s)" and "cat_id row = k"
    and "cat_id r = k" "cat_parent r = cat_parent row" "cat_level r = cat_level row" "cat_seed_key r = cat_seed_key row"
    and "cat_status r = cat_status row \<or> cat_status r \<in> {category_active, category_inactive}"
    and "cat_name r = cat_name row \<or> cat_name r \<noteq> [] \<and> (\<forall>x \<in> set (system_categories s).
       cat_name x = cat_name r \<longrightarrow> cat_parent x = cat_parent row \<longrightarrow> cat_id x = k)"
    and "s' = s\<lparr>system_categories := update_where (\<lambda>r. cat_id r = k) (\<lambda>_. r) (system_categories s)\<rparr>"
proof -
  obtain row where row: "first_where (\<lambda>r. cat_id r = k) (system_categories s) = Some row"
    using assms by (auto simp: patch_system_category_def split: option.splits)
  then have id: "cat_id row = k" by (auto dest: first_where_Some)
  define row1_of where "row1_of = (case psc_name input of
              None \<Rightarrow> Inr row
            | Some raw \<Rightarrow>
                let name = normalize_category_name raw in
                if \<not> valid_category_name name then Inl category_name_length
                else if count_where (\<lambda>r. cat_name r = name \<and> cat_id r \<noteq> cat_id row \<and> cat_parent r = cat_parent row)
                    (system_categories s) > 0
                then Inl ErrCategoryConflict
                else Inr (row\<lparr>cat_name := name\<rparr>))"
  note run = assms [unfolded patch_system_category_def row option.case row1_of_def [symmetric] and_then_eq_Inr]
  then obtain row1 where row1: "row1_of = Inr row1" by blast
  have one: "cat_id row1 = k" "cat_parent row1 = cat_parent row" "cat_level row1 = cat_level row" "cat_seed_key row1 = cat_seed_key row" "cat_status row1 = cat_status row"
    "cat_name row1 = cat_name row \<or> cat_name row1 \<noteq> [] \<and> (\<forall>x \<in> set (system_categories s).
       cat_name x = cat_name row1 \<longrightarrow> cat_parent x = cat_parent row \<longrightarrow> cat_id x = k)"
    using row1 id unfolding row1_of_def
    by (auto simp: Let_def count_where_0 valid_category_name_nonempty split: option.splits if_splits)
  have "cat_id r = k \<and> cat_parent r = cat_parent row1 \<and> cat_level r = cat_level row1 \<and> cat_seed_key r = cat_seed_key row1 \<and> cat_name r = cat_name row1 \<and>
      (cat_status r = cat_status row1 \<or> cat_status r \<in> {category_active, category_inactive}) \<and>
      s' = s\<lparr>system_categories := update_where (\<lambda>r. cat_id r = k) (\<lambda>_. r) (system_categories s)\<rparr>"
    using run row1 one(1) by (auto simp: Let_def inv_simps split: option.splits if_splits)
  then show thesis using first_where_Some [OF row] one by (intro that [of row]) auto
qed

lemma patch_system_category_ok:
  assumes ok: "categories_ok s" and run: "patch_system_category c k input s = Inr (r, s')"
  shows "categories_ok s'"
proof -
  obtain row where row: "row \<in> set (system_categories s)" "cat_id row = k"
    and r: "cat_id r = k" "cat_parent r = cat_parent row" "cat_level r = cat_level row" "cat_seed_key r = cat_seed_key row"
      "cat_status r = cat_status row \<or> cat_status r \<in> {category_active, category_inactive}"
      "cat_name r = cat_name row \<or> cat_name r \<noteq> [] \<and> (\<forall>x \<in> set (system_categories s).
         cat_name x = cat_name r \<longrightarrow> cat_parent x = cat_parent row \<longrightarrow> cat_id x = k)"
    and s': "s' = s\<lparr>system_categories := update_where (\<lambda>r. cat_id r = k) (\<lambda>_. r) (system_categories s)\<rparr>"
    by (rule patch_system_category_Inr [OF run]) blast
  let ?rows = "system_categories s" and ?rows' = "update_where (\<lambda>r. cat_id r = k) (\<lambda>_. r) (system_categories s)"
  have ids: "distinct (map cat_id ?rows)" and names: "distinct (map (\<lambda>r. (cat_parent r, cat_name r)) ?rows)"
    and rows: "\<And>x. x \<in> set ?rows \<Longrightarrow> category_row_ok ?rows x"
    using ok by (simp_all add: categories_ok_def)
  have same: "x = row" if "x \<in> set ?rows" "cat_id x = k" for x
    using that row ids by (auto simp: distinct_map inj_on_def)
  have find: "\<exists>p' \<in> set ?rows'. cat_id p' = cat_id p \<and> cat_level p' = cat_level p" if "p \<in> set ?rows" for p
    using that same [OF that] r by (cases "cat_id p = k") (force simp: set_update_where)+
  have keep: "category_row_ok ?rows' x" if "category_row_ok ?rows x" for x
  proof -
    have "\<exists>p' \<in> set ?rows'. cat_parent x = Some (cat_id p') \<and> cat_level p' = 1"
      if p: "p \<in> set ?rows" "cat_parent x = Some (cat_id p)" "cat_level p = 1" for p
    proof -
      obtain p' where "p' \<in> set ?rows'" "cat_id p' = cat_id p" "cat_level p' = cat_level p" using find [OF p(1)] by blast
      then show ?thesis using p(2,3) by (intro bexI [of _ p']) simp_all
    qed
    then show ?thesis using that unfolding category_row_ok_def by (elim conjE disjE bexE) simp_all
  qed
  have "cat_name row \<noteq> []" using rows [OF row(1)] unfolding category_row_ok_def by blast
  then have "cat_name r \<noteq> []" using r(6) by metis
  then have "category_row_ok ?rows r"
    using rows [OF row(1)] r(5) unfolding category_row_ok_def r(2-4) by (elim conjE disjE; simp)
  then have "\<forall>x \<in> set ?rows'. category_row_ok ?rows' x"
    unfolding ball_update_where using rows keep by simp
  moreover have "distinct (map (\<lambda>r. (cat_parent r, cat_name r)) ?rows')"
  proof (rule distinct_update_one [OF names _ ids])
    fix x assume x: "x \<in> set ?rows" "cat_id x \<noteq> k"
    show "(cat_parent x, cat_name x) \<noteq> (cat_parent r, cat_name r)"
    proof
      assume "(cat_parent x, cat_name x) = (cat_parent r, cat_name r)"
      then have "cat_parent x = cat_parent row" "cat_name x = cat_name r" using r(2) by simp_all
      then have "(cat_parent x, cat_name x) = (cat_parent row, cat_name row)" using r(6) x by auto
      then have "x = row" using names x(1) row(1) by (auto simp: distinct_map inj_on_def)
      then show False using x(2) row(2) by simp
    qed
  qed
  moreover have "map cat_id ?rows' = map cat_id ?rows" using r(1) by (intro map_update_where) simp
  moreover have "\<exists>p \<in> set ?rows'. uct_parent u = cat_id p \<and> cat_level p = 1" if "u \<in> set (user_categories s)" for u
  proof -
    obtain p where p: "p \<in> set ?rows" "uct_parent u = cat_id p" "cat_level p = 1" using ok \<open>u \<in> _\<close> by (auto simp: categories_ok_def)
    obtain p' where "p' \<in> set ?rows'" "cat_id p' = cat_id p" "cat_level p' = cat_level p" using find [OF p(1)] by blast
    then show ?thesis using p by (intro bexI [of _ p']) simp_all
  qed
  ultimately show ?thesis using ok by (simp add: s' categories_ok_def)
qed

lemma first_or_create_ok:
  assumes ok: "categories_ok s" and run: "first_or_create row s = Inr (r, s')"
    and row: "category_row_ok (system_categories s) row"
  shows "categories_ok s' \<and> r \<in> set (system_categories s') \<and> set (system_categories s) \<subseteq> set (system_categories s') \<and>
    (cat_level r = cat_level row \<or> s' = s)"
proof (cases "first_where (\<lambda>r. cat_seed_key r = cat_seed_key row) (system_categories s)")
  case None
  then have "insert_system_category row s = Inr (r, s')" using run by (simp add: first_or_create_def)
  from insert_system_category_ok [OF ok this category_row_ok_more [OF row]] show ?thesis by simp
next
  case (Some x)
  then show ?thesis using run ok first_where_Some [OF Some] by (simp add: first_or_create_def)
qed

lemma category_row_seed_key:
  "category_row_ok rows r \<Longrightarrow> cat_seed_key r \<noteq> [] \<Longrightarrow>
   count_list (cat_seed_key r) (CHR ''-'') = (if cat_level r = 1 then 1 else 3)"
  unfolding category_row_ok_def by blast

lemma first_or_create_level:
  assumes ok: "categories_ok s" and run: "first_or_create row s = Inr (r, s')"
    and row: "cat_level row = 1" "cat_seed_key row \<noteq> []" "count_list (cat_seed_key row) (CHR ''-'') = 1"
  shows "cat_level r = 1"
proof (cases "first_where (\<lambda>r. cat_seed_key r = cat_seed_key row) (system_categories s)")
  case None
  then show ?thesis using run row
    by (auto simp: first_or_create_def insert_system_category_def Let_def split: if_splits)
next
  case (Some x)
  then have "r = x" using run by (simp add: first_or_create_def)
  then have "r \<in> set (system_categories s)" "cat_seed_key r = cat_seed_key row"
    using first_where_Some [OF Some] by simp_all
  note r = this
  have "category_row_ok (system_categories s) r" using ok r(1) by (simp add: categories_ok_def)
  from category_row_seed_key [OF this] have "count_list (cat_seed_key row) (CHR ''-'') = (if cat_level r = 1 then 1 else 3)"
    unfolding r(2) using row(2) by simp
  then have "(if cat_level r = 1 then 1 else 3) = (1::nat)" using row(3) by (rule trans [OF sym])
  then show ?thesis by (cases "cat_level r = 1") simp_all
qed

lemma count_list_app: "count_list (xs @ ys) c = count_list xs c + count_list ys c"
  by (induction xs) auto

lemma show_nat_dash: "count_list (show_nat n) (CHR ''-'') = 0"
  using show_nat_digits [of "CHR ''-''" n] by (auto simp: count_list_0_iff)

lemma two_digits_dash: "count_list (two_digits n) (CHR ''-'') = 0"
  by (simp add: two_digits_def show_nat_dash)

lemma seed_children_ok:
  "categories_ok s \<Longrightarrow> \<exists>r \<in> set (system_categories s). cat_id r = base \<and> cat_level r = 1 \<Longrightarrow>
   count_list key (CHR ''-'') = 1 \<Longrightarrow> list_all (\<lambda>x. sd_name x \<noteq> []) seeds \<Longrightarrow>
   categories_ok (snd (seed_children c key base index seeds s))"
proof (induction seeds arbitrary: index s)
  case (Cons child rest)
  let ?row = "seed_row c (Some base) 2 (key @ ''-child-'' @ two_digits (index + 1)) index child"
  have row: "category_row_ok (system_categories s) ?row"
    using Cons.prems by (force simp: category_row_ok_def seed_row_def count_list_app two_digits_dash)
  show ?case
  proof (cases "first_or_create ?row s")
    case (Inl e)
    then show ?thesis using Cons.prems by simp
  next
    case (Inr x)
    then obtain r s1 where run: "first_or_create ?row s = Inr (r, s1)" by (cases x) auto
    note step = first_or_create_ok [OF Cons.prems(1) run row]
    have "categories_ok (snd (seed_children c key base (index + 1) rest s1))"
      by (rule Cons.IH) (use step Cons.prems in auto)
    then show ?thesis using run by simp
  qed
qed simp

lemma seed_categories_ok:
  "categories_ok s \<Longrightarrow> seeds_ok seeds \<Longrightarrow> categories_ok (snd (seed_categories c index seeds s))"
proof (induction seeds arbitrary: index s)
  case (Cons base rest)
  let ?key = "''root-'' @ two_digits (index + 1)"
  let ?row = "seed_row c None 1 ?key index base"
  have key: "count_list ?key (CHR ''-'') = 1" by (simp add: count_list_app two_digits_dash)
  have row: "category_row_ok (system_categories s) ?row"
    using Cons.prems key by (simp add: category_row_ok_def seed_row_def seeds_ok_def)
  show ?case
  proof (cases "first_or_create ?row s")
    case (Inl e)
    then show ?thesis using Cons.prems by (simp add: Let_def)
  next
    case (Inr x)
    then obtain r s1 where run: "first_or_create ?row s = Inr (r, s1)" by (cases x) auto
    note step = first_or_create_ok [OF Cons.prems(1) run row]
    have level: "cat_level r = 1" using first_or_create_level [OF Cons.prems(1) run] key by (simp add: seed_row_def)
    obtain e s2 where children: "seed_children c ?key (cat_id r) 0 (sd_children base) s1 = (e, s2)" by fastforce
    have "categories_ok (snd (seed_children c ?key (cat_id r) 0 (sd_children base) s1))"
      by (rule seed_children_ok) (use step level key Cons.prems(2) in \<open>auto simp: seeds_ok_def\<close>)
    then have "categories_ok s2" unfolding children snd_conv .
    moreover from this have "categories_ok (snd (seed_categories c (index + 1) rest s2))"
      by (rule Cons.IH) (use Cons.prems(2) in \<open>simp add: seeds_ok_def\<close>)
    ultimately show ?thesis
      unfolding seed_categories.simps Let_def run sum.case prod.case children by (cases e) simp_all
  qed
qed simp

lemma custom_insert_ok:
  assumes ok: "categories_ok s" and parent: "p \<in> set (system_categories s)" "uct_parent row = cat_id p" "cat_level p = 1"
    and fresh: "uct_id row = next_key uct_id (user_categories s)"
    and new: "\<forall>r \<in> set (user_categories s). uct_user r = uct_user row \<longrightarrow> uct_parent r = uct_parent row \<longrightarrow> uct_name r \<noteq> uct_name row"
  shows "categories_ok (s\<lparr>user_categories := user_categories s @ [row]\<rparr>)"
proof -
  have "uct_id row \<notin> uct_id ` set (user_categories s)"
    using next_key_fresh [of _ "user_categories s" uct_id] fresh by fastforce
  moreover have "(uct_user row, uct_parent row, uct_name row) \<notin> (\<lambda>r. (uct_user r, uct_parent r, uct_name r)) ` set (user_categories s)"
    using new by auto
  moreover have "\<exists>p \<in> set (system_categories s). uct_parent row = cat_id p \<and> cat_level p = 1" using parent by blast
  ultimately show ?thesis using ok by (simp add: categories_ok_def)
qed

lemma create_custom_category_ok:
  assumes ok: "categories_ok s" and run: "create_custom_category user parent name s = Inr (r, s')"
  shows "categories_ok s'"
proof -
  obtain p where p: "first_where (\<lambda>r. cat_id r = parent \<and> cat_level r = 1 \<and> cat_status r = category_active) (system_categories s) = Some p"
    using run by (auto simp: create_custom_category_def Let_def split: if_splits)
  have "\<not> user_category_known user parent (normalize_category_name name) None s"
    using run by (auto simp: create_custom_category_def Let_def split: if_splits)
  then show ?thesis
    using run first_where_Some [OF p]
    by (auto simp: create_custom_category_def Let_def user_category_known_def count_where_0
        intro!: custom_insert_ok [OF ok, of p] split: if_splits)
qed

lemma patch_custom_category_Inr:
  assumes "patch_custom_category user k input s = Inr (r, s')"
  obtains row where "row \<in> set (user_categories s)" and "uct_id row = k" and "uct_id r = k" and "uct_user r = uct_user row"
    and "uct_parent r = uct_parent row"
    and "uct_name r = uct_name row \<or> (\<forall>x \<in> set (user_categories s). uct_id x \<noteq> k \<longrightarrow>
       uct_user x = uct_user row \<longrightarrow> uct_parent x = uct_parent row \<longrightarrow> uct_name x \<noteq> uct_name r)"
    and "s' = s\<lparr>user_categories := update_where (\<lambda>r. uct_id r = k) (\<lambda>_. r) (user_categories s)\<rparr>"
proof -
  obtain row where row: "first_where (\<lambda>r. uct_id r = k) (user_categories s) = Some row" and user: "uct_user row = user"
    using assms by (auto simp: patch_custom_category_def split: option.splits if_splits)
  then have id: "uct_id row = k" by (auto dest: first_where_Some)
  define row1_of where "row1_of = (case pcc_name input of
              None \<Rightarrow> Inr row
            | Some raw \<Rightarrow>
                let name = normalize_category_name raw in
                if \<not> valid_category_name name then Inl category_name_length
                else if user_category_known user (uct_parent row) name (Some (uct_id row)) s then Inl ErrCategoryConflict
                else if system_child_known (uct_parent row) name s then Inl ErrCategoryConflict
                else Inr (row\<lparr>uct_name := name\<rparr>))"
  note run = assms [unfolded patch_custom_category_def row option.case row1_of_def [symmetric] and_then_eq_Inr]
  then obtain row1 where row1: "row1_of = Inr row1" using user by (auto simp: inv_simps)
  have one: "uct_id row1 = k" "uct_parent row1 = uct_parent row" "uct_user row1 = uct_user row"
    "uct_name row1 = uct_name row \<or> (\<forall>x \<in> set (user_categories s). uct_id x \<noteq> k \<longrightarrow>
       uct_user x = uct_user row \<longrightarrow> uct_parent x = uct_parent row \<longrightarrow> uct_name x \<noteq> uct_name row1)"
    using row1 id user unfolding row1_of_def
    by (auto simp: Let_def user_category_known_def count_where_0 split: option.splits if_splits)
  have "uct_id r = k \<and> uct_parent r = uct_parent row1 \<and> uct_user r = uct_user row1 \<and> uct_name r = uct_name row1 \<and>
      s' = s\<lparr>user_categories := update_where (\<lambda>r. uct_id r = k) (\<lambda>_. r) (user_categories s)\<rparr>"
    using run row1 one(1) user by (auto simp: Let_def inv_simps split: option.splits if_splits)
  then show thesis using first_where_Some [OF row] one by (intro that [of row]) auto
qed

lemma patch_custom_category_ok:
  assumes ok: "categories_ok s" and run: "patch_custom_category user k input s = Inr (r, s')"
  shows "categories_ok s'"
proof -
  obtain row where row: "row \<in> set (user_categories s)" "uct_id row = k"
    and r: "uct_id r = k" "uct_user r = uct_user row" "uct_parent r = uct_parent row"
      "uct_name r = uct_name row \<or> (\<forall>x \<in> set (user_categories s). uct_id x \<noteq> k \<longrightarrow>
         uct_user x = uct_user row \<longrightarrow> uct_parent x = uct_parent row \<longrightarrow> uct_name x \<noteq> uct_name r)"
    and s': "s' = s\<lparr>user_categories := update_where (\<lambda>r. uct_id r = k) (\<lambda>_. r) (user_categories s)\<rparr>"
    by (rule patch_custom_category_Inr [OF run]) blast
  let ?rows = "user_categories s" and ?rows' = "update_where (\<lambda>r. uct_id r = k) (\<lambda>_. r) (user_categories s)"
  have ids: "distinct (map uct_id ?rows)" and names: "distinct (map (\<lambda>r. (uct_user r, uct_parent r, uct_name r)) ?rows)"
    and parents: "\<And>x. x \<in> set ?rows \<Longrightarrow> \<exists>p \<in> set (system_categories s). uct_parent x = cat_id p \<and> cat_level p = 1"
    using ok by (simp_all add: categories_ok_def)
  have "distinct (map (\<lambda>r. (uct_user r, uct_parent r, uct_name r)) ?rows')"
  proof (rule distinct_update_one [OF names _ ids])
    fix x assume x: "x \<in> set ?rows" "uct_id x \<noteq> k"
    show "(uct_user x, uct_parent x, uct_name x) \<noteq> (uct_user r, uct_parent r, uct_name r)"
    proof
      assume eq: "(uct_user x, uct_parent x, uct_name x) = (uct_user r, uct_parent r, uct_name r)"
      then have "uct_name r = uct_name row" using r(2-4) x by auto
      then have "(uct_user x, uct_parent x, uct_name x) = (uct_user row, uct_parent row, uct_name row)" using eq r(2,3) by simp
      then have "x = row" using names x(1) row(1) by (auto simp: distinct_map inj_on_def)
      then show False using x(2) row(2) by simp
    qed
  qed
  moreover have "map uct_id ?rows' = map uct_id ?rows" using r(1) by (intro map_update_where) simp
  moreover have "\<forall>x \<in> set ?rows'. \<exists>p \<in> set (system_categories s). uct_parent x = cat_id p \<and> cat_level p = 1"
    unfolding ball_update_where using parents parents [OF row(1)] r(3) by simp
  ultimately show ?thesis using ok by (simp add: s' categories_ok_def)
qed

lemma category_step_ok: "category_step c s s' \<Longrightarrow> categories_ok s \<Longrightarrow> categories_ok s'"
  by (induction rule: category_step.induct)
    (blast intro: create_system_category_ok patch_system_category_ok seed_categories_ok create_custom_category_ok patch_custom_category_ok)+

lemma category_reachable_ok: "category_reachable c s0 s \<Longrightarrow> categories_ok s0 \<Longrightarrow> categories_ok s"
  by (induction rule: category_reachable.induct) (blast intro: category_step_ok)+

text \<open>The seeds of the source are among them.\<close>

lemma default_seeds_ok: "seeds_ok default_category_seeds"
  by (simp add: seeds_ok_def default_category_seeds_def utf8_def)

lemma default_categories_seeded: "category_step c s (snd (seed_default_categories c s))"
  unfolding seed_default_categories_def by (rule categories_seeded [OF default_seeds_ok])

section \<open>Listing and selecting\<close>

lemma set_system_category_rows [simp]: "set (system_category_rows s) = set (system_categories s)"
  by (simp add: system_category_rows_def)

lemma first_by_id:
  assumes "distinct (map f rows)" and "r \<in> set rows" and "f r = k" and "P r"
  shows "first_where (\<lambda>x. f x = k \<and> P x) rows = Some r"
proof -
  obtain x where x: "first_where (\<lambda>x. f x = k \<and> P x) rows = Some x"
    using first_where_ex [of r rows "\<lambda>x. f x = k \<and> P x"] assms by auto
  then have "x = r" using first_where_Some [OF x] assms by (auto simp: distinct_map inj_on_def)
  then show ?thesis using x by simp
qed

lemma active_parent_found:
  assumes "categories_ok s" and "r \<in> set (system_categories s)" and "cat_status r = category_active"
  shows "active_parent (cat_id r) s = Inr r"
  using first_by_id [of cat_id "system_categories s" r "cat_id r" "\<lambda>r. cat_status r = category_active"] assms
  by (simp add: active_parent_def categories_ok_def)

lemma source_trims: "trim_space ''system'' = ''system''" "trim_space ''user'' = ''user''"
  by (rule trim_space_literal; simp add: literal_bytes_def)+

lemma listed_child_resolves:
  assumes ok: "categories_ok s" and base: "base \<in> set (cg_system (list_categories c created user s))" and n: "n \<in> set (nd_children base)"
  shows "resolve_category_selection any_user (nd_id n) ''system'' s = Inr (nd_path n)"
proof -
  obtain p r where p: "p \<in> set (system_categories s)" "cat_status p = category_active" "cat_level p = 1"
    and r: "r \<in> set (system_categories s)" "cat_status r = category_active" "cat_level r = 2" "cat_parent r = Some (cat_id p)"
    and node: "n = system_category_node c r (cat_name p) []"
    using base n by (auto simp: list_categories_def Let_def system_category_node_def)
  have "cat_name p \<noteq> []" using ok p(1) by (auto simp: categories_ok_def category_row_ok_def)
  moreover have "first_where (\<lambda>x. cat_id x = cat_id r \<and> cat_level x = 2 \<and> cat_status x = category_active) (system_categories s) = Some r"
    using ok r by (intro first_by_id) (simp_all add: categories_ok_def)
  ultimately show ?thesis using active_parent_found [OF ok p(1,2)] r(4)
    by (simp add: resolve_category_selection_def source_trims node system_category_node_def)
qed

lemma listed_custom_resolves:
  assumes ok: "categories_ok s" and n: "n \<in> set (cg_custom (list_categories c created user s))" and active: "nd_status n = category_active"
    and base: "base \<in> set (cg_system (list_categories c created user s))" and parent: "nd_parent n = nd_id base"
  shows "resolve_category_selection user (nd_id n) ''user'' s = Inr (nd_path n)"
proof -
  let ?roots = "filter (\<lambda>r. cat_level r = 1) (filter (\<lambda>r. cat_status r = category_active) (system_category_rows s))"
  let ?name = "\<lambda>k. case map_of (map (\<lambda>r. (cat_id r, cat_name r)) ?roots) k of None \<Rightarrow> [] | Some name \<Rightarrow> name"
  obtain r where r: "r \<in> set (user_categories s)" "uct_user r = user"
    and node: "n = user_category_node c r (?name (uct_parent r))"
    using n by (auto simp: list_categories_def Let_def)
  obtain p where p: "p \<in> set ?roots" "nd_id base = cat_id p"
    using base by (auto simp: list_categories_def Let_def system_category_node_def)
  have "distinct (map fst (map (\<lambda>r. (cat_id r, cat_name r)) ?roots))"
    using ok by (simp add: categories_ok_def comp_def distinct_map system_category_rows_def inj_on_def)
  then have "map_of (map (\<lambda>r. (cat_id r, cat_name r)) ?roots) (cat_id p) = Some (cat_name p)"
    using p(1) by (intro map_of_is_SomeI) force+
  moreover have "uct_parent r = cat_id p" using parent p(2) by (simp add: node user_category_node_def)
  moreover have "first_where (\<lambda>x. uct_id x = uct_id r \<and> uct_user x = user \<and> uct_status x = category_active) (user_categories s) = Some r"
    using ok r active by (intro first_by_id) (simp_all add: categories_ok_def node user_category_node_def)
  ultimately show ?thesis using active_parent_found [OF ok, of p] p(1)
    by (simp add: resolve_category_selection_def source_trims node user_category_node_def)
qed


text \<open>
  C29. Every category a user is shown below a root, and every active one of their own below an
  active root, can be selected, and the selection has the path that was shown.
\<close>
theorem listed_categories_resolve:
  assumes "category_reachable c s0 s" and "categories_ok s0" and "base \<in> set (cg_system (list_categories c created user s))"
  shows "(\<forall>n \<in> set (nd_children base). resolve_category_selection any_user (nd_id n) ''system'' s = Inr (nd_path n)) \<and>
    (\<forall>n \<in> set (cg_custom (list_categories c created user s)). nd_status n = category_active \<longrightarrow> nd_parent n = nd_id base \<longrightarrow>
       resolve_category_selection user (nd_id n) ''user'' s = Inr (nd_path n))"
  using category_reachable_ok [OF assms(1,2)] assms(3) listed_child_resolves listed_custom_resolves by blast

section \<open>Witnesses\<close>

definition demo_aliases :: category_codec where
  "demo_aliases = \<lparr>kc_encode = (\<lambda>_. ''[]''), kc_decode = (\<lambda>_. [])\<rparr>"

definition demo_seeded :: commerce_db where
  "demo_seeded = snd (seed_categories demo_aliases 0 [CategorySeed ''Food'' None [CategorySeed ''Snacks'' None []]] demo_db)"

lemma demo_seeded_categories:
  "system_categories demo_seeded =
     [\<lparr>cat_id = 1, cat_parent = None, cat_level = 1, cat_name = ''Food'', cat_seed_key = ''root-01'', cat_aliases = ''[]'',
       cat_sort_order = 10, cat_status = category_active, cat_catalog_version = category_catalog_version\<rparr>,
      \<lparr>cat_id = 2, cat_parent = Some 1, cat_level = 2, cat_name = ''Snacks'', cat_seed_key = ''root-01-child-01'', cat_aliases = ''[]'',
       cat_sort_order = 10, cat_status = category_active, cat_catalog_version = category_catalog_version\<rparr>]"
  by (simp add: demo_seeded_def demo_db_def demo_aliases_def first_or_create_def insert_system_category_def seed_row_def
      two_digits_def show_nat.simps first_where_def count_where_def next_key_def same_category_def Let_def
      char_of_def bit_Suc_0_iff)

lemma demo_seeded_reachable: "category_reachable demo_aliases demo_db demo_seeded" "categories_ok demo_db"
proof -
  have "category_step demo_aliases demo_db demo_seeded"
    unfolding demo_seeded_def by (rule categories_seeded) (simp add: seeds_ok_def)
  then show "category_reachable demo_aliases demo_db demo_seeded" by (rule categories_next [OF categories_start])
  show "categories_ok demo_db" by (simp add: categories_ok_def demo_db_def)
qed


theorem listed_categories_resolve_witness:
  "resolve_category_selection 7 2 ''system'' demo_seeded = Inr ''Food / Snacks''"
proof -
  let ?base = "hd (cg_system (list_categories demo_aliases (\<lambda>_. 0) 7 demo_seeded))"
  have base: "?base \<in> set (cg_system (list_categories demo_aliases (\<lambda>_. 0) 7 demo_seeded))"
    and children: "map nd_id (nd_children ?base) = [2]" "map nd_path (nd_children ?base) = [''Food / Snacks'']"
    by (simp_all add: list_categories_def system_category_rows_def demo_seeded_categories system_category_node_def path_of_def Let_def)
  then obtain n where "nd_children ?base = [n]" "nd_id n = 2" "nd_path n = ''Food / Snacks''"
    by (auto simp: map_eq_Cons_conv)
  then show ?thesis
    using listed_categories_resolve [OF demo_seeded_reachable base, of 7] by simp
qed

end
