(* ===== verification/Catalog.thy ===== *)
theory Catalog
  imports AssetObjects Categories
begin

text \<open>
  Brands, products and SKUs (\<^verbatim>\<open>service.go\<close>, \<^verbatim>\<open>repository.go\<close>). A row that names a reference
  asset passes the trigger of its table; the code of a SKU is unique in its product.
\<close>

section \<open>Brands\<close>

record brand_input =
  bri_name :: string
  bri_color_palette :: string
  bri_fonts :: string
  bri_forbidden_terms :: string
  bri_visual_rules :: string
  bri_logo :: "uid option"

record patch_brand_input =
  pbi_name :: "string option"
  pbi_color_palette :: "string option"
  pbi_fonts :: "string option"
  pbi_forbidden_terms :: "string option"
  pbi_visual_rules :: "string option"
  pbi_logo :: "uid option"
  pbi_clear_logo :: bool

text \<open>Who owns a reference asset, as the application configures the service.\<close>

type_synonym asset_resolver = "uid \<Rightarrow> uid \<Rightarrow> commerce_db \<Rightarrow> commerce_error + bool"

definition owns_reference_asset :: asset_resolver where
  "owns_reference_asset user k s =
     Inr (count_where (\<lambda>ra. ref_id ra = k \<and> ref_user ra = user \<and> ref_deleted_at ra = None) (reference_assets s) = 1)"

definition validate_logo_reference_asset ::
  "asset_resolver option \<Rightarrow> uid \<Rightarrow> uid option \<Rightarrow> commerce_db \<Rightarrow> commerce_error + unit" where
  "validate_logo_reference_asset resolver user logo s =
     (case logo of
        None \<Rightarrow> Inr ()
      | Some k \<Rightarrow>
          if k = 0 then Inl (FieldError ''logo_reference_asset_id'' ''reference asset ID must be non-zero'')
          else case resolver of
            None \<Rightarrow> Inl ErrReferenceAssetResolverUnavailable
          | Some owns \<Rightarrow> and_then (owns user k s) (\<lambda>owned. if owned then Inr () else Inl ErrOwnershipMismatch))"

definition brand_name_required :: commerce_error where
  "brand_name_required = FieldError ''name'' ''brand name is required''"

text \<open>What the trigger of the table checks before it lets a brand in.\<close>

definition brand_allowed :: "commerce_brand \<Rightarrow> commerce_db \<Rightarrow> bool" where
  "brand_allowed b s \<longleftrightarrow> brd_deleted_at b = None \<longrightarrow> (\<forall>k. brd_logo b = Some k \<longrightarrow> reference_allowed k s)"

definition create_brand ::
  "asset_resolver option \<Rightarrow> uid \<Rightarrow> brand_input \<Rightarrow> commerce_db \<Rightarrow> commerce_error + commerce_brand \<times> commerce_db" where
  "create_brand resolver user input s =
     and_then (validate_logo_reference_asset resolver user (bri_logo input) s) (\<lambda>_.
     let b = \<lparr>brd_id = next_key brd_id (brands s), brd_user = user, brd_logo = bri_logo input,
               brd_name = trim_space (bri_name input), brd_color_palette = default_json (bri_color_palette input) ''[]'',
               brd_fonts = default_json (bri_fonts input) ''[]'',
               brd_forbidden_terms = default_json (bri_forbidden_terms input) ''[]'',
               brd_visual_rules = default_json (bri_visual_rules input) ''{}'', brd_deleted_at = None\<rparr>
     in if brd_name b = [] then Inl brand_name_required
        else if \<not> brand_allowed b s then Inl ErrInfrastructure
        else Inr (b, s\<lparr>brands := brands s @ [b]\<rparr>))"

definition list_brands :: "uid \<Rightarrow> commerce_db \<Rightarrow> commerce_brand list" where
  "list_brands user s = rev (sort_key brd_id (filter (\<lambda>b. brd_user b = user \<and> brd_deleted_at b = None) (brands s)))"

text \<open>\<^verbatim>\<open>SaveBrand\<close>: it writes every column a patch can change, the logo too, so the trigger fires.\<close>

definition save_brand :: "uid \<Rightarrow> commerce_brand \<Rightarrow> commerce_db \<Rightarrow> commerce_error + commerce_db" where
  "save_brand user b s =
     (let hit = (\<lambda>x. brd_id x = brd_id b \<and> brd_user x = user \<and> brd_deleted_at x = None) in
      if count_where hit (brands s) = 0 then Inl ErrNotFound
      else if \<not> brand_allowed b s then Inl ErrInfrastructure
      else Inr (s\<lparr>brands := update_where hit (\<lambda>x. x\<lparr>brd_logo := brd_logo b, brd_name := brd_name b,
        brd_color_palette := brd_color_palette b, brd_fonts := brd_fonts b, brd_forbidden_terms := brd_forbidden_terms b,
        brd_visual_rules := brd_visual_rules b\<rparr>) (brands s)\<rparr>))"

definition patch_brand ::
  "asset_resolver option \<Rightarrow> uid \<Rightarrow> uid \<Rightarrow> patch_brand_input \<Rightarrow> commerce_db \<Rightarrow> commerce_error + commerce_brand \<times> commerce_db" where
  "patch_brand resolver user k input s =
     and_then (get_brand user k s) (\<lambda>b.
     and_then (case pbi_name input of
         None \<Rightarrow> Inr b
       | Some raw \<Rightarrow> if trim_space raw = [] then Inl brand_name_required else Inr (b\<lparr>brd_name := trim_space raw\<rparr>)) (\<lambda>b1.
     let b2 = b1\<lparr>brd_color_palette := assign_string (brd_color_palette b1) (pbi_color_palette input),
                 brd_fonts := assign_string (brd_fonts b1) (pbi_fonts input),
                 brd_forbidden_terms := assign_string (brd_forbidden_terms b1) (pbi_forbidden_terms input),
                 brd_visual_rules := assign_string (brd_visual_rules b1) (pbi_visual_rules input)\<rparr>
     in and_then (if pbi_clear_logo input then Inr (b2\<lparr>brd_logo := None\<rparr>)
         else case pbi_logo input of
           None \<Rightarrow> Inr b2
         | Some l \<Rightarrow> and_then (validate_logo_reference_asset resolver user (Some l) s) (\<lambda>_. Inr (b2\<lparr>brd_logo := Some l\<rparr>))) (\<lambda>b3.
     and_then (save_brand user b3 s) (\<lambda>s'.
     and_then (get_brand user k s') (\<lambda>b'. Inr (b', s'))))))"

section \<open>Products\<close>

record product_input =
  pdi_brand :: "uid option"
  pdi_name :: string
  pdi_category :: string
  pdi_spu_code :: string
  pdi_selling_points :: string
  pdi_target_channels :: string
  pdi_status :: string

record patch_product_input =
  ppd_brand :: "uid option"
  ppd_clear_brand :: bool
  ppd_category_id :: "uid option"
  ppd_category_source :: "string option"
  ppd_name :: "string option"
  ppd_category :: "string option"
  ppd_spu_code :: "string option"
  ppd_selling_points :: "string option"
  ppd_target_channels :: "string option"
  ppd_status :: "string option"

definition product_name_required :: commerce_error where
  "product_name_required = FieldError ''name'' ''product name is required''"

definition optional_brand :: "uid \<Rightarrow> uid option \<Rightarrow> commerce_db \<Rightarrow> commerce_error + unit" where
  "optional_brand user brand s = (case brand of None \<Rightarrow> Inr () | Some b \<Rightarrow> and_then (get_brand user b s) (\<lambda>_. Inr ()))"

definition create_product :: "uid \<Rightarrow> product_input \<Rightarrow> commerce_db \<Rightarrow> commerce_error + commerce_product \<times> commerce_db" where
  "create_product user input s =
     and_then (optional_brand user (pdi_brand input) s) (\<lambda>_.
     let p = \<lparr>prd_id = next_key prd_id (products s), prd_user = user, prd_brand = pdi_brand input, prd_category_id = None,
               prd_name = trim_space (pdi_name input), prd_category = trim_space (pdi_category input),
               prd_category_source = '''', prd_category_path = '''', prd_spu_code = trim_space (pdi_spu_code input),
               prd_selling_points = default_json (pdi_selling_points input) ''[]'',
               prd_target_channels = default_json (pdi_target_channels input) ''[]'',
               prd_status = default_string (pdi_status input) ''active'', prd_sku_version = 0, prd_deleted_at = None\<rparr>
     in if prd_name p = [] then Inl product_name_required
        else Inr (p, s\<lparr>products := products s @ [p]\<rparr>))"

definition list_products :: "uid \<Rightarrow> commerce_db \<Rightarrow> commerce_product list" where
  "list_products user s = rev (sort_key prd_id (filter (\<lambda>p. prd_user p = user \<and> prd_deleted_at p = None) (products s)))"

definition own_product :: "uid \<Rightarrow> uid \<Rightarrow> commerce_product \<Rightarrow> bool" where
  "own_product user k p \<longleftrightarrow> prd_id p = k \<and> prd_user p = user \<and> prd_deleted_at p = None"

definition save_product :: "uid \<Rightarrow> commerce_product \<Rightarrow> commerce_db \<Rightarrow> commerce_error + commerce_db" where
  "save_product user p s =
     (if count_where (own_product user (prd_id p)) (products s) = 0 then Inl ErrNotFound
      else Inr (s\<lparr>products := update_where (own_product user (prd_id p)) (\<lambda>x. x\<lparr>prd_brand := prd_brand p, prd_name := prd_name p,
        prd_category := prd_category p, prd_category_id := prd_category_id p, prd_category_source := prd_category_source p,
        prd_category_path := prd_category_path p, prd_spu_code := prd_spu_code p, prd_selling_points := prd_selling_points p,
        prd_target_channels := prd_target_channels p, prd_status := prd_status p\<rparr>) (products s)\<rparr>))"

definition patch_product ::
  "uid \<Rightarrow> uid \<Rightarrow> patch_product_input \<Rightarrow> commerce_db \<Rightarrow> commerce_error + commerce_product \<times> commerce_db" where
  "patch_product user k input s =
     and_then (get_product user k s) (\<lambda>p.
     and_then (if ppd_clear_brand input then Inr (p\<lparr>prd_brand := None\<rparr>)
       else case ppd_brand input of
         None \<Rightarrow> Inr p
       | Some b \<Rightarrow> and_then (get_brand user b s) (\<lambda>_. Inr (p\<lparr>prd_brand := Some b\<rparr>))) (\<lambda>p1.
     let p2 = p1\<lparr>prd_name := assign_trimmed (prd_name p1) (ppd_name input),
                 prd_category := assign_trimmed (prd_category p1) (ppd_category input)\<rparr>
     in and_then (case ppd_category_id input of
         None \<Rightarrow> Inr p2
       | Some cat \<Rightarrow>
           (case ppd_category_source input of
              None \<Rightarrow> Inl ErrCategoryUnavailable
            | Some source \<Rightarrow>
                and_then (resolve_category_selection user cat source s) (\<lambda>path.
                Inr (p2\<lparr>prd_category_id := Some cat, prd_category_source := trim_space source,
                        prd_category_path := path, prd_category := path\<rparr>)))) (\<lambda>p3.
     let p4 = p3\<lparr>prd_spu_code := assign_trimmed (prd_spu_code p3) (ppd_spu_code input),
                 prd_selling_points := assign_string (prd_selling_points p3) (ppd_selling_points input),
                 prd_target_channels := assign_string (prd_target_channels p3) (ppd_target_channels input),
                 prd_status := assign_trimmed (prd_status p3) (ppd_status input)\<rparr>
     in if prd_name p4 = [] then Inl product_name_required
        else and_then (save_product user p4 s) (\<lambda>s'.
             and_then (get_product user k s') (\<lambda>p'. Inr (p', s'))))))"

section \<open>SKUs\<close>

record sku_input =
  ski_code :: string
  ski_color :: string
  ski_style :: string
  ski_size :: string
  ski_attributes :: string
  ski_status :: string

record patch_sku_input =
  psk_code :: "string option"
  psk_color :: "string option"
  psk_style :: "string option"
  psk_size :: "string option"
  psk_attributes :: "string option"
  psk_status :: "string option"

definition sku_code_required :: commerce_error where
  "sku_code_required = FieldError ''code'' ''SKU code is required''"

text \<open>The unique index on product and code, which leaves out deleted SKUs.\<close>

definition sku_code_taken :: "uid \<Rightarrow> string \<Rightarrow> uid option \<Rightarrow> commerce_db \<Rightarrow> bool" where
  "sku_code_taken product code except s \<longleftrightarrow> count_where (\<lambda>x. sku_product x = product \<and> sku_code x = code \<and>
     sku_deleted_at x = None \<and> except \<noteq> Some (sku_id x)) (skus s) > 0"

definition bump_sku_version :: "uid \<Rightarrow> uid \<Rightarrow> commerce_db \<Rightarrow> commerce_db" where
  "bump_sku_version user product s =
     s\<lparr>products := update_where (own_product user product) (\<lambda>p. p\<lparr>prd_sku_version := prd_sku_version p + 1\<rparr>) (products s)\<rparr>"

definition create_sku :: "uid \<Rightarrow> uid \<Rightarrow> sku_input \<Rightarrow> commerce_db \<Rightarrow> commerce_error + commerce_sku \<times> commerce_db" where
  "create_sku user product input s =
     (let code = trim_space (ski_code input) in
      if code = [] then Inl sku_code_required
      else and_then (get_product user product s) (\<lambda>_.
        if sku_code_taken product code None s then Inl ErrConflict
        else
          let k = \<lparr>sku_id = next_key sku_id (skus s), sku_user = user, sku_product = product, sku_code = code,
                   sku_color = trim_space (ski_color input), sku_style = trim_space (ski_style input),
                   sku_size = trim_space (ski_size input), sku_attributes = default_json (ski_attributes input) ''{}'',
                   sku_status = default_string (ski_status input) ''active'', sku_deleted_at = None\<rparr>
          in Inr (k, bump_sku_version user product (s\<lparr>skus := skus s @ [k]\<rparr>))))"

definition own_projects :: "uid \<Rightarrow> uid \<Rightarrow> commerce_db \<Rightarrow> commerce_project list" where
  "own_projects user product s =
     filter (\<lambda>p. prj_user p = user \<and> prj_product p = product \<and> prj_deleted_at p = None) (projects s)"

text \<open>The guards of a changed SKU \<open>y\<close> of a product, and its writing.\<close>

definition write_sku :: "uid \<Rightarrow> uid \<Rightarrow> uid \<Rightarrow> commerce_sku \<Rightarrow> commerce_db \<Rightarrow> commerce_error + commerce_db" where
  "write_sku user product k y s =
     (let hit = (\<lambda>z. sku_id z = k \<and> sku_user z = user \<and> sku_deleted_at z = None) in
      if sku_status y = ''disabled'' \<and> list_ex (\<lambda>p. prj_default_sku p = Some k) (own_projects user product s)
      then Inl ErrDefaultSKUDisable
      else if sku_code_taken product (sku_code y) (Some k) s then Inl ErrConflict
      else if count_where hit (skus s) \<noteq> 1 then Inl ErrNotFound
      else Inr (bump_sku_version user product (s\<lparr>skus := update_where hit (\<lambda>z. z\<lparr>sku_code := sku_code y,
        sku_color := sku_color y, sku_style := sku_style y, sku_size := sku_size y,
        sku_attributes := sku_attributes y, sku_status := sku_status y\<rparr>) (skus s)\<rparr>)))"

definition patch_sku :: "uid \<Rightarrow> uid \<Rightarrow> patch_sku_input \<Rightarrow> commerce_db \<Rightarrow> commerce_error + commerce_sku \<times> commerce_db" where
  "patch_sku user k input s =
     and_then (get_sku user k s) (\<lambda>x.
     and_then (get_product user (sku_product x) s) (\<lambda>_.
     and_then (case psk_code input of
         None \<Rightarrow> Inr x
       | Some raw \<Rightarrow> if trim_space raw = [] then Inl sku_code_required else Inr (x\<lparr>sku_code := trim_space raw\<rparr>)) (\<lambda>x1.
     and_then (write_sku user (sku_product x) k
       (x1\<lparr>sku_color := assign_trimmed (sku_color x1) (psk_color input),
           sku_style := assign_trimmed (sku_style x1) (psk_style input),
           sku_size := assign_trimmed (sku_size x1) (psk_size input),
           sku_attributes := assign_string (sku_attributes x1) (psk_attributes input),
           sku_status := assign_trimmed (sku_status x1) (psk_status input)\<rparr>) s) (\<lambda>s'.
     and_then (get_sku user k s') (\<lambda>x'. Inr (x', s'))))))"

end
