(* ===== verification/SkuMatrix.thy ===== *)
theory SkuMatrix
  imports Catalog "HOL-Library.AList"
begin

text \<open>
  SKU matrices (\<^verbatim>\<open>sku_matrix.go\<close>): the dimensions of a product, the SKUs that their
  values combine to, the preview of a change and its application, which replays under its
  idempotency key. The JSON of requests and responses and their digest are parameters.
\<close>

section \<open>Data\<close>

record sku_specification =
  ssp_dimension_id :: uid
  ssp_value_id :: uid
  ssp_dimension :: string
  ssp_value :: string

record sku_value_input =
  svi_id :: uid
  svi_name :: string
  svi_code :: string
  svi_status :: string
  svi_sort_order :: int

record sku_dimension_input =
  sdi_id :: uid
  sdi_name :: string
  sdi_status :: string
  sdi_sort_order :: int
  sdi_values :: "sku_value_input list"

record sku_matrix_input =
  smi_expected_version :: int
  smi_dimensions :: "sku_dimension_input list"

text \<open>A SKU with the columns computed for it.\<close>

record sku_view =
  skv_row :: commerce_sku
  skv_specification :: "sku_specification list"
  skv_is_default :: bool
  skv_asset_count :: nat

record matrix_candidate =
  mca_key :: string
  mca_code :: string
  mca_sku_id :: uid
  mca_status :: string
  mca_specifications :: "sku_specification list"
  mca_sku :: "sku_view option"

record matrix_preview =
  mpv_version :: int
  mpv_add :: "matrix_candidate list"
  mpv_keep :: "matrix_candidate list"
  mpv_conflicts :: "matrix_candidate list"
  mpv_disable :: "matrix_candidate list"

record sku_config =
  scf_version :: int
  scf_default_sku :: uid
  scf_default_known :: bool
  scf_dimensions :: "commerce_sku_dimension list"
  scf_values :: "commerce_sku_value list"
  scf_skus :: "sku_view list"

record matrix_codec =
  xc_digest :: "sku_matrix_input \<Rightarrow> string"
  xc_encode :: "sku_config \<Rightarrow> string option"
  xc_decode :: "string \<Rightarrow> sku_config option"

section \<open>Normalising\<close>

definition dimension_name_invalid :: commerce_error where
  "dimension_name_invalid = FieldError ''dimensions'' (utf8 [232, 167, 132, 230, 160, 188, 231, 187, 180, 229, 186, 166, 229,
     144, 141, 231, 167, 176, 228, 184, 141, 232, 131, 189, 228, 184, 186, 231, 169, 186, 230, 136, 150, 233, 135, 141, 229, 164, 141])"

definition value_name_invalid :: commerce_error where
  "value_name_invalid = FieldError ''values'' (utf8 [232, 167, 132, 230, 160, 188, 229, 128, 188, 228, 184, 141, 232, 131, 189,
     228, 184, 186, 231, 169, 186, 230, 136, 150, 233, 135, 141, 229, 164, 141])"

definition too_many_values :: commerce_error where
  "too_many_values = FieldError ''values'' (utf8 [230, 175, 143, 228, 184, 170, 232, 167, 132, 230, 160, 188, 231, 187, 180, 229,
     186, 166, 230, 156, 128, 229, 164, 154, 229, 144, 175, 231, 148, 168, 32, 50, 48, 32, 228, 184, 170, 229, 128, 188])"

definition no_values :: commerce_error where
  "no_values = FieldError ''values'' (utf8 [229, 144, 175, 231, 148, 168, 231, 187, 180, 229, 186, 166, 232, 135, 179, 229, 176,
     145, 233, 156, 128, 232, 166, 129, 228, 184, 128, 228, 184, 170, 229, 144, 175, 231, 148, 168, 229, 128, 188])"

definition too_many_dimensions :: commerce_error where
  "too_many_dimensions = FieldError ''dimensions'' (utf8 [230, 156, 128, 229, 164, 154, 229, 144, 175, 231, 148, 168, 32, 51, 32,
     228, 184, 170, 232, 167, 132, 230, 160, 188, 231, 187, 180, 229, 186, 166])"

definition too_many_combinations :: commerce_error where
  "too_many_combinations = FieldError ''dimensions'' (utf8 [230, 156, 137, 230, 149, 136, 32, 83, 75, 85, 32, 231, 187, 132, 229,
     144, 136, 230, 156, 128, 229, 164, 154, 32, 49, 48, 48, 32, 228, 184, 170])"

definition matrix_key_required :: commerce_error where
  "matrix_key_required = FieldError ''Idempotency-Key'' (utf8 [229, 191, 133, 233, 161, 187, 230, 143, 144, 228, 190, 155, 229,
     185, 130, 231, 173, 137, 233, 148, 174])"

fun normalize_values :: "nat \<Rightarrow> string list \<Rightarrow> sku_value_input list \<Rightarrow> commerce_error + sku_value_input list" where
  "normalize_values index seen [] = Inr []"
| "normalize_values index seen (v # vs) =
     (if svi_status v = ''disabled'' then normalize_values (index + 1) seen vs
      else
        let name = trim_space (svi_name v) in
        if name = [] \<or> name \<in> set seen then Inl value_name_invalid
        else and_then (normalize_values (index + 1) (name # seen) vs) (\<lambda>rest.
          Inr (v\<lparr>svi_name := name, svi_code := trim_space (svi_code v), svi_sort_order := int index\<rparr> # rest)))"

fun normalize_dimensions ::
  "nat \<Rightarrow> string list \<Rightarrow> sku_dimension_input list \<Rightarrow> commerce_error + sku_dimension_input list" where
  "normalize_dimensions index seen [] = Inr []"
| "normalize_dimensions index seen (d # ds) =
     (if sdi_status d = ''disabled'' then normalize_dimensions (index + 1) seen ds
      else
        let name = trim_space (sdi_name d) in
        if name = [] \<or> name \<in> set seen then Inl dimension_name_invalid
        else and_then (normalize_values 0 [] (sdi_values d)) (\<lambda>vs.
          if length vs > 20 then Inl too_many_values
          else if vs = [] then Inl no_values
          else and_then (normalize_dimensions (index + 1) (name # seen) ds) (\<lambda>rest.
            Inr (d\<lparr>sdi_name := name, sdi_values := vs, sdi_sort_order := int index, sdi_status := ''active''\<rparr> # rest))))"

definition combinations :: "sku_dimension_input list \<Rightarrow> nat" where
  "combinations ds = (if ds = [] then 0 else prod_list (map (\<lambda>d. length (sdi_values d)) ds))"

definition normalize_matrix :: "sku_matrix_input \<Rightarrow> commerce_error + sku_matrix_input" where
  "normalize_matrix input =
     and_then (normalize_dimensions 0 [] (smi_dimensions input)) (\<lambda>active.
     if length active > 3 then Inl too_many_dimensions
     else if combinations active > 100 then Inl too_many_combinations
     else Inr (input\<lparr>smi_dimensions := active\<rparr>))"

section \<open>Candidates\<close>

definition empty_candidate :: matrix_candidate where
  "empty_candidate = \<lparr>mca_key = '''', mca_code = '''', mca_sku_id = 0, mca_status = '''', mca_specifications = [], mca_sku = None\<rparr>"

definition extend_candidate :: "string \<Rightarrow> matrix_candidate \<Rightarrow> sku_value_input \<Rightarrow> matrix_candidate" where
  "extend_candidate dimension base v =
     base\<lparr>mca_specifications := mca_specifications base @
            [\<lparr>ssp_dimension_id = 0, ssp_value_id = 0, ssp_dimension = dimension, ssp_value = svi_name v\<rparr>],
          mca_code := (if mca_code base = [] then svi_code v else mca_code base)\<rparr>"

definition extend_candidates :: "sku_dimension_input \<Rightarrow> matrix_candidate list \<Rightarrow> matrix_candidate list" where
  "extend_candidates d bases = concat (map (\<lambda>base. map (extend_candidate (sdi_name d) base) (sdi_values d)) bases)"

definition specification_text :: "sku_specification \<Rightarrow> string" where
  "specification_text x = ssp_dimension x @ ''='' @ ssp_value x"

definition specification_key :: "sku_specification list \<Rightarrow> string" where
  "specification_key specs = join_with ''|'' (map specification_text specs)"

definition candidates :: "sku_dimension_input list \<Rightarrow> matrix_candidate list" where
  "candidates ds = map (\<lambda>c. c\<lparr>mca_key := specification_key (mca_specifications c)\<rparr>)
     (foldl (\<lambda>bases d. extend_candidates d bases) [empty_candidate] ds)"

section \<open>The SKUs of a product\<close>

definition owned_product :: "uid \<Rightarrow> uid \<Rightarrow> commerce_db \<Rightarrow> commerce_error + commerce_product" where
  "owned_product user product s =
     (case first_where (\<lambda>p. prd_id p = product \<and> prd_deleted_at p = None) (products s) of
        None \<Rightarrow> Inl ErrNotFound
      | Some p \<Rightarrow> if prd_user p \<noteq> user then Inl ErrOwnershipMismatch else Inr p)"

text \<open>The links of a SKU joined with their values and dimensions, in the order of the dimensions.\<close>

definition sku_specifications :: "uid \<Rightarrow> commerce_db \<Rightarrow> sku_specification list" where
  "sku_specifications k s =
     map (\<lambda>(v, d). \<lparr>ssp_dimension_id = dim_id d, ssp_value_id = val_id v, ssp_dimension = dim_name d, ssp_value = val_name v\<rparr>)
       (sort_key (\<lambda>(_, d). dim_sort_order d) (sort_key (\<lambda>(v, _). val_sort_order v)
         [(v, d). l \<leftarrow> sku_links s, v \<leftarrow> sku_values s, d \<leftarrow> sku_dimensions s,
            lnk_sku l = k \<and> val_id v = lnk_value l \<and> dim_id d = val_dimension v]))"

definition sku_view_of :: "uid \<Rightarrow> uid \<Rightarrow> commerce_db \<Rightarrow> commerce_sku \<Rightarrow> sku_view" where
  "sku_view_of user product s k =
     \<lparr>skv_row = k, skv_specification = sku_specifications (sku_id k) s,
      skv_is_default = list_ex (\<lambda>p. prj_default_sku p = Some (sku_id k)) (own_projects user product s),
      skv_asset_count = count_join (\<lambda>p a. ast_project a = prj_id p \<and> ast_sku a = Some (sku_id k) \<and> ast_deleted_at a = None)
        (own_projects user product s) (assets s)\<rparr>"

definition product_skus :: "uid \<Rightarrow> uid \<Rightarrow> commerce_db \<Rightarrow> commerce_sku list" where
  "product_skus user product s =
     sort_key sku_id (filter (\<lambda>k. sku_user k = user \<and> sku_product k = product \<and> sku_deleted_at k = None) (skus s))"

definition existing_candidates :: "uid \<Rightarrow> uid \<Rightarrow> commerce_db \<Rightarrow> matrix_candidate list" where
  "existing_candidates user product s =
     map (\<lambda>k. let v = sku_view_of user product s k in
         \<lparr>mca_key = specification_key (skv_specification v), mca_code = sku_code k, mca_sku_id = sku_id k,
          mca_status = sku_status k, mca_specifications = skv_specification v, mca_sku = Some v\<rparr>)
       (product_skus user product s)"

section \<open>Preview\<close>

text \<open>Of candidates with one key the last one stays.\<close>

definition active_by_key :: "matrix_candidate list \<Rightarrow> (string \<times> matrix_candidate) list" where
  "active_by_key existing =
     foldl (\<lambda>m e. AList.update (mca_key e) e m) [] (filter (\<lambda>e. mca_status e = ''active'') existing)"

definition code_owner :: "matrix_candidate list \<Rightarrow> string \<Rightarrow> string option" where
  "code_owner existing code = map_of (rev (map (\<lambda>e. (mca_code e, mca_key e)) existing)) code"

fun preview_loop ::
  "(string \<Rightarrow> string option) \<Rightarrow> (string \<times> matrix_candidate) list \<Rightarrow> string list \<Rightarrow> matrix_candidate list \<Rightarrow>
     matrix_candidate list \<times> matrix_candidate list \<times> matrix_candidate list \<times> (string \<times> matrix_candidate) list" where
  "preview_loop owner by_key codes [] = ([], [], [], by_key)"
| "preview_loop owner by_key codes (c # cs) =
     (case map_of by_key (mca_key c) of
        Some e \<Rightarrow>
          (let (add, keep, conflicts, rest) = preview_loop owner (AList.delete (mca_key c) by_key) codes cs
           in (add, e # keep, conflicts, rest))
      | None \<Rightarrow>
          if mca_code c \<noteq> [] \<and> (mca_code c \<in> set codes \<or> (case owner (mca_code c) of None \<Rightarrow> False | Some k \<Rightarrow> k \<noteq> mca_key c))
          then let (add, keep, conflicts, rest) = preview_loop owner by_key codes cs in (add, keep, c # conflicts, rest)
          else let (add, keep, conflicts, rest) = preview_loop owner by_key (mca_code c # codes) cs in (c # add, keep, conflicts, rest))"

definition preview_with_db :: "uid \<Rightarrow> uid \<Rightarrow> sku_matrix_input \<Rightarrow> commerce_db \<Rightarrow> commerce_error + matrix_preview" where
  "preview_with_db user product raw s =
     and_then (owned_product user product s) (\<lambda>p.
     and_then (normalize_matrix raw) (\<lambda>input.
     let existing = existing_candidates user product s;
         (add, keep, conflicts, rest) = preview_loop (code_owner existing) (active_by_key existing) [] (candidates (smi_dimensions input))
     in Inr \<lparr>mpv_version = prd_sku_version p, mpv_add = add, mpv_keep = keep, mpv_conflicts = conflicts,
             mpv_disable = sort_key mca_sku_id (map snd rest)\<rparr>))"

definition preview_sku_matrix :: "uid \<Rightarrow> uid \<Rightarrow> sku_matrix_input \<Rightarrow> commerce_db \<Rightarrow> commerce_error + matrix_preview" where
  "preview_sku_matrix = preview_with_db"

section \<open>The configuration\<close>

fun common_default :: "uid option \<Rightarrow> commerce_project list \<Rightarrow> uid option" where
  "common_default known [] = known"
| "common_default known (p # ps) =
     (case prj_default_sku p of
        None \<Rightarrow> common_default known ps
      | Some k \<Rightarrow>
          (case known of
             None \<Rightarrow> common_default (Some k) ps
           | Some d \<Rightarrow> if d \<noteq> k then None else common_default known ps))"

definition get_sku_config :: "uid \<Rightarrow> uid \<Rightarrow> commerce_db \<Rightarrow> commerce_error + sku_config" where
  "get_sku_config user product s =
     and_then (owned_product user product s) (\<lambda>p.
     let common = common_default None (sort_key prj_id (own_projects user product s))
     in Inr \<lparr>scf_version = prd_sku_version p, scf_default_sku = (case common of None \<Rightarrow> 0 | Some k \<Rightarrow> k),
             scf_default_known = (common \<noteq> None),
             scf_dimensions = sort_key dim_sort_order (filter (\<lambda>d. dim_user d = user \<and> dim_product d = product) (sku_dimensions s)),
             scf_values = sort_key val_sort_order (filter (\<lambda>v. val_user v = user \<and> val_product v = product) (sku_values s)),
             scf_skus = map (sku_view_of user product s) (product_skus user product s)\<rparr>)"

definition list_skus :: "uid \<Rightarrow> uid \<Rightarrow> commerce_db \<Rightarrow> commerce_error + sku_view list" where
  "list_skus user product s = and_then (get_sku_config user product s) (\<lambda>c. Inr (scf_skus c))"

section \<open>Applying a matrix\<close>

text \<open>
  The dimensions and values of the request become active, found by name or created; the result
  maps a dimension with a value, as the text of its specification, to the value's row.
\<close>

fun apply_values ::
  "uid \<Rightarrow> uid \<Rightarrow> uid \<Rightarrow> string \<Rightarrow> nat \<Rightarrow> sku_value_input list \<Rightarrow> (string \<times> uid) list \<Rightarrow> commerce_db \<Rightarrow> (string \<times> uid) list \<times> commerce_db" where
  "apply_values user product dimension name index [] ids s = (ids, s)"
| "apply_values user product dimension name index (v # vs) ids s =
     (let (k, s') = (case first_where (\<lambda>x. val_dimension x = dimension \<and> val_name x = svi_name v) (sku_values s) of
         None \<Rightarrow>
           let k = next_key val_id (sku_values s)
           in (k, s\<lparr>sku_values := sku_values s @ [\<lparr>val_id = k, val_user = user, val_product = product, val_dimension = dimension,
                 val_name = svi_name v, val_sort_order = index, val_status = ''active''\<rparr>]\<rparr>)
       | Some x \<Rightarrow>
           (val_id x, s\<lparr>sku_values := update_where (\<lambda>y. val_id y = val_id x)
              (\<lambda>y. y\<lparr>val_sort_order := index, val_status := ''active''\<rparr>) (sku_values s)\<rparr>))
      in apply_values user product dimension name (index + 1) vs ((name @ ''='' @ svi_name v, k) # ids) s')"

fun apply_dimensions ::
  "uid \<Rightarrow> uid \<Rightarrow> int \<Rightarrow> nat \<Rightarrow> sku_dimension_input list \<Rightarrow> (string \<times> uid) list \<Rightarrow> commerce_db \<Rightarrow>
     commerce_error + (string \<times> uid) list \<times> commerce_db" where
  "apply_dimensions user product version index [] ids s = Inr (ids, s)"
| "apply_dimensions user product version index (d # ds) ids s =
     and_then (case first_where (\<lambda>x. dim_user x = user \<and> dim_product x = product \<and> dim_name x = sdi_name d) (sku_dimensions s) of
         None \<Rightarrow>
           if count_where (\<lambda>x. dim_product x = product \<and> dim_name x = sdi_name d) (sku_dimensions s) \<noteq> 0
           then Inl ErrInfrastructure
           else
             let k = next_key dim_id (sku_dimensions s)
             in Inr (k, s\<lparr>sku_dimensions := sku_dimensions s @ [\<lparr>dim_id = k, dim_user = user, dim_product = product,
                   dim_name = sdi_name d, dim_version = version, dim_sort_order = index, dim_status = ''active''\<rparr>]\<rparr>)
       | Some x \<Rightarrow>
           Inr (dim_id x, s\<lparr>sku_dimensions := update_where (\<lambda>y. dim_id y = dim_id x)
              (\<lambda>y. y\<lparr>dim_version := version, dim_sort_order := index, dim_status := ''active''\<rparr>) (sku_dimensions s)\<rparr>))
       (\<lambda>(k, s1).
     let (ids', s2) = apply_values user product k (sdi_name d) 0 (sdi_values d) ids s1
     in apply_dimensions user product version (index + 1) ds ids' s2)"

text \<open>
  A code for a SKU without one: the first of SKU-p-n, SKU-p-(n+1), \<open>\<dots>\<close> that no SKU of the
  product has, and the next number. One more than the SKUs there are is enough fuel.
\<close>

definition generated_code :: "uid \<Rightarrow> nat \<Rightarrow> string" where
  "generated_code product n = ''SKU-'' @ show_nat product @ ''-'' @ show_nat n"

fun free_sku_code :: "nat \<Rightarrow> uid \<Rightarrow> nat \<Rightarrow> commerce_db \<Rightarrow> (string \<times> nat) option" where
  "free_sku_code 0 product n s = None"
| "free_sku_code (Suc fuel) product n s =
     (if sku_code_taken product (generated_code product n) None s then free_sku_code fuel product (n + 1) s
      else Some (generated_code product n, n + 1))"

definition insert_sku :: "uid \<Rightarrow> uid \<Rightarrow> string \<Rightarrow> commerce_db \<Rightarrow> commerce_error + uid \<times> commerce_db" where
  "insert_sku user product code s =
     (if sku_code_taken product code None s then Inl ErrConflict
      else
        let k = next_key sku_id (skus s)
        in Inr (k, s\<lparr>skus := skus s @ [\<lparr>sku_id = k, sku_user = user, sku_product = product, sku_code = code, sku_color = '''',
             sku_style = '''', sku_size = '''', sku_attributes = ''{}'', sku_status = ''active'', sku_deleted_at = None\<rparr>]\<rparr>))"

definition set_sku_status :: "uid \<Rightarrow> string \<Rightarrow> commerce_db \<Rightarrow> commerce_db" where
  "set_sku_status k status s = s\<lparr>skus := update_where (\<lambda>x. sku_id x = k \<and> sku_deleted_at x = None)
     (\<lambda>x. x\<lparr>sku_status := status\<rparr>) (skus s)\<rparr>"

text \<open>
  The links of a SKU. A specification without a value would be linked to value 0, which the
  foreign key of the table refuses.
\<close>

fun link_values ::
  "uid \<Rightarrow> uid \<Rightarrow> uid \<Rightarrow> (string \<times> uid) list \<Rightarrow> sku_specification list \<Rightarrow> commerce_db \<Rightarrow> commerce_error + commerce_db" where
  "link_values user product k ids [] s = Inr s"
| "link_values user product k ids (x # xs) s =
     (case map_of ids (specification_text x) of
        None \<Rightarrow> Inl ErrInfrastructure
      | Some v \<Rightarrow>
          if count_where (\<lambda>l. lnk_sku l = k \<and> lnk_value l = v) (sku_links s) \<noteq> 0 then Inl ErrInfrastructure
          else link_values user product k ids xs
            (s\<lparr>sku_links := sku_links s @ [\<lparr>lnk_id = next_key lnk_id (sku_links s), lnk_user = user, lnk_product = product,
                 lnk_sku = k, lnk_value = v\<rparr>]\<rparr>))"

text \<open>A candidate that is kept or added: its SKU becomes active or is created, and is linked again.\<close>

definition place_candidate ::
  "uid \<Rightarrow> uid \<Rightarrow> matrix_candidate \<Rightarrow> nat \<Rightarrow> commerce_db \<Rightarrow> commerce_error + (uid \<times> nat) \<times> commerce_db" where
  "place_candidate user product c sequence s =
     (case mca_sku c of
        Some v \<Rightarrow> Inr ((sku_id (skv_row v), sequence), set_sku_status (sku_id (skv_row v)) ''active'' s)
      | None \<Rightarrow>
          and_then (if mca_code c \<noteq> [] then Inr (mca_code c, sequence)
            else case free_sku_code (Suc (length (skus s))) product sequence s of
              None \<Rightarrow> Inl ErrInfrastructure | Some x \<Rightarrow> Inr x) (\<lambda>(code, sequence').
          and_then (insert_sku user product code s) (\<lambda>(k, s'). Inr ((k, sequence'), s'))))"

fun apply_candidates ::
  "uid \<Rightarrow> uid \<Rightarrow> (string \<times> uid) list \<Rightarrow> matrix_candidate list \<Rightarrow> nat \<Rightarrow> uid \<Rightarrow> commerce_db \<Rightarrow> commerce_error + uid \<times> commerce_db" where
  "apply_candidates user product ids [] sequence first s = Inr (first, s)"
| "apply_candidates user product ids (c # cs) sequence first s =
     and_then (place_candidate user product c sequence s) (\<lambda>((k, sequence'), s1).
     let s2 = s1\<lparr>sku_links := filter (\<lambda>l. lnk_sku l \<noteq> k) (sku_links s1)\<rparr>
     in and_then (link_values user product k ids (mca_specifications c) s2) (\<lambda>s3.
        apply_candidates user product ids cs sequence' (if first = 0 then k else first) s3))"

text \<open>Projects whose default SKU was disabled get the first active one instead.\<close>

definition move_defaults :: "uid \<Rightarrow> uid \<Rightarrow> uid list \<Rightarrow> uid \<Rightarrow> commerce_db \<Rightarrow> commerce_error + commerce_db" where
  "move_defaults user product disabled first s =
     (let hit = (\<lambda>p. prj_user p = user \<and> prj_product p = product \<and> prj_deleted_at p = None \<and>
           (\<exists>k \<in> set disabled. prj_default_sku p = Some k)) in
      if count_where hit (projects s) = 0 then Inr s
      else if first = 0 then Inl ErrDefaultSKUDisable
      else Inr (s\<lparr>projects := update_where hit (\<lambda>p. p\<lparr>prj_default_sku := Some first, prj_updated_at := clock s\<rparr>) (projects s)\<rparr>))"

definition matrix_request_of :: "uid \<Rightarrow> uid \<Rightarrow> string \<Rightarrow> commerce_sku_matrix_request \<Rightarrow> bool" where
  "matrix_request_of user product key r \<longleftrightarrow> mrq_user r = user \<and> mrq_product r = product \<and> mrq_idempotency_key r = key"

text \<open>The part of the transaction that a new request runs, after it has claimed its key.\<close>

definition claim_version :: "uid \<Rightarrow> uid \<Rightarrow> int \<Rightarrow> commerce_db \<Rightarrow> commerce_error + commerce_db" where
  "claim_version user product expected s =
     (let hit = (\<lambda>p. own_product user product p \<and> prd_sku_version p = expected) in
      if count_where hit (products s) \<noteq> 1 then Inl ErrSKUVersionConflict
      else Inr (s\<lparr>products := update_where hit (\<lambda>p. p\<lparr>prd_sku_version := expected + 1\<rparr>) (products s)\<rparr>))"

definition disable_dimensions :: "uid \<Rightarrow> uid \<Rightarrow> commerce_db \<Rightarrow> commerce_db" where
  "disable_dimensions user product s =
     s\<lparr>sku_dimensions := update_where (\<lambda>d. dim_user d = user \<and> dim_product d = product)
         (\<lambda>d. d\<lparr>dim_status := ''disabled''\<rparr>) (sku_dimensions s),
       sku_values := update_where (\<lambda>v. val_user v = user \<and> val_product v = product)
         (\<lambda>v. v\<lparr>val_status := ''disabled''\<rparr>) (sku_values s)\<rparr>"

definition apply_preview ::
  "uid \<Rightarrow> uid \<Rightarrow> int \<Rightarrow> sku_dimension_input list \<Rightarrow> matrix_preview \<Rightarrow> commerce_db \<Rightarrow> commerce_error + commerce_db" where
  "apply_preview user product version dimensions preview s =
     (let disabled = map mca_sku_id (mpv_disable preview) in
      and_then (apply_dimensions user product version 0 dimensions [] (disable_dimensions user product s)) (\<lambda>(ids, s1).
      and_then (apply_candidates user product ids (mpv_keep preview @ mpv_add preview) 1 0
          (fold (\<lambda>k. set_sku_status k ''disabled'') disabled s1)) (\<lambda>(first, s2).
      move_defaults user product disabled first s2)))"

definition apply_claimed ::
  "uid \<Rightarrow> uid \<Rightarrow> int \<Rightarrow> sku_matrix_input \<Rightarrow> commerce_db \<Rightarrow> commerce_error + sku_config \<times> commerce_db" where
  "apply_claimed user product expected normalized s =
     and_then (claim_version user product expected s) (\<lambda>s1.
     and_then (preview_with_db user product normalized s1) (\<lambda>preview.
     if mpv_conflicts preview \<noteq> [] then Inl ErrConflict
     else and_then (apply_preview user product (expected + 1) (smi_dimensions normalized) preview s1) (\<lambda>s2.
       and_then (get_sku_config user product s2) (\<lambda>config. Inr (config, s2)))))"

definition apply_sku_matrix_tx ::
  "matrix_codec \<Rightarrow> uid \<Rightarrow> uid \<Rightarrow> string \<Rightarrow> int \<Rightarrow> sku_matrix_input \<Rightarrow> commerce_db \<Rightarrow> commerce_error + sku_config \<times> commerce_db" where
  "apply_sku_matrix_tx c user product key expected normalized s =
     and_then (owned_product user product s) (\<lambda>_.
     case first_where (matrix_request_of user product key) (matrix_requests s) of
       Some r \<Rightarrow>
         if mrq_request_digest r \<noteq> xc_digest c normalized then Inl ErrIdempotencyConflict
         else if mrq_response r = [] then Inl ErrResponsePending
         else (case xc_decode c (mrq_response r) of None \<Rightarrow> Inl ErrDecode | Some config \<Rightarrow> Inr (config, s))
     | None \<Rightarrow>
         let r = \<lparr>mrq_id = next_key mrq_id (matrix_requests s), mrq_user = user, mrq_product = product,
                  mrq_idempotency_key = key, mrq_request_digest = xc_digest c normalized, mrq_response = ''''\<rparr>
         in and_then (apply_claimed user product expected normalized (s\<lparr>matrix_requests := matrix_requests s @ [r]\<rparr>)) (\<lambda>(config, s').
         case xc_encode c config of
           None \<Rightarrow> Inl ErrDecode
         | Some text \<Rightarrow> Inr (config, s'\<lparr>matrix_requests := update_where (\<lambda>x. mrq_id x = mrq_id r)
             (\<lambda>x. x\<lparr>mrq_response := text\<rparr>) (matrix_requests s')\<rparr>)))"

definition apply_sku_matrix ::
  "matrix_codec \<Rightarrow> uid \<Rightarrow> uid \<Rightarrow> string \<Rightarrow> sku_matrix_input \<Rightarrow> commerce_db \<Rightarrow> (commerce_error + sku_config) \<times> commerce_db" where
  "apply_sku_matrix c user product raw_key input s =
     (let key = trim_space raw_key in
      if key = [] then (Inl matrix_key_required, s)
      else case normalize_matrix input of
        Inl e \<Rightarrow> (Inl e, s)
      | Inr normalized \<Rightarrow>
          run_tx (apply_sku_matrix_tx c user product key (smi_expected_version input) normalized) s)"

end
