(* ===== verification/MatrixFacts.thy ===== *)
theory MatrixFacts
  imports SkuMatrix "HOL-Library.Multiset"
begin

text \<open>
  What a preview holds, and how applying a matrix changes the SKUs: it only disables the SKUs of
  the preview, and the first SKU it keeps or adds is active in the end.
\<close>

section \<open>Candidates\<close>

definition fresh_candidate :: "matrix_candidate \<Rightarrow> bool" where
  "fresh_candidate c \<longleftrightarrow> mca_sku c = None"

lemma extend_fresh: "list_all fresh_candidate bases \<Longrightarrow> list_all fresh_candidate (extend_candidates d bases)"
  by (auto simp: extend_candidates_def extend_candidate_def fresh_candidate_def list_all_iff)

lemma candidates_fresh: "list_all fresh_candidate (candidates ds)"
proof -
  have "list_all fresh_candidate (foldl (\<lambda>bases d. extend_candidates d bases) bases ds)"
    if "list_all fresh_candidate bases" for bases
    using that by (induction ds arbitrary: bases) (simp_all add: extend_fresh)
  from this [of "[empty_candidate]"] show ?thesis
    by (simp add: candidates_def list_all_iff fresh_candidate_def empty_candidate_def)
qed

lemma candidates_new: "c \<in> set (candidates ds) \<Longrightarrow> mca_sku c = None"
  using candidates_fresh [of ds] by (simp add: list_all_iff fresh_candidate_def)

lemma length_extend_candidates: "length (extend_candidates d bases) = length bases * length (sdi_values d)"
  by (induction bases) (simp_all add: extend_candidates_def)

lemma length_candidates: "length (candidates ds) = prod_list (map (\<lambda>d. length (sdi_values d)) ds)"
proof -
  have "length (foldl (\<lambda>bases d. extend_candidates d bases) bases ds) =
      length bases * prod_list (map (\<lambda>d. length (sdi_values d)) ds)" for bases
    by (induction ds arbitrary: bases) (simp_all add: length_extend_candidates)
  then show ?thesis by (simp add: candidates_def)
qed

lemma normalize_matrix_bounds:
  assumes "normalize_matrix raw = Inr input"
  shows "length (smi_dimensions input) \<le> 3" and "length (candidates (smi_dimensions input)) \<le> 100"
proof -
  obtain active where active: "input = raw\<lparr>smi_dimensions := active\<rparr>" "length active \<le> 3" "combinations active \<le> 100"
    using assms by (auto simp: normalize_matrix_def and_then_eq_Inr split: if_splits)
  from active show "length (smi_dimensions input) \<le> 3" by simp
  from active show "length (candidates (smi_dimensions input)) \<le> 100"
    by (cases "active = []") (simp_all add: length_candidates combinations_def)
qed

section \<open>Previews\<close>

text \<open>
  The entries of \<open>active_by_key\<close>: under each key an active candidate with it, and each key of an
  active candidate.
\<close>

definition keyed :: "(string \<times> matrix_candidate) list \<Rightarrow> bool" where
  "keyed m \<longleftrightarrow> (\<forall>x \<in> set m. mca_key (snd x) = fst x)"

lemma keyedD: "keyed m \<Longrightarrow> (k, e) \<in> set m \<Longrightarrow> mca_key e = k"
  by (force simp: keyed_def)

lemma update_entry: "x \<in> set (AList.update k v m) \<Longrightarrow> x \<in> set m \<or> x = (k, v)"
  by (induction m) (auto split: if_splits)

lemma update_keys: "fst ` set (AList.update k v m) = insert k (fst ` set m)"
  by (metis dom_update list.set_map update_conv' dom_map_of_conv_image_fst dom_fun_upd option.discI)

lemma active_by_key_inv:
  "keyed m \<Longrightarrow> snd ` set m \<subseteq> A \<Longrightarrow> distinct (map fst m) \<Longrightarrow> set es \<subseteq> A \<Longrightarrow>
   keyed (foldl (\<lambda>m e. AList.update (mca_key e) e m) m es) \<and>
   snd ` set (foldl (\<lambda>m e. AList.update (mca_key e) e m) m es) \<subseteq> A \<and>
   distinct (map fst (foldl (\<lambda>m e. AList.update (mca_key e) e m) m es)) \<and>
   fst ` set (foldl (\<lambda>m e. AList.update (mca_key e) e m) m es) = fst ` set m \<union> mca_key ` set es"
proof (induction es arbitrary: m)
  case (Cons e es)
  let ?m = "AList.update (mca_key e) e m"
  have "keyed ?m" using Cons.prems(1) update_entry [of _ "mca_key e" e m] unfolding keyed_def by fastforce
  moreover have "snd ` set ?m \<subseteq> A" using Cons.prems(2,4) update_entry [of _ "mca_key e" e m] by fastforce
  moreover have "distinct (map fst ?m)" using Cons.prems(3) by (rule distinct_update)
  moreover have "set es \<subseteq> A" using Cons.prems(4) by simp
  ultimately have "keyed (foldl (\<lambda>m e. AList.update (mca_key e) e m) ?m es) \<and>
     snd ` set (foldl (\<lambda>m e. AList.update (mca_key e) e m) ?m es) \<subseteq> A \<and>
     distinct (map fst (foldl (\<lambda>m e. AList.update (mca_key e) e m) ?m es)) \<and>
     fst ` set (foldl (\<lambda>m e. AList.update (mca_key e) e m) ?m es) = fst ` set ?m \<union> mca_key ` set es"
    by (rule Cons.IH)
  then show ?case by (auto simp: update_keys)
qed simp

definition active_candidates :: "matrix_candidate list \<Rightarrow> matrix_candidate set" where
  "active_candidates existing = {e \<in> set existing. mca_status e = ''active''}"

lemma active_by_key_entries:
  "keyed (active_by_key existing)"
  "snd ` set (active_by_key existing) \<subseteq> active_candidates existing"
  "distinct (map fst (active_by_key existing))"
  "fst ` set (active_by_key existing) = mca_key ` active_candidates existing"
  using active_by_key_inv [of "[]" "active_candidates existing" "filter (\<lambda>e. mca_status e = ''active'') existing"]
  unfolding active_by_key_def active_candidates_def by (auto simp: keyed_def)

text \<open>
  The loop hands out the entries it starts with: a desired candidate with the key of one takes it,
  the others are added or conflict, and what is left has no desired key.
\<close>

definition code_clash :: "(string \<Rightarrow> string option) \<Rightarrow> string list \<Rightarrow> matrix_candidate \<Rightarrow> bool" where
  "code_clash owner codes c \<longleftrightarrow> mca_code c \<noteq> [] \<and>
     (mca_code c \<in> set codes \<or> (\<exists>k. owner (mca_code c) = Some k \<and> k \<noteq> mca_key c))"

definition loop_parts ::
  "(string \<Rightarrow> string option) \<Rightarrow> (string \<times> matrix_candidate) list \<Rightarrow> string list \<Rightarrow> matrix_candidate list \<Rightarrow>
     matrix_candidate list \<Rightarrow> matrix_candidate list \<Rightarrow> matrix_candidate list \<Rightarrow> (string \<times> matrix_candidate) list \<Rightarrow> bool" where
  "loop_parts owner m codes cs add keep conflicts rest \<longleftrightarrow>
     mset (map mca_key cs) = mset (map mca_key keep) + mset (map mca_key add) + mset (map mca_key conflicts) \<and>
     set add \<union> set conflicts \<subseteq> set cs \<and>
     set keep \<union> snd ` set rest = snd ` set m \<and>
     set rest \<subseteq> set m \<and> distinct (map fst rest) \<and> fst ` set rest \<inter> mca_key ` set cs = {} \<and>
     (\<forall>c \<in> set add. \<not> code_clash owner codes c) \<and>
     distinct (filter (\<lambda>x. x \<noteq> []) (map mca_code add))"

lemma loop_partsD:
  assumes "loop_parts owner m codes cs add keep conflicts rest"
  shows "mset (map mca_key cs) = mset (map mca_key keep) + mset (map mca_key add) + mset (map mca_key conflicts)"
    and "set keep \<union> snd ` set rest = snd ` set m" and "set rest \<subseteq> set m"
    and "fst ` set rest \<inter> mca_key ` set cs = {}" and "\<forall>c \<in> set add. \<not> code_clash owner codes c"
    and "distinct (filter (\<lambda>x. x \<noteq> []) (map mca_code add))"
  using assms by (simp_all add: loop_parts_def)

lemma preview_loop_parts:
  "preview_loop owner m codes cs = (add, keep, conflicts, rest) \<Longrightarrow> distinct (map fst m) \<Longrightarrow> keyed m \<Longrightarrow>
   loop_parts owner m codes cs add keep conflicts rest"
proof (induction owner m codes cs arbitrary: add keep conflicts rest rule: preview_loop.induct)
  case (1 owner m codes)
  then show ?case by (auto simp: loop_parts_def)
next
  case (2 owner m codes c cs)
  show ?case
  proof (cases "map_of m (mca_key c)")
    case (Some e)
    let ?m = "AList.delete (mca_key c) m"
    obtain keep' where loop: "preview_loop owner ?m codes cs = (add, keep', conflicts, rest)" and keep: "keep = e # keep'"
      using "2.prems"(1) Some by (auto split: prod.splits)
    have sub: "set ?m = {x \<in> set m. fst x \<noteq> mca_key c}" by (auto simp: AList.delete_eq)
    have mem: "(mca_key c, e) \<in> set m" using Some by (rule map_of_SomeD)
    have e: "mca_key e = mca_key c" using keyedD [OF "2.prems"(3) mem] .
    have IH: "loop_parts owner ?m codes cs add keep' conflicts rest"
      by (rule "2.IH"(3) [OF Some loop]) (use "2.prems"(2,3) sub in \<open>auto simp: AList.distinct_delete keyed_def\<close>)
    have split: "set m = insert (mca_key c, e) (set ?m)"
    proof -
      have "x = (mca_key c, e)" if "x \<in> set m" "fst x = mca_key c" for x
        using that mem "2.prems"(2) by (metis eq_key_imp_eq_value prod.collapse)
      then show ?thesis unfolding sub using mem by blast
    qed
    have "set rest \<subseteq> set ?m" using IH by (simp add: loop_parts_def)
    then have rest: "set rest \<subseteq> set m" "mca_key c \<notin> fst ` set rest" using sub by auto
    have held: "snd ` set m = insert e (snd ` set ?m)" unfolding split by simp
    note IH = IH [unfolded loop_parts_def]
    have keys: "mset (map mca_key (c # cs)) = mset (map mca_key keep) + mset (map mca_key add) + mset (map mca_key conflicts)"
      using conjunct1 [OF IH] e by (simp add: keep)
    have subset: "set add \<union> set conflicts \<subseteq> set (c # cs)" using IH by auto
    have entries: "set keep \<union> snd ` set rest = snd ` set m" using IH by (auto simp: held keep)
    have "fst ` set rest \<inter> mca_key ` set (c # cs) = {}" using IH rest(2) by auto
    then show ?thesis using IH keys subset entries rest(1) unfolding loop_parts_def by blast
  next
    case None
    have out: "mca_key c \<notin> fst ` set m" using None by (simp add: map_of_eq_None_iff)
    have clash: "code_clash owner codes c \<longleftrightarrow> mca_code c \<noteq> [] \<and>
        (mca_code c \<in> set codes \<or> (case owner (mca_code c) of None \<Rightarrow> False | Some k \<Rightarrow> k \<noteq> mca_key c))"
      by (auto simp: code_clash_def split: option.splits)
    show ?thesis
    proof (cases "code_clash owner codes c")
      case True
      obtain conflicts' where loop: "preview_loop owner m codes cs = (add, keep, conflicts', rest)" and
          conflicts: "conflicts = c # conflicts'"
        using "2.prems"(1) None True clash by (auto split: prod.splits)
      have IH: "loop_parts owner m codes cs add keep conflicts' rest"
        by (rule "2.IH"(1) [OF None _ loop "2.prems"(2,3)]) (use True clash in simp)
      then show ?thesis using out unfolding loop_parts_def conflicts by auto
    next
      case False
      obtain add' where loop: "preview_loop owner m (mca_code c # codes) cs = (add', keep, conflicts, rest)" and add: "add = c # add'"
        using "2.prems"(1) None False clash by (auto split: prod.splits)
      have IH: "loop_parts owner m (mca_code c # codes) cs add' keep conflicts rest"
        by (rule "2.IH"(2) [OF None _ loop "2.prems"(2,3)]) (use False clash in simp)
      have weaker: "\<forall>x \<in> set add'. \<not> code_clash owner codes x" and other: "mca_code c \<noteq> [] \<Longrightarrow> mca_code c \<notin> mca_code ` set add'"
        using IH by (auto simp: loop_parts_def code_clash_def)
      show ?thesis using IH out weaker other False unfolding loop_parts_def add by auto
    qed
  qed
qed

lemma preview_parts:
  assumes "preview_with_db user product raw s = Inr p"
  obtains input row rest where "normalize_matrix raw = Inr input" and "owned_product user product s = Inr row"
    and "mpv_version p = prd_sku_version row"
    and "loop_parts (code_owner (existing_candidates user product s)) (active_by_key (existing_candidates user product s)) []
      (candidates (smi_dimensions input)) (mpv_add p) (mpv_keep p) (mpv_conflicts p) rest"
    and "set (mpv_disable p) = snd ` set rest" and "length (mpv_disable p) = length rest"
proof -
  let ?E = "existing_candidates user product s"
  have "\<exists>row input. owned_product user product s = Inr row \<and> normalize_matrix raw = Inr input \<and>
      (let (add, keep, conflicts, rest) = preview_loop (code_owner ?E) (active_by_key ?E) [] (candidates (smi_dimensions input))
        in Inr \<lparr>mpv_version = prd_sku_version row, mpv_add = add, mpv_keep = keep, mpv_conflicts = conflicts,
             mpv_disable = sort_key mca_sku_id (map snd rest)\<rparr>) = (Inr p :: commerce_error + matrix_preview)"
    using assms unfolding preview_with_db_def and_then_eq_Inr Let_def by (elim exE conjE) (intro exI conjI)
  then obtain row input where row: "owned_product user product s = Inr row" and input: "normalize_matrix raw = Inr input"
      and p: "(let (add, keep, conflicts, rest) = preview_loop (code_owner ?E) (active_by_key ?E) [] (candidates (smi_dimensions input))
        in Inr \<lparr>mpv_version = prd_sku_version row, mpv_add = add, mpv_keep = keep, mpv_conflicts = conflicts,
             mpv_disable = sort_key mca_sku_id (map snd rest)\<rparr>) = (Inr p :: commerce_error + matrix_preview)"
    by blast
  obtain add keep conflicts rest where loop:
      "preview_loop (code_owner ?E) (active_by_key ?E) [] (candidates (smi_dimensions input)) = (add, keep, conflicts, rest)"
    by (metis prod_cases4)
  have "p = \<lparr>mpv_version = prd_sku_version row, mpv_add = add, mpv_keep = keep, mpv_conflicts = conflicts,
      mpv_disable = sort_key mca_sku_id (map snd rest)\<rparr>" using p loop by simp
  then show thesis using that [OF input row, of rest] preview_loop_parts [OF loop active_by_key_entries(3,1)] by simp
qed

lemma existing_candidate:
  "e \<in> set (existing_candidates user product s) \<Longrightarrow>
   \<exists>k \<in> set (product_skus user product s). mca_sku e = Some (sku_view_of user product s k) \<and> mca_sku_id e = sku_id k \<and>
      mca_status e = sku_status k \<and> mca_code e = sku_code k"
  by (auto simp: existing_candidates_def Let_def)

lemma product_sku: "k \<in> set (product_skus user product s) \<longleftrightarrow>
   k \<in> set (skus s) \<and> sku_user k = user \<and> sku_product k = product \<and> sku_deleted_at k = None"
  by (auto simp: product_skus_def)

text \<open>The candidates to keep or disable are active SKUs of the product.\<close>

lemma preview_existing:
  assumes "preview_with_db user product raw s = Inr p" and "e \<in> set (mpv_keep p) \<union> set (mpv_disable p)"
  obtains k where "k \<in> set (skus s)" "sku_user k = user" "sku_product k = product" "sku_deleted_at k = None"
    "sku_status k = ''active''" "mca_sku e = Some (sku_view_of user product s k)" "mca_sku_id e = sku_id k"
proof -
  obtain input row rest where "normalize_matrix raw = Inr input" "owned_product user product s = Inr row"
      "mpv_version p = prd_sku_version row" and parts: "loop_parts (code_owner (existing_candidates user product s))
      (active_by_key (existing_candidates user product s)) [] (candidates (smi_dimensions input)) (mpv_add p) (mpv_keep p)
      (mpv_conflicts p) rest" and disable: "set (mpv_disable p) = snd ` set rest" and "length (mpv_disable p) = length rest"
    by (rule preview_parts [OF assms(1)])
  from parts disable have "e \<in> snd ` set (active_by_key (existing_candidates user product s))"
    using assms(2) unfolding loop_parts_def by (simp only: Un_iff)
  then have "e \<in> active_candidates (existing_candidates user product s)"
    using active_by_key_entries(2) by blast
  then have e: "e \<in> set (existing_candidates user product s)" "mca_status e = ''active''" by (auto simp: active_candidates_def)
  from existing_candidate [OF e(1)] obtain k where "k \<in> set (product_skus user product s)"
      "mca_sku e = Some (sku_view_of user product s k)" "mca_sku_id e = sku_id k" "mca_status e = sku_status k" by blast
  with e(2) show thesis using that [of k] unfolding product_sku by simp
qed

lemma preview_added: "preview_with_db user product raw s = Inr p \<Longrightarrow> c \<in> set (mpv_add p) \<Longrightarrow> mca_sku c = None"
  by (erule preview_parts) (auto simp: loop_parts_def dest: candidates_new)

section \<open>Rows that only make progress\<close>

text \<open>
  From \<open>s\<close> to \<open>s'\<close> no project changes, every SKU stays with its owner, product and deletion, and
  its status stays, becomes active, or changes because the SKU is in \<open>D\<close>.
\<close>

definition same_sku :: "commerce_sku \<Rightarrow> commerce_sku \<Rightarrow> bool" where
  "same_sku x y \<longleftrightarrow> sku_id y = sku_id x \<and> sku_user y = sku_user x \<and> sku_product y = sku_product x \<and>
     sku_deleted_at y = sku_deleted_at x"

definition sku_progress :: "uid set \<Rightarrow> commerce_db \<Rightarrow> commerce_db \<Rightarrow> bool" where
  "sku_progress D s s' \<longleftrightarrow> projects s' = projects s \<and>
     (distinct (map sku_id (skus s)) \<longrightarrow> distinct (map sku_id (skus s'))) \<and>
     (\<forall>x \<in> set (skus s). \<exists>y \<in> set (skus s'). same_sku x y \<and>
        (sku_status y = sku_status x \<or> sku_status y = ''active'' \<or> sku_id x \<in> D))"

lemma progress_same: "skus s' = skus s \<Longrightarrow> projects s' = projects s \<Longrightarrow> sku_progress D s s'"
  by (auto simp: sku_progress_def same_sku_def)

lemma progress_trans: "sku_progress D s s1 \<Longrightarrow> sku_progress D s1 s2 \<Longrightarrow> sku_progress D s s2"
  unfolding sku_progress_def same_sku_def by (elim conjE, intro conjI) (simp_all, metis)

lemma progress_status:
  assumes "status = ''active'' \<or> k \<in> D"
  shows "sku_progress D s (set_sku_status k status s)"
  unfolding sku_progress_def
proof (intro conjI ballI impI)
  fix x assume x: "x \<in> set (skus s)"
  let ?P = "\<lambda>x. sku_id x = k \<and> sku_deleted_at x = None"
  let ?y = "if ?P x then x\<lparr>sku_status := status\<rparr> else x"
  have "?y \<in> set (skus (set_sku_status k status s))" using x by (simp add: set_sku_status_def set_update_where)
  then show "\<exists>y \<in> set (skus (set_sku_status k status s)). same_sku x y \<and>
      (sku_status y = sku_status x \<or> sku_status y = ''active'' \<or> sku_id x \<in> D)"
    using assms by (intro bexI [of _ ?y]) (auto simp: same_sku_def)
qed (simp_all add: set_sku_status_def map_update_where)

lemma progress_disabled: "set ks \<subseteq> D \<Longrightarrow> sku_progress D s (fold (\<lambda>k. set_sku_status k ''disabled'') ks s)"
proof (induction ks arbitrary: s)
  case (Cons k ks)
  have "sku_progress D s (set_sku_status k ''disabled'' s)" using Cons.prems by (intro progress_status) simp
  moreover have "sku_progress D (set_sku_status k ''disabled'' s) (fold (\<lambda>k. set_sku_status k ''disabled'') ks (set_sku_status k ''disabled'' s))"
    using Cons by simp
  ultimately show ?case unfolding fold_Cons o_apply by (rule progress_trans)
qed (simp add: progress_same)

definition new_sku :: "uid \<Rightarrow> uid \<Rightarrow> string \<Rightarrow> uid \<Rightarrow> commerce_sku" where
  "new_sku user product code k = \<lparr>sku_id = k, sku_user = user, sku_product = product, sku_code = code, sku_color = '''',
     sku_style = '''', sku_size = '''', sku_attributes = ''{}'', sku_status = ''active'', sku_deleted_at = None\<rparr>"

lemma insert_sku_row:
  "insert_sku user product code s = Inr (k, s') \<Longrightarrow>
   k = next_key sku_id (skus s) \<and> s' = s\<lparr>skus := skus s @ [new_sku user product code k]\<rparr>"
  unfolding insert_sku_def Let_def new_sku_def by (simp split: if_splits) blast

lemma progress_inserted:
  assumes "insert_sku user product code s = Inr (k, s')"
  shows "sku_progress D s s'"
proof -
  let ?r = "new_sku user product code k"
  have s': "s' = s\<lparr>skus := skus s @ [?r]\<rparr>" "sku_id ?r = next_key sku_id (skus s)"
    using insert_sku_row [OF assms] by (auto simp: new_sku_def)
  have "sku_id ?r \<notin> sku_id ` set (skus s)" using next_key_fresh [of _ "skus s" sku_id] s'(2) by fastforce
  then have "distinct (map sku_id (skus s')) = distinct (map sku_id (skus s))" by (simp add: s'(1))
  moreover have "x \<in> set (skus s')" if "x \<in> set (skus s)" for x using that by (simp add: s'(1))
  moreover have "projects s' = projects s" by (simp add: s'(1))
  ultimately show ?thesis unfolding sku_progress_def same_sku_def by blast
qed

text \<open>A SKU of the product that is there, one that is active, and one a project may use.\<close>

definition sku_with :: "(string \<Rightarrow> bool) \<Rightarrow> uid \<Rightarrow> uid \<Rightarrow> uid \<Rightarrow> commerce_db \<Rightarrow> bool" where
  "sku_with P user product k s \<longleftrightarrow> (\<exists>x \<in> set (skus s). sku_id x = k \<and> sku_user x = user \<and> sku_product x = product \<and>
     sku_deleted_at x = None \<and> P (sku_status x))"

abbreviation sku_there :: "uid \<Rightarrow> uid \<Rightarrow> uid \<Rightarrow> commerce_db \<Rightarrow> bool" where "sku_there \<equiv> sku_with (\<lambda>_. True)"
abbreviation sku_active :: "uid \<Rightarrow> uid \<Rightarrow> uid \<Rightarrow> commerce_db \<Rightarrow> bool" where "sku_active \<equiv> sku_with (\<lambda>st. st = ''active'')"
abbreviation sku_usable :: "uid \<Rightarrow> uid \<Rightarrow> uid \<Rightarrow> commerce_db \<Rightarrow> bool" where "sku_usable \<equiv> sku_with (\<lambda>st. st \<noteq> ''disabled'')"

lemma progress_with:
  assumes "sku_progress D s s'" and "sku_with P user product k s" and "k \<in> D \<Longrightarrow> \<forall>st. P st" and "P ''active''"
  shows "sku_with P user product k s'"
proof -
  from assms(2) obtain x where x: "x \<in> set (skus s)" "sku_id x = k" "sku_user x = user" "sku_product x = product"
      "sku_deleted_at x = None" "P (sku_status x)" by (auto simp: sku_with_def)
  obtain y where y: "y \<in> set (skus s')" "same_sku x y"
      "sku_status y = sku_status x \<or> sku_status y = ''active'' \<or> sku_id x \<in> D"
    using assms(1) x(1) unfolding sku_progress_def by blast
  have "P (sku_status y)" using y(3) x(2,6) assms(3,4) by auto
  then show ?thesis using x y(1,2) by (auto simp: sku_with_def same_sku_def)
qed

lemma usable_active: "sku_active user product k s \<Longrightarrow> sku_usable user product k s"
  by (auto simp: sku_with_def)

lemma status_active:
  assumes "sku_there user product k s"
  shows "sku_active user product k (set_sku_status k ''active'' s)"
proof -
  from assms obtain x where "x \<in> set (skus s)" "sku_id x = k" "sku_user x = user" "sku_product x = product"
      "sku_deleted_at x = None" by (auto simp: sku_with_def)
  then have "x\<lparr>sku_status := ''active''\<rparr> \<in> set (skus (set_sku_status k ''active'' s)) \<and> sku_id (x\<lparr>sku_status := ''active''\<rparr>) = k \<and>
      sku_user (x\<lparr>sku_status := ''active''\<rparr>) = user \<and> sku_product (x\<lparr>sku_status := ''active''\<rparr>) = product \<and>
      sku_deleted_at (x\<lparr>sku_status := ''active''\<rparr>) = None"
    by (auto simp: set_sku_status_def set_update_where image_iff)
  then show ?thesis unfolding sku_with_def by (intro bexI [of _ "x\<lparr>sku_status := ''active''\<rparr>"]) simp_all
qed

lemma inserted_active:
  "insert_sku user product code s = Inr (k, s') \<Longrightarrow> sku_active user product k s'"
  by (drule insert_sku_row) (simp add: sku_with_def new_sku_def)

section \<open>Applying a matrix\<close>

lemma apply_values_same:
  "apply_values user product dimension name index vs ids s = (ids', s') \<Longrightarrow>
   skus s' = skus s \<and> projects s' = projects s \<and> products s' = products s \<and> matrix_requests s' = matrix_requests s"
proof (induction user product dimension name index vs ids s rule: apply_values.induct)
  case (2 user product dimension name index v vs ids s)
  show ?case
  proof (cases "first_where (\<lambda>x. val_dimension x = dimension \<and> val_name x = svi_name v) (sku_values s)")
    case None
    show ?thesis using 2(1) [OF _ refl] 2(2) None by (simp add: Let_def)
  next
    case (Some x)
    show ?thesis using 2(1) [OF _ refl] 2(2) Some by (simp add: Let_def)
  qed
qed simp

lemma apply_dimensions_same:
  "apply_dimensions user product version index ds ids s = Inr (ids', s') \<Longrightarrow>
   skus s' = skus s \<and> projects s' = projects s \<and> products s' = products s \<and> matrix_requests s' = matrix_requests s"
proof (induction ds arbitrary: index ids s)
  case (Cons d ds)
  from Cons.prems obtain y where
      row: "(case first_where (\<lambda>x. dim_user x = user \<and> dim_product x = product \<and> dim_name x = sdi_name d) (sku_dimensions s) of
         None \<Rightarrow>
           if count_where (\<lambda>x. dim_product x = product \<and> dim_name x = sdi_name d) (sku_dimensions s) \<noteq> 0
           then Inl ErrInfrastructure
           else
             let k = next_key dim_id (sku_dimensions s)
             in Inr (k, s\<lparr>sku_dimensions := sku_dimensions s @ [\<lparr>dim_id = k, dim_user = user, dim_product = product,
                   dim_name = sdi_name d, dim_version = version, dim_sort_order = index, dim_status = ''active''\<rparr>]\<rparr>)
       | Some x \<Rightarrow>
           Inr (dim_id x, s\<lparr>sku_dimensions := update_where (\<lambda>y. dim_id y = dim_id x)
              (\<lambda>y. y\<lparr>dim_version := version, dim_sort_order := index, dim_status := ''active''\<rparr>) (sku_dimensions s)\<rparr>)) = Inr y" and
      next_row: "(case y of (k, s1) \<Rightarrow> let (ids2, s2) = apply_values user product k (sdi_name d) 0 (sdi_values d) ids s1
         in apply_dimensions user product version (index + 1) ds ids2 s2) = Inr (ids', s')"
    unfolding apply_dimensions.simps and_then_eq_Inr by blast
  obtain k s1 where y: "y = (k, s1)" by (cases y)
  have s1: "skus s1 = skus s \<and> projects s1 = projects s \<and> products s1 = products s \<and> matrix_requests s1 = matrix_requests s"
    using row unfolding y Let_def by (simp split: option.splits if_splits) auto
  obtain ids2 s2 where s2: "apply_values user product k (sdi_name d) 0 (sdi_values d) ids s1 = (ids2, s2)"
    by (cases "apply_values user product k (sdi_name d) 0 (sdi_values d) ids s1")
  have rest: "apply_dimensions user product version (index + 1) ds ids2 s2 = Inr (ids', s')"
    using next_row by (simp add: y s2)
  from apply_values_same [OF s2] Cons.IH [OF rest] s1 show ?case by simp
qed simp

lemma link_values_same:
  "link_values user product k ids xs s = Inr s' \<Longrightarrow>
   skus s' = skus s \<and> projects s' = projects s \<and> products s' = products s \<and> matrix_requests s' = matrix_requests s"
proof (induction xs arbitrary: s)
  case (Cons x xs)
  show ?case using Cons.prems Cons.IH by (fastforce split: option.splits if_splits)
qed simp

definition candidate_there :: "uid \<Rightarrow> uid \<Rightarrow> matrix_candidate \<Rightarrow> commerce_db \<Rightarrow> bool" where
  "candidate_there user product c s \<longleftrightarrow> (\<forall>v. mca_sku c = Some v \<longrightarrow> sku_there user product (sku_id (skv_row v)) s)"

lemma place_candidate_active:
  assumes "place_candidate user product c sequence s = Inr ((k, sequence'), s')" and "candidate_there user product c s"
  shows "sku_active user product k s' \<and> sku_progress {} s s' \<and> products s' = products s \<and> matrix_requests s' = matrix_requests s"
proof (cases "mca_sku c")
  case (Some v)
  then have k: "k = sku_id (skv_row v)" and s': "s' = set_sku_status k ''active'' s"
    using assms(1) by (auto simp: place_candidate_def)
  have "sku_there user product k s" using assms(2) Some k by (simp add: candidate_there_def)
  then have "sku_active user product k s'" unfolding s' by (rule status_active)
  moreover have "sku_progress {} s s'" unfolding s' by (rule progress_status) simp
  ultimately show ?thesis by (simp add: s' set_sku_status_def)
next
  case None
  then obtain code where ins: "insert_sku user product code s = Inr (k, s')"
    using assms(1) by (auto simp: place_candidate_def and_then_eq_Inr)
  show ?thesis using inserted_active [OF ins] progress_inserted [OF ins] insert_sku_row [OF ins] by simp
qed

lemma apply_candidates_progress:
  "apply_candidates user product ids cs sequence first s = Inr (first', s') \<Longrightarrow>
   \<forall>c \<in> set cs. candidate_there user product c s \<Longrightarrow> first = 0 \<or> sku_active user product first s \<Longrightarrow>
   sku_progress {} s s' \<and> (first' = 0 \<or> sku_active user product first' s') \<and> products s' = products s \<and>
   matrix_requests s' = matrix_requests s"
proof (induction cs arbitrary: sequence first s)
  case Nil
  then show ?case by (simp add: progress_same)
next
  case (Cons c cs)
  from Cons.prems(1) obtain k sequence1 s1 s3 where
      placed: "place_candidate user product c sequence s = Inr ((k, sequence1), s1)" and
      links: "link_values user product k ids (mca_specifications c) (s1\<lparr>sku_links := filter (\<lambda>l. lnk_sku l \<noteq> k) (sku_links s1)\<rparr>) = Inr s3" and
      rest: "apply_candidates user product ids cs sequence1 (if first = 0 then k else first) s3 = Inr (first', s')"
    by (auto simp: and_then_eq_Inr Let_def)
  have one: "sku_active user product k s1" "sku_progress {} s s1" "products s1 = products s" "matrix_requests s1 = matrix_requests s"
    using place_candidate_active [OF placed] Cons.prems(2) by simp_all
  have three: "skus s3 = skus s1" "projects s3 = projects s1" "products s3 = products s1" "matrix_requests s3 = matrix_requests s1"
    using link_values_same [OF links] by simp_all
  then have progress: "sku_progress {} s s3" using one(2) progress_same progress_trans by metis
  have "\<forall>c \<in> set cs. candidate_there user product c s3"
    using Cons.prems(2) progress_with [OF progress] unfolding candidate_there_def by (metis list.set_intros(2))
  moreover have "(if first = 0 then k else first) = 0 \<or> sku_active user product (if first = 0 then k else first) s3"
    using Cons.prems(3) one(1) three(1) progress_with [OF progress, of "\<lambda>st. st = ''active''" user product first]
    by (auto simp: sku_with_def)
  ultimately have "sku_progress {} s3 s' \<and> (first' = 0 \<or> sku_active user product first' s') \<and> products s' = products s3 \<and>
      matrix_requests s' = matrix_requests s3"
    using Cons.IH [OF rest] by simp
  with progress one three show ?case using progress_trans by auto
qed

lemma move_defaults_same: "move_defaults user product disabled first s = Inr s' \<Longrightarrow>
   skus s' = skus s \<and> products s' = products s \<and> matrix_requests s' = matrix_requests s"
  by (auto simp: move_defaults_def Let_def split: if_splits)

lemma apply_preview_parts:
  assumes "apply_preview user product version dimensions preview s = Inr s'"
  obtains ids s1 s2 first where
    "apply_dimensions user product version 0 dimensions [] (disable_dimensions user product s) = Inr (ids, s1)" and
    "apply_candidates user product ids (mpv_keep preview @ mpv_add preview) 1 0
       (fold (\<lambda>k. set_sku_status k ''disabled'') (map mca_sku_id (mpv_disable preview)) s1) = Inr (first, s2)" and
    "move_defaults user product (map mca_sku_id (mpv_disable preview)) first s2 = Inr s'"
  using assms by (auto simp: apply_preview_def and_then_eq_Inr Let_def)

text \<open>
  After a preview of the same state is applied, only SKUs to disable may have become disabled, and
  the SKU that takes over the defaults is active.
\<close>

lemma apply_preview_progress:
  assumes "apply_preview user product version dimensions preview s = Inr s'"
    and preview: "preview_with_db user product normalized s = Inr preview"
  obtains first s2 where "sku_progress (mca_sku_id ` set (mpv_disable preview)) s s2" and
    "first = 0 \<or> sku_active user product first s2" and
    "move_defaults user product (map mca_sku_id (mpv_disable preview)) first s2 = Inr s'" and
    "products s' = products s" and "matrix_requests s' = matrix_requests s"
proof -
  let ?disabled = "map mca_sku_id (mpv_disable preview)"
  let ?D = "mca_sku_id ` set (mpv_disable preview)"
  obtain ids s1 s2 first where
      dims: "apply_dimensions user product version 0 dimensions [] (disable_dimensions user product s) = Inr (ids, s1)" and
      cands: "apply_candidates user product ids (mpv_keep preview @ mpv_add preview) 1 0
        (fold (\<lambda>k. set_sku_status k ''disabled'') ?disabled s1) = Inr (first, s2)" and
      moved: "move_defaults user product ?disabled first s2 = Inr s'"
    by (rule apply_preview_parts [OF assms(1)])
  let ?s = "fold (\<lambda>k. set_sku_status k ''disabled'') ?disabled s1"
  have dims_same: "skus s1 = skus s" "projects s1 = projects s" "products s1 = products s" "matrix_requests s1 = matrix_requests s"
    using apply_dimensions_same [OF dims] by (simp_all add: disable_dimensions_def)
  have "products (fold (\<lambda>k. set_sku_status k ''disabled'') ks t) = products t \<and>
      matrix_requests (fold (\<lambda>k. set_sku_status k ''disabled'') ks t) = matrix_requests t" for ks t
    by (induction ks arbitrary: t) (simp_all add: set_sku_status_def)
  note fold_same = this [of ?disabled s1]
  have progress: "sku_progress ?D s ?s"
    by (rule progress_trans [OF progress_same [OF dims_same(1,2)] progress_disabled]) simp
  have there: "\<forall>c \<in> set (mpv_keep preview @ mpv_add preview). candidate_there user product c ?s"
  proof
    fix c assume c: "c \<in> set (mpv_keep preview @ mpv_add preview)"
    show "candidate_there user product c ?s"
    proof (cases "c \<in> set (mpv_add preview)")
      case True
      then show ?thesis using preview_added [OF preview] by (simp add: candidate_there_def)
    next
      case False
      then have "c \<in> set (mpv_keep preview) \<union> set (mpv_disable preview)" using c by simp
      then obtain k where k: "k \<in> set (skus s)" "sku_user k = user" "sku_product k = product" "sku_deleted_at k = None"
          "mca_sku c = Some (sku_view_of user product s k)"
        by (rule preview_existing [OF preview])
      then have "sku_there user product (sku_id k) s" by (auto simp: sku_with_def)
      then have "sku_there user product (sku_id k) ?s" by (rule progress_with [OF progress]) simp_all
      then show ?thesis by (simp add: candidate_there_def k(5) sku_view_of_def)
    qed
  qed
  have placed: "sku_progress {} ?s s2" "first = 0 \<or> sku_active user product first s2" "products s2 = products ?s"
      "matrix_requests s2 = matrix_requests ?s"
    using apply_candidates_progress [OF cands there] by simp_all
  have "sku_progress ?D ?s s2" using placed(1) unfolding sku_progress_def by blast
  then have "sku_progress ?D s s2" by (rule progress_trans [OF progress])
  then show thesis
    by (rule that [OF _ placed(2) moved]) (use move_defaults_same [OF moved] placed dims_same fold_same in simp_all)
qed

section \<open>Default SKUs\<close>

definition defaults_ok :: "commerce_db \<Rightarrow> bool" where
  "defaults_ok s \<longleftrightarrow> distinct (map sku_id (skus s)) \<and> distinct (map prj_id (projects s)) \<and>
     (\<forall>p \<in> set (projects s). prj_deleted_at p = None \<longrightarrow>
        (\<forall>k. prj_default_sku p = Some k \<longrightarrow> sku_usable (prj_user p) (prj_product p) k s))"

lemma defaults_ok_default:
  "defaults_ok s \<Longrightarrow> p \<in> set (projects s) \<Longrightarrow> prj_deleted_at p = None \<Longrightarrow> prj_default_sku p = Some k \<Longrightarrow>
   sku_usable (prj_user p) (prj_product p) k s"
  unfolding defaults_ok_def by blast

lemma defaults_ok_same: "skus s' = skus s \<Longrightarrow> projects s' = projects s \<Longrightarrow> defaults_ok s' = defaults_ok s"
  by (simp add: defaults_ok_def sku_with_def)

lemma disabled_belongs:
  assumes "preview_with_db user product normalized s = Inr preview" and "k \<in> mca_sku_id ` set (mpv_disable preview)"
  shows "sku_there user product k s"
proof -
  obtain e where e: "e \<in> set (mpv_keep preview) \<union> set (mpv_disable preview)" "k = mca_sku_id e" using assms(2) by blast
  obtain x where "x \<in> set (skus s)" "sku_user x = user" "sku_product x = product" "sku_deleted_at x = None" "mca_sku_id e = sku_id x"
    by (rule preview_existing [OF assms(1) e(1)])
  then show ?thesis by (auto simp: sku_with_def e(2))
qed

text \<open>With distinct identifiers, a SKU belongs to one user and product.\<close>

lemma sku_with_unique:
  assumes "distinct (map sku_id (skus s))" and "sku_with P user product k s" and "sku_with Q user' product' k s"
  shows "user' = user \<and> product' = product"
proof -
  from assms(2,3) obtain x y where "x \<in> set (skus s)" "sku_id x = k" "sku_user x = user" "sku_product x = product"
      "y \<in> set (skus s)" "sku_id y = k" "sku_user y = user'" "sku_product y = product'"
    by (auto simp: sku_with_def)
  moreover from this have "x = y" using assms(1) unfolding distinct_map inj_on_def by metis
  ultimately show ?thesis by simp
qed

lemma move_defaults_ok:
  assumes "move_defaults user product disabled first s2 = Inr s'" and "first = 0 \<or> sku_active user product first s2"
    and ids: "distinct (map sku_id (skus s2))" "distinct (map prj_id (projects s2))"
    and usable: "\<And>p k. p \<in> set (projects s2) \<Longrightarrow> prj_deleted_at p = None \<Longrightarrow> prj_default_sku p = Some k \<Longrightarrow>
      k \<in> set disabled \<and> prj_user p = user \<and> prj_product p = product \<or> sku_usable (prj_user p) (prj_product p) k s2"
  shows "defaults_ok s'"
proof -
  let ?hit = "\<lambda>p. prj_user p = user \<and> prj_product p = product \<and> prj_deleted_at p = None \<and>
     (\<exists>k \<in> set disabled. prj_default_sku p = Some k)"
  let ?move = "\<lambda>p. p\<lparr>prj_default_sku := Some first, prj_updated_at := clock s2\<rparr>"
  show ?thesis
  proof (cases "count_where ?hit (projects s2) = 0")
    case True
    then have "s' = s2" using assms(1) by (simp add: move_defaults_def)
    moreover have "\<not> ?hit p" if "p \<in> set (projects s2)" for p using True that by (simp add: count_where_0)
    ultimately show ?thesis using ids usable unfolding defaults_ok_def by blast
  next
    case False
    then have first: "first \<noteq> 0" and s': "s' = s2\<lparr>projects := update_where ?hit ?move (projects s2)\<rparr>"
      using assms(1) by (auto simp: move_defaults_def Let_def split: if_splits)
    have active: "sku_usable user product first s2" using assms(2) first usable_active by blast
    have "sku_usable (prj_user q) (prj_product q) k s'"
      if q: "q \<in> set (projects s')" "prj_deleted_at q = None" "prj_default_sku q = Some k" for q k
    proof -
      obtain p where p: "p \<in> set (projects s2)" "q = (if ?hit p then ?move p else p)"
        using q(1) unfolding s' by (auto simp: set_update_where)
      show ?thesis
      proof (cases "?hit p")
        case True
        then show ?thesis using active p(2) q(3) by (auto simp: sku_with_def s')
      next
        case False
        then have "q = p" using p(2) by (simp only: if_False)
        then have "sku_usable (prj_user q) (prj_product q) k s2" using usable [of q k] p(1) q(2,3) False by blast
        then show ?thesis by (simp add: sku_with_def s')
      qed
    qed
    moreover have "skus s' = skus s2" "map prj_id (projects s') = map prj_id (projects s2)" by (simp_all add: s' map_update_where)
    ultimately show ?thesis using ids unfolding defaults_ok_def by simp
  qed
qed

lemma apply_preview_defaults:
  assumes "apply_preview user product version dimensions preview s = Inr s'"
    and preview: "preview_with_db user product normalized s = Inr preview" and ok: "defaults_ok s"
  shows "defaults_ok s'"
proof -
  obtain first s2 where progress: "sku_progress (mca_sku_id ` set (mpv_disable preview)) s s2" and
      active: "first = 0 \<or> sku_active user product first s2" and
      moved: "move_defaults user product (map mca_sku_id (mpv_disable preview)) first s2 = Inr s'"
    by (rule apply_preview_progress [OF assms(1) preview])
  have ids: "distinct (map sku_id (skus s2))" "distinct (map prj_id (projects s2))" and same: "projects s2 = projects s"
    using progress ok by (auto simp: sku_progress_def defaults_ok_def)
  show ?thesis
  proof (rule move_defaults_ok [OF moved active ids])
    fix p k assume p: "p \<in> set (projects s2)" "prj_deleted_at p = None" "prj_default_sku p = Some k"
    then have usable: "sku_usable (prj_user p) (prj_product p) k s" using defaults_ok_default [OF ok] same by simp
    show "k \<in> set (map mca_sku_id (mpv_disable preview)) \<and> prj_user p = user \<and> prj_product p = product \<or>
        sku_usable (prj_user p) (prj_product p) k s2"
    proof (cases "k \<in> mca_sku_id ` set (mpv_disable preview)")
      case True
      then show ?thesis
        using sku_with_unique [OF _ disabled_belongs [OF preview True] usable] ok by (simp add: defaults_ok_def)
    next
      case False
      then show ?thesis using progress_with [OF progress usable] by simp
    qed
  qed
qed

lemma apply_claimed_obtain:
  assumes "apply_claimed user product expected normalized s = Inr (config, s')"
  obtains s1 preview where "claim_version user product expected s = Inr s1" and
    "preview_with_db user product normalized s1 = Inr preview" and "mpv_conflicts preview = []" and
    "apply_preview user product (expected + 1) (smi_dimensions normalized) preview s1 = Inr s'" and
    "get_sku_config user product s' = Inr config"
proof -
  from assms obtain s1 preview where "claim_version user product expected s = Inr s1"
      "preview_with_db user product normalized s1 = Inr preview"
      and rest: "(if mpv_conflicts preview \<noteq> [] then Inl ErrConflict
     else and_then (apply_preview user product (expected + 1) (smi_dimensions normalized) preview s1) (\<lambda>s2.
       and_then (get_sku_config user product s2) (\<lambda>config. Inr (config, s2)))) = Inr (config, s')"
    unfolding apply_claimed_def and_then_eq_Inr by blast
  moreover from rest have "mpv_conflicts preview = []" by (simp split: if_splits)
  moreover from rest this have "apply_preview user product (expected + 1) (smi_dimensions normalized) preview s1 = Inr s'"
    and "get_sku_config user product s' = Inr config" by (auto simp: and_then_eq_Inr)
  ultimately show thesis using that by blast
qed

lemma claim_version_same: "claim_version user product expected s = Inr s1 \<Longrightarrow>
   skus s1 = skus s \<and> projects s1 = projects s \<and> matrix_requests s1 = matrix_requests s"
  by (auto simp: claim_version_def Let_def split: if_splits)

lemma apply_claimed_defaults:
  assumes "apply_claimed user product expected normalized s = Inr (config, s')" and "defaults_ok s"
  shows "defaults_ok s' \<and> matrix_requests s' = matrix_requests s"
proof -
  obtain s1 preview where one: "claim_version user product expected s = Inr s1" and
      preview: "preview_with_db user product normalized s1 = Inr preview" and
      applied: "apply_preview user product (expected + 1) (smi_dimensions normalized) preview s1 = Inr s'"
    by (rule apply_claimed_obtain [OF assms(1)])
  have same: "skus s1 = skus s" "projects s1 = projects s" "matrix_requests s1 = matrix_requests s"
    using claim_version_same [OF one] by simp_all
  have "defaults_ok s1" using assms(2) by (simp only: defaults_ok_same [OF same(1,2)])
  then have "defaults_ok s'" by (rule apply_preview_defaults [OF applied preview])
  moreover have "matrix_requests s' = matrix_requests s1"
    by (rule apply_preview_progress [OF applied preview])
  ultimately show ?thesis by (simp only: same simp_thms)
qed

end
