(* ===== verification/MatrixClaims.thy ===== *)
theory MatrixClaims
  imports MatrixFacts Demo
begin

text \<open>
  Properties of the catalogue and of SKU matrices: projects keep a default SKU they may use, a
  preview splits what is wanted from what is there, and an applied request replays.
\<close>

section \<open>Steps of the catalogue\<close>















lemma apply_tx_new:
  assumes "apply_sku_matrix_tx c user product key expected normalized s = Inr (config, s')"
    and "first_where (matrix_request_of user product key) (matrix_requests s) = None"
  obtains r s1 response where "r = \<lparr>mrq_id = next_key mrq_id (matrix_requests s), mrq_user = user, mrq_product = product,
                  mrq_idempotency_key = key, mrq_request_digest = xc_digest c normalized, mrq_response = ''''\<rparr>" and
    "apply_claimed user product expected normalized (s\<lparr>matrix_requests := matrix_requests s @ [r]\<rparr>) = Inr (config, s1)" and
    "xc_encode c config = Some response" and
    "s' = s1\<lparr>matrix_requests := update_where (\<lambda>x. mrq_id x = mrq_id r) (\<lambda>x. x\<lparr>mrq_response := response\<rparr>) (matrix_requests s1)\<rparr>"
proof -
  let ?r = "\<lparr>mrq_id = next_key mrq_id (matrix_requests s), mrq_user = user, mrq_product = product,
                  mrq_idempotency_key = key, mrq_request_digest = xc_digest c normalized, mrq_response = ''''\<rparr>"
  from assms obtain config1 s1 where claimed:
      "apply_claimed user product expected normalized (s\<lparr>matrix_requests := matrix_requests s @ [?r]\<rparr>) = Inr (config1, s1)" and
      rest: "(case xc_encode c config1 of
           None \<Rightarrow> Inl ErrDecode
         | Some response \<Rightarrow> Inr (config1, s1\<lparr>matrix_requests := update_where (\<lambda>x. mrq_id x = mrq_id ?r)
             (\<lambda>x. x\<lparr>mrq_response := response\<rparr>) (matrix_requests s1)\<rparr>)) = Inr (config, s')"
    by (auto simp: apply_sku_matrix_tx_def and_then_eq_Inr Let_def simp del: commerce_sku_matrix_request.simps)
  from rest obtain response where "xc_encode c config1 = Some response" "config1 = config"
      "s' = s1\<lparr>matrix_requests := update_where (\<lambda>x. mrq_id x = mrq_id ?r) (\<lambda>x. x\<lparr>mrq_response := response\<rparr>) (matrix_requests s1)\<rparr>"
    by (simp split: option.splits)
  then show thesis using that [OF refl] claimed by simp
qed

lemma apply_matrix_cases:
  assumes "apply_sku_matrix c user product key input s = (res, s')"
  obtains "s' = s" and "\<exists>e. res = Inl e"
  | normalized config where "trim_space key \<noteq> []" and "normalize_matrix input = Inr normalized" and
      "apply_sku_matrix_tx c user product (trim_space key) (smi_expected_version input) normalized s = Inr (config, s')" and
      "res = Inr config"
  using assms by (auto simp: apply_sku_matrix_def run_tx_def Let_def split: if_splits sum.splits)

text \<open>What a replayed request does: it answers, and changes nothing.\<close>

lemma apply_tx_replayed:
  assumes "apply_sku_matrix_tx c user product key expected normalized s = Inr (config, s')"
    and "first_where (matrix_request_of user product key) (matrix_requests s) = Some r"
  shows "s' = s \<and> mrq_request_digest r = xc_digest c normalized \<and> mrq_response r \<noteq> [] \<and> xc_decode c (mrq_response r) = Some config"
  using assms by (auto simp: apply_sku_matrix_tx_def and_then_eq_Inr split: if_splits option.splits)









section \<open>Replays\<close>

text \<open>After a request has been applied, its record answers for it.\<close>

lemma apply_tx_stored:
  assumes codec: "\<And>config response. xc_encode c config = Some response \<Longrightarrow> xc_decode c response = Some config \<and> response \<noteq> []"
    and applied: "apply_sku_matrix_tx c user product key expected normalized s = Inr (config, s')"
  obtains r p where "first_where (matrix_request_of user product key) (matrix_requests s') = Some r" and
    "mrq_request_digest r = xc_digest c normalized" and "mrq_response r \<noteq> []" and
    "xc_decode c (mrq_response r) = Some config" and "owned_product user product s' = Inr p"
proof (cases "first_where (matrix_request_of user product key) (matrix_requests s)")
  case (Some r)
  have "s' = s" using apply_tx_replayed [OF applied Some] by simp
  moreover obtain p where "owned_product user product s = Inr p"
    using applied by (auto simp: apply_sku_matrix_tx_def and_then_eq_Inr)
  ultimately show thesis using that [of r p] Some apply_tx_replayed [OF applied Some] by simp
next
  case None
  obtain r s1 response where r: "r = \<lparr>mrq_id = next_key mrq_id (matrix_requests s), mrq_user = user, mrq_product = product,
                  mrq_idempotency_key = key, mrq_request_digest = xc_digest c normalized, mrq_response = ''''\<rparr>" and
      claimed: "apply_claimed user product expected normalized (s\<lparr>matrix_requests := matrix_requests s @ [r]\<rparr>) = Inr (config, s1)" and
      response: "xc_encode c config = Some response" and
      s': "s' = s1\<lparr>matrix_requests := update_where (\<lambda>x. mrq_id x = mrq_id r) (\<lambda>x. x\<lparr>mrq_response := response\<rparr>) (matrix_requests s1)\<rparr>"
    by (rule apply_tx_new [OF applied None])
  let ?r = "r\<lparr>mrq_response := response\<rparr>"
  obtain t preview where "claim_version user product expected (s\<lparr>matrix_requests := matrix_requests s @ [r]\<rparr>) = Inr t"
      "preview_with_db user product normalized t = Inr preview" "mpv_conflicts preview = []"
      "apply_preview user product (expected + 1) (smi_dimensions normalized) preview t = Inr s1" and
      config: "get_sku_config user product s1 = Inr config"
    by (rule apply_claimed_obtain [OF claimed])
  have "matrix_requests s1 = matrix_requests t"
    by (rule apply_preview_progress [OF \<open>apply_preview _ _ _ _ _ _ = _\<close> \<open>preview_with_db _ _ _ _ = _\<close>])
  then have "matrix_requests s1 = matrix_requests s @ [r]"
    using claim_version_same [OF \<open>claim_version _ _ _ _ = _\<close>] by simp
  moreover have "mrq_id x \<noteq> mrq_id r" if "x \<in> set (matrix_requests s)" for x
    using next_key_fresh [OF that, of mrq_id] by (simp add: r)
  ultimately have "matrix_requests s' = matrix_requests s @ [?r]" by (simp add: s')
  then have first: "first_where (matrix_request_of user product key) (matrix_requests s') = Some ?r"
    using None by (simp add: first_where_append first_where_single matrix_request_of_def r)
  obtain p where "owned_product user product s1 = Inr p"
    using config by (auto simp: get_sku_config_def and_then_eq_Inr)
  then have "owned_product user product s' = Inr p" by (simp add: s' owned_product_def)
  then show thesis using that [OF first] codec [OF response] by (simp add: r)
qed

lemma stored_answers:
  assumes "first_where (matrix_request_of user product (trim_space key)) (matrix_requests s) = Some r"
    and "owned_product user product s = Inr p" and "mrq_response r \<noteq> []" and "xc_decode c (mrq_response r) = Some config"
    and "trim_space key \<noteq> []" and "normalize_matrix input = Inr normalized"
  shows "apply_sku_matrix c user product key input s =
    (if mrq_request_digest r = xc_digest c normalized then Inr config else Inl ErrIdempotencyConflict, s)"
  using assms by (simp add: apply_sku_matrix_def apply_sku_matrix_tx_def run_tx_def)

section \<open>Generated codes\<close>

lemma free_code_taken:
  "free_sku_code fuel product n s = None \<Longrightarrow> \<forall>i < fuel. sku_code_taken product (generated_code product (n + i)) None s"
proof (induction fuel arbitrary: n)
  case (Suc fuel)
  then have taken: "sku_code_taken product (generated_code product n) None s" and
      rest: "free_sku_code fuel product (n + 1) s = None" by (simp_all split: if_splits)
  show ?case
  proof (intro allI impI)
    fix i assume "i < Suc fuel"
    then show "sku_code_taken product (generated_code product (n + i)) None s"
      using taken Suc.IH [OF rest] by (cases i) simp_all
  qed
qed simp

lemma free_code_free: "free_sku_code fuel product n s = Some (code, m) \<Longrightarrow> \<not> sku_code_taken product code None s"
  by (induction fuel arbitrary: n) (auto split: if_splits)

lemma generated_code_inject: "generated_code product n = generated_code product m \<longleftrightarrow> n = m"
  by (simp add: generated_code_def)

lemma enough_codes: "free_sku_code (Suc (length (skus s))) product n s \<noteq> None"
proof
  assume none: "free_sku_code (Suc (length (skus s))) product n s = None"
  let ?codes = "(\<lambda>i. generated_code product (n + i)) ` {..< Suc (length (skus s))}"
  have "?codes \<subseteq> sku_code ` set (skus s)"
  proof
    fix code assume "code \<in> ?codes"
    then have "sku_code_taken product code None s" using free_code_taken [OF none] by auto
    then show "code \<in> sku_code ` set (skus s)"
      unfolding sku_code_taken_def using count_where_0 [of _ "skus s"] by (metis (mono_tags, lifting) image_eqI not_gr_zero)
  qed
  then have "card ?codes \<le> card (sku_code ` set (skus s))" by (intro card_mono) simp_all
  moreover have "card ?codes = Suc (length (skus s))"
    by (subst card_image) (auto simp: inj_on_def generated_code_inject)
  moreover have "card (sku_code ` set (skus s)) \<le> length (skus s)"
    using card_image_le [of "set (skus s)" sku_code] card_length [of "skus s"] by simp
  ultimately show False by simp
qed

section \<open>Properties\<close>



text \<open>
  Provided that the codec reads what it writes, a matrix request that was applied answers the
  same when it is sent again and changes nothing, and refuses another matrix under its key.
\<close>
theorem matrix_request_replays:
  assumes "\<And>config response. xc_encode c config = Some response \<Longrightarrow> xc_decode c response = Some config \<and> response \<noteq> []"
    and "apply_sku_matrix c user product key input s = (Inr config, s')"
  shows "apply_sku_matrix c user product key input s' = (Inr config, s') \<and>
    (\<forall>other n n'. normalize_matrix input = Inr n \<and> normalize_matrix other = Inr n' \<and> xc_digest c n' \<noteq> xc_digest c n \<longrightarrow>
       apply_sku_matrix c user product key other s' = (Inl ErrIdempotencyConflict, s'))"
proof -
  from assms(2) obtain normalized where key: "trim_space key \<noteq> []" and normal: "normalize_matrix input = Inr normalized" and
      tx: "apply_sku_matrix_tx c user product (trim_space key) (smi_expected_version input) normalized s = Inr (config, s')"
    by (rule apply_matrix_cases) auto
  obtain r p where stored: "first_where (matrix_request_of user product (trim_space key)) (matrix_requests s') = Some r"
      "mrq_request_digest r = xc_digest c normalized" "mrq_response r \<noteq> []" "xc_decode c (mrq_response r) = Some config"
      "owned_product user product s' = Inr p"
    by (rule apply_tx_stored [OF assms(1) tx])
  note answers = stored_answers [OF stored(1,5,3,4) key]
  have "apply_sku_matrix c user product key input s' = (Inr config, s')"
    using answers [OF normal] stored(2) by simp
  moreover have "apply_sku_matrix c user product key other s' = (Inl ErrIdempotencyConflict, s')"
    if "normalize_matrix input = Inr n" "normalize_matrix other = Inr n'" "xc_digest c n' \<noteq> xc_digest c n" for other n n'
    using answers [OF that(2)] stored(2) normal that(1,3) by simp
  ultimately show ?thesis by blast
qed

text \<open>
  The search for a free SKU code ends within one more attempt than there are SKUs, with a
  code no SKU of the product has.
\<close>
theorem generated_code_found:
  "\<exists>code next. free_sku_code (Suc (length (skus s))) product n s = Some (code, next) \<and> \<not> sku_code_taken product code None s"
proof -
  obtain code m where "free_sku_code (Suc (length (skus s))) product n s = Some (code, m)"
    using enough_codes [of s product n] by (cases "free_sku_code (Suc (length (skus s))) product n s") auto
  then show ?thesis using free_code_free by blast
qed

section \<open>Witnesses\<close>

text \<open>A product whose only SKU is the default of a project, and a matrix of one dimension with two values.\<close>

definition demo_sku :: commerce_sku where
  "demo_sku = \<lparr>sku_id = 1, sku_user = 7, sku_product = 2, sku_code = ''A'', sku_color = '''', sku_style = '''', sku_size = '''',
     sku_attributes = ''{}'', sku_status = ''active'', sku_deleted_at = None\<rparr>"

definition demo_catalog :: commerce_db where
  "demo_catalog = demo_db\<lparr>skus := [demo_sku], projects := [demo_project\<lparr>prj_default_sku := Some 1\<rparr>],
     products := [\<lparr>prd_id = 2, prd_user = 7, prd_brand = None, prd_category_id = None, prd_name = ''Bag'', prd_category = '''',
       prd_category_source = '''', prd_category_path = '''', prd_spu_code = '''', prd_selling_points = ''[]'',
       prd_target_channels = ''[]'', prd_status = ''active'', prd_sku_version = 0, prd_deleted_at = None\<rparr>]\<rparr>"

definition demo_value :: "string \<Rightarrow> string \<Rightarrow> sku_value_input" where
  "demo_value name code = \<lparr>svi_id = 0, svi_name = name, svi_code = code, svi_status = '''', svi_sort_order = 0\<rparr>"

definition demo_matrix :: sku_matrix_input where
  "demo_matrix = \<lparr>smi_expected_version = 0, smi_dimensions = [\<lparr>sdi_id = 0, sdi_name = ''C'', sdi_status = '''', sdi_sort_order = 0,
     sdi_values = [demo_value ''R'' ''r'', demo_value ''G'' '''']\<rparr>]\<rparr>"

definition demo_normal :: sku_matrix_input where
  "demo_normal = \<lparr>smi_expected_version = 0, smi_dimensions = [\<lparr>sdi_id = 0, sdi_name = ''C'', sdi_status = ''active'', sdi_sort_order = 0,
     sdi_values = [demo_value ''R'' ''r'', (demo_value ''G'' '''')\<lparr>svi_sort_order := 1\<rparr>]\<rparr>]\<rparr>"

lemma demo_matrix_trims [simp]: "trim_space ''C'' = ''C''" "trim_space ''R'' = ''R''" "trim_space ''r'' = ''r''" "trim_space ''G'' = ''G''"
    "trim_space ''k'' = ''k''"
  by (rule trim_space_literal; simp add: literal_bytes_def)+

lemma demo_normalized: "normalize_matrix demo_matrix = Inr demo_normal" "normalize_matrix demo_normal = Inr demo_normal"
  by (simp_all add: demo_matrix_def demo_normal_def demo_value_def normalize_matrix_def combinations_def)

definition demo_previewed :: matrix_preview where
  "demo_previewed = \<lparr>mpv_version = 0, mpv_add = candidates (smi_dimensions demo_normal), mpv_keep = [], mpv_conflicts = [],
     mpv_disable = existing_candidates 7 2 demo_catalog\<rparr>"



text \<open>The application of the matrix, step by step.\<close>

definition demo_request :: commerce_sku_matrix_request where
  "demo_request = \<lparr>mrq_id = 1, mrq_user = 7, mrq_product = 2, mrq_idempotency_key = ''k'', mrq_request_digest = ''d'', mrq_response = ''''\<rparr>"

definition demo_version :: commerce_db where
  "demo_version = demo_catalog\<lparr>matrix_requests := [demo_request],
     products := map (\<lambda>p. p\<lparr>prd_sku_version := 1\<rparr>) (products demo_catalog)\<rparr>"

definition demo_applied :: commerce_db where
  "demo_applied = projr (apply_preview 7 2 1 (smi_dimensions demo_normal) (demo_previewed\<lparr>mpv_version := 1\<rparr>) demo_version)"

definition demo_config :: sku_config where
  "demo_config = projr (get_sku_config 7 2 demo_applied)"

lemma demo_matrix_claim: "claim_version 7 2 0 (demo_catalog\<lparr>matrix_requests := [demo_request]\<rparr>) = Inr demo_version"
  by (simp add: claim_version_def own_product_def demo_version_def demo_catalog_def Let_def)

lemma demo_preview_again: "preview_with_db 7 2 demo_normal demo_version = Inr (demo_previewed\<lparr>mpv_version := 1\<rparr>)"
  unfolding preview_with_db_def demo_normalized demo_previewed_def by code_simp

lemma demo_apply:
  "apply_preview 7 2 1 (smi_dimensions demo_normal) (demo_previewed\<lparr>mpv_version := 1\<rparr>) demo_version = Inr demo_applied"
proof -
  have "\<not> isl (apply_preview 7 2 1 (smi_dimensions demo_normal) (demo_previewed\<lparr>mpv_version := 1\<rparr>) demo_version)" by code_simp
  then show ?thesis unfolding demo_applied_def by simp
qed

lemma demo_shown: "get_sku_config 7 2 demo_applied = Inr demo_config"
proof -
  have "\<not> isl (get_sku_config 7 2 demo_applied)" by code_simp
  then show ?thesis unfolding demo_config_def by simp
qed


definition demo_codec :: matrix_codec where
  "demo_codec = \<lparr>xc_digest = (\<lambda>i. if length (smi_dimensions i) = 1 then ''d'' else ''e''),
     xc_encode = (\<lambda>config. if config = demo_config then Some ''c'' else None), xc_decode = (\<lambda>_. Some demo_config)\<rparr>"

definition demo_final :: commerce_db where
  "demo_final = demo_applied\<lparr>matrix_requests := [demo_request\<lparr>mrq_response := ''c''\<rparr>]\<rparr>"

lemma demo_claimed: "apply_claimed 7 2 0 demo_normal (demo_catalog\<lparr>matrix_requests := [demo_request]\<rparr>) = Inr (demo_config, demo_applied)"
  by (simp add: apply_claimed_def demo_matrix_claim demo_preview_again demo_apply demo_shown demo_previewed_def [THEN arg_cong [of _ _ mpv_conflicts]])

lemma demo_transaction: "apply_sku_matrix demo_codec 7 2 ''k'' demo_matrix demo_catalog = (Inr demo_config, demo_final)"
proof -
  have owned: "\<exists>p. owned_product 7 2 demo_catalog = Inr p"
    by (simp add: owned_product_def demo_catalog_def first_where_def)
  have requests: "matrix_requests demo_catalog = []" "matrix_requests demo_applied = [demo_request]"
    by (simp add: demo_catalog_def demo_db_def) code_simp
  have digest: "xc_digest demo_codec demo_normal = ''d''" by (simp add: demo_codec_def demo_normal_def)
  have request: "\<lparr>mrq_id = next_key mrq_id ([] :: commerce_sku_matrix_request list), mrq_user = 7, mrq_product = 2,
      mrq_idempotency_key = ''k'', mrq_request_digest = ''d'', mrq_response = ''''\<rparr> = demo_request"
    by (simp add: demo_request_def next_key_def)
  have encoded: "xc_encode demo_codec demo_config = Some ''c''" by (simp add: demo_codec_def)
  obtain p where "owned_product 7 2 demo_catalog = Inr p" using owned by blast
  then have "apply_sku_matrix_tx demo_codec 7 2 ''k'' 0 demo_normal demo_catalog = Inr (demo_config, demo_final)"
    unfolding apply_sku_matrix_tx_def Let_def requests digest request
    by (simp add: first_where_def demo_claimed encoded requests demo_final_def)
  moreover have "smi_expected_version demo_matrix = 0" by (simp add: demo_matrix_def)
  ultimately show ?thesis by (simp add: apply_sku_matrix_def demo_normalized run_tx_def)
qed




theorem matrix_request_replays_witness:
  "apply_sku_matrix demo_codec 7 2 ''k'' demo_matrix demo_final = (Inr demo_config, demo_final) \<and>
   apply_sku_matrix demo_codec 7 2 ''k'' \<lparr>smi_expected_version = 0, smi_dimensions = []\<rparr> demo_final =
     (Inl ErrIdempotencyConflict, demo_final)"
proof -
  have codec: "xc_decode demo_codec response = Some config \<and> response \<noteq> []" if "xc_encode demo_codec config = Some response" for config response
    using that by (auto simp: demo_codec_def split: if_splits)
  have empty: "normalize_matrix \<lparr>smi_expected_version = 0, smi_dimensions = []\<rparr> = Inr \<lparr>smi_expected_version = 0, smi_dimensions = []\<rparr>"
    by (simp add: normalize_matrix_def combinations_def)
  have "xc_digest demo_codec \<lparr>smi_expected_version = 0, smi_dimensions = []\<rparr> \<noteq> xc_digest demo_codec demo_normal"
    by (simp add: demo_codec_def demo_normal_def)
  then show ?thesis using matrix_request_replays [OF codec demo_transaction] demo_normalized(1) empty by blast
qed

end
