(* ===== verification/Amounts.thy ===== *)
theory Amounts
  imports Backoff
begin

text \<open>
  Payment amounts as text (\<^verbatim>\<open>alipay_handlers.go\<close>): \<^verbatim>\<open>formatAlipayAmount\<close> and
  \<^verbatim>\<open>parseAlipayAmountCents\<close>, with the part of Go's library they use: the syntax of
  \<^verbatim>\<open>strconv.ParseFloat\<close>, the \<^verbatim>\<open>float64\<close> nearest to a rational, \<^verbatim>\<open>math.Round\<close>
  and the conversion to \<^verbatim>\<open>int64\<close>. The lemmas show that an amount that was printed is
  read back, whatever the two roundings in between do.
\<close>

section \<open>Double precision numbers\<close>

text \<open>The sign of a zero is not kept: nothing here depends on it.\<close>

datatype float64 = Finite rat | Infinite bool | NotANumber

definition two_power :: "int \<Rightarrow> rat" where
  "two_power k = (if 0 \<le> k then 2 ^ nat k else 1 / 2 ^ nat (- k))"

text \<open>The exponent of the binary point of a positive number.\<close>

definition float64_exponent :: "rat \<Rightarrow> int" where
  "float64_exponent x =
     (if 1 \<le> x then int (ilog2 (nat \<lfloor>x\<rfloor>))
      else let n = nat \<lceil>1 / x\<rceil> in if n \<le> 1 then 0 else - int (Suc (ilog2 (n - 1))))"

text \<open>Round to nearest, ties to even, with gradual underflow.\<close>

definition float64_of_rat :: "rat \<Rightarrow> float64" where
  "float64_of_rat x =
     (if x = 0 then Finite 0
      else let q = two_power (max (float64_exponent \<bar>x\<bar> - 52) (- 1074));
               y = of_int (round_half_even (\<bar>x\<bar> / q)) * q
           in if 2 ^ 1024 \<le> y then Infinite (x < 0) else Finite (if x < 0 then - y else y))"

fun times_100 :: "float64 \<Rightarrow> float64" where
  "times_100 (Finite x) = float64_of_rat (x * 100)"
| "times_100 (Infinite neg) = Infinite neg"
| "times_100 NotANumber = NotANumber"

text \<open>\<^verbatim>\<open>math.Round\<close>: half away from zero.\<close>

definition round_half_away :: "rat \<Rightarrow> int" where
  "round_half_away x = (if 0 \<le> x then \<lfloor>x + 1 / 2\<rfloor> else - \<lfloor>1 / 2 - x\<rfloor>)"

text \<open>
  \<^verbatim>\<open>int64(math.Round(f))\<close>. Go leaves the conversion of a value out of range to the
  implementation: on the 64-bit x86 it is the least integer.
\<close>

fun rounded_int64 :: "float64 \<Rightarrow> int" where
  "rounded_int64 (Finite x) =
     (let n = round_half_away x in if - (2 ^ 63) \<le> n \<and> n < 2 ^ 63 then n else - (2 ^ 63))"
| "rounded_int64 _ = - (2 ^ 63)"

section \<open>The syntax of a number\<close>

abbreviation byte_of :: "char \<Rightarrow> nat" where "byte_of \<equiv> of_char"

definition lower_char :: "char \<Rightarrow> char" where
  "lower_char c = (if 65 \<le> byte_of c \<and> byte_of c \<le> 90 then char_of (byte_of c + 32) else c)"

definition digit_value :: "nat \<Rightarrow> char \<Rightarrow> nat option" where
  "digit_value base c =
     (if 48 \<le> byte_of c \<and> byte_of c \<le> 57 then Some (byte_of c - 48)
      else if base = 16 \<and> 97 \<le> byte_of (lower_char c) \<and> byte_of (lower_char c) \<le> 102
        then Some (byte_of (lower_char c) - 87)
      else None)"

text \<open>
  The mantissa: the digits read as one number, how many of them stood after the point,
  whether there was a digit at all, and the rest of the text. Underscores are skipped.
\<close>

fun read_mantissa :: "nat \<Rightarrow> string \<Rightarrow> nat \<Rightarrow> nat \<Rightarrow> bool \<Rightarrow> bool \<Rightarrow> nat \<times> nat \<times> bool \<times> string" where
  "read_mantissa base [] m places dot digits = (m, places, digits, [])"
| "read_mantissa base (c # cs) m places dot digits =
     (if c = CHR ''_'' then read_mantissa base cs m places dot digits
      else if c = CHR ''.'' then
        (if dot then (m, places, digits, c # cs) else read_mantissa base cs m places True digits)
      else case digit_value base c of
        Some d \<Rightarrow> read_mantissa base cs (m * base + d) (if dot then Suc places else places) dot True
      | None \<Rightarrow> (m, places, digits, c # cs))"

fun read_exponent_digits :: "string \<Rightarrow> nat \<Rightarrow> nat \<times> string" where
  "read_exponent_digits [] e = (e, [])"
| "read_exponent_digits (c # cs) e =
     (if c = CHR ''_'' then read_exponent_digits cs e
      else case digit_value 10 c of
        Some d \<Rightarrow> read_exponent_digits cs (if e < 10000 then e * 10 + d else e)
      | None \<Rightarrow> (e, c # cs))"

definition split_sign :: "string \<Rightarrow> bool \<times> string" where
  "split_sign s = (case s of
       c # cs \<Rightarrow> if c = CHR ''-'' then (True, cs) else if c = CHR ''+'' then (False, cs) else (False, s)
     | [] \<Rightarrow> (False, s))"

definition read_exponent :: "string \<Rightarrow> (int \<times> string) option" where
  "read_exponent s =
     (case split_sign s of (neg, cs) \<Rightarrow>
        (case cs of
           [] \<Rightarrow> None
         | c # _ \<Rightarrow> if digit_value 10 c = None then None
             else (case read_exponent_digits cs 0 of (e, rest) \<Rightarrow> Some (if neg then - int e else int e, rest))))"

definition based :: "string \<Rightarrow> nat \<times> string" where
  "based s = (case s of
       z # x # d # rest \<Rightarrow>
         if z = CHR ''0'' \<and> lower_char x = CHR ''x'' then (16, d # rest) else (10, s)
     | _ \<Rightarrow> (10, s))"

text \<open>
  Underscores must separate digits; a base prefix counts as a digit. The last character seen
  is a digit, an underscore or something else.
\<close>

datatype last_seen = SawDigit | SawUnderscore | SawOther

fun underscores_ok :: "bool \<Rightarrow> last_seen \<Rightarrow> string \<Rightarrow> bool" where
  "underscores_ok hex l [] = (l \<noteq> SawUnderscore)"
| "underscores_ok hex l (c # cs) =
     (if digit_value (if hex then 16 else 10) c \<noteq> None then underscores_ok hex SawDigit cs
      else if c = CHR ''_'' then l = SawDigit \<and> underscores_ok hex SawUnderscore cs
      else l \<noteq> SawUnderscore \<and> underscores_ok hex SawOther cs)"

definition underscore_ok :: "string \<Rightarrow> bool" where
  "underscore_ok s =
     (case snd (split_sign s) of
        z # x # rest \<Rightarrow>
          if z = CHR ''0'' \<and> lower_char x \<in> {CHR ''b'', CHR ''o'', CHR ''x''}
          then underscores_ok (lower_char x = CHR ''x'') SawDigit rest
          else underscores_ok False SawOther (z # x # rest)
      | cs \<Rightarrow> underscores_ok False SawOther cs)"

text \<open>The number a text stands for, before rounding.\<close>

definition read_number :: "string \<Rightarrow> rat option" where
  "read_number s =
     (case split_sign s of (neg, unsigned) \<Rightarrow>
      case based unsigned of (base, cs) \<Rightarrow>
      case read_mantissa base cs 0 0 False False of (m, places, digits, rest) \<Rightarrow>
      let value = (\<lambda>e. (if neg then - 1 else 1) * of_nat m / of_nat base ^ places *
                     (if base = 16 then two_power e else if 0 \<le> e then 10 ^ nat e else 1 / 10 ^ nat (- e)));
          number = (case rest of
              [] \<Rightarrow> if base = 16 then None else Some (value 0)
            | c # cs' \<Rightarrow>
                if lower_char c = (if base = 16 then CHR ''p'' else CHR ''e'') then
                  (case read_exponent cs' of
                     Some (e, []) \<Rightarrow> Some (value e)
                   | _ \<Rightarrow> None)
                else None)
      in if \<not> digits \<or> CHR ''_'' \<in> set s \<and> \<not> underscore_ok s then None else number)"

definition special_number :: "string \<Rightarrow> float64 option" where
  "special_number s =
     (let t = map lower_char s; (neg, u) = split_sign t in
      if u = ''inf'' \<or> u = ''infinity'' then Some (Infinite neg)
      else if t = ''nan'' then Some NotANumber
      else None)"

text \<open>\<^verbatim>\<open>strconv.ParseFloat(s, 64)\<close>; a number out of range is an error too.\<close>

definition parse_float :: "string \<Rightarrow> float64 option" where
  "parse_float s =
     (case special_number s of
        Some f \<Rightarrow> Some f
      | None \<Rightarrow>
          (case read_number s of
             None \<Rightarrow> None
           | Some x \<Rightarrow> (case float64_of_rat x of Finite y \<Rightarrow> Some (Finite y) | _ \<Rightarrow> None)))"

section \<open>Amounts\<close>

definition format_alipay_amount :: "int \<Rightarrow> string" where
  "format_alipay_amount cents =
     (let sign = (if cents < 0 then ''-'' else ''''); c = nat \<bar>cents\<bar>
      in sign @ show_nat (c div 100) @ ''.'' @ two_digits (c mod 100))"

definition parse_alipay_amount_cents :: "string \<Rightarrow> int option" where
  "parse_alipay_amount_cents v =
     (let t = trim_space v in
      if t = '''' then None
      else case parse_float t of
        None \<Rightarrow> None
      | Some amount \<Rightarrow> Some (rounded_int64 (times_100 amount)))"


section \<open>Rounding errors\<close>

lemma two_power_pos [simp]: "0 < two_power k"
  by (simp add: two_power_def)

lemma two_power_mono: "j \<le> k \<Longrightarrow> two_power j \<le> two_power k"
proof -
  assume jk: "j \<le> k"
  have p: "1 \<le> (2::rat) ^ n" for n by (rule one_le_power) simp
  consider "0 \<le> j" | "j < 0" "0 \<le> k" | "k < 0" by linarith
  then show ?thesis
  proof cases
    case 1
    with jk show ?thesis by (simp add: two_power_def power_increasing)
  next
    case 2
    have "two_power j \<le> 1" using 2 p [of "nat (- j)"] by (simp add: two_power_def)
    also have "1 \<le> two_power k" using 2 p [of "nat k"] by (simp add: two_power_def)
    finally show ?thesis .
  next
    case 3
    then have "(2::rat) ^ nat (- k) \<le> 2 ^ nat (- j)" using jk by (intro power_increasing) auto
    with 3 jk show ?thesis by (simp add: two_power_def frac_le)
  qed
qed

lemma ilog2_bound: "n < 2 ^ Suc m \<Longrightarrow> ilog2 n \<le> m"
proof (induction m arbitrary: n)
  case (Suc m)
  then have "ilog2 (n div 2) \<le> m" by (intro Suc.IH) auto
  then show ?case by (simp add: ilog2.simps [of n])
qed (simp add: ilog2.simps)

lemma float64_exponent_le:
  assumes "0 < x" and "x < 2 ^ Suc n"
  shows "float64_exponent x \<le> int n"
proof (cases "1 \<le> x")
  case True
  have "nat \<lfloor>x\<rfloor> < 2 ^ Suc n" using assms by (simp add: nat_less_iff floor_less_iff)
  from ilog2_bound [OF this] True show ?thesis by (simp add: float64_exponent_def)
qed (auto simp: float64_exponent_def Let_def)

text \<open>A number below \<open>2 ^ n\<close> is rounded by at most \<open>2 ^ (n - 54)\<close>.\<close>

lemma float64_of_rat_error:
  assumes "0 \<le> x" and "x < 2 ^ Suc n" and n: "n < 53"
  obtains y where "float64_of_rat x = Finite y" and "\<bar>y - x\<bar> \<le> two_power (int n - 53)"
proof (cases "x = 0")
  case True
  then show ?thesis using that [of 0] less_imp_le [OF two_power_pos] by (simp add: float64_of_rat_def)
next
  case False
  then have pos: "0 < x" using assms(1) by simp
  define k where "k = max (float64_exponent \<bar>x\<bar> - 52) (- 1074)"
  define q where "q = two_power k"
  define y where "y = of_int (round_half_even (\<bar>x\<bar> / q)) * q"
  have "k \<le> int n - 52" using float64_exponent_le [OF pos assms(2)] n pos by (simp add: k_def)
  then have q_le: "q \<le> two_power (int n - 52)" unfolding q_def by (rule two_power_mono)
  have half: "two_power (int n - 52) = 2 * two_power (int n - 53)"
  proof (cases "n = 52")
    case False
    with n have "nat (53 - int n) = Suc (nat (52 - int n))" by simp
    with n False show ?thesis by (simp add: two_power_def)
  qed (simp add: two_power_def)
  have qpos: "0 < q" by (simp add: q_def)
  have "\<bar>of_int (round_half_even (x / q)) - x / q\<bar> \<le> 1 / 2" by (rule round_half_even_error)
  then have "\<bar>of_int (round_half_even (x / q)) - x / q\<bar> * q \<le> 1 / 2 * q"
    using qpos by (intro mult_right_mono) auto
  moreover have "\<bar>y - x\<bar> = \<bar>of_int (round_half_even (x / q)) - x / q\<bar> * q"
    using pos qpos by (simp add: y_def abs_mult_pos left_diff_distrib)
  ultimately have err: "\<bar>y - x\<bar> \<le> two_power (int n - 53)" using q_le half by linarith
  have "two_power (int n - 53) \<le> two_power 0" using n by (intro two_power_mono) simp
  then have "y \<le> x + 1" using err by (simp add: two_power_def)
  also have "x + 1 \<le> 2 ^ 53 + 1"
    using assms(2) power_increasing [of "Suc n" 53 "2::rat"] n by (simp del: power_Suc)
  also have "(2::rat) ^ 53 + 1 < 2 ^ 1024" by simp
  finally have "float64_of_rat x = Finite y"
    using pos unfolding float64_of_rat_def Let_def k_def [symmetric] q_def [symmetric]
    by (simp add: y_def)
  with err show ?thesis by (rule that [rotated])
qed

lemma float64_of_rat_minus:
  "float64_of_rat x = Finite y \<Longrightarrow> float64_of_rat (- x) = Finite (- y)" if "0 < x"
  using that by (auto simp: float64_of_rat_def Let_def split: if_splits)

lemma round_half_away_near:
  assumes "\<bar>y - of_int n\<bar> < 1 / 2"
  shows "round_half_away y = n"
proof (cases "0 \<le> y")
  case True
  have "\<lfloor>y + 1 / 2\<rfloor> = n" using assms by (intro floor_unique; linarith)
  with True show ?thesis by (simp add: round_half_away_def)
next
  case False
  have "\<lfloor>1 / 2 - y\<rfloor> = - n"
  proof (rule floor_unique)
    show "of_int (- n) \<le> 1 / 2 - y" using assms unfolding of_int_minus by linarith
    show "1 / 2 - y < of_int (- n) + 1" using assms unfolding of_int_minus by linarith
  qed
  with False show ?thesis by (simp add: round_half_away_def)
qed

text \<open>
  Cents divided by 100, rounded, times 100, rounded again: the two errors together stay below
  one half, and the cents come back.
\<close>

lemma cents_survive:
  assumes "float64_of_rat (of_nat c / 100) = Finite x" and c: "c < 2 ^ 50"
  shows "rounded_int64 (times_100 (Finite x)) = int c"
    "rounded_int64 (times_100 (Finite (- x))) = - int c"
proof -
  have "(of_nat c :: rat) < of_nat (2 ^ 50)" using c by (simp only: of_nat_less_iff)
  then have c': "(of_nat c :: rat) < 2 ^ 50" by simp
  then have "(of_nat c :: rat) / 100 < 2 ^ Suc 43" by simp
  from float64_of_rat_error [OF _ this] assms(1)
  have ex: "\<bar>x - of_nat c / 100\<bar> \<le> 1 / 1024" by (auto simp: two_power_def)
  have both: "rounded_int64 (times_100 (Finite x)) = int c \<and>
    rounded_int64 (times_100 (Finite (- x))) = - int c"
  proof (cases "c = 0")
    case True
    then have "x = 0" using assms(1) by (simp add: float64_of_rat_def)
    with True show ?thesis by (simp add: float64_of_rat_def round_half_away_def floor_eq_iff)
  next
    case False
    then have c1: "1 \<le> (of_nat c :: rat)" by simp
    have pos: "0 < x * 100" using ex c1 unfolding abs_le_iff by linarith
    have "(2::rat) ^ Suc 50 = 2 * 2 ^ 50" "1 \<le> (2::rat) ^ 50" by simp_all
    then have le: "x * 100 < 2 ^ Suc 50" using ex c' unfolding abs_le_iff by linarith
    from float64_of_rat_error [OF less_imp_le [OF pos] le] obtain y
      where y: "float64_of_rat (x * 100) = Finite y" and ey: "\<bar>y - x * 100\<bar> \<le> 1 / 8"
      by (auto simp: two_power_def)
    have near: "\<bar>y - of_int (int c)\<bar> < 1 / 2" using ex ey by (simp only: abs_le_iff abs_less_iff of_int_of_nat_eq) linarith
    then have "round_half_away y = int c" by (rule round_half_away_near)
    moreover have "\<bar>- y - of_int (- int c)\<bar> < 1 / 2" using near by (simp add: abs_minus_commute)
    then have "round_half_away (- y) = - int c" by (rule round_half_away_near)
    ultimately show ?thesis using y float64_of_rat_minus [OF pos y] c by simp
  qed
  then show "rounded_int64 (times_100 (Finite x)) = int c" by (rule conjunct1)
  from both show "rounded_int64 (times_100 (Finite (- x))) = - int c" by (rule conjunct2)
qed

section \<open>Reading back a printed amount\<close>

lemma digit_value_digit: "(d::nat) < 10 \<Longrightarrow> digit_value 10 (char_of (48 + d)) = Some d"
  by (simp add: digit_value_def)

lemma digit_not_mark: "(d::nat) < 10 \<Longrightarrow> char_of (48 + d) \<noteq> CHR ''_'' \<and> char_of (48 + d) \<noteq> CHR ''.''"
  by (auto dest!: arg_cong [where f = "of_char :: char \<Rightarrow> nat"])

lemma read_digit:
  assumes "(d::nat) < 10"
  shows "read_mantissa 10 (char_of (48 + d) # cs) m p dot b =
    read_mantissa 10 cs (m * 10 + d) (if dot then Suc p else p) dot True"
  using digit_value_digit [OF assms] digit_not_mark [OF assms] by simp

lemma read_printed:
  "read_mantissa 10 (show_nat n @ cs) 0 0 False b = read_mantissa 10 cs n 0 False True"
proof (induction n arbitrary: cs rule: show_nat.induct)
  case (1 n)
  show ?case
  proof (cases "n < 10")
    case True
    then show ?thesis by (simp add: show_nat.simps [of n] read_digit del: read_mantissa.simps)
  next
    case False
    have "read_mantissa 10 (show_nat n @ cs) 0 0 False b =
        read_mantissa 10 (show_nat (n div 10) @ char_of (48 + n mod 10) # cs) 0 0 False b"
      using False by (simp add: show_nat.simps [of n])
    also have "\<dots> = read_mantissa 10 (char_of (48 + n mod 10) # cs) (n div 10) 0 False True"
      using 1 False by simp
    also have "\<dots> = read_mantissa 10 cs n 0 False True" by (simp add: read_digit del: read_mantissa.simps)
    finally show ?thesis .
  qed
qed

lemma two_digits_char: "n < 100 \<Longrightarrow> two_digits n = [char_of (48 + n div 10), char_of (48 + n mod 10)]"
  by (simp add: two_digits_def show_nat.simps [of n] show_nat.simps [of "n div 10"] char_of_def bit_Suc_0_iff)

lemma read_cents:
  "c < 100 \<Longrightarrow> read_mantissa 10 (''.'' @ two_digits c) m 0 False True = (m * 100 + c, 2, True, [])"
  using read_digit [of "c div 10" "[char_of (48 + c mod 10)]" m 0 True True]
    read_digit [of "c mod 10" "[]" "m * 10 + c div 10" 1 True True]
  by (simp add: two_digits_char)

text \<open>The characters of a printed amount: digits and the point, after the sign.\<close>

definition amount_char :: "char \<Rightarrow> bool" where
  "amount_char c \<longleftrightarrow> 48 \<le> byte_of c \<and> byte_of c \<le> 57 \<or> c = CHR ''.''"

lemma amount_char_not: "\<not> amount_char (CHR ''_'')" "\<not> amount_char (CHR ''x'')" "\<not> amount_char (CHR ''-'')"
    "\<not> amount_char (CHR ''i'')" "\<not> amount_char (CHR ''n'')"
  by (simp_all add: amount_char_def)

lemma amount_char_plain: "amount_char c \<Longrightarrow> plain_byte c"
proof -
  assume "amount_char c"
  then have "32 < byte_of c \<and> byte_of c < 127" unfolding amount_char_def by (elim disjE conjE) simp_all
  then show ?thesis by (simp add: plain_printable)
qed

lemma minus_plain: "plain_byte (CHR ''-'')"
  by (rule plain_printable) simp_all

definition amount_body :: "nat \<Rightarrow> string" where
  "amount_body c = show_nat (c div 100) @ ''.'' @ two_digits (c mod 100)"

lemma amount_body_chars: "list_all amount_char (amount_body c)"
  by (auto simp: amount_body_def list_all_iff amount_char_def two_digits_def dest: show_nat_digits)

lemma amount_head: obtains d cs where "amount_body c = d # cs" and "amount_char d" and "d \<noteq> CHR ''+''"
proof -
  have "show_nat (c div 100) \<noteq> []" by (subst show_nat.simps) simp
  then obtain d cs where d: "show_nat (c div 100) = d # cs" by (cases "show_nat (c div 100)") auto
  then have "48 \<le> byte_of d" "byte_of d \<le> 57" using show_nat_digits [of d "c div 100"] by simp_all
  then have "amount_char d" "d \<noteq> CHR ''+''" by (auto simp: amount_char_def)
  then show ?thesis using that [of d "cs @ ''.'' @ two_digits (c mod 100)"] d by (simp add: amount_body_def)
qed

lemma amount_trimmed:
  "trim_space (amount_body c) = amount_body c"
  "trim_space (CHR ''-'' # amount_body c) = CHR ''-'' # amount_body c"
proof -
  have "list_all plain_byte (amount_body c)"
    using amount_body_chars [of c] amount_char_plain by (simp add: list_all_iff)
  then show "trim_space (amount_body c) = amount_body c"
    and "trim_space (CHR ''-'' # amount_body c) = CHR ''-'' # amount_body c"
    using minus_plain by (simp_all add: trim_space_plain)
qed

lemma amount_split_sign:
  "split_sign (amount_body c) = (False, amount_body c)"
  "split_sign (CHR ''-'' # amount_body c) = (True, amount_body c)"
proof -
  obtain d cs where d: "amount_body c = d # cs" "amount_char d" "d \<noteq> CHR ''+''" by (rule amount_head)
  then have "d \<noteq> CHR ''-''" using amount_char_not by metis
  with d show "split_sign (amount_body c) = (False, amount_body c)" by (simp add: split_sign_def)
qed (simp add: split_sign_def)

lemma amount_char_lower: "amount_char x \<Longrightarrow> lower_char x = x"
  by (auto simp: amount_char_def lower_char_def)

lemma amount_based: "based (amount_body c) = (10, amount_body c)"
proof -
  have "amount_char x \<Longrightarrow> lower_char x \<noteq> CHR ''x''" for x
    using amount_char_lower [of x] amount_char_not by metis
  then have "list_all amount_char s \<Longrightarrow> based s = (10, s)" for s
    by (auto simp: based_def split: list.splits)
  then show ?thesis using amount_body_chars by blast
qed

lemma amount_not_special:
  "special_number (amount_body c) = None" "special_number (CHR ''-'' # amount_body c) = None"
proof -
  obtain d cs where d: "amount_body c = d # cs" "amount_char d" "d \<noteq> CHR ''+''" by (rule amount_head)
  have low: "map lower_char (amount_body c) = amount_body c"
    using amount_body_chars [of c] by (intro map_idI) (auto simp: list_all_iff amount_char_lower)
  have minus: "lower_char (CHR ''-'') = CHR ''-''" by (simp add: lower_char_def)
  have "d \<noteq> CHR ''i''" "d \<noteq> CHR ''n''" using d(2) amount_char_not by metis+
  then have u: "amount_body c \<noteq> ''inf''" "amount_body c \<noteq> ''infinity''" "amount_body c \<noteq> ''nan''"
    using d(1) by auto
  show "special_number (amount_body c) = None"
    unfolding special_number_def Let_def low amount_split_sign(1) prod.case using u by simp
  have "map lower_char (CHR ''-'' # amount_body c) = CHR ''-'' # amount_body c" by (simp add: low minus)
  then show "special_number (CHR ''-'' # amount_body c) = None"
    unfolding special_number_def Let_def using u by (simp add: amount_split_sign(2))
qed

lemma amount_number:
  "read_number (amount_body c) = Some (of_nat c / 100)"
  "read_number (CHR ''-'' # amount_body c) = Some (- (of_nat c / 100))"
proof -
  have read: "read_mantissa 10 (amount_body c) 0 0 False False = (c, 2, True, [])"
    using read_printed [of "c div 100" "''.'' @ two_digits (c mod 100)" False]
      read_cents [of "c mod 100" "c div 100"] by (simp add: amount_body_def)
  have "CHR ''_'' \<notin> set (amount_body c)"
    using amount_body_chars [of c] amount_char_not(1) by (auto simp: list_all_iff)
  then have plain: "CHR ''_'' \<notin> set (amount_body c)" "CHR ''_'' \<notin> set (CHR ''-'' # amount_body c)"
    by simp_all
  show "read_number (amount_body c) = Some (of_nat c / 100)"
    unfolding read_number_def Let_def amount_split_sign(1) prod.case amount_based read using plain(1) by simp
  show "read_number (CHR ''-'' # amount_body c) = Some (- (of_nat c / 100))"
    unfolding read_number_def Let_def amount_split_sign(2) prod.case amount_based read using plain(2) by simp
qed

text \<open>An amount below \<open>2 ^ 50\<close> cents is read back.\<close>

lemma parse_formatted:
  assumes "\<bar>cents\<bar> < 2 ^ 50"
  shows "parse_alipay_amount_cents (format_alipay_amount cents) = Some cents"
proof -
  define c where "c = nat \<bar>cents\<bar>"
  have c: "c < 2 ^ 50" using assms by (simp add: c_def)
  have "(of_nat c :: rat) < of_nat (2 ^ 50)" using c by (simp only: of_nat_less_iff)
  then have "(of_nat c :: rat) / 100 < 2 ^ Suc 43" by simp
  then obtain x where x: "float64_of_rat (of_nat c / 100) = Finite x"
    using float64_of_rat_error [of "of_nat c / 100" 43] by auto
  note survive = cents_survive [OF x c]
  show ?thesis
  proof (cases "cents < 0")
    case True
    have f: "format_alipay_amount cents = CHR ''-'' # amount_body c"
      using True by (simp add: format_alipay_amount_def amount_body_def Let_def c_def)
    have "0 < c" using True by (simp add: c_def)
    then have "float64_of_rat (- (of_nat c / 100)) = Finite (- x)"
      by (intro float64_of_rat_minus x) simp
    then have "parse_float (CHR ''-'' # amount_body c) = Some (Finite (- x))"
      unfolding parse_float_def amount_number using amount_not_special by simp
    then show ?thesis using survive True
      unfolding f parse_alipay_amount_cents_def Let_def amount_trimmed
      by (simp add: c_def)
  next
    case False
    have f: "format_alipay_amount cents = amount_body c"
      using False by (simp add: format_alipay_amount_def amount_body_def Let_def c_def)
    have "parse_float (amount_body c) = Some (Finite x)"
      unfolding parse_float_def amount_number using x amount_not_special by simp
    moreover have "amount_body c \<noteq> []" using amount_head [of c] by (metis list.distinct(1))
    ultimately show ?thesis using survive False
      unfolding f parse_alipay_amount_cents_def Let_def amount_trimmed
      by (simp add: c_def)
  qed
qed

end
