(* ===== verification/Payments.thy ===== *)
theory Payments
  imports CreditLedger Amounts
begin

text \<open>
  Payment orders: their rows (\<^verbatim>\<open>types.go\<close>), the rules that guard a new order
  (\<^verbatim>\<open>payment_risk.go\<close>), the payment record kept beside each order and the credit
  a paid order brings (\<^verbatim>\<open>alipay_handlers.go\<close>, \<^verbatim>\<open>wechat_handlers.go\<close>), the
  package a user short of credits is offered (\<^verbatim>\<open>credit_estimate.go\<close>) and the credits
  of a new account (\<^verbatim>\<open>signup_bonus.go\<close>).

  One database transaction is one function; an error gives its changes back. The answers of
  the payment providers, the random part of new numbers and the texts of driver errors are
  arguments. All readings of the time in one request are the clock of the database. The creation
  time is kept for orders, where the code reads it; \<^verbatim>\<open>updated_at\<close>, which nothing reads,
  is left out, as are the columns filled by \<^verbatim>\<open>Preload\<close>.
\<close>

section \<open>Rows\<close>

record payment_user =
  usr_id :: uid
  usr_username :: string
  usr_phone :: "string option"
  usr_wechat_open_id :: string
  usr_display_name :: string
  usr_email :: string

record credit_package =
  pkg_id :: uid
  pkg_name :: string
  pkg_description :: string
  pkg_price_cents :: int
  pkg_credits :: int
  pkg_valid_days :: int
  pkg_wechat_virtual_product_id :: string
  pkg_sort_order :: int
  pkg_is_active :: bool
  pkg_deleted_at :: "time option"

record finance_order =
  fo_id :: uid
  fo_number :: string
  fo_user :: uid
  fo_purchase_intent :: "uid option"
  fo_package :: uid
  fo_package_name :: string
  fo_package_credits :: int
  fo_amount_cents :: int
  fo_order_type :: string
  fo_payment_method :: string
  fo_payment_status :: string
  fo_invoice_status :: string
  fo_paid_at :: "time option"
  fo_alipay_trade_no :: string
  fo_alipay_buyer_id :: string
  fo_wechat_transaction_id :: string
  fo_wechat_open_id :: string
  fo_wechat_virtual_product_id :: string
  fo_ip_address :: string
  fo_payment_request_at :: "time option"
  fo_alipay_notify_at :: "time option"
  fo_wechat_notify_at :: "time option"
  fo_transaction_url :: string
  fo_evidence_snapshot :: string
  fo_raw_notification_summary :: string
  fo_created_at :: time

record payment_record =
  pr_id :: uid
  pr_number :: string
  pr_order :: uid
  pr_order_number :: string
  pr_user :: uid
  pr_provider :: string
  pr_provider_method :: string
  pr_out_trade_no :: string
  pr_provider_trade_no :: string
  pr_amount_cents :: int
  pr_status :: string
  pr_request_count :: int
  pr_notify_count :: int
  pr_query_count :: int
  pr_requested_at :: "time option"
  pr_notified_at :: "time option"
  pr_queried_at :: "time option"
  pr_paid_at :: "time option"
  pr_buyer_id :: string
  pr_last_event :: string
  pr_last_error_code :: string
  pr_last_error_message :: string
  pr_request_summary :: string
  pr_notify_summary :: string
  pr_query_summary :: string

record finance_refund =
  rfd_id :: uid
  rfd_order :: uid
  rfd_amount_cents :: int
  rfd_status :: string
  rfd_processed_at :: "time option"

record payment_db = credit_db +
  fin_users :: "payment_user list"
  fin_packages :: "credit_package list"
  fin_orders :: "finance_order list"
  fin_payments :: "payment_record list"
  fin_refunds :: "finance_refund list"

interpretation fo_tab: keyed_table fo_id .
interpretation pr_tab: keyed_table pr_id .

text \<open>The constants of \<^verbatim>\<open>types.go\<close>.\<close>

abbreviation "finance_order_type_package \<equiv> ''package''"
abbreviation "method_alipay_page \<equiv> ''alipay_page''"
abbreviation "method_wechat_jsapi \<equiv> ''wechat_jsapi''"
abbreviation "method_wechat_virtual_goods \<equiv> ''wechat_virtual_goods''"
abbreviation "status_pending \<equiv> ''pending''"
abbreviation "status_paid \<equiv> ''paid''"
abbreviation "status_refunded \<equiv> ''refunded''"
abbreviation "status_failed \<equiv> ''failed''"
abbreviation "status_expired \<equiv> ''expired''"
abbreviation "record_created \<equiv> ''created''"
abbreviation "record_requested \<equiv> ''requested''"
abbreviation "record_paid \<equiv> ''paid''"
abbreviation "record_closed \<equiv> ''closed''"

section \<open>Errors and replies\<close>

datatype payment_error =
    PaymentRecordNotFound
  | UniqueViolation string
  | AlipayAmountMismatch
  | AlipayInvalidStatus
  | WechatAmountMismatch
  | WechatOpenIDMismatch
  | WechatInvalidStatus
  | PaymentText string

text \<open>
  \<^verbatim>\<open>err.Error()\<close>. The text of a violated unique index is the database driver's: a
  function of the index.
\<close>

fun payment_error_text :: "(string \<Rightarrow> string) \<Rightarrow> payment_error \<Rightarrow> string" where
  "payment_error_text driver PaymentRecordNotFound = ''record not found''"
| "payment_error_text driver (UniqueViolation index) = driver index"
| "payment_error_text driver AlipayAmountMismatch = ''alipay amount mismatch''"
| "payment_error_text driver AlipayInvalidStatus = ''alipay invalid status''"
| "payment_error_text driver WechatAmountMismatch = ''wechat amount mismatch''"
| "payment_error_text driver WechatOpenIDMismatch = ''wechat openid mismatch''"
| "payment_error_text driver WechatInvalidStatus = ''wechat invalid status''"
| "payment_error_text driver (PaymentText t) = t"

definition safe_payment_error :: "string \<Rightarrow> string" where
  "safe_payment_error t = (if length t > 500 then take 500 t else t)"

text \<open>What a request is answered: the HTTP status and the part of the body that varies.\<close>

datatype payment_body =
    ErrorCode string
  | PlainBody string
  | OrderBody finance_order
  | OrderForm finance_order string
  | OrderCredits finance_order int
  | PaymentParams finance_order string
  | VirtualParams finance_order string "string option"
  | AlreadyPaid finance_order int
  | RefundBody finance_refund

datatype payment_reply = Reply nat payment_body

text \<open>A transaction whose error the handler drops.\<close>

definition attempt :: "(payment_db \<Rightarrow> payment_error + payment_db) \<Rightarrow> payment_db \<Rightarrow> payment_db" where
  "attempt f s = (case f s of Inl _ \<Rightarrow> s | Inr s' \<Rightarrow> s')"

text \<open>\<^verbatim>\<open>strings.TrimRight(s, "/")\<close>.\<close>

definition trim_right_slashes :: "string \<Rightarrow> string" where
  "trim_right_slashes s = rev (dropWhile (\<lambda>c. c = CHR ''/'') (rev s))"

section \<open>Guards of a new order\<close>

record http_source =
  hs_forwarded_for :: string
  hs_real_ip :: string
  hs_remote_addr :: string

text \<open>The address before the last colon, unless the colon comes first or is missing.\<close>

definition without_port :: "string \<Rightarrow> string" where
  "without_port host =
     (let tail = takeWhile (\<lambda>c. c \<noteq> CHR '':'') (rev host); index = length host - Suc (length tail)
      in if CHR '':'' \<in> set host \<and> 0 < index then take index host else host)"

definition source_ip_address :: "http_source \<Rightarrow> string" where
  "source_ip_address r =
     (let forwarded_for = trim_space (hs_forwarded_for r);
          first = trim_space (takeWhile (\<lambda>c. c \<noteq> CHR '','') forwarded_for);
          real_ip = trim_space (hs_real_ip r)
      in if forwarded_for \<noteq> '''' \<and> first \<noteq> '''' then first
         else if real_ip \<noteq> '''' then real_ip
         else without_port (hs_remote_addr r))"

abbreviation payment_pending_reuse_window :: duration where "payment_pending_reuse_window \<equiv> 30 * minute"
abbreviation payment_pending_max_age :: duration where "payment_pending_max_age \<equiv> 24 * 60 * minute"
abbreviation payment_rate_limit_window :: duration where "payment_rate_limit_window \<equiv> 10 * minute"
abbreviation payment_user_order_limit :: nat where "payment_user_order_limit \<equiv> 3"
abbreviation payment_ip_order_limit :: nat where "payment_ip_order_limit \<equiv> 10"

definition has_bound_phone :: "payment_user \<Rightarrow> bool" where
  "has_bound_phone u = (case usr_phone u of None \<Rightarrow> False | Some p \<Rightarrow> \<not> blank p)"

definition update_orders ::
  "(finance_order \<Rightarrow> bool) \<Rightarrow> (finance_order \<Rightarrow> finance_order) \<Rightarrow> payment_db \<Rightarrow> payment_db" where
  "update_orders P f s = s\<lparr>fin_orders := update_where P f (fin_orders s)\<rparr>"

definition expire_stale_pending_finance_orders :: "time \<Rightarrow> payment_db \<Rightarrow> payment_db" where
  "expire_stale_pending_finance_orders now =
     update_orders (\<lambda>x. fo_payment_status x = status_pending \<and> fo_created_at x < now - payment_pending_max_age)
       (\<lambda>x. x\<lparr>fo_payment_status := status_expired\<rparr>)"

text \<open>\<^verbatim>\<open>ORDER BY created_at DESC, id DESC LIMIT 1\<close>.\<close>

definition newer_order :: "finance_order \<Rightarrow> finance_order \<Rightarrow> bool" where
  "newer_order x y \<longleftrightarrow>
     fo_created_at x > fo_created_at y \<or> fo_created_at x = fo_created_at y \<and> fo_id x > fo_id y"

definition newest_order :: "finance_order list \<Rightarrow> finance_order option" where
  "newest_order t =
     fold (\<lambda>x best. case best of None \<Rightarrow> Some x | Some y \<Rightarrow> if newer_order x y then Some x else best) t None"

definition reusable_pending_finance_order ::
  "uid \<Rightarrow> uid \<Rightarrow> string \<Rightarrow> time \<Rightarrow> payment_db \<Rightarrow> finance_order option" where
  "reusable_pending_finance_order user package pay_method now s =
     newest_order (filter (\<lambda>x. fo_user x = user \<and> fo_package x = package \<and>
       fo_payment_method x = pay_method \<and> fo_payment_status x = status_pending \<and>
       fo_created_at x \<ge> now - payment_pending_reuse_window) (fin_orders s))"

definition active_order :: "finance_order \<Rightarrow> bool" where
  "active_order x \<longleftrightarrow> fo_payment_status x = status_pending \<or> fo_payment_status x = status_paid"

definition enforce_payment_order_rate_limit ::
  "uid \<Rightarrow> string \<Rightarrow> time \<Rightarrow> payment_db \<Rightarrow> payment_reply option" where
  "enforce_payment_order_rate_limit user ip now s =
     (let since = now - payment_rate_limit_window;
          limited = Reply 429 (ErrorCode ''payment_rate_limited'')
      in if payment_user_order_limit \<le> count_where (\<lambda>x. fo_user x = user \<and> fo_created_at x \<ge> since \<and> active_order x)
              (fin_orders s) then Some limited
         else if ip \<noteq> '''' \<and>
           payment_ip_order_limit \<le> count_where (\<lambda>x. fo_ip_address x = ip \<and> fo_created_at x \<ge> since \<and> active_order x)
              (fin_orders s) then Some limited
         else None)"

definition active_package :: "uid \<Rightarrow> payment_db \<Rightarrow> credit_package option" where
  "active_package package s =
     first_where (\<lambda>p. pkg_id p = package \<and> pkg_is_active p \<and> pkg_deleted_at p = None) (fin_packages s)"

section \<open>Orders and payment records\<close>

definition insert_order :: "finance_order \<Rightarrow> payment_db \<Rightarrow> payment_error + finance_order \<times> payment_db" where
  "insert_order x s =
     (if first_where (\<lambda>y. fo_number y = fo_number x) (fin_orders s) \<noteq> None
      then Inl (UniqueViolation ''order_number'')
      else let y = x\<lparr>fo_id := next_key fo_id (fin_orders s)\<rparr>
           in Inr (y, s\<lparr>fin_orders := fin_orders s @ [y]\<rparr>))"

definition payment_provider_for_order :: "finance_order \<Rightarrow> string \<times> string" where
  "payment_provider_for_order x =
     (if fo_payment_method x = method_wechat_jsapi then (''wechat'', ''jsapi'')
      else if fo_payment_method x = method_wechat_virtual_goods then (''wechat'', ''virtual_goods'')
      else (''alipay'', ''page_pay''))"

definition new_payment :: "string \<Rightarrow> finance_order \<Rightarrow> uid \<Rightarrow> payment_record" where
  "new_payment number x k =
     \<lparr>pr_id = k, pr_number = number, pr_order = fo_id x, pr_order_number = fo_number x,
      pr_user = fo_user x, pr_provider = fst (payment_provider_for_order x),
      pr_provider_method = snd (payment_provider_for_order x), pr_out_trade_no = fo_number x,
      pr_provider_trade_no = '''', pr_amount_cents = fo_amount_cents x, pr_status = record_created,
      pr_request_count = 0, pr_notify_count = 0, pr_query_count = 0, pr_requested_at = None,
      pr_notified_at = None, pr_queried_at = None, pr_paid_at = None, pr_buyer_id = '''',
      pr_last_event = '''', pr_last_error_code = '''', pr_last_error_message = '''',
      pr_request_summary = '''', pr_notify_summary = '''', pr_query_summary = ''''\<rparr>"

text \<open>The columns an old record lacks.\<close>

definition fill_payment :: "string \<Rightarrow> finance_order \<Rightarrow> payment_record \<Rightarrow> payment_record" where
  "fill_payment number x p =
     p\<lparr>pr_number := (if pr_number p = '''' then number else pr_number p),
       pr_order_number := (if pr_order_number p = '''' then fo_number x else pr_order_number p),
       pr_user := (if pr_user p = 0 then fo_user x else pr_user p),
       pr_provider := (if pr_provider p = '''' then fst (payment_provider_for_order x) else pr_provider p),
       pr_provider_method := (if pr_provider_method p = '''' then snd (payment_provider_for_order x)
         else pr_provider_method p),
       pr_out_trade_no := (if pr_out_trade_no p = '''' then fo_number x else pr_out_trade_no p),
       pr_amount_cents := (if pr_amount_cents p = 0 then fo_amount_cents x else pr_amount_cents p),
       pr_status := (if pr_status p = '''' then record_created else pr_status p)\<rparr>"

definition update_payment :: "payment_record \<Rightarrow> (payment_record \<Rightarrow> payment_record) \<Rightarrow> payment_db \<Rightarrow> payment_db" where
  "update_payment p f s = s\<lparr>fin_payments := update_where (\<lambda>q. pr_id q = pr_id p) f (fin_payments s)\<rparr>"

definition payment_number_used :: "string \<Rightarrow> payment_db \<Rightarrow> bool" where
  "payment_number_used number s \<longleftrightarrow> list_ex (\<lambda>p. pr_number p = number) (fin_payments s)"

definition ensure_payment_record_for_finance_order ::
  "string \<Rightarrow> finance_order \<Rightarrow> payment_db \<Rightarrow> payment_error + payment_record \<times> payment_db" where
  "ensure_payment_record_for_finance_order number x s =
     (case first_where (\<lambda>p. pr_order p = fo_id x) (fin_payments s) of
        Some p \<Rightarrow>
          if fill_payment number x p = p then Inr (p, s)
          else if pr_number p = '''' \<and> payment_number_used number s
          then Inl (UniqueViolation ''payment_number'')
          else let s1 = update_payment p (fill_payment number x) s in
            (case first_where (\<lambda>p. pr_order p = fo_id x) (fin_payments s1) of
               None \<Rightarrow> Inl PaymentRecordNotFound
             | Some q \<Rightarrow> Inr (q, s1))
      | None \<Rightarrow>
          if payment_number_used number s then Inl (UniqueViolation ''payment_number'')
          else let p = new_payment number x (next_key pr_id (fin_payments s))
               in Inr (p, s\<lparr>fin_payments := fin_payments s @ [p]\<rparr>))"

text \<open>Every change of a payment record first makes sure there is one.\<close>

definition on_payment_record ::
  "string \<Rightarrow> finance_order \<Rightarrow> (payment_record \<Rightarrow> payment_record \<Rightarrow> payment_record) \<Rightarrow> payment_db \<Rightarrow>
     payment_error + payment_db" where
  "on_payment_record number x f s =
     and_then (ensure_payment_record_for_finance_order number x s) (\<lambda>(p, s1).
     Inr (update_payment p (f p) s1))"

definition ensure_payment_record ::
  "string \<Rightarrow> finance_order \<Rightarrow> payment_db \<Rightarrow> payment_error + payment_db" where
  "ensure_payment_record number x s =
     and_then (ensure_payment_record_for_finance_order number x s) (\<lambda>(_, s1). Inr s1)"

definition mark_payment_record_requested ::
  "string \<Rightarrow> finance_order \<Rightarrow> time \<Rightarrow> string \<Rightarrow> payment_db \<Rightarrow> payment_error + payment_db" where
  "mark_payment_record_requested number x requested_at summary =
     on_payment_record number x (\<lambda>_ p. p\<lparr>pr_status := record_requested,
       pr_request_count := pr_request_count p + 1, pr_requested_at := Some requested_at,
       pr_last_event := ''pay_request'', pr_last_error_code := '''', pr_last_error_message := '''',
       pr_request_summary := summary\<rparr>)"

definition mark_payment_record_error ::
  "string \<Rightarrow> finance_order \<Rightarrow> string \<Rightarrow> string \<Rightarrow> string \<Rightarrow> time \<Rightarrow> string \<Rightarrow> payment_db \<Rightarrow>
     payment_error + payment_db" where
  "mark_payment_record_error number x error_code message summary occurred_at source =
     on_payment_record number x (\<lambda>_ p.
       let q = p\<lparr>pr_last_error_code := error_code, pr_last_error_message := message, pr_last_event := source\<rparr>
       in if source = ''query'' then q\<lparr>pr_query_count := pr_query_count q + 1,
              pr_queried_at := Some occurred_at, pr_query_summary := summary\<rparr>
          else q\<lparr>pr_notify_count := pr_notify_count q + 1,
              pr_notified_at := Some occurred_at, pr_notify_summary := summary\<rparr>)"

definition mark_payment_record_closed ::
  "string \<Rightarrow> finance_order \<Rightarrow> time \<Rightarrow> string \<Rightarrow> payment_db \<Rightarrow> payment_error + payment_db" where
  "mark_payment_record_closed number x closed_at summary =
     on_payment_record number x (\<lambda>_ p. p\<lparr>pr_status := record_closed, pr_last_event := ''active_query'',
       pr_queried_at := Some closed_at, pr_query_summary := summary\<rparr>)"

text \<open>An order with its payment record, in one transaction.\<close>

definition create_order ::
  "string \<Rightarrow> finance_order \<Rightarrow> payment_db \<Rightarrow> payment_error + finance_order \<times> payment_db" where
  "create_order number x s =
     and_then (insert_order x s) (\<lambda>(y, s1).
     and_then (ensure_payment_record number y s1) (\<lambda>s2. Inr (y, s2)))"

text \<open>The pending orders among the rows with a key get another status; how many there were.\<close>

definition pending_row :: "uid \<Rightarrow> finance_order \<Rightarrow> bool" where
  "pending_row k x \<longleftrightarrow> fo_id x = k \<and> fo_payment_status x = status_pending"

definition close_pending :: "uid \<Rightarrow> payment_db \<Rightarrow> payment_db" where
  "close_pending k = update_orders (pending_row k) (\<lambda>x. x\<lparr>fo_payment_status := status_failed\<rparr>)"

definition claim_paid :: "uid \<Rightarrow> payment_db \<Rightarrow> nat \<times> payment_db" where
  "claim_paid k s =
     (count_where (pending_row k) (fin_orders s),
      update_orders (pending_row k) (\<lambda>x. x\<lparr>fo_payment_status := status_paid\<rparr>) s)"

text \<open>\<^verbatim>\<open>tx.Save\<close> writes every column of the row.\<close>

definition save_order :: "finance_order \<Rightarrow> payment_db \<Rightarrow> payment_db" where
  "save_order x = update_orders (\<lambda>y. fo_id y = fo_id x) (\<lambda>_. x)"

section \<open>Credits\<close>

definition current_available_credits :: "uid \<Rightarrow> payment_db \<Rightarrow> int" where
  "current_available_credits user s =
     (case first_where (\<lambda>b. bal_user b = user) (balances s) of None \<Rightarrow> 0 | Some b \<Rightarrow> bal_available b)"

definition first_or_create_balance :: "uid \<Rightarrow> payment_db \<Rightarrow> credit_balance \<times> payment_db" where
  "first_or_create_balance user s =
     (case first_where (\<lambda>b. bal_user b = user) (balances s) of
        Some b \<Rightarrow> (b, s)
      | None \<Rightarrow>
          let b = \<lparr>bal_id = next_key bal_id (balances s), bal_user = user, bal_available = 0, bal_reserved = 0\<rparr>
          in (b, s\<lparr>balances := balances s @ [b]\<rparr>))"

definition save_balance :: "credit_balance \<Rightarrow> payment_db \<Rightarrow> payment_db" where
  "save_balance b = update_balances (\<lambda>x. bal_id x = bal_id b) (\<lambda>_. b)"

definition top_up_of :: "uid \<Rightarrow> credit_transaction \<Rightarrow> bool" where
  "top_up_of k t \<longleftrightarrow>
     txn_type t = PaymentTopUp \<and> txn_related_type t = ''finance_order'' \<and> txn_related_id t = k"

definition top_up_transaction :: "string \<Rightarrow> finance_order \<Rightarrow> int \<Rightarrow> credit_transaction" where
  "top_up_transaction reason x balance_after =
     \<lparr>txn_id = 0, txn_user = fo_user x, txn_type = PaymentTopUp, txn_amount = fo_package_credits x,
      txn_balance_after = balance_after, txn_reserved_after = 0, txn_idempotency_key = '''',
      txn_reason = reason, txn_related_type = ''finance_order'', txn_related_id = fo_id x\<rparr>"

text \<open>
  What the three ways of completing an order share, once the provider's answer is accepted: the
  payment record is marked, a paid order is left alone, a pending one is claimed, written and
  credited; an order another request has taken in between is returned as it is.
\<close>

definition settle_order ::
  "(finance_order \<Rightarrow> payment_db \<Rightarrow> int \<times> payment_db) \<Rightarrow> payment_error \<Rightarrow> finance_order \<Rightarrow>
     (payment_db \<Rightarrow> payment_error + payment_db) \<Rightarrow> bool \<Rightarrow> finance_order \<Rightarrow> payment_db \<Rightarrow>
     payment_error + finance_order \<times> int \<times> payment_db" where
  "settle_order credit invalid x mark paid y s =
     and_then (mark s) (\<lambda>s1.
       if fo_payment_status x = status_paid
       then Inr (x, current_available_credits (fo_user x) s1, s1)
       else if \<not> paid then Inl invalid
       else case claim_paid (fo_id x) s1 of (claimed, s2) \<Rightarrow>
         if claimed = 0 then
           (case first_where (\<lambda>z. fo_id z = fo_id x) (fin_orders s2) of
              None \<Rightarrow> Inl PaymentRecordNotFound
            | Some z \<Rightarrow> Inr (z, current_available_credits (fo_user z) s2, s2))
         else case credit y (save_order y s2) of (available, s3) \<Rightarrow> Inr (y, available, s3))"

text \<open>
  \<^verbatim>\<open>createSignupBonusTx\<close>: the balance of a new account; the user column of the
  balances is unique.
\<close>

definition signup_bonus_credits :: int where
  "signup_bonus_credits = 5"

definition signup_bonus_reason :: string where
  "signup_bonus_reason = utf8 [230, 150, 176, 231, 148, 168, 230, 136, 183, 230, 179, 168, 229, 134, 140,
     228, 189, 147, 233, 170, 140, 231, 130, 185, 230, 149, 176]"

definition create_signup_bonus_tx :: "uid \<Rightarrow> payment_db \<Rightarrow> payment_error + payment_db" where
  "create_signup_bonus_tx user s =
     (if first_where (\<lambda>b. bal_user b = user) (balances s) \<noteq> None then Inl (UniqueViolation ''user_id'')
      else Inr (insert_transaction
        \<lparr>txn_id = 0, txn_user = user, txn_type = SignupBonus, txn_amount = signup_bonus_credits,
         txn_balance_after = signup_bonus_credits, txn_reserved_after = 0, txn_idempotency_key = '''',
         txn_reason = signup_bonus_reason, txn_related_type = ''user'', txn_related_id = user\<rparr>
        (s\<lparr>balances := balances s @ [\<lparr>bal_id = next_key bal_id (balances s), bal_user = user,
            bal_available = signup_bonus_credits, bal_reserved = 0\<rparr>]\<rparr>)))"

text \<open>
  \<^verbatim>\<open>credit_estimate.go\<close>: what an operation costs beside what the user has, and the
  package that would cover the difference.
\<close>

record credit_estimate =
  ce_required :: int
  ce_available :: int
  ce_missing :: int
  ce_enough :: bool
  ce_recommended :: "credit_package option"

definition package_before :: "credit_package \<Rightarrow> credit_package \<Rightarrow> bool" where
  "package_before p q \<longleftrightarrow>
     pkg_credits p < pkg_credits q \<or> pkg_credits p = pkg_credits q \<and>
       (pkg_sort_order p < pkg_sort_order q \<or> pkg_sort_order p = pkg_sort_order q \<and> pkg_id p \<le> pkg_id q)"

fun insert_package :: "credit_package \<Rightarrow> credit_package list \<Rightarrow> credit_package list" where
  "insert_package p [] = [p]"
| "insert_package p (q # qs) = (if package_before p q then p # q # qs else q # insert_package p qs)"

definition offered_packages :: "payment_db \<Rightarrow> credit_package list" where
  "offered_packages s =
     foldr insert_package (filter (\<lambda>p. pkg_is_active p \<and> pkg_credits p > 0 \<and> pkg_deleted_at p = None)
       (fin_packages s)) []"

definition recommended_package_for_missing_credits :: "int \<Rightarrow> payment_db \<Rightarrow> credit_package option" where
  "recommended_package_for_missing_credits missing s =
     (if missing \<le> 0 then None
      else let packages = offered_packages s in
        if packages = [] then None
        else case find (\<lambda>p. pkg_credits p \<ge> missing) packages of
          Some p \<Rightarrow> Some p
        | None \<Rightarrow> Some (last packages))"

definition build_credit_estimate :: "uid \<Rightarrow> int \<Rightarrow> payment_db \<Rightarrow> payment_error + credit_estimate" where
  "build_credit_estimate user required s =
     (let required = (if required < 0 then 0 else required) in
      case first_where (\<lambda>b. bal_user b = user) (balances s) of
        None \<Rightarrow> Inl PaymentRecordNotFound
      | Some b \<Rightarrow>
          let missing = max (required - bal_available b) 0
          in Inr \<lparr>ce_required = required, ce_available = bal_available b, ce_missing = missing,
               ce_enough = (missing = 0),
               ce_recommended = recommended_package_for_missing_credits missing s\<rparr>)"

end
