(* ===== verification/Alipay.thy ===== *)
theory Alipay
  imports Payments
begin

text \<open>
  Payment by Alipay (\<^verbatim>\<open>alipay_handlers.go\<close>, \<^verbatim>\<open>alipay_config.go\<close>): creating an
  order, starting its payment, the provider's notification, the query by the user and by the
  administration (\<^verbatim>\<open>finance_handlers.go\<close>), and the refund of an order.

  The library record holds what comes from outside: the cryptography and encodings of Go's library,
  the texts of the database driver, the payment form. A trade query is answered by an argument.
\<close>

section \<open>Configuration\<close>

record payment_config =
  cfg_app_base_url :: string
  cfg_alipay_app_id :: string
  cfg_alipay_private_key :: string
  cfg_alipay_public_key :: string
  cfg_alipay_gateway :: string
  cfg_alipay_sandbox :: bool
  cfg_wechat_pay_app_id :: string
  cfg_wechat_app_secret :: string
  cfg_wechat_pay_mch_id :: string
  cfg_wechat_pay_mch_cert_serial_no :: string
  cfg_wechat_pay_mch_private_key :: string
  cfg_wechat_pay_mch_private_key_path :: string
  cfg_wechat_pay_apiv3_key :: string
  cfg_wechat_pay_platform_public_key :: string
  cfg_wechat_virtual_pay_offer_id :: string
  cfg_wechat_virtual_pay_env :: int
  cfg_wechat_virtual_pay_sandbox_app_key :: string
  cfg_wechat_virtual_pay_app_key :: string

definition default_alipay_gateway :: "bool \<Rightarrow> string" where
  "default_alipay_gateway sandbox =
     (if sandbox then ''https://openapi-sandbox.dl.alipaydev.com/gateway.do''
      else ''https://openapi.alipay.com/gateway.do'')"

definition effective_alipay_gateway :: "payment_config \<Rightarrow> string" where
  "effective_alipay_gateway cfg =
     (let gateway = trim_space (cfg_alipay_gateway cfg)
      in if gateway \<noteq> '''' then gateway else default_alipay_gateway (cfg_alipay_sandbox cfg))"

record alipay_config_status =
  acs_configured :: bool
  acs_gateway :: string
  acs_notify_url :: string
  acs_return_url :: string
  acs_missing :: "string list"

definition alipay_runtime_config_status :: "payment_config \<Rightarrow> alipay_config_status" where
  "alipay_runtime_config_status cfg =
     (let base_url = trim_right_slashes (trim_space (cfg_app_base_url cfg));
          gateway = effective_alipay_gateway cfg;
          items = [(''ALIPAY_APP_ID'', trim_space (cfg_alipay_app_id cfg)),
            (''ALIPAY_PRIVATE_KEY'', trim_space (cfg_alipay_private_key cfg)),
            (''ALIPAY_PUBLIC_KEY'', trim_space (cfg_alipay_public_key cfg)),
            (''APP_BASE_URL'', base_url), (''ALIPAY_GATEWAY'', gateway)];
          missing = map fst (filter (\<lambda>(_, v). v = '''') items)
      in \<lparr>acs_configured = (missing = []), acs_gateway = gateway,
          acs_notify_url = (if base_url \<noteq> '''' then base_url @ ''/api/payments/alipay/notify'' else ''''),
          acs_return_url = (if base_url \<noteq> '''' then base_url @ ''/checkout/alipay/return'' else ''''),
          acs_missing = missing\<rparr>)"

definition alipay_payment_configured :: "payment_config \<Rightarrow> bool" where
  "alipay_payment_configured cfg = acs_configured (alipay_runtime_config_status cfg)"

section \<open>Library\<close>

record alipay_evidence_snapshot =
  aes_transaction_url :: string
  aes_ordered_at :: string
  aes_amount_cents :: int
  aes_product_title :: string
  aes_product_content :: string
  aes_package_credits :: int
  aes_valid_days :: int
  aes_receipt_name :: string
  aes_receipt_address :: string

text \<open>
  \<open>pl_verify\<close> is the RSA check of a signature: none for a key that cannot be read.
  \<open>pl_page_form\<close> is the signed form of \<^verbatim>\<open>buildAlipayPagePayForm\<close>, none
  when signing fails.
\<close>

record payment_library =
  pl_driver_text :: "string \<Rightarrow> string"
  pl_rfc3339 :: "time \<Rightarrow> string"
  pl_marshal_evidence :: "alipay_evidence_snapshot \<Rightarrow> string"
  pl_local_time :: "string \<Rightarrow> time option"
  pl_marshal_map :: "(string \<times> string) list \<Rightarrow> string"
  pl_base64 :: "string \<Rightarrow> string option"
  pl_verify :: "string \<Rightarrow> string \<Rightarrow> string \<Rightarrow> bool option"
  pl_page_form :: "payment_config \<Rightarrow> finance_order \<Rightarrow> string option"

record alipay_trade_query_result =
  atr_out_trade_no :: string
  atr_trade_no :: string
  atr_buyer_id :: string
  atr_trade_status :: string
  atr_total_amount :: string

definition empty_trade :: alipay_trade_query_result where
  "empty_trade = \<lparr>atr_out_trade_no = '''', atr_trade_no = '''', atr_buyer_id = '''',
     atr_trade_status = '''', atr_total_amount = ''''\<rparr>"

definition trade_paid :: "string \<Rightarrow> bool" where
  "trade_paid status \<longleftrightarrow> status = ''TRADE_SUCCESS'' \<or> status = ''TRADE_FINISHED''"

section \<open>The signed form of a notification\<close>

text \<open>Form values: every key with its values, each key once.\<close>

type_synonym form = "(string \<times> string list) list"

definition form_get :: "form \<Rightarrow> string \<Rightarrow> string" where
  "form_get vs k = (case map_of vs k of Some (v # _) \<Rightarrow> v | _ \<Rightarrow> '''')"

fun bytes_le :: "string \<Rightarrow> string \<Rightarrow> bool" where
  "bytes_le [] t = True"
| "bytes_le (c # cs) [] = False"
| "bytes_le (c # cs) (d # ds) = (byte_of c < byte_of d \<or> c = d \<and> bytes_le cs ds)"

fun insert_bytes :: "string \<Rightarrow> string list \<Rightarrow> string list" where
  "insert_bytes k [] = [k]"
| "insert_bytes k (x # xs) = (if bytes_le k x then k # x # xs else x # insert_bytes k xs)"

definition sorted_value_keys :: "form \<Rightarrow> string list" where
  "sorted_value_keys vs = foldr insert_bytes (map fst vs) []"

definition joined :: "string \<Rightarrow> string list \<Rightarrow> string" where
  "joined sep parts = (case parts of [] \<Rightarrow> '''' | p # ps \<Rightarrow> p @ concat (map (\<lambda>q. sep @ q) ps))"

definition alipay_sign_content :: "form \<Rightarrow> string list \<Rightarrow> string" where
  "alipay_sign_content vs excluded =
     joined ''&'' (map (\<lambda>k. k @ ''='' @ trim_space (form_get vs k))
       (filter (\<lambda>k. k \<notin> set excluded \<and> trim_space (form_get vs k) \<noteq> '''') (sorted_value_keys vs)))"

definition alipay_notify_sign_content :: "form \<Rightarrow> string" where
  "alipay_notify_sign_content vs = alipay_sign_content vs [''sign'', ''sign_type'']"

text \<open>
  \<^verbatim>\<open>strings.ToUpper\<close> on the bytes: ASCII letters, and the two letters outside ASCII
  whose capital is an ASCII letter (the dotless i and the long s).
\<close>

fun upper :: "string \<Rightarrow> string" where
  "upper [] = []"
| "upper (c # cs) =
     (if byte_of c = 0xC4 \<and> cs \<noteq> [] \<and> byte_of (hd cs) = 0xB1 then CHR ''I'' # upper (tl cs)
      else if byte_of c = 0xC5 \<and> cs \<noteq> [] \<and> byte_of (hd cs) = 0xBF then CHR ''S'' # upper (tl cs)
      else (if 97 \<le> byte_of c \<and> byte_of c \<le> 122 then char_of (byte_of c - 32) else c) # upper cs)"

text \<open>The code of the reason a notification is refused; none when it is genuine.\<close>

definition verify_alipay_notify :: "payment_library \<Rightarrow> payment_config \<Rightarrow> form \<Rightarrow> string option" where
  "verify_alipay_notify lib cfg vs =
     (if blank (cfg_alipay_app_id cfg) \<or> blank (cfg_alipay_public_key cfg) then Some ''alipay_not_configured''
      else if form_get vs ''app_id'' \<noteq> cfg_alipay_app_id cfg then Some ''app_id_mismatch''
      else if upper (form_get vs ''sign_type'') \<noteq> ''RSA2'' then Some ''unsupported_sign_type''
      else let signature_text = trim_space (form_get vs ''sign'') in
        if signature_text = '''' then Some ''missing_sign''
        else case pl_base64 lib signature_text of
          None \<Rightarrow> Some ''signature_decode_failed''
        | Some signature \<Rightarrow>
            (case pl_verify lib (cfg_alipay_public_key cfg) (alipay_notify_sign_content vs) signature of
               None \<Rightarrow> Some ''public_key_parse_failed''
             | Some ok \<Rightarrow> if ok then None else Some ''signature_verify_failed''))"

definition form_trade :: "form \<Rightarrow> alipay_trade_query_result" where
  "form_trade vs =
     \<lparr>atr_out_trade_no = form_get vs ''out_trade_no'', atr_trade_no = form_get vs ''trade_no'',
      atr_buyer_id = fallback_string (form_get vs ''buyer_id'') (form_get vs ''buyer_user_id''),
      atr_trade_status = form_get vs ''trade_status'', atr_total_amount = form_get vs ''total_amount''\<rparr>"

definition parse_alipay_notify_time :: "payment_library \<Rightarrow> string \<Rightarrow> time \<Rightarrow> time" where
  "parse_alipay_notify_time lib v now =
     (case pl_local_time lib (trim_space v) of Some t \<Rightarrow> t | None \<Rightarrow> now)"

text \<open>\<^verbatim>\<open>json.Marshal\<close> writes the keys of a map in order.\<close>

definition summarize_alipay_notify :: "payment_library \<Rightarrow> form \<Rightarrow> string" where
  "summarize_alipay_notify lib vs =
     pl_marshal_map lib [(''app_id'', form_get vs ''app_id''),
       (''buyer_id'', fallback_string (form_get vs ''buyer_id'') (form_get vs ''buyer_user_id'')),
       (''notify_time'', form_get vs ''notify_time''), (''out_trade_no'', form_get vs ''out_trade_no''),
       (''total_amount'', form_get vs ''total_amount''), (''trade_no'', form_get vs ''trade_no''),
       (''trade_status'', form_get vs ''trade_status'')]"

definition summarize_alipay_pay_request :: "finance_order \<Rightarrow> string" where
  "summarize_alipay_pay_request x =
     ''method=alipay.trade.page.pay,out_trade_no='' @ fo_number x @ '',total_amount='' @
     format_alipay_amount (fo_amount_cents x)"

definition summarize_alipay_query :: "alipay_trade_query_result \<Rightarrow> string" where
  "summarize_alipay_query r =
     ''out_trade_no='' @ atr_out_trade_no r @ '',trade_no='' @ atr_trade_no r @ '',trade_status='' @
     atr_trade_status r @ '',total_amount='' @ atr_total_amount r"

section \<open>Settling an order\<close>

definition alipay_settlement_record_source :: "string \<Rightarrow> string" where
  "alipay_settlement_record_source summary =
     (if summary = ''active_query'' \<or> summary = ''admin_sync'' then ''query'' else ''notify'')"

definition mark_payment_record_paid ::
  "string \<Rightarrow> finance_order \<Rightarrow> alipay_trade_query_result \<Rightarrow> time \<Rightarrow> string \<Rightarrow> payment_db \<Rightarrow>
     payment_error + payment_db" where
  "mark_payment_record_paid number x r paid_at summary =
     on_payment_record number x (\<lambda>_ p.
       let q = p\<lparr>pr_status := record_paid, pr_provider_trade_no := atr_trade_no r,
             pr_buyer_id := atr_buyer_id r, pr_paid_at := Some paid_at\<rparr>
       in if alipay_settlement_record_source summary = ''query'' then
            q\<lparr>pr_query_count := pr_query_count q + 1, pr_queried_at := Some paid_at,
              pr_query_summary := summarize_alipay_query r, pr_last_event := summary\<rparr>
          else q\<lparr>pr_notify_count := pr_notify_count q + 1, pr_notified_at := Some paid_at,
              pr_notify_summary := summary, pr_last_event := ''notify''\<rparr>)"

definition alipay_top_up_reason :: string where
  "alipay_top_up_reason = utf8 [230, 148, 175, 228, 187, 152, 229, 174, 157, 230, 148, 175, 228, 187, 152,
     229, 136, 176, 232, 180, 166]"

definition alipay_amount_message :: string where
  "alipay_amount_message = utf8 [230, 148, 175, 228, 187, 152, 229, 174, 157, 232, 174, 162, 229, 141, 149,
     233, 135, 145, 233, 162, 157, 228, 184, 141, 228, 184, 128, 232, 135, 180]"

text \<open>
  The credits of a paid order: the balance is raised first, the transaction is written
  unless the order has one.
\<close>

definition credit_alipay_order :: "finance_order \<Rightarrow> payment_db \<Rightarrow> int \<times> payment_db" where
  "credit_alipay_order x s =
     (let (b, s1) = first_or_create_balance (fo_user x) s;
          b1 = b\<lparr>bal_available := bal_available b + fo_package_credits x\<rparr>;
          s2 = save_balance b1 s1
      in (bal_available b1,
          if first_where (top_up_of (fo_id x)) (transactions s2) = None
          then insert_transaction (top_up_transaction alipay_top_up_reason x (bal_available b1)) s2
          else s2))"

definition alipay_paid_row :: "finance_order \<Rightarrow> alipay_trade_query_result \<Rightarrow> time \<Rightarrow> string \<Rightarrow> finance_order" where
  "alipay_paid_row x r paid_at summary =
     x\<lparr>fo_payment_status := status_paid, fo_paid_at := Some paid_at, fo_alipay_trade_no := atr_trade_no r,
       fo_alipay_buyer_id := atr_buyer_id r, fo_alipay_notify_at := Some paid_at,
       fo_raw_notification_summary := summary\<rparr>"

definition find_order :: "string \<Rightarrow> string \<Rightarrow> payment_db \<Rightarrow> finance_order option" where
  "find_order number pay_method s =
     first_where (\<lambda>x. fo_number x = number \<and> fo_payment_method x = pay_method) (fin_orders s)"

definition complete_alipay_order ::
  "string \<Rightarrow> string \<Rightarrow> alipay_trade_query_result \<Rightarrow> time \<Rightarrow> string \<Rightarrow> payment_db \<Rightarrow>
     payment_error + finance_order \<times> int \<times> payment_db" where
  "complete_alipay_order number order_number r paid_at summary s =
     (case find_order order_number method_alipay_page s of
        None \<Rightarrow> Inl PaymentRecordNotFound
      | Some x \<Rightarrow>
          if parse_alipay_amount_cents (atr_total_amount r) \<noteq> Some (fo_amount_cents x)
          then Inl AlipayAmountMismatch
          else settle_order credit_alipay_order AlipayInvalidStatus x
            (mark_payment_record_paid number x r paid_at summary) (trade_paid (atr_trade_status r))
            (alipay_paid_row x r paid_at summary) s)"

section \<open>The notes on the payment record\<close>

definition mark_alipay_notify_received ::
  "string \<Rightarrow> form \<Rightarrow> time \<Rightarrow> string \<Rightarrow> string \<Rightarrow> string \<Rightarrow> payment_db \<Rightarrow> payment_error + payment_db" where
  "mark_alipay_notify_received number vs notified_at summary error_code message s =
     (case find_order (form_get vs ''out_trade_no'') method_alipay_page s of
        None \<Rightarrow> Inl PaymentRecordNotFound
      | Some x \<Rightarrow>
          if error_code \<noteq> '''' then
            mark_payment_record_error number x error_code message summary notified_at ''notify'' s
          else let r = form_trade vs in
            on_payment_record number x (\<lambda>old p. p\<lparr>
              pr_status := (if atr_trade_status r = ''TRADE_CLOSED'' then record_closed else pr_status old),
              pr_notify_count := pr_notify_count p + 1, pr_notified_at := Some notified_at,
              pr_provider_trade_no := atr_trade_no r, pr_buyer_id := atr_buyer_id r,
              pr_last_event := ''notify'', pr_notify_summary := summary\<rparr>) s)"

definition mark_alipay_query_received ::
  "string \<Rightarrow> finance_order \<Rightarrow> alipay_trade_query_result \<Rightarrow> time \<Rightarrow> string \<Rightarrow> string \<Rightarrow> payment_db \<Rightarrow>
     payment_error + payment_db" where
  "mark_alipay_query_received number x r queried_at error_code message s =
     (let summary = summarize_alipay_query r in
      if error_code \<noteq> '''' then
        mark_payment_record_error number x error_code message summary queried_at ''query'' s
      else on_payment_record number x (\<lambda>_ p. p\<lparr>pr_query_count := pr_query_count p + 1,
        pr_queried_at := Some queried_at, pr_provider_trade_no := atr_trade_no r,
        pr_buyer_id := atr_buyer_id r, pr_last_event := ''active_query'', pr_query_summary := summary\<rparr>) s)"

section \<open>Requests\<close>

definition virtual_receipt_address :: string where
  "virtual_receipt_address = utf8 [232, 153, 154, 230, 139, 159, 229, 149, 134, 229, 147, 129, 231, 186, 191,
     228, 184, 138, 228, 186, 164, 228, 187, 152, 239, 188, 140, 230, 148, 175, 228, 187, 152, 230, 136, 144,
     229, 138, 159, 229, 144, 142, 231, 130, 185, 230, 149, 176, 229, 143, 145, 230, 148, 190, 232, 135, 179,
     229, 189, 147, 229, 137, 141, 232, 180, 166, 230, 136, 183, 239, 188, 140, 230, 151, 160, 233, 156, 128,
     231, 137, 169, 230, 181, 129]"

definition build_alipay_evidence_snapshot ::
  "payment_library \<Rightarrow> string \<Rightarrow> time \<Rightarrow> payment_user \<Rightarrow> credit_package \<Rightarrow> alipay_evidence_snapshot" where
  "build_alipay_evidence_snapshot lib base_url ordered_at u p =
     \<lparr>aes_transaction_url = trim_right_slashes base_url @ ''/pricing'',
      aes_ordered_at = pl_rfc3339 lib ordered_at, aes_amount_cents = pkg_price_cents p,
      aes_product_title = pkg_name p,
      aes_product_content = pkg_description p @ utf8 [239, 188, 140] @ show_int (pkg_credits p) @
        utf8 [32, 231, 130, 185, 239, 188, 140, 230, 156, 137, 230, 149, 136, 230, 156, 159, 32] @
        show_int (pkg_valid_days p) @ utf8 [32, 229, 164, 169],
      aes_package_credits = pkg_credits p, aes_valid_days = pkg_valid_days p,
      aes_receipt_name = fallback_string (usr_display_name u) (fallback_string (usr_email u) (usr_username u)),
      aes_receipt_address = virtual_receipt_address\<rparr>"

text \<open>A pending order of a package, before the columns of its payment method are set.\<close>

definition pending_order ::
  "string \<Rightarrow> payment_user \<Rightarrow> credit_package \<Rightarrow> string \<Rightarrow> string \<Rightarrow> string \<Rightarrow> time \<Rightarrow> finance_order" where
  "pending_order order_number u p pay_method ip url now =
     \<lparr>fo_id = 0, fo_number = order_number, fo_user = usr_id u, fo_purchase_intent = None,
      fo_package = pkg_id p, fo_package_name = pkg_name p, fo_package_credits = pkg_credits p,
      fo_amount_cents = pkg_price_cents p, fo_order_type = finance_order_type_package,
      fo_payment_method = pay_method, fo_payment_status = status_pending,
      fo_invoice_status = ''pending'', fo_paid_at = None, fo_alipay_trade_no = '''',
      fo_alipay_buyer_id = '''', fo_wechat_transaction_id = '''', fo_wechat_open_id = '''',
      fo_wechat_virtual_product_id = '''', fo_ip_address = ip, fo_payment_request_at = None,
      fo_alipay_notify_at = None, fo_wechat_notify_at = None, fo_transaction_url = url,
      fo_evidence_snapshot = '''', fo_raw_notification_summary = '''', fo_created_at = now\<rparr>"

definition alipay_new_order ::
  "payment_library \<Rightarrow> payment_config \<Rightarrow> string \<Rightarrow> payment_user \<Rightarrow> credit_package \<Rightarrow> string \<Rightarrow> time \<Rightarrow>
     finance_order" where
  "alipay_new_order lib cfg order_number u p ip now =
     (let snapshot = build_alipay_evidence_snapshot lib (cfg_app_base_url cfg) now u p
      in (pending_order order_number u p method_alipay_page ip (aes_transaction_url snapshot) now)
           \<lparr>fo_evidence_snapshot := pl_marshal_evidence lib snapshot\<rparr>)"

definition handle_create_alipay_order ::
  "payment_library \<Rightarrow> payment_config \<Rightarrow> payment_user \<Rightarrow> http_source \<Rightarrow> uid option \<Rightarrow> string \<Rightarrow> string \<Rightarrow>
     payment_db \<Rightarrow> payment_reply \<times> payment_db" where
  "handle_create_alipay_order lib cfg u source body order_number payment_number s =
     (if \<not> has_bound_phone u then (Reply 409 (ErrorCode ''phone_binding_required''), s)
      else if body = None \<or> body = Some 0 then (Reply 400 (ErrorCode ''invalid_package''), s)
      else case active_package (the body) s of
        None \<Rightarrow> (Reply 404 (ErrorCode ''package_not_found''), s)
      | Some p \<Rightarrow>
          let now = clock s; s1 = expire_stale_pending_finance_orders now s in
          (case reusable_pending_finance_order (usr_id u) (pkg_id p) method_alipay_page now s1 of
             Some x \<Rightarrow> (Reply 200 (OrderBody x), s1)
           | None \<Rightarrow>
               let ip = source_ip_address source in
               (case enforce_payment_order_rate_limit (usr_id u) ip now s1 of
                  Some refusal \<Rightarrow> (refusal, s1)
                | None \<Rightarrow>
                    (case create_order payment_number (alipay_new_order lib cfg order_number u p ip now) s1 of
                       Inl _ \<Rightarrow> (Reply 500 (ErrorCode ''alipay_order_create_failed''), s1)
                     | Inr (x, s2) \<Rightarrow> (Reply 201 (OrderBody x), s2)))))"

definition find_owned_alipay_order ::
  "payment_user \<Rightarrow> string \<Rightarrow> payment_db \<Rightarrow> finance_order option \<times> payment_db" where
  "find_owned_alipay_order u order_number s =
     (let s1 = expire_stale_pending_finance_orders (clock s) s
      in (first_where (\<lambda>x. fo_number x = order_number \<and> fo_user x = usr_id u \<and>
            fo_payment_method x = method_alipay_page) (fin_orders s1), s1))"

definition alipay_order_not_found :: payment_reply where
  "alipay_order_not_found = Reply 404 (ErrorCode ''alipay_order_not_found'')"

definition handle_get_alipay_order ::
  "payment_user \<Rightarrow> string \<Rightarrow> payment_db \<Rightarrow> payment_reply \<times> payment_db" where
  "handle_get_alipay_order u order_number s =
     (case find_owned_alipay_order u order_number s of
        (None, s1) \<Rightarrow> (alipay_order_not_found, s1)
      | (Some x, s1) \<Rightarrow> (Reply 200 (OrderBody x), s1))"

definition request_payment ::
  "string \<Rightarrow> finance_order \<Rightarrow> time \<Rightarrow> string \<Rightarrow> payment_db \<Rightarrow> payment_error + payment_db" where
  "request_payment number x now summary s =
     mark_payment_record_requested number x now summary
       (update_orders (\<lambda>y. fo_id y = fo_id x) (\<lambda>y. y\<lparr>fo_payment_request_at := Some now\<rparr>) s)"

definition handle_pay_alipay_order ::
  "payment_library \<Rightarrow> payment_config \<Rightarrow> payment_user \<Rightarrow> string \<Rightarrow> string \<Rightarrow> payment_db \<Rightarrow>
     payment_reply \<times> payment_db" where
  "handle_pay_alipay_order lib cfg u order_number number s =
     (case find_owned_alipay_order u order_number s of
        (None, s1) \<Rightarrow> (alipay_order_not_found, s1)
      | (Some x, s1) \<Rightarrow>
          if fo_payment_status x = status_expired then (Reply 409 (ErrorCode ''payment_order_expired''), s1)
          else if fo_payment_status x = status_paid then
            (Reply 200 (OrderForm x ''''), attempt (ensure_payment_record number x) s1)
          else if \<not> alipay_payment_configured cfg then (Reply 503 (ErrorCode ''alipay_not_configured''), s1)
          else case pl_page_form lib cfg x of
            None \<Rightarrow> (Reply 500 (ErrorCode ''alipay_pay_failed''), s1)
          | Some html \<Rightarrow>
              (case request_payment number x (clock s1) (summarize_alipay_pay_request x) s1 of
                 Inl _ \<Rightarrow> (Reply 500 (ErrorCode ''alipay_pay_failed''), s1)
               | Inr s2 \<Rightarrow>
                   (Reply 200 (OrderForm (x\<lparr>fo_payment_request_at := Some (clock s1)\<rparr>) html), s2)))"

text \<open>
  The provider's notification. A reply other than \<^verbatim>\<open>success\<close> makes the provider
  send it again. The two payment numbers are for the two transactions of the request.
\<close>

definition handle_alipay_notify ::
  "payment_library \<Rightarrow> payment_config \<Rightarrow> form \<Rightarrow> string \<Rightarrow> string \<Rightarrow> payment_db \<Rightarrow> payment_reply \<times> payment_db" where
  "handle_alipay_notify lib cfg vs number1 number2 s =
     (if verify_alipay_notify lib cfg vs \<noteq> None then (Reply 400 (PlainBody ''failure''), s)
      else
        let notified_at = parse_alipay_notify_time lib (form_get vs ''notify_time'') (clock s);
            summary = summarize_alipay_notify lib vs
        in if \<not> trade_paid (form_get vs ''trade_status'') then
             (Reply 200 (PlainBody ''success''),
              attempt (mark_alipay_notify_received number1 vs notified_at summary '''' '''') s)
           else case complete_alipay_order number1 (form_get vs ''out_trade_no'') (form_trade vs)
                  notified_at summary s of
             Inr (_, _, s1) \<Rightarrow> (Reply 200 (PlainBody ''success''), s1)
           | Inl e \<Rightarrow>
               (Reply 400 (PlainBody ''failure''),
                if e = AlipayAmountMismatch then
                  attempt (mark_alipay_notify_received number2 vs notified_at summary
                    ''alipay_amount_mismatch'' alipay_amount_message) s
                else s))"

text \<open>A trade found closed fails the order if it is still pending.\<close>

definition close_alipay_order ::
  "string \<Rightarrow> finance_order \<Rightarrow> alipay_trade_query_result \<Rightarrow> time \<Rightarrow> payment_db \<Rightarrow> payment_error + payment_db" where
  "close_alipay_order number x r query_at s =
     mark_payment_record_closed number x query_at (summarize_alipay_query r) (close_pending (fo_id x) s)"

text \<open>
  The part the user's query and the administration's synchronisation share, once the order is
  loaded: the answer is the provider's, or the text of the error of asking it. Each of the numbers
  is for one transaction of the request.
\<close>

definition sync_alipay_order ::
  "payment_library \<Rightarrow> payment_config \<Rightarrow> string \<Rightarrow> finance_order \<Rightarrow> string + alipay_trade_query_result \<Rightarrow>
     (nat \<Rightarrow> string) \<Rightarrow> payment_db \<Rightarrow> payment_reply \<times> payment_db" where
  "sync_alipay_order lib cfg summary x answer numbers s =
     (let s1 = attempt (ensure_payment_record (numbers 0) x) s;
          now = clock s in
      if fo_payment_status x = status_paid then
        (Reply 200 (OrderCredits x (current_available_credits (fo_user x) s1)), s1)
      else if \<not> alipay_payment_configured cfg then (Reply 503 (ErrorCode ''alipay_not_configured''), s1)
      else case answer of
        Inl text \<Rightarrow>
          (Reply 502 (ErrorCode ''alipay_query_failed''),
           attempt (mark_alipay_query_received (numbers 1) x empty_trade now ''alipay_query_failed''
             (safe_payment_error text)) s1)
      | Inr r \<Rightarrow>
          if atr_out_trade_no r \<noteq> '''' \<and> atr_out_trade_no r \<noteq> fo_number x then
            (Reply 502 (ErrorCode ''alipay_query_mismatch''),
             attempt (mark_alipay_query_received (numbers 1) x r now ''alipay_query_mismatch''
               ''out_trade_no mismatch'') s1)
          else if \<not> trade_paid (atr_trade_status r) then
            let s2 = attempt (mark_alipay_query_received (numbers 1) x r now '''' '''') s1 in
            if atr_trade_status r = ''TRADE_CLOSED'' then
              let s3 = attempt (close_alipay_order (numbers 2) x r now) s2
              in (Reply 200 (OrderCredits (x\<lparr>fo_payment_status := status_failed\<rparr>)
                    (current_available_credits (fo_user x) s3)), s3)
            else (Reply 200 (OrderCredits x (current_available_credits (fo_user x) s2)), s2)
          else case complete_alipay_order (numbers 1) (fo_number x) r now summary s1 of
            Inr (y, available, s2) \<Rightarrow> (Reply 200 (OrderCredits y available), s2)
          | Inl e \<Rightarrow>
              if e = AlipayAmountMismatch then
                (Reply 502 (ErrorCode ''alipay_amount_mismatch''),
                 attempt (mark_alipay_query_received (numbers 2) x r now ''alipay_amount_mismatch''
                   alipay_amount_message) s1)
              else
                (Reply 500 (ErrorCode ''alipay_credit_failed''),
                 attempt (mark_alipay_query_received (numbers 2) x r now ''alipay_credit_failed''
                   (safe_payment_error (payment_error_text (pl_driver_text lib) e))) s1))"

definition handle_query_alipay_order ::
  "payment_library \<Rightarrow> payment_config \<Rightarrow> payment_user \<Rightarrow> string \<Rightarrow> string + alipay_trade_query_result \<Rightarrow>
     (nat \<Rightarrow> string) \<Rightarrow> payment_db \<Rightarrow> payment_reply \<times> payment_db" where
  "handle_query_alipay_order lib cfg u order_number answer numbers s =
     (case find_owned_alipay_order u order_number s of
        (None, s1) \<Rightarrow> (alipay_order_not_found, s1)
      | (Some x, s1) \<Rightarrow> sync_alipay_order lib cfg ''active_query'' x answer numbers s1)"

text \<open>The audit entry of a successful synchronisation is not kept.\<close>

definition handle_admin_sync_finance_order_payment ::
  "payment_library \<Rightarrow> payment_config \<Rightarrow> uid \<Rightarrow> string + alipay_trade_query_result \<Rightarrow>
     (nat \<Rightarrow> string) \<Rightarrow> payment_db \<Rightarrow> payment_reply \<times> payment_db" where
  "handle_admin_sync_finance_order_payment lib cfg k answer numbers s =
     (case first_where (\<lambda>x. fo_id x = k) (fin_orders s) of
        None \<Rightarrow> (Reply 404 (ErrorCode ''finance_order_not_found''), s)
      | Some x \<Rightarrow>
          if fo_payment_method x \<noteq> method_alipay_page then
            (Reply 409 (ErrorCode ''finance_order_sync_unsupported''), s)
          else sync_alipay_order lib cfg ''admin_sync'' x answer numbers s)"

section \<open>Refunds\<close>

definition is_known_finance_refund_status :: "string \<Rightarrow> bool" where
  "is_known_finance_refund_status t \<longleftrightarrow>
     t \<in> {''pending'', ''processing'', ''approved'', ''rejected'', ''completed''}"

definition is_terminal_finance_refund_status :: "string \<Rightarrow> bool" where
  "is_terminal_finance_refund_status t \<longleftrightarrow> t = ''rejected'' \<or> t = ''completed''"

definition save_refund :: "finance_refund \<Rightarrow> payment_db \<Rightarrow> payment_db" where
  "save_refund r s = s\<lparr>fin_refunds := update_where (\<lambda>q. rfd_id q = rfd_id r) (\<lambda>_. r) (fin_refunds s)\<rparr>"

definition apply_refund :: "finance_refund \<Rightarrow> string \<Rightarrow> payment_db \<Rightarrow> payment_error + payment_db" where
  "apply_refund r status s =
     (let s1 = save_refund r s in
      if status = ''completed'' then
        (case first_where (\<lambda>x. fo_id x = rfd_order r) (fin_orders s1) of
           None \<Rightarrow> Inl PaymentRecordNotFound
         | Some x \<Rightarrow>
             if rfd_amount_cents r \<ge> fo_amount_cents x
             then Inr (update_orders (\<lambda>y. fo_id y = fo_id x) (\<lambda>y. y\<lparr>fo_payment_status := status_refunded\<rparr>) s1)
             else Inr s1)
      else Inr s1)"

definition handle_update_finance_refund ::
  "uid \<Rightarrow> string option \<Rightarrow> payment_db \<Rightarrow> payment_reply \<times> payment_db" where
  "handle_update_finance_refund k body s =
     (case body of
        None \<Rightarrow> (Reply 400 (ErrorCode ''invalid_request''), s)
      | Some raw \<Rightarrow>
          let status = trim_space raw in
          if \<not> is_known_finance_refund_status status then (Reply 400 (ErrorCode ''invalid_status''), s)
          else case first_where (\<lambda>r. rfd_id r = k) (fin_refunds s) of
            None \<Rightarrow> (Reply 404 (ErrorCode ''finance_refund_not_found''), s)
          | Some old \<Rightarrow>
              let r = old\<lparr>rfd_status := status, rfd_processed_at :=
                    (if is_terminal_finance_refund_status status \<and> rfd_processed_at old = None
                     then Some (clock s) else rfd_processed_at old)\<rparr>
              in (case apply_refund r status s of
                    Inl _ \<Rightarrow> (Reply 500 (ErrorCode ''finance_refund_save_failed''), s)
                  | Inr s1 \<Rightarrow> (Reply 200 (RefundBody r), s1)))"

end
