(* ===== verification/WechatPay.thy ===== *)
theory WechatPay
  imports Alipay
begin

text \<open>
  Payment by WeChat (\<^verbatim>\<open>wechat_handlers.go\<close>): orders paid in the mini program
  (JSAPI) with their query and notification, and orders of virtual goods, which are confirmed by a
  query and, when an order is renewed, synchronised first. Each request is answered by
  what the WeChat services say: arguments. Signing in and binding a phone are not modelled.
\<close>

section \<open>Configuration and library\<close>

definition wechat_pay_configured :: "payment_config \<Rightarrow> bool" where
  "wechat_pay_configured cfg \<longleftrightarrow>
     \<not> blank (cfg_wechat_pay_app_id cfg) \<and> \<not> blank (cfg_wechat_pay_mch_id cfg) \<and>
     \<not> blank (cfg_wechat_pay_mch_cert_serial_no cfg) \<and>
     (\<not> blank (cfg_wechat_pay_mch_private_key cfg) \<or> \<not> blank (cfg_wechat_pay_mch_private_key_path cfg)) \<and>
     \<not> blank (cfg_wechat_pay_apiv3_key cfg)"

definition wechat_virtual_pay_app_key_for_config :: "payment_config \<Rightarrow> string" where
  "wechat_virtual_pay_app_key_for_config cfg =
     (if cfg_wechat_virtual_pay_env cfg = 1 then trim_space (cfg_wechat_virtual_pay_sandbox_app_key cfg)
      else trim_space (cfg_wechat_virtual_pay_app_key cfg))"

definition wechat_virtual_pay_configured :: "payment_config \<Rightarrow> bool" where
  "wechat_virtual_pay_configured cfg \<longleftrightarrow>
     \<not> blank (cfg_wechat_pay_app_id cfg) \<and> \<not> blank (cfg_wechat_app_secret cfg) \<and>
     \<not> blank (cfg_wechat_virtual_pay_offer_id cfg) \<and>
     \<not> blank (wechat_virtual_pay_app_key_for_config cfg)"

record wechat_session =
  ws_open_id :: string
  ws_session_key :: string

record wechat_pay_query_result =
  wqr_app_id :: string
  wqr_mch_id :: string
  wqr_out_trade_no :: string
  wqr_transaction_id :: string
  wqr_trade_state :: string
  wqr_payer_open_id :: string
  wqr_amount_cents :: int
  wqr_success_time :: time

record wechat_virtual_pay_query_result =
  wvr_order_id :: string
  wvr_wx_order_id :: string
  wvr_wxpay_order_id :: string
  wvr_channel_order_id :: string
  wvr_status :: int
  wvr_open_id :: string
  wvr_order_fee :: int
  wvr_paid_fee :: int
  wvr_paid_time :: int

record wechat_virtual_sign_data =
  wsd_offer_id :: string
  wsd_buy_quantity :: int
  wsd_currency_type :: string
  wsd_product_id :: string
  wsd_goods_price :: int
  wsd_out_trade_no :: string
  wsd_attach :: string
  wsd_env :: int

record wechat_notify_request =
  wnr_timestamp :: string
  wnr_nonce :: string
  wnr_signature :: string
  wnr_body :: string

text \<open>
  \<open>wl_parse_notify\<close> decrypts the resource of a notification under the merchant's key
  and reads it.
\<close>

record wechat_library = payment_library +
  wl_marshal_sign_data :: "wechat_virtual_sign_data \<Rightarrow> string + string"
  wl_hmac_sha256_hex :: "string \<Rightarrow> string \<Rightarrow> string"
  wl_parse_notify :: "string \<Rightarrow> string \<Rightarrow> wechat_pay_query_result option"
  wl_sanitize_log :: "string \<Rightarrow> string"

definition empty_wechat_result :: wechat_pay_query_result where
  "empty_wechat_result = \<lparr>wqr_app_id = '''', wqr_mch_id = '''', wqr_out_trade_no = '''',
     wqr_transaction_id = '''', wqr_trade_state = '''', wqr_payer_open_id = '''', wqr_amount_cents = 0,
     wqr_success_time = 0\<rparr>"

definition empty_virtual_result :: wechat_virtual_pay_query_result where
  "empty_virtual_result = \<lparr>wvr_order_id = '''', wvr_wx_order_id = '''', wvr_wxpay_order_id = '''',
     wvr_channel_order_id = '''', wvr_status = 0, wvr_open_id = '''', wvr_order_fee = 0, wvr_paid_fee = 0,
     wvr_paid_time = 0\<rparr>"

section \<open>The status of a virtual order\<close>

abbreviation "virtual_initialized \<equiv> 0 :: int"
abbreviation "virtual_created \<equiv> 1 :: int"
abbreviation "virtual_paid_pending_delivery \<equiv> 2 :: int"
abbreviation "virtual_delivering \<equiv> 3 :: int"
abbreviation "virtual_delivered \<equiv> 4 :: int"
abbreviation "virtual_refunded \<equiv> 5 :: int"
abbreviation "virtual_closed \<equiv> 6 :: int"
abbreviation "virtual_refund_failed \<equiv> 7 :: int"
abbreviation "virtual_user_refunded \<equiv> 8 :: int"

definition is_wechat_virtual_order_pending :: "int \<Rightarrow> bool" where
  "is_wechat_virtual_order_pending status \<longleftrightarrow> status = virtual_initialized \<or> status = virtual_created"

definition is_wechat_virtual_order_paid :: "int \<Rightarrow> bool" where
  "is_wechat_virtual_order_paid status \<longleftrightarrow>
     status = virtual_paid_pending_delivery \<or> status = virtual_delivering \<or> status = virtual_delivered"

definition virtual_closed_message :: string where
  "virtual_closed_message = utf8 [229, 190, 174, 228, 191, 161, 232, 153, 154, 230, 139, 159, 230, 148, 175,
     228, 187, 152, 232, 174, 162, 229, 141, 149, 229, 183, 178, 229, 133, 179, 233, 151, 173]"

definition virtual_refunded_message :: string where
  "virtual_refunded_message = utf8 [229, 190, 174, 228, 191, 161, 232, 153, 154, 230, 139, 159, 230, 148, 175,
     228, 187, 152, 232, 174, 162, 229, 141, 149, 229, 183, 178, 233, 128, 128, 230, 172, 190]"

definition virtual_refund_failed_message :: string where
  "virtual_refund_failed_message = utf8 [229, 190, 174, 228, 191, 161, 232, 153, 154, 230, 139, 159, 230, 148,
     175, 228, 187, 152, 232, 174, 162, 229, 141, 149, 233, 128, 128, 230, 172, 190, 229, 164, 177, 232, 180,
     165]"

definition wechat_virtual_terminal_error :: "int \<Rightarrow> (string \<times> string) option" where
  "wechat_virtual_terminal_error status =
     (if status = virtual_closed then Some (''wechat_virtual_order_closed'', virtual_closed_message)
      else if status = virtual_refunded \<or> status = virtual_user_refunded
        then Some (''wechat_virtual_order_refunded'', virtual_refunded_message)
      else if status = virtual_refund_failed
        then Some (''wechat_virtual_refund_failed'', virtual_refund_failed_message)
      else None)"

text \<open>The terminal states in which no money is held: the order may be replaced.\<close>

definition virtual_order_void :: "int \<Rightarrow> bool" where
  "virtual_order_void status \<longleftrightarrow>
     status = virtual_closed \<or> status = virtual_refunded \<or> status = virtual_user_refunded"

definition is_wechat_virtual_order_closed_reason :: "string \<Rightarrow> bool" where
  "is_wechat_virtual_order_closed_reason reason \<longleftrightarrow> sublist ''ORDER_CLOSED'' (upper (trim_space reason))"

definition wechat_virtual_trade_no :: "wechat_virtual_pay_query_result \<Rightarrow> finance_order \<Rightarrow> string" where
  "wechat_virtual_trade_no r x =
     (if \<not> blank (wvr_wxpay_order_id r) then trim_space (wvr_wxpay_order_id r)
      else if \<not> blank (wvr_wx_order_id r) then trim_space (wvr_wx_order_id r)
      else if \<not> blank (wvr_channel_order_id r) then trim_space (wvr_channel_order_id r)
      else ''virtual:'' @ fo_number x)"

definition summarize_wechat_query :: "wechat_pay_query_result \<Rightarrow> string" where
  "summarize_wechat_query r =
     ''out_trade_no='' @ wqr_out_trade_no r @ '',transaction_id='' @ wqr_transaction_id r @
     '',trade_state='' @ wqr_trade_state r @ '',total='' @ show_int (wqr_amount_cents r)"

definition summarize_wechat_virtual_query :: "wechat_virtual_pay_query_result \<Rightarrow> string" where
  "summarize_wechat_virtual_query r =
     ''order_id='' @ wvr_order_id r @ '',wx_order_id='' @ wvr_wx_order_id r @ '',wxpay_order_id='' @
     wvr_wxpay_order_id r @ '',status='' @ show_int (wvr_status r) @ '',order_fee='' @
     show_int (wvr_order_fee r) @ '',paid_fee='' @ show_int (wvr_paid_fee r) @ '',openid='' @ wvr_open_id r"

definition summarize_wechat_virtual_notify :: "wechat_virtual_pay_query_result \<Rightarrow> string" where
  "summarize_wechat_virtual_notify r =
     ''method=xpay.notify_provide_goods,order_id='' @ wvr_order_id r @ '',wx_order_id='' @
     wvr_wx_order_id r @ '',status='' @ show_int (wvr_status r)"

section \<open>Settling an order\<close>

definition wechat_top_up_reason :: string where
  "wechat_top_up_reason = utf8 [229, 190, 174, 228, 191, 161, 230, 148, 175, 228, 187, 152, 229, 136, 176,
     232, 180, 166]"

definition wechat_virtual_top_up_reason :: string where
  "wechat_virtual_top_up_reason = utf8 [229, 190, 174, 228, 191, 161, 232, 153, 154, 230, 139, 159, 230, 148,
     175, 228, 187, 152, 229, 136, 176, 232, 180, 166]"

definition wechat_amount_message :: string where
  "wechat_amount_message = utf8 [229, 190, 174, 228, 191, 161, 230, 148, 175, 228, 187, 152, 232, 174, 162,
     229, 141, 149, 233, 135, 145, 233, 162, 157, 228, 184, 141, 228, 184, 128, 232, 135, 180]"

definition wechat_virtual_amount_message :: string where
  "wechat_virtual_amount_message = utf8 [229, 190, 174, 228, 191, 161, 232, 153, 154, 230, 139, 159, 230, 148,
     175, 228, 187, 152, 232, 174, 162, 229, 141, 149, 233, 135, 145, 233, 162, 157, 228, 184, 141, 228, 184,
     128, 232, 135, 180]"

definition wechat_virtual_status_message :: string where
  "wechat_virtual_status_message = utf8 [229, 190, 174, 228, 191, 161, 232, 153, 154, 230, 139, 159, 230, 148,
     175, 228, 187, 152, 232, 174, 162, 229, 141, 149, 231, 138, 182, 230, 128, 129, 228, 184, 141, 229, 143,
     175, 229, 136, 176, 232, 180, 166]"

text \<open>Here the balance is raised only with the transaction.\<close>

definition credit_wechat_order :: "string \<Rightarrow> finance_order \<Rightarrow> payment_db \<Rightarrow> int \<times> payment_db" where
  "credit_wechat_order reason x s =
     (let (b, s1) = first_or_create_balance (fo_user x) s in
      if first_where (top_up_of (fo_id x)) (transactions s1) = None then
        let b1 = b\<lparr>bal_available := bal_available b + fo_package_credits x\<rparr>; s2 = save_balance b1 s1
        in (bal_available b1, insert_transaction (top_up_transaction reason x (bal_available b1)) s2)
      else (bal_available b, s1))"

definition mark_wechat_payment_record_paid ::
  "string \<Rightarrow> finance_order \<Rightarrow> wechat_pay_query_result \<Rightarrow> time \<Rightarrow> string \<Rightarrow> payment_db \<Rightarrow>
     payment_error + payment_db" where
  "mark_wechat_payment_record_paid number x r paid_at summary =
     on_payment_record number x (\<lambda>_ p.
       let q = p\<lparr>pr_status := record_paid, pr_provider_trade_no := wqr_transaction_id r,
             pr_buyer_id := wqr_payer_open_id r, pr_paid_at := Some paid_at,
             pr_last_error_code := '''', pr_last_error_message := ''''\<rparr>
       in if summary = ''active_query'' then
            q\<lparr>pr_query_count := pr_query_count q + 1, pr_queried_at := Some paid_at,
              pr_query_summary := summarize_wechat_query r, pr_last_event := ''active_query''\<rparr>
          else q\<lparr>pr_notify_count := pr_notify_count q + 1, pr_notified_at := Some paid_at,
              pr_notify_summary := summary, pr_last_event := ''notify''\<rparr>)"

definition wechat_paid_row :: "finance_order \<Rightarrow> wechat_pay_query_result \<Rightarrow> time \<Rightarrow> string \<Rightarrow> finance_order" where
  "wechat_paid_row x r paid_at summary =
     x\<lparr>fo_payment_status := status_paid, fo_paid_at := Some paid_at,
       fo_wechat_transaction_id := wqr_transaction_id r,
       fo_wechat_open_id := fallback_string (wqr_payer_open_id r) (fo_wechat_open_id x),
       fo_wechat_notify_at := Some paid_at, fo_raw_notification_summary := summary\<rparr>"

definition complete_wechat_order ::
  "payment_config \<Rightarrow> string \<Rightarrow> string \<Rightarrow> wechat_pay_query_result \<Rightarrow> time \<Rightarrow> string \<Rightarrow> payment_db \<Rightarrow>
     payment_error + finance_order \<times> int \<times> payment_db" where
  "complete_wechat_order cfg number order_number r paid_at summary s =
     (case find_order order_number method_wechat_jsapi s of
        None \<Rightarrow> Inl PaymentRecordNotFound
      | Some x \<Rightarrow>
          if wqr_amount_cents r \<noteq> fo_amount_cents x then Inl WechatAmountMismatch
          else if wqr_app_id r \<noteq> '''' \<and> wqr_app_id r \<noteq> cfg_wechat_pay_app_id cfg
            then Inl (PaymentText ''wechat app_id mismatch'')
          else if wqr_mch_id r \<noteq> '''' \<and> wqr_mch_id r \<noteq> cfg_wechat_pay_mch_id cfg
            then Inl (PaymentText ''wechat mch_id mismatch'')
          else if wqr_payer_open_id r \<noteq> '''' \<and> fo_wechat_open_id x \<noteq> '''' \<and>
              wqr_payer_open_id r \<noteq> fo_wechat_open_id x
            then Inl (PaymentText ''wechat openid mismatch'')
          else settle_order (credit_wechat_order wechat_top_up_reason) WechatInvalidStatus x
            (mark_wechat_payment_record_paid number x r paid_at summary) (wqr_trade_state r = ''SUCCESS'')
            (wechat_paid_row x r paid_at summary) s)"

definition mark_wechat_virtual_payment_record_paid ::
  "string \<Rightarrow> finance_order \<Rightarrow> wechat_virtual_pay_query_result \<Rightarrow> time \<Rightarrow> string \<Rightarrow> payment_db \<Rightarrow>
     payment_error + payment_db" where
  "mark_wechat_virtual_payment_record_paid number x r paid_at summary =
     on_payment_record number x (\<lambda>_ p. p\<lparr>pr_status := record_paid,
       pr_provider_trade_no := wechat_virtual_trade_no r x,
       pr_buyer_id := fallback_string (wvr_open_id r) (fo_wechat_open_id x), pr_paid_at := Some paid_at,
       pr_query_count := pr_query_count p + 1, pr_queried_at := Some paid_at, pr_query_summary := summary,
       pr_last_event := ''virtual_confirm'', pr_last_error_code := '''', pr_last_error_message := ''''\<rparr>)"

definition virtual_paid_row ::
  "finance_order \<Rightarrow> wechat_virtual_pay_query_result \<Rightarrow> time \<Rightarrow> string \<Rightarrow> finance_order" where
  "virtual_paid_row x r paid_at summary =
     x\<lparr>fo_payment_status := status_paid, fo_paid_at := Some paid_at,
       fo_wechat_transaction_id := wechat_virtual_trade_no r x,
       fo_wechat_open_id := fallback_string (wvr_open_id r) (fo_wechat_open_id x),
       fo_wechat_notify_at := Some paid_at, fo_raw_notification_summary := summary\<rparr>"

definition complete_wechat_virtual_order ::
  "string \<Rightarrow> string \<Rightarrow> wechat_virtual_pay_query_result \<Rightarrow> time \<Rightarrow> string \<Rightarrow> payment_db \<Rightarrow>
     payment_error + finance_order \<times> int \<times> payment_db" where
  "complete_wechat_virtual_order number order_number r paid_at summary s =
     (case find_order order_number method_wechat_virtual_goods s of
        None \<Rightarrow> Inl PaymentRecordNotFound
      | Some x \<Rightarrow>
          if wvr_order_fee r \<noteq> fo_amount_cents x \<or> wvr_paid_fee r \<noteq> fo_amount_cents x
          then Inl WechatAmountMismatch
          else if wvr_open_id r \<noteq> '''' \<and> fo_wechat_open_id x \<noteq> '''' \<and> wvr_open_id r \<noteq> fo_wechat_open_id x
          then Inl WechatOpenIDMismatch
          else settle_order (credit_wechat_order wechat_virtual_top_up_reason) WechatInvalidStatus x
            (mark_wechat_virtual_payment_record_paid number x r paid_at summary)
            (is_wechat_virtual_order_paid (wvr_status r)) (virtual_paid_row x r paid_at summary) s)"

section \<open>The notes on the payment record\<close>

definition mark_wechat_virtual_query_received ::
  "string \<Rightarrow> finance_order \<Rightarrow> wechat_virtual_pay_query_result \<Rightarrow> time \<Rightarrow> string \<Rightarrow> string \<Rightarrow> payment_db \<Rightarrow>
     payment_error + payment_db" where
  "mark_wechat_virtual_query_received number x r queried_at error_code message s =
     (let summary = summarize_wechat_virtual_query r in
      if error_code \<noteq> '''' then
        mark_payment_record_error number x error_code message summary queried_at ''query'' s
      else on_payment_record number x (\<lambda>_ p. p\<lparr>pr_query_count := pr_query_count p + 1,
        pr_queried_at := Some queried_at, pr_provider_trade_no := wechat_virtual_trade_no r x,
        pr_buyer_id := fallback_string (wvr_open_id r) (fo_wechat_open_id x),
        pr_last_event := ''virtual_confirm'', pr_query_summary := summary\<rparr>) s)"

definition mark_wechat_virtual_notify_received ::
  "string \<Rightarrow> finance_order \<Rightarrow> wechat_virtual_pay_query_result \<Rightarrow> time \<Rightarrow> string \<Rightarrow> string \<Rightarrow> payment_db \<Rightarrow>
     payment_error + payment_db" where
  "mark_wechat_virtual_notify_received number x r notified_at error_code message s =
     (let summary = summarize_wechat_virtual_notify r;
          summary = (if error_code \<noteq> '''' then summary @ '',error='' @ message else summary)
      in if error_code \<noteq> '''' then
        mark_payment_record_error number x error_code message summary notified_at ''notify'' s
      else on_payment_record number x (\<lambda>_ p. p\<lparr>pr_notify_count := pr_notify_count p + 1,
        pr_notified_at := Some notified_at, pr_provider_trade_no := wechat_virtual_trade_no r x,
        pr_buyer_id := fallback_string (wvr_open_id r) (fo_wechat_open_id x),
        pr_last_event := ''virtual_notify_provide_goods'', pr_notify_summary := summary\<rparr>) s)"

definition mark_wechat_query_received ::
  "string \<Rightarrow> finance_order \<Rightarrow> wechat_pay_query_result \<Rightarrow> time \<Rightarrow> string \<Rightarrow> string \<Rightarrow> payment_db \<Rightarrow>
     payment_error + payment_db" where
  "mark_wechat_query_received number x r queried_at error_code message s =
     (let summary = summarize_wechat_query r in
      if error_code \<noteq> '''' then
        mark_payment_record_error number x error_code message summary queried_at ''query'' s
      else on_payment_record number x (\<lambda>_ p. p\<lparr>pr_query_count := pr_query_count p + 1,
        pr_queried_at := Some queried_at, pr_provider_trade_no := wqr_transaction_id r,
        pr_buyer_id := wqr_payer_open_id r, pr_last_event := ''active_query'', pr_query_summary := summary\<rparr>) s)"

definition mark_wechat_notify_received ::
  "string \<Rightarrow> finance_order \<Rightarrow> wechat_pay_query_result \<Rightarrow> time \<Rightarrow> string \<Rightarrow> string \<Rightarrow> payment_db \<Rightarrow>
     payment_error + payment_db" where
  "mark_wechat_notify_received number x r notified_at error_code message s =
     (let summary = summarize_wechat_query r in
      if error_code \<noteq> '''' then
        mark_payment_record_error number x error_code message summary notified_at ''notify'' s
      else on_payment_record number x (\<lambda>_ p. p\<lparr>pr_notify_count := pr_notify_count p + 1,
        pr_notified_at := Some notified_at, pr_provider_trade_no := wqr_transaction_id r,
        pr_buyer_id := wqr_payer_open_id r, pr_last_event := ''notify'', pr_notify_summary := summary\<rparr>) s)"

section \<open>Orders of the mini program\<close>

text \<open>
  The order is created first and the provider is asked for a prepayment; \<open>answer\<close> is its
  reply, parameters and prepayment number, or the text of an error.
\<close>

definition wechat_new_order ::
  "payment_config \<Rightarrow> string \<Rightarrow> payment_user \<Rightarrow> credit_package \<Rightarrow> string \<Rightarrow> string \<Rightarrow> time \<Rightarrow> finance_order" where
  "wechat_new_order cfg order_number u p openid ip now =
     (pending_order order_number u p method_wechat_jsapi ip
        (trim_right_slashes (cfg_app_base_url cfg) @ ''/pricing'') now)
       \<lparr>fo_wechat_open_id := openid, fo_payment_request_at := Some now\<rparr>"

definition request_wechat_payment ::
  "finance_order \<Rightarrow> string + string \<times> string \<Rightarrow> (nat \<Rightarrow> string) \<Rightarrow> time \<Rightarrow> payment_db \<Rightarrow>
     payment_reply \<times> payment_db" where
  "request_wechat_payment x answer numbers now s =
     (case answer of
        Inl text \<Rightarrow>
          (Reply 502 (ErrorCode ''wechat_pay_request_failed''),
           attempt (mark_payment_record_error (numbers 1) x ''wechat_pay_request_failed''
             (safe_payment_error text) '''' now ''pay_request'') s)
      | Inr (params, prepay_id) \<Rightarrow>
          (case mark_payment_record_requested (numbers 1) x now
              (''method=wechat.transactions.jsapi,out_trade_no='' @ fo_number x @ '',prepay_id='' @ prepay_id @
               '',total='' @ show_int (fo_amount_cents x)) s of
             Inl _ \<Rightarrow> (Reply 500 (ErrorCode ''wechat_order_create_failed''), s)
           | Inr s1 \<Rightarrow> (Reply 201 (PaymentParams x params), s1)))"

definition handle_create_wechat_pay_order ::
  "payment_config \<Rightarrow> payment_user \<Rightarrow> http_source \<Rightarrow> uid option \<Rightarrow> string \<Rightarrow> string + string \<times> string \<Rightarrow>
     (nat \<Rightarrow> string) \<Rightarrow> payment_db \<Rightarrow> payment_reply \<times> payment_db" where
  "handle_create_wechat_pay_order cfg u source body order_number answer numbers s =
     (let openid = trim_space (usr_wechat_open_id u); now = clock s; ip = source_ip_address source in
      if \<not> has_bound_phone u then (Reply 409 (ErrorCode ''phone_binding_required''), s)
      else if \<not> wechat_pay_configured cfg then (Reply 503 (ErrorCode ''wechat_pay_not_configured''), s)
      else if body = None \<or> body = Some 0 then (Reply 400 (ErrorCode ''invalid_package''), s)
      else if openid = '''' then (Reply 409 (ErrorCode ''wechat_openid_required''), s)
      else case active_package (the body) s of
        None \<Rightarrow> (Reply 404 (ErrorCode ''package_not_found''), s)
      | Some p \<Rightarrow>
          let s1 = expire_stale_pending_finance_orders now s in
          (case enforce_payment_order_rate_limit (usr_id u) ip now s1 of
             Some refusal \<Rightarrow> (refusal, s1)
           | None \<Rightarrow>
               (case create_order (numbers 0) (wechat_new_order cfg order_number u p openid ip now) s1 of
                  Inl _ \<Rightarrow> (Reply 500 (ErrorCode ''wechat_order_create_failed''), s1)
                | Inr (x, s2) \<Rightarrow> request_wechat_payment x answer numbers now s2)))"

definition find_owned_order ::
  "string \<Rightarrow> payment_user \<Rightarrow> string \<Rightarrow> payment_db \<Rightarrow> finance_order option" where
  "find_owned_order pay_method u order_number s =
     first_where (\<lambda>x. fo_number x = order_number \<and> fo_user x = usr_id u \<and> fo_payment_method x = pay_method)
       (fin_orders s)"

definition find_owned_wechat_order :: "payment_user \<Rightarrow> string \<Rightarrow> payment_db \<Rightarrow> finance_order option" where
  "find_owned_wechat_order = find_owned_order method_wechat_jsapi"

definition find_owned_wechat_virtual_order :: "payment_user \<Rightarrow> string \<Rightarrow> payment_db \<Rightarrow> finance_order option" where
  "find_owned_wechat_virtual_order = find_owned_order method_wechat_virtual_goods"

definition paid_or_now :: "time \<Rightarrow> time \<Rightarrow> time" where
  "paid_or_now success_time now = (if success_time = 0 then now else success_time)"

definition sync_wechat_order ::
  "payment_config \<Rightarrow> finance_order \<Rightarrow> wechat_pay_query_result \<Rightarrow> (nat \<Rightarrow> string) \<Rightarrow> payment_db \<Rightarrow>
     payment_reply \<times> payment_db" where
  "sync_wechat_order cfg x r numbers s =
     (let now = clock s in
      if wqr_out_trade_no r \<noteq> '''' \<and> wqr_out_trade_no r \<noteq> fo_number x then
        (Reply 502 (ErrorCode ''wechat_query_mismatch''),
         attempt (mark_wechat_query_received (numbers 0) x r now ''wechat_query_mismatch''
           ''out_trade_no mismatch'') s)
      else if wqr_trade_state r \<noteq> ''SUCCESS'' then
        let s1 = attempt (mark_wechat_query_received (numbers 0) x r now '''' '''') s in
        if wqr_trade_state r \<in> {''CLOSED'', ''REVOKED'', ''PAYERROR''} then
          let s2 = attempt (\<lambda>s. mark_payment_record_closed (numbers 1) x now (summarize_wechat_query r)
                (close_pending (fo_id x) s)) s1
          in (Reply 200 (OrderCredits (x\<lparr>fo_payment_status := status_failed\<rparr>)
                (current_available_credits (fo_user x) s2)), s2)
        else (Reply 200 (OrderCredits x (current_available_credits (fo_user x) s1)), s1)
      else case complete_wechat_order cfg (numbers 0) (fo_number x) r (paid_or_now (wqr_success_time r) now)
            ''active_query'' s of
        Inr (y, available, s1) \<Rightarrow> (Reply 200 (OrderCredits y available), s1)
      | Inl e \<Rightarrow>
          if e = WechatAmountMismatch then
            (Reply 502 (ErrorCode ''wechat_amount_mismatch''),
             attempt (mark_wechat_query_received (numbers 1) x r now ''wechat_amount_mismatch''
               wechat_amount_message) s)
          else (Reply 500 (ErrorCode ''wechat_credit_failed''), s))"

definition handle_query_wechat_pay_order ::
  "payment_config \<Rightarrow> payment_user \<Rightarrow> string \<Rightarrow> string + wechat_pay_query_result \<Rightarrow> (nat \<Rightarrow> string) \<Rightarrow>
     payment_db \<Rightarrow> payment_reply \<times> payment_db" where
  "handle_query_wechat_pay_order cfg u order_number answer numbers s =
     (case find_owned_wechat_order u order_number s of
        None \<Rightarrow> (Reply 404 (ErrorCode ''wechat_order_not_found''), s)
      | Some x \<Rightarrow>
          if fo_payment_status x = status_paid then
            (Reply 200 (OrderCredits x (current_available_credits (fo_user x) s)), s)
          else if \<not> wechat_pay_configured cfg then (Reply 503 (ErrorCode ''wechat_pay_not_configured''), s)
          else case answer of
            Inl text \<Rightarrow>
              (Reply 502 (ErrorCode ''wechat_query_failed''),
               attempt (mark_wechat_query_received (numbers 0) x empty_wechat_result (clock s)
                 ''wechat_query_failed'' (safe_payment_error text)) s)
          | Inr r \<Rightarrow> sync_wechat_order cfg x r numbers s)"

definition verify_wechat_notify_signature ::
  "'a payment_library_scheme \<Rightarrow> payment_config \<Rightarrow> wechat_notify_request \<Rightarrow> bool" where
  "verify_wechat_notify_signature lib cfg req =
     (let public_key = trim_space (cfg_wechat_pay_platform_public_key cfg);
          timestamp = trim_space (wnr_timestamp req); nonce = trim_space (wnr_nonce req);
          signature_text = trim_space (wnr_signature req)
      in public_key \<noteq> '''' \<and> timestamp \<noteq> '''' \<and> nonce \<noteq> '''' \<and> signature_text \<noteq> '''' \<and>
         (case pl_base64 lib signature_text of
            None \<Rightarrow> False
          | Some signature \<Rightarrow>
              pl_verify lib public_key
                (timestamp @ [CHR 0x0A] @ nonce @ [CHR 0x0A] @ wnr_body req @ [CHR 0x0A]) signature = Some True))"

text \<open>The body has been read to its end or to its first 2^20 bytes.\<close>

definition handle_wechat_pay_notify ::
  "wechat_library \<Rightarrow> payment_config \<Rightarrow> wechat_notify_request \<Rightarrow> string \<Rightarrow> payment_db \<Rightarrow>
     payment_reply \<times> payment_db" where
  "handle_wechat_pay_notify lib cfg req number s =
     (if \<not> wechat_pay_configured cfg then (Reply 503 (PlainBody ''FAIL''), s)
      else if \<not> verify_wechat_notify_signature lib cfg req then (Reply 400 (PlainBody ''FAIL''), s)
      else case wl_parse_notify lib (cfg_wechat_pay_apiv3_key cfg) (wnr_body req) of
        None \<Rightarrow> (Reply 400 (PlainBody ''FAIL''), s)
      | Some r \<Rightarrow>
          if wqr_trade_state r \<noteq> ''SUCCESS'' then
            (Reply 200 (PlainBody ''SUCCESS''),
             case find_order (wqr_out_trade_no r) method_wechat_jsapi s of
               None \<Rightarrow> s
             | Some x \<Rightarrow> attempt (mark_wechat_notify_received number x r (clock s) '''' '''') s)
          else case complete_wechat_order cfg number (wqr_out_trade_no r) r
                (paid_or_now (wqr_success_time r) (clock s)) (summarize_wechat_query r) s of
            Inl _ \<Rightarrow> (Reply 400 (PlainBody ''FAIL''), s)
          | Inr (_, _, s1) \<Rightarrow> (Reply 200 (PlainBody ''SUCCESS''), s1))"

section \<open>Orders of virtual goods\<close>

text \<open>\<^verbatim>\<open>time.Unix(sec, 0)\<close>: nanoseconds from Go's zero time.\<close>

definition unix_time :: "int \<Rightarrow> time" where
  "unix_time sec = (62135596800 + sec) * second"

definition virtual_paid_at :: "wechat_virtual_pay_query_result \<Rightarrow> time \<Rightarrow> time" where
  "virtual_paid_at r now = (if wvr_paid_time r > 0 then unix_time (wvr_paid_time r) else now)"

text \<open>
  After a settled order the provider is told that the goods were delivered;
  \<open>delivered\<close> is its answer, the text of an error if any.
\<close>

definition notify_provide_goods ::
  "string \<Rightarrow> finance_order \<Rightarrow> wechat_virtual_pay_query_result \<Rightarrow> string option \<Rightarrow> payment_db \<Rightarrow> payment_db" where
  "notify_provide_goods number x r delivered s =
     (if wvr_status r \<noteq> virtual_paid_pending_delivery then s
      else case delivered of
        Some text \<Rightarrow> attempt (mark_wechat_virtual_notify_received number x r (clock s)
          ''wechat_virtual_notify_failed'' (''notify_provide_goods_failed: '' @ safe_payment_error text)) s
      | None \<Rightarrow> attempt (mark_wechat_virtual_notify_received number x r (clock s) '''' '''') s)"

definition close_wechat_virtual_order_for_replacement ::
  "string \<Rightarrow> finance_order \<Rightarrow> time \<Rightarrow> string \<Rightarrow> payment_db \<Rightarrow> payment_error + payment_db" where
  "close_wechat_virtual_order_for_replacement number x closed_at summary s =
     mark_payment_record_closed number x closed_at summary (close_pending (fo_id x) s)"

datatype sync_action = SyncReuse | SyncReplace | SyncAlreadyPaid

record virtual_sync_result =
  vsr_action :: sync_action
  vsr_order :: finance_order
  vsr_available :: int
  vsr_result :: wechat_virtual_pay_query_result

text \<open>What the provider holds of a pending order is brought into the order before it is used again.\<close>

definition settle_pending_virtual_order ::
  "finance_order \<Rightarrow> wechat_virtual_pay_query_result \<Rightarrow> string option \<Rightarrow> (nat \<Rightarrow> string) \<Rightarrow> time \<Rightarrow> payment_db \<Rightarrow>
     (payment_error + virtual_sync_result) \<times> payment_db" where
  "settle_pending_virtual_order x r delivered numbers now s =
     (case complete_wechat_virtual_order (numbers 0) (fo_number x) r (virtual_paid_at r now)
            (summarize_wechat_virtual_query r) s of
        Inl e \<Rightarrow>
          (Inl e,
           if e = WechatAmountMismatch then
             attempt (mark_wechat_virtual_query_received (numbers 1) x r now ''wechat_amount_mismatch''
               wechat_virtual_amount_message) s
           else if e = WechatOpenIDMismatch then
             attempt (mark_wechat_virtual_query_received (numbers 1) x r now ''wechat_openid_mismatch''
               ''openid mismatch'') s
           else s)
      | Inr (y, available, s1) \<Rightarrow>
          (Inr \<lparr>vsr_action = SyncAlreadyPaid, vsr_order = y, vsr_available = available, vsr_result = r\<rparr>,
           notify_provide_goods (numbers 1) y r delivered s1))"

definition sync_wechat_virtual_pending_order ::
  "finance_order \<Rightarrow> string + wechat_virtual_pay_query_result \<Rightarrow> string option \<Rightarrow> (nat \<Rightarrow> string) \<Rightarrow> time \<Rightarrow>
     payment_db \<Rightarrow> (payment_error + virtual_sync_result) \<times> payment_db" where
  "sync_wechat_virtual_pending_order x answer delivered numbers now s =
     (case answer of
        Inl text \<Rightarrow>
          (Inl (PaymentText text),
           attempt (mark_wechat_virtual_query_received (numbers 0) x empty_virtual_result now
             ''wechat_virtual_query_failed'' (safe_payment_error text)) s)
      | Inr r \<Rightarrow>
          if \<not> blank (wvr_order_id r) \<and> trim_space (wvr_order_id r) \<noteq> fo_number x then
            (Inl (PaymentText ''wechat virtual query order mismatch''),
             attempt (mark_wechat_virtual_query_received (numbers 0) x r now
               ''wechat_virtual_query_mismatch'' ''order_id mismatch'') s)
          else if \<not> blank (wvr_open_id r) \<and> \<not> blank (fo_wechat_open_id x) \<and>
              trim_space (wvr_open_id r) \<noteq> trim_space (fo_wechat_open_id x) then
            (Inl WechatOpenIDMismatch,
             attempt (mark_wechat_virtual_query_received (numbers 0) x r now ''wechat_openid_mismatch''
               ''openid mismatch'') s)
          else if is_wechat_virtual_order_pending (wvr_status r) then
            (Inr \<lparr>vsr_action = SyncReuse, vsr_order = x, vsr_available = 0, vsr_result = r\<rparr>,
             attempt (mark_wechat_virtual_query_received (numbers 0) x r now '''' '''') s)
          else case wechat_virtual_terminal_error (wvr_status r) of
            Some (error_code, message) \<Rightarrow>
              if virtual_order_void (wvr_status r) then
                (case close_wechat_virtual_order_for_replacement (numbers 0) x now
                    (summarize_wechat_virtual_query r) s of
                   Inl e \<Rightarrow> (Inl e, s)
                 | Inr s1 \<Rightarrow>
                     (Inr \<lparr>vsr_action = SyncReplace, vsr_order = x, vsr_available = 0, vsr_result = r\<rparr>, s1))
              else
                (Inl (PaymentText (''wechat virtual terminal status '' @ show_int (wvr_status r))),
                 attempt (mark_wechat_virtual_query_received (numbers 0) x r now error_code message) s)
          | None \<Rightarrow>
              if \<not> is_wechat_virtual_order_paid (wvr_status r) then
                (Inl WechatInvalidStatus,
                 attempt (mark_wechat_virtual_query_received (numbers 0) x r now
                   ''wechat_virtual_invalid_status'' wechat_virtual_status_message) s)
              else settle_pending_virtual_order x r delivered numbers now s)"

definition virtual_create_sync_error :: "payment_error \<Rightarrow> payment_reply" where
  "virtual_create_sync_error e =
     Reply 502 (ErrorCode
       (if e = WechatAmountMismatch then ''wechat_amount_mismatch''
        else if e = WechatOpenIDMismatch then ''wechat_openid_mismatch''
        else if e = WechatInvalidStatus then ''wechat_virtual_invalid_status''
        else ''wechat_virtual_query_failed''))"

section \<open>Renewing and creating a virtual order\<close>

record virtual_order_request =
  vor_package :: uid
  vor_code :: string
  vor_force_new :: bool
  vor_stale_order_number :: string
  vor_stale_reason :: string

text \<open>
  The user is the owner of the session the code was exchanged for; an account without a
  WeChat identity takes the one of the session.
\<close>

definition virtual_customer ::
  "payment_config \<Rightarrow> payment_user \<Rightarrow> virtual_order_request option \<Rightarrow> wechat_session option \<Rightarrow> payment_db \<Rightarrow>
     (payment_reply + virtual_order_request \<times> string \<times> string) \<times> payment_db" where
  "virtual_customer cfg u body session s =
     (if \<not> has_bound_phone u then (Inl (Reply 409 (ErrorCode ''phone_binding_required'')), s)
      else if \<not> wechat_virtual_pay_configured cfg then
        (Inl (Reply 503 (ErrorCode ''wechat_virtual_pay_not_configured'')), s)
      else case body of
        None \<Rightarrow> (Inl (Reply 400 (ErrorCode ''invalid_request'')), s)
      | Some req \<Rightarrow>
          if vor_package req = 0 \<or> blank (vor_code req) then
            (Inl (Reply 400 (ErrorCode ''invalid_request'')), s)
          else case session of
            None \<Rightarrow> (Inl (Reply 502 (ErrorCode ''wechat_login_failed'')), s)
          | Some ws \<Rightarrow>
              if blank (ws_open_id ws) \<or> blank (ws_session_key ws) then
                (Inl (Reply 502 (ErrorCode ''wechat_login_failed'')), s)
              else let openid = trim_space (ws_open_id ws); key = trim_space (ws_session_key ws) in
                if \<not> blank (usr_wechat_open_id u) \<and> usr_wechat_open_id u \<noteq> openid then
                  (Inl (Reply 409 (ErrorCode ''wechat_openid_mismatch'')), s)
                else if blank (usr_wechat_open_id u) then
                  (Inr (req, openid, key),
                   s\<lparr>fin_users := update_where (\<lambda>v. usr_id v = usr_id u)
                     (\<lambda>v. v\<lparr>usr_wechat_open_id := openid\<rparr>) (fin_users s)\<rparr>)
                else (Inr (req, openid, key), s))"

definition build_wechat_virtual_payment_params ::
  "wechat_library \<Rightarrow> payment_config \<Rightarrow> finance_order \<Rightarrow> string \<Rightarrow> string + string \<times> string \<times> string" where
  "build_wechat_virtual_payment_params lib cfg x session_key =
     (case wl_marshal_sign_data lib
         \<lparr>wsd_offer_id = trim_space (cfg_wechat_virtual_pay_offer_id cfg), wsd_buy_quantity = 1,
          wsd_currency_type = ''CNY'', wsd_product_id = trim_space (fo_wechat_virtual_product_id x),
          wsd_goods_price = fo_amount_cents x, wsd_out_trade_no = fo_number x,
          wsd_attach = ''finance_order:'' @ show_nat (fo_id x), wsd_env = cfg_wechat_virtual_pay_env cfg\<rparr> of
        Inl text \<Rightarrow> Inl text
      | Inr sign_data \<Rightarrow>
          Inr (sign_data,
            wl_hmac_sha256_hex lib (wechat_virtual_pay_app_key_for_config cfg) (''requestVirtualPayment&'' @ sign_data),
            wl_hmac_sha256_hex lib session_key sign_data))"

definition params_text :: "string \<times> string \<times> string \<Rightarrow> string" where
  "params_text p = (case p of (sign_data, pay_sig, signature) \<Rightarrow> sign_data @ pay_sig @ signature)"

definition find_wechat_virtual_order_for_refresh ::
  "uid \<Rightarrow> uid \<Rightarrow> string \<Rightarrow> payment_db \<Rightarrow> finance_order option" where
  "find_wechat_virtual_order_for_refresh user package order_number s =
     first_where (\<lambda>x. fo_number x = trim_space order_number \<and> fo_user x = user \<and> fo_package x = package \<and>
       fo_payment_method x = method_wechat_virtual_goods) (fin_orders s)"

text \<open>
  \<^verbatim>\<open>force_new\<close>: the order the client gave up is looked at first. Either the request
  is answered here, or it goes on with the number of the order that was replaced, if one was.
\<close>

definition replace_reused_order ::
  "wechat_library \<Rightarrow> virtual_order_request \<Rightarrow> finance_order \<Rightarrow> virtual_sync_result \<Rightarrow> string \<Rightarrow> time \<Rightarrow>
     payment_db \<Rightarrow> (payment_reply + string) \<times> payment_db" where
  "replace_reused_order lib req x v number now s =
     (if is_wechat_virtual_order_closed_reason (vor_stale_reason req) then
        (case close_wechat_virtual_order_for_replacement number x now
            (summarize_wechat_virtual_query (vsr_result v) @ '',client_reason='' @
             wl_sanitize_log lib (vor_stale_reason req)) s of
           Inl _ \<Rightarrow> (Inl (Reply 500 (ErrorCode ''wechat_virtual_order_create_failed'')), s)
         | Inr s1 \<Rightarrow> (Inr (fo_number x), s1))
      else (Inr '''', s))"

definition recover_stale_order ::
  "wechat_library \<Rightarrow> payment_user \<Rightarrow> credit_package \<Rightarrow> virtual_order_request \<Rightarrow>
     string + wechat_virtual_pay_query_result \<Rightarrow> string option \<Rightarrow> (nat \<Rightarrow> string) \<Rightarrow> time \<Rightarrow> payment_db \<Rightarrow>
     (payment_reply + string) \<times> payment_db" where
  "recover_stale_order lib u p req answer delivered numbers now s =
     (if trim_space (vor_stale_order_number req) = '''' then (Inr '''', s)
      else case find_wechat_virtual_order_for_refresh (usr_id u) (pkg_id p)
          (trim_space (vor_stale_order_number req)) s of
        None \<Rightarrow> (Inr '''', s)
      | Some x \<Rightarrow>
          if fo_payment_status x = status_paid then
            (Inl (Reply 200 (AlreadyPaid x (current_available_credits (fo_user x) s))), s)
          else if fo_payment_status x = status_pending then
            (case sync_wechat_virtual_pending_order x answer delivered numbers now s of
               (Inl e, s1) \<Rightarrow> (Inl (virtual_create_sync_error e), s1)
             | (Inr v, s1) \<Rightarrow>
                 (case vsr_action v of
                    SyncAlreadyPaid \<Rightarrow> (Inl (Reply 200 (AlreadyPaid (vsr_order v) (vsr_available v))), s1)
                  | SyncReplace \<Rightarrow> (Inr (fo_number x), s1)
                  | SyncReuse \<Rightarrow> replace_reused_order lib req x v (numbers 2) now s1))
          else (Inr '''', s))"

text \<open>Without \<^verbatim>\<open>force_new\<close> a fresh pending order of the package is used again.\<close>

definition reuse_pending_order ::
  "wechat_library \<Rightarrow> payment_config \<Rightarrow> payment_user \<Rightarrow> credit_package \<Rightarrow> string \<Rightarrow>
     string + wechat_virtual_pay_query_result \<Rightarrow> string option \<Rightarrow> (nat \<Rightarrow> string) \<Rightarrow> time \<Rightarrow> payment_db \<Rightarrow>
     (payment_reply + string) \<times> payment_db" where
  "reuse_pending_order lib cfg u p session_key answer delivered numbers now s =
     (case reusable_pending_finance_order (usr_id u) (pkg_id p) method_wechat_virtual_goods now s of
        None \<Rightarrow> (Inr '''', s)
      | Some x \<Rightarrow>
          (case sync_wechat_virtual_pending_order x answer delivered numbers now s of
             (Inl e, s1) \<Rightarrow> (Inl (virtual_create_sync_error e), s1)
           | (Inr v, s1) \<Rightarrow>
               (case vsr_action v of
                  SyncReuse \<Rightarrow>
                    (case build_wechat_virtual_payment_params lib cfg x session_key of
                       Inl _ \<Rightarrow> (Inl (Reply 500 (ErrorCode ''wechat_virtual_sign_failed'')), s1)
                     | Inr params \<Rightarrow> (Inl (Reply 200 (VirtualParams x (params_text params) None)), s1))
                | SyncAlreadyPaid \<Rightarrow> (Inl (Reply 200 (AlreadyPaid (vsr_order v) (vsr_available v))), s1)
                | SyncReplace \<Rightarrow> (Inr (fo_number x), s1))))"

definition virtual_new_order ::
  "payment_config \<Rightarrow> string \<Rightarrow> payment_user \<Rightarrow> credit_package \<Rightarrow> string \<Rightarrow> string \<Rightarrow> string \<Rightarrow> time \<Rightarrow>
     finance_order" where
  "virtual_new_order cfg order_number u p openid product ip now =
     (pending_order order_number u p method_wechat_virtual_goods ip
        (trim_right_slashes (cfg_app_base_url cfg) @ ''/pricing'') now)
       \<lparr>fo_wechat_open_id := openid, fo_wechat_virtual_product_id := product,
        fo_payment_request_at := Some now\<rparr>"

definition request_virtual_payment ::
  "wechat_library \<Rightarrow> payment_config \<Rightarrow> finance_order \<Rightarrow> string \<Rightarrow> string \<Rightarrow> string \<Rightarrow> string \<Rightarrow> time \<Rightarrow>
     payment_db \<Rightarrow> payment_reply \<times> payment_db" where
  "request_virtual_payment lib cfg x product session_key recovered number now s =
     (case build_wechat_virtual_payment_params lib cfg x session_key of
        Inl text \<Rightarrow>
          (Reply 500 (ErrorCode ''wechat_virtual_sign_failed''),
           attempt (mark_payment_record_error number x ''wechat_virtual_sign_failed''
             (safe_payment_error text) '''' now ''pay_request'') s)
      | Inr params \<Rightarrow>
          (case mark_payment_record_requested number x now
              (''method=wechat.requestVirtualPayment,mode=short_series_goods,out_trade_no='' @ fo_number x @
               '',product_id='' @ product @ '',total='' @ show_int (fo_amount_cents x)) s of
             Inl _ \<Rightarrow> (Reply 500 (ErrorCode ''wechat_virtual_order_create_failed''), s)
           | Inr s1 \<Rightarrow>
               (Reply 201 (VirtualParams x (params_text params)
                  (if recovered \<noteq> '''' then Some recovered else None)), s1)))"

definition create_virtual_order ::
  "wechat_library \<Rightarrow> payment_config \<Rightarrow> payment_user \<Rightarrow> credit_package \<Rightarrow> string \<Rightarrow> string \<Rightarrow> string \<Rightarrow>
     string \<Rightarrow> string \<Rightarrow> string \<Rightarrow> (nat \<Rightarrow> string) \<Rightarrow> time \<Rightarrow> payment_db \<Rightarrow> payment_reply \<times> payment_db" where
  "create_virtual_order lib cfg u p product openid session_key ip order_number recovered numbers now s =
     (case enforce_payment_order_rate_limit (usr_id u) ip now s of
        Some refusal \<Rightarrow> (refusal, s)
      | None \<Rightarrow>
          (case create_order (numbers 3) (virtual_new_order cfg order_number u p openid product ip now) s of
             Inl _ \<Rightarrow> (Reply 500 (ErrorCode ''wechat_virtual_order_create_failed''), s)
           | Inr (x, s1) \<Rightarrow>
               request_virtual_payment lib cfg x product session_key recovered (numbers 4) now s1))"

definition handle_create_wechat_virtual_pay_order ::
  "wechat_library \<Rightarrow> payment_config \<Rightarrow> payment_user \<Rightarrow> http_source \<Rightarrow> virtual_order_request option \<Rightarrow>
     wechat_session option \<Rightarrow> string + wechat_virtual_pay_query_result \<Rightarrow> string option \<Rightarrow> string \<Rightarrow>
     (nat \<Rightarrow> string) \<Rightarrow> payment_db \<Rightarrow> payment_reply \<times> payment_db" where
  "handle_create_wechat_virtual_pay_order lib cfg u source body session answer delivered order_number numbers s =
     (case virtual_customer cfg u body session s of
        (Inl reply, s1) \<Rightarrow> (reply, s1)
      | (Inr (req, openid, session_key), s1) \<Rightarrow>
          (case active_package (vor_package req) s1 of
             None \<Rightarrow> (Reply 404 (ErrorCode ''package_not_found''), s1)
           | Some p \<Rightarrow>
               let product = trim_space (pkg_wechat_virtual_product_id p); now = clock s1 in
               if product = '''' then (Reply 400 (ErrorCode ''wechat_virtual_product_required''), s1)
               else let s2 = expire_stale_pending_finance_orders now s1 in
                 (case (if vor_force_new req
                        then recover_stale_order lib u p req answer delivered numbers now s2
                        else reuse_pending_order lib cfg u p session_key answer delivered numbers now s2) of
                    (Inl reply, s3) \<Rightarrow> (reply, s3)
                  | (Inr recovered, s3) \<Rightarrow>
                      create_virtual_order lib cfg u p product openid session_key (source_ip_address source)
                        order_number recovered numbers now s3)))"

section \<open>Confirming a virtual order\<close>

definition fail_void_order :: "finance_order \<Rightarrow> int \<Rightarrow> payment_db \<Rightarrow> payment_db" where
  "fail_void_order x status s = (if virtual_order_void status then close_pending (fo_id x) s else s)"

definition settle_confirmed_order ::
  "finance_order \<Rightarrow> wechat_virtual_pay_query_result \<Rightarrow> string option \<Rightarrow> (nat \<Rightarrow> string) \<Rightarrow> payment_db \<Rightarrow>
     payment_reply \<times> payment_db" where
  "settle_confirmed_order x r delivered numbers s =
     (let query_at = clock s in
      case complete_wechat_virtual_order (numbers 0) (fo_number x) r (virtual_paid_at r query_at)
            (summarize_wechat_virtual_query r) s of
        Inl e \<Rightarrow>
          if e = WechatAmountMismatch then
            (Reply 502 (ErrorCode ''wechat_amount_mismatch''),
             attempt (mark_wechat_virtual_query_received (numbers 1) x r query_at ''wechat_amount_mismatch''
               wechat_virtual_amount_message) s)
          else if e = WechatOpenIDMismatch then
            (Reply 502 (ErrorCode ''wechat_openid_mismatch''),
             attempt (mark_wechat_virtual_query_received (numbers 1) x r query_at ''wechat_openid_mismatch''
               ''openid mismatch'') s)
          else (Reply 500 (ErrorCode ''wechat_virtual_credit_failed''), s)
      | Inr (y, available, s1) \<Rightarrow>
          (Reply 200 (OrderCredits y available), notify_provide_goods (numbers 1) y r delivered s1))"

definition confirm_wechat_virtual_order ::
  "finance_order \<Rightarrow> wechat_virtual_pay_query_result \<Rightarrow> string option \<Rightarrow> (nat \<Rightarrow> string) \<Rightarrow> payment_db \<Rightarrow>
     payment_reply \<times> payment_db" where
  "confirm_wechat_virtual_order x r delivered numbers s =
     (let query_at = clock s;
          note = (\<lambda>error_code message. attempt
            (mark_wechat_virtual_query_received (numbers 0) x r query_at error_code message) s)
      in if wvr_order_id r \<noteq> '''' \<and> wvr_order_id r \<noteq> fo_number x then
        (Reply 502 (ErrorCode ''wechat_virtual_query_mismatch''),
         note ''wechat_virtual_query_mismatch'' ''order_id mismatch'')
      else if wvr_open_id r \<noteq> '''' \<and> fo_wechat_open_id x \<noteq> '''' \<and> wvr_open_id r \<noteq> fo_wechat_open_id x then
        (Reply 502 (ErrorCode ''wechat_openid_mismatch''), note ''wechat_openid_mismatch'' ''openid mismatch'')
      else if is_wechat_virtual_order_pending (wvr_status r) then
        let s1 = note '''' '''' in (Reply 200 (OrderCredits x (current_available_credits (fo_user x) s1)), s1)
      else case wechat_virtual_terminal_error (wvr_status r) of
        Some (error_code, message) \<Rightarrow>
          (Reply 409 (ErrorCode error_code), fail_void_order x (wvr_status r) (note error_code message))
      | None \<Rightarrow>
          if \<not> is_wechat_virtual_order_paid (wvr_status r) then
            (Reply 502 (ErrorCode ''wechat_virtual_invalid_status''),
             note ''wechat_virtual_invalid_status'' wechat_virtual_status_message)
          else settle_confirmed_order x r delivered numbers s)"

definition handle_confirm_wechat_virtual_pay_order ::
  "payment_config \<Rightarrow> payment_user \<Rightarrow> string \<Rightarrow> string + wechat_virtual_pay_query_result \<Rightarrow> string option \<Rightarrow>
     (nat \<Rightarrow> string) \<Rightarrow> payment_db \<Rightarrow> payment_reply \<times> payment_db" where
  "handle_confirm_wechat_virtual_pay_order cfg u order_number answer delivered numbers s =
     (case find_owned_wechat_virtual_order u order_number s of
        None \<Rightarrow> (Reply 404 (ErrorCode ''wechat_virtual_order_not_found''), s)
      | Some x \<Rightarrow>
          if fo_payment_status x = status_paid then
            (Reply 200 (OrderCredits x (current_available_credits (fo_user x) s)), s)
          else if \<not> wechat_virtual_pay_configured cfg then
            (Reply 503 (ErrorCode ''wechat_virtual_pay_not_configured''), s)
          else case answer of
            Inl text \<Rightarrow>
              (Reply 502 (ErrorCode ''wechat_virtual_query_failed''),
               attempt (mark_wechat_virtual_query_received (numbers 0) x empty_virtual_result (clock s)
                 ''wechat_virtual_query_failed'' (safe_payment_error text)) s)
          | Inr r \<Rightarrow> confirm_wechat_virtual_order x r delivered numbers s)"

end
