(* ===== verification/PaymentSafety.thy ===== *)
theory PaymentSafety
  imports WechatPay
begin

text \<open>
  The order book: what the requests of \<^verbatim>\<open>Alipay\<close> and \<^verbatim>\<open>WechatPay\<close> do
  to orders, balances and credit transactions, as four kinds of steps. Every request is shown to
  be a sequence of such steps, and the steps keep the invariants of the book: an order that
  was paid online has brought its credits exactly once, to its user, and no other order has.
\<close>

section \<open>Steps of the order book\<close>

definition online_order :: "finance_order \<Rightarrow> bool" where
  "online_order x \<longleftrightarrow>
     fo_payment_method x \<in> {method_alipay_page, method_wechat_jsapi, method_wechat_virtual_goods}"

text \<open>What an order keeps for ever.\<close>

definition terms :: "finance_order \<Rightarrow> uid \<times> string \<times> uid \<times> uid \<times> int \<times> int \<times> string \<times> string \<times> time" where
  "terms x = (fo_id x, fo_number x, fo_user x, fo_package x, fo_package_credits x, fo_amount_cents x,
     fo_payment_method x, fo_ip_address x, fo_created_at x)"

lemma termsD:
  assumes "terms y = terms x"
  shows "fo_id y = fo_id x" "fo_number y = fo_number x" "fo_user y = fo_user x"
    "fo_package_credits y = fo_package_credits x" "fo_amount_cents y = fo_amount_cents x"
    "fo_payment_method y = fo_payment_method x" "fo_created_at y = fo_created_at x"
    "online_order y = online_order x"
  using assms by (simp_all add: terms_def online_order_def)

definition same_books :: "payment_db \<Rightarrow> payment_db \<Rightarrow> bool" where
  "same_books s s' \<longleftrightarrow> fin_orders s' = fin_orders s \<and> balances s' = balances s \<and>
     transactions s' = transactions s \<and> clock s' = clock s"

text \<open>Without a payment a status only goes from pending to expired or failed, or to refunded.\<close>

definition lapses :: "string \<Rightarrow> string \<Rightarrow> bool" where
  "lapses a b \<longleftrightarrow> a = b \<or> a = status_pending \<and> b \<in> {status_expired, status_failed} \<or> b = status_refunded"

definition recent_orders :: "uid \<Rightarrow> time \<Rightarrow> finance_order list \<Rightarrow> nat" where
  "recent_orders user since t =
     count_where (\<lambda>x. fo_user x = user \<and> fo_created_at x \<ge> since \<and> active_order x) t"

text \<open>The balance row of a user after a credit; the transaction that records it.\<close>

definition credited :: "uid \<Rightarrow> int \<Rightarrow> payment_db \<Rightarrow> credit_balance list" where
  "credited user n s =
     (case first_where (\<lambda>b. bal_user b = user) (balances s) of
        Some b \<Rightarrow> update_where (\<lambda>x. bal_id x = bal_id b) (\<lambda>_. b\<lparr>bal_available := bal_available b + n\<rparr>) (balances s)
      | None \<Rightarrow> balances s @ [\<lparr>bal_id = next_key bal_id (balances s), bal_user = user,
          bal_available = n, bal_reserved = 0\<rparr>])"

inductive book_step :: "payment_db \<Rightarrow> payment_db \<Rightarrow> bool" where
  annotate: "same_books s s' \<Longrightarrow> book_step s s'"
| lapse: "fin_orders s' = update_where P f (fin_orders s) \<Longrightarrow> balances s' = balances s \<Longrightarrow>
    transactions s' = transactions s \<Longrightarrow> clock s' = clock s \<Longrightarrow>
    (\<And>x. P x \<Longrightarrow> terms (f x) = terms x \<and> fo_paid_at (f x) = fo_paid_at x \<and>
       lapses (fo_payment_status x) (fo_payment_status (f x))) \<Longrightarrow> book_step s s'"
| place: "fin_orders s' = fin_orders s @ [x] \<Longrightarrow> balances s' = balances s \<Longrightarrow>
    transactions s' = transactions s \<Longrightarrow> clock s' = clock s \<Longrightarrow> fo_id x = next_key fo_id (fin_orders s) \<Longrightarrow>
    fo_number x \<notin> fo_number ` set (fin_orders s) \<Longrightarrow> fo_created_at x = clock s \<Longrightarrow>
    fo_payment_status x = status_pending \<Longrightarrow> fo_paid_at x = None \<Longrightarrow> online_order x \<Longrightarrow>
    recent_orders (fo_user x) (clock s - payment_rate_limit_window) (fin_orders s) < payment_user_order_limit \<Longrightarrow>
    book_step s s'"
| settle: "x \<in> set (fin_orders s) \<Longrightarrow> fo_payment_status x = status_pending \<Longrightarrow> online_order x \<Longrightarrow>
    terms y = terms x \<Longrightarrow> fo_payment_status y = status_paid \<Longrightarrow> fo_paid_at y \<noteq> None \<Longrightarrow>
    fin_orders s' = fo_tab.put y (fin_orders s) \<Longrightarrow>
    balances s' = credited (fo_user x) (fo_package_credits x) s \<Longrightarrow>
    transactions s' = transactions s @ [t] \<Longrightarrow> clock s' = clock s \<Longrightarrow> top_up_of (fo_id x) t \<Longrightarrow>
    txn_user t = fo_user x \<Longrightarrow> txn_amount t = fo_package_credits x \<Longrightarrow> book_step s s'"

section \<open>The invariant\<close>

definition top_ups :: "uid \<Rightarrow> payment_db \<Rightarrow> credit_transaction list" where
  "top_ups k s = filter (top_up_of k) (transactions s)"

definition order_ok :: "finance_order \<Rightarrow> bool" where
  "order_ok x \<longleftrightarrow> (fo_payment_status x = status_pending \<longrightarrow> fo_paid_at x = None) \<and>
     (fo_payment_status x = status_paid \<longrightarrow> fo_paid_at x \<noteq> None)"

definition order_credited :: "finance_order \<Rightarrow> payment_db \<Rightarrow> bool" where
  "order_credited x s \<longleftrightarrow>
     (if fo_paid_at x = None then top_ups (fo_id x) s = []
      else \<exists>t. top_ups (fo_id x) s = [t] \<and> txn_user t = fo_user x \<and> txn_amount t = fo_package_credits x)"

definition books_ok :: "payment_db \<Rightarrow> bool" where
  "books_ok s \<longleftrightarrow>
     fo_tab.unique (fin_orders s) \<and> distinct (map fo_number (fin_orders s)) \<and>
     distinct (map bal_id (balances s)) \<and> distinct (map bal_user (balances s)) \<and>
     (\<forall>x \<in> set (fin_orders s). order_ok x \<and> fo_created_at x \<le> clock s \<and>
        (online_order x \<longrightarrow> order_credited x s)) \<and>
     (\<forall>t \<in> set (transactions s). \<forall>k. top_up_of k t \<longrightarrow> k \<in> fo_id ` set (fin_orders s))"

lemma books_okD:
  assumes "books_ok s"
  shows "fo_tab.unique (fin_orders s)" "distinct (map fo_number (fin_orders s))"
    "distinct (map bal_id (balances s))" "distinct (map bal_user (balances s))"
    "x \<in> set (fin_orders s) \<Longrightarrow> order_ok x" "x \<in> set (fin_orders s) \<Longrightarrow> fo_created_at x \<le> clock s"
    "x \<in> set (fin_orders s) \<Longrightarrow> online_order x \<Longrightarrow> order_credited x s"
    "t \<in> set (transactions s) \<Longrightarrow> top_up_of k t \<Longrightarrow> k \<in> fo_id ` set (fin_orders s)"
  using assms by (auto simp: books_ok_def)

lemma order_credited_same: "transactions s' = transactions s \<Longrightarrow> order_credited x s' = order_credited x s"
  by (simp add: order_credited_def top_ups_def)

lemma no_top_ups: "books_ok s \<Longrightarrow> k \<notin> fo_id ` set (fin_orders s) \<Longrightarrow> top_ups k s = []"
  using books_okD(8) [of s] by (auto simp: top_ups_def filter_empty_conv)

lemma distinct_next_key: "distinct (map key t) \<Longrightarrow> distinct (map key t @ [next_key key t])"
  using next_key_fresh [of _ t key] by fastforce

lemma credited_keys:
  assumes "distinct (map bal_id (balances s))" and "distinct (map bal_user (balances s))"
  shows "distinct (map bal_id (credited user n s))" "distinct (map bal_user (credited user n s))"
proof -
  show "distinct (map bal_id (credited user n s))"
  proof (cases "first_where (\<lambda>b. bal_user b = user) (balances s)")
    case None
    then show ?thesis using distinct_next_key [OF assms(1)] by (simp add: credited_def)
  next
    case (Some b)
    then have "map bal_id (credited user n s) = map bal_id (balances s)"
      by (auto simp: credited_def update_where_def)
    then show ?thesis using assms(1) by simp
  qed
  show "distinct (map bal_user (credited user n s))"
  proof (cases "first_where (\<lambda>b. bal_user b = user) (balances s)")
    case None
    then have "\<forall>b \<in> set (balances s). bal_user b \<noteq> user" by (simp add: first_where_None)
    then show ?thesis using assms(2) None by (auto simp: credited_def)
  next
    case (Some b)
    then have b: "b \<in> set (balances s)" by (blast dest: first_where_Some)
    have "bal_user x = bal_user b" if "x \<in> set (balances s)" "bal_id x = bal_id b" for x
      using that b assms(1) by (metis distinct_map inj_onD)
    then have "map bal_user (credited user n s) = map bal_user (balances s)"
      using Some by (auto simp: credited_def update_where_def)
    then show ?thesis using assms(2) by simp
  qed
qed

lemma put_numbers:
  assumes "fo_tab.unique t" and "x \<in> set t" and "terms y = terms x"
  shows "map fo_number (fo_tab.put y t) = map fo_number t"
proof -
  have "fo_number (if fo_id z = fo_id y then y else z) = fo_number z" if "z \<in> set t" for z
    using that assms fo_tab.unique_same [OF assms(1,2) that] by (auto simp: termsD [OF assms(3)])
  then show ?thesis by (simp add: fo_tab.put_def update_where_def)
qed

lemma lapse_books:
  assumes ok: "books_ok s" and orders: "fin_orders s' = update_where P f (fin_orders s)"
    and same: "balances s' = balances s" "transactions s' = transactions s" "clock s' = clock s"
    and f: "\<And>x. P x \<Longrightarrow> terms (f x) = terms x \<and> fo_paid_at (f x) = fo_paid_at x \<and>
       lapses (fo_payment_status x) (fo_payment_status (f x))"
  shows "books_ok s'"
proof -
  have id: "fo_id (f x) = fo_id x" "fo_number (f x) = fo_number x" if "P x" for x
    using f [OF that] by (simp_all add: termsD [of "f x" x])
  have keys: "fo_tab.unique (fin_orders s')" "map fo_number (fin_orders s') = map fo_number (fin_orders s)"
    unfolding orders using books_okD(1) [OF ok] fo_tab.unique_update [of P f, OF id(1)]
      map_update_where [of P fo_number f, OF id(2)] by simp_all
  have ids: "fo_id ` set (fin_orders s') = fo_id ` set (fin_orders s)"
  proof -
    have "fo_id (if P x then f x else x) = fo_id x" for x using id(1) [of x] by simp
    then show ?thesis unfolding orders set_update_where image_image by simp
  qed
  have "order_ok z \<and> fo_created_at z \<le> clock s' \<and> (online_order z \<longrightarrow> order_credited z s')"
    if z: "z \<in> set (fin_orders s')" for z
  proof -
    from z obtain x where x: "x \<in> set (fin_orders s)" "z = (if P x then f x else x)"
      unfolding orders set_update_where by auto
    note okx = books_okD(5-7) [OF ok x(1)]
    show ?thesis
    proof (cases "P x")
      case True
      then have z': "z = f x" using x(2) by simp
      note fx = f [OF True]
      then have t: "terms (f x) = terms x" by simp
      note kept = termsD [OF t]
      have "order_ok (f x)" using okx(1) fx unfolding order_ok_def lapses_def by auto
      moreover have "order_credited (f x) s' = order_credited x s"
        using fx by (simp add: order_credited_def top_ups_def same kept)
      ultimately show ?thesis using okx by (simp add: z' same kept)
    next
      case False
      then show ?thesis using x(2) okx by (simp add: same order_credited_same [OF same(2)])
    qed
  qed
  then show ?thesis using keys ids books_okD [OF ok] by (simp add: books_ok_def same)
qed

lemma place_books:
  assumes ok: "books_ok s" and orders: "fin_orders s' = fin_orders s @ [x]"
    and same: "balances s' = balances s" "transactions s' = transactions s" "clock s' = clock s"
    and x: "fo_id x = next_key fo_id (fin_orders s)" "fo_number x \<notin> fo_number ` set (fin_orders s)"
      "fo_created_at x = clock s" "fo_payment_status x = status_pending" "fo_paid_at x = None"
  shows "books_ok s'"
proof -
  have "fo_id x \<notin> fo_id ` set (fin_orders s)" using x(1) next_key_fresh [of _ "fin_orders s" fo_id] by force
  then have "top_ups (fo_id x) s' = []" using no_top_ups [OF ok] by (simp add: top_ups_def same)
  then have "order_ok x \<and> order_credited x s'" using x by (simp add: order_ok_def order_credited_def)
  moreover have "order_credited z s' = order_credited z s" for z by (rule order_credited_same [OF same(2)])
  ultimately show ?thesis
    using books_okD [OF ok] x fo_tab.unique_insert [OF books_okD(1) [OF ok] x(1)]
    unfolding books_ok_def orders same by auto
qed

lemma settle_books:
  assumes ok: "books_ok s" and x: "x \<in> set (fin_orders s)" "fo_payment_status x = status_pending" "online_order x"
    and y: "terms y = terms x" "fo_payment_status y = status_paid" "fo_paid_at y \<noteq> None"
    and s': "fin_orders s' = fo_tab.put y (fin_orders s)"
      "balances s' = credited (fo_user x) (fo_package_credits x) s"
      "transactions s' = transactions s @ [t]" "clock s' = clock s"
    and t: "top_up_of (fo_id x) t" "txn_user t = fo_user x" "txn_amount t = fo_package_credits x"
  shows "books_ok s'"
proof -
  note yx = termsD [OF y(1)]
  have u: "fo_tab.unique (fin_orders s)" by (rule books_okD(1) [OF ok])
  have orders: "set (fin_orders s') = insert y (set (fin_orders s) - {x})"
    unfolding s'(1) using u x(1) yx(1) by (rule fo_tab.set_put)
  have ids: "fo_id ` set (fin_orders s') = fo_id ` set (fin_orders s)"
    unfolding s'(1) using fo_tab.put_keys [of y "fin_orders s"] by (metis list.set_map)
  have none: "top_ups (fo_id x) s = []"
    using books_okD(5,7) [OF ok x(1)] x(2,3) by (simp add: order_ok_def order_credited_def)
  have other: "top_ups k s' = top_ups k s" if "k \<noteq> fo_id x" for k
    using t(1) that by (auto simp: top_ups_def s'(3) top_up_of_def)
  have new: "top_ups (fo_id x) s' = [t]" using none t(1) by (simp add: top_ups_def s'(3))
  have "order_ok z \<and> fo_created_at z \<le> clock s' \<and> (online_order z \<longrightarrow> order_credited z s')"
    if "z \<in> set (fin_orders s')" for z
  proof (cases "z = y")
    case True
    obtain paid_at where "fo_paid_at y = Some paid_at" using y(3) by blast
    then show ?thesis using True y(2) new t yx books_okD(6) [OF ok x(1)]
      by (simp add: order_ok_def order_credited_def s'(4))
  next
    case False
    with that orders have z: "z \<in> set (fin_orders s)" "z \<noteq> x" by auto
    then have "fo_id z \<noteq> fo_id x" using fo_tab.unique_same [OF u _ x(1)] by metis
    then show ?thesis using books_okD(5-7) [OF ok z(1)] by (simp add: order_credited_def other s'(4))
  qed
  moreover have "k \<in> fo_id ` set (fin_orders s')" if "t' \<in> set (transactions s')" "top_up_of k t'" for t' k
    using that t(1) books_okD(8) [OF ok] x(1) unfolding ids s'(3) by (auto simp: top_up_of_def)
  ultimately show ?thesis
    using credited_keys [OF books_okD(3,4) [OF ok]] put_numbers [OF u x(1) y(1)] books_okD(2) [OF ok] u
    by (simp add: books_ok_def s'(1,2))
qed

theorem book_step_ok: "book_step s s' \<Longrightarrow> books_ok s \<Longrightarrow> books_ok s'"
proof (induction rule: book_step.induct)
  case (annotate s s')
  then have same: "fin_orders s' = update_where (\<lambda>_. False) id (fin_orders s)" "balances s' = balances s"
    "transactions s' = transactions s" "clock s' = clock s" by (simp_all add: same_books_def)
  show ?case using annotate(2) same by (rule lapse_books) simp
next
  case (lapse s' P f s)
  show ?case by (rule lapse_books [OF lapse.prems lapse.hyps(1-4)]) (rule lapse.hyps(5))
next
  case (place s' s x)
  then show ?case by (intro place_books [of s s' x]) auto
next
  case (settle x s y s' t)
  then show ?case by (intro settle_books [of s x y s' t]) auto
qed

section \<open>Credits follow payments\<close>

definition paid_credits :: "uid \<Rightarrow> payment_db \<Rightarrow> int" where
  "paid_credits user s =
     sum_where (\<lambda>x. online_order x \<and> fo_user x = user \<and> fo_paid_at x \<noteq> None) fo_package_credits (fin_orders s)"

definition spendable :: "uid \<Rightarrow> credit_balance list \<Rightarrow> int" where
  "spendable user t = (case first_where (\<lambda>b. bal_user b = user) t of None \<Rightarrow> 0 | Some b \<Rightarrow> bal_available b)"

lemma spendable_Cons: "spendable u (b # t) = (if bal_user b = u then bal_available b else spendable u t)"
  by (simp add: spendable_def first_where_def)

lemma spendable_Nil: "spendable u [] = 0"
  by (simp add: spendable_def first_where_def)

lemma spendable_append:
  "spendable u (t @ [b]) = (if \<exists>b \<in> set t. bal_user b = u then spendable u t
     else if bal_user b = u then bal_available b else 0)"
  by (induction t) (auto simp: spendable_Cons spendable_Nil)

lemma spendable_update:
  assumes "distinct (map bal_id t)" and "distinct (map bal_user t)" and "b \<in> set t"
  shows "spendable u (update_where (\<lambda>x. bal_id x = bal_id b) (\<lambda>_. b\<lparr>bal_available := n\<rparr>) t) =
    (if u = bal_user b then n else spendable u t)"
  using assms
proof (induction t)
  case (Cons a t)
  show ?case
  proof (cases "a = b")
    case True
    then have "bal_id b \<notin> bal_id ` set t" using Cons.prems by auto
    then have "update_where (\<lambda>x. bal_id x = bal_id b) (\<lambda>_. b\<lparr>bal_available := n\<rparr>) t = t"
      by (intro update_where_none) (metis imageI)
    with True show ?thesis by (simp add: spendable_Cons)
  next
    case False
    then have b: "b \<in> set t" using Cons.prems by simp
    then have "bal_id a \<noteq> bal_id b" "bal_user a \<noteq> bal_user b" using Cons.prems by (auto simp: image_iff)
    then show ?thesis using Cons b by (cases "u = bal_user b") (simp_all add: spendable_Cons)
  qed
qed simp

lemma spendable_credited:
  assumes "distinct (map bal_id (balances s))" and "distinct (map bal_user (balances s))"
  shows "spendable u (credited user n s) = spendable u (balances s) + (if u = user then n else 0)"
proof (cases "first_where (\<lambda>b. bal_user b = user) (balances s)")
  case None
  then have none: "\<not> (\<exists>b \<in> set (balances s). bal_user b = user)" by (simp add: first_where_None)
  have "spendable u (balances s) = 0" if "u = user" using None that by (simp add: spendable_def)
  moreover have "spendable u (balances s) = 0" if "\<not> (\<exists>b \<in> set (balances s). bal_user b = u)"
  proof -
    have "first_where (\<lambda>b. bal_user b = u) (balances s) = None" using that by (simp add: first_where_None)
    then show ?thesis by (simp add: spendable_def)
  qed
  ultimately show ?thesis using None none by (auto simp: credited_def spendable_append)
next
  case (Some b)
  then have b: "b \<in> set (balances s)" "bal_user b = user" by (auto dest: first_where_Some)
  have "spendable user (balances s) = bal_available b" using Some by (simp add: spendable_def)
  then show ?thesis using Some b spendable_update [OF assms b(1)] by (simp add: credited_def)
qed

text \<open>What a user has, less what the user has paid for, is left unchanged.\<close>

lemma lapse_paid_credits:
  assumes "\<And>x. P x \<Longrightarrow> terms (f x) = terms x \<and> fo_paid_at (f x) = fo_paid_at x"
  shows "sum_where (\<lambda>x. online_order x \<and> fo_user x = u \<and> fo_paid_at x \<noteq> None) fo_package_credits
      (update_where P f t) =
    sum_where (\<lambda>x. online_order x \<and> fo_user x = u \<and> fo_paid_at x \<noteq> None) fo_package_credits t"
proof (rule sum_where_same)
  fix r
  assume "P r"
  from assms [OF this] have t: "terms (f r) = terms r" and p: "fo_paid_at (f r) = fo_paid_at r" by simp_all
  show "(online_order (f r) \<and> fo_user (f r) = u \<and> fo_paid_at (f r) \<noteq> None) =
      (online_order r \<and> fo_user r = u \<and> fo_paid_at r \<noteq> None) \<and>
    (online_order r \<and> fo_user r = u \<and> fo_paid_at r \<noteq> None \<longrightarrow> fo_package_credits (f r) = fo_package_credits r)"
    by (simp add: termsD [OF t] p)
qed

lemma book_step_funds:
  assumes "book_step s s'" and "books_ok s"
  shows "current_available_credits u s' - paid_credits u s' = current_available_credits u s - paid_credits u s"
  using assms
proof (induction rule: book_step.induct)
  case (annotate s s')
  then show ?case by (simp add: same_books_def current_available_credits_def paid_credits_def)
next
  case (lapse s' P f s)
  have "paid_credits u s' = paid_credits u s"
    unfolding paid_credits_def lapse.hyps(1) by (rule lapse_paid_credits) (use lapse.hyps(5) in blast)
  then show ?case by (simp add: current_available_credits_def lapse.hyps(2))
next
  case (place s' s x)
  then show ?case by (simp add: current_available_credits_def paid_credits_def)
next
  case (settle x s y s' t)
  note yx = termsD [OF settle.hyps(4)]
  have unpaid: "fo_paid_at x = None" using books_okD(5) [OF settle.prems settle.hyps(1)] settle.hyps(2)
    by (simp add: order_ok_def)
  obtain p where p: "fo_paid_at y = Some p" using settle.hyps(6) by blast
  have "paid_credits u s' = paid_credits u s + (if u = fo_user x then fo_package_credits x else 0)"
    unfolding paid_credits_def settle.hyps(7) fo_tab.put_def yx(1)
    using fo_tab.sum_where_update [OF books_okD(1) [OF settle.prems] settle.hyps(1),
      where Q = "\<lambda>z. fo_id z = fo_id x" and f = "\<lambda>_. y" and g = fo_package_credits
        and P = "\<lambda>x. online_order x \<and> fo_user x = u \<and> fo_paid_at x \<noteq> None", OF refl]
    by (simp add: yx(3,4,8) unpaid p settle.hyps(3))
  moreover have "current_available_credits u s' =
      current_available_credits u s + (if u = fo_user x then fo_package_credits x else 0)"
    using spendable_credited [OF books_okD(3,4) [OF settle.prems], of u "fo_user x" "fo_package_credits x"]
    by (simp add: current_available_credits_def spendable_def settle.hyps(8))
  ultimately show ?case by simp
qed

section \<open>Few orders in a short time\<close>

definition window_orders :: "uid \<Rightarrow> time \<Rightarrow> payment_db \<Rightarrow> nat" where
  "window_orders user start s =
     count_where (\<lambda>x. online_order x \<and> fo_user x = user \<and> active_order x \<and> start \<le> fo_created_at x \<and>
       fo_created_at x \<le> start + payment_rate_limit_window) (fin_orders s)"

lemma count_update_le: "(\<And>x. Q x \<Longrightarrow> P (f x) \<Longrightarrow> P x) \<Longrightarrow> count_where P (update_where Q f t) \<le> count_where P t"
  by (induction t) auto

lemma count_mono_le: "(\<And>x. x \<in> set t \<Longrightarrow> P x \<Longrightarrow> Q x) \<Longrightarrow> count_where P t \<le> count_where Q t"
  by (induction t) auto

lemma count_where_append: "count_where P (t @ u) = count_where P t + count_where P u"
  by (simp add: count_where_def)

lemma book_step_window:
  assumes "book_step s s'" and "books_ok s"
    and "\<And>u start. window_orders u start s \<le> payment_user_order_limit"
  shows "window_orders u start s' \<le> payment_user_order_limit"
  using assms
proof (induction rule: book_step.induct)
  case (annotate s s')
  then show ?case by (simp add: same_books_def window_orders_def)
next
  case (lapse s' P f s)
  let ?C = "\<lambda>x. online_order x \<and> fo_user x = u \<and> active_order x \<and> start \<le> fo_created_at x \<and>
       fo_created_at x \<le> start + payment_rate_limit_window"
  have "window_orders u start s' \<le> window_orders u start s"
    unfolding window_orders_def lapse.hyps(1)
  proof (rule count_update_le)
    fix x
    assume "P x" and c: "?C (f x)"
    note fx = lapse.hyps(5) [OF \<open>P x\<close>]
    then have t: "terms (f x) = terms x" by simp
    have "active_order x" using c fx by (auto simp: active_order_def lapses_def)
    then show "?C x" using c by (simp add: termsD [OF t])
  qed
  also have "\<dots> \<le> payment_user_order_limit" by (rule lapse.prems(2))
  finally show ?case .
next
  case (place s' s x)
  show ?case
  proof (cases "fo_user x = u \<and> start \<le> clock s \<and> clock s \<le> start + payment_rate_limit_window")
    case True
    then have "count_where (\<lambda>x. online_order x \<and> fo_user x = u \<and> active_order x \<and> start \<le> fo_created_at x \<and>
        fo_created_at x \<le> start + payment_rate_limit_window) (fin_orders s) \<le>
      recent_orders u (clock s - payment_rate_limit_window) (fin_orders s)"
      unfolding recent_orders_def by (intro count_mono_le) auto
    then show ?thesis using place.hyps True by (simp add: window_orders_def count_where_append)
  next
    case False
    then have "window_orders u start s' = window_orders u start s"
      using place.hyps by (auto simp: window_orders_def count_where_append)
    then show ?thesis using place.prems(2) by simp
  qed
next
  case (settle x s y s' t)
  note yx = termsD [OF settle.hyps(4)]
  have "x = z" if "z \<in> set (fin_orders s)" "fo_id z = fo_id x" for z
    using fo_tab.unique_same [OF books_okD(1) [OF settle.prems(1)] settle.hyps(1) that(1)] that(2) by simp
  then have put: "fin_orders s' = update_where (\<lambda>z. z = x) (\<lambda>_. y) (fin_orders s)"
    using settle.hyps(7) yx by (auto simp: fo_tab.put_def update_where_def)
  have "window_orders u start s' \<le> window_orders u start s"
    unfolding window_orders_def put using settle.hyps(2) by (intro count_update_le) (simp add: yx active_order_def)
  also have "\<dots> \<le> payment_user_order_limit" by (rule settle.prems(2))
  finally show ?case .
qed

end
