(* ===== verification/PaymentSteps.thy ===== *)
theory PaymentSteps
  imports PaymentSafety
begin

text \<open>
  Every payment request is a sequence of steps of the order book of \<^verbatim>\<open>PaymentSafety\<close>:
  lemmas for the payment records, which leave the books alone, for the statements on orders, for
  the settlement of an order, and for each request.
\<close>

abbreviation book_steps :: "payment_db \<Rightarrow> payment_db \<Rightarrow> bool" where
  "book_steps \<equiv> book_step\<^sup>*\<^sup>*"

lemma book_steps_ok: "book_steps s s' \<Longrightarrow> books_ok s \<Longrightarrow> books_ok s'"
  by (induction rule: rtranclp_induct) (auto intro: book_step_ok)

section \<open>Payment records leave the books alone\<close>

named_theorems books_same "operations on payment records"

lemma same_books_refl [simp]: "same_books s s"
  by (simp add: same_books_def)

lemma same_books_trans [trans]: "same_books a b \<Longrightarrow> same_books b c \<Longrightarrow> same_books a c"
  by (simp add: same_books_def)

lemma same_books_steps: "same_books s s' \<Longrightarrow> book_steps s s'"
  by (intro r_into_rtranclp annotate)

lemma update_payment_books [simp]: "same_books s (update_payment p f s') = same_books s s'"
  by (simp add: same_books_def update_payment_def)

lemma ensure_record_books:
  "ensure_payment_record_for_finance_order number x s = Inr (p, s') \<Longrightarrow> same_books s s'"
  by (auto simp: ensure_payment_record_for_finance_order_def Let_def split: option.splits if_splits)
    (simp add: same_books_def)

lemma on_payment_record_books [books_same]: "on_payment_record number x f s = Inr s' \<Longrightarrow> same_books s s'"
  by (auto simp: on_payment_record_def inv_simps dest: ensure_record_books)

lemma ensure_payment_record_books [books_same]: "ensure_payment_record number x s = Inr s' \<Longrightarrow> same_books s s'"
  by (auto simp: ensure_payment_record_def inv_simps dest: ensure_record_books)

lemma mark_books [books_same]:
  "mark_payment_record_requested number x t m s = Inr s' \<Longrightarrow> same_books s s'"
  "mark_payment_record_error number x e m n t src s = Inr s' \<Longrightarrow> same_books s s'"
  "mark_payment_record_closed number x t m s = Inr s' \<Longrightarrow> same_books s s'"
  "mark_payment_record_paid number x r t m s = Inr s' \<Longrightarrow> same_books s s'"
  "mark_wechat_payment_record_paid number x w t m s = Inr s' \<Longrightarrow> same_books s s'"
  "mark_wechat_virtual_payment_record_paid number x v t m s = Inr s' \<Longrightarrow> same_books s s'"
  by (auto simp: mark_payment_record_requested_def mark_payment_record_error_def mark_payment_record_closed_def
    mark_payment_record_paid_def mark_wechat_payment_record_paid_def
    mark_wechat_virtual_payment_record_paid_def intro: on_payment_record_books)

lemma received_books [books_same]:
  "mark_alipay_notify_received number vs t m e n s = Inr s' \<Longrightarrow> same_books s s'"
  "mark_alipay_query_received number x r t e n s = Inr s' \<Longrightarrow> same_books s s'"
  "mark_wechat_query_received number x w t e n s = Inr s' \<Longrightarrow> same_books s s'"
  "mark_wechat_notify_received number x w t e n s = Inr s' \<Longrightarrow> same_books s s'"
  "mark_wechat_virtual_query_received number x v t e n s = Inr s' \<Longrightarrow> same_books s s'"
  "mark_wechat_virtual_notify_received number x v t e n s = Inr s' \<Longrightarrow> same_books s s'"
  by (auto simp: mark_alipay_notify_received_def mark_alipay_query_received_def mark_wechat_query_received_def
    mark_wechat_notify_received_def mark_wechat_virtual_query_received_def
    mark_wechat_virtual_notify_received_def Let_def split: option.splits if_splits
    dest: mark_books(2) on_payment_record_books)

lemma attempt_steps: "(\<And>s'. f s = Inr s' \<Longrightarrow> book_steps s s') \<Longrightarrow> book_steps s (attempt f s)"
  by (cases "f s") (auto simp: attempt_def)

lemma attempt_books: "(\<And>s'. f s = Inr s' \<Longrightarrow> same_books s s') \<Longrightarrow> same_books s (attempt f s)"
  by (cases "f s") (auto simp: attempt_def)

lemma attempt_notes [simp]:
  "same_books s (attempt (ensure_payment_record number x) s)"
  "same_books s (attempt (mark_payment_record_error number x e m n t src) s)"
  "same_books s (attempt (mark_alipay_notify_received number vs t m e n) s)"
  "same_books s (attempt (mark_alipay_query_received number x r t e n) s)"
  "same_books s (attempt (mark_wechat_query_received number x w t e n) s)"
  "same_books s (attempt (mark_wechat_notify_received number x w t e n) s)"
  "same_books s (attempt (mark_wechat_virtual_query_received number x v t e n) s)"
  "same_books s (attempt (mark_wechat_virtual_notify_received number x v t e n) s)"
  by (rule attempt_books; erule books_same)+

lemma attempt_steps_notes [simp]:
  "book_steps s (attempt (ensure_payment_record number x) s)"
  "book_steps s (attempt (mark_payment_record_error number x e m n t src) s)"
  "book_steps s (attempt (mark_alipay_notify_received number vs t m e n) s)"
  "book_steps s (attempt (mark_alipay_query_received number x r t e n) s)"
  "book_steps s (attempt (mark_wechat_query_received number x w t e n) s)"
  "book_steps s (attempt (mark_wechat_notify_received number x w t e n) s)"
  "book_steps s (attempt (mark_wechat_virtual_query_received number x v t e n) s)"
  "book_steps s (attempt (mark_wechat_virtual_notify_received number x v t e n) s)"
  by (rule same_books_steps; rule attempt_notes)+

section \<open>Statements on orders\<close>

lemma update_orders_simps [simp]:
  "fin_orders (update_orders P f s) = update_where P f (fin_orders s)"
  "balances (update_orders P f s) = balances s" "transactions (update_orders P f s) = transactions s"
  "clock (update_orders P f s) = clock s"
  by (simp_all add: update_orders_def)

lemma update_orders_step:
  assumes "\<And>x. P x \<Longrightarrow> terms (f x) = terms x \<and> fo_paid_at (f x) = fo_paid_at x \<and>
       lapses (fo_payment_status x) (fo_payment_status (f x))"
  shows "book_step s (update_orders P f s)"
  by (rule lapse [where P = P and f = f]) (use assms in simp_all)

lemma expire_step: "book_step s (expire_stale_pending_finance_orders now s)"
  unfolding expire_stale_pending_finance_orders_def
  by (rule update_orders_step) (simp add: terms_def lapses_def)

lemma close_step: "book_step s (close_pending k s)"
  unfolding close_pending_def by (rule update_orders_step) (simp add: terms_def lapses_def pending_row_def)

lemma request_step: "book_step s (update_orders P (\<lambda>y. y\<lparr>fo_payment_request_at := t\<rparr>) s)"
  by (rule update_orders_step) (simp add: terms_def lapses_def)

lemma refund_step: "book_step s (update_orders P (\<lambda>y. y\<lparr>fo_payment_status := status_refunded\<rparr>) s)"
  by (rule update_orders_step) (simp add: terms_def lapses_def)

lemma expire_keeps [simp]: "clock (expire_stale_pending_finance_orders now s) = clock s"
  by (simp add: expire_stale_pending_finance_orders_def)

lemma close_keeps [simp]: "clock (close_pending k s) = clock s"
  by (simp add: close_pending_def)

lemma steps_clock: "book_steps s s' \<Longrightarrow> clock s' = clock s"
proof (induction rule: rtranclp_induct)
  case (step a b)
  from step(2) have "clock b = clock a" by cases (simp_all add: same_books_def)
  with step(3) show ?case by simp
qed simp

section \<open>Placing an order\<close>

lemma create_order_steps:
  assumes run: "create_order number x s = Inr (y, s')" and now: "fo_created_at x = clock s"
    and x: "fo_payment_status x = status_pending" "fo_paid_at x = None" "online_order x"
    and limit: "enforce_payment_order_rate_limit (fo_user x) ip (clock s) s = None"
  shows "book_steps s s'"
proof -
  from run obtain s1 where ins: "insert_order x s = Inr (y, s1)" and ens: "ensure_payment_record number y s1 = Inr s'"
    by (auto simp: create_order_def inv_simps)
  from ins have fresh: "fo_number x \<notin> fo_number ` set (fin_orders s)"
    and y: "y = x\<lparr>fo_id := next_key fo_id (fin_orders s)\<rparr>" and s1: "s1 = s\<lparr>fin_orders := fin_orders s @ [y]\<rparr>"
    by (auto simp: insert_order_def Let_def first_where_None split: if_splits)
  have "recent_orders (fo_user x) (clock s - payment_rate_limit_window) (fin_orders s) < payment_user_order_limit"
    using limit by (auto simp: enforce_payment_order_rate_limit_def recent_orders_def Let_def split: if_splits)
  then have "book_step s s1"
    using fresh now x by (intro place [of s1 s y]) (simp_all add: y s1 online_order_def)
  also have "book_steps s1 s'" using ens by (intro same_books_steps ensure_payment_record_books)
  finally show ?thesis .
qed

section \<open>Settling an order\<close>

lemma save_order_put: "fin_orders (save_order y s) = fo_tab.put y (fin_orders s)"
  by (simp add: save_order_def fo_tab.put_def)

lemma claim_then_save:
  "fo_id y = k \<Longrightarrow> fo_tab.put y (update_where (pending_row k) (\<lambda>x. x\<lparr>fo_payment_status := status_paid\<rparr>) t) =
     fo_tab.put y t"
  by (auto simp: fo_tab.put_def update_where_def pending_row_def)

lemma save_balance_simps [simp]:
  "fin_orders (save_balance b s) = fin_orders s" "transactions (save_balance b s) = transactions s"
  "clock (save_balance b s) = clock s"
  "balances (save_balance b s) = update_where (\<lambda>x. bal_id x = bal_id b) (\<lambda>_. b) (balances s)"
  by (simp_all add: save_balance_def update_balances_def)

lemma insert_transaction_simps [simp]:
  "fin_orders (insert_transaction t s) = fin_orders s" "balances (insert_transaction t s) = balances s"
  "clock (insert_transaction t s) = clock s"
  "transactions (insert_transaction t s) = transactions s @ [t\<lparr>txn_id := next_key txn_id (transactions s)\<rparr>]"
  by (simp_all add: insert_transaction_def)

lemma raise_balance:
  assumes "first_or_create_balance user s = (b, s1)"
  shows "fin_orders s1 = fin_orders s" "transactions s1 = transactions s" "clock s1 = clock s"
    "update_where (\<lambda>x. bal_id x = bal_id b) (\<lambda>_. b\<lparr>bal_available := bal_available b + n\<rparr>) (balances s1) =
       credited user n s"
proof -
  have fresh: "update_where (\<lambda>x. bal_id x = next_key bal_id (balances s)) f (balances s) = balances s" for f
    by (intro update_where_none) (use next_key_fresh [of _ "balances s" bal_id] in force)
  show "fin_orders s1 = fin_orders s" "transactions s1 = transactions s" "clock s1 = clock s"
    "update_where (\<lambda>x. bal_id x = bal_id b) (\<lambda>_. b\<lparr>bal_available := bal_available b + n\<rparr>) (balances s1) =
       credited user n s"
    using assms fresh by (auto simp: first_or_create_balance_def credited_def Let_def split: option.splits)
qed

lemma top_up_transaction_facts:
  "top_up_of (fo_id x) (top_up_transaction reason x n\<lparr>txn_id := k\<rparr>)"
  "txn_user (top_up_transaction reason x n\<lparr>txn_id := k\<rparr>) = fo_user x"
  "txn_amount (top_up_transaction reason x n\<lparr>txn_id := k\<rparr>) = fo_package_credits x"
  by (simp_all add: top_up_transaction_def top_up_of_def)

text \<open>Crediting an order that has no top-up yet, in the words of the order book.\<close>

definition credits_once :: "finance_order \<Rightarrow> payment_db \<Rightarrow> payment_db \<Rightarrow> bool" where
  "credits_once x s s' \<longleftrightarrow> fin_orders s' = fin_orders s \<and> clock s' = clock s \<and>
     balances s' = credited (fo_user x) (fo_package_credits x) s \<and>
     (\<exists>t. transactions s' = transactions s @ [t] \<and> top_up_of (fo_id x) t \<and> txn_user t = fo_user x \<and>
        txn_amount t = fo_package_credits x)"

lemma first_top_up: "first_where (top_up_of k) (transactions s) = None \<longleftrightarrow> top_ups k s = []"
  by (simp add: first_where_None top_ups_def filter_empty_conv)

lemma credit_alipay_once:
  assumes "credit_alipay_order x s = (a, s')" and "top_ups (fo_id x) s = []"
  shows "credits_once x s s'"
proof -
  obtain b s1 where b: "first_or_create_balance (fo_user x) s = (b, s1)" by (cases "first_or_create_balance (fo_user x) s")
  have none: "first_where (top_up_of (fo_id x)) (transactions s) = None" using assms(2) by (simp add: first_top_up)
  note r = raise_balance [OF b]
  show ?thesis using assms(1) none r top_up_transaction_facts
    by (auto simp: credit_alipay_order_def b Let_def credits_once_def)
qed

lemma credit_wechat_once:
  assumes "credit_wechat_order reason x s = (a, s')" and "top_ups (fo_id x) s = []"
  shows "credits_once x s s'"
proof -
  obtain b s1 where b: "first_or_create_balance (fo_user x) s = (b, s1)" by (cases "first_or_create_balance (fo_user x) s")
  have none: "first_where (top_up_of (fo_id x)) (transactions s) = None" using assms(2) by (simp add: first_top_up)
  note r = raise_balance [OF b]
  show ?thesis using assms(1) none r top_up_transaction_facts
    by (auto simp: credit_wechat_order_def b Let_def credits_once_def)
qed

lemma settle_step:
  assumes ok: "books_ok s" and x: "x \<in> set (fin_orders s)" "online_order x"
    and claimed: "count_where (pending_row (fo_id x)) (fin_orders s) \<noteq> 0"
    and y: "terms y = terms x" "fo_payment_status y = status_paid" "fo_paid_at y \<noteq> None"
    and credit: "credits_once y (save_order y (snd (claim_paid (fo_id x) s))) s'"
  shows "book_step s s'" "fo_payment_status x = status_pending"
proof -
  note yx = termsD [OF y(1)]
  obtain z where z: "z \<in> set (fin_orders s)" "pending_row (fo_id x) z" using claimed by (auto simp: count_where_0)
  then have "z = x" using fo_tab.unique_same [OF books_okD(1) [OF ok] z(1) x(1)] by (simp add: pending_row_def)
  then show pending: "fo_payment_status x = status_pending" using z(2) by (simp add: pending_row_def)
  have orders: "fin_orders s' = fo_tab.put y (fin_orders s)"
    using credit claim_then_save [OF yx(1)]
    by (simp add: credits_once_def claim_paid_def save_order_put)
  have "credited (fo_user y) (fo_package_credits y) (save_order y (snd (claim_paid (fo_id x) s))) =
      credited (fo_user x) (fo_package_credits x) s"
    by (simp add: credited_def save_order_def claim_paid_def yx cong: option.case_cong)
  with credit show "book_step s s'"
    using settle [OF x(1) pending x(2) y orders] unfolding credits_once_def
    by (auto simp: yx save_order_def claim_paid_def)
qed

lemma claim_keeps_top_ups: "top_ups k (save_order y (snd (claim_paid j s))) = top_ups k s"
  by (simp add: top_ups_def save_order_def claim_paid_def)

lemma pending_no_top_ups:
  assumes "books_ok s" and "x \<in> set (fin_orders s)" and "online_order x" and "fo_payment_status x = status_pending"
  shows "top_ups (fo_id x) s = []"
  using books_okD(5,7) [OF assms(1,2)] assms(3,4) by (simp add: order_ok_def order_credited_def)

lemma claim_none:
  assumes "count_where (pending_row k) (fin_orders s) = 0"
  shows "same_books s (snd (claim_paid k s))"
proof -
  have "update_where (pending_row k) f (fin_orders s) = fin_orders s" for f
    using assms by (intro update_where_none) (simp add: count_where_0)
  then show ?thesis by (simp add: same_books_def claim_paid_def)
qed

lemma find_orderD: "find_order number m s = Some x \<Longrightarrow> x \<in> set (fin_orders s) \<and> fo_number x = number \<and> fo_payment_method x = m"
  by (auto simp: find_order_def dest: first_where_Some)

text \<open>The three completions refine the order book.\<close>

lemma settle_order_steps:
  assumes run: "settle_order credit invalid x mark paid y s = Inr (z, available, s')"
    and ok: "books_ok s" and x: "x \<in> set (fin_orders s)" "online_order x"
    and mark: "\<And>s1. mark s = Inr s1 \<Longrightarrow> same_books s s1"
    and y: "terms y = terms x" "fo_payment_status y = status_paid" "fo_paid_at y \<noteq> None"
    and credit: "\<And>a s1 s2. credit y s1 = (a, s2) \<Longrightarrow> top_ups (fo_id y) s1 = [] \<Longrightarrow> credits_once y s1 s2"
  shows "book_steps s s'"
proof -
  from run obtain s1 where m: "mark s = Inr s1" by (auto simp: settle_order_def inv_simps)
  have same: "same_books s s1" using m by (rule mark)
  then have ok1: "books_ok s1" by (intro book_step_ok [OF annotate ok])
  have mem: "x \<in> set (fin_orders s1)" using x same by (simp add: same_books_def)
  obtain n s2 where claim: "claim_paid (fo_id x) s1 = (n, s2)" by (cases "claim_paid (fo_id x) s1")
  then have n: "n = count_where (pending_row (fo_id x)) (fin_orders s1)" and s2: "s2 = snd (claim_paid (fo_id x) s1)"
    by (auto simp: claim_paid_def)
  have "book_steps s1 s'"
  proof (cases "fo_payment_status x = status_paid")
    case True
    then show ?thesis using run by (simp add: settle_order_def m)
  next
    case unpaid: False
    show ?thesis
    proof (cases "n = 0")
      case True
      then have "s' = s2" using run unpaid
        by (auto simp: settle_order_def m claim split: if_splits option.splits)
      then show ?thesis using True by (simp add: s2 n same_books_steps claim_none)
    next
      case False
      then have run': "credit y (save_order y s2) = (available, s')" using run unpaid
        by (auto simp: settle_order_def m claim split: if_splits prod.splits)
      obtain w where "w \<in> set (fin_orders s1)" "pending_row (fo_id x) w" using False n by (auto simp: count_where_0)
      then have pending: "fo_payment_status x = status_pending"
        using fo_tab.unique_same [OF books_okD(1) [OF ok1] _ mem] by (auto simp: pending_row_def)
      have "top_ups (fo_id y) (save_order y s2) = []"
        using pending_no_top_ups [OF ok1 mem x(2) pending] by (simp add: s2 claim_keeps_top_ups termsD(1) [OF y(1)])
      from credit [OF run' this] have "credits_once y (save_order y (snd (claim_paid (fo_id x) s1))) s'"
        by (simp add: s2)
      from settle_step(1) [OF ok1 mem x(2) _ y this] False n show ?thesis by simp
    qed
  qed
  with same_books_steps [OF same] show ?thesis by simp
qed

lemma complete_alipay_steps:
  assumes run: "complete_alipay_order number order_number r paid_at summary s = Inr (y, available, s')"
    and ok: "books_ok s"
  shows "book_steps s s'"
proof -
  from run obtain x where x: "find_order order_number method_alipay_page s = Some x"
      and settle: "settle_order credit_alipay_order AlipayInvalidStatus x
        (mark_payment_record_paid number x r paid_at summary) (trade_paid (atr_trade_status r))
        (alipay_paid_row x r paid_at summary) s = Inr (y, available, s')"
    by (auto simp: complete_alipay_order_def split: option.splits if_splits)
  have mem: "x \<in> set (fin_orders s)" "online_order x" using find_orderD [OF x] by (simp_all add: online_order_def)
  show ?thesis using settle ok mem
    by (rule settle_order_steps)
      (simp_all add: alipay_paid_row_def terms_def mark_books(4) credit_alipay_once)
qed

lemma complete_wechat_steps:
  assumes run: "complete_wechat_order cfg number order_number r paid_at summary s = Inr (y, available, s')"
    and ok: "books_ok s"
  shows "book_steps s s'"
proof -
  from run obtain x where x: "find_order order_number method_wechat_jsapi s = Some x"
      and settle: "settle_order (credit_wechat_order wechat_top_up_reason) WechatInvalidStatus x
        (mark_wechat_payment_record_paid number x r paid_at summary) (wqr_trade_state r = ''SUCCESS'')
        (wechat_paid_row x r paid_at summary) s = Inr (y, available, s')"
    by (auto simp: complete_wechat_order_def split: option.splits if_splits)
  have mem: "x \<in> set (fin_orders s)" "online_order x" using find_orderD [OF x] by (simp_all add: online_order_def)
  show ?thesis using settle ok mem
    by (rule settle_order_steps)
      (simp_all add: wechat_paid_row_def terms_def mark_books(5) credit_wechat_once)
qed

lemma complete_virtual_steps:
  assumes run: "complete_wechat_virtual_order number order_number r paid_at summary s = Inr (y, available, s')"
    and ok: "books_ok s"
  shows "book_steps s s'"
proof -
  from run obtain x where x: "find_order order_number method_wechat_virtual_goods s = Some x"
      and settle: "settle_order (credit_wechat_order wechat_virtual_top_up_reason) WechatInvalidStatus x
        (mark_wechat_virtual_payment_record_paid number x r paid_at summary)
        (is_wechat_virtual_order_paid (wvr_status r)) (virtual_paid_row x r paid_at summary) s =
        Inr (y, available, s')"
    by (auto simp: complete_wechat_virtual_order_def split: option.splits if_splits)
  have mem: "x \<in> set (fin_orders s)" "online_order x" using find_orderD [OF x] by (simp_all add: online_order_def)
  show ?thesis using settle ok mem
    by (rule settle_order_steps)
      (simp_all add: virtual_paid_row_def terms_def mark_books(6) credit_wechat_once)
qed

section \<open>Requests\<close>

text \<open>
  The statements have the form "from sound books the request takes steps of the order
  book"; sequences are composed by transitivity, the soundness of the books in between
  follows from the steps themselves.
\<close>

lemma steps_then: "book_steps a b \<Longrightarrow> (books_ok b \<Longrightarrow> book_steps b c) \<Longrightarrow> books_ok a \<Longrightarrow> book_steps a c"
  using book_steps_ok by (metis rtranclp_trans)

lemma first_step: "book_step a b \<Longrightarrow> book_steps b c \<Longrightarrow> book_steps a c"
  by (rule converse_rtranclp_into_rtranclp)

lemma last_step: "book_steps a b \<Longrightarrow> book_step b c \<Longrightarrow> book_steps a c"
  by (rule rtranclp.rtrancl_into_rtrancl)

lemma close_alipay_steps: "book_steps s (attempt (close_alipay_order number x r t) s)"
  by (rule attempt_steps) (auto simp: close_alipay_order_def dest!: mark_books(3) same_books_steps
    intro: first_step [OF close_step])

lemma create_alipay_order_steps:
  "books_ok s \<Longrightarrow> book_steps s (snd (handle_create_alipay_order lib cfg u source body order_number number s))"
proof -
  let ?s1 = "expire_stale_pending_finance_orders (clock s) s"
  have e: "book_steps s ?s1" by (rule r_into_rtranclp) (rule expire_step)
  have "book_steps s s2"
    if "enforce_payment_order_rate_limit (usr_id u) ip (clock s) ?s1 = None"
      and "create_order number (alipay_new_order lib cfg order_number u p ip (clock s)) ?s1 = Inr (x, s2)" for x s2 p ip
  proof -
    have "book_steps ?s1 s2"
      by (rule create_order_steps [OF that(2), where ip = ip])
        (use that(1) in \<open>simp_all add: alipay_new_order_def pending_order_def online_order_def Let_def\<close>)
    with e show ?thesis by simp
  qed
  with e show ?thesis
    by (auto simp: handle_create_alipay_order_def Let_def split: option.splits sum.splits)
qed

lemma find_owned_alipay_steps:
  "find_owned_alipay_order u order_number s = (found, s1) \<Longrightarrow>
     book_steps s s1 \<and> (\<forall>x. found = Some x \<longrightarrow> x \<in> set (fin_orders s1))"
  using expire_step [of s "clock s"]
  by (auto simp: find_owned_alipay_order_def Let_def dest: first_where_Some)

lemma request_payment_steps: "request_payment number x now m s = Inr s' \<Longrightarrow> book_steps s s'"
  by (auto simp: request_payment_def dest!: mark_books(1) same_books_steps
    intro: first_step [OF request_step])

lemma pay_alipay_order_steps:
  "book_steps s (snd (handle_pay_alipay_order lib cfg u order_number number s))"
proof -
  obtain found s1 where f: "find_owned_alipay_order u order_number s = (found, s1)" by fastforce
  have e: "book_steps s s1" using find_owned_alipay_steps [OF f] by simp
  have ensured: "book_steps s (attempt (ensure_payment_record number x) s1)" for x
    using e by (rule rtranclp_trans) simp
  have requested: "book_steps s s2" if "request_payment number x now m s1 = Inr s2" for x now m s2
    using e request_payment_steps [OF that] by (rule rtranclp_trans)
  show ?thesis using e ensured
    by (auto simp: handle_pay_alipay_order_def f split: option.splits sum.splits dest: requested)
qed

lemma alipay_notify_steps:
  "books_ok s \<Longrightarrow> book_steps s (snd (handle_alipay_notify lib cfg vs number1 number2 s))"
  by (auto simp: handle_alipay_notify_def Let_def split: sum.splits dest: complete_alipay_steps)

lemma sync_alipay_steps:
  assumes "books_ok s"
  shows "book_steps s (snd (sync_alipay_order lib cfg summary x answer numbers s))"
proof -
  let ?s1 = "attempt (ensure_payment_record (numbers 0) x) s"
  have s1: "book_steps s ?s1" by simp
  then have ok1: "books_ok ?s1" using assms by (rule book_steps_ok)
  have noted: "book_steps s (attempt (mark_alipay_query_received number x r t e n) ?s1)" for number r t e n
    using s1 by (rule rtranclp_trans) simp
  have closed: "book_steps s (attempt (close_alipay_order number x r t') (attempt (mark_alipay_query_received number' x r t e n) ?s1))"
    for number number' r t t' e n
    using noted by (rule rtranclp_trans) (rule close_alipay_steps)
  have completed: "book_steps s s2"
    if "complete_alipay_order number k r t m ?s1 = Inr (y, a, s2)" for number k r t m y a s2
    using s1 complete_alipay_steps [OF that ok1] by (rule rtranclp_trans)
  show ?thesis using s1 noted closed
    by (auto simp: sync_alipay_order_def Let_def split: sum.splits dest: completed)
qed

lemma query_alipay_order_steps:
  assumes "books_ok s"
  shows "book_steps s (snd (handle_query_alipay_order lib cfg u order_number answer numbers s))"
proof -
  obtain found s1 where f: "find_owned_alipay_order u order_number s = (found, s1)" by fastforce
  have e: "book_steps s s1" using find_owned_alipay_steps [OF f] by simp
  then have "book_steps s (snd (sync_alipay_order lib cfg summary x answer numbers s1))" for summary x
    using sync_alipay_steps [OF book_steps_ok [OF e assms]] by (rule rtranclp_trans)
  with e show ?thesis by (auto simp: handle_query_alipay_order_def f split: option.splits)
qed

lemma admin_sync_steps:
  "books_ok s \<Longrightarrow> book_steps s (snd (handle_admin_sync_finance_order_payment lib cfg k answer numbers s))"
  by (auto simp: handle_admin_sync_finance_order_payment_def sync_alipay_steps split: option.splits)

lemma save_refund_books: "same_books s (save_refund r s)"
  by (simp add: same_books_def save_refund_def)

lemma update_refund_steps: "book_steps s (snd (handle_update_finance_refund k body s))"
proof -
  have "book_steps s s'" if "apply_refund r status s = Inr s'" for r status s'
  proof -
    have "book_steps s (save_refund r s)" by (rule same_books_steps) (rule save_refund_books)
    then show ?thesis using that
      by (auto simp: apply_refund_def Let_def split: if_splits option.splits
        intro: last_step refund_step)
  qed
  then show ?thesis
    by (auto simp: handle_update_finance_refund_def Let_def split: option.splits sum.splits)
qed

lemma request_wechat_steps: "book_steps s (snd (request_wechat_payment x answer numbers now s))"
  by (auto simp: request_wechat_payment_def split: sum.splits intro: same_books_steps mark_books(1))

lemma create_wechat_order_steps:
  assumes "books_ok s"
  shows "book_steps s (snd (handle_create_wechat_pay_order cfg u source body order_number answer numbers s))"
proof -
  let ?s1 = "expire_stale_pending_finance_orders (clock s) s"
  have e: "book_steps s ?s1" by (rule r_into_rtranclp) (rule expire_step)
  have created: "book_steps s (snd (request_wechat_payment x answer numbers now s2))"
    if "enforce_payment_order_rate_limit (usr_id u) ip (clock s) ?s1 = None"
      and "create_order number (wechat_new_order cfg order_number u p openid ip (clock s)) ?s1 = Inr (x, s2)"
    for x s2 p ip openid now number
  proof -
    have "book_steps ?s1 s2"
      by (rule create_order_steps [OF that(2), where ip = ip])
        (use that(1) in \<open>simp_all add: wechat_new_order_def pending_order_def online_order_def\<close>)
    with e have "book_steps s s2" by simp
    then show ?thesis by (rule rtranclp_trans) (rule request_wechat_steps)
  qed
  with e show ?thesis
    by (auto simp: handle_create_wechat_pay_order_def Let_def split: option.splits sum.splits)
qed

lemma close_wechat_steps:
  "book_steps s (attempt (\<lambda>s. mark_payment_record_closed number x t m (close_pending k s)) s)"
  by (rule attempt_steps) (auto dest!: mark_books(3) same_books_steps intro: first_step [OF close_step])

lemma sync_wechat_steps:
  assumes "books_ok s"
  shows "book_steps s (snd (sync_wechat_order cfg x r numbers s))"
proof -
  have closed: "book_steps s (attempt (\<lambda>s. mark_payment_record_closed number x t m (close_pending k s))
      (attempt (mark_wechat_query_received number' x r t' e n) s))" for number number' t t' e n m k
    by (rule rtranclp_trans [OF _ close_wechat_steps]) simp
  show ?thesis using closed
    by (auto simp: sync_wechat_order_def Let_def split: sum.splits dest: complete_wechat_steps [OF _ assms])
qed

lemma query_wechat_steps:
  "books_ok s \<Longrightarrow> book_steps s (snd (handle_query_wechat_pay_order cfg u order_number answer numbers s))"
  by (auto simp: handle_query_wechat_pay_order_def sync_wechat_steps split: option.splits sum.splits)

lemma wechat_notify_steps:
  "books_ok s \<Longrightarrow> book_steps s (snd (handle_wechat_pay_notify lib cfg req number s))"
  by (auto simp: handle_wechat_pay_notify_def Let_def split: option.splits sum.splits dest: complete_wechat_steps)

lemma provide_goods_steps [simp]: "book_steps s (notify_provide_goods number x r delivered s)"
  by (auto simp: notify_provide_goods_def split: option.splits)

lemma settle_pending_virtual_steps:
  assumes "books_ok s"
  shows "book_steps s (snd (settle_pending_virtual_order x r delivered numbers now s))"
proof -
  have completed: "book_steps s (notify_provide_goods number y r delivered s1)"
    if "complete_wechat_virtual_order n k r t m s = Inr (y, a, s1)" for number n k t m y a s1
    using complete_virtual_steps [OF that assms] by (rule rtranclp_trans) simp
  then show ?thesis
    by (auto simp: settle_pending_virtual_order_def split: sum.splits)
qed

lemma close_replacement_steps:
  "close_wechat_virtual_order_for_replacement number x t m s = Inr s' \<Longrightarrow> book_steps s s'"
  by (auto simp: close_wechat_virtual_order_for_replacement_def dest!: mark_books(3) same_books_steps
    intro: first_step [OF close_step])

lemma sync_virtual_steps:
  "books_ok s \<Longrightarrow> book_steps s (snd (sync_wechat_virtual_pending_order x answer delivered numbers now s))"
  by (auto simp: sync_wechat_virtual_pending_order_def settle_pending_virtual_steps
    split: sum.splits option.splits dest: close_replacement_steps)

lemma virtual_customer_books: "same_books s (snd (virtual_customer cfg u body session s))"
  by (auto simp: virtual_customer_def Let_def same_books_def split: option.splits)

lemma replace_reused_steps: "book_steps s (snd (replace_reused_order lib req x v number now s))"
  by (auto simp: replace_reused_order_def split: sum.splits dest: close_replacement_steps)

lemma recover_stale_steps:
  assumes "books_ok s"
  shows "book_steps s (snd (recover_stale_order lib u p req answer delivered numbers now s))"
proof -
  have synced: "book_steps s s1"
    if "sync_wechat_virtual_pending_order x answer delivered numbers now s = (w, s1)" for x w s1
    using sync_virtual_steps [OF assms, of x answer delivered numbers now] that by simp
  have "book_steps s (snd (replace_reused_order lib req x v number now s1))"
    if "sync_wechat_virtual_pending_order x answer delivered numbers now s = (w, s1)" for x v w number s1
    using synced [OF that] replace_reused_steps by (rule rtranclp_trans)
  then show ?thesis
    by (auto simp: recover_stale_order_def split: option.splits sum.splits prod.splits sync_action.splits dest: synced)
qed

lemma reuse_pending_steps:
  assumes "books_ok s"
  shows "book_steps s (snd (reuse_pending_order lib cfg u p session_key answer delivered numbers now s))"
proof -
  have synced: "book_steps s s1"
    if "sync_wechat_virtual_pending_order x answer delivered numbers now s = (w, s1)" for x w s1
    using sync_virtual_steps [OF assms, of x answer delivered numbers now] that by simp
  show ?thesis
    by (auto simp: reuse_pending_order_def split: option.splits sum.splits prod.splits sync_action.splits dest: synced)
qed

lemma request_virtual_steps:
  "book_steps s (snd (request_virtual_payment lib cfg x product session_key recovered number now s))"
  by (auto simp: request_virtual_payment_def split: sum.splits intro: same_books_steps mark_books(1))

lemma create_virtual_steps:
  "now = clock s \<Longrightarrow> book_steps s
     (snd (create_virtual_order lib cfg u p product openid session_key ip order_number recovered numbers now s))"
proof -
  assume now: "now = clock s"
  have "book_steps s (snd (request_virtual_payment lib cfg x product session_key recovered number' now s1))"
    if "enforce_payment_order_rate_limit (usr_id u) ip now s = None"
      and "create_order number (virtual_new_order cfg order_number u p openid product ip now) s = Inr (x, s1)"
    for number number' x s1
  proof -
    have "book_steps s s1"
      by (rule create_order_steps [OF that(2), where ip = ip])
        (use that(1) now in \<open>simp_all add: virtual_new_order_def pending_order_def online_order_def\<close>)
    then show ?thesis by (rule rtranclp_trans) (rule request_virtual_steps)
  qed
  then show ?thesis by (auto simp: create_virtual_order_def split: option.splits sum.splits)
qed

lemma create_wechat_virtual_steps:
  assumes ok: "books_ok s"
  shows "book_steps s (snd (handle_create_wechat_virtual_pay_order lib cfg u source body session answer
    delivered order_number numbers s))"
proof -
  obtain w s1 where c: "virtual_customer cfg u body session s = (w, s1)" by fastforce
  have s1: "book_steps s s1" using virtual_customer_books [of s cfg u body session] c by (simp add: same_books_steps)
  let ?s2 = "expire_stale_pending_finance_orders (clock s1) s1"
  have s2: "book_steps s ?s2" using s1 expire_step by (rule last_step)
  then have ok2: "books_ok ?s2" using ok by (rule book_steps_ok)
  have recovered: "book_steps s s3 \<and> clock s3 = clock s1" if "book_steps ?s2 s3" for s3
    using rtranclp_trans [OF s2 that] steps_clock [OF that] by simp
  have stale: "book_steps s s3 \<and> clock s3 = clock s1"
    if "recover_stale_order lib u p req answer delivered numbers (clock s1) ?s2 = (v, s3)" for p req v s3
    using recover_stale_steps [OF ok2, of lib u p req answer delivered numbers "clock s1"] that
    by (intro recovered) simp
  have reuse: "book_steps s s3 \<and> clock s3 = clock s1"
    if "reuse_pending_order lib cfg u p session_key answer delivered numbers (clock s1) ?s2 = (v, s3)"
    for p session_key v s3
    using reuse_pending_steps [OF ok2, of lib cfg u p session_key answer delivered numbers "clock s1"] that
    by (intro recovered) simp
  have created: "book_steps s (snd (create_virtual_order lib cfg u p product openid session_key ip order_number
      rec numbers (clock s1) s3))"
    if "book_steps s s3 \<and> clock s3 = clock s1" for p product openid session_key ip rec s3
    using conjunct1 [OF that] by (rule rtranclp_trans) (rule create_virtual_steps, use that in simp)
  show ?thesis
  proof (cases w)
    case (Inl reply)
    then show ?thesis using s1 by (simp add: handle_create_wechat_virtual_pay_order_def c)
  next
    case (Inr x)
    then obtain req openid session_key where w: "w = Inr (req, openid, session_key)" by (cases x) auto
    show ?thesis using s1
      by (auto simp: handle_create_wechat_virtual_pay_order_def c w Let_def
        split: option.splits prod.splits sum.splits dest!: stale reuse intro: created)
  qed
qed

lemma settle_confirmed_steps:
  assumes "books_ok s"
  shows "book_steps s (snd (settle_confirmed_order x r delivered numbers s))"
proof -
  have completed: "book_steps s (notify_provide_goods number y r delivered s1)"
    if "complete_wechat_virtual_order n k r t m s = Inr (y, a, s1)" for number n k t m y a s1
    using complete_virtual_steps [OF that assms] by (rule rtranclp_trans) simp
  then show ?thesis by (auto simp: settle_confirmed_order_def Let_def split: sum.splits)
qed

lemma confirm_steps:
  assumes "books_ok s"
  shows "book_steps s (snd (confirm_wechat_virtual_order x r delivered numbers s))"
proof -
  have "book_steps s (fail_void_order x st (attempt (mark_wechat_virtual_query_received number x r t e n) s))"
    for st number t e n
    using last_step [OF attempt_steps_notes(7) close_step] by (simp add: fail_void_order_def)
  then show ?thesis using settle_confirmed_steps [OF assms]
    by (auto simp: confirm_wechat_virtual_order_def Let_def split: option.splits)
qed

lemma handle_confirm_steps:
  "books_ok s \<Longrightarrow>
     book_steps s (snd (handle_confirm_wechat_virtual_pay_order cfg u order_number answer delivered numbers s))"
  by (auto simp: handle_confirm_wechat_virtual_pay_order_def confirm_steps split: option.splits sum.splits)

end
