(* ===== verification/PaymentClaims.thy ===== *)
theory PaymentClaims
  imports PaymentSteps "HOL-Library.Multiset"
begin

text \<open>
  What the payment components promise: every request refines the order book; whatever
  requests arrive in any order, at any times, with any answers of the providers, a paid order
  has been credited exactly once, balances follow payments, and nobody places more than three
  orders in ten minutes; a notification is refused unless it is genuine and for the exact amount,
  does its work once, and is answered as a success even when the order can no longer be paid.
\<close>

section \<open>Histories\<close>

text \<open>
  A step is a request with any arguments, time that passes, or what the rest of the program
  may do to the packages, the accounts and the refunds.
\<close>

inductive payment_step :: "wechat_library \<Rightarrow> payment_library \<Rightarrow> payment_config \<Rightarrow> payment_db \<Rightarrow> payment_db \<Rightarrow> bool"
  for wlib lib cfg where
  tick: "clock s \<le> t \<Longrightarrow> payment_step wlib lib cfg s (s\<lparr>clock := t\<rparr>)"
| other: "payment_step wlib lib cfg s (s\<lparr>fin_packages := ps, fin_users := us, fin_refunds := rs\<rparr>)"
| create_alipay: "payment_step wlib lib cfg s (snd (handle_create_alipay_order lib cfg u source body order_number number s))"
| pay_alipay: "payment_step wlib lib cfg s (snd (handle_pay_alipay_order lib cfg u order_number number s))"
| notify_alipay: "payment_step wlib lib cfg s (snd (handle_alipay_notify lib cfg vs number number' s))"
| query_alipay: "payment_step wlib lib cfg s (snd (handle_query_alipay_order lib cfg u order_number answer numbers s))"
| admin_sync: "payment_step wlib lib cfg s (snd (handle_admin_sync_finance_order_payment lib cfg k answer numbers s))"
| refund: "payment_step wlib lib cfg s (snd (handle_update_finance_refund k refund_status s))"
| create_wechat: "payment_step wlib lib cfg s
    (snd (handle_create_wechat_pay_order cfg u source body order_number prepay numbers s))"
| query_wechat: "payment_step wlib lib cfg s
    (snd (handle_query_wechat_pay_order cfg u order_number wechat_answer numbers s))"
| notify_wechat: "payment_step wlib lib cfg s (snd (handle_wechat_pay_notify wlib cfg req number s))"
| create_virtual: "payment_step wlib lib cfg s (snd (handle_create_wechat_virtual_pay_order wlib cfg u source
    virtual_body session virtual_answer delivered order_number numbers s))"
| confirm_virtual: "payment_step wlib lib cfg s (snd (handle_confirm_wechat_virtual_pay_order cfg u order_number
    virtual_answer delivered numbers s))"

definition reached :: "wechat_library \<Rightarrow> payment_library \<Rightarrow> payment_config \<Rightarrow> payment_db \<Rightarrow> payment_db \<Rightarrow> bool" where
  "reached wlib lib cfg s0 s \<longleftrightarrow> (payment_step wlib lib cfg)\<^sup>*\<^sup>* s0 s"

lemma tick_ok: "clock s \<le> t \<Longrightarrow> books_ok s \<Longrightarrow> books_ok (s\<lparr>clock := t\<rparr>)"
  by (force simp: books_ok_def order_credited_def top_ups_def)

lemma other_books: "same_books s (s\<lparr>fin_packages := ps, fin_users := us, fin_refunds := rs\<rparr>)"
  by (simp add: same_books_def)

text \<open>Every step but the passing of time is a sequence of steps of the order book.\<close>

lemma payment_step_books:
  assumes "payment_step wlib lib cfg s s'" and "books_ok s"
  shows "book_steps s s' \<or> (\<exists>t. clock s \<le> t \<and> s' = s\<lparr>clock := t\<rparr>)"
  using assms
proof (cases rule: payment_step.cases)
  case (tick t)
  then show ?thesis by blast
next
  case (other ps us rs)
  then show ?thesis using same_books_steps [OF other_books] by blast
qed (use assms(2) in \<open>simp_all add: create_alipay_order_steps pay_alipay_order_steps alipay_notify_steps
    query_alipay_order_steps admin_sync_steps update_refund_steps create_wechat_order_steps query_wechat_steps
    wechat_notify_steps create_wechat_virtual_steps handle_confirm_steps\<close>)

lemma payment_step_ok: "payment_step wlib lib cfg s s' \<Longrightarrow> books_ok s \<Longrightarrow> books_ok s'"
  using payment_step_books book_steps_ok tick_ok by metis

lemma reached_ok: "reached wlib lib cfg s0 s \<Longrightarrow> books_ok s0 \<Longrightarrow> books_ok s"
  unfolding reached_def by (induction rule: rtranclp_induct) (auto intro: payment_step_ok)





section \<open>Notifications\<close>

text \<open>
  A completion that is accepted for an order that is not pending leaves the books alone.
\<close>

lemma settle_order_idle:
  assumes run: "settle_order credit invalid x mark paid y s = Inr (z, available, s')"
    and ok: "books_ok s" and x: "x \<in> set (fin_orders s)" "fo_payment_status x \<noteq> status_pending"
    and mark: "\<And>s1. mark s = Inr s1 \<Longrightarrow> same_books s s1"
  shows "same_books s s'"
proof -
  from run obtain s1 where m: "mark s = Inr s1" by (auto simp: settle_order_def inv_simps)
  have same: "same_books s s1" using m by (rule mark)
  obtain n s2 where claim: "claim_paid (fo_id x) s1 = (n, s2)" by (cases "claim_paid (fo_id x) s1")
  have "\<not> pending_row (fo_id x) w" if "w \<in> set (fin_orders s1)" for w
    using fo_tab.unique_same [OF books_okD(1) [OF ok] _ x(1), of w] that same x(2)
    by (auto simp: pending_row_def same_books_def)
  then have none: "count_where (pending_row (fo_id x)) (fin_orders s1) = 0" by (simp add: count_where_0)
  then have "n = 0" and "same_books s1 s2" using claim_none [OF none] claim by (auto simp: claim_paid_def)
  then have "same_books s1 s'" using run by (auto simp: settle_order_def m claim split: if_splits option.splits)
  with same show ?thesis by (rule same_books_trans)
qed

lemma complete_alipay_idle:
  assumes run: "complete_alipay_order number order_number r paid_at summary s = Inr (y, available, s')"
    and ok: "books_ok s"
    and idle: "\<And>x. find_order order_number method_alipay_page s = Some x \<Longrightarrow> fo_payment_status x \<noteq> status_pending"
  shows "same_books s s'"
proof -
  from run obtain x where x: "find_order order_number method_alipay_page s = Some x"
      and settle: "settle_order credit_alipay_order AlipayInvalidStatus x
        (mark_payment_record_paid number x r paid_at summary) (trade_paid (atr_trade_status r))
        (alipay_paid_row x r paid_at summary) s = Inr (y, available, s')"
    by (auto simp: complete_alipay_order_def split: option.splits if_splits)
  show ?thesis using settle ok
    by (rule settle_order_idle) (use find_orderD [OF x] idle [OF x] in \<open>auto intro: mark_books(4)\<close>)
qed

text \<open>An order that is no longer pending never is again.\<close>

definition closed_number :: "string \<Rightarrow> payment_db \<Rightarrow> bool" where
  "closed_number number s \<longleftrightarrow>
     (\<exists>x \<in> set (fin_orders s). fo_number x = number \<and> fo_payment_status x \<noteq> status_pending)"

lemma same_number:
  "books_ok s \<Longrightarrow> x \<in> set (fin_orders s) \<Longrightarrow> y \<in> set (fin_orders s) \<Longrightarrow> fo_number x = fo_number y \<Longrightarrow> x = y"
  using books_okD(2) [of s] by (auto simp: distinct_map inj_on_def)

lemma closed_numberD:
  "closed_number number s \<Longrightarrow> books_ok s \<Longrightarrow> x \<in> set (fin_orders s) \<Longrightarrow> fo_number x = number \<Longrightarrow>
     fo_payment_status x \<noteq> status_pending"
  using same_number [of s] by (auto simp: closed_number_def)

lemma book_step_closed:
  assumes "book_step s s'" and "books_ok s" and "closed_number number s"
  shows "closed_number number s'"
  using assms
proof (induction rule: book_step.induct)
  case (annotate s s')
  then show ?case by (simp add: same_books_def closed_number_def)
next
  case (lapse s' P f s)
  then obtain x where x: "x \<in> set (fin_orders s)" "fo_number x = number" "fo_payment_status x \<noteq> status_pending"
    by (auto simp: closed_number_def)
  let ?x = "if P x then f x else x"
  have "?x \<in> set (fin_orders s')" using x(1) by (auto simp: lapse.hyps(1) set_update_where)
  moreover have "fo_number ?x = number \<and> fo_payment_status ?x \<noteq> status_pending"
    using x(2,3) lapse.hyps(5) [of x] by (auto simp: lapses_def terms_def)
  ultimately show ?case unfolding closed_number_def by blast
next
  case (place s' s x)
  then show ?case by (auto simp: closed_number_def)
next
  case (settle x s y s' t)
  then obtain z where z: "z \<in> set (fin_orders s)" "fo_number z = number" "fo_payment_status z \<noteq> status_pending"
    by (auto simp: closed_number_def)
  then have "z \<noteq> x" using settle.hyps(2) by auto
  moreover have "set (fin_orders s') = insert y (set (fin_orders s) - {x})"
    unfolding settle.hyps(7)
    by (rule fo_tab.set_put [OF books_okD(1) [OF settle.prems(1)] settle.hyps(1) termsD(1) [OF settle.hyps(4)]])
  ultimately show ?case using z by (auto simp: closed_number_def)
qed

lemma reached_closed:
  assumes "reached wlib lib cfg s0 s" and "books_ok s0" and "closed_number number s0"
  shows "closed_number number s"
  using assms unfolding reached_def
proof (induction rule: rtranclp_induct)
  case (step a b)
  have ok: "books_ok a" using reached_ok step(1,4) by (auto simp: reached_def)
  have many: "closed_number number b" if "book_steps a b"
    using that ok step(3) [OF step(4,5)]
    by (induction rule: rtranclp_induct) (auto intro: book_step_closed book_steps_ok)
  from payment_step_books [OF step(2) ok] show ?case
    using many step(3) [OF step(4,5)] by (auto simp: closed_number_def)
qed

text \<open>A pending order that is settled is paid and credited.\<close>

lemma settle_order_pending:
  assumes run: "settle_order credit invalid x mark paid y s = Inr (z, available, s')"
    and ok: "books_ok s" and x: "x \<in> set (fin_orders s)" "online_order x" "fo_payment_status x = status_pending"
    and mark: "\<And>s1. mark s = Inr s1 \<Longrightarrow> same_books s s1"
    and y: "terms y = terms x" "fo_payment_status y = status_paid" "fo_paid_at y \<noteq> None"
    and credit: "\<And>a s1 s2. credit y s1 = (a, s2) \<Longrightarrow> top_ups (fo_id y) s1 = [] \<Longrightarrow> credits_once y s1 s2"
  shows "z = y \<and> y \<in> set (fin_orders s')"
proof -
  from run obtain s1 where m: "mark s = Inr s1" by (auto simp: settle_order_def inv_simps)
  have same: "same_books s s1" using m by (rule mark)
  then have ok1: "books_ok s1" by (intro book_step_ok [OF annotate ok])
  have mem: "x \<in> set (fin_orders s1)" using x same by (simp add: same_books_def)
  obtain n s2 where claim: "claim_paid (fo_id x) s1 = (n, s2)" by (cases "claim_paid (fo_id x) s1")
  then have n: "n = count_where (pending_row (fo_id x)) (fin_orders s1)" and s2: "s2 = snd (claim_paid (fo_id x) s1)"
    by (auto simp: claim_paid_def)
  have "n \<noteq> 0" using mem x(3) by (auto simp: n count_where_0 pending_row_def)
  then have run': "credit y (save_order y s2) = (available, s')" and z: "z = y" using run x(3)
    by (auto simp: settle_order_def m claim split: if_splits prod.splits)
  have "top_ups (fo_id y) (save_order y s2) = []"
    using pending_no_top_ups [OF ok1 mem x(2,3)] by (simp add: s2 claim_keeps_top_ups termsD(1) [OF y(1)])
  from credit [OF run' this] have "fin_orders s' = fin_orders (save_order y s2)" by (simp add: credits_once_def)
  also have "\<dots> = fo_tab.put y (fin_orders s1)"
    using claim_then_save [OF termsD(1) [OF y(1)]] by (simp add: save_order_put s2 claim_paid_def)
  finally have "set (fin_orders s') = insert y (set (fin_orders s1) - {x})"
    using fo_tab.set_put [OF books_okD(1) [OF ok1] mem termsD(1) [OF y(1)]] by simp
  with z show ?thesis by simp
qed

lemma complete_alipay_pending:
  assumes run: "complete_alipay_order number order_number r paid_at summary s = Inr (y, available, s')"
    and ok: "books_ok s" and x: "find_order order_number method_alipay_page s = Some x"
    and pending: "fo_payment_status x = status_pending"
  shows "y = alipay_paid_row x r paid_at summary \<and> y \<in> set (fin_orders s')"
proof -
  from run x have settle: "settle_order credit_alipay_order AlipayInvalidStatus x
        (mark_payment_record_paid number x r paid_at summary) (trade_paid (atr_trade_status r))
        (alipay_paid_row x r paid_at summary) s = Inr (y, available, s')"
    by (auto simp: complete_alipay_order_def split: if_splits)
  have mem: "x \<in> set (fin_orders s)" "online_order x" using find_orderD [OF x] by (simp_all add: online_order_def)
  have "y = alipay_paid_row x r paid_at summary \<and> alipay_paid_row x r paid_at summary \<in> set (fin_orders s')"
    using settle ok mem pending
    by (rule settle_order_pending)
      (simp_all add: alipay_paid_row_def terms_def mark_books(4) credit_alipay_once)
  then show ?thesis by blast
qed

lemma complete_alipay_closes:
  assumes run: "complete_alipay_order number order_number r paid_at summary s = Inr (y, available, s')"
    and ok: "books_ok s"
  shows "closed_number order_number s'"
proof -
  from run obtain x where x: "find_order order_number method_alipay_page s = Some x"
    by (auto simp: complete_alipay_order_def split: option.splits if_splits)
  show ?thesis
  proof (cases "fo_payment_status x = status_pending")
    case True
    note paid = complete_alipay_pending [OF run ok x True]
    then have "fo_number y = order_number \<and> fo_payment_status y \<noteq> status_pending"
      using find_orderD [OF x] by (simp add: alipay_paid_row_def)
    with conjunct2 [OF paid] show ?thesis unfolding closed_number_def by blast
  next
    case False
    have "same_books s s'" by (rule complete_alipay_idle [OF run ok]) (use x False in simp)
    then show ?thesis using find_orderD [OF x] False by (auto simp: closed_number_def same_books_def)
  qed
qed

lemma notify_idle:
  assumes ok: "books_ok s"
    and idle: "trade_paid (form_get vs ''trade_status'') \<Longrightarrow> verify_alipay_notify lib cfg vs = None \<Longrightarrow>
      closed_number (form_get vs ''out_trade_no'') s"
  shows "same_books s (snd (handle_alipay_notify lib cfg vs number number' s))"
proof -
  have "same_books s s1" if "complete_alipay_order n (form_get vs ''out_trade_no'') r t m s = Inr (y, a, s1)"
      "closed_number (form_get vs ''out_trade_no'') s" for n r t m y a s1
    by (rule complete_alipay_idle [OF that(1) ok]) (use closed_numberD [OF that(2) ok] find_orderD in blast)
  then show ?thesis using idle
    by (auto simp: handle_alipay_notify_def Let_def split: sum.splits if_splits)
qed

lemma ensure_recordD:
  assumes "ensure_payment_record_for_finance_order number x s = Inr (p, s1)"
  shows "p \<in> set (fin_payments s1) \<and> pr_order p = fo_id x"
proof (cases "first_where (\<lambda>p. pr_order p = fo_id x) (fin_payments s)")
  case None
  then show ?thesis using assms
    by (auto simp: ensure_payment_record_for_finance_order_def Let_def new_payment_def split: if_splits)
next
  case (Some q)
  then show ?thesis using assms first_where_Some [OF Some]
    by (auto simp: ensure_payment_record_for_finance_order_def Let_def split: if_splits option.splits
      dest: first_where_Some)
qed

lemma mark_paid_record:
  assumes "ensure_payment_record_for_finance_order number x s = Inr (p, s1)"
  obtains s2 where "mark_payment_record_paid number x r paid_at summary s = Inr s2"
    and "\<exists>q \<in> set (fin_payments s2). pr_order q = fo_id x \<and> pr_status q = record_paid"
proof -
  note p = ensure_recordD [OF assms]
  define f where "f = (\<lambda>p :: payment_record. let q = p\<lparr>pr_status := record_paid, pr_provider_trade_no := atr_trade_no r,
             pr_buyer_id := atr_buyer_id r, pr_paid_at := Some paid_at\<rparr>
       in if alipay_settlement_record_source summary = ''query'' then
            q\<lparr>pr_query_count := pr_query_count q + 1, pr_queried_at := Some paid_at,
              pr_query_summary := summarize_alipay_query r, pr_last_event := summary\<rparr>
          else q\<lparr>pr_notify_count := pr_notify_count q + 1, pr_notified_at := Some paid_at,
              pr_notify_summary := summary, pr_last_event := ''notify''\<rparr>)"
  have "mark_payment_record_paid number x r paid_at summary s = Inr (update_payment p f s1)"
    unfolding mark_payment_record_paid_def on_payment_record_def f_def using assms by simp
  moreover have "f p \<in> set (fin_payments (update_payment p f s1))"
    using p by (auto simp: update_payment_def set_update_where)
  moreover have "pr_order (f p) = fo_id x" "pr_status (f p) = record_paid"
    using p by (simp_all add: f_def Let_def)
  ultimately show thesis by (intro that) blast+
qed

text \<open>What a genuine notification of the right amount does.\<close>

lemma genuine_notice:
  assumes genuine: "verify_alipay_notify lib cfg vs = None" "trade_paid (form_get vs ''trade_status'')"
    and x: "find_order (form_get vs ''out_trade_no'') method_alipay_page s = Some x"
    and amount: "parse_alipay_amount_cents (form_get vs ''total_amount'') = Some (fo_amount_cents x)"
    and ensured: "ensure_payment_record_for_finance_order number x s = Inr (p, s1)"
  obtains y a s2 where "handle_alipay_notify lib cfg vs number number' s = (Reply 200 (PlainBody ''success''), s2)"
    and "complete_alipay_order number (form_get vs ''out_trade_no'') (form_trade vs)
      (parse_alipay_notify_time lib (form_get vs ''notify_time'') (clock s)) (summarize_alipay_notify lib vs) s =
      Inr (y, a, s2)"
proof -
  let ?t = "parse_alipay_notify_time lib (form_get vs ''notify_time'') (clock s)"
  obtain s3 where mark: "mark_payment_record_paid number x (form_trade vs) ?t (summarize_alipay_notify lib vs) s = Inr s3"
    by (rule mark_paid_record [OF ensured])
  have same: "same_books s s3" using mark by (rule mark_books)
  have paid: "trade_paid (atr_trade_status (form_trade vs))" and total: "atr_total_amount (form_trade vs) = form_get vs ''total_amount''"
    using genuine(2) by (simp_all add: form_trade_def)
  have mem: "x \<in> set (fin_orders s3)" using find_orderD [OF x] same by (simp add: same_books_def)
  obtain n s4 where claim: "claim_paid (fo_id x) s3 = (n, s4)" by (cases "claim_paid (fo_id x) s3")
  then have "s4 = update_orders (pending_row (fo_id x)) (\<lambda>x. x\<lparr>fo_payment_status := status_paid\<rparr>) s3"
    by (simp add: claim_paid_def)
  then have "(if pending_row (fo_id x) x then x\<lparr>fo_payment_status := status_paid\<rparr> else x) \<in> set (fin_orders s4)"
    using mem by (auto simp: set_update_where)
  then obtain w where found: "first_where (\<lambda>z. fo_id z = fo_id x) (fin_orders s4) = Some w"
    using first_where_ex [of _ "fin_orders s4" "\<lambda>z. fo_id z = fo_id x"] by fastforce
  obtain y a s2 where "complete_alipay_order number (form_get vs ''out_trade_no'') (form_trade vs) ?t
      (summarize_alipay_notify lib vs) s = Inr (y, a, s2)"
    using x amount mark paid claim found
    by (fastforce simp: complete_alipay_order_def settle_order_def total split: prod.splits)
  with that genuine show thesis by (simp add: handle_alipay_notify_def Let_def)
qed

section \<open>Offers and signatures\<close>

lemma package_before_trans: "package_before p q \<Longrightarrow> package_before q r \<Longrightarrow> package_before p r"
  by (auto simp: package_before_def)

lemma package_before_total: "\<not> package_before p q \<Longrightarrow> package_before q p"
  by (auto simp: package_before_def)

lemma package_before_credits: "package_before p q \<Longrightarrow> pkg_credits p \<le> pkg_credits q"
  by (auto simp: package_before_def)

lemma set_insert_package: "set (insert_package p ps) = insert p (set ps)"
  by (induction ps) auto

lemma sorted_insert_package:
  "sorted_wrt package_before ps \<Longrightarrow> sorted_wrt package_before (insert_package p ps)"
  by (induction ps) (auto simp: set_insert_package dest: package_before_total intro: package_before_trans)

lemma sorted_packages: "sorted_wrt package_before (foldr insert_package ps [])"
  by (induction ps) (auto simp: sorted_insert_package)

lemma set_sorted_packages: "set (foldr insert_package ps []) = set ps"
  by (induction ps) (auto simp: set_insert_package)

definition offered :: "credit_package \<Rightarrow> payment_db \<Rightarrow> bool" where
  "offered p s \<longleftrightarrow> p \<in> set (fin_packages s) \<and> pkg_is_active p \<and> pkg_credits p > 0 \<and> pkg_deleted_at p = None"

lemma offered_packages_facts:
  "p \<in> set (offered_packages s) \<longleftrightarrow> offered p s" "sorted_wrt package_before (offered_packages s)"
  by (auto simp: offered_packages_def offered_def set_sorted_packages sorted_packages)

lemma find_sorted:
  "sorted_wrt R xs \<Longrightarrow> find P xs = Some x \<Longrightarrow> y \<in> set xs \<Longrightarrow> P y \<Longrightarrow> x = y \<or> R x y"
  by (induction xs) (auto split: if_splits simp: find_Some_iff)

lemma last_sorted: "sorted_wrt R xs \<Longrightarrow> y \<in> set xs \<Longrightarrow> y = last xs \<or> R y (last xs)"
  by (induction xs) auto

text \<open>The order in which Go iterates over the form does not show in the text that is signed.\<close>

lemma bytes_le_total: "\<not> bytes_le s t \<Longrightarrow> bytes_le t s"
  by (induction s t rule: bytes_le.induct) auto

lemma bytes_le_refl [simp]: "bytes_le s s"
  by (induction s) auto

lemma bytes_le_trans: "bytes_le s t \<Longrightarrow> bytes_le t u \<Longrightarrow> bytes_le s u"
proof (induction s t arbitrary: u rule: bytes_le.induct)
  case (3 c cs d ds)
  then show ?case by (cases u) auto
qed auto

lemma bytes_le_antisym: "bytes_le s t \<Longrightarrow> bytes_le t s \<Longrightarrow> s = t"
proof (induction s t rule: bytes_le.induct)
  case (1 t)
  then show ?case by (cases t) auto
qed auto

lemma mset_insert_bytes: "mset (insert_bytes k ks) = add_mset k (mset ks)"
  by (induction ks) auto

lemma set_insert_bytes: "set (insert_bytes k ks) = insert k (set ks)"
  by (induction ks) auto

lemma sorted_insert_bytes: "sorted_wrt bytes_le ks \<Longrightarrow> sorted_wrt bytes_le (insert_bytes k ks)"
  by (induction ks) (auto simp: set_insert_bytes dest: bytes_le_total intro: bytes_le_trans)

lemma sorted_keys: "sorted_wrt bytes_le (foldr insert_bytes ks [])"
  by (induction ks) (auto simp: sorted_insert_bytes)

lemma mset_keys: "mset (foldr insert_bytes ks []) = mset ks"
  by (induction ks) (auto simp: mset_insert_bytes)

lemma sorted_bytes_unique:
  "sorted_wrt bytes_le xs \<Longrightarrow> sorted_wrt bytes_le ys \<Longrightarrow> mset xs = mset ys \<Longrightarrow> xs = ys"
proof (induction xs arbitrary: ys)
  case (Cons x xs)
  then obtain y ys' where ys: "ys = y # ys'" by (cases ys) auto
  have "x \<in> set (y # ys')" "y \<in> set (x # xs)"
    using mset_eq_setD [OF Cons.prems(3)] unfolding ys by auto
  then have "x = y" using Cons.prems(1,2) bytes_le_antisym unfolding ys by auto
  then show ?case using Cons ys by auto
qed simp

lemma sorted_value_keys_permuted:
  "mset vs = mset vs' \<Longrightarrow> sorted_value_keys vs = sorted_value_keys vs'"
  unfolding sorted_value_keys_def
  by (intro sorted_bytes_unique sorted_keys) (metis mset_keys mset_map)

lemma map_of_permuted: "mset vs = mset vs' \<Longrightarrow> distinct (map fst vs) \<Longrightarrow> map_of vs = map_of vs'"
proof -
  assume m: "mset vs = mset vs'" and d: "distinct (map fst vs)"
  then have d': "distinct (map fst vs')" by (metis mset_eq_imp_distinct_iff mset_map)
  have "set vs = set vs'" using m by (rule mset_eq_setD)
  then show "map_of vs = map_of vs'" using d d' by (simp add: map_of_inject_set)
qed

section \<open>A concrete history\<close>

text \<open>
  A user with an order of 9.90, the genuine notification of its payment, and the same order
  after it has expired.
\<close>

definition demo_customer :: payment_user where
  "demo_customer = \<lparr>usr_id = 1, usr_username = ''ann'', usr_phone = Some ''13800000000'',
     usr_wechat_open_id = '''', usr_display_name = '''', usr_email = ''''\<rparr>"

definition demo_package :: credit_package where
  "demo_package = \<lparr>pkg_id = 1, pkg_name = ''starter'', pkg_description = '''', pkg_price_cents = 990,
     pkg_credits = 100, pkg_valid_days = 30, pkg_wechat_virtual_product_id = '''', pkg_sort_order = 1,
     pkg_is_active = True, pkg_deleted_at = None\<rparr>"

definition demo_order :: finance_order where
  "demo_order = (pending_order ''FO-1'' demo_customer demo_package method_alipay_page '''' '''' 0)\<lparr>fo_id := 1\<rparr>"

definition demo_pay_db :: payment_db where
  "demo_pay_db = \<lparr>balances = [\<lparr>bal_id = 1, bal_user = 1, bal_available = 5, bal_reserved = 0\<rparr>],
     transactions = [], clock = minute, fin_users = [demo_customer], fin_packages = [demo_package],
     fin_orders = [demo_order], fin_payments = [new_payment ''PR-1'' demo_order 1], fin_refunds = []\<rparr>"

definition demo_expired_db :: payment_db where
  "demo_expired_db = demo_pay_db\<lparr>fin_orders := [demo_order\<lparr>fo_payment_status := status_expired\<rparr>]\<rparr>"

definition demo_notice :: form where
  "demo_notice = [(''app_id'', [''app'']), (''sign'', [''c2ln'']), (''sign_type'', [''RSA2'']),
     (''out_trade_no'', [''FO-1'']), (''trade_no'', [''T-1'']), (''trade_status'', [''TRADE_SUCCESS'']),
     (''total_amount'', [format_alipay_amount 990])]"

definition demo_library :: payment_library where
  "demo_library = \<lparr>pl_driver_text = id, pl_rfc3339 = (\<lambda>t. show_int t), pl_marshal_evidence = (\<lambda>_. ''{}''),
     pl_local_time = (\<lambda>_. None), pl_marshal_map = (\<lambda>_. ''{}''), pl_base64 = Some,
     pl_verify = (\<lambda>_ _ signature. Some (signature = ''c2ln'')), pl_page_form = (\<lambda>_ _. Some ''form'')\<rparr>"

definition demo_pay_config :: payment_config where
  "demo_pay_config = \<lparr>cfg_app_base_url = ''https://example.com'', cfg_alipay_app_id = ''app'',
     cfg_alipay_private_key = ''k'', cfg_alipay_public_key = ''k'', cfg_alipay_gateway = '''',
     cfg_alipay_sandbox = False, cfg_wechat_pay_app_id = '''', cfg_wechat_app_secret = '''',
     cfg_wechat_pay_mch_id = '''', cfg_wechat_pay_mch_cert_serial_no = '''',
     cfg_wechat_pay_mch_private_key = '''', cfg_wechat_pay_mch_private_key_path = '''',
     cfg_wechat_pay_apiv3_key = '''', cfg_wechat_pay_platform_public_key = '''',
     cfg_wechat_virtual_pay_offer_id = '''', cfg_wechat_virtual_pay_env = 0,
     cfg_wechat_virtual_pay_sandbox_app_key = '''', cfg_wechat_virtual_pay_app_key = ''''\<rparr>"

definition demo_wechat_library :: wechat_library where
  "demo_wechat_library = payment_library.extend demo_library
     \<lparr>wl_marshal_sign_data = (\<lambda>_. Inr ''{}''), wl_hmac_sha256_hex = (\<lambda>_ _. ''''),
      wl_parse_notify = (\<lambda>_ _. None), wl_sanitize_log = id\<rparr>"

lemma demo_books: "books_ok demo_pay_db" "books_ok demo_expired_db"
  by (simp_all add: books_ok_def demo_pay_db_def demo_expired_db_def demo_order_def pending_order_def
    order_ok_def order_credited_def top_ups_def fo_tab.unique_def)

lemma demo_verified: "verify_alipay_notify demo_library demo_pay_config demo_notice = None"
  by (simp add: verify_alipay_notify_def demo_library_def demo_pay_config_def demo_notice_def form_get_def
    blank_literal trim_space_literal literal_bytes_def upper.simps Let_def)

lemma demo_fields:
  "trade_paid (form_get demo_notice ''trade_status'')" "form_get demo_notice ''out_trade_no'' = ''FO-1''"
  "parse_alipay_amount_cents (form_get demo_notice ''total_amount'') = Some 990"
  by (simp_all add: demo_notice_def form_get_def trade_paid_def parse_formatted)

lemma demo_found:
  "find_order ''FO-1'' method_alipay_page demo_pay_db = Some demo_order"
  "find_order ''FO-1'' method_alipay_page demo_expired_db = Some (demo_order\<lparr>fo_payment_status := status_expired\<rparr>)"
  by (simp_all add: find_order_def first_where_def demo_pay_db_def demo_expired_db_def demo_order_def pending_order_def)

lemma demo_ensured:
  "ensure_payment_record_for_finance_order number demo_order demo_pay_db =
     Inr (new_payment ''PR-1'' demo_order 1, demo_pay_db)"
  "ensure_payment_record_for_finance_order number (demo_order\<lparr>fo_payment_status := status_expired\<rparr>) demo_expired_db =
     Inr (new_payment ''PR-1'' demo_order 1, demo_expired_db)"
  by (simp_all add: ensure_payment_record_for_finance_order_def first_where_def demo_pay_db_def demo_expired_db_def
    demo_order_def demo_customer_def demo_package_def pending_order_def new_payment_def fill_payment_def
    payment_provider_for_order_def)

lemma demo_known:
  "find_order (form_get demo_notice ''out_trade_no'') method_alipay_page demo_pay_db = Some demo_order"
  "find_order (form_get demo_notice ''out_trade_no'') method_alipay_page demo_expired_db =
     Some (demo_order\<lparr>fo_payment_status := status_expired\<rparr>)"
  "parse_alipay_amount_cents (form_get demo_notice ''total_amount'') = Some (fo_amount_cents demo_order)"
  "parse_alipay_amount_cents (form_get demo_notice ''total_amount'') =
     Some (fo_amount_cents (demo_order\<lparr>fo_payment_status := status_expired\<rparr>))"
  by (simp_all add: demo_fields demo_found) (simp_all add: demo_order_def pending_order_def demo_package_def)

lemma demo_pay_pending: "fo_payment_status demo_order = status_pending"
  by (simp add: demo_order_def pending_order_def)

definition demo_paid_db :: payment_db where
  "demo_paid_db = snd (handle_alipay_notify demo_library demo_pay_config demo_notice ''PR-2'' ''PR-3'' demo_pay_db)"

lemma demo_reached: "reached demo_wechat_library demo_library demo_pay_config demo_pay_db demo_paid_db"
  unfolding reached_def demo_paid_db_def by (rule r_into_rtranclp) (rule notify_alipay)

lemma demo_answered:
  "handle_alipay_notify demo_library demo_pay_config demo_notice ''PR-2'' ''PR-3'' demo_pay_db =
     (Reply 200 (PlainBody ''success''), demo_paid_db)"
proof -
  obtain y a s2 where "handle_alipay_notify demo_library demo_pay_config demo_notice ''PR-2'' ''PR-3'' demo_pay_db =
      (Reply 200 (PlainBody ''success''), s2)"
    by (rule genuine_notice [OF demo_verified demo_fields(1) demo_known(1,3) demo_ensured(1)])
  then show ?thesis by (simp add: demo_paid_db_def)
qed

abbreviation demo_paid_order :: finance_order where
  "demo_paid_order \<equiv> alipay_paid_row demo_order (form_trade demo_notice) minute ''{}''"

lemma demo_paid: "demo_paid_order \<in> set (fin_orders demo_paid_db)"
proof -
  obtain y a s2 where h: "handle_alipay_notify demo_library demo_pay_config demo_notice ''PR-2'' ''PR-3'' demo_pay_db =
      (Reply 200 (PlainBody ''success''), s2)"
    and c: "complete_alipay_order ''PR-2'' (form_get demo_notice ''out_trade_no'') (form_trade demo_notice)
      (parse_alipay_notify_time demo_library (form_get demo_notice ''notify_time'') (clock demo_pay_db))
      (summarize_alipay_notify demo_library demo_notice) demo_pay_db = Inr (y, a, s2)"
    by (rule genuine_notice [OF demo_verified demo_fields(1) demo_known(1,3) demo_ensured(1)])
  have s2: "s2 = demo_paid_db" using h demo_answered by simp
  have "parse_alipay_notify_time demo_library (form_get demo_notice ''notify_time'') (clock demo_pay_db) = minute"
    "summarize_alipay_notify demo_library demo_notice = ''{}''"
    by (simp_all add: parse_alipay_notify_time_def summarize_alipay_notify_def demo_library_def demo_pay_db_def)
  then show ?thesis using complete_alipay_pending [OF c demo_books(1) demo_known(1) demo_pay_pending] s2 by metis
qed

lemma demo_paid_facts: "online_order demo_paid_order" "fo_id demo_paid_order = 1"
    "fo_payment_status demo_paid_order = status_paid" "fo_paid_at demo_paid_order = Some minute"
  by (simp_all add: alipay_paid_row_def demo_order_def pending_order_def online_order_def)

section \<open>Properties\<close>

text \<open>
  C32. In every state that payment requests, with any answers of the providers and at any times,
  reach from consistent books, an online order with a payment time has exactly one top-up, of its
  package and for its user; one without has none and is not paid.
\<close>
theorem paid_orders_credited_once:
  assumes "reached wlib lib cfg s0 s" and "books_ok s0" and "x \<in> set (fin_orders s)" and "online_order x"
  shows "if fo_paid_at x = None then fo_payment_status x \<noteq> status_paid \<and> top_ups (fo_id x) s = []
    else \<exists>t. top_ups (fo_id x) s = [t] \<and> txn_user t = fo_user x \<and> txn_amount t = fo_package_credits x"
proof -
  have ok: "books_ok s" using assms(1,2) by (rule reached_ok)
  show ?thesis using books_okD(5) [OF ok assms(3)] books_okD(7) [OF ok assms(3,4)]
    by (auto simp: order_ok_def order_credited_def)
qed

theorem paid_orders_credited_once_witness:
  "online_order demo_paid_order \<and> (\<exists>t. top_ups (fo_id demo_paid_order) demo_paid_db = [t] \<and>
     txn_user t = fo_user demo_paid_order \<and> txn_amount t = fo_package_credits demo_paid_order)"
  using paid_orders_credited_once [OF demo_reached demo_books(1) demo_paid demo_paid_facts(1)] demo_paid_facts
  by simp





text \<open>
  C35. Every payment request is a sequence of steps of an abstract order book, which may place,
  lapse, annotate and settle orders, or is the passing of time.
\<close>
theorem payment_requests_refine_book:
  assumes "payment_step wlib lib cfg s s'" and "books_ok s"
  shows "book_steps s s' \<or> (\<exists>t. clock s \<le> t \<and> s' = s\<lparr>clock := t\<rparr>)"
  using assms by (rule payment_step_books)

theorem payment_requests_refine_book_witness:
  "book_steps demo_pay_db demo_paid_db \<or> (\<exists>t. clock demo_pay_db \<le> t \<and> demo_paid_db = demo_pay_db\<lparr>clock := t\<rparr>)"
  unfolding demo_paid_db_def by (rule payment_requests_refine_book [OF notify_alipay demo_books(1)])

text \<open>
  C36. A genuine notification of a payment for the exact amount of a pending order is answered
  success, and the order is then paid and credited, once.
\<close>
theorem genuine_notice_pays:
  assumes "books_ok s" and "verify_alipay_notify lib cfg vs = None" and "trade_paid (form_get vs ''trade_status'')"
    and x: "find_order (form_get vs ''out_trade_no'') method_alipay_page s = Some x"
    and pending: "fo_payment_status x = status_pending"
    and "parse_alipay_amount_cents (form_get vs ''total_amount'') = Some (fo_amount_cents x)"
    and "ensure_payment_record_for_finance_order number x s = Inr (p, s1)"
  shows "\<exists>s2 y. handle_alipay_notify lib cfg vs number number' s = (Reply 200 (PlainBody ''success''), s2) \<and>
    y \<in> set (fin_orders s2) \<and> terms y = terms x \<and> fo_payment_status y = status_paid \<and>
    (\<exists>t. top_ups (fo_id x) s2 = [t] \<and> txn_user t = fo_user x \<and> txn_amount t = fo_package_credits x)"
proof -
  obtain y a s2 where h: "handle_alipay_notify lib cfg vs number number' s = (Reply 200 (PlainBody ''success''), s2)"
    and c: "complete_alipay_order number (form_get vs ''out_trade_no'') (form_trade vs)
      (parse_alipay_notify_time lib (form_get vs ''notify_time'') (clock s)) (summarize_alipay_notify lib vs) s =
      Inr (y, a, s2)"
    by (rule genuine_notice [OF assms(2,3) x assms(6,7)])
  have ok2: "books_ok s2" using complete_alipay_steps [OF c assms(1)] assms(1) by (rule book_steps_ok)
  note settled = complete_alipay_pending [OF c assms(1) x pending]
  then have y: "y \<in> set (fin_orders s2)" by (rule conjunct2)
  have t: "terms y = terms x" and paid: "fo_payment_status y = status_paid" "fo_paid_at y \<noteq> None" "online_order y"
    unfolding conjunct1 [OF settled]
    using find_orderD [OF x] by (simp_all add: alipay_paid_row_def terms_def online_order_def)
  have "order_credited y s2" using books_okD(7) [OF ok2 y paid(3)] .
  then have "\<exists>t. top_ups (fo_id x) s2 = [t] \<and> txn_user t = fo_user x \<and> txn_amount t = fo_package_credits x"
    using paid(2) by (simp add: order_credited_def termsD [OF t])
  with h y t paid(1) show ?thesis by blast
qed

theorem genuine_notice_pays_witness:
  "\<exists>s2 y. handle_alipay_notify demo_library demo_pay_config demo_notice ''PR-2'' ''PR-3'' demo_pay_db =
      (Reply 200 (PlainBody ''success''), s2) \<and>
    y \<in> set (fin_orders s2) \<and> terms y = terms demo_order \<and> fo_payment_status y = status_paid \<and>
    (\<exists>t. top_ups (fo_id demo_order) s2 = [t] \<and> txn_user t = fo_user demo_order \<and>
       txn_amount t = fo_package_credits demo_order)"
  by (rule genuine_notice_pays [OF demo_books(1) demo_verified demo_fields(1) demo_known(1) demo_pay_pending
    demo_known(3) demo_ensured(1)])

text \<open>
  C37. A notification changes orders, balances or top-ups only if its signature verifies, it
  reports a payment, and its amount is exactly that of a pending order.
\<close>
theorem only_genuine_exact_payments:
  assumes "books_ok s" and "\<not> same_books s (snd (handle_alipay_notify lib cfg vs number number' s))"
  shows "verify_alipay_notify lib cfg vs = None \<and> trade_paid (form_get vs ''trade_status'') \<and>
    (\<exists>x. find_order (form_get vs ''out_trade_no'') method_alipay_page s = Some x \<and>
       fo_payment_status x = status_pending \<and>
       parse_alipay_amount_cents (form_get vs ''total_amount'') = Some (fo_amount_cents x))"
proof -
  have genuine: "verify_alipay_notify lib cfg vs = None \<and> trade_paid (form_get vs ''trade_status'') \<and>
      \<not> closed_number (form_get vs ''out_trade_no'') s"
    using notify_idle [OF assms(1), of vs lib cfg number number'] assms(2) by blast
  then obtain y a s2 where c: "complete_alipay_order number (form_get vs ''out_trade_no'') (form_trade vs)
      (parse_alipay_notify_time lib (form_get vs ''notify_time'') (clock s)) (summarize_alipay_notify lib vs) s =
      Inr (y, a, s2)"
    using assms(2) by (auto simp: handle_alipay_notify_def Let_def split: sum.splits if_splits)
  then obtain x where x: "find_order (form_get vs ''out_trade_no'') method_alipay_page s = Some x"
    and amount: "parse_alipay_amount_cents (form_get vs ''total_amount'') = Some (fo_amount_cents x)"
    by (auto simp: complete_alipay_order_def form_trade_def split: option.splits if_splits)
  have "fo_payment_status x = status_pending"
    using find_orderD [OF x] conjunct2 [OF conjunct2 [OF genuine]] by (auto simp: closed_number_def)
  with genuine x amount show ?thesis by blast
qed

theorem only_genuine_exact_payments_witness:
  "verify_alipay_notify demo_library demo_pay_config demo_notice = None \<and>
    trade_paid (form_get demo_notice ''trade_status'') \<and>
    (\<exists>x. find_order (form_get demo_notice ''out_trade_no'') method_alipay_page demo_pay_db = Some x \<and>
       fo_payment_status x = status_pending \<and>
       parse_alipay_amount_cents (form_get demo_notice ''total_amount'') = Some (fo_amount_cents x))"
proof (rule only_genuine_exact_payments [OF demo_books(1)])
  have "demo_paid_order \<notin> set (fin_orders demo_pay_db)"
    by (simp add: demo_pay_db_def demo_order_def pending_order_def alipay_paid_row_def)
  then have "fin_orders demo_paid_db \<noteq> fin_orders demo_pay_db" using demo_paid by metis
  then show "\<not> same_books demo_pay_db
      (snd (handle_alipay_notify demo_library demo_pay_config demo_notice ''PR-2'' ''PR-3'' demo_pay_db))"
    unfolding demo_paid_db_def [symmetric] same_books_def by blast
qed

text \<open>
  C38. A notification that was answered success does nothing more to orders, balances and top-ups
  when it arrives again, whatever other requests came in between.
\<close>
theorem accepted_notice_is_final:
  assumes "books_ok s"
    and accepted: "handle_alipay_notify lib cfg vs number number' s = (Reply 200 (PlainBody ''success''), s1)"
    and later: "reached wlib lib' cfg' s1 s2"
  shows "same_books s2 (snd (handle_alipay_notify lib cfg vs m m' s2))"
proof -
  have ok1: "books_ok s1" using alipay_notify_steps [OF assms(1), of lib cfg vs number number'] accepted assms(1)
    by (simp add: book_steps_ok)
  show ?thesis
  proof (rule notify_idle [OF reached_ok [OF later ok1]])
    assume "trade_paid (form_get vs ''trade_status'')" and "verify_alipay_notify lib cfg vs = None"
    then obtain y a where c: "complete_alipay_order number (form_get vs ''out_trade_no'') (form_trade vs)
        (parse_alipay_notify_time lib (form_get vs ''notify_time'') (clock s)) (summarize_alipay_notify lib vs) s =
        Inr (y, a, s1)"
      using accepted by (auto simp: handle_alipay_notify_def Let_def split: sum.splits)
    show "closed_number (form_get vs ''out_trade_no'') s2"
      by (rule reached_closed [OF later ok1 complete_alipay_closes [OF c assms(1)]])
  qed
qed

theorem accepted_notice_is_final_witness:
  "same_books demo_paid_db (snd (handle_alipay_notify demo_library demo_pay_config demo_notice ''PR-4'' ''PR-5'' demo_paid_db))"
  by (rule accepted_notice_is_final [OF demo_books(1) demo_answered,
      where wlib = demo_wechat_library and lib' = demo_library and cfg' = demo_pay_config])
    (simp add: reached_def)

text \<open>
  C39. A genuine payment of an order that has expired or failed is answered success and recorded
  as paid, but the order is not paid and nothing is credited.
\<close>
theorem late_payment_is_lost:
  assumes "books_ok s" and "verify_alipay_notify lib cfg vs = None" and "trade_paid (form_get vs ''trade_status'')"
    and x: "find_order (form_get vs ''out_trade_no'') method_alipay_page s = Some x"
    and late: "fo_payment_status x = status_expired \<or> fo_payment_status x = status_failed"
    and "parse_alipay_amount_cents (form_get vs ''total_amount'') = Some (fo_amount_cents x)"
    and ensured: "ensure_payment_record_for_finance_order number x s = Inr (p, s1)"
  shows "\<exists>s2. handle_alipay_notify lib cfg vs number number' s = (Reply 200 (PlainBody ''success''), s2) \<and>
    same_books s s2 \<and> (\<exists>q \<in> set (fin_payments s2). pr_order q = fo_id x \<and> pr_status q = record_paid)"
proof -
  obtain y a s2 where h: "handle_alipay_notify lib cfg vs number number' s = (Reply 200 (PlainBody ''success''), s2)"
    and c: "complete_alipay_order number (form_get vs ''out_trade_no'') (form_trade vs)
      (parse_alipay_notify_time lib (form_get vs ''notify_time'') (clock s)) (summarize_alipay_notify lib vs) s =
      Inr (y, a, s2)"
    by (rule genuine_notice [OF assms(2,3) x assms(6,7)])
  have same: "same_books s s2" by (rule complete_alipay_idle [OF c assms(1)]) (use x late in auto)
  have "fin_payments s2 = fin_payments s3"
    if "mark_payment_record_paid number x (form_trade vs) t m s = Inr s3"
      "complete_alipay_order number (form_get vs ''out_trade_no'') (form_trade vs) t m s = Inr (y, a, s2)" for s3 t m
  proof -
    obtain n s4 where claim: "claim_paid (fo_id x) s3 = (n, s4)" by (cases "claim_paid (fo_id x) s3")
    have s4: "fin_payments s4 = fin_payments s3" using claim by (auto simp: claim_paid_def update_orders_def)
    have "same_books s s3" using that(1) by (rule mark_books)
    then have "\<not> pending_row (fo_id x) w" if "w \<in> set (fin_orders s3)" for w
      using fo_tab.unique_same [OF books_okD(1) [OF assms(1)], of w x] that find_orderD [OF x] late
      by (auto simp: pending_row_def same_books_def)
    then have "count_where (pending_row (fo_id x)) (fin_orders s3) = 0" by (simp add: count_where_0)
    then have "n = 0" using claim by (simp add: claim_paid_def)
    then show ?thesis using that(2) x that(1) claim late s4
      by (auto simp: complete_alipay_order_def settle_order_def split: if_splits option.splits)
  qed
  moreover obtain s3 where "mark_payment_record_paid number x (form_trade vs)
      (parse_alipay_notify_time lib (form_get vs ''notify_time'') (clock s)) (summarize_alipay_notify lib vs) s = Inr s3"
    and "\<exists>q \<in> set (fin_payments s3). pr_order q = fo_id x \<and> pr_status q = record_paid"
    by (rule mark_paid_record [OF ensured])
  ultimately have "\<exists>q \<in> set (fin_payments s2). pr_order q = fo_id x \<and> pr_status q = record_paid"
    using c by metis
  with h same show ?thesis by blast
qed

theorem late_payment_is_lost_witness:
  "\<exists>s2. handle_alipay_notify demo_library demo_pay_config demo_notice ''PR-2'' ''PR-3'' demo_expired_db =
      (Reply 200 (PlainBody ''success''), s2) \<and>
    same_books demo_expired_db s2 \<and>
    (\<exists>q \<in> set (fin_payments s2). pr_order q = fo_id (demo_order\<lparr>fo_payment_status := status_expired\<rparr>) \<and>
       pr_status q = record_paid)"
  by (rule late_payment_is_lost [OF demo_books(2) demo_verified demo_fields(1) demo_known(2) _
    demo_known(4) demo_ensured(2)]) simp

text \<open>
  C40. Every amount below 2^50 cents is read back exactly from its printed form, in spite of the
  binary floating-point number in between.
\<close>
theorem amount_read_back:
  assumes "\<bar>cents\<bar> < 2 ^ 50"
  shows "parse_alipay_amount_cents (format_alipay_amount cents) = Some cents"
  using assms by (rule parse_formatted)

theorem amount_read_back_witness:
  "parse_alipay_amount_cents (format_alipay_amount (- 1005)) = Some (- 1005)"
  by (rule amount_read_back) simp

text \<open>
  The recommended package is on offer and has the least credits that cover what is missing,
  or the most of all when none covers it.
\<close>
theorem recommended_package_is_cheapest_cover:
  assumes "recommended_package_for_missing_credits missing s = Some p"
  shows "offered p s \<and> 0 < missing \<and>
    (if \<exists>q. offered q s \<and> missing \<le> pkg_credits q
     then missing \<le> pkg_credits p \<and> (\<forall>q. offered q s \<and> missing \<le> pkg_credits q \<longrightarrow> pkg_credits p \<le> pkg_credits q)
     else \<forall>q. offered q s \<longrightarrow> pkg_credits q \<le> pkg_credits p)"
proof -
  let ?ps = "offered_packages s" and ?covers = "\<lambda>p. missing \<le> pkg_credits p"
  have pos: "0 < missing" and ne: "?ps \<noteq> []"
    using assms by (auto simp: recommended_package_for_missing_credits_def Let_def split: if_splits)
  note sorted = offered_packages_facts(2) [of s] and mem = offered_packages_facts(1) [of _ s]
  show ?thesis
  proof (cases "find ?covers ?ps")
    case None
    then have p: "p = last ?ps"
      using assms pos ne by (simp add: recommended_package_for_missing_credits_def Let_def)
    have none: "\<forall>q \<in> set ?ps. \<not> ?covers q" using None by (auto simp: find_None_iff)
    have "pkg_credits q \<le> pkg_credits p" if "q \<in> set ?ps" for q
      using last_sorted [OF sorted that] package_before_credits p by auto
    with p pos none ne mem last_in_set [OF ne] show ?thesis by auto
  next
    case (Some r)
    then have p: "p = r" using assms pos ne by (simp add: recommended_package_for_missing_credits_def Let_def)
    have r: "r \<in> set ?ps" "?covers r" using Some by (auto simp: find_Some_iff)
    have "pkg_credits p \<le> pkg_credits q" if "q \<in> set ?ps" "?covers q" for q
      using find_sorted [OF sorted Some that] package_before_credits p by auto
    with p pos r mem show ?thesis by auto
  qed
qed

theorem recommended_package_is_cheapest_cover_witness:
  "offered demo_package demo_pay_db \<and> 0 < (40 :: int) \<and>
    (if \<exists>q. offered q demo_pay_db \<and> 40 \<le> pkg_credits q
     then 40 \<le> pkg_credits demo_package \<and>
       (\<forall>q. offered q demo_pay_db \<and> 40 \<le> pkg_credits q \<longrightarrow> pkg_credits demo_package \<le> pkg_credits q)
     else \<forall>q. offered q demo_pay_db \<longrightarrow> pkg_credits q \<le> pkg_credits demo_package)"
  by (rule recommended_package_is_cheapest_cover)
    (simp add: recommended_package_for_missing_credits_def offered_packages_def demo_pay_db_def demo_package_def)

text \<open>
  The text whose signature is checked depends only on the names and values of a form, not on
  the order in which Go iterates them.
\<close>
theorem signed_content_ignores_order:
  assumes "mset vs = mset vs'" and "distinct (map fst vs)"
  shows "alipay_sign_content vs excluded = alipay_sign_content vs' excluded"
  using sorted_value_keys_permuted [OF assms(1)] map_of_permuted [OF assms]
  by (simp add: alipay_sign_content_def form_get_def)

theorem signed_content_ignores_order_witness:
  "alipay_sign_content demo_notice [''sign''] = alipay_sign_content (rev demo_notice) [''sign'']"
  by (rule signed_content_ignores_order) (simp_all add: demo_notice_def)

end
