(* ===== verification/ProviderFailures.thy ===== *)
theory ProviderFailures
  imports Prelude
begin

text \<open>
  Failures of the image providers (\<^verbatim>\<open>app.go\<close>, \<^verbatim>\<open>generation.go\<close>,
  \<^verbatim>\<open>generation_queue.go\<close>): what the user is told about them, and which of them are
  tried again, on the same channel, on another model, or later from the queue.
\<close>

section \<open>Texts\<close>

text \<open>\<^verbatim>\<open>strings.Contains\<close>, and \<^verbatim>\<open>strconv.Atoi\<close> for 64-bit integers.\<close>

definition contains_text :: "string \<Rightarrow> string \<Rightarrow> bool" where
  "contains_text t marker = sublist marker t"

definition decimal_digit :: "char \<Rightarrow> bool" where
  "decimal_digit c \<longleftrightarrow> 48 \<le> (of_char c :: nat) \<and> (of_char c :: nat) \<le> 57"

definition atoi :: "string \<Rightarrow> int option" where
  "atoi s =
     (let negative = (s \<noteq> [] \<and> hd s = CHR ''-'');
          digits = (if s \<noteq> [] \<and> (hd s = CHR ''-'' \<or> hd s = CHR ''+'') then tl s else s);
          v = (if negative then - int (read_nat digits) else int (read_nat digits))
      in if digits \<noteq> [] \<and> list_all decimal_digit digits \<and> - (2 ^ 63) \<le> v \<and> v < 2 ^ 63 then Some v else None)"

section \<open>What the user is told\<close>

record provider_error =
  pe_http_status :: int
  pe_code :: string
  pe_message :: string
  pe_request_id :: string
  pe_failure_stage :: string
  pe_attempts :: int
  pe_retry_after :: duration
  pe_not_sent :: bool

definition technical_markers :: "string list" where
  "technical_markers = [''http://'', ''https://'', ''context deadline exceeded'', ''client.timeout'',
     ''connection refused'', ''connection reset'', ''no such host'', ''tls handshake'']"

definition request_methods :: "string list" where
  "request_methods = [''post'', ''get'', ''put'', ''patch'', ''delete'']"

definition is_technical_provider_message :: "string \<Rightarrow> bool" where
  "is_technical_provider_message message =
     (let t = lower_key (trim_space message) in
      t \<noteq> '''' \<and> (list_ex (contains_text t) technical_markers \<or>
        list_ex (\<lambda>m. contains_text t (m @ '' '' @ [CHR 0x22])) request_methods))"

definition provider_visible_message :: "provider_error \<Rightarrow> string \<Rightarrow> string" where
  "provider_visible_message e fallback =
     (let message = trim_space (pe_message e) in
      if message \<noteq> '''' then if is_technical_provider_message message then fallback else message
      else fallback)"

definition policy_markers :: "string list" where
  "policy_markers = [''moderation_blocked'', ''safety_violations'', ''rejected by the safety system'',
     ''policy'', utf8 [232, 191, 157, 229, 143, 141, 229, 185, 179, 229, 143, 176, 230, 148, 191, 231, 173, 150],
     utf8 [229, 174, 137, 229, 133, 168, 231, 173, 150, 231, 149, 165]]"

definition is_provider_policy_rejection :: "provider_error \<Rightarrow> bool" where
  "is_provider_policy_rejection e =
     list_ex (contains_text (lower_key (trim_space (pe_code e @ '' '' @ pe_message e)))) policy_markers"

abbreviation asset_fetch_stage :: string where "asset_fetch_stage \<equiv> ''provider_asset_fetch''"

definition is_retryable_provider_error :: "provider_error \<Rightarrow> bool" where
  "is_retryable_provider_error e \<longleftrightarrow>
     trim_space (pe_failure_stage e) \<noteq> asset_fetch_stage \<and>
     (trim_space (pe_code e) \<in> {''provider_timeout'', ''provider_request_failed'', ''provider_decode_failed'',
        ''provider_rate_limited''} \<or>
      pe_http_status e \<in> {429, 500, 502, 503, 504})"

text \<open>The messages of \<^verbatim>\<open>publicProviderFailure\<close>.\<close>

definition failed_message :: string where
  "failed_message = utf8 [229, 155, 190, 231, 137, 135, 231, 148, 159, 230, 136, 144, 229, 164, 177,
     232, 180, 165, 239, 188, 140, 232, 175, 183, 231, 168, 141, 229, 144, 142, 229, 134, 141, 232,
     175, 149, 227, 128, 130]"

definition asset_fetch_message :: string where
  "asset_fetch_message = utf8 [230, 168, 161, 229, 158, 139, 229, 183, 178, 232, 191, 148, 229, 155,
     158, 229, 155, 190, 231, 137, 135, 231, 187, 147, 230, 158, 156, 239, 188, 140, 228, 189, 134,
     229, 185, 179, 229, 143, 176, 228, 184, 139, 232, 189, 189, 229, 155, 190, 231, 137, 135, 229,
     164, 177, 232, 180, 165, 239, 188, 140, 231, 179, 187, 231, 187, 159, 229, 183, 178, 232, 135,
     170, 229, 138, 168, 233, 135, 141, 232, 175, 149, 239, 188, 140, 232, 175, 183, 231, 168, 141,
     229, 144, 142, 233, 135, 141, 230, 150, 176, 231, 148, 159, 230, 136, 144, 227, 128, 130]"

definition policy_message :: string where
  "policy_message = utf8 [230, 143, 144, 231, 164, 186, 232, 175, 141, 229, 143, 175, 232, 131, 189,
     232, 167, 166, 229, 143, 145, 229, 185, 179, 229, 143, 176, 229, 174, 137, 229, 133, 168, 231,
     173, 150, 231, 149, 165, 239, 188, 140, 232, 175, 183, 232, 176, 131, 230, 149, 180, 229, 144,
     142, 233, 135, 141, 232, 175, 149, 227, 128, 130]"

definition auth_message :: string where
  "auth_message = utf8 [229, 155, 190, 231, 137, 135, 230, 156, 141, 229, 138, 161, 233, 137, 180,
     230, 157, 131, 229, 164, 177, 232, 180, 165, 239, 188, 140, 232, 175, 183, 232, 129, 148, 231,
     179, 187, 231, 174, 161, 231, 144, 134, 229, 145, 152, 230, 163, 128, 230, 159, 165, 230, 168,
     161, 229, 158, 139, 233, 133, 141, 231, 189, 174, 227, 128, 130]"

definition busy_message :: string where
  "busy_message = utf8 [229, 155, 190, 231, 137, 135, 230, 156, 141, 229, 138, 161, 229, 189, 147,
     229, 137, 141, 231, 185, 129, 229, 191, 153, 239, 188, 140, 232, 175, 183, 231, 168, 141, 229,
     144, 142, 233, 135, 141, 230, 150, 176, 231, 148, 159, 230, 136, 144, 227, 128, 130]"

definition unavailable_message :: string where
  "unavailable_message = utf8 [229, 155, 190, 231, 137, 135, 230, 156, 141, 229, 138, 161, 230, 154,
     130, 230, 151, 182, 228, 184, 141, 229, 143, 175, 231, 148, 168, 239, 188, 140, 232, 175, 183,
     231, 168, 141, 229, 144, 142, 233, 135, 141, 230, 150, 176, 231, 148, 159, 230, 136, 144, 227,
     128, 130]"

definition timeout_message :: string where
  "timeout_message = utf8 [231, 189, 145, 231, 187, 156, 232, 182, 133, 230, 151, 182, 239, 188,
     140, 231, 148, 159, 230, 136, 144, 229, 164, 177, 232, 180, 165, 239, 188, 140, 232, 175, 183,
     231, 130, 185, 229, 135, 187, 233, 135, 141, 232, 175, 149, 227, 128, 130]"

definition request_failed_message :: string where
  "request_failed_message = utf8 [229, 155, 190, 231, 137, 135, 230, 156, 141, 229, 138, 161, 232,
     175, 183, 230, 177, 130, 229, 164, 177, 232, 180, 165, 239, 188, 140, 229, 143, 175, 232, 131,
     189, 230, 152, 175, 231, 189, 145, 231, 187, 156, 230, 179, 162, 229, 138, 168, 230, 136, 150,
     228, 190, 155, 229, 186, 148, 229, 149, 134, 230, 154, 130, 228, 184, 141, 229, 143, 175, 231,
     148, 168, 239, 188, 140, 232, 175, 183, 231, 168, 141, 229, 144, 142, 233, 135, 141, 230, 150,
     176, 231, 148, 159, 230, 136, 144, 227, 128, 130]"

definition decode_failed_message :: string where
  "decode_failed_message = utf8 [229, 155, 190, 231, 137, 135, 230, 156, 141, 229, 138, 161, 232,
     191, 148, 229, 155, 158, 229, 188, 130, 229, 184, 184, 239, 188, 140, 232, 175, 183, 231, 168,
     141, 229, 144, 142, 233, 135, 141, 230, 150, 176, 231, 148, 159, 230, 136, 144, 227, 128, 130]"

definition empty_image_message :: string where
  "empty_image_message = utf8 [229, 155, 190, 231, 137, 135, 230, 156, 141, 229, 138, 161, 230, 156,
     170, 232, 191, 148, 229, 155, 158, 229, 143, 175, 232, 175, 134, 229, 136, 171, 231, 154, 132,
     229, 155, 190, 231, 137, 135, 231, 187, 147, 230, 158, 156, 239, 188, 140, 232, 175, 183, 231,
     168, 141, 229, 144, 142, 233, 135, 141, 230, 150, 176, 231, 148, 159, 230, 136, 144, 227, 128,
     130]"

text \<open>The code, the message and whether the client may try again; no error at all is a failure, too.\<close>

definition public_provider_failure :: "provider_error option \<Rightarrow> string \<times> string \<times> bool" where
  "public_provider_failure err =
     (case err of
        None \<Rightarrow> (''provider_error'', failed_message, False)
      | Some e \<Rightarrow>
          let shown = provider_visible_message e; code = trim_space (pe_code e) in
          if trim_space (pe_failure_stage e) = asset_fetch_stage
          then (''provider_asset_fetch_failed'', shown asset_fetch_message, True)
          else if is_provider_policy_rejection e then (''provider_policy_rejected'', shown policy_message, False)
          else if pe_http_status e = 401 \<or> pe_http_status e = 403
          then (''provider_auth_failed'', shown auth_message, False)
          else if pe_http_status e = 429 then (''provider_rate_limited'', shown busy_message, True)
          else if pe_http_status e \<in> {500, 502, 503, 504}
          then (''provider_unavailable'', shown unavailable_message, True)
          else if code = ''provider_timeout'' then (''provider_timeout'', shown timeout_message, True)
          else if code = ''provider_request_failed'' then (''provider_request_failed'', shown request_failed_message, True)
          else if code = ''provider_decode_failed'' then (''provider_decode_failed'', shown decode_failed_message, True)
          else if code = ''provider_empty_image'' then (''provider_empty_image'', shown empty_image_message, True)
          else if code = ''provider_rate_limited'' then (''provider_rate_limited'', shown busy_message, True)
          else (fallback_string (pe_code e) ''provider_error'', shown failed_message,
                is_retryable_provider_error e))"

definition map_provider_error :: "provider_error option \<Rightarrow> nat \<times> string \<times> string" where
  "map_provider_error err =
     (case public_provider_failure err of (code, message, _) \<Rightarrow>
        (if code = ''provider_policy_rejected'' then 422
         else case err of None \<Rightarrow> 502 | Some e \<Rightarrow> if pe_http_status e = 429 then 503 else 502,
         code, message))"

section \<open>What is tried again\<close>

definition http_error_prefix :: string where "http_error_prefix = ''provider_http_''"

definition provider_http_status_from_error_code :: "string \<Rightarrow> int option" where
  "provider_http_status_from_error_code raw =
     (let code = trim_space raw in
      if prefix http_error_prefix code then atoi (drop (length http_error_prefix) code) else None)"

definition provider_model_unavailable_error_code :: "string \<Rightarrow> bool" where
  "provider_model_unavailable_error_code code \<longleftrightarrow>
     lower_key (trim_space code) \<in> {''invalid_model'', ''model_not_found'', ''model_not_available'',
       ''model_disabled'', ''unsupported_model''}"

definition provider_http_status_triggers_same_channel_retry :: "int \<Rightarrow> bool" where
  "provider_http_status_triggers_same_channel_retry status \<longleftrightarrow> status \<in> {502, 503, 504}"

definition provider_http_status_triggers_model_failover :: "int \<Rightarrow> bool" where
  "provider_http_status_triggers_model_failover status \<longleftrightarrow> status \<in> {401, 403, 429, 500, 502, 503, 504}"

definition provider_error_triggers_model_failover :: "provider_error \<Rightarrow> bool" where
  "provider_error_triggers_model_failover e =
     (let code = trim_space (pe_code e) in
      if trim_space (pe_failure_stage e) = asset_fetch_stage then False
      else if is_provider_policy_rejection e then False
      else if provider_model_unavailable_error_code code then True
      else if code \<in> {''provider_timeout'', ''provider_request_failed'', ''provider_decode_failed'',
          ''provider_empty_image'', ''provider_rate_limited'', ''provider_unavailable'',
          ''provider_auth_failed'', ''provider_request_build_failed''} then True
      else case provider_http_status_from_error_code code of
        Some status \<Rightarrow> status \<noteq> 400 \<and> provider_http_status_triggers_model_failover status
      | None \<Rightarrow>
          if pe_http_status e = 400 then provider_model_unavailable_error_code code
          else provider_http_status_triggers_model_failover (pe_http_status e))"

definition provider_error_triggers_same_channel_retry :: "provider_error \<Rightarrow> bool" where
  "provider_error_triggers_same_channel_retry e =
     (let code = trim_space (pe_code e) in
      if trim_space (pe_failure_stage e) = asset_fetch_stage then False
      else if is_provider_policy_rejection e then False
      else if code = ''provider_timeout'' then True
      else case provider_http_status_from_error_code code of
        Some status \<Rightarrow> provider_http_status_triggers_same_channel_retry status
      | None \<Rightarrow> provider_http_status_triggers_same_channel_retry (pe_http_status e))"

text \<open>
  A commerce item whose credits are reserved elsewhere is not sent twice to a provider without
  idempotency keys, unless the first request was never sent.
\<close>

definition commerce_provider_failure_allows_retry :: "bool \<Rightarrow> bool \<Rightarrow> provider_error \<Rightarrow> bool" where
  "commerce_provider_failure_allows_retry external_reservation supports_key e \<longleftrightarrow>
     \<not> external_reservation \<or> supports_key \<or> pe_not_sent e \<or>
     trim_space (pe_code e) \<notin> {''provider_timeout'', ''provider_request_failed''}"

definition queue_retry_status :: "int \<Rightarrow> bool" where
  "queue_retry_status status \<longleftrightarrow> status \<in> {429, 502, 503, 504}"

definition queued_provider_failure_retryable :: "provider_error \<Rightarrow> bool" where
  "queued_provider_failure_retryable e \<longleftrightarrow>
     trim_space (pe_code e) \<noteq> ''provider_result_unknown'' \<and>
     (pe_not_sent e \<or> queue_retry_status (pe_http_status e) \<or>
      (case provider_http_status_from_error_code (pe_code e) of
         None \<Rightarrow> False | Some status \<Rightarrow> queue_retry_status status))"

definition queued_provider_failure_waits :: "provider_error \<Rightarrow> bool" where
  "queued_provider_failure_waits e \<longleftrightarrow> pe_not_sent e \<or> pe_http_status e = 429 \<or>
     provider_http_status_from_error_code (pe_code e) = Some 429"

definition is_retryable_generation_error_code :: "string \<Rightarrow> bool" where
  "is_retryable_generation_error_code code \<longleftrightarrow>
     trim_space code \<in> {''provider_timeout'', ''provider_request_failed'', ''provider_decode_failed'',
       ''provider_rate_limited'', ''provider_unavailable'', ''provider_asset_fetch_failed'',
       ''provider_empty_image'', ''user_cancelled''}"

section \<open>Facts\<close>

lemmas fallback_messages = failed_message_def asset_fetch_message_def policy_message_def auth_message_def
  busy_message_def unavailable_message_def timeout_message_def request_failed_message_def
  decode_failed_message_def empty_image_message_def

definition high_bytes :: "string \<Rightarrow> bool" where
  "high_bytes s \<longleftrightarrow> list_all (\<lambda>c. 128 \<le> (of_char c :: nat)) s"

lemma lower_key_high:
  "high_bytes s \<Longrightarrow> c \<in> set (lower_key s) \<Longrightarrow> 128 \<le> (of_char c :: nat) \<or> c = CHR ''i'' \<or> c = CHR ''k''"
  by (induction s rule: lower_key.induct)
    (auto simp: high_bytes_def lower_ascii_def Let_def split: if_splits)

lemma high_bytes_plain:
  assumes "high_bytes s"
  shows "\<not> is_technical_provider_message s"
proof -
  have "high_bytes (trim_space s)"
    using assms trim_space_subset [of s] by (auto simp: high_bytes_def list_all_iff)
  from lower_key_high [OF this]
  have no: "CHR ''t'' \<notin> set (lower_key (trim_space s))" "CHR 0x22 \<notin> set (lower_key (trim_space s))" by fastforce+
  have "\<not> contains_text (lower_key (trim_space s)) m" if "CHR ''t'' \<in> set m \<or> CHR 0x22 \<in> set m" for m
    using that no set_mono_sublist [of m "lower_key (trim_space s)"] by (auto simp: contains_text_def)
  then show ?thesis
    by (simp add: is_technical_provider_message_def technical_markers_def request_methods_def Let_def)
qed

lemma fallback_plain:
  "\<not> is_technical_provider_message failed_message" "\<not> is_technical_provider_message asset_fetch_message"
  "\<not> is_technical_provider_message policy_message" "\<not> is_technical_provider_message auth_message"
  "\<not> is_technical_provider_message busy_message" "\<not> is_technical_provider_message unavailable_message"
  "\<not> is_technical_provider_message timeout_message" "\<not> is_technical_provider_message request_failed_message"
  "\<not> is_technical_provider_message decode_failed_message" "\<not> is_technical_provider_message empty_image_message"
  by (rule high_bytes_plain, simp add: high_bytes_def fallback_messages utf8_def)+

lemma visible_plain: "\<not> is_technical_provider_message fb \<Longrightarrow> \<not> is_technical_provider_message (provider_visible_message e fb)"
  by (simp add: provider_visible_message_def Let_def)

text \<open>A rate limit whose message speaks of a policy.\<close>

definition demo_rejection :: provider_error where
  "demo_rejection = \<lparr>pe_http_status = 429, pe_code = ''http_429'', pe_message = ''Rate limit policy exceeded'',
     pe_request_id = '''', pe_failure_stage = '''', pe_attempts = 1, pe_retry_after = 0, pe_not_sent = False\<rparr>"

lemma demo_rejection_facts:
  "is_provider_policy_rejection demo_rejection" "trim_space (pe_failure_stage demo_rejection) \<noteq> asset_fetch_stage"
proof -
  have "list_all plain_byte ''hd''" using literal_bytes_plain by (simp add: literal_bytes_def)
  then have t: "trim_space ''http_429 Rate limit policy exceeded'' = ''http_429 Rate limit policy exceeded''"
    by (intro trim_space_ends) simp_all
  have "sublist ''policy'' ''http_429 rate limit policy exceeded''"
    unfolding sublist_def by (rule exI [of _ "''http_429 rate limit ''"], rule exI [of _ "'' exceeded''"]) simp
  moreover have "lower_key ''http_429 Rate limit policy exceeded'' = ''http_429 rate limit policy exceeded''"
    by (simp add: lower_ascii_def utf8_def char_of_def bit_Suc_0_iff)
  ultimately show "is_provider_policy_rejection demo_rejection"
    by (simp add: is_provider_policy_rejection_def demo_rejection_def t policy_markers_def contains_text_def)
qed (simp add: demo_rejection_def)

text \<open>Such a failure is shown as a rejection of the content, and the queue tries it again.\<close>

lemma policy_text_tried_again:
  "fst (public_provider_failure (Some demo_rejection)) = ''provider_policy_rejected'' \<and>
   queued_provider_failure_retryable demo_rejection"
proof -
  have "trim_space ''http_429'' = ''http_429''" by (rule trim_space_literal) (simp add: literal_bytes_def)
  with demo_rejection_facts show ?thesis
    by (simp add: public_provider_failure_def queued_provider_failure_retryable_def queue_retry_status_def Let_def)
      (simp add: demo_rejection_def)
qed

text \<open>
  Whatever the provider answers, the message for the user has no address, no network error and
  no request line in it.
\<close>

theorem public_message_plain: "\<not> is_technical_provider_message (fst (snd (public_provider_failure err)))"
  by (cases err) (simp_all add: public_provider_failure_def Let_def fallback_plain visible_plain)

text \<open>
  A rejection for reasons of policy is answered 422, is not called retryable, and is tried
  neither on the same channel nor on another model.
\<close>

theorem policy_rejection_is_final:
  assumes "is_provider_policy_rejection e" and "trim_space (pe_failure_stage e) \<noteq> asset_fetch_stage"
  shows "\<not> provider_error_triggers_model_failover e \<and> \<not> provider_error_triggers_same_channel_retry e \<and>
    \<not> snd (snd (public_provider_failure (Some e))) \<and>
    fst (map_provider_error (Some e)) = 422"
  using assms by (simp add: provider_error_triggers_model_failover_def provider_error_triggers_same_channel_retry_def
    public_provider_failure_def map_provider_error_def Let_def)

theorem policy_rejection_is_final_witness:
  "\<not> provider_error_triggers_model_failover demo_rejection \<and>
    \<not> provider_error_triggers_same_channel_retry demo_rejection \<and>
    \<not> snd (snd (public_provider_failure (Some demo_rejection))) \<and>
    fst (map_provider_error (Some demo_rejection)) = 422"
  by (rule policy_rejection_is_final) (simp_all add: demo_rejection_facts)

text \<open>What is repeated on the same channel goes to another model when the repetitions are used up.\<close>

lemma same_channel_retry_fails_over:
  "provider_error_triggers_same_channel_retry e \<Longrightarrow> provider_error_triggers_model_failover e"
  by (auto simp: provider_error_triggers_same_channel_retry_def provider_error_triggers_model_failover_def
    provider_http_status_triggers_same_channel_retry_def provider_http_status_triggers_model_failover_def Let_def
    split: option.splits if_splits)

end
