(* ===== verification/ImageQueue.thy ===== *)
theory ImageQueue
  imports CreditLedger ProviderFailures "HOL-Library.Product_Lexorder"
begin

text \<open>
  The persistent queue of single images (\<^verbatim>\<open>generation_queue.go\<close>) with the parts of
  \<^verbatim>\<open>generation.go\<close> that keep its rows: a submitted image holds its credits, a worker claims it
  fairly, executes it under a lease, and settles or gives back its credits. The tables live in a
  database over the same balances and credit transactions as the commerce ledger. The log of
  generation events is left out; the descriptive columns of a record (prompt, style, model) stay
  as they are and are not kept.
\<close>

section \<open>Rows\<close>

datatype image_job_status = ImageQueued | ImageRunning | ImageRetryWait | ImagePersisting
  | ImageSucceeded | ImageFailed | ImageCancelled

record image_job =
  ij_id :: uid
  ij_record :: uid
  ij_user :: uid
  ij_entry_point :: string
  ij_priority :: int
  ij_request_version :: int
  ij_snapshot :: string
  ij_fingerprint :: string
  ij_key :: string
  ij_key_expires_at :: time
  ij_status :: image_job_status
  ij_stage :: string
  ij_attempts :: int
  ij_max_attempts :: int
  ij_next_attempt_at :: "time option"
  ij_deadline_at :: time
  ij_lease_owner :: string
  ij_lease_token :: string
  ij_lease_expires_at :: "time option"
  ij_cancel_requested_at :: "time option"
  ij_reserved :: int
  ij_settled :: bool
  ij_released :: bool
  ij_provider_started :: bool
  ij_idempotency_supported :: bool
  ij_spool :: string
  ij_error_code :: string
  ij_error_message :: string
  ij_queued_at :: time
  ij_claimed_at :: "time option"
  ij_started_at :: "time option"
  ij_completed_at :: "time option"

record execution_lease =
  el_id :: uid
  el_token :: string
  el_owner :: string
  el_job :: "uid option"
  el_record :: "uid option"
  el_user :: uid
  el_provider :: uid
  el_channel :: uid
  el_entry_point :: string
  el_expires_at :: time

text \<open>A generation record with the columns the queue reads or writes.\<close>

record image_record = generation_record +
  grc_stage :: string
  grc_mime_type :: string
  grc_latency_ms :: int
  grc_provider_request_id :: string
  grc_provider_http_status :: int
  grc_provider_error_code :: string
  grc_provider_error_message :: string
  grc_provider_failure_stage :: string
  grc_provider_attempts :: int
  grc_provider_started :: bool
  grc_idempotency_supported :: bool
  grc_credits_cost :: int
  grc_credits_deducted :: bool
  grc_fingerprint :: string
  grc_created_at :: time

record content_mark =
  cmk_id :: uid
  cmk_record :: uid
  cmk_user :: uid
  cmk_asset_key :: string
  cmk_label :: string
  cmk_trace :: string
  cmk_provider_request_id :: string

record image_db = credit_db +
  img_jobs :: "image_job list"
  img_leases :: "execution_lease list"
  img_records :: "image_record list"
  img_works :: "work list"
  img_marks :: "content_mark list"

interpretation ij_tab: keyed_table ij_id .
interpretation grc_tab: keyed_table grc_id .
interpretation el_tab: keyed_table el_id .

datatype image_error = QueueFull | QueueIdempotency | QueueLeaseLost | ImageCreditsInsufficient
  | ImageRowNotFound | ImageUnique string | ReservedInvariant | ReleaseInvariant | RecordTerminal
  | ImageText string

abbreviation "record_queued \<equiv> ''queued''"
abbreviation "record_running \<equiv> ''running''"
abbreviation "record_succeeded \<equiv> ''succeeded''"
abbreviation "record_failed \<equiv> ''failed''"
abbreviation "stage_waiting \<equiv> ''waiting_capacity''"

definition image_active :: "image_job \<Rightarrow> bool" where
  "image_active j \<longleftrightarrow> ij_status j \<in> {ImageQueued, ImageRunning, ImageRetryWait, ImagePersisting}"

definition image_waiting :: "image_job \<Rightarrow> bool" where
  "image_waiting j \<longleftrightarrow> ij_status j = ImageQueued \<or> ij_status j = ImageRetryWait"

definition image_working :: "image_job \<Rightarrow> bool" where
  "image_working j \<longleftrightarrow> ij_status j = ImageRunning \<or> ij_status j = ImagePersisting"

definition update_image_jobs ::
  "(image_job \<Rightarrow> bool) \<Rightarrow> (image_job \<Rightarrow> image_job) \<Rightarrow> image_db \<Rightarrow> image_db" where
  "update_image_jobs P f s = s\<lparr>img_jobs := update_where P f (img_jobs s)\<rparr>"

definition update_image_records ::
  "(image_record \<Rightarrow> bool) \<Rightarrow> (image_record \<Rightarrow> image_record) \<Rightarrow> image_db \<Rightarrow> image_db" where
  "update_image_records P f s = s\<lparr>img_records := update_where P f (img_records s)\<rparr>"

lemmas image_table_defs = update_image_jobs_def update_image_records_def update_balances_def

definition is_active_generation_record_status :: "string \<Rightarrow> bool" where
  "is_active_generation_record_status status \<longleftrightarrow>
     lower_key (trim_space status) \<in> {record_queued, record_running}"

text \<open>\<^verbatim>\<open>status IN ('queued', 'running')\<close>, and the row of a record that still is.\<close>

definition record_open :: "image_record \<Rightarrow> bool" where
  "record_open r \<longleftrightarrow> grc_status r = record_queued \<or> grc_status r = record_running"

section \<open>Costs and limits\<close>

record image_config =
  igc_queue_capacity :: int
  igc_user_pending_limit :: int
  igc_queue_timeout_seconds :: int

definition generation_queue_capacity :: "image_config \<Rightarrow> int" where
  "generation_queue_capacity cfg = (if igc_queue_capacity cfg \<le> 0 then 500 else igc_queue_capacity cfg)"

definition generation_user_pending_limit :: "image_config \<Rightarrow> int" where
  "generation_user_pending_limit cfg =
     (if igc_user_pending_limit cfg \<le> 0 then 32 else igc_user_pending_limit cfg)"

definition generation_queue_timeout :: "image_config \<Rightarrow> duration" where
  "generation_queue_timeout cfg =
     (let seconds = igc_queue_timeout_seconds cfg in (if seconds \<le> 0 then 30 * 60 else seconds) * second)"

abbreviation image_lease_ttl :: duration where "image_lease_ttl \<equiv> 90 * second"
abbreviation image_max_attempts :: nat where "image_max_attempts \<equiv> 3"

text \<open>A request: the fields the queue reads, the rest as the text they are encoded to.\<close>

record image_request =
  irq_batch_id :: string
  irq_batch_index :: int
  irq_batch_total :: int
  irq_rest :: string

text \<open>A prepared request of a user, with the provider and channel chosen for it.\<close>

record image_task =
  tsk_user :: uid
  tsk_request :: image_request
  tsk_candidate :: "(uid \<times> uid) option"

definition generation_job_provider_id :: "image_task \<Rightarrow> uid" where
  "generation_job_provider_id t = (case tsk_candidate t of None \<Rightarrow> 0 | Some (provider, _) \<Rightarrow> provider)"

definition generation_job_channel_id :: "image_task \<Rightarrow> uid" where
  "generation_job_channel_id t = (case tsk_candidate t of None \<Rightarrow> 0 | Some (_, channel) \<Rightarrow> channel)"

definition generation_task_credit_cost :: "image_request \<Rightarrow> int" where
  "generation_task_credit_cost req = 1"

definition generation_required_credits :: "image_request \<Rightarrow> int" where
  "generation_required_credits req =
     (if irq_batch_id req \<noteq> '''' \<and> irq_batch_total req > 1 \<and> irq_batch_index req \<le> 0 then irq_batch_total req
      else generation_task_credit_cost req)"

definition generation_job_credit_cost :: "image_task \<Rightarrow> int" where
  "generation_job_credit_cost t = generation_task_credit_cost (tsk_request t)"

definition generation_record_credit_cost :: "'a image_record_scheme \<Rightarrow> int" where
  "generation_record_credit_cost r = (if grc_credits_cost r > 0 then grc_credits_cost r else 1)"

section \<open>Submitting\<close>

definition generation_queue_idempotency_key :: "image_request \<Rightarrow> string \<Rightarrow> string \<Rightarrow> string" where
  "generation_queue_idempotency_key req explicit fresh =
     (if trim_space explicit \<noteq> '''' then trim_space explicit
      else if \<not> blank (irq_batch_id req)
      then ''batch:'' @ trim_space (irq_batch_id req) @ '':'' @ show_int (irq_batch_index req)
      else ''auto:'' @ fresh)"

text \<open>The JSON text of a snapshot and its SHA-256 are the codec's.\<close>

record image_codec =
  iqc_encode :: "image_request \<Rightarrow> string option"
  iqc_digest :: "string \<Rightarrow> string"

definition generation_queue_snapshot_for :: "image_codec \<Rightarrow> image_task \<Rightarrow> (string \<times> string) option" where
  "generation_queue_snapshot_for c t =
     (case iqc_encode c (tsk_request t) of None \<Rightarrow> None | Some snapshot \<Rightarrow> Some (snapshot, iqc_digest c snapshot))"

definition keyed_image_job :: "uid \<Rightarrow> string \<Rightarrow> image_job \<Rightarrow> bool" where
  "keyed_image_job user key j \<longleftrightarrow> ij_user j = user \<and> ij_key j = key"

text \<open>A key that has expired is moved out of the way.\<close>

definition retire_expired_key :: "uid \<Rightarrow> string \<Rightarrow> string \<Rightarrow> image_db \<Rightarrow> image_error + image_db" where
  "retire_expired_key user key fresh s =
     (case first_where (keyed_image_job user key) (img_jobs s) of
        None \<Rightarrow> Inr s
      | Some old \<Rightarrow>
          let retired = ''expired:'' @ show_nat (ij_id old) @ '':'' @ fresh in
          if list_ex (\<lambda>j. keyed_image_job user retired j \<and> ij_id j \<noteq> ij_id old) (img_jobs s)
          then Inl (ImageUnique ''idempotency_key'')
          else Inr (update_image_jobs (\<lambda>j. ij_id j = ij_id old) (\<lambda>j. j\<lparr>ij_key := retired\<rparr>) s))"

definition image_queue_full :: "image_config \<Rightarrow> uid \<Rightarrow> image_db \<Rightarrow> bool" where
  "image_queue_full cfg user s \<longleftrightarrow>
     generation_queue_capacity cfg \<le> int (count_where image_active (img_jobs s)) \<or>
     generation_user_pending_limit cfg \<le> int (count_where (\<lambda>j. ij_user j = user \<and> image_active j) (img_jobs s))"

definition hold_image_credits :: "uid \<Rightarrow> int \<Rightarrow> image_db \<Rightarrow> image_error + image_db" where
  "hold_image_credits user credits s =
     (let affordable = (\<lambda>b. bal_user b = user \<and> bal_available b \<ge> credits) in
      if count_where affordable (balances s) = 0 then Inl ImageCreditsInsufficient
      else Inr (update_balances affordable
        (\<lambda>b. b\<lparr>bal_available := bal_available b - credits, bal_reserved := bal_reserved b + credits\<rparr>) s))"

definition new_image_record :: "image_task \<Rightarrow> string \<Rightarrow> time \<Rightarrow> image_record" where
  "new_image_record t fingerprint now =
     \<lparr>grc_id = 0, grc_user = tsk_user t, grc_work = None, grc_status = record_queued, grc_asset_key = '''',
      grc_preview_url = '''', grc_download_url = '''', grc_storage_scope = '''', grc_error_code = '''',
      grc_error_message = '''', grc_stage = ''queued'', grc_mime_type = '''', grc_latency_ms = 0,
      grc_provider_request_id = '''', grc_provider_http_status = 0, grc_provider_error_code = '''',
      grc_provider_error_message = '''', grc_provider_failure_stage = '''', grc_provider_attempts = 0,
      grc_provider_started = False, grc_idempotency_supported = False,
      grc_credits_cost = generation_job_credit_cost t, grc_credits_deducted = False,
      grc_fingerprint = fingerprint, grc_created_at = now\<rparr>"

definition create_generation_record :: "image_record \<Rightarrow> image_db \<Rightarrow> image_record \<times> image_db" where
  "create_generation_record r s =
     (let r1 = r\<lparr>grc_id := next_key grc_id (img_records s)\<rparr> in (r1, s\<lparr>img_records := img_records s @ [r1]\<rparr>))"

definition new_image_job ::
  "image_config \<Rightarrow> image_task \<Rightarrow> uid \<Rightarrow> string \<Rightarrow> string \<Rightarrow> string \<Rightarrow> string \<Rightarrow> time \<Rightarrow> image_job" where
  "new_image_job cfg t record_id entry_point snapshot fingerprint key now =
     \<lparr>ij_id = 0, ij_record = record_id, ij_user = tsk_user t,
      ij_entry_point = fallback_string (trim_space entry_point) ''workspace'', ij_priority = 0,
      ij_request_version = 1, ij_snapshot = snapshot, ij_fingerprint = fingerprint, ij_key = key,
      ij_key_expires_at = now + 30 * 24 * 60 * minute, ij_status = ImageQueued, ij_stage = stage_waiting,
      ij_attempts = 0, ij_max_attempts = int image_max_attempts, ij_next_attempt_at = None,
      ij_deadline_at = now + generation_queue_timeout cfg, ij_lease_owner = '''', ij_lease_token = '''',
      ij_lease_expires_at = None, ij_cancel_requested_at = None, ij_reserved = generation_job_credit_cost t,
      ij_settled = False, ij_released = False, ij_provider_started = False, ij_idempotency_supported = False,
      ij_spool = '''', ij_error_code = '''', ij_error_message = '''', ij_queued_at = now, ij_claimed_at = None,
      ij_started_at = None, ij_completed_at = None\<rparr>"

definition insert_image_job :: "image_job \<Rightarrow> image_db \<Rightarrow> image_error + image_job \<times> image_db" where
  "insert_image_job j s =
     (if list_ex (\<lambda>x. ij_record x = ij_record j) (img_jobs s) then Inl (ImageUnique ''generation_record_id'')
      else if list_ex (keyed_image_job (ij_user j) (ij_key j)) (img_jobs s) then Inl (ImageUnique ''idempotency_key'')
      else let j1 = j\<lparr>ij_id := next_key ij_id (img_jobs s)\<rparr> in Inr (j1, s\<lparr>img_jobs := img_jobs s @ [j1]\<rparr>))"

text \<open>The credit transaction of a job: the event, the amount, and the balance after it.\<close>

definition image_transaction ::
  "credit_kind \<Rightarrow> string \<Rightarrow> int \<Rightarrow> string \<Rightarrow> image_job \<Rightarrow> credit_balance \<Rightarrow> credit_transaction" where
  "image_transaction kind event amount reason j b =
     \<lparr>txn_id = 0, txn_user = ij_user j, txn_type = kind, txn_amount = amount,
      txn_balance_after = bal_available b, txn_reserved_after = bal_reserved b,
      txn_idempotency_key = ''generation:'' @ show_nat (ij_id j) @ '':'' @ event,
      txn_reason = reason, txn_related_type = ''image_generation_job'', txn_related_id = ij_id j\<rparr>"

definition record_image_credits ::
  "credit_kind \<Rightarrow> string \<Rightarrow> int \<Rightarrow> string \<Rightarrow> image_job \<Rightarrow> image_db \<Rightarrow> image_error + credit_balance \<times> image_db" where
  "record_image_credits kind event amount reason j s =
     (case first_where (\<lambda>b. bal_user b = ij_user j) (balances s) of
        None \<Rightarrow> Inl ImageRowNotFound
      | Some b \<Rightarrow> Inr (b, insert_transaction (image_transaction kind event amount reason j b) s))"

text \<open>The texts of the transactions and errors.\<close>

definition image_hold_reason :: string where
  "image_hold_reason = utf8 [229, 155, 190, 231, 137, 135, 231, 148, 159, 230, 136, 144, 233, 162,
     132, 231, 149, 153, 231, 130, 185, 230, 149, 176]"

definition image_settle_reason :: string where
  "image_settle_reason = utf8 [229, 155, 190, 231, 137, 135, 231, 148, 159, 230, 136, 144, 230, 136,
     144, 229, 138, 159, 231, 187, 147, 231, 174, 151, 233, 162, 132, 231, 149, 153, 231, 130, 185,
     230, 149, 176]"

definition image_charge_reason :: string where
  "image_charge_reason = utf8 [229, 155, 190, 231, 137, 135, 231, 148, 159, 230, 136, 144, 230, 137,
     163, 231, 130, 185]"

definition queue_timeout_message :: string where
  "queue_timeout_message = utf8 [229, 155, 190, 231, 137, 135, 231, 148, 159, 230, 136, 144, 230,
     142, 146, 233, 152, 159, 232, 182, 133, 232, 191, 135, 51, 48, 229, 136, 134, 233, 146, 159,
     239, 188, 140, 229, 183, 178, 232, 135, 170, 229, 138, 168, 229, 143, 150, 230, 182, 136]"

definition image_failed_message :: string where
  "image_failed_message = utf8 [229, 155, 190, 231, 137, 135, 231, 148, 159, 230, 136, 144, 228,
     187, 187, 229, 138, 161, 229, 164, 177, 232, 180, 165]"

definition result_unknown_message :: string where
  "result_unknown_message = utf8 [230, 156, 141, 229, 138, 161, 228, 184, 173, 230, 150, 173, 230,
     151, 182, 228, 190, 155, 229, 186, 148, 229, 149, 134, 232, 175, 183, 230, 177, 130, 231, 187,
     147, 230, 158, 156, 230, 156, 170, 231, 159, 165, 239, 188, 140, 228, 184, 186, 233, 129, 191,
     229, 133, 141, 233, 135, 141, 229, 164, 141, 231, 148, 159, 230, 136, 144, 229, 183, 178, 229,
     129, 156, 230, 173, 162, 233, 135, 141, 232, 175, 149]"

definition persist_timeout_message :: string where
  "persist_timeout_message = utf8 [231, 148, 159, 230, 136, 144, 231, 187, 147, 230, 158, 156, 230,
     140, 129, 228, 185, 133, 229, 140, 150, 232, 182, 133, 232, 191, 135, 53, 229, 136, 134, 233,
     146, 159]"

definition cancelled_message :: string where
  "cancelled_message = utf8 [229, 183, 178, 229, 143, 150, 230, 182, 136, 231, 148, 159, 230, 136,
     144, 239, 188, 140, 230, 156, 170, 230, 137, 163, 231, 130, 185, 227, 128, 130]"

definition ai_label :: string where
  "ai_label = utf8 [65, 73, 231, 148, 159, 230, 136, 144]"

definition claim_new_job ::
  "image_codec \<Rightarrow> image_config \<Rightarrow> image_task \<Rightarrow> string \<Rightarrow> string \<Rightarrow> string \<Rightarrow> string \<Rightarrow> string \<Rightarrow> time \<Rightarrow> image_db \<Rightarrow>
     image_error + (image_record \<times> image_job \<times> bool) \<times> image_db" where
  "claim_new_job c cfg t key entry_point snapshot fingerprint fresh now s =
     and_then (retire_expired_key (tsk_user t) key fresh s) (\<lambda>s1.
     if image_queue_full cfg (tsk_user t) s1 then Inl QueueFull
     else and_then (hold_image_credits (tsk_user t) (generation_job_credit_cost t) s1) (\<lambda>s2.
     case create_generation_record (new_image_record t fingerprint now) s2 of (r, s3) \<Rightarrow>
     and_then (insert_image_job (new_image_job cfg t (grc_id r) entry_point snapshot fingerprint key now) s3) (\<lambda>(j, s4).
     and_then (record_image_credits GenerationReserve ''reserve'' (- ij_reserved j) image_hold_reason j s4) (\<lambda>(_, s5).
     Inr ((r, j, False), s5)))))"

text \<open>
  The transaction of a submission. A key in use returns the job it belongs to, or is refused when
  the request is another one.
\<close>

definition enqueue_generation_job ::
  "image_codec \<Rightarrow> image_config \<Rightarrow> image_task \<Rightarrow> string \<Rightarrow> string \<Rightarrow> string \<Rightarrow> string \<Rightarrow> time \<Rightarrow> image_db \<Rightarrow>
     image_error + (image_record \<times> image_job \<times> bool) \<times> image_db" where
  "enqueue_generation_job c cfg t explicit entry_point auto fresh now s =
     (if tsk_user t = 0 then Inl (ImageText ''invalid generation job'')
      else case generation_queue_snapshot_for c t of
        None \<Rightarrow> Inl (ImageText ''json'')
      | Some (snapshot, fingerprint) \<Rightarrow>
          let key = generation_queue_idempotency_key (tsk_request t) explicit auto in
          (case first_where (\<lambda>j. keyed_image_job (tsk_user t) key j \<and> ij_key_expires_at j > now) (img_jobs s) of
             Some j \<Rightarrow>
               if ij_fingerprint j \<noteq> fingerprint then Inl QueueIdempotency
               else (case first_where (\<lambda>r. grc_id r = ij_record j) (img_records s) of
                 None \<Rightarrow> Inl ImageRowNotFound
               | Some r \<Rightarrow> Inr ((r, j, True), s))
           | None \<Rightarrow> claim_new_job c cfg t key entry_point snapshot fingerprint fresh now s))"

section \<open>Settling and giving back\<close>

definition settle_queued_generation_credits ::
  "uid \<Rightarrow> uid \<Rightarrow> int \<Rightarrow> image_db \<Rightarrow> image_error + int \<times> image_db" where
  "settle_queued_generation_credits user record_id amount s =
     (case first_where (\<lambda>j. ij_record j = record_id \<and> ij_user j = user) (img_jobs s) of
        None \<Rightarrow> Inl ImageRowNotFound
      | Some j \<Rightarrow>
          if ij_settled j then
            (case first_where (\<lambda>b. bal_user b = user) (balances s) of
               None \<Rightarrow> Inl ImageRowNotFound | Some b \<Rightarrow> Inr (bal_available b, s))
          else let covered = (\<lambda>b. bal_user b = user \<and> bal_reserved b \<ge> amount) in
            if count_where covered (balances s) = 0 then Inl ReservedInvariant
            else
              let s1 = update_balances covered (\<lambda>b. b\<lparr>bal_reserved := bal_reserved b - amount\<rparr>) s;
                  s2 = update_image_jobs (\<lambda>x. ij_id x = ij_id j \<and> \<not> ij_settled x)
                    (\<lambda>x. x\<lparr>ij_settled := True, ij_reserved := 0\<rparr>) s1
              in and_then (record_image_credits GenerationSettle ''settle'' 0 image_settle_reason j s2)
                (\<lambda>(b, s3). Inr (bal_available b, s3)))"

definition release_queued_generation_credits :: "image_job \<Rightarrow> string \<Rightarrow> image_db \<Rightarrow> image_error + image_db" where
  "release_queued_generation_credits j reason s =
     (if ij_released j \<or> ij_settled j \<or> ij_reserved j \<le> 0 then Inr s
      else let amount = ij_reserved j;
               covered = (\<lambda>b. bal_user b = ij_user j \<and> bal_reserved b \<ge> amount)
        in if count_where covered (balances s) = 0 then Inl ReleaseInvariant
        else
          let s1 = update_balances covered
                (\<lambda>b. b\<lparr>bal_available := bal_available b + amount, bal_reserved := bal_reserved b - amount\<rparr>) s;
              s2 = update_image_jobs (\<lambda>x. ij_id x = ij_id j \<and> \<not> ij_released x \<and> \<not> ij_settled x)
                (\<lambda>x. x\<lparr>ij_released := True, ij_reserved := 0\<rparr>) s1
          in and_then (record_image_credits GenerationRelease ''release'' amount reason j s2) (\<lambda>(_, s3). Inr s3))"

text \<open>A charge without a reservation.\<close>

definition deduct_generation_credits :: "uid \<Rightarrow> int \<Rightarrow> image_db \<Rightarrow> image_error + int \<times> image_db" where
  "deduct_generation_credits user amount s =
     (let affordable = (\<lambda>b. bal_user b = user \<and> bal_available b \<ge> amount);
          remaining = (\<lambda>s. case first_where (\<lambda>b. bal_user b = user) (balances s) of
            None \<Rightarrow> Inl ImageRowNotFound | Some b \<Rightarrow> Inr (bal_available b, s))
      in if amount \<le> 0 then remaining s
         else if count_where affordable (balances s) = 0 then Inl ImageCreditsInsufficient
         else remaining (update_balances affordable (\<lambda>b. b\<lparr>bal_available := bal_available b - amount\<rparr>) s))"

section \<open>Execution leases\<close>

record lease_meta =
  lm_job :: "uid option"
  lm_record :: "uid option"
  lm_user :: uid
  lm_provider :: uid
  lm_channel :: uid
  lm_entry_point :: string

text \<open>The limit of the settings, none when they cannot be read; the limit of a provider's row.\<close>

definition current_generation_concurrency_limit :: "int option \<Rightarrow> int" where
  "current_generation_concurrency_limit settings =
     (case settings of Some n \<Rightarrow> if n > 0 then n else 4 | None \<Rightarrow> 4)"

definition provider_execution_limit :: "(uid \<Rightarrow> int option) \<Rightarrow> uid \<Rightarrow> int \<Rightarrow> int" where
  "provider_execution_limit providers provider global =
     (if provider = 0 then global
      else case providers provider of
        None \<Rightarrow> global
      | Some limit \<Rightarrow> if limit \<le> 0 then global else if limit < global then limit else global)"

definition new_execution_lease :: "string \<Rightarrow> lease_meta \<Rightarrow> string \<Rightarrow> time \<Rightarrow> uid \<Rightarrow> execution_lease" where
  "new_execution_lease owner m token now k =
     \<lparr>el_id = k, el_token = token, el_owner = owner, el_job = lm_job m, el_record = lm_record m,
      el_user = lm_user m, el_provider = lm_provider m, el_channel = lm_channel m,
      el_entry_point = lm_entry_point m, el_expires_at = now + image_lease_ttl\<rparr>"

definition try_acquire_image_execution_lease ::
  "int option \<Rightarrow> (uid \<Rightarrow> int option) \<Rightarrow> string \<Rightarrow> lease_meta \<Rightarrow> string \<Rightarrow> time \<Rightarrow> image_db \<Rightarrow> bool \<times> image_db" where
  "try_acquire_image_execution_lease settings providers owner m token now s =
     (let global = current_generation_concurrency_limit settings;
          provider_limit = provider_execution_limit providers (lm_provider m) global;
          live = filter (\<lambda>l. \<not> el_expires_at l \<le> now) (img_leases s)
      in if global \<le> int (count_where (\<lambda>l. el_expires_at l > now) live) then (False, s)
         else if lm_provider m \<noteq> 0 \<and>
             provider_limit \<le> int (count_where (\<lambda>l. el_provider l = lm_provider m \<and> el_expires_at l > now) live)
         then (False, s)
         else if list_ex (\<lambda>l. el_token l = token) live then (False, s)
         else (True, s\<lparr>img_leases := live @ [new_execution_lease owner m token now (next_key el_id live)]\<rparr>))"

definition renew_image_execution_lease :: "string \<Rightarrow> time \<Rightarrow> image_db \<Rightarrow> image_db" where
  "renew_image_execution_lease token now s =
     (if token = '''' then s
      else s\<lparr>img_leases := update_where (\<lambda>l. el_token l = token)
        (\<lambda>l. l\<lparr>el_expires_at := now + image_lease_ttl\<rparr>) (img_leases s)\<rparr>)"

definition release_image_execution_lease :: "string \<Rightarrow> image_db \<Rightarrow> image_db" where
  "release_image_execution_lease token s =
     (if token = '''' then s else s\<lparr>img_leases := filter (\<lambda>l. el_token l \<noteq> token) (img_leases s)\<rparr>)"

definition renew_generation_queue_lease_once :: "uid \<Rightarrow> string \<Rightarrow> time \<Rightarrow> image_db \<Rightarrow> bool \<times> image_db" where
  "renew_generation_queue_lease_once k token now s =
     (if k = 0 \<or> blank token then (False, s)
      else let mine = (\<lambda>j. ij_id j = k \<and> ij_lease_token j = token \<and> image_working j)
        in (count_where mine (img_jobs s) = 1,
            update_image_jobs mine (\<lambda>j. j\<lparr>ij_lease_expires_at := Some (now + image_lease_ttl)\<rparr>) s))"

section \<open>Claiming\<close>

text \<open>Among the first candidates of one priority, the first of a user with the fewest running images.\<close>

fun fairest :: "(uid \<Rightarrow> nat) \<Rightarrow> image_job \<Rightarrow> image_job list \<Rightarrow> image_job" where
  "fairest active selected [] = selected"
| "fairest active selected (c # cs) =
     (if ij_priority c \<noteq> ij_priority selected then selected
      else fairest active (if active (ij_user c) < active (ij_user selected) then c else selected) cs)"

definition select_fair_generation_candidate :: "(uid \<Rightarrow> nat) \<Rightarrow> image_job list \<Rightarrow> image_job option" where
  "select_fair_generation_candidate active candidates =
     (case candidates of [] \<Rightarrow> None | c # cs \<Rightarrow> Some (fairest active c cs))"

definition claimable_image :: "time \<Rightarrow> image_job \<Rightarrow> bool" where
  "claimable_image now j \<longleftrightarrow>
     image_waiting j \<and> ij_cancel_requested_at j = None \<and> ij_deadline_at j > now \<and>
     (case ij_next_attempt_at j of None \<Rightarrow> True | Some t \<Rightarrow> t \<le> now)"

text \<open>\<^verbatim>\<open>ORDER BY priority DESC, queued_at ASC, id ASC\<close>.\<close>

definition dispatch_key :: "image_job \<Rightarrow> int \<times> time \<times> uid" where
  "dispatch_key j = (- ij_priority j, ij_queued_at j, ij_id j)"

definition claim_candidates :: "image_config \<Rightarrow> time \<Rightarrow> image_db \<Rightarrow> image_job list" where
  "claim_candidates cfg now s =
     take (nat (generation_queue_capacity cfg)) (sort_key dispatch_key (filter (claimable_image now) (img_jobs s)))"

definition working_images :: "image_db \<Rightarrow> uid \<Rightarrow> nat" where
  "working_images s user = count_where (\<lambda>j. ij_user j = user \<and> image_working j) (img_jobs s)"

definition claim_generation_queue_job ::
  "image_config \<Rightarrow> string \<Rightarrow> string \<Rightarrow> time \<Rightarrow> image_db \<Rightarrow> (image_job \<times> image_db) option" where
  "claim_generation_queue_job cfg owner token now s =
     (case select_fair_generation_candidate (working_images s) (claim_candidates cfg now s) of
        None \<Rightarrow> None
      | Some j \<Rightarrow>
          let mine = (\<lambda>x. ij_id x = ij_id j \<and> image_waiting x); lease_until = Some (now + image_lease_ttl) in
          if count_where mine (img_jobs s) \<noteq> 1 then None
          else Some (j\<lparr>ij_lease_token := token, ij_lease_owner := owner, ij_lease_expires_at := lease_until\<rparr>,
            update_image_jobs mine (\<lambda>x. x\<lparr>ij_status := ImageRunning, ij_stage := ''recovering'',
              ij_lease_owner := owner, ij_lease_token := token, ij_lease_expires_at := lease_until,
              ij_claimed_at := Some now, ij_started_at := Some now\<rparr>) s))"

definition return_claimed_generation_job_to_queue :: "uid \<Rightarrow> string \<Rightarrow> image_db \<Rightarrow> image_db" where
  "return_claimed_generation_job_to_queue k token =
     update_image_jobs (\<lambda>j. ij_id j = k \<and> ij_lease_token j = token \<and> ij_status j = ImageRunning)
       (\<lambda>j. j\<lparr>ij_status := ImageQueued, ij_stage := stage_waiting, ij_lease_owner := '''',
          ij_lease_token := '''', ij_lease_expires_at := None\<rparr>)"

section \<open>Ending a job\<close>

definition fail_job_row :: "string \<Rightarrow> string \<Rightarrow> time \<Rightarrow> image_job \<Rightarrow> image_job" where
  "fail_job_row error_code message now j =
     j\<lparr>ij_status := (if error_code = ''user_cancelled'' then ImageCancelled else ImageFailed),
       ij_stage := ''failed'', ij_error_code := error_code, ij_error_message := message,
       ij_completed_at := Some now, ij_lease_owner := '''', ij_lease_token := '''', ij_lease_expires_at := None\<rparr>"

text \<open>The transaction; the spool file of a failed job is removed after it.\<close>

definition fail_claimed_generation_job ::
  "uid \<Rightarrow> string \<Rightarrow> string \<Rightarrow> string \<Rightarrow> time \<Rightarrow> image_db \<Rightarrow> image_error + image_db" where
  "fail_claimed_generation_job k token error_code message now s =
     (case first_where (\<lambda>j. ij_id j = k) (img_jobs s) of
        None \<Rightarrow> Inl ImageRowNotFound
      | Some j \<Rightarrow>
          if \<not> image_active j then Inl QueueLeaseLost
          else if token \<noteq> '''' \<and> ij_lease_token j \<noteq> token then Inl QueueLeaseLost
          else and_then (release_queued_generation_credits j error_code s) (\<lambda>s1.
            let s2 = update_image_jobs (\<lambda>x. ij_id x = ij_id j) (fail_job_row error_code message now) s1
            in Inr (update_image_records (\<lambda>r. grc_id r = ij_record j \<and> record_open r)
              (\<lambda>r. r\<lparr>grc_status := record_failed, grc_stage := ''failed'', grc_error_code := error_code,
                 grc_error_message := message, grc_credits_deducted := False\<rparr>) s2)))"

text \<open>A loop over jobs read before it ends with the first error, which keeps what was done.\<close>

fun each_job ::
  "(image_job \<Rightarrow> image_db \<Rightarrow> image_error option \<times> image_db) \<Rightarrow> image_job list \<Rightarrow> image_db \<Rightarrow>
     image_error option \<times> image_db" where
  "each_job f [] s = (None, s)"
| "each_job f (j # js) s = (case f j s of (None, s1) \<Rightarrow> each_job f js s1 | (Some e, s1) \<Rightarrow> (Some e, s1))"

definition fail_or_skip ::
  "uid \<Rightarrow> string \<Rightarrow> string \<Rightarrow> time \<Rightarrow> image_db \<Rightarrow> image_error option \<times> image_db" where
  "fail_or_skip k error_code message now s =
     (case fail_claimed_generation_job k '''' error_code message now s of
        Inr s1 \<Rightarrow> (None, s1)
      | Inl e \<Rightarrow> (if e = QueueLeaseLost then None else Some e, s))"

definition expire_queued_generation_jobs :: "time \<Rightarrow> image_db \<Rightarrow> image_error option \<times> image_db" where
  "expire_queued_generation_jobs now s =
     each_job (\<lambda>j. fail_or_skip (ij_id j) ''queue_timeout'' queue_timeout_message now)
       (filter (\<lambda>j. image_waiting j \<and> ij_deadline_at j \<le> now) (img_jobs s)) s"

section \<open>Recovery at the start\<close>

definition succeeded_row :: "time \<Rightarrow> image_job \<Rightarrow> image_job" where
  "succeeded_row now j = j\<lparr>ij_status := ImageSucceeded, ij_stage := ''succeeded'', ij_completed_at := Some now,
     ij_spool := '''', ij_lease_owner := '''', ij_lease_token := '''', ij_lease_expires_at := None,
     ij_settled := True, ij_reserved := 0\<rparr>"

definition requeue_job :: "image_job \<Rightarrow> image_record \<Rightarrow> image_db \<Rightarrow> image_db" where
  "requeue_job j r s =
     update_image_records (\<lambda>x. grc_id x = grc_id r)
       (\<lambda>x. x\<lparr>grc_status := record_queued, grc_stage := ''recovering'', grc_error_code := '''',
          grc_error_message := ''''\<rparr>)
       (update_image_jobs (\<lambda>x. ij_id x = ij_id j)
         (\<lambda>x. x\<lparr>ij_status := ImageQueued, ij_stage := ''recovering'', ij_lease_owner := '''',
            ij_lease_token := '''', ij_lease_expires_at := None\<rparr>) s)"

definition recover_generation_job :: "time \<Rightarrow> image_job \<Rightarrow> image_db \<Rightarrow> image_error option \<times> image_db" where
  "recover_generation_job now j s =
     (if (case ij_lease_expires_at j of None \<Rightarrow> False | Some t \<Rightarrow> t > now) then (None, s)
      else case first_where (\<lambda>r. grc_id r = ij_record j) (img_records s) of
        None \<Rightarrow> (Some ImageRowNotFound, s)
      | Some r \<Rightarrow>
          if grc_status r = record_succeeded then
            (None, update_image_jobs (\<lambda>x. ij_id x = ij_id j \<and> image_working x) (succeeded_row now) s)
          else if \<not> is_active_generation_record_status (grc_status r) then
            fail_or_skip (ij_id j) (fallback_string (grc_error_code r) ''generation_failed'')
              (fallback_string (grc_error_message r) image_failed_message) now s
          else if grc_provider_started r \<and> \<not> grc_idempotency_supported r \<and> blank (ij_spool j) then
            (case fail_claimed_generation_job (ij_id j) '''' ''provider_result_unknown'' result_unknown_message now s of
               Inr s1 \<Rightarrow> (None, s1)
             | Inl e \<Rightarrow> (Some e, s))
          else (None, requeue_job j r s))"

definition recover_generation_queue :: "time \<Rightarrow> image_db \<Rightarrow> image_error option \<times> image_db" where
  "recover_generation_queue now s =
     (case each_job (recover_generation_job now) (filter image_working (img_jobs s)) s of
        (None, s1) \<Rightarrow> (None, s1\<lparr>img_leases := filter (\<lambda>l. \<not> el_expires_at l \<le> now) (img_leases s1)\<rparr>)
      | (Some e, s1) \<Rightarrow> (Some e, s1))"

section \<open>Execution\<close>

text \<open>A worker keeps a record in memory; saving it writes every column of its row.\<close>

definition save_record :: "image_record \<Rightarrow> image_db \<Rightarrow> image_db" where
  "save_record r = update_image_records (\<lambda>x. grc_id x = grc_id r) (\<lambda>_. r)"

definition begun_record :: "image_record \<Rightarrow> image_record" where
  "begun_record r = r\<lparr>grc_status := record_running, grc_stage := ''requesting_provider'', grc_error_code := '''',
     grc_error_message := '''', grc_provider_http_status := 0, grc_provider_error_code := '''',
     grc_provider_error_message := '''', grc_provider_failure_stage := '''', grc_provider_attempts := 0\<rparr>"

definition begin_generation :: "image_record \<Rightarrow> image_db \<Rightarrow> image_record \<times> image_db" where
  "begin_generation r s = (begun_record r, save_record (begun_record r) s)"

text \<open>The provider's answer: the number of its request, the attempts it took, the type and file of the image.\<close>

record provider_answer =
  pan_request_id :: string
  pan_attempts :: int
  pan_mime_type :: string
  pan_spool :: string

definition note_spool :: "image_record \<Rightarrow> provider_answer \<Rightarrow> image_db \<Rightarrow> image_record \<times> image_db" where
  "note_spool r a s =
     (if blank (pan_spool a) then (r, s)
      else (r\<lparr>grc_mime_type := pan_mime_type a\<rparr>,
        update_image_records (\<lambda>x. grc_id x = grc_id r) (\<lambda>x. x\<lparr>grc_mime_type := pan_mime_type a\<rparr>)
          (update_image_jobs (\<lambda>j. ij_record j = grc_id r)
            (\<lambda>j. j\<lparr>ij_spool := pan_spool a, ij_stage := ''persisting''\<rparr>) s)))"

definition ensure_generation_record_still_active :: "image_record \<Rightarrow> image_db \<Rightarrow> image_error + unit" where
  "ensure_generation_record_still_active r s =
     (if grc_id r = 0 then Inr ()
      else case first_where (\<lambda>x. grc_id x = grc_id r) (img_records s) of
        None \<Rightarrow> Inl ImageRowNotFound
      | Some latest \<Rightarrow>
          if is_active_generation_record_status (grc_status latest) then Inr () else Inl RecordTerminal)"

definition persisting_record :: "image_record \<Rightarrow> provider_answer \<Rightarrow> image_record" where
  "persisting_record r a = r\<lparr>grc_status := record_running, grc_stage := ''persisting_result'',
     grc_provider_request_id := pan_request_id a, grc_provider_http_status := 0, grc_provider_error_code := '''',
     grc_provider_error_message := '''', grc_provider_failure_stage := '''',
     grc_provider_attempts := pan_attempts a\<rparr>"

text \<open>From the answer of the provider to the record that is about to be persisted.\<close>

definition receive_generation ::
  "image_record \<Rightarrow> provider_answer \<Rightarrow> image_db \<Rightarrow> (image_error + image_record) \<times> image_db" where
  "receive_generation r a s =
     (case note_spool r a s of (r1, s1) \<Rightarrow>
      case ensure_generation_record_still_active r1 s1 of
        Inl e \<Rightarrow> (Inl e, s1)
      | Inr _ \<Rightarrow> (Inr (persisting_record r1 a), save_record (persisting_record r1 a) s1))"

definition fail_generation_record :: "image_record \<Rightarrow> string \<Rightarrow> string \<Rightarrow> image_db \<Rightarrow> image_db" where
  "fail_generation_record r error_code message s =
     (if ensure_generation_record_still_active r s = Inl RecordTerminal then s
      else save_record (r\<lparr>grc_status := record_failed, grc_stage := ''failed'', grc_error_code := error_code,
        grc_error_message := message, grc_asset_key := '''', grc_preview_url := '''', grc_download_url := '''',
        grc_mime_type := '''', grc_credits_deducted := False\<rparr>) s)"

datatype billing_mode = BillDirect | BillExternal | BillQueue

text \<open>The object that was stored: its key, type, scope and public address, empty when it has none.\<close>

record stored_image =
  sti_asset_key :: string
  sti_mime_type :: string
  sti_scope :: string
  sti_public_url :: string

definition image_url :: "stored_image \<Rightarrow> uid \<Rightarrow> string \<Rightarrow> string" where
  "image_url im work_id action =
     (if sti_public_url im \<noteq> '''' then sti_public_url im else ''/api/works/'' @ show_nat work_id @ ''/'' @ action)"

definition create_image_work :: "uid \<Rightarrow> uid \<Rightarrow> stored_image \<Rightarrow> image_db \<Rightarrow> uid \<times> image_db" where
  "create_image_work user record_id im s =
     (let k = next_key wrk_id (img_works s)
      in (k, s\<lparr>img_works := img_works s @ [\<lparr>wrk_id = k, wrk_user = user, wrk_record = record_id,
            wrk_asset_key = sti_asset_key im, wrk_storage_scope = sti_scope im, wrk_deleted_at = None\<rparr>]\<rparr>))"

definition charge_image ::
  "uid \<Rightarrow> image_record \<Rightarrow> image_db \<Rightarrow> image_error + int \<times> image_db" where
  "charge_image user r s =
     and_then (deduct_generation_credits user (generation_record_credit_cost r) s) (\<lambda>(remaining, s1).
     Inr (remaining, insert_transaction
       \<lparr>txn_id = 0, txn_user = user, txn_type = GenerationCharge, txn_amount = - generation_record_credit_cost r,
        txn_balance_after = remaining, txn_reserved_after = 0, txn_idempotency_key = '''',
        txn_reason = image_charge_reason, txn_related_type = ''generation'', txn_related_id = grc_id r\<rparr> s1))"

definition bill_image ::
  "billing_mode \<Rightarrow> uid \<Rightarrow> image_record \<Rightarrow> image_db \<Rightarrow> image_error + int \<times> image_db" where
  "bill_image mode user r s =
     (case mode of
        BillDirect \<Rightarrow> charge_image user r s
      | BillQueue \<Rightarrow> settle_queued_generation_credits user (grc_id r) (generation_record_credit_cost r) s
      | BillExternal \<Rightarrow> Inr (0, s))"

definition succeeded_record :: "billing_mode \<Rightarrow> image_record \<Rightarrow> uid \<Rightarrow> stored_image \<Rightarrow> image_record" where
  "succeeded_record mode r work_id im =
     r\<lparr>grc_work := Some work_id, grc_status := record_succeeded, grc_stage := ''succeeded'',
       grc_asset_key := sti_asset_key im, grc_preview_url := image_url im work_id ''file'',
       grc_download_url := image_url im work_id ''download'', grc_mime_type := sti_mime_type im,
       grc_credits_cost := generation_record_credit_cost r,
       grc_credits_deducted := (mode = BillDirect \<or> mode = BillQueue), grc_storage_scope := sti_scope im\<rparr>"

definition mark_content ::
  "billing_mode \<Rightarrow> uid \<Rightarrow> string \<Rightarrow> image_record \<Rightarrow> image_db \<Rightarrow> image_error + image_db" where
  "mark_content mode user trace r s =
     (if mode \<noteq> BillExternal then Inr s
      else if list_ex (\<lambda>m. cmk_trace m = trace) (img_marks s) then Inl (ImageUnique ''trace_id'')
      else Inr (s\<lparr>img_marks := img_marks s @ [\<lparr>cmk_id = next_key cmk_id (img_marks s), cmk_record = grc_id r,
        cmk_user = user, cmk_asset_key = grc_asset_key r, cmk_label = ai_label, cmk_trace = trace,
        cmk_provider_request_id = grc_provider_request_id r\<rparr>]\<rparr>))"

text \<open>The transaction that turns a stored image into a work.\<close>

definition persist_generation ::
  "billing_mode \<Rightarrow> uid \<Rightarrow> string \<Rightarrow> image_record \<Rightarrow> stored_image \<Rightarrow> image_db \<Rightarrow>
     image_error + (image_record \<times> int) \<times> image_db" where
  "persist_generation mode user trace r im s =
     (case create_image_work user (grc_id r) im s of (work_id, s1) \<Rightarrow>
      and_then (bill_image mode user r s1) (\<lambda>(available, s2).
      let r1 = succeeded_record mode r work_id im in
      and_then (mark_content mode user trace r1 (save_record r1 s2)) (\<lambda>s3. Inr ((r1, available), s3))))"

text \<open>The file in the spool is dropped once its image is a work.\<close>

definition drop_spool :: "image_record \<Rightarrow> image_db \<Rightarrow> image_db" where
  "drop_spool r = update_image_jobs (\<lambda>j. ij_record j = grc_id r) (\<lambda>j. j\<lparr>ij_spool := ''''\<rparr>)"

text \<open>An image found complete in the spool when its job is claimed again.\<close>

definition resume_queued_generation_spool ::
  "uid \<Rightarrow> image_record \<Rightarrow> uid \<Rightarrow> string \<Rightarrow> stored_image \<Rightarrow> time \<Rightarrow> image_db \<Rightarrow> image_error + image_db" where
  "resume_queued_generation_spool user r k token im now s =
     (if first_where (\<lambda>j. ij_id j = k \<and> ij_lease_token j = token) (img_jobs s) = None then Inl QueueLeaseLost
      else case create_image_work user (grc_id r) im s of (work_id, s1) \<Rightarrow>
        and_then (settle_queued_generation_credits user (grc_id r) (generation_record_credit_cost r) s1) (\<lambda>(_, s2).
        let s3 = update_image_records (\<lambda>x. grc_id x = grc_id r \<and> record_open x)
              (\<lambda>x. x\<lparr>grc_work := Some work_id, grc_status := record_succeeded, grc_stage := ''succeeded'',
                 grc_asset_key := sti_asset_key im, grc_preview_url := image_url im work_id ''file'',
                 grc_download_url := image_url im work_id ''download'', grc_mime_type := sti_mime_type im,
                 grc_credits_deducted := True\<rparr>) s2
        in Inr (update_image_jobs (\<lambda>j. ij_id j = k \<and> ij_lease_token j = token) (succeeded_row now) s3)))"

section \<open>After the execution\<close>

text \<open>What an execution leaves: the record in memory, the failure of the provider or another error.\<close>

record run_outcome =
  rou_record :: image_record
  rou_failure :: "provider_error option"
  rou_error :: "image_error option"
  rou_message :: string

definition note_provider_failure :: "image_record \<Rightarrow> image_db \<Rightarrow> image_db" where
  "note_provider_failure r = update_image_records (\<lambda>x. grc_id x = grc_id r)
     (\<lambda>x. x\<lparr>grc_latency_ms := grc_latency_ms r, grc_provider_request_id := grc_provider_request_id r,
        grc_provider_http_status := grc_provider_http_status r,
        grc_provider_error_code := grc_provider_error_code r,
        grc_provider_error_message := grc_provider_error_message r,
        grc_provider_failure_stage := grc_provider_failure_stage r,
        grc_provider_attempts := grc_provider_attempts r, grc_provider_started := grc_provider_started r,
        grc_idempotency_supported := grc_idempotency_supported r\<rparr>)"

text \<open>The pause before the next attempt; \<open>jittered\<close> multiplies by a random factor.\<close>

definition retry_pause :: "(duration \<Rightarrow> duration) \<Rightarrow> provider_error \<Rightarrow> nat \<Rightarrow> duration" where
  "retry_pause jittered e attempts =
     (if pe_retry_after e > 0 then pe_retry_after e
      else jittered (if attempts \<ge> 2 then 60 * second else 15 * second))"

definition leased_image :: "uid \<Rightarrow> string \<Rightarrow> image_job \<Rightarrow> bool" where
  "leased_image k token j \<longleftrightarrow> ij_id j = k \<and> ij_lease_token j = token"

definition reopen_record :: "string \<Rightarrow> image_record \<Rightarrow> image_db \<Rightarrow> image_db" where
  "reopen_record stage r = update_image_records (\<lambda>x. grc_id x = grc_id r \<and> record_open x)
     (\<lambda>x. x\<lparr>grc_status := record_queued, grc_stage := stage, grc_error_code := '''', grc_error_message := ''''\<rparr>)"

definition schedule_retry ::
  "uid \<Rightarrow> string \<Rightarrow> image_record \<Rightarrow> provider_error \<Rightarrow> nat \<Rightarrow> time \<Rightarrow> image_db \<Rightarrow> image_db" where
  "schedule_retry k token r e attempts next =
     update_image_jobs (leased_image k token) (\<lambda>j. j\<lparr>ij_status := ImageRetryWait, ij_stage := ''retry_wait'',
       ij_attempts := int attempts, ij_next_attempt_at := Some next, ij_lease_owner := '''', ij_lease_token := '''',
       ij_lease_expires_at := None, ij_provider_started := grc_provider_started r,
       ij_idempotency_supported := grc_idempotency_supported r, ij_error_code := pe_code e,
       ij_error_message := pe_message e\<rparr>)"

definition schedule_persist :: "uid \<Rightarrow> string \<Rightarrow> string \<Rightarrow> time \<Rightarrow> image_db \<Rightarrow> image_db" where
  "schedule_persist k token message next =
     update_image_jobs (leased_image k token) (\<lambda>j. j\<lparr>ij_status := ImageRetryWait, ij_stage := ''persisting'',
       ij_next_attempt_at := Some next, ij_lease_owner := '''', ij_lease_token := '''', ij_lease_expires_at := None,
       ij_error_code := ''generation_persist_failed'', ij_error_message := message\<rparr>)"

definition finish_succeeded_job :: "uid \<Rightarrow> string \<Rightarrow> nat \<Rightarrow> time \<Rightarrow> image_db \<Rightarrow> image_db" where
  "finish_succeeded_job k token attempts now =
     update_image_jobs (leased_image k token) (\<lambda>j. j\<lparr>ij_status := ImageSucceeded, ij_stage := ''succeeded'',
       ij_attempts := int attempts, ij_completed_at := Some now, ij_lease_owner := '''', ij_lease_token := '''',
       ij_lease_expires_at := None, ij_settled := True, ij_reserved := 0\<rparr>)"

definition fail_quietly ::
  "uid \<Rightarrow> string \<Rightarrow> string \<Rightarrow> string \<Rightarrow> time \<Rightarrow> image_db \<Rightarrow> image_db" where
  "fail_quietly k token error_code message now s =
     (case fail_claimed_generation_job k token error_code message now s of Inl _ \<Rightarrow> s | Inr s1 \<Rightarrow> s1)"

definition run_failure :: "run_outcome \<Rightarrow> string \<times> string" where
  "run_failure out =
     (let (code, message) = (case rou_failure out of
        Some e \<Rightarrow> (fst (public_provider_failure (Some e)), fst (snd (public_provider_failure (Some e))))
      | None \<Rightarrow> (trim_space (grc_error_code (rou_record out)), trim_space (grc_error_message (rou_record out))))
      in (if code = '''' then ''generation_failed'' else code, if message = '''' then image_failed_message else message))"

text \<open>The end of a run that is neither tried again nor waiting for its image to be persisted.\<close>

definition end_run :: "uid \<Rightarrow> string \<Rightarrow> run_outcome \<Rightarrow> nat \<Rightarrow> time \<Rightarrow> image_db \<Rightarrow> image_db" where
  "end_run k token out attempts now s =
     (if rou_failure out = None \<and> rou_error out = None \<and> grc_status (rou_record out) = record_succeeded
      then finish_succeeded_job k token attempts now s
      else fail_quietly k token (fst (run_failure out)) (snd (run_failure out)) now s)"

definition persist_later ::
  "uid \<Rightarrow> string \<Rightarrow> run_outcome \<Rightarrow> nat \<Rightarrow> (string \<Rightarrow> bool) \<Rightarrow> time \<Rightarrow> image_db \<Rightarrow> image_db" where
  "persist_later k token out attempts spool_expired now s =
     (case rou_error out of
        None \<Rightarrow> end_run k token out attempts now s
      | Some RecordTerminal \<Rightarrow> s
      | Some _ \<Rightarrow>
          (case first_where (\<lambda>j. ij_id j = k) (img_jobs s) of
             None \<Rightarrow> end_run k token out attempts now s
           | Some j \<Rightarrow>
               if blank (ij_spool j) then end_run k token out attempts now s
               else if spool_expired (ij_spool j)
               then fail_quietly k token ''generation_persist_timeout'' persist_timeout_message now s
               else let s1 = schedule_persist k token (rou_message out) (now + 15 * second) s in
                 if count_where (leased_image k token) (img_jobs s) = 1
                 then reopen_record ''persisting'' (rou_record out) s1
                 else end_run k token out attempts now s1))"

definition conclude_queued_run ::
  "uid \<Rightarrow> string \<Rightarrow> run_outcome \<Rightarrow> nat \<Rightarrow> (duration \<Rightarrow> duration) \<Rightarrow> (string \<Rightarrow> bool) \<Rightarrow> time \<Rightarrow> image_db \<Rightarrow> image_db" where
  "conclude_queued_run k token out attempts jittered spool_expired now s =
     (let r = rou_record out in
      case rou_failure out of
        None \<Rightarrow> persist_later k token out attempts spool_expired now s
      | Some e \<Rightarrow>
          let s1 = note_provider_failure r s in
          if queued_provider_failure_retryable e \<and> attempts < image_max_attempts then
            let s2 = schedule_retry k token r e attempts (now + retry_pause jittered e attempts) s1 in
            if count_where (leased_image k token) (img_jobs s1) = 1 then reopen_record ''retry_wait'' r s2
            else persist_later k token out attempts spool_expired now s2
          else persist_later k token out attempts spool_expired now s1)"

text \<open>The other way through a run: a job with a spooled image is only persisted.\<close>

definition run_spooled_job ::
  "uid \<Rightarrow> image_record \<Rightarrow> image_job \<Rightarrow> string \<Rightarrow> string + stored_image \<Rightarrow> (image_error \<Rightarrow> string) \<Rightarrow> (string \<Rightarrow> bool) \<Rightarrow> time \<Rightarrow>
     image_db \<Rightarrow> image_db" where
  "run_spooled_job user r j token stored err_text spool_expired now s =
     (let attempt = (case stored of
            Inl text \<Rightarrow> Inl text
          | Inr im \<Rightarrow> (case resume_queued_generation_spool user r (ij_id j) token im now s of
              Inl e \<Rightarrow> Inl (err_text e) | Inr s1 \<Rightarrow> Inr s1))
      in case attempt of
        Inr s1 \<Rightarrow> s1
      | Inl text \<Rightarrow>
          if spool_expired (ij_spool j)
          then fail_quietly (ij_id j) token ''generation_persist_timeout'' persist_timeout_message now s
          else schedule_persist (ij_id j) token text (now + 15 * second) s)"

section \<open>Requests of the user\<close>

definition generation_queue_projection :: "uid \<Rightarrow> image_db \<Rightarrow> image_job option" where
  "generation_queue_projection record_id s = first_where (\<lambda>j. ij_record j = record_id) (img_jobs s)"

definition queue_position :: "image_job \<Rightarrow> image_db \<Rightarrow> nat" where
  "queue_position j s =
     (if \<not> image_waiting j then 0
      else count_where (\<lambda>x. image_waiting x \<and> (ij_priority x > ij_priority j \<or>
        ij_priority x = ij_priority j \<and> (ij_queued_at x < ij_queued_at j \<or>
          ij_queued_at x = ij_queued_at j \<and> ij_id x \<le> ij_id j))) (img_jobs s))"

definition queue_wait_ms :: "image_job \<Rightarrow> time \<Rightarrow> int" where
  "queue_wait_ms j now =
     (if ij_queued_at j = 0 then 0
      else let finish = (case ij_started_at j of None \<Rightarrow> now | Some t \<Rightarrow> t)
        in max 0 ((finish - ij_queued_at j) div 1000000))"

definition image_generation_cancel_latency_ms :: "time \<Rightarrow> time \<Rightarrow> int" where
  "image_generation_cancel_latency_ms created_at now =
     (if created_at = 0 then 0 else max 0 ((now - created_at) div 1000000))"

text \<open>
  Canceling by the user. \<open>video\<close> tells the records of videos, which have a table of their own.
  The reply is a code or the record with the available credits.
\<close>

definition cancel_image_job :: "image_job \<Rightarrow> time \<Rightarrow> image_db \<Rightarrow> image_error + image_db" where
  "cancel_image_job j now s =
     (let s1 = update_image_jobs (\<lambda>x. ij_id x = ij_id j) (\<lambda>x. x\<lparr>ij_cancel_requested_at := Some now\<rparr>) s in
      case first_where (\<lambda>x. ij_id x = ij_id j) (img_jobs s1) of
        None \<Rightarrow> Inl ImageRowNotFound
      | Some x \<Rightarrow>
          (case fail_claimed_generation_job (ij_id x) (ij_lease_token x) ''user_cancelled'' cancelled_message now s1 of
             Inr s2 \<Rightarrow> Inr s2
           | Inl e \<Rightarrow> if e = QueueLeaseLost then Inr s1 else Inl e))"

definition cancel_open_record :: "(uid \<Rightarrow> bool) \<Rightarrow> uid \<Rightarrow> image_record \<Rightarrow> time \<Rightarrow> image_db \<Rightarrow> image_db" where
  "cancel_open_record video user r now =
     update_image_records (\<lambda>x. grc_id x = grc_id r \<and> grc_user x = user \<and> record_open x \<and> \<not> video (grc_id x))
       (\<lambda>x. x\<lparr>grc_status := record_failed, grc_stage := ''failed'', grc_error_code := ''user_cancelled'',
          grc_error_message := cancelled_message, grc_asset_key := '''', grc_preview_url := '''',
          grc_download_url := '''', grc_mime_type := '''', grc_credits_deducted := False,
          grc_latency_ms := image_generation_cancel_latency_ms (grc_created_at r) now\<rparr>)"

definition record_row :: "uid \<Rightarrow> image_db \<Rightarrow> image_record option" where
  "record_row k s = first_where (\<lambda>r. grc_id r = k) (img_records s)"

definition handle_cancel_image_generation ::
  "(uid \<Rightarrow> bool) \<Rightarrow> uid \<Rightarrow> uid \<Rightarrow> time \<Rightarrow> image_db \<Rightarrow> (string + image_record \<times> int) \<times> image_db" where
  "handle_cancel_image_generation video user k now s =
     (case first_where (\<lambda>r. grc_id r = k \<and> grc_user r = user \<and> \<not> video (grc_id r)) (img_records s) of
        None \<Rightarrow> (Inl ''generation_not_found'', s)
      | Some r \<Rightarrow>
          let stopped = (case generation_queue_projection k s of
                Some j \<Rightarrow>
                  if is_active_generation_record_status (grc_status r) then cancel_image_job j now s else Inr s
              | None \<Rightarrow> Inr s)
          in case stopped of
            Inl _ \<Rightarrow> (Inl ''generation_cancel_failed'',
              update_image_jobs (\<lambda>x. ij_record x = k \<and> is_active_generation_record_status (grc_status r))
                (\<lambda>x. x\<lparr>ij_cancel_requested_at := Some now\<rparr>) s)
          | Inr s1 \<Rightarrow>
              let r1 = (case record_row k s1 of Some x \<Rightarrow> x | None \<Rightarrow> r);
                  s2 = (if is_active_generation_record_status (grc_status r1)
                        then cancel_open_record video user r1 now s1 else s1)
              in (case (record_row k s2, first_where (\<lambda>b. bal_user b = user) (balances s2)) of
                    (None, _) \<Rightarrow> (Inl ''generation_load_failed'', s2)
                  | (_, None) \<Rightarrow> (Inl ''balance_load_failed'', s2)
                  | (Some x, Some b) \<Rightarrow> (Inr (x, bal_available b), s2)))"

end
