(* ===== verification/ImageHolds.thy ===== *)
theory ImageHolds
  imports ImageQueue
begin

text \<open>
  The credits of the image queue: what the requests of \<^verbatim>\<open>ImageQueue\<close> do to jobs,
  records, balances and credit transactions, as three kinds of steps. A job opens a hold of one
  credit and closes it once, settled or released; the steps keep the invariant that ties the
  jobs to the balances and to their credit history.
\<close>

section \<open>Holds\<close>

definition hold_of :: "image_job \<Rightarrow> uid \<times> uid \<times> uid \<times> int \<times> bool \<times> bool" where
  "hold_of j = (ij_id j, ij_record j, ij_user j, ij_reserved j, ij_settled j, ij_released j)"

lemma hold_ofD:
  assumes "hold_of y = hold_of x"
  shows "ij_id y = ij_id x" "ij_record y = ij_record x" "ij_user y = ij_user x" "ij_reserved y = ij_reserved x"
    "ij_settled y = ij_settled x" "ij_released y = ij_released x"
  using assms by (simp_all add: hold_of_def)

text \<open>
  The rows a job can have: it holds one credit until it is settled or released, and it is
  released only when it has failed; once ended it holds nothing; only a job at work is leased.
\<close>

definition job_ok :: "image_job \<Rightarrow> bool" where
  "job_ok j \<longleftrightarrow> ij_reserved j = (if ij_settled j \<or> ij_released j then 0 else 1) \<and>
     \<not> (ij_settled j \<and> ij_released j) \<and>
     (ij_released j \<longrightarrow> ij_status j \<in> {ImageFailed, ImageCancelled}) \<and>
     (ij_status j = ImageSucceeded \<longrightarrow> ij_settled j) \<and>
     (\<not> image_active j \<longrightarrow> ij_settled j \<or> ij_released j) \<and>
     (ij_lease_token j \<noteq> '''' \<longrightarrow> image_working j)"

lemma job_okD:
  assumes "job_ok j"
  shows "ij_reserved j = (if ij_settled j \<or> ij_released j then 0 else 1)"
    "\<not> (ij_settled j \<and> ij_released j)" "image_active j \<Longrightarrow> \<not> ij_released j"
    "\<not> image_active j \<Longrightarrow> ij_reserved j = 0" "ij_lease_token j \<noteq> '''' \<Longrightarrow> image_working j"
  using assms by (auto simp: job_ok_def image_active_def)

lemma image_working_active: "image_working j \<Longrightarrow> image_active j"
  by (auto simp: image_working_def image_active_def)

lemma image_waiting_active: "image_waiting j \<Longrightarrow> image_active j"
  by (auto simp: image_waiting_def image_active_def)

definition record_core :: "image_record \<Rightarrow> uid \<times> uid \<times> int" where
  "record_core r = (grc_id r, grc_user r, grc_credits_cost r)"

definition settled_record :: "uid \<Rightarrow> image_db \<Rightarrow> bool" where
  "settled_record k s \<longleftrightarrow> (\<forall>j \<in> set (img_jobs s). ij_record j = k \<longrightarrow> ij_settled j)"

definition of_image :: "uid \<Rightarrow> credit_transaction \<Rightarrow> bool" where
  "of_image k t \<longleftrightarrow> txn_related_type t = ''image_generation_job'' \<and> txn_related_id t = k"

definition entry :: "credit_transaction \<Rightarrow> credit_kind \<times> uid \<times> int" where
  "entry t = (txn_type t, txn_user t, txn_amount t)"

definition shifted :: "uid \<Rightarrow> int \<Rightarrow> int \<Rightarrow> credit_balance list \<Rightarrow> credit_balance list" where
  "shifted user a r = update_where (\<lambda>b. bal_user b = user)
     (\<lambda>b. b\<lparr>bal_available := bal_available b + a, bal_reserved := bal_reserved b + r\<rparr>)"

inductive hold_step :: "image_db \<Rightarrow> image_db \<Rightarrow> bool" where
  quiet: "balances s' = balances s \<Longrightarrow> transactions s' = transactions s \<Longrightarrow>
    img_jobs s' = update_where P f (img_jobs s) \<Longrightarrow>
    (\<And>x. x \<in> set (img_jobs s) \<Longrightarrow> P x \<Longrightarrow> job_ok x \<Longrightarrow> hold_of (f x) = hold_of x \<and> job_ok (f x)) \<Longrightarrow>
    img_records s' = update_where Q g (img_records s) \<Longrightarrow>
    (\<And>x. x \<in> set (img_records s) \<Longrightarrow> Q x \<Longrightarrow> record_core (g x) = record_core x \<and>
       (grc_status (g x) = record_succeeded \<longrightarrow>
          grc_status x = record_succeeded \<or> settled_record (grc_id x) s)) \<Longrightarrow> hold_step s s'"
| open_hold: "b \<in> set (balances s) \<Longrightarrow> bal_user b = ij_user j \<Longrightarrow> 1 \<le> bal_available b \<Longrightarrow>
    balances s' = shifted (ij_user j) (- 1) 1 (balances s) \<Longrightarrow>
    transactions s' = transactions s @ [t] \<Longrightarrow> of_image (ij_id j) t \<Longrightarrow>
    entry t = (GenerationReserve, ij_user j, - 1) \<Longrightarrow>
    img_jobs s' = img_jobs s @ [j] \<Longrightarrow> ij_id j = next_key ij_id (img_jobs s) \<Longrightarrow>
    ij_record j \<notin> ij_record ` set (img_jobs s) \<Longrightarrow> job_ok j \<Longrightarrow> \<not> ij_settled j \<Longrightarrow> \<not> ij_released j \<Longrightarrow>
    img_records s' = img_records s @ [r] \<Longrightarrow> grc_id r = next_key grc_id (img_records s) \<Longrightarrow>
    grc_id r = ij_record j \<Longrightarrow> grc_user r = ij_user j \<Longrightarrow> grc_credits_cost r = 1 \<Longrightarrow>
    grc_status r \<noteq> record_succeeded \<Longrightarrow> hold_step s s'"
| close_hold: "j \<in> set (img_jobs s) \<Longrightarrow> \<not> ij_settled j \<Longrightarrow> \<not> ij_released j \<Longrightarrow>
    ij_id y = ij_id j \<Longrightarrow> ij_record y = ij_record j \<Longrightarrow> ij_user y = ij_user j \<Longrightarrow> ij_reserved y = 0 \<Longrightarrow>
    ij_settled y = (\<not> ij_released y) \<Longrightarrow> (job_ok j \<Longrightarrow> job_ok y) \<Longrightarrow>
    b \<in> set (balances s) \<Longrightarrow> bal_user b = ij_user j \<Longrightarrow> 1 \<le> bal_reserved b \<Longrightarrow>
    balances s' = shifted (ij_user j) (if ij_released y then 1 else 0) (- 1) (balances s) \<Longrightarrow>
    transactions s' = transactions s @ [t] \<Longrightarrow> of_image (ij_id j) t \<Longrightarrow>
    entry t = (if ij_released y then (GenerationRelease, ij_user j, 1) else (GenerationSettle, ij_user j, 0)) \<Longrightarrow>
    img_jobs s' = ij_tab.put y (img_jobs s) \<Longrightarrow> img_records s' = img_records s \<Longrightarrow> hold_step s s'"

section \<open>The invariant\<close>

definition held :: "uid \<Rightarrow> image_db \<Rightarrow> int" where
  "held user s = sum_where (\<lambda>j. ij_user j = user) ij_reserved (img_jobs s)"

definition available_of :: "uid \<Rightarrow> image_db \<Rightarrow> int" where
  "available_of user s = sum_where (\<lambda>b. bal_user b = user) bal_available (balances s)"

definition reserved_of :: "uid \<Rightarrow> image_db \<Rightarrow> int" where
  "reserved_of user s = sum_where (\<lambda>b. bal_user b = user) bal_reserved (balances s)"

definition history :: "image_job \<Rightarrow> (credit_kind \<times> uid \<times> int) list" where
  "history j = (GenerationReserve, ij_user j, - 1) #
     (if ij_settled j then [(GenerationSettle, ij_user j, 0)] else []) @
     (if ij_released j then [(GenerationRelease, ij_user j, 1)] else [])"

definition entries :: "uid \<Rightarrow> image_db \<Rightarrow> (credit_kind \<times> uid \<times> int) list" where
  "entries k s = map entry (filter (of_image k) (transactions s))"

definition backed :: "image_job \<Rightarrow> image_db \<Rightarrow> bool" where
  "backed j s \<longleftrightarrow> (\<exists>r \<in> set (img_records s). grc_id r = ij_record j \<and> grc_user r = ij_user j \<and>
     grc_credits_cost r = 1 \<and> (grc_status r = record_succeeded \<longrightarrow> ij_settled j))"

definition image_ok :: "image_db \<Rightarrow> bool" where
  "image_ok s \<longleftrightarrow> ij_tab.unique (img_jobs s) \<and> distinct (map ij_record (img_jobs s)) \<and>
     grc_tab.unique (img_records s) \<and> bal_tab.unique (balances s) \<and>
     (\<forall>b \<in> set (balances s). balance_ok b) \<and>
     (\<forall>j \<in> set (img_jobs s). job_ok j \<and> backed j s \<and> entries (ij_id j) s = history j) \<and>
     (\<forall>t \<in> set (transactions s). \<forall>k. of_image k t \<longrightarrow> k \<in> ij_id ` set (img_jobs s)) \<and>
     (\<forall>user. held user s \<le> reserved_of user s)"

lemma image_okD:
  assumes "image_ok s"
  shows "ij_tab.unique (img_jobs s)" "distinct (map ij_record (img_jobs s))" "grc_tab.unique (img_records s)"
    "bal_tab.unique (balances s)" "b \<in> set (balances s) \<Longrightarrow> balance_ok b"
    "j \<in> set (img_jobs s) \<Longrightarrow> job_ok j" "j \<in> set (img_jobs s) \<Longrightarrow> backed j s"
    "j \<in> set (img_jobs s) \<Longrightarrow> entries (ij_id j) s = history j"
    "t \<in> set (transactions s) \<Longrightarrow> of_image k t \<Longrightarrow> k \<in> ij_id ` set (img_jobs s)"
    "held user s \<le> reserved_of user s"
  using assms by (auto simp: image_ok_def)

lemma same_record_same_job:
  "image_ok s \<Longrightarrow> j \<in> set (img_jobs s) \<Longrightarrow> j' \<in> set (img_jobs s) \<Longrightarrow> ij_record j = ij_record j' \<Longrightarrow> j = j'"
  using image_okD(2) [of s] by (auto simp: distinct_map inj_on_def)

lemma held_nonneg: "image_ok s \<Longrightarrow> 0 \<le> held user s"
  unfolding held_def using job_okD(1) [OF image_okD(6)] by (intro sum_where_nonneg) fastforce

text \<open>A hold that is open is covered by the balance of its user.\<close>

lemma held_ge: "image_ok s \<Longrightarrow> j \<in> set (img_jobs s) \<Longrightarrow> ij_reserved j \<le> held (ij_user j) s"
  unfolding held_def using job_okD(1) [OF image_okD(6)] by (intro sum_where_ge) fastforce+

lemma sum_by_user:
  assumes "bal_tab.unique t" and "b \<in> set t" and "bal_user b = user"
  shows "sum_where (\<lambda>b. bal_user b = user) g t = g b"
proof -
  have "filter (\<lambda>x. bal_user x = user) t = [b]" using assms(1,2)
  proof (induction t)
    case (Cons a t)
    then show ?case using assms(3) by (auto simp: bal_tab.unique_def filter_empty_conv image_iff)
  qed simp
  moreover have "sum_where (\<lambda>b. bal_user b = user) g t = sum_list (map g (filter (\<lambda>x. bal_user x = user) t))"
    by (induction t) auto
  ultimately show ?thesis by simp
qed

lemma covering_balance:
  assumes ok: "image_ok s" and "j \<in> set (img_jobs s)" "0 < ij_reserved j"
  obtains b where "b \<in> set (balances s)" "bal_user b = ij_user j" "ij_reserved j \<le> bal_reserved b"
proof -
  have le: "ij_reserved j \<le> reserved_of (ij_user j) s"
    using held_ge [OF assms(1,2)] image_okD(10) [OF ok, of "ij_user j"] by simp
  have "\<exists>b \<in> set (balances s). bal_user b = ij_user j"
  proof (rule ccontr)
    assume "\<not> (\<exists>b \<in> set (balances s). bal_user b = ij_user j)"
    then have "reserved_of (ij_user j) s = 0" unfolding reserved_of_def by (intro sum_where_zero) blast
    then show False using le assms(3) by simp
  qed
  then obtain b where b: "b \<in> set (balances s)" "bal_user b = ij_user j" by blast
  then show thesis
    using that [of b] le sum_by_user [OF image_okD(4) [OF ok] b] by (simp add: reserved_of_def)
qed

section \<open>What the steps keep\<close>

lemma shifted_sums:
  assumes "bal_tab.unique t" and "b \<in> set t" and "bal_user b = u"
  shows "sum_where (\<lambda>b. bal_user b = user) bal_available (shifted u a r t) =
      sum_where (\<lambda>b. bal_user b = user) bal_available t + (if user = u then a else 0)"
    and "sum_where (\<lambda>b. bal_user b = user) bal_reserved (shifted u a r t) =
      sum_where (\<lambda>b. bal_user b = user) bal_reserved t + (if user = u then r else 0)"
  unfolding shifted_def using bal_tab.sum_where_update [OF assms(1,2), of "\<lambda>b. bal_user b = u"] assms(3)
  by auto

lemma shifted_unique [simp]: "bal_tab.unique (shifted u a r t) = bal_tab.unique t"
  unfolding shifted_def by (rule bal_tab.unique_update) simp

lemma shifted_ok:
  assumes "\<forall>b \<in> set t. balance_ok b" and "bal_tab.unique t" and "b \<in> set t" "bal_user b = u"
    and "0 \<le> bal_available b + a" "0 \<le> bal_reserved b + r"
  shows "\<forall>b \<in> set (shifted u a r t). balance_ok b"
  unfolding shifted_def ball_update_where
proof
  fix x assume x: "x \<in> set t"
  then have "bal_user x = u \<Longrightarrow> x = b" using bal_tab.unique_same [OF assms(2,3) x] assms(4) by simp
  then show "balance_ok (if bal_user x = u
      then x\<lparr>bal_available := bal_available x + a, bal_reserved := bal_reserved x + r\<rparr> else x)"
    using assms(1,5,6) x by (cases "bal_user x = u") (simp_all add: balance_ok_def)
qed

lemma quiet_ok:
  assumes ok: "image_ok s" and same: "balances s' = balances s" "transactions s' = transactions s"
    and jobs: "img_jobs s' = update_where P f (img_jobs s)"
    and f: "\<And>x. x \<in> set (img_jobs s) \<Longrightarrow> P x \<Longrightarrow> job_ok x \<Longrightarrow> hold_of (f x) = hold_of x \<and> job_ok (f x)"
    and recs: "img_records s' = update_where Q g (img_records s)"
    and g: "\<And>x. x \<in> set (img_records s) \<Longrightarrow> Q x \<Longrightarrow> record_core (g x) = record_core x \<and>
       (grc_status (g x) = record_succeeded \<longrightarrow> grc_status x = record_succeeded \<or> settled_record (grc_id x) s)"
  shows "map hold_of (img_jobs s') = map hold_of (img_jobs s)" and "image_ok s'"
proof -
  have fx: "hold_of (if P x then f x else x) = hold_of x \<and> job_ok (if P x then f x else x)"
    if "x \<in> set (img_jobs s)" for x using f [OF that] image_okD(6) [OF ok that] by simp
  show holds: "map hold_of (img_jobs s') = map hold_of (img_jobs s)"
    unfolding jobs update_where_def using fx by simp
  have col: "map (\<lambda>j. h (hold_of j)) (img_jobs s') = map (\<lambda>j. h (hold_of j)) (img_jobs s)" for h
    using arg_cong [OF holds, of "map h"] by (simp add: comp_def)
  have ids: "map ij_id (img_jobs s') = map ij_id (img_jobs s)" using col [of fst] by (simp add: hold_of_def)
  then have idset: "ij_id ` set (img_jobs s') = ij_id ` set (img_jobs s)" by (metis list.set_map)
  have rids: "map ij_record (img_jobs s') = map ij_record (img_jobs s)"
    using col [of "\<lambda>x. fst (snd x)"] by (simp add: hold_of_def)
  have gx: "record_core (if Q x then g x else x) = record_core x" if "x \<in> set (img_records s)" for x
    using g [OF that] by simp
  have "map record_core (img_records s') = map record_core (img_records s)"
    unfolding recs update_where_def using gx by simp
  from arg_cong [OF this, of "map fst"] have gids: "map grc_id (img_records s') = map grc_id (img_records s)"
    by (simp add: record_core_def comp_def)
  have held: "held user s' = held user s" for user
  proof -
    have "held user t = sum_list (map (\<lambda>j. (\<lambda>(i, r, u, n, x). if u = user then n else 0) (hold_of j)) (img_jobs t))"
      for t by (simp add: held_def sum_where_def hold_of_def)
    then show ?thesis by (simp only: col)
  qed
  have "job_ok z \<and> backed z s' \<and> entries (ij_id z) s' = history z" if "z \<in> set (img_jobs s')" for z
  proof -
    from that obtain x where x: "x \<in> set (img_jobs s)" and z: "z = (if P x then f x else x)"
      unfolding jobs set_update_where by auto
    have h: "hold_of z = hold_of x" and okz: "job_ok z" using fx [OF x] z by auto
    note zx = hold_ofD [OF h]
    from image_okD(7) [OF ok x] obtain r where r: "r \<in> set (img_records s)" "grc_id r = ij_record x"
      "grc_user r = ij_user x" "grc_credits_cost r = 1" "grc_status r = record_succeeded \<longrightarrow> ij_settled x"
      by (auto simp: backed_def)
    let ?r = "if Q r then g r else r"
    have core: "record_core ?r = record_core r" using gx [OF r(1)] .
    have "?r \<in> set (img_records s')" unfolding recs set_update_where using r(1) by blast
    moreover have "grc_status ?r = record_succeeded \<longrightarrow> ij_settled x"
      using g [OF r(1)] r(2,5) x by (auto simp: settled_record_def)
    ultimately have "backed z s'" using core r(2-4) unfolding backed_def record_core_def zx by auto
    moreover have "history z = history x" by (simp add: history_def zx)
    ultimately show ?thesis using okz image_okD(8) [OF ok x] by (simp add: entries_def same zx)
  qed
  then show "image_ok s'"
    using image_okD [OF ok] idset
    by (simp add: image_ok_def ij_tab.unique_def grc_tab.unique_def ids rids gids held reserved_of_def same)
qed

lemma no_entries: "image_ok s \<Longrightarrow> k \<notin> ij_id ` set (img_jobs s) \<Longrightarrow> entries k s = []"
  using image_okD(9) [of s] by (auto simp: entries_def filter_empty_conv)

lemma of_image_same: "of_image k t \<Longrightarrow> of_image k' t \<longleftrightarrow> k' = k"
  by (auto simp: of_image_def)

lemma entries_snoc:
  "transactions s' = transactions s @ [t] \<Longrightarrow> of_image k t \<Longrightarrow>
     entries k' s' = entries k' s @ (if k' = k then [entry t] else [])"
  by (simp add: entries_def of_image_same)

lemma open_hold_ok:
  assumes ok: "image_ok s" and b: "b \<in> set (balances s)" "bal_user b = ij_user j" "1 \<le> bal_available b"
    and bal: "balances s' = shifted (ij_user j) (- 1) 1 (balances s)"
    and txn: "transactions s' = transactions s @ [t]" "of_image (ij_id j) t"
      "entry t = (GenerationReserve, ij_user j, - 1)"
    and jobs: "img_jobs s' = img_jobs s @ [j]" "ij_id j = next_key ij_id (img_jobs s)"
      "ij_record j \<notin> ij_record ` set (img_jobs s)" "job_ok j" "\<not> ij_settled j" "\<not> ij_released j"
    and recs: "img_records s' = img_records s @ [r]" "grc_id r = next_key grc_id (img_records s)"
      "grc_id r = ij_record j" "grc_user r = ij_user j" "grc_credits_cost r = 1" "grc_status r \<noteq> record_succeeded"
  shows "image_ok s'"
proof -
  have fresh: "ij_id j \<notin> ij_id ` set (img_jobs s)"
    using jobs(2) next_key_fresh [of _ "img_jobs s" ij_id] by force
  have "job_ok z \<and> backed z s' \<and> entries (ij_id z) s' = history z" if "z \<in> set (img_jobs s')" for z
  proof (cases "z = j")
    case True
    have "r \<in> set (img_records s')" by (simp add: recs(1))
    then have "backed j s'" unfolding backed_def using recs(3-6) by blast
    moreover have "entries (ij_id j) s' = history j"
      using no_entries [OF ok fresh] jobs(5,6) by (simp add: entries_snoc [OF txn(1,2)] txn(3) history_def)
    ultimately show ?thesis using True jobs(4) by simp
  next
    case False
    then have z: "z \<in> set (img_jobs s)" using that jobs(1) by simp
    then have "ij_id z \<noteq> ij_id j" using fresh by (metis imageI)
    then show ?thesis using image_okD(6-8) [OF ok z] recs(1)
      by (auto simp: entries_snoc [OF txn(1,2)] backed_def)
  qed
  moreover have "k \<in> ij_id ` set (img_jobs s')" if "t' \<in> set (transactions s')" "of_image k t'" for t' k
    using that txn(2) image_okD(9) [OF ok] unfolding txn(1) jobs(1) by (auto simp: of_image_same)
  moreover have "held user s' \<le> reserved_of user s'" for user
    using image_okD(10) [OF ok, of user] job_okD(1) [OF jobs(4)] jobs(5,6)
    by (auto simp: held_def reserved_of_def bal jobs(1) shifted_sums(2) [OF image_okD(4) [OF ok] b(1,2)])
  moreover have "\<forall>b \<in> set (balances s'). balance_ok b"
    unfolding bal using image_okD(4,5) [OF ok] b image_okD(5) [OF ok b(1)]
    by (intro shifted_ok) (auto simp: balance_ok_def)
  ultimately show ?thesis
    using image_okD [OF ok] jobs(3) ij_tab.unique_insert [OF image_okD(1) [OF ok] jobs(2)]
      grc_tab.unique_insert [OF image_okD(3) [OF ok] recs(2)]
    by (simp add: image_ok_def bal jobs(1) recs(1))
qed

lemma put_sum:
  assumes "ij_tab.unique t" and "j \<in> set t" and "ij_id y = ij_id j"
  shows "sum_where P g (ij_tab.put y t) = sum_where P g t - (if P j then g j else 0) + (if P y then g y else 0)"
  unfolding ij_tab.put_def using assms by (intro ij_tab.sum_where_update) simp_all

lemma close_hold_ok:
  assumes ok: "image_ok s" and j: "j \<in> set (img_jobs s)" "\<not> ij_settled j" "\<not> ij_released j"
    and y: "ij_id y = ij_id j" "ij_record y = ij_record j" "ij_user y = ij_user j" "ij_reserved y = 0"
      "ij_settled y = (\<not> ij_released y)" "job_ok j \<Longrightarrow> job_ok y"
    and b: "b \<in> set (balances s)" "bal_user b = ij_user j" "1 \<le> bal_reserved b"
    and bal: "balances s' = shifted (ij_user j) (if ij_released y then 1 else 0) (- 1) (balances s)"
    and txn: "transactions s' = transactions s @ [t]" "of_image (ij_id j) t"
      "entry t = (if ij_released y then (GenerationRelease, ij_user j, 1) else (GenerationSettle, ij_user j, 0))"
    and jobs: "img_jobs s' = ij_tab.put y (img_jobs s)" and recs: "img_records s' = img_records s"
  shows "image_ok s'"
proof -
  note u = image_okD(1) [OF ok]
  have set: "set (img_jobs s') = insert y (set (img_jobs s) - {j})"
    unfolding jobs using u j(1) y(1) by (rule ij_tab.set_put)
  have same: "h (if ij_id x = ij_id y then y else x) = h x" if "x \<in> set (img_jobs s)" "h y = h j" for x h
    using ij_tab.unique_same [OF u that(1) j(1)] that(2) y(1) by auto
  have col: "map h (img_jobs s') = map h (img_jobs s)" if "h y = h j" for h :: "image_job \<Rightarrow> nat"
    unfolding jobs ij_tab.put_def update_where_def using same [of _ h] that by simp
  have one: "ij_reserved j = 1" using job_okD(1) [OF image_okD(6) [OF ok j(1)]] j by simp
  have "job_ok z \<and> backed z s' \<and> entries (ij_id z) s' = history z" if "z \<in> set (img_jobs s')" for z
  proof (cases "z = y")
    case True
    have "backed y s'" using image_okD(7) [OF ok j(1)] j(2) by (auto simp: backed_def recs y)
    then show ?thesis using True y image_okD(6,8) [OF ok j(1)] j(2,3)
      by (auto simp: entries_snoc [OF txn(1,2)] txn(3) history_def)
  next
    case False
    with that set have z: "z \<in> set (img_jobs s)" "z \<noteq> j" by auto
    then have "ij_id z \<noteq> ij_id j" using ij_tab.unique_same [OF u z(1) j(1)] by metis
    then show ?thesis using image_okD(6-8) [OF ok z(1)] by (simp add: entries_snoc [OF txn(1,2)] backed_def recs)
  qed
  moreover have "k \<in> ij_id ` set (img_jobs s')" if "t' \<in> set (transactions s')" "of_image k t'" for t' k
  proof -
    have "ij_id ` set (img_jobs s') = ij_id ` set (img_jobs s)"
      using arg_cong [OF col [of ij_id, OF y(1)], of set] by simp
    then show ?thesis using that txn(2) image_okD(9) [OF ok] j(1) unfolding txn(1) by (auto simp: of_image_same)
  qed
  moreover have "held user s' \<le> reserved_of user s'" for user
  proof -
    have "held user s' = held user s - (if ij_user j = user then 1 else 0)"
      using one y(3,4) by (simp add: held_def jobs put_sum [OF u j(1) y(1)])
    then show ?thesis using image_okD(10) [OF ok, of user]
      by (auto simp: reserved_of_def bal shifted_sums(2) [OF image_okD(4) [OF ok] b(1,2)])
  qed
  moreover have "\<forall>b \<in> set (balances s'). balance_ok b"
    unfolding bal using image_okD(4,5) [OF ok] b image_okD(5) [OF ok b(1)]
    by (intro shifted_ok) (auto simp: balance_ok_def)
  ultimately show ?thesis
    using image_okD(1-4) [OF ok] col [of ij_id, OF y(1)] col [of ij_record, OF y(2)]
    by (simp add: image_ok_def bal recs ij_tab.unique_def)
qed

theorem hold_step_ok: "hold_step s s' \<Longrightarrow> image_ok s \<Longrightarrow> image_ok s'"
proof (induction rule: hold_step.induct)
  case (quiet s' s P f Q g)
  show ?case by (rule quiet_ok(2) [OF quiet.prems quiet.hyps(1-3) _ quiet.hyps(5)]) (use quiet.hyps(4,6) in blast)+
next
  case (open_hold b s j s' t r)
  show ?case by (rule open_hold_ok [OF open_hold.prems open_hold.hyps])
next
  case (close_hold j s y b s' t)
  show ?case by (rule close_hold_ok [OF close_hold.prems close_hold.hyps])
qed

lemma hold_steps_ok: "hold_step\<^sup>*\<^sup>* s s' \<Longrightarrow> image_ok s \<Longrightarrow> image_ok s'"
  by (induction rule: rtranclp_induct) (auto intro: hold_step_ok)

section \<open>Conservation\<close>

text \<open>
  The credits of a user that are available, reserved, or spent on images; the reserved credits
  that are not held by images; the available credits the credit history does not explain.
\<close>

definition spent_of :: "uid \<Rightarrow> image_db \<Rightarrow> int" where
  "spent_of user s = int (count_where (\<lambda>j. ij_user j = user \<and> ij_settled j) (img_jobs s))"

definition booked :: "uid \<Rightarrow> image_db \<Rightarrow> int" where
  "booked user s = sum_where (\<lambda>t. txn_user t = user) txn_amount (transactions s)"

definition image_funds :: "uid \<Rightarrow> image_db \<Rightarrow> int \<times> int \<times> int" where
  "image_funds user s = (available_of user s + reserved_of user s + spent_of user s,
     reserved_of user s - held user s, available_of user s - booked user s)"

lemma spent_of_holds: "spent_of user s = sum_where (\<lambda>j. ij_user j = user \<and> ij_settled j) (\<lambda>_. 1) (img_jobs s)"
proof -
  have "int (count_where P t) = sum_where P (\<lambda>_. 1) t" for P :: "image_job \<Rightarrow> bool" and t by (induction t) auto
  then show ?thesis by (simp add: spent_of_def)
qed

theorem hold_step_funds: "hold_step s s' \<Longrightarrow> image_ok s \<Longrightarrow> image_funds user s' = image_funds user s"
proof (induction rule: hold_step.induct)
  case (quiet s' s P f Q g)
  have holds: "map hold_of (img_jobs s') = map hold_of (img_jobs s)"
    by (rule quiet_ok(1) [OF quiet.prems quiet.hyps(1-3) _ quiet.hyps(5)]) (use quiet.hyps(4,6) in blast)+
  have col: "map (\<lambda>j. h (hold_of j)) (img_jobs s') = map (\<lambda>j. h (hold_of j)) (img_jobs s)" for h :: "_ \<Rightarrow> int"
    using arg_cong [OF holds, of "map h"] by (simp add: comp_def)
  have "held user t = sum_list (map (\<lambda>j. (\<lambda>(i, r, u, n, x). if u = user then n else 0) (hold_of j)) (img_jobs t))"
    "spent_of user t = sum_list (map (\<lambda>j. (\<lambda>(i, r, u, n, x, y). if u = user \<and> x then 1 else 0) (hold_of j)) (img_jobs t))"
    for t by (simp_all add: held_def spent_of_holds sum_where_def hold_of_def)
  then have "held user s' = held user s" "spent_of user s' = spent_of user s" by (simp_all only: col)
  then show ?case by (simp add: image_funds_def available_of_def reserved_of_def booked_def quiet.hyps(1,2))
next
  case (open_hold b s j s' t r)
  note sums = shifted_sums [OF image_okD(4) [OF open_hold.prems] open_hold.hyps(1,2)]
  have "txn_user t = ij_user j" "txn_amount t = - 1" "ij_reserved j = 1"
    using open_hold.hyps(7) job_okD(1) [OF open_hold.hyps(11)] open_hold.hyps(12,13) by (simp_all add: entry_def)
  then show ?case
    by (simp add: image_funds_def available_of_def reserved_of_def held_def spent_of_def booked_def sums
        open_hold.hyps count_where_def)
next
  case (close_hold j s y b s' t)
  note sums = shifted_sums [OF image_okD(4) [OF close_hold.prems] close_hold.hyps(10,11)]
  note upd = put_sum [OF image_okD(1) [OF close_hold.prems] close_hold.hyps(1,4)]
  have one: "ij_reserved j = 1"
    using job_okD(1) [OF image_okD(6) [OF close_hold.prems close_hold.hyps(1)]] close_hold.hyps(2,3) by simp
  have "held user s' = held user s - (if ij_user j = user then 1 else 0)"
    "spent_of user s' = spent_of user s + (if ij_user j = user \<and> ij_settled y then 1 else 0)"
    using one close_hold.hyps(2,6,7) by (simp_all add: held_def spent_of_holds close_hold.hyps(17) upd)
  moreover have "txn_user t = ij_user j" "txn_amount t = (if ij_released y then 1 else 0)"
    using close_hold.hyps(16) by (simp_all add: entry_def split: if_splits)
  ultimately show ?case
    using close_hold.hyps(8)
    by (auto simp: image_funds_def available_of_def reserved_of_def booked_def sums close_hold.hyps(13,14))
qed

lemma hold_steps_funds: "hold_step\<^sup>*\<^sup>* s s' \<Longrightarrow> image_ok s \<Longrightarrow> image_funds user s' = image_funds user s"
proof (induction rule: rtranclp_induct)
  case (step y z)
  then show ?case using hold_step_funds [of y z user] hold_steps_ok [of s y] by simp
qed simp

end
