(* ===== verification/ImageSteps.thy ===== *)
theory ImageSteps
  imports ImageHolds
begin

text \<open>
  The requests of the image queue are sequences of hold steps: submitting opens a hold, the end
  of an execution settles it, failing, expiring and canceling release it, and everything else
  leaves the credits alone.
\<close>

section \<open>Quiet requests\<close>

definition same_tables :: "image_db \<Rightarrow> image_db \<Rightarrow> bool" where
  "same_tables s s' \<longleftrightarrow> balances s' = balances s \<and> transactions s' = transactions s \<and>
     img_jobs s' = img_jobs s \<and> img_records s' = img_records s"

lemma same_tables_step: "same_tables s s' \<Longrightarrow> hold_step s s'"
  by (rule quiet [where P = "\<lambda>_. False" and Q = "\<lambda>_. False"]) (simp_all add: same_tables_def)

lemma same_tables_ok: "same_tables s s' \<Longrightarrow> image_ok s \<Longrightarrow> image_ok s'"
  using hold_step_ok same_tables_step by blast

lemma jobs_step:
  assumes "\<And>x. x \<in> set (img_jobs s) \<Longrightarrow> P x \<Longrightarrow> job_ok x \<Longrightarrow> hold_of (f x) = hold_of x \<and> job_ok (f x)"
  shows "hold_step s (update_image_jobs P f s)"
  by (rule quiet [where Q = "\<lambda>_. False", OF _ _ _ assms]) (simp_all add: update_image_jobs_def)

lemma records_step:
  assumes "\<And>x. x \<in> set (img_records s) \<Longrightarrow> Q x \<Longrightarrow> record_core (g x) = record_core x \<and>
       (grc_status (g x) = record_succeeded \<longrightarrow>
          grc_status x = record_succeeded \<or> settled_record (grc_id x) s)"
  shows "hold_step s (update_image_records Q g s)"
  by (rule quiet [where P = "\<lambda>_. False", OF _ _ _ _ _ assms]) (simp_all add: update_image_records_def)

lemmas row_simps = job_ok_def hold_of_def image_active_def image_working_def image_waiting_def

lemma update_tables [simp]:
  "balances (update_image_jobs P f s) = balances s" "transactions (update_image_jobs P f s) = transactions s"
  "img_jobs (update_image_jobs P f s) = update_where P f (img_jobs s)"
  "img_records (update_image_jobs P f s) = img_records s"
  "balances (update_image_records Q g s) = balances s" "transactions (update_image_records Q g s) = transactions s"
  "img_jobs (update_image_records Q g s) = img_jobs s"
  "img_records (update_image_records Q g s) = update_where Q g (img_records s)"
  by (simp_all add: image_table_defs)

lemma kept_row: "x \<in> set t \<Longrightarrow> \<not> P x \<Longrightarrow> x \<in> set (update_where P f t)"
  by (force simp: set_update_where)

lemma retire_expired_key_step:
  "retire_expired_key user key fresh s = Inr s' \<Longrightarrow> s' = s \<or> (\<exists>P g. s' = update_image_jobs P (\<lambda>j. j\<lparr>ij_key := g j\<rparr>) s)"
  by (auto simp: retire_expired_key_def Let_def split: option.splits if_splits)

lemma claim_step: "claim_generation_queue_job cfg owner token now s = Some (j, s') \<Longrightarrow> hold_step s s'"
  unfolding claim_generation_queue_job_def
  by (auto simp: Let_def split: option.splits if_splits intro!: jobs_step simp: row_simps)

lemma give_back_step: "hold_step s (return_claimed_generation_job_to_queue k token s)"
  unfolding return_claimed_generation_job_to_queue_def by (rule jobs_step) (auto simp: row_simps)

lemma lease_steps:
  "try_acquire_image_execution_lease settings providers owner m token now s = (b, s') \<Longrightarrow> same_tables s s'"
  "same_tables s (renew_image_execution_lease token now s)" "same_tables s (release_image_execution_lease token s)"
  by (auto simp: try_acquire_image_execution_lease_def renew_image_execution_lease_def
      release_image_execution_lease_def same_tables_def Let_def split: if_splits)

lemma refl_step: "hold_step s s"
  by (rule same_tables_step) (simp add: same_tables_def)

lemma renew_step: "hold_step s (snd (renew_generation_queue_lease_once k token now s))"
  unfolding renew_generation_queue_lease_once_def Let_def
  by (auto intro!: jobs_step refl_step) (auto simp: row_simps)

section \<open>Submitting\<close>

lemma hold_image_credits_Inr:
  assumes "hold_image_credits user credits s = Inr s'" and "bal_tab.unique (balances s)"
  obtains b where "b \<in> set (balances s)" "bal_user b = user" "credits \<le> bal_available b"
    "s' = s\<lparr>balances := shifted user (- credits) credits (balances s)\<rparr>"
proof -
  let ?P = "\<lambda>b. bal_user b = user \<and> bal_available b \<ge> credits"
  let ?f = "\<lambda>b. b\<lparr>bal_available := bal_available b - credits, bal_reserved := bal_reserved b + credits\<rparr>"
  from assms(1) have ne: "count_where ?P (balances s) \<noteq> 0" and s': "s' = update_balances ?P ?f s"
    by (auto simp: hold_image_credits_def Let_def split: if_splits)
  then obtain b where b: "b \<in> set (balances s)" "?P b" by (auto simp: count_where_0)
  have "update_where ?P ?f (balances s) = shifted user (- credits) credits (balances s)"
    using b bal_tab.unique_same [OF assms(2)] by (auto simp: update_where_def shifted_def)
  with s' b that show thesis by (simp add: update_balances_def)
qed

lemma insert_image_job_Inr:
  "insert_image_job j s = Inr (j1, s') \<Longrightarrow> ij_record j \<notin> ij_record ` set (img_jobs s) \<and>
     j1 = j\<lparr>ij_id := next_key ij_id (img_jobs s)\<rparr> \<and> s' = s\<lparr>img_jobs := img_jobs s @ [j1]\<rparr> \<and>
     \<not> list_ex (keyed_image_job (ij_user j) (ij_key j)) (img_jobs s)"
  by (auto simp: insert_image_job_def Let_def list_ex_iff split: if_splits)

lemma record_image_credits_Inr:
  "record_image_credits kind event amount reason j s = Inr (b, s') \<Longrightarrow>
     \<exists>t. s' = s\<lparr>transactions := transactions s @ [t]\<rparr> \<and> of_image (ij_id j) t \<and> entry t = (kind, ij_user j, amount)"
  by (auto simp: record_image_credits_def insert_transaction_def image_transaction_def of_image_def entry_def
      split: option.splits)

lemma claim_new_job_steps:
  assumes run: "claim_new_job c cfg t key entry_point snapshot fingerprint fresh now s = Inr ((r, j, reused), s')"
    and ok: "image_ok s"
  shows "hold_step\<^sup>*\<^sup>* s s'"
proof -
  from run obtain s1 s2 s3 s4 b0 where
    s1: "retire_expired_key (tsk_user t) key fresh s = Inr s1" and
    s2: "hold_image_credits (tsk_user t) (generation_job_credit_cost t) s1 = Inr s2" and
    s3: "create_generation_record (new_image_record t fingerprint now) s2 = (r, s3)" and
    s4: "insert_image_job (new_image_job cfg t (grc_id r) entry_point snapshot fingerprint key now) s3 = Inr (j, s4)" and
    s5: "record_image_credits GenerationReserve ''reserve'' (- ij_reserved j) image_hold_reason j s4 = Inr (b0, s')"
    unfolding claim_new_job_def split_def
    by (auto simp: and_then_eq_Inr prod_eq_iff split: if_splits)
  have step1: "hold_step s s1"
    using retire_expired_key_step [OF s1]
    by (auto simp: row_simps intro!: jobs_step refl_step)
  have u: "bal_tab.unique (balances s1)" by (rule image_okD(4) [OF hold_step_ok [OF step1 ok]])
  have cost: "generation_job_credit_cost t = 1"
    by (simp add: generation_job_credit_cost_def generation_task_credit_cost_def)
  from hold_image_credits_Inr [OF s2 u] obtain b where
    b: "b \<in> set (balances s1)" "bal_user b = tsk_user t" "1 \<le> bal_available b"
      "s2 = s1\<lparr>balances := shifted (tsk_user t) (- 1) 1 (balances s1)\<rparr>"
    unfolding cost by metis
  from s3 have r: "r = (new_image_record t fingerprint now)\<lparr>grc_id := next_key grc_id (img_records s1)\<rparr>"
    "s3 = s2\<lparr>img_records := img_records s1 @ [r]\<rparr>"
    by (auto simp: create_generation_record_def Let_def b(4))
  from insert_image_job_Inr [OF s4] have
    j: "ij_record j \<notin> ij_record ` set (img_jobs s1)"
      "j = (new_image_job cfg t (grc_id r) entry_point snapshot fingerprint key now)\<lparr>ij_id := next_key ij_id (img_jobs s1)\<rparr>"
      "s4 = s3\<lparr>img_jobs := img_jobs s1 @ [j]\<rparr>"
    by (auto simp: r(2) b(4) new_image_job_def)
  have facts: "ij_user j = tsk_user t" "ij_record j = grc_id r" "ij_reserved j = 1" "ij_id j = next_key ij_id (img_jobs s1)"
    "\<not> ij_settled j" "\<not> ij_released j" "job_ok j" "grc_user r = tsk_user t" "grc_credits_cost r = 1"
    "grc_status r \<noteq> record_succeeded" "grc_id r = next_key grc_id (img_records s1)"
    by (simp_all add: j(2) r(1) new_image_job_def new_image_record_def cost row_simps)
  from record_image_credits_Inr [OF s5] obtain x where
    x: "s' = s4\<lparr>transactions := transactions s4 @ [x]\<rparr>" "of_image (ij_id j) x" "entry x = (GenerationReserve, ij_user j, - 1)"
    unfolding facts(3) by blast
  have "hold_step s1 s'"
    by (rule open_hold [of b s1 j s' x r])
      (use b(1-3) facts x(2,3) j(1) in \<open>simp_all add: x(1) j(3) r(2) b(4)\<close>)
  with step1 show ?thesis by (meson converse_rtranclp_into_rtranclp r_into_rtranclp)
qed

lemma enqueue_steps:
  assumes "enqueue_generation_job c cfg t explicit entry_point auto fresh now s = Inr ((r, j, reused), s')" and "image_ok s"
  shows "hold_step\<^sup>*\<^sup>* s s'"
  using assms claim_new_job_steps
  by (auto simp: enqueue_generation_job_def Let_def split: if_splits option.splits)

section \<open>Settling\<close>

lemma covered_row:
  "count_where (\<lambda>b. bal_user b = user \<and> bal_reserved b \<ge> 1) t \<noteq> 0 \<Longrightarrow>
     \<exists>b \<in> set t. bal_user b = user \<and> 1 \<le> bal_reserved b"
  by (auto simp: count_where_0)

lemma covered_shift:
  assumes "count_where (\<lambda>b. bal_user b = user \<and> bal_reserved b \<ge> 1) t \<noteq> 0" and "bal_tab.unique t"
  shows "update_where (\<lambda>b. bal_user b = user \<and> bal_reserved b \<ge> 1)
       (\<lambda>b. b\<lparr>bal_available := bal_available b + a, bal_reserved := bal_reserved b - 1\<rparr>) t = shifted user a (- 1) t"
    and "update_where (\<lambda>b. bal_user b = user \<and> bal_reserved b \<ge> 1)
       (\<lambda>b. b\<lparr>bal_reserved := bal_reserved b - 1\<rparr>) t = shifted user 0 (- 1) t"
proof -
  obtain b where b: "b \<in> set t" "bal_user b = user" "bal_reserved b \<ge> 1" using covered_row [OF assms(1)] by blast
  have "bal_user x = user \<and> bal_reserved x \<ge> 1 \<longleftrightarrow> bal_user x = user" if x: "x \<in> set t" for x
  proof
    assume "bal_user x = user"
    then have "x = b" using bal_tab.unique_same [OF assms(2) x b(1)] b(2) by simp
    with b show "bal_user x = user \<and> bal_reserved x \<ge> 1" by simp
  qed simp
  then show "update_where (\<lambda>b. bal_user b = user \<and> bal_reserved b \<ge> 1)
       (\<lambda>b. b\<lparr>bal_available := bal_available b + a, bal_reserved := bal_reserved b - 1\<rparr>) t = shifted user a (- 1) t"
    "update_where (\<lambda>b. bal_user b = user \<and> bal_reserved b \<ge> 1)
       (\<lambda>b. b\<lparr>bal_reserved := bal_reserved b - 1\<rparr>) t = shifted user 0 (- 1) t"
    by (simp_all add: update_where_def shifted_def)
qed

text \<open>The job of a record, when it is there, is the row that settling finds.\<close>

lemma settle_cases:
  assumes run: "settle_queued_generation_credits user k amount s = Inr (n, s')" and ok: "image_ok s"
  obtains j where "j \<in> set (img_jobs s)" "ij_record j = k" "ij_user j = user" "ij_settled j" "s' = s"
  | j where "j \<in> set (img_jobs s)" "ij_record j = k" "ij_user j = user" "\<not> ij_settled j"
    "count_where (\<lambda>b. bal_user b = user \<and> bal_reserved b \<ge> amount) (balances s) \<noteq> 0"
    "\<exists>t. of_image (ij_id j) t \<and> entry t = (GenerationSettle, user, 0) \<and>
       s' = s\<lparr>balances := update_where (\<lambda>b. bal_user b = user \<and> bal_reserved b \<ge> amount)
           (\<lambda>b. b\<lparr>bal_reserved := bal_reserved b - amount\<rparr>) (balances s),
         img_jobs := ij_tab.put (j\<lparr>ij_settled := True, ij_reserved := 0\<rparr>) (img_jobs s),
         transactions := transactions s @ [t]\<rparr>"
proof -
  from run obtain j where f: "first_where (\<lambda>j. ij_record j = k \<and> ij_user j = user) (img_jobs s) = Some j"
    by (auto simp: settle_queued_generation_credits_def split: option.splits)
  then have j: "j \<in> set (img_jobs s)" "ij_record j = k" "ij_user j = user" by (auto dest: first_where_Some)
  show thesis
  proof (cases "ij_settled j")
    case True
    then have "s' = s" using run f by (auto simp: settle_queued_generation_credits_def split: option.splits)
    then show thesis using that(1) j True by blast
  next
    case False
    have put: "update_where (\<lambda>x. ij_id x = ij_id j \<and> \<not> ij_settled x) (\<lambda>x. x\<lparr>ij_settled := True, ij_reserved := 0\<rparr>)
        (img_jobs s) = ij_tab.put (j\<lparr>ij_settled := True, ij_reserved := 0\<rparr>) (img_jobs s)"
      by (rule ij_tab.update_put) (use image_okD(1) [OF ok] j False in simp_all)
    let ?c = "\<lambda>b. bal_user b = user \<and> bal_reserved b \<ge> amount"
    let ?s2 = "update_image_jobs (\<lambda>x. ij_id x = ij_id j \<and> \<not> ij_settled x) (\<lambda>x. x\<lparr>ij_settled := True, ij_reserved := 0\<rparr>)
      (update_balances ?c (\<lambda>b. b\<lparr>bal_reserved := bal_reserved b - amount\<rparr>) s)"
    from run f False have cnt: "count_where ?c (balances s) \<noteq> 0"
      by (auto simp: settle_queued_generation_credits_def Let_def split: if_splits)
    from run f False cnt obtain b0 where
      "record_image_credits GenerationSettle ''settle'' 0 image_settle_reason j ?s2 = Inr (b0, s')"
      by (auto simp: settle_queued_generation_credits_def Let_def and_then_eq_Inr)
    from record_image_credits_Inr [OF this] obtain t where
      "s' = ?s2\<lparr>transactions := transactions ?s2 @ [t]\<rparr>" "of_image (ij_id j) t" "entry t = (GenerationSettle, user, 0)"
      unfolding j(3) by blast
    then show thesis using that(2) [OF j False cnt] put by (auto simp: image_table_defs)
  qed
qed

lemma settle_steps:
  assumes run: "settle_queued_generation_credits user k 1 s = Inr (n, s')" and ok: "image_ok s"
    and live: "\<And>j. j \<in> set (img_jobs s) \<Longrightarrow> ij_record j = k \<Longrightarrow> \<not> ij_released j"
  shows "hold_step s s'" and "settled_record k s'" and "img_records s' = img_records s"
proof -
  have "hold_step s s' \<and> settled_record k s' \<and> img_records s' = img_records s"
    using run ok
  proof (cases rule: settle_cases)
    case (1 j)
    then show ?thesis using same_record_same_job [OF ok] refl_step by (auto simp: settled_record_def)
  next
    case (2 j)
    then obtain t where t: "of_image (ij_id j) t" "entry t = (GenerationSettle, user, 0)" and
      s': "s' = s\<lparr>balances := update_where (\<lambda>b. bal_user b = user \<and> bal_reserved b \<ge> 1)
           (\<lambda>b. b\<lparr>bal_reserved := bal_reserved b - 1\<rparr>) (balances s),
         img_jobs := ij_tab.put (j\<lparr>ij_settled := True, ij_reserved := 0\<rparr>) (img_jobs s),
         transactions := transactions s @ [t]\<rparr>" by blast
    let ?y = "j\<lparr>ij_settled := True, ij_reserved := 0\<rparr>"
    have nr: "\<not> ij_released j" using live 2 by blast
    obtain b where b: "b \<in> set (balances s)" "bal_user b = user" "1 \<le> bal_reserved b"
      using covered_row [OF 2(5)] by blast
    have "hold_step s s'"
      by (rule close_hold [of j s ?y b s' t])
        (use 2(1,3,4) t b nr covered_shift(2) [OF 2(5) image_okD(4) [OF ok]] in \<open>simp_all add: s' row_simps\<close>)
    moreover have "settled_record k s'"
    proof -
      have "set (img_jobs s') = insert ?y (set (img_jobs s) - {j})"
        using ij_tab.set_put [OF image_okD(1) [OF ok] 2(1), of ?y] by (simp add: s')
      moreover have "x = j" if "x \<in> set (img_jobs s)" "ij_record x = k" for x
        using same_record_same_job [OF ok that(1) 2(1)] that(2) 2(2) by simp
      ultimately show ?thesis unfolding settled_record_def by auto
    qed
    ultimately show ?thesis by (simp add: s')
  qed
  then show "hold_step s s'" "settled_record k s'" "img_records s' = img_records s" by blast+
qed

section \<open>Failing\<close>

lemma put_twice:
  assumes u: "ij_tab.unique t" and j: "j \<in> set t" "ij_id (h (g j)) = ij_id j" "ij_id (g j) = ij_id j" "P j"
    and P: "\<And>x. P x \<Longrightarrow> ij_id x = ij_id j"
  shows "update_where (\<lambda>x. ij_id x = ij_id j) h (update_where P g t) = ij_tab.put (h (g j)) t"
proof -
  have "update_where P g t = ij_tab.put (g j) t" 
    by (rule ij_tab.update_put [where P = P and f = g, OF u j(1,4) _ j(3)]) (rule P)
  moreover have "g j \<in> set (ij_tab.put (g j) t)" using ij_tab.set_put [OF u j(1,3)] by simp
  ultimately have "update_where (\<lambda>x. ij_id x = ij_id j) h (update_where P g t) =
      ij_tab.put (h (g j)) (ij_tab.put (g j) t)"
    using u j by (simp add: ij_tab.update_put [of "ij_tab.put (g j) t" "g j"])
  then show ?thesis using j by (simp add: ij_tab.put_put)
qed

lemma release_cases:
  assumes run: "release_queued_generation_credits j reason s = Inr s'" and ok: "image_ok s"
    and j: "j \<in> set (img_jobs s)" "\<not> ij_released j"
  obtains "ij_settled j" "s' = s"
  | b t where "\<not> ij_settled j" "b \<in> set (balances s)" "bal_user b = ij_user j" "1 \<le> bal_reserved b"
    "of_image (ij_id j) t" "entry t = (GenerationRelease, ij_user j, 1)"
    "balances s' = shifted (ij_user j) 1 (- 1) (balances s)" "transactions s' = transactions s @ [t]"
    "img_jobs s' = update_where (\<lambda>x. ij_id x = ij_id j \<and> \<not> ij_released x \<and> \<not> ij_settled x)
       (\<lambda>x. x\<lparr>ij_released := True, ij_reserved := 0\<rparr>) (img_jobs s)" "img_records s' = img_records s"
proof -
  have one: "\<not> ij_settled j \<Longrightarrow> ij_reserved j = 1" using job_okD(1) [OF image_okD(6) [OF ok j(1)]] j(2) by simp
  show thesis
  proof (cases "ij_settled j")
    case True
    then show thesis using run that(1) by (simp add: release_queued_generation_credits_def)
  next
    case False
    note r1 = one [OF False]
    from run False j(2) r1 have cnt: "count_where (\<lambda>b. bal_user b = ij_user j \<and> bal_reserved b \<ge> 1) (balances s) \<noteq> 0"
      by (auto simp: release_queued_generation_credits_def Let_def split: if_splits)
    let ?s2 = "update_image_jobs (\<lambda>x. ij_id x = ij_id j \<and> \<not> ij_released x \<and> \<not> ij_settled x)
        (\<lambda>x. x\<lparr>ij_released := True, ij_reserved := 0\<rparr>)
        (update_balances (\<lambda>b. bal_user b = ij_user j \<and> bal_reserved b \<ge> 1)
          (\<lambda>b. b\<lparr>bal_available := bal_available b + 1, bal_reserved := bal_reserved b - 1\<rparr>) s)"
    from run False j(2) r1 cnt obtain b0 where
      "record_image_credits GenerationRelease ''release'' 1 reason j ?s2 = Inr (b0, s')"
      by (auto simp: release_queued_generation_credits_def Let_def and_then_eq_Inr)
    from record_image_credits_Inr [OF this] obtain t where
      t: "s' = ?s2\<lparr>transactions := transactions ?s2 @ [t]\<rparr>" "of_image (ij_id j) t"
        "entry t = (GenerationRelease, ij_user j, 1)" by blast
    obtain b where b: "b \<in> set (balances s)" "bal_user b = ij_user j" "1 \<le> bal_reserved b"
      using covered_row [OF cnt] by blast
    show thesis
      by (rule that(2) [OF False b t(2,3)])
        (simp_all add: t(1) image_table_defs covered_shift(1) [OF cnt image_okD(4) [OF ok]])
  qed
qed

text \<open>
  Failing a job closes its hold unless it has been settled already; jobs with another number
  keep their rows.
\<close>

lemma fail_job_row_simps [simp]:
  "ij_id (fail_job_row e m now j) = ij_id j" "ij_record (fail_job_row e m now j) = ij_record j"
  "ij_user (fail_job_row e m now j) = ij_user j" "ij_reserved (fail_job_row e m now j) = ij_reserved j"
  "ij_settled (fail_job_row e m now j) = ij_settled j" "ij_released (fail_job_row e m now j) = ij_released j"
  "hold_of (fail_job_row e m now j) = hold_of j" "ij_lease_token (fail_job_row e m now j) = ''''"
  "ij_status (fail_job_row e m now j) \<in> {ImageFailed, ImageCancelled}"
  by (simp_all add: fail_job_row_def hold_of_def)

lemma fail_job_row_ok:
  "ij_settled j \<or> ij_released j \<Longrightarrow> job_ok j \<Longrightarrow> job_ok (fail_job_row e m now j)"
  by (auto simp: row_simps fail_job_row_def)

lemma fail_steps:
  assumes run: "fail_claimed_generation_job k token error_code message now s = Inr s'" and ok: "image_ok s"
  shows "hold_step\<^sup>*\<^sup>* s s'" and "x \<in> set (img_jobs s) \<Longrightarrow> ij_id x \<noteq> k \<Longrightarrow> x \<in> set (img_jobs s')"
proof -
  from run obtain j s1 where f: "first_where (\<lambda>j. ij_id j = k) (img_jobs s) = Some j" and act: "image_active j" and
    rel: "release_queued_generation_credits j error_code s = Inr s1" and
    s': "s' = update_image_records (\<lambda>r. grc_id r = ij_record j \<and> record_open r)
      (\<lambda>r. r\<lparr>grc_status := record_failed, grc_stage := ''failed'', grc_error_code := error_code,
         grc_error_message := message, grc_credits_deducted := False\<rparr>)
      (update_image_jobs (\<lambda>x. ij_id x = ij_id j) (fail_job_row error_code message now) s1)"
    by (auto simp: fail_claimed_generation_job_def Let_def and_then_eq_Inr split: option.splits if_splits)
  from f have j: "j \<in> set (img_jobs s)" "ij_id j = k" by (auto dest: first_where_Some)
  have okj: "job_ok j" by (rule image_okD(6) [OF ok j(1)])
  have nr: "\<not> ij_released j" by (rule job_okD(3) [OF okj act])
  let ?F = "fail_job_row error_code message now"
  let ?s2 = "update_image_jobs (\<lambda>x. ij_id x = ij_id j) ?F s1"
  have records: "hold_step ?s2 s'"
    unfolding s' by (rule records_step) (auto simp: record_core_def)
  have "hold_step s ?s2 \<and> (x \<in> set (img_jobs s) \<longrightarrow> ij_id x \<noteq> k \<longrightarrow> x \<in> set (img_jobs ?s2))"
    using rel ok j(1) nr
  proof (cases rule: release_cases)
    case 1
    have "x = j" if "x \<in> set (img_jobs s)" "ij_id x = ij_id j" for x
      using ij_tab.unique_same [OF image_okD(1) [OF ok] that(1) j(1) that(2)] .
    then have "hold_step s (update_image_jobs (\<lambda>x. ij_id x = ij_id j) ?F s)"
      using 1(1) okj by (intro jobs_step) (auto intro!: fail_job_row_ok)
    then show ?thesis using 1(2) j(2) by (simp add: kept_row)
  next
    case (2 b t)
    let ?g = "\<lambda>x. x\<lparr>ij_released := True, ij_reserved := 0\<rparr>"
    have put: "img_jobs ?s2 = ij_tab.put (?F (?g j)) (img_jobs s)"
      unfolding update_tables 2(9)
      by (rule put_twice [OF image_okD(1) [OF ok] j(1)]) (use nr 2(1) in simp_all)
    have "job_ok (?F (?g j))" using okj nr 2(1) act by (auto simp: row_simps fail_job_row_def)
    then have "hold_step s ?s2"
      by (intro close_hold [of j s "?F (?g j)" b ?s2 t]) (use j(1) nr 2 put in simp_all)
    then show ?thesis
      unfolding put using ij_tab.set_put [OF image_okD(1) [OF ok] j(1), of "?F (?g j)"] j(2) by auto
  qed
  then show "hold_step\<^sup>*\<^sup>* s s'" "x \<in> set (img_jobs s) \<Longrightarrow> ij_id x \<noteq> k \<Longrightarrow> x \<in> set (img_jobs s')"
    using records by (auto simp: s' intro: rtranclp_trans)
qed

lemma fail_quietly_steps: "image_ok s \<Longrightarrow> hold_step\<^sup>*\<^sup>* s (fail_quietly k token e m now s)"
  using fail_steps(1) by (auto simp: fail_quietly_def split: sum.splits)

lemma fail_or_skip_steps:
  assumes "image_ok s"
  shows "hold_step\<^sup>*\<^sup>* s (snd (fail_or_skip k e m now s))"
    and "x \<in> set (img_jobs s) \<Longrightarrow> ij_id x \<noteq> k \<Longrightarrow> x \<in> set (img_jobs (snd (fail_or_skip k e m now s)))"
  using fail_steps [OF _ assms] by (auto simp: fail_or_skip_def split: sum.splits)

text \<open>A loop over jobs that were read before it: each pass touches the row of its own job only.\<close>

lemma each_job_steps:
  assumes pass: "\<And>j s. image_ok s \<Longrightarrow> j \<in> set (img_jobs s) \<Longrightarrow> W j \<Longrightarrow> hold_step\<^sup>*\<^sup>* s (snd (f j s)) \<and>
      (\<forall>x \<in> set (img_jobs s). ij_id x \<noteq> ij_id j \<longrightarrow> x \<in> set (img_jobs (snd (f j s))))"
    and "image_ok s" and "set js \<subseteq> set (img_jobs s)" and "distinct (map ij_id js)" and "\<forall>j \<in> set js. W j"
  shows "hold_step\<^sup>*\<^sup>* s (snd (each_job f js s))"
  using assms(2-5)
proof (induction js arbitrary: s)
  case (Cons j js)
  obtain e s1 where f: "f j s = (e, s1)" by (cases "f j s")
  have p: "hold_step\<^sup>*\<^sup>* s s1" "\<forall>x \<in> set (img_jobs s). ij_id x \<noteq> ij_id j \<longrightarrow> x \<in> set (img_jobs s1)"
    using pass [of s j] Cons.prems f by auto
  show ?case
  proof (cases e)
    case None
    have "set js \<subseteq> set (img_jobs s1)"
    proof
      fix x assume "x \<in> set js"
      then have "x \<in> set (img_jobs s)" "ij_id x \<noteq> ij_id j" using Cons.prems(2,3) by (auto simp: image_iff)
      with p(2) show "x \<in> set (img_jobs s1)" by blast
    qed
    then have "hold_step\<^sup>*\<^sup>* s1 (snd (each_job f js s1))"
      using Cons.IH hold_steps_ok [OF p(1) Cons.prems(1)] Cons.prems(3,4) by simp
    then show ?thesis using p(1) f None by simp
  qed (use p(1) f in simp)
qed simp

lemma listed_jobs:
  assumes "image_ok s"
  shows "distinct (map ij_id (filter W (img_jobs s)))"
  using image_okD(1) [OF assms] by (simp add: ij_tab.unique_def distinct_map_filter)

lemma expire_steps: "image_ok s \<Longrightarrow> hold_step\<^sup>*\<^sup>* s (snd (expire_queued_generation_jobs now s))"
  unfolding expire_queued_generation_jobs_def
  using fail_or_skip_steps listed_jobs by (intro each_job_steps [where W = "\<lambda>_. True"]) auto

section \<open>Recovery\<close>

lemma backing_record:
  assumes ok: "image_ok s" and "j \<in> set (img_jobs s)" and "r \<in> set (img_records s)" "grc_id r = ij_record j"
  shows "grc_user r = ij_user j" "grc_credits_cost r = 1" "grc_status r = record_succeeded \<Longrightarrow> ij_settled j"
proof -
  obtain r' where r': "r' \<in> set (img_records s)" "grc_id r' = ij_record j" "grc_user r' = ij_user j"
    "grc_credits_cost r' = 1" "grc_status r' = record_succeeded \<longrightarrow> ij_settled j"
    using image_okD(7) [OF assms(1,2)] by (auto simp: backed_def)
  have "r' = r" using grc_tab.unique_same [OF image_okD(3) [OF ok] r'(1) assms(3)] r'(2) assms(4) by simp
  with r' show "grc_user r = ij_user j" "grc_credits_cost r = 1" "grc_status r = record_succeeded \<Longrightarrow> ij_settled j"
    by simp_all
qed

lemma requeue_steps:
  assumes "image_ok s" and j: "j \<in> set (img_jobs s)" "image_working j"
  shows "hold_step\<^sup>*\<^sup>* s (requeue_job j r s)"
proof -
  have same: "x = j" if "x \<in> set (img_jobs s)" "ij_id x = ij_id j" for x
    using ij_tab.unique_same [OF image_okD(1) [OF assms(1)] that(1) j(1) that(2)] .
  have a: "hold_step s (update_image_jobs (\<lambda>x. ij_id x = ij_id j)
         (\<lambda>x. x\<lparr>ij_status := ImageQueued, ij_stage := ''recovering'', ij_lease_owner := '''',
            ij_lease_token := '''', ij_lease_expires_at := None\<rparr>) s)"
    using j(2) by (intro jobs_step) (auto dest!: same simp: row_simps)
  show ?thesis unfolding requeue_job_def
    by (rule rtranclp.rtrancl_into_rtrancl [OF r_into_rtranclp [of hold_step, OF a]])
      (auto intro!: records_step simp: record_core_def)
qed

lemma recover_job_steps:
  assumes ok: "image_ok s" and j: "j \<in> set (img_jobs s)" "image_working j"
  shows "hold_step\<^sup>*\<^sup>* s (snd (recover_generation_job now j s)) \<and>
    (\<forall>x \<in> set (img_jobs s). ij_id x \<noteq> ij_id j \<longrightarrow> x \<in> set (img_jobs (snd (recover_generation_job now j s))))"
proof -
  let ?fine = "\<lambda>s'. hold_step\<^sup>*\<^sup>* s s' \<and> (\<forall>x \<in> set (img_jobs s). ij_id x \<noteq> ij_id j \<longrightarrow> x \<in> set (img_jobs s'))"
  have fails: "?fine (snd (fail_or_skip (ij_id j) e m now s))" for e m
    by (simp add: fail_or_skip_steps [OF ok])
  have fails': "?fine s'" if "fail_claimed_generation_job (ij_id j) '''' e m now s = Inr s'" for e m s'
    by (simp add: fail_steps [OF that ok])
  have requeue: "?fine (requeue_job j r s)" for r
    using requeue_steps [OF ok j, of r] by (simp add: requeue_job_def kept_row)
  have done_job: "?fine (update_image_jobs (\<lambda>x. ij_id x = ij_id j \<and> image_working x) (succeeded_row now) s)"
    if r: "first_where (\<lambda>r. grc_id r = ij_record j) (img_records s) = Some r" "grc_status r = record_succeeded" for r
  proof -
    have "ij_settled j" using backing_record(3) [OF ok j(1)] r first_where_Some [OF r(1)] by blast
    moreover have "x = j" if "x \<in> set (img_jobs s)" "ij_id x = ij_id j" for x
      using ij_tab.unique_same [OF image_okD(1) [OF ok] that(1) j(1) that(2)] .
    ultimately have only: "ij_settled x" if "x \<in> set (img_jobs s)" "ij_id x = ij_id j" for x
      using that by metis
    have "hold_step s (update_image_jobs (\<lambda>x. ij_id x = ij_id j \<and> image_working x) (succeeded_row now) s)"
      by (rule jobs_step) (use only in \<open>simp add: row_simps succeeded_row_def\<close>)
    then show ?thesis by (simp add: kept_row r_into_rtranclp)
  qed
  show ?thesis
    unfolding recover_generation_job_def
    using fails fails' requeue done_job by (auto split: option.splits sum.splits)
qed

lemma recover_steps:
  assumes "image_ok s"
  shows "hold_step\<^sup>*\<^sup>* s (snd (recover_generation_queue now s))"
proof -
  let ?r = "each_job (recover_generation_job now) (filter image_working (img_jobs s)) s"
  have loop: "hold_step\<^sup>*\<^sup>* s (snd ?r)"
    using recover_job_steps listed_jobs [OF assms] assms by (intro each_job_steps [where W = image_working]) auto
  moreover have "hold_step (snd ?r) ((snd ?r)\<lparr>img_leases := l\<rparr>)" for l
    by (rule same_tables_step) (simp add: same_tables_def)
  ultimately show ?thesis
    by (auto simp: recover_generation_queue_def split: prod.splits option.splits intro: rtranclp.rtrancl_into_rtrancl)
qed

section \<open>Execution\<close>

text \<open>
  A record in memory is the copy of a row: its columns may have changed, but not the number,
  the user and the cost.
\<close>

definition copy_of :: "image_record \<Rightarrow> image_db \<Rightarrow> bool" where
  "copy_of r s \<longleftrightarrow> record_core r \<in> record_core ` set (img_records s)"

lemma copy_row:
  assumes "image_ok s" and "copy_of r s" and "x \<in> set (img_records s)" "grc_id x = grc_id r"
  shows "record_core x = record_core r"
proof -
  obtain y where y: "y \<in> set (img_records s)" "record_core r = record_core y" using assms(2) by (auto simp: copy_of_def)
  then have "grc_id y = grc_id x" using assms(4) by (simp add: record_core_def)
  then have "y = x" using grc_tab.unique_same [OF image_okD(3) [OF assms(1)] y(1) assms(3)] by simp
  with y show ?thesis by simp
qed

lemma copy_cost:
  assumes ok: "image_ok s" and "copy_of r s" and j: "j \<in> set (img_jobs s)" "ij_record j = grc_id r"
  shows "grc_credits_cost r = 1" and "generation_record_credit_cost r = 1"
proof -
  obtain y where y: "y \<in> set (img_records s)" "record_core r = record_core y" using assms(2) by (auto simp: copy_of_def)
  then have "grc_credits_cost y = 1" using backing_record(2) [OF ok j(1) y(1)] j(2) by (simp add: record_core_def)
  with y(2) show "grc_credits_cost r = 1" "generation_record_credit_cost r = 1"
    by (simp_all add: record_core_def generation_record_credit_cost_def)
qed

lemma save_step:
  assumes "image_ok s" and "copy_of r s" and "record_core r' = record_core r"
    and "grc_status r' = record_succeeded \<longrightarrow> settled_record (grc_id r) s"
  shows "hold_step s (save_record r' s)"
proof -
  have "grc_id r' = grc_id r" using assms(3) by (simp add: record_core_def)
  then show ?thesis unfolding save_record_def
    using copy_row [OF assms(1,2)] assms(3,4) by (intro records_step) auto
qed

lemma copy_kept:
  assumes "hold_step s s'" and "copy_of r s"
  shows "copy_of r s'"
  using assms(1)
proof cases
  case (quiet P f Q g)
  obtain y where y: "y \<in> set (img_records s)" "record_core r = record_core y" using assms(2) by (auto simp: copy_of_def)
  let ?y = "if Q y then g y else y"
  have "record_core ?y = record_core y" using quiet(6) [OF y(1)] by simp
  moreover have "?y \<in> set (img_records s')" unfolding quiet(5) set_update_where using y(1) by blast
  ultimately show ?thesis unfolding copy_of_def using y(2) by (metis imageI)
qed (use assms(2) in \<open>auto simp: copy_of_def\<close>)

lemma begin_step: "image_ok s \<Longrightarrow> copy_of r s \<Longrightarrow> hold_step s (snd (begin_generation r s))"
  unfolding begin_generation_def by (simp, rule save_step) (auto simp: begun_record_def record_core_def)

lemma note_spool_steps:
  "hold_step\<^sup>*\<^sup>* s (snd (note_spool r a s))" "record_core (fst (note_spool r a s)) = record_core r"
proof -
  have a: "hold_step s (update_image_jobs (\<lambda>j. ij_record j = grc_id r)
            (\<lambda>j. j\<lparr>ij_spool := pan_spool a, ij_stage := ''persisting''\<rparr>) s)"
    by (rule jobs_step) (simp add: row_simps)
  show "hold_step\<^sup>*\<^sup>* s (snd (note_spool r a s))"
    unfolding note_spool_def
    by (simp, intro impI, rule rtranclp.rtrancl_into_rtrancl [OF r_into_rtranclp [of hold_step, OF a]])
      (rule records_step, simp add: record_core_def)
  show "record_core (fst (note_spool r a s)) = record_core r" by (simp add: note_spool_def record_core_def)
qed

lemma copy_steps: "hold_step\<^sup>*\<^sup>* s s' \<Longrightarrow> copy_of r s \<Longrightarrow> copy_of r s'"
  by (induction rule: rtranclp_induct) (auto intro: copy_kept)

lemma receive_steps:
  assumes ok: "image_ok s" and copy: "copy_of r s"
  shows "hold_step\<^sup>*\<^sup>* s (snd (receive_generation r a s))"
proof -
  obtain r1 s1 where n: "note_spool r a s = (r1, s1)" by fastforce
  have s1: "hold_step\<^sup>*\<^sup>* s s1" and r1: "record_core r1 = record_core r"
    using note_spool_steps(1) [of s r a] note_spool_steps(2) [of r a s] n by simp_all
  have "copy_of r s1" by (rule copy_steps [OF s1 copy])
  then have "copy_of r1 s1" by (simp add: copy_of_def r1)
  then have "hold_step s1 (save_record (persisting_record r1 a) s1)"
    by (intro save_step [OF hold_steps_ok [OF s1 ok]]) (auto simp: persisting_record_def record_core_def)
  with s1 show ?thesis
    by (auto simp: receive_generation_def n split: sum.splits intro: rtranclp.rtrancl_into_rtrancl)
qed

lemma fail_record_step:
  assumes "image_ok s" and "copy_of r s"
  shows "hold_step s (fail_generation_record r e m s)"
  unfolding fail_generation_record_def using assms
  by (auto intro!: refl_step save_step [of s r] simp: record_core_def)

lemma work_step: "create_image_work user k im s = (w, s1) \<Longrightarrow> same_tables s s1"
  by (auto simp: create_image_work_def Let_def same_tables_def)

lemma persist_steps:
  assumes run: "persist_generation BillQueue user trace r im s = Inr (x, s')" and ok: "image_ok s" and copy: "copy_of r s"
    and live: "\<And>j. j \<in> set (img_jobs s) \<Longrightarrow> ij_record j = grc_id r \<Longrightarrow> \<not> ij_released j"
  shows "hold_step\<^sup>*\<^sup>* s s'"
proof -
  obtain w s1 where w: "create_image_work user (grc_id r) im s = (w, s1)" by fastforce
  note same = work_step [OF w]
  have ok1: "image_ok s1" and copy1: "copy_of r s1"
    using same_tables_ok [OF same ok] copy same by (simp_all add: copy_of_def same_tables_def)
  from run w obtain n s2 where
    settle: "settle_queued_generation_credits user (grc_id r) (generation_record_credit_cost r) s1 = Inr (n, s2)" and
    s': "s' = save_record (succeeded_record BillQueue r w im) s2"
    by (auto simp: persist_generation_def bill_image_def mark_content_def Let_def and_then_eq_Inr)
  obtain j where "j \<in> set (img_jobs s1)" "ij_record j = grc_id r"
    using settle ok1 by (cases rule: settle_cases) blast+
  note cost = copy_cost [OF ok1 copy1 this]
  have live1: "\<not> ij_released j" if "j \<in> set (img_jobs s1)" "ij_record j = grc_id r" for j
    using live [of j] that same by (simp add: same_tables_def)
  note st = settle_steps [OF settle [unfolded cost(2)] ok1 live1]
  have core: "record_core (succeeded_record BillQueue r w im) = record_core r"
    by (auto simp: succeeded_record_def record_core_def cost)
  have "copy_of r s2" using copy1 st(3) by (simp add: copy_of_def)
  then have "hold_step s2 s'"
    unfolding s' using st(2) by (intro save_step [OF hold_step_ok [OF st(1) ok1] _ core]) simp_all
  then show ?thesis
    using st(1) same_tables_step [OF same]
    by (meson converse_rtranclp_into_rtranclp r_into_rtranclp)
qed

text \<open>A job at work under a token has not given back its credit.\<close>

lemma leased_live:
  assumes "image_ok s" and "x \<in> set (img_jobs s)" "leased_image k token x" "token \<noteq> ''''"
  shows "image_working x" "\<not> ij_released x"
  using job_okD(3,5) [OF image_okD(6) [OF assms(1,2)]] assms(3,4) image_working_active
  by (auto simp: leased_image_def)

text \<open>The record a leased job is executed with is the job's.\<close>

definition runs :: "uid \<Rightarrow> string \<Rightarrow> image_record \<Rightarrow> image_db \<Rightarrow> bool" where
  "runs k token r s \<longleftrightarrow> token \<noteq> '''' \<and>
     (\<forall>j \<in> set (img_jobs s). leased_image k token j \<longrightarrow> ij_record j = grc_id r)"

lemma drop_spool_step: "hold_step s (drop_spool r s)"
  unfolding drop_spool_def by (rule jobs_step) (simp add: row_simps)

lemma resume_steps:
  assumes run: "resume_queued_generation_spool user r k token im now s = Inr s'" and ok: "image_ok s"
    and copy: "copy_of r s" and runs: "runs k token r s"
  shows "hold_step\<^sup>*\<^sup>* s s'"
proof -
  obtain w s1 where w: "create_image_work user (grc_id r) im s = (w, s1)" by fastforce
  note same = work_step [OF w]
  have ok1: "image_ok s1" and copy1: "copy_of r s1" and jobs1: "img_jobs s1 = img_jobs s"
    using same_tables_ok [OF same ok] copy same by (simp_all add: copy_of_def same_tables_def)
  from run obtain j where "first_where (\<lambda>j. ij_id j = k \<and> ij_lease_token j = token) (img_jobs s) = Some j"
    by (auto simp: resume_queued_generation_spool_def split: if_splits)
  from first_where_Some [OF this] have j: "j \<in> set (img_jobs s1)" "leased_image k token j"
    by (auto simp: leased_image_def jobs1)
  then have rec: "ij_record j = grc_id r" and nr: "\<not> ij_released j"
    using runs leased_live [OF ok1 j(1,2)] by (auto simp: runs_def jobs1)
  note cost = copy_cost [OF ok1 copy1 j(1) rec]
  let ?g = "\<lambda>x. x\<lparr>grc_work := Some w, grc_status := record_succeeded, grc_stage := ''succeeded'',
      grc_asset_key := sti_asset_key im, grc_preview_url := image_url im w ''file'',
      grc_download_url := image_url im w ''download'', grc_mime_type := sti_mime_type im,
      grc_credits_deducted := True\<rparr>"
  from run w obtain n s2 where
    settle: "settle_queued_generation_credits user (grc_id r) 1 s1 = Inr (n, s2)" and
    s': "s' = update_image_jobs (leased_image k token) (succeeded_row now)
      (update_image_records (\<lambda>x. grc_id x = grc_id r \<and> record_open x) ?g s2)"
    by (auto simp: resume_queued_generation_spool_def leased_image_def [abs_def] Let_def and_then_eq_Inr cost
        split: if_splits)
  have live: "\<not> ij_released x" if "x \<in> set (img_jobs s1)" "ij_record x = grc_id r" for x
    using same_record_same_job [OF ok1 that(1) j(1)] that(2) rec nr by simp
  note st = settle_steps [OF settle ok1 live]
  let ?s3 = "update_image_records (\<lambda>x. grc_id x = grc_id r \<and> record_open x) ?g s2"
  have a: "hold_step s2 ?s3" by (rule records_step) (use st(2) in \<open>auto simp: record_core_def\<close>)
  have runs2: "ij_settled x" if "x \<in> set (img_jobs s2)" "leased_image k token x" for x
  proof -
    have id: "ij_id x = ij_id j" using that(2) j(2) by (simp add: leased_image_def)
    have "ij_record x = grc_id r"
      using settle ok1
    proof (cases rule: settle_cases)
      case (1 j')
      then show ?thesis using that runs by (auto simp: runs_def jobs1)
    next
      case (2 j')
      let ?y = "j'\<lparr>ij_settled := True, ij_reserved := 0\<rparr>"
      from 2(6) have "img_jobs s2 = ij_tab.put ?y (img_jobs s1)" by auto
      then have "x = ?y \<or> x \<in> set (img_jobs s1)"
        using that(1) ij_tab.set_put [OF image_okD(1) [OF ok1] 2(1), of ?y] by auto
      then show ?thesis
      proof
        assume "x = ?y"
        then show ?thesis using 2(2) by simp
      next
        assume "x \<in> set (img_jobs s1)"
        then show ?thesis using that(2) runs by (simp add: runs_def jobs1)
      qed
    qed
    then show ?thesis using st(2) that(1) by (simp add: settled_record_def)
  qed
  have "hold_step ?s3 s'"
    unfolding s' by (rule jobs_step) (use runs2 in \<open>auto simp: row_simps succeeded_row_def\<close>)
  then show ?thesis
    using st(1) a same_tables_step [OF same] by (meson converse_rtranclp_into_rtranclp r_into_rtranclp)
qed

lemma schedule_steps:
  assumes "image_ok s" and "token \<noteq> ''''"
  shows "hold_step s (schedule_retry k token r e attempts next s)" "hold_step s (schedule_persist k token m next s)"
  unfolding schedule_retry_def schedule_persist_def
  by (rule jobs_step; use leased_live [OF assms(1) _ _ assms(2)] in \<open>auto simp: row_simps\<close>)+

lemma reopen_step: "hold_step s (reopen_record stage r s)"
  unfolding reopen_record_def by (rule records_step) (auto simp: record_core_def)

lemma note_failure_step: "hold_step s (note_provider_failure r s)"
  unfolding note_provider_failure_def by (rule records_step) (auto simp: record_core_def)

text \<open>A run that reports success has settled its job.\<close>

definition run_settled :: "uid \<Rightarrow> string \<Rightarrow> run_outcome \<Rightarrow> image_db \<Rightarrow> bool" where
  "run_settled k token out s \<longleftrightarrow>
     (rou_failure out = None \<and> rou_error out = None \<and> grc_status (rou_record out) = record_succeeded \<longrightarrow>
       (\<forall>j \<in> set (img_jobs s). leased_image k token j \<longrightarrow> ij_settled j))"

lemma end_run_steps:
  assumes "image_ok s" and "run_settled k token out s"
  shows "hold_step\<^sup>*\<^sup>* s (end_run k token out attempts now s)"
proof (cases "rou_failure out = None \<and> rou_error out = None \<and> grc_status (rou_record out) = record_succeeded")
  case True
  then have "hold_step s (finish_succeeded_job k token attempts now s)"
    unfolding finish_succeeded_job_def using assms(2)
    by (intro jobs_step) (auto simp: run_settled_def row_simps)
  with True show ?thesis by (simp add: end_run_def r_into_rtranclp)
next
  case False
  then show ?thesis unfolding end_run_def by (simp only: if_False fail_quietly_steps [OF assms(1)])
qed

lemma persist_later_steps:
  assumes ok: "image_ok s" and token: "token \<noteq> ''''" and settled: "run_settled k token out s"
  shows "hold_step\<^sup>*\<^sup>* s (persist_later k token out attempts expired now s)"
proof (cases "rou_error out")
  case None
  then show ?thesis using end_run_steps [OF ok settled] by (simp add: persist_later_def)
next
  case (Some e)
  have "run_settled k token out s'" for s' using Some by (simp add: run_settled_def)
  then have ends: "hold_step\<^sup>*\<^sup>* s' (end_run k token out attempts now s')" if "image_ok s'" for s'
    using end_run_steps that by blast
  let ?s1 = "schedule_persist k token (rou_message out) (now + 15 * second) s"
  have s1: "hold_step s ?s1" by (rule schedule_steps(2) [OF ok token])
  then have "hold_step\<^sup>*\<^sup>* s (reopen_record ''persisting'' (rou_record out) ?s1)"
    "hold_step\<^sup>*\<^sup>* s (end_run k token out attempts now ?s1)"
    using reopen_step [of ?s1] ends [OF hold_step_ok [OF s1 ok]]
    by (meson converse_rtranclp_into_rtranclp r_into_rtranclp)+
  then show ?thesis
    using Some ends [OF ok] fail_quietly_steps [OF ok]
    by (auto simp: persist_later_def Let_def split: image_error.split option.split)
qed

lemma conclude_steps:
  assumes ok: "image_ok s" and token: "token \<noteq> ''''" and settled: "run_settled k token out s"
  shows "hold_step\<^sup>*\<^sup>* s (conclude_queued_run k token out attempts jittered expired now s)"
proof (cases "rou_failure out")
  case None
  then show ?thesis using persist_later_steps [OF assms] by (simp add: conclude_queued_run_def)
next
  case (Some e)
  let ?s1 = "note_provider_failure (rou_record out) s"
  let ?s2 = "schedule_retry k token (rou_record out) e attempts (now + retry_pause jittered e attempts) ?s1"
  have set: "run_settled k token out s'" for s' using Some by (simp add: run_settled_def)
  have s1: "hold_step s ?s1" by (rule note_failure_step)
  note ok1 = hold_step_ok [OF s1 ok]
  have s2: "hold_step ?s1 ?s2" by (rule schedule_steps(1) [OF ok1 token])
  note ok2 = hold_step_ok [OF s2 ok1]
  have "hold_step\<^sup>*\<^sup>* ?s1 (reopen_record ''retry_wait'' (rou_record out) ?s2)"
    "hold_step\<^sup>*\<^sup>* ?s1 (persist_later k token out attempts expired now ?s2)"
    using s2 reopen_step [of ?s2] persist_later_steps [OF ok2 token set]
    by (meson converse_rtranclp_into_rtranclp r_into_rtranclp)+
  then have "hold_step\<^sup>*\<^sup>* ?s1 (conclude_queued_run k token out attempts jittered expired now s)"
    using persist_later_steps [OF ok1 token set] by (simp add: conclude_queued_run_def Let_def Some)
  with s1 show ?thesis by (meson converse_rtranclp_into_rtranclp)
qed

lemma spooled_steps:
  assumes ok: "image_ok s" and copy: "copy_of r s" and runs: "runs (ij_id j) token r s"
  shows "hold_step\<^sup>*\<^sup>* s (run_spooled_job user r j token stored err_text expired now s)"
proof -
  have token: "token \<noteq> ''''" using runs by (simp add: runs_def)
  show ?thesis
    unfolding run_spooled_job_def
    using resume_steps [OF _ ok copy runs] fail_quietly_steps [OF ok] r_into_rtranclp [of hold_step, OF schedule_steps(2) [OF ok token]]
    by (auto simp: Let_def split: sum.splits)
qed

section \<open>Canceling\<close>

lemma cancel_mark_step: "hold_step s (update_image_jobs P (\<lambda>x. x\<lparr>ij_cancel_requested_at := t\<rparr>) s)"
  by (rule jobs_step) (simp add: row_simps)

lemma cancel_image_job_steps:
  assumes "cancel_image_job j now s = Inr s'" and "image_ok s"
  shows "hold_step\<^sup>*\<^sup>* s s'"
proof -
  let ?s1 = "update_image_jobs (\<lambda>x. ij_id x = ij_id j) (\<lambda>x. x\<lparr>ij_cancel_requested_at := Some now\<rparr>) s"
  have s1: "hold_step s ?s1" by (rule cancel_mark_step)
  have "hold_step\<^sup>*\<^sup>* ?s1 s'"
    using assms(1) fail_steps(1) [OF _ hold_step_ok [OF s1 assms(2)]]
    by (auto simp: cancel_image_job_def Let_def split: option.splits sum.splits if_splits)
  with s1 show ?thesis by (meson converse_rtranclp_into_rtranclp)
qed

lemma cancel_open_step: "hold_step s (cancel_open_record video user r now s)"
  unfolding cancel_open_record_def by (rule records_step) (auto simp: record_core_def)

lemma cancel_reply:
  "snd (case (a, b) of (None, _) \<Rightarrow> (Inl x, s) | (_, None) \<Rightarrow> (Inl y, s) | (Some u, Some v) \<Rightarrow> (f u v, s)) = s"
  by (cases a; cases b) simp_all

lemma cancel_steps:
  assumes ok: "image_ok s"
  shows "hold_step\<^sup>*\<^sup>* s (snd (handle_cancel_image_generation video user k now s))"
proof (cases "first_where (\<lambda>r. grc_id r = k \<and> grc_user r = user \<and> \<not> video (grc_id r)) (img_records s)")
  case (Some r)
  define stopped where "stopped = (case generation_queue_projection k s of
      Some j \<Rightarrow> if is_active_generation_record_status (grc_status r) then cancel_image_job j now s else Inr s
    | None \<Rightarrow> Inr s)"
  show ?thesis
  proof (cases stopped)
    case (Inl e)
    then show ?thesis using Some r_into_rtranclp [of hold_step, OF cancel_mark_step]
      by (simp add: handle_cancel_image_generation_def Let_def stopped_def [symmetric])
  next
    case (Inr s1)
    then have s1: "hold_step\<^sup>*\<^sup>* s s1"
      using cancel_image_job_steps [OF _ ok] by (auto simp: stopped_def split: option.splits if_splits)
    define r1 where "r1 = (case record_row k s1 of Some x \<Rightarrow> x | None \<Rightarrow> r)"
    define s2 where "s2 = (if is_active_generation_record_status (grc_status r1)
      then cancel_open_record video user r1 now s1 else s1)"
    have "snd (handle_cancel_image_generation video user k now s) = s2"
      by (simp only: handle_cancel_image_generation_def Some Inr option.case sum.case Let_def
          stopped_def [symmetric] r1_def [symmetric] s2_def [symmetric] cancel_reply)
    moreover have "hold_step\<^sup>*\<^sup>* s1 s2"
      using cancel_open_step by (simp add: s2_def r_into_rtranclp)
    ultimately show ?thesis using s1 by simp
  qed
qed (simp add: handle_cancel_image_generation_def)

section \<open>Requests\<close>

text \<open>
  What the HTTP handlers, the dispatcher and the workers do, in any order: a worker's steps
  refer to the copy of the record it holds. An image is persisted by a worker only while its
  job has not been released (\<^verbatim>\<open>ensureGenerationRecordStillActive\<close> and the canceled
  context see to that in one process).
\<close>

inductive queue_request :: "image_db \<Rightarrow> image_db \<Rightarrow> bool" where
  submitted: "enqueue_generation_job c cfg t explicit entry_point auto fresh now s = Inr ((r, j, reused), s') \<Longrightarrow> queue_request s s'"
| claimed: "claim_generation_queue_job cfg owner token now s = Some (j, s') \<Longrightarrow> queue_request s s'"
| given_back: "queue_request s (return_claimed_generation_job_to_queue k token s)"
| slot_tried: "try_acquire_image_execution_lease settings providers owner m token now s = (b, s') \<Longrightarrow> queue_request s s'"
| slot_renewed: "queue_request s (renew_image_execution_lease token now s)"
| slot_released: "queue_request s (release_image_execution_lease token s)"
| job_renewed: "queue_request s (snd (renew_generation_queue_lease_once k token now s))"
| expired: "queue_request s (snd (expire_queued_generation_jobs now s))"
| recovered: "queue_request s (snd (recover_generation_queue now s))"
| refused: "fail_claimed_generation_job k token error_code message now s = Inr s' \<Longrightarrow> queue_request s s'"
| begun: "copy_of r s \<Longrightarrow> queue_request s (snd (begin_generation r s))"
| received: "copy_of r s \<Longrightarrow> queue_request s (snd (receive_generation r a s))"
| record_failed: "copy_of r s \<Longrightarrow> queue_request s (fail_generation_record r error_code message s)"
| persisted: "persist_generation BillQueue user trace r im s = Inr (x, s') \<Longrightarrow> copy_of r s \<Longrightarrow>
    (\<And>j. j \<in> set (img_jobs s) \<Longrightarrow> ij_record j = grc_id r \<Longrightarrow> \<not> ij_released j) \<Longrightarrow> queue_request s s'"
| spool_dropped: "queue_request s (drop_spool r s)"
| spooled: "copy_of r s \<Longrightarrow> runs (ij_id j) token r s \<Longrightarrow>
    queue_request s (run_spooled_job user r j token stored err_text spool_expired now s)"
| concluded: "token \<noteq> '''' \<Longrightarrow> run_settled k token out s \<Longrightarrow>
    queue_request s (conclude_queued_run k token out attempts jittered spool_expired now s)"
| cancelled: "queue_request s (snd (handle_cancel_image_generation video user k now s))"

theorem request_steps: "queue_request s s' \<Longrightarrow> image_ok s \<Longrightarrow> hold_step\<^sup>*\<^sup>* s s'"
proof (induction rule: queue_request.induct)
  case (persisted user trace r im s x s')
  show ?case by (rule persist_steps [OF persisted.hyps(1) persisted.prems persisted.hyps(2)]) (rule persisted.hyps(3))
next
  case (slot_tried settings providers owner m token now s b s')
  then show ?case using same_tables_step [OF lease_steps(1)] by blast
next
  case (slot_renewed s token now)
  show ?case using same_tables_step [OF lease_steps(2)] by blast
next
  case (slot_released s token)
  show ?case using same_tables_step [OF lease_steps(3)] by blast
next
  case (submitted c cfg t explicit entry_point auto fresh now s r j reused s')
  then show ?case by (rule enqueue_steps)
next
  case (spooled r s j token user stored err_text spool_expired now)
  show ?case by (rule spooled_steps [OF spooled.prems spooled.hyps])
next
  case (concluded token k out s attempts jittered spool_expired now)
  show ?case by (rule conclude_steps [OF concluded.prems concluded.hyps])
qed (simp_all add: r_into_rtranclp claim_step give_back_step renew_step expire_steps recover_steps fail_steps(1)
    begin_step receive_steps fail_record_step drop_spool_step cancel_steps)

lemma requests_steps: "queue_request\<^sup>*\<^sup>* s s' \<Longrightarrow> image_ok s \<Longrightarrow> hold_step\<^sup>*\<^sup>* s s'"
proof (induction rule: rtranclp_induct)
  case (step y z)
  then show ?case using request_steps [of y z] hold_steps_ok [of s y] by (meson rtranclp_trans)
qed simp

end
