(* ===== verification/ImageClaims.thy ===== *)
theory ImageClaims
  imports ImageSteps "HOL-Library.Multiset"
begin

text \<open>
  The properties of the image queue: the credits of every image are accounted for and move
  once, requests stay within the limits of the queue and of the executors, and the waiting
  images are served in a fair order.
\<close>

section \<open>Order\<close>

text \<open>Priority first, then the users with the fewest running images, then the time of submission.\<close>

definition service_key :: "(uid \<Rightarrow> nat) \<Rightarrow> image_job \<Rightarrow> int \<times> nat \<times> time \<times> uid" where
  "service_key active j = (- ij_priority j, active (ij_user j), ij_queued_at j, ij_id j)"

lemma fairest_best:
  assumes "\<forall>c \<in> set cs. dispatch_key sel \<le> dispatch_key c" and "sorted (map dispatch_key cs)"
  shows "fairest active sel cs \<in> set (sel # cs) \<and> ij_priority (fairest active sel cs) = ij_priority sel \<and>
    (\<forall>x \<in> set (sel # cs). service_key active (fairest active sel cs) \<le> service_key active x)"
  using assms
proof (induction cs arbitrary: sel)
  case (Cons c cs)
  show ?case
  proof (cases "ij_priority c = ij_priority sel")
    case False
    have "ij_priority x < ij_priority sel" if "x \<in> set (c # cs)" for x
    proof -
      have "dispatch_key c \<le> dispatch_key x" "dispatch_key sel \<le> dispatch_key c" using Cons.prems that by auto
      then show ?thesis using False by (auto simp: dispatch_key_def less_eq_prod_def)
    qed
    then show ?thesis using False by (auto simp: service_key_def less_eq_prod_def)
  next
    case True
    define b where "b = (if active (ij_user c) < active (ij_user sel) then c else sel)"
    have le: "\<forall>x \<in> set cs. dispatch_key b \<le> dispatch_key x" "sorted (map dispatch_key cs)"
      using Cons.prems by (auto simp: b_def)
    have bp: "ij_priority b = ij_priority sel" using True by (simp add: b_def)
    have key: "dispatch_key sel \<le> dispatch_key c" using Cons.prems by simp
    have best: "service_key active b \<le> service_key active x" if "x = sel \<or> x = c" for x
      using that key True by (auto simp: b_def service_key_def dispatch_key_def less_eq_prod_def)
    have f: "fairest active sel (c # cs) = fairest active b cs" using True by (simp add: b_def)
    note IH = Cons.IH [OF le]
    have "fairest active b cs \<in> set (sel # c # cs)" using IH by (auto simp: b_def split: if_splits)
    moreover have "service_key active (fairest active b cs) \<le> service_key active x" if x: "x \<in> set (sel # c # cs)" for x
    proof (cases "x \<in> set cs")
      case False
      then have "x = sel \<or> x = c" using x by auto
      from best [OF this] IH show ?thesis by (meson list.set_intros(1) order_trans)
    qed (use IH in simp)
    ultimately show ?thesis using IH bp unfolding f by simp
  qed
qed simp

lemma candidates_sorted: "sorted (map dispatch_key (claim_candidates cfg now s))"
  unfolding claim_candidates_def take_map [symmetric] by (simp add: sorted_wrt_take)

lemma candidate_rows:
  "set (claim_candidates cfg now s) \<subseteq> {x \<in> set (img_jobs s). claimable_image now x}"
  unfolding claim_candidates_def using set_take_subset by fastforce


lemma capacity_pos: "0 < generation_queue_capacity cfg"
  by (simp add: generation_queue_capacity_def)

lemma selected_candidate:
  assumes "select_fair_generation_candidate active cs = Some j" and "sorted (map dispatch_key cs)"
  shows "j \<in> set cs" and "\<And>x. x \<in> set cs \<Longrightarrow> service_key active j \<le> service_key active x"
proof -
  obtain c cs' where cs: "cs = c # cs'" "j = fairest active c cs'"
    using assms(1) by (auto simp: select_fair_generation_candidate_def split: list.splits)
  note best = fairest_best [of cs' c active]
  show "j \<in> set cs" using best assms(2) by (simp add: cs)
  show "service_key active j \<le> service_key active x" if "x \<in> set cs" for x
    using best assms(2) that by (auto simp: cs)
qed



text \<open>
  C8. Whenever some image can be claimed, a claim succeeds and leaves a job running under its
  token with a lease of the full duration.
\<close>
theorem claimable_image_is_claimed:
  assumes "image_ok s" and "x \<in> set (img_jobs s)" "claimable_image now x"
  shows "\<exists>j s' y. claim_generation_queue_job cfg owner token now s = Some (j, s') \<and> y \<in> set (img_jobs s') \<and>
    ij_id y = ij_id j \<and> ij_status y = ImageRunning \<and> ij_lease_token y = token \<and>
    ij_lease_expires_at y = Some (now + image_lease_ttl)"
proof -
  let ?cs = "claim_candidates cfg now s"
  have "sort_key dispatch_key (filter (claimable_image now) (img_jobs s)) \<noteq> []"
    using assms(2,3) by (metis (mono_tags, lifting) mem_Collect_eq set_empty set_filter set_sort emptyE)
  then have "?cs \<noteq> []" using capacity_pos [of cfg] by (simp add: claim_candidates_def)
  then obtain j where j: "select_fair_generation_candidate (working_images s) ?cs = Some j"
    by (cases ?cs) (simp_all add: select_fair_generation_candidate_def)
  have row: "j \<in> set (img_jobs s)" "claimable_image now j"
    using selected_candidate(1) [OF j candidates_sorted] candidate_rows by blast+
  then have wait: "image_waiting j" by (simp add: claimable_image_def)
  have one: "count_where (\<lambda>x. ij_id x = ij_id j \<and> image_waiting x) (img_jobs s) = 1"
    using ij_tab.count_one [OF image_okD(1) [OF assms(1)], of "\<lambda>x. ij_id x = ij_id j \<and> image_waiting x" "ij_id j"]
      row(1) wait by blast
  let ?f = "\<lambda>x. x\<lparr>ij_status := ImageRunning, ij_stage := ''recovering'', ij_lease_owner := owner,
    ij_lease_token := token, ij_lease_expires_at := Some (now + image_lease_ttl), ij_claimed_at := Some now,
    ij_started_at := Some now\<rparr>"
  have "?f j \<in> set (update_where (\<lambda>x. ij_id x = ij_id j \<and> image_waiting x) ?f (img_jobs s))"
    unfolding set_update_where using row(1) wait by force
  moreover have "claim_generation_queue_job cfg owner token now s =
      Some (j\<lparr>ij_lease_token := token, ij_lease_owner := owner, ij_lease_expires_at := Some (now + image_lease_ttl)\<rparr>,
        update_image_jobs (\<lambda>x. ij_id x = ij_id j \<and> image_waiting x) ?f s)"
    using j one by (simp add: claim_generation_queue_job_def Let_def)
  ultimately show ?thesis
    by (intro exI conjI) (assumption, simp, assumption?, simp_all)
qed

lemma rank_in_sorted:
  fixes f :: "'a \<Rightarrow> 'k::linorder"
  assumes "sorted (map f xs)" and "distinct (map f xs)" and "i < length xs"
  shows "length (filter (\<lambda>x. f x \<le> f (xs ! i)) xs) = Suc i"
proof -
  have "f (xs ! k) \<le> f (xs ! i) \<longleftrightarrow> k \<le> i" if "k < length xs" for k
    using assms that sorted_nth_mono [OF assms(1)] nth_eq_iff_index_eq [OF assms(2)]
    by (metis (no_types, lifting) antisym length_map nat_le_linear nth_map)
  then have "{k. k < length xs \<and> f (xs ! k) \<le> f (xs ! i)} = {..i}" using assms(3) by auto
  then show ?thesis by (simp add: length_filter_conv_card)
qed

lemma queue_position_rank:
  "image_waiting j \<Longrightarrow> queue_position j s =
     length (filter (\<lambda>x. dispatch_key x \<le> dispatch_key j) (filter image_waiting (img_jobs s)))"
  by (auto simp: queue_position_def count_where_def dispatch_key_def less_eq_prod_def intro!: arg_cong [where f = length]
      filter_cong)

lemma length_filter_sort: "length (filter P (sort_key f xs)) = length (filter P xs)"
proof -
  have "mset (filter P (sort_key f xs)) = mset (filter P xs)" by simp
  then show ?thesis by (rule mset_eq_length)
qed

text \<open>
  C14. The positions that are counted row by row are the places of the waiting images in the order
  in which the queue is read: 1, 2, 3 and so on.
\<close>
theorem queue_positions_count_up:
  assumes "image_ok s"
  shows "map (\<lambda>j. queue_position j s) (sort_key dispatch_key (filter image_waiting (img_jobs s))) =
    [1..<Suc (count_where image_waiting (img_jobs s))]" (is "map _ ?w = _")
proof (rule nth_equalityI)
  have "inj_on dispatch_key (set ?w)"
    using ij_tab.unique_same [OF image_okD(1) [OF assms]] by (auto simp: inj_on_def dispatch_key_def)
  then have d: "distinct (map dispatch_key ?w)"
    using image_okD(1) [OF assms] by (simp add: distinct_map ij_tab.unique_def)
  fix i assume "i < length (map (\<lambda>j. queue_position j s) ?w)"
  then have i: "i < length ?w" by simp
  then have "?w ! i \<in> set ?w" by (rule nth_mem)
  then have "image_waiting (?w ! i)" by simp
  then have "queue_position (?w ! i) s = length (filter (\<lambda>x. dispatch_key x \<le> dispatch_key (?w ! i)) ?w)"
    by (simp only: queue_position_rank length_filter_sort)
  also have "\<dots> = Suc i" using rank_in_sorted [OF _ d i] by simp
  finally show "map (\<lambda>j. queue_position j s) ?w ! i = [1..<Suc (count_where image_waiting (img_jobs s))] ! i"
    using i by (simp add: count_where_def del: upt_Suc)
qed (simp add: count_where_def del: upt_Suc)

section \<open>Limits\<close>

lemma retire_counts:
  assumes "retire_expired_key user key fresh s = Inr s'" and "\<And>j k. P (j\<lparr>ij_key := k\<rparr>) = P j"
  shows "count_where P (img_jobs s') = count_where P (img_jobs s)"
proof -
  have "count_where P (update_where Q (\<lambda>j. j\<lparr>ij_key := g j\<rparr>) t) = count_where P t" for Q g t
    by (induction t) (simp_all add: assms(2))
  then show ?thesis using retire_expired_key_step [OF assms(1)] by auto
qed

lemma new_job_rows:
  assumes "claim_new_job c cfg t key entry_point snapshot fingerprint fresh now s = Inr ((r, j, reused), s')"
  obtains s1 where "retire_expired_key (tsk_user t) key fresh s = Inr s1" "\<not> image_queue_full cfg (tsk_user t) s1"
    "img_jobs s' = img_jobs s1 @ [j]" "\<not> list_ex (keyed_image_job (tsk_user t) key) (img_jobs s1)"
    "j = (new_image_job cfg t (grc_id r) entry_point snapshot fingerprint key now)\<lparr>ij_id := ij_id j\<rparr>"
    "img_records s' = img_records s @ [r]" "grc_id r = next_key grc_id (img_records s)" "\<not> reused"
proof -
  from assms obtain s1 s2 s3 s4 b0 where
    s1: "retire_expired_key (tsk_user t) key fresh s = Inr s1" "\<not> image_queue_full cfg (tsk_user t) s1" and
    s2: "hold_image_credits (tsk_user t) (generation_job_credit_cost t) s1 = Inr s2" and
    s3: "create_generation_record (new_image_record t fingerprint now) s2 = (r, s3)" and
    s4: "insert_image_job (new_image_job cfg t (grc_id r) entry_point snapshot fingerprint key now) s3 = Inr (j, s4)" and
    s5: "record_image_credits GenerationReserve ''reserve'' (- ij_reserved j) image_hold_reason j s4 = Inr (b0, s')"
    and "\<not> reused"
    unfolding claim_new_job_def split_def
    by (auto simp: and_then_eq_Inr prod_eq_iff split: if_splits)
  have "img_records s1 = img_records s" using retire_expired_key_step [OF s1(1)] by auto
  moreover have "img_jobs s2 = img_jobs s1" "img_records s2 = img_records s1"
    using s2 by (auto simp: hold_image_credits_def Let_def update_balances_def split: if_splits)
  moreover have "r = (new_image_record t fingerprint now)\<lparr>grc_id := next_key grc_id (img_records s2)\<rparr>"
    "s3 = s2\<lparr>img_records := img_records s2 @ [r]\<rparr>" using s3 by (auto simp: create_generation_record_def Let_def)
  moreover note insert_image_job_Inr [OF s4] record_image_credits_Inr [OF s5]
  ultimately show thesis using that [of s1] s1 \<open>\<not> reused\<close> by (auto simp: new_image_job_def)
qed

lemma enqueue_new:
  assumes "enqueue_generation_job c cfg t explicit entry_point auto fresh now s = Inr ((r, j, False), s')"
  obtains snapshot fingerprint where "generation_queue_snapshot_for c t = Some (snapshot, fingerprint)" "tsk_user t \<noteq> 0"
    "claim_new_job c cfg t (generation_queue_idempotency_key (tsk_request t) explicit auto) entry_point snapshot
       fingerprint fresh now s = Inr ((r, j, False), s')"
  using assms by (auto simp: enqueue_generation_job_def Let_def split: if_splits option.splits)

text \<open>
  C12. After a new image was admitted, the active images are within the capacity of the queue and
  those of the user within the limit per user; the image belongs to the user, waits, and expires
  after the timeout.
\<close>
theorem images_admitted_within_limits:
  assumes "enqueue_generation_job c cfg t explicit entry_point auto fresh now s = Inr ((r, j, False), s')"
  shows "int (count_where image_active (img_jobs s')) \<le> generation_queue_capacity cfg \<and>
    int (count_where (\<lambda>x. ij_user x = tsk_user t \<and> image_active x) (img_jobs s')) \<le> generation_user_pending_limit cfg \<and>
    ij_user j = tsk_user t \<and> ij_status j = ImageQueued \<and> ij_deadline_at j = now + generation_queue_timeout cfg"
  using assms
proof (cases rule: enqueue_new)
  case (1 snapshot fingerprint)
  from 1(3) show ?thesis
  proof (cases rule: new_job_rows)
    case (1 s1)
    have "ij_user j = tsk_user t \<and> ij_status j = ImageQueued \<and> ij_deadline_at j = now + generation_queue_timeout cfg"
      by (subst 1(5), subst 1(5), subst (2) 1(5)) (simp add: new_image_job_def)
    then show ?thesis using 1(2) by (simp add: image_queue_full_def 1(3) count_where_def)
  qed
qed

text \<open>
  C13. Sending a request again under the same key or the same place in a batch, before the key
  expires, returns the image that was submitted and changes nothing, even when the queue is full.
\<close>
theorem submission_again:
  assumes ok: "image_ok s"
    and first: "enqueue_generation_job c cfg t explicit entry_point auto fresh now s = Inr ((r, j, False), s')"
    and key: "\<not> blank explicit \<or> \<not> blank (irq_batch_id (tsk_request t))"
    and soon: "later < now + 30 * 24 * 60 * minute"
  shows "enqueue_generation_job c cfg' t explicit entry_point' auto' fresh' later s' = Inr ((r, j, True), s')"
  using first
proof (cases rule: enqueue_new)
  case (1 snapshot fingerprint)
  let ?key = "generation_queue_idempotency_key (tsk_request t) explicit auto"
  have same: "generation_queue_idempotency_key (tsk_request t) explicit auto' = ?key"
    using key by (auto simp: generation_queue_idempotency_key_def blank_def)
  from 1(3) show ?thesis
  proof (cases rule: new_job_rows)
    case rows: (1 s1)
    have j: "ij_user j = tsk_user t" "ij_key j = ?key" "ij_key_expires_at j = now + 30 * 24 * 60 * minute"
      "ij_fingerprint j = fingerprint" "ij_record j = grc_id r"
      by (subst rows(5), simp add: new_image_job_def)+
    have "first_where (\<lambda>x. keyed_image_job (tsk_user t) ?key x \<and> ij_key_expires_at x > later) (img_jobs s1) = None"
      using rows(4) by (auto simp: first_where_None list_ex_iff)
    then have found: "first_where (\<lambda>x. keyed_image_job (tsk_user t) ?key x \<and> ij_key_expires_at x > later) (img_jobs s') = Some j"
      unfolding rows(3) using j soon by (simp add: first_where_append first_where_single keyed_image_job_def)
    have "first_where (\<lambda>x. grc_id x = grc_id r) (img_records s) = None"
      unfolding first_where_None rows(7) using next_key_fresh [of _ "img_records s" grc_id] by force
    then have "first_where (\<lambda>x. grc_id x = grc_id r) (img_records s') = Some r"
      by (simp add: rows(6) first_where_append first_where_single)
    then show ?thesis
      using 1(1,2) found j by (simp add: enqueue_generation_job_def Let_def same)
  qed
qed

section \<open>Execution slots\<close>

inductive slot_step :: "int option \<Rightarrow> (uid \<Rightarrow> int option) \<Rightarrow> image_db \<Rightarrow> image_db \<Rightarrow> bool"
  for settings providers where
  "try_acquire_image_execution_lease settings providers owner m token now s = (b, s') \<Longrightarrow>
     slot_step settings providers s s'"
| "slot_step settings providers s (renew_image_execution_lease token now s)"
| "slot_step settings providers s (release_image_execution_lease token s)"

definition slots_ok :: "int option \<Rightarrow> (uid \<Rightarrow> int option) \<Rightarrow> execution_lease list \<Rightarrow> bool" where
  "slots_ok settings providers t \<longleftrightarrow> int (length t) \<le> current_generation_concurrency_limit settings \<and>
     (\<forall>p. p \<noteq> 0 \<longrightarrow> int (count_where (\<lambda>l. el_provider l = p) t) \<le>
        provider_execution_limit providers p (current_generation_concurrency_limit settings))"

lemma slots_ok_filter: "slots_ok settings providers t \<Longrightarrow> slots_ok settings providers (filter Q t)"
proof -
  have "length (filter P (filter Q t)) \<le> length (filter P t)" for P
    unfolding filter_filter by (induction t) auto
  then have "int (count_where P (filter Q t)) \<le> int (count_where P t)" for P by (simp add: count_where_def)
  moreover have "int (length (filter Q t)) \<le> int (length t)" by simp
  ultimately show "slots_ok settings providers t \<Longrightarrow> slots_ok settings providers (filter Q t)"
    unfolding slots_ok_def by (meson order_trans)
qed

lemma slot_step_ok: "slot_step settings providers s s' \<Longrightarrow> slots_ok settings providers (img_leases s) \<Longrightarrow>
  slots_ok settings providers (img_leases s')"
proof (induction rule: slot_step.induct)
  case (1 owner m token now s b s')
  let ?live = "filter (\<lambda>l. \<not> el_expires_at l \<le> now) (img_leases s)"
  have all: "count_where (\<lambda>l. el_expires_at l > now) ?live = length ?live"
    "count_where (\<lambda>l. el_provider l = p \<and> el_expires_at l > now) ?live = count_where (\<lambda>l. el_provider l = p) ?live" for p
    by (auto simp: count_where_def intro!: arg_cong [where f = length] filter_cong)
  show ?case
  proof (cases b)
    case False
    then show ?thesis using 1 by (auto simp: try_acquire_image_execution_lease_def Let_def split: if_splits)
  next
    case True
    then have "img_leases s' = ?live @ [new_execution_lease owner m token now (next_key el_id ?live)]"
      "int (length ?live) < current_generation_concurrency_limit settings"
      "lm_provider m \<noteq> 0 \<Longrightarrow> int (count_where (\<lambda>l. el_provider l = lm_provider m) ?live) <
         provider_execution_limit providers (lm_provider m) (current_generation_concurrency_limit settings)"
      using 1(1) unfolding try_acquire_image_execution_lease_def Let_def all by (auto split: if_splits)
    then show ?thesis
      using slots_ok_filter [OF 1(2), of "\<lambda>l. \<not> el_expires_at l \<le> now"]
      by (auto simp: slots_ok_def new_execution_lease_def count_where_def)
  qed
next
  case (2 s token now)
  have "count_where (\<lambda>l. el_provider l = p) (update_where Q (\<lambda>l. l\<lparr>el_expires_at := e\<rparr>) t) =
      count_where (\<lambda>l. el_provider l = p) t" for p Q e and t :: "execution_lease list"
    by (induction t) auto
  then show ?case using 2 by (simp add: renew_image_execution_lease_def slots_ok_def)
next
  case (3 s token)
  then show ?case using slots_ok_filter by (simp add: release_image_execution_lease_def)
qed

text \<open>
  C11. However execution slots are taken, prolonged and released, and whatever the clocks say,
  there are never more leases than the limit, nor more of one provider than its own limit.
\<close>
theorem execution_slots_bounded:
  assumes "(slot_step settings providers)\<^sup>*\<^sup>* s s'" and "img_leases s = []"
  shows "int (length (img_leases s')) \<le> current_generation_concurrency_limit settings \<and>
    (\<forall>p. p \<noteq> 0 \<longrightarrow> int (count_where (\<lambda>l. el_provider l = p) (img_leases s')) \<le>
       provider_execution_limit providers p (current_generation_concurrency_limit settings))"
proof -
  have "slots_ok settings providers (img_leases s)"
    by (simp add: assms(2) slots_ok_def current_generation_concurrency_limit_def provider_execution_limit_def
        split: option.split)
  with assms(1) have "slots_ok settings providers (img_leases s')"
    by (induction rule: rtranclp_induct) (auto intro: slot_step_ok)
  then show ?thesis by (simp add: slots_ok_def)
qed

section \<open>Credits\<close>



lemma users_kept:
  "(\<And>x. bal_user (f x) = bal_user x) \<Longrightarrow> bal_user ` set (update_where P f t) = bal_user ` set t"
proof -
  assume "\<And>x. bal_user (f x) = bal_user x"
  then have "bal_user (if P x then f x else x) = bal_user x" for x by simp
  then show ?thesis unfolding set_update_where image_image by simp
qed

lemma record_total:
  assumes "ij_user j \<in> bal_user ` set (balances s)"
  shows "record_image_credits kind event amount reason j s \<noteq> Inl e"
proof -
  obtain x where "first_where (\<lambda>b. bal_user b = ij_user j) (balances s) = Some x"
    using assms first_where_ex [of _ "balances s" "\<lambda>b. bal_user b = ij_user j"] by force
  then show ?thesis by (simp add: record_image_credits_def)
qed



lemma released_settles:
  assumes ok: "image_ok s" and j: "j \<in> set (img_jobs s)" "ij_released j" "ij_record j = k" "ij_user j = user"
    and other: "0 < held user s"
  obtains b n s' where "settle_queued_generation_credits user k 1 s = Inr (n, s')"
    "b \<in> set (balances s)" "bal_user b = user" "\<not> ij_settled j" "ij_reserved j = 0"
    "count_where (\<lambda>b. bal_user b = user \<and> bal_reserved b \<ge> 1) (balances s) \<noteq> 0"
proof -
  have okj: "job_ok j" by (rule image_okD(6) [OF ok j(1)])
  have ns: "\<not> ij_settled j" "ij_reserved j = 0" using job_okD(1,2) [OF okj] j(2) by auto
  have le: "1 \<le> reserved_of user s" using other image_okD(10) [OF ok, of user] by simp
  have "\<exists>b \<in> set (balances s). bal_user b = user"
  proof (rule ccontr)
    assume "\<not> ?thesis"
    then have "reserved_of user s = 0" unfolding reserved_of_def by (intro sum_where_zero) blast
    then show False using le by simp
  qed
  then obtain b where b: "b \<in> set (balances s)" "bal_user b = user" by blast
  have "1 \<le> bal_reserved b" using le sum_by_user [OF image_okD(4) [OF ok] b] by (simp add: reserved_of_def)
  with b have cnt: "count_where (\<lambda>b. bal_user b = user \<and> bal_reserved b \<ge> 1) (balances s) \<noteq> 0"
    by (auto simp: count_where_0)
  have f: "first_where (\<lambda>j. ij_record j = k \<and> ij_user j = user) (img_jobs s) = Some j"
  proof -
    obtain x where x: "first_where (\<lambda>j. ij_record j = k \<and> ij_user j = user) (img_jobs s) = Some x"
      using first_where_ex [of j "img_jobs s" "\<lambda>j. ij_record j = k \<and> ij_user j = user"] j by blast
    then have "x = j" using same_record_same_job [OF ok _ j(1), of x] j(3) by (auto dest: first_where_Some)
    with x show ?thesis by simp
  qed
  have "ij_user j \<in> bal_user ` set (balances s)" using b j(4) by (metis imageI)
  then have "settle_queued_generation_credits user k 1 s \<noteq> Inl e" for e
    using f ns(1) cnt by (auto simp: settle_queued_generation_credits_def Let_def and_then_eq_Inl record_total
        users_kept update_balances_def split: prod.splits)
  then obtain n s' where run: "settle_queued_generation_credits user k 1 s = Inr (n, s')"
    by (cases "settle_queued_generation_credits user k 1 s") auto
  with that b ns cnt show thesis by blast
qed

text \<open>
  C10. Settling an image that was released already does not fail when the same user has another
  image in the queue: it takes the credit that is reserved for the other one, and the books no
  longer agree.
\<close>
theorem late_settlement_takes_another_hold:
  assumes ok: "image_ok s" and j: "j \<in> set (img_jobs s)" "ij_released j" "ij_record j = k" "ij_user j = user"
    and other: "0 < held user s"
  shows "\<exists>n s'. settle_queued_generation_credits user k 1 s = Inr (n, s') \<and>
    held user s' = held user s \<and> reserved_of user s' = reserved_of user s - 1 \<and> \<not> image_ok s'"
proof -
  from ok j other obtain b n s' where run: "settle_queued_generation_credits user k 1 s = Inr (n, s')"
    and b: "b \<in> set (balances s)" "bal_user b = user" and ns: "\<not> ij_settled j" "ij_reserved j = 0"
    and cnt: "count_where (\<lambda>b. bal_user b = user \<and> bal_reserved b \<ge> 1) (balances s) \<noteq> 0"
    by (rule released_settles)
  from run ok show ?thesis
  proof (cases rule: settle_cases)
    case (1 x)
    then show ?thesis using same_record_same_job [OF ok 1(1) j(1)] j(3) ns by simp
  next
    case (2 x)
    have x: "x = j" using same_record_same_job [OF ok 2(1) j(1)] 2(2) j(3) by simp
    let ?y = "j\<lparr>ij_settled := True, ij_reserved := 0\<rparr>"
    have s': "balances s' = shifted user 0 (- 1) (balances s)" "img_jobs s' = ij_tab.put ?y (img_jobs s)"
      using 2(6) covered_shift(2) [OF cnt image_okD(4) [OF ok]] by (auto simp: x)
    have "?y \<in> set (img_jobs s')"
      unfolding s'(2) using ij_tab.set_put [OF image_okD(1) [OF ok] j(1), of ?y] by simp
    moreover have "\<not> job_ok ?y" using j(2) by (simp add: job_ok_def)
    ultimately have "\<not> image_ok s'" using image_okD(6) by blast
    moreover have "held user s' = held user s"
      by (simp add: held_def s'(2) put_sum [OF image_okD(1) [OF ok] j(1)] ns)
    moreover have "reserved_of user s' = reserved_of user s - 1"
      by (simp add: reserved_of_def s'(1) shifted_sums(2) [OF image_okD(4) [OF ok] b])
    ultimately show ?thesis using run by blast
  qed
qed

section \<open>A worked example\<close>

definition demo_images :: image_db where
  "demo_images = \<lparr>balances = [\<lparr>bal_id = 1, bal_user = 7, bal_available = 5, bal_reserved = 0\<rparr>],
     transactions = [], clock = 0, img_jobs = [], img_leases = [], img_records = [], img_works = [], img_marks = []\<rparr>"

definition image_demo_codec :: image_codec where
  "image_demo_codec = \<lparr>iqc_encode = (\<lambda>r. Some (irq_rest r)), iqc_digest = (\<lambda>x. x)\<rparr>"

definition demo_limits :: image_config where
  "demo_limits = \<lparr>igc_queue_capacity = 0, igc_user_pending_limit = 0, igc_queue_timeout_seconds = 0\<rparr>"

definition demo_task :: image_task where
  "demo_task = \<lparr>tsk_user = 7, tsk_request = \<lparr>irq_batch_id = '''', irq_batch_index = 0, irq_batch_total = 1,
     irq_rest = ''a cat''\<rparr>, tsk_candidate = None\<rparr>"

definition image_demo_submit :: "string \<Rightarrow> time \<Rightarrow> image_db \<Rightarrow> image_error + (image_record \<times> image_job \<times> bool) \<times> image_db" where
  "image_demo_submit key now = enqueue_generation_job image_demo_codec demo_limits demo_task key ''workspace_async'' ''a'' ''f'' now"

definition demo_one :: image_db where "demo_one = snd (projr (image_demo_submit ''k1'' 1 demo_images))"
definition demo_two :: image_db where "demo_two = snd (projr (image_demo_submit ''k2'' 2 demo_one))"
definition demo_cancelled :: image_db where
  "demo_cancelled = projr (fail_claimed_generation_job 1 '''' ''user_cancelled'' ''no'' 3 demo_two)"

definition demo_record :: "string \<Rightarrow> time \<Rightarrow> image_db \<Rightarrow> image_record" where
  "demo_record key now s = fst (fst (projr (image_demo_submit key now s)))"

definition image_demo_job :: "string \<Rightarrow> time \<Rightarrow> image_db \<Rightarrow> image_job" where
  "image_demo_job key now s = fst (snd (fst (projr (image_demo_submit key now s))))"

lemma demo_texts [simp]:
  "trim_space ''k1'' = ''k1''" "trim_space ''k2'' = ''k2''" "trim_space ''workspace_async'' = ''workspace_async''"
  "\<not> blank ''k1''" "\<not> blank ''k2''" "\<not> blank ''workspace_async''"
  by (simp_all add: trim_space_literal blank_def literal_bytes_def)

lemmas demo_image_defs = image_demo_submit_def demo_task_def image_demo_codec_def demo_limits_def enqueue_generation_job_def
  claim_new_job_def generation_queue_snapshot_for_def generation_queue_idempotency_key_def retire_expired_key_def
  image_queue_full_def generation_queue_capacity_def generation_user_pending_limit_def generation_queue_timeout_def
  hold_image_credits_def create_generation_record_def new_image_record_def new_image_job_def insert_image_job_def
  record_image_credits_def insert_transaction_def image_transaction_def generation_job_credit_cost_def
  generation_task_credit_cost_def fallback_string_def keyed_image_job_def image_active_def first_where_def next_key_def
  update_balances_def Let_def

lemma demo_run:
  "\<exists>r j s'. image_demo_submit ''k1'' 1 demo_images = Inr ((r, j, False), s')"
  "\<exists>r j s'. image_demo_submit ''k2'' 2 demo_one = Inr ((r, j, False), s')"
  "\<exists>s'. fail_claimed_generation_job 1 '''' ''user_cancelled'' ''no'' 3 demo_two = Inr s'"
  by (simp_all add: demo_images_def demo_one_def demo_two_def demo_image_defs fail_claimed_generation_job_def
      release_queued_generation_credits_def update_image_jobs_def update_image_records_def)

lemma demo_runs:
  "image_demo_submit ''k1'' 1 demo_images = Inr ((demo_record ''k1'' 1 demo_images, image_demo_job ''k1'' 1 demo_images, False), demo_one)"
  "image_demo_submit ''k2'' 2 demo_one = Inr ((demo_record ''k2'' 2 demo_one, image_demo_job ''k2'' 2 demo_one, False), demo_two)"
  "fail_claimed_generation_job 1 '''' ''user_cancelled'' ''no'' 3 demo_two = Inr demo_cancelled"
  using demo_run by (auto simp: demo_record_def image_demo_job_def demo_one_def demo_two_def demo_cancelled_def)

lemma demo_images_ok: "image_ok demo_images"
  by (auto simp: image_ok_def demo_images_def held_def reserved_of_def balance_ok_def ij_tab.unique_def
      grc_tab.unique_def bal_tab.unique_def)

lemma demo_images_reached: "queue_request\<^sup>*\<^sup>* demo_images demo_one" "queue_request\<^sup>*\<^sup>* demo_images demo_two"
  "queue_request\<^sup>*\<^sup>* demo_images demo_cancelled"
proof -
  have a: "queue_request demo_images demo_one" by (rule submitted [OF demo_runs(1) [unfolded image_demo_submit_def]])
  have b: "queue_request demo_one demo_two" by (rule submitted [OF demo_runs(2) [unfolded image_demo_submit_def]])
  have c: "queue_request demo_two demo_cancelled" by (rule refused [OF demo_runs(3)])
  show "queue_request\<^sup>*\<^sup>* demo_images demo_one" using a by blast
  then show "queue_request\<^sup>*\<^sup>* demo_images demo_two" using b by (rule rtranclp.rtrancl_into_rtrancl)
  then show "queue_request\<^sup>*\<^sup>* demo_images demo_cancelled" using c by (rule rtranclp.rtrancl_into_rtrancl)
qed

lemmas demo_image_state_defs = demo_images_def demo_one_def demo_two_def demo_cancelled_def demo_record_def image_demo_job_def
  demo_image_defs fail_claimed_generation_job_def release_queued_generation_credits_def update_image_jobs_def
  update_image_records_def

lemma demo_states_ok: "image_ok demo_one" "image_ok demo_two" "image_ok demo_cancelled"
  using hold_steps_ok [OF requests_steps [OF _ demo_images_ok] demo_images_ok] demo_images_reached by blast+

lemma image_demo_jobs:
  "image_demo_job ''k1'' 1 demo_images \<in> set (img_jobs demo_one)" "image_demo_job ''k1'' 1 demo_images \<in> set (img_jobs demo_two)"
  "image_demo_job ''k2'' 2 demo_one \<in> set (img_jobs demo_two)" "count_where image_waiting (img_jobs demo_two) = 2"
  "claimable_image 5 (image_demo_job ''k1'' 1 demo_images)" "claimable_image 5 (image_demo_job ''k2'' 2 demo_one)"
  "int (count_where (claimable_image 5) (img_jobs demo_two)) \<le> generation_queue_capacity demo_limits"
  by (simp_all add: demo_image_state_defs claimable_image_def image_waiting_def)

theorem claimable_image_is_claimed_witness:
  "\<exists>j s' y. claim_generation_queue_job demo_limits ''w'' ''t'' 5 demo_two = Some (j, s') \<and> y \<in> set (img_jobs s') \<and>
    ij_id y = ij_id j \<and> ij_status y = ImageRunning \<and> ij_lease_token y = ''t'' \<and>
    ij_lease_expires_at y = Some (5 + image_lease_ttl)"
  by (rule claimable_image_is_claimed [OF demo_states_ok(2) image_demo_jobs(3,6)])



theorem queue_positions_count_up_witness:
  "map (\<lambda>j. queue_position j demo_two) (sort_key dispatch_key (filter image_waiting (img_jobs demo_two))) = [1, 2]"
  using queue_positions_count_up [OF demo_states_ok(2)] by (simp add: image_demo_jobs(4) upt_rec)

theorem images_admitted_within_limits_witness:
  "int (count_where image_active (img_jobs demo_one)) \<le> 500"
  using images_admitted_within_limits [OF demo_runs(1) [unfolded image_demo_submit_def]]
  by (simp add: generation_queue_capacity_def demo_limits_def)

theorem submission_again_witness:
  "image_demo_submit ''k1'' 9 demo_one = Inr ((demo_record ''k1'' 1 demo_images, image_demo_job ''k1'' 1 demo_images, True), demo_one)"
  unfolding image_demo_submit_def
  by (rule submission_again [OF demo_images_ok demo_runs(1) [unfolded image_demo_submit_def]]) simp_all

definition demo_meta :: lease_meta where
  "demo_meta = \<lparr>lm_job = Some 1, lm_record = Some 1, lm_user = 7, lm_provider = 3, lm_channel = 1,
     lm_entry_point = ''workspace_async''\<rparr>"

lemma demo_slot:
  "fst (try_acquire_image_execution_lease (Some 2) (\<lambda>p. Some 1) ''w'' demo_meta ''t'' 5 demo_images)"
  "img_leases demo_images = []"
  by (simp_all add: demo_images_def demo_meta_def try_acquire_image_execution_lease_def Let_def
      current_generation_concurrency_limit_def provider_execution_limit_def)

theorem execution_slots_bounded_witness:
  "int (length (img_leases (snd (try_acquire_image_execution_lease (Some 2) (\<lambda>p. Some 1) ''w'' demo_meta ''t'' 5
     demo_images)))) \<le> 2"
proof -
  let ?s = "snd (try_acquire_image_execution_lease (Some 2) (\<lambda>p. Some 1) ''w'' demo_meta ''t'' 5 demo_images)"
  have "slot_step (Some 2) (\<lambda>p. Some 1) demo_images ?s" by (rule slot_step.intros(1)) (rule surjective_pairing)
  from execution_slots_bounded [OF r_into_rtranclp [of "slot_step (Some 2) (\<lambda>p. Some 1)", OF this] demo_slot(2)]
  show ?thesis by (simp add: current_generation_concurrency_limit_def)
qed


lemma demo_cancelled_job:
  "\<exists>j. img_jobs demo_cancelled = [j, image_demo_job ''k2'' 2 demo_one] \<and> ij_released j \<and> ij_record j = 1 \<and>
     ij_user j = 7 \<and> ij_id j = 1 \<and> \<not> image_active j"
  by (simp add: demo_image_state_defs fail_job_row_def)




theorem late_settlement_takes_another_hold_witness:
  "\<exists>n s'. settle_queued_generation_credits 7 1 1 demo_cancelled = Inr (n, s') \<and>
    held 7 s' = held 7 demo_cancelled \<and> reserved_of 7 s' = reserved_of 7 demo_cancelled - 1 \<and> \<not> image_ok s'"
proof -
  obtain j where j: "img_jobs demo_cancelled = [j, image_demo_job ''k2'' 2 demo_one]" "ij_released j" "ij_record j = 1" "ij_user j = 7"
    using demo_cancelled_job by blast
  have "ij_reserved j = 0" using image_okD(6) [OF demo_states_ok(3), of j] j(1,2) by (simp add: job_ok_def)
  moreover have "ij_user (image_demo_job ''k2'' 2 demo_one) = 7" "ij_reserved (image_demo_job ''k2'' 2 demo_one) = 1"
    by (simp_all add: demo_image_state_defs)
  ultimately have "0 < held 7 demo_cancelled" by (simp add: held_def j(1))
  then show ?thesis
    using late_settlement_takes_another_hold [OF demo_states_ok(3) _ j(2-4)] j(1) by simp
qed

end
