(* ===== verification/Observations.thy ===== *)
theory Observations
  imports AssetClaims BatchClaims
begin

text \<open>
  Behaviour of the code that its callers may not expect, each as a lemma about the model.
\<close>

text \<open>
  A guard left deleting, because the process died or the transaction after the store's deletion
  failed, blocks every later deletion of the object; nothing but the holder of its token takes
  it back.
\<close>

lemma guard_left_deleting_blocks:
  assumes "first_where (guard_of user (trim_space key)) (object_guards s) = Some g" and "grd_state g \<noteq> ''active''"
    and "normalized_storage_scope scope = commerce_private" and "user \<noteq> 0" and "\<not> blank key"
  shows "begin_object_deletion user scope key exclude token s = (Inl ErrObjectGuardUnavailable, s)"
proof -
  have "\<not> blank (trim_space key)" using assms(5) by (simp add: blank_def)
  then show ?thesis using assms by (simp add: begin_object_deletion_def ensure_object_guard_def Let_def)
qed

text \<open>
  A project whose status was set to deletion_requested by an update, without a time of the
  request, is read-only and is never finalized.
\<close>

lemma patched_deletion_never_finalized:
  assumes "lock_project_row_tx user project s = Inr p" and "prj_status p = ''deletion_requested''"
    and "prj_deletion_requested_at p = None"
  shows "finalize_project_deletion_tx user project now s = Inr s \<and>
    lock_writable_project_tx user project s = Inl ErrProjectDeletionRequested"
  using assms by (simp add: finalize_project_deletion_tx_def lock_writable_project_tx_def)

text \<open>A selection that names a SKU twice passes; the compiler then makes its items twice.\<close>

lemma repeated_sku_accepted:
  "validate_project_skus_tx user product k [k, k] s = validate_project_skus_tx user product k [k] s"
  by (simp add: validate_project_skus_tx_def split: option.split)

text \<open>
  A key with spaces around it is forbidden in the facts of the prompt, but printed on the image:
  \<^verbatim>\<open>confirmedLayoutTexts\<close> does not trim it.
\<close>

lemma untrimmed_fact_printed:
  "forbidden_fact '' price'' \<and> fact_text [('' price'', AnyString ''9'')] '' price'' = ['' price'' @ colon @ ''9'']"
proof -
  have "strip_one space_encodings '' price'' = Some ''price''"
    by (simp add: space_encodings_def char_of_def bit_Suc_0_iff)
  moreover have plain: "list_all plain_byte ''price''"
    using literal_bytes_plain by (simp add: literal_bytes_def)
  ultimately have "trim_left '' price'' = strip_all space_encodings ''price''"
    by (simp add: trim_left_def strip_all.simps [of space_encodings "'' price''"])
  then have "trim_space '' price'' = ''price''"
    using trim_space_plain [OF plain] by (simp add: trim_space_def trim_left_def)
  then have "forbidden_fact '' price''" by (simp add: forbidden_fact_def forbidden_fact_keys_def utf8_def lower_ascii_def char_of_def bit_Suc_0_iff)
  moreover have "lower_key '' price'' \<notin> set forbidden_fact_keys"
    by (simp add: forbidden_fact_keys_def utf8_def lower_ascii_def char_of_def bit_Suc_0_iff)
  ultimately show ?thesis by (simp add: fact_text_def)
qed

end
