(* ===== verification/Spec2Isabelle.thy ===== *)
theory Spec2Isabelle
  imports Demo Layout DemoRecipe DetailClaims BatchClaims Limiter ExecutorClaims AssetClaims CategoryClaims MatrixClaims PaymentClaims
    ImageClaims Observations
begin

text \<open>
  A verification library for the commerce core of the creator platform, the Go packages
  \<^verbatim>\<open>src/internal/app/ecommerce\<close> and the adapters beside it in
  \<^verbatim>\<open>src/internal/app\<close>. A user buys credits; submitting a batch reserves credits
  for its items; a queue of leased jobs generates the items; finishing an item settles its
  credits or gives them back.

  Theories and the code they follow:
  \<^item> \<open>Prelude\<close>: identifiers, times, results that may be errors, \<^verbatim>\<open>strings.TrimSpace\<close>.
  \<^item> \<open>Tables\<close>: database tables as lists of rows in primary key order, with the updates
    and lookups the code asks its database for, and the locale of tables with a unique key.
  \<^item> \<open>CommerceModels\<close>: the rows of \<^verbatim>\<open>models.go\<close>, \<^verbatim>\<open>states.go\<close> and
    \<^verbatim>\<open>contracts.go\<close>, the database and transactions that roll back.
  \<^item> \<open>CreditLedger\<close> (\<^verbatim>\<open>ecommerce_credit_adapter.go\<close>): reserve, settle and release; the
    abstract account; the locale of ledgers that the queue relies on, interpreted on this ledger.
  \<^item> \<open>BatchCounters\<close> (\<^verbatim>\<open>batches.go\<close>), \<open>Backoff\<close> (retry delays, with IEEE rounding).
  \<^item> \<open>Projects\<close> (\<^verbatim>\<open>service.go\<close>): creating, changing and deleting projects.
  \<^item> \<open>Queue\<close> (\<^verbatim>\<open>queue.go\<close>): claim, heartbeat, complete, fail, cancel, recover.
  \<^item> \<open>WorkState\<close> and \<open>QueueSafety\<close>: the invariant of batches, items, jobs and
    holds; every queue operation keeps it.
  \<^item> \<open>WorkerAdapter\<close> (\<^verbatim>\<open>ecommerce_worker_adapter.go\<close>): the queue as the
    application configures it.
  \<^item> \<open>Recipes\<close> (\<^verbatim>\<open>recipes.go\<close>) and \<open>Layout\<close> (\<^verbatim>\<open>layout.go\<close>).
  \<^item> \<open>Pricing\<close> (\<^verbatim>\<open>credits.go\<close>): pricing snapshots, issued and resolved once.
  \<^item> \<open>ProductDetail\<close> and \<open>ProductDetailFacts\<close> (\<^verbatim>\<open>product_detail.go\<close>): the
    compiler of product detail sets and its lemmas; \<open>DetailClaims\<close> states its properties.
  \<^item> \<open>BatchInputs\<close> and \<open>Batches\<close> (\<^verbatim>\<open>batches.go\<close>): what a submission is compiled
    from; estimating, submitting, canceling and retrying batches.
  \<^item> \<open>BatchSafety\<close>, \<open>SubmitSafety\<close>: these operations keep the invariant of
    \<open>WorkState\<close>; \<open>System\<close>: the step relation of the service and its workers
    together, and the states it reaches; \<open>BatchFacts\<close> and \<open>BatchClaims\<close>: replays,
    canonical requests, and the properties of batches and of the whole system.
  \<^item> \<open>Executors\<close> (\<^verbatim>\<open>executors.go\<close>, \<^verbatim>\<open>worker.go\<close>): frozen items, the
    dispatch to executors and the worker loop as a step relation over the states of
    \<open>System\<close>; \<open>ExecutorClaims\<close> its properties.
  \<^item> \<open>AssetObjects\<close> (\<^verbatim>\<open>assets.go\<close>, \<^verbatim>\<open>object_guards.go\<close>): uploaded objects, the
    rows that refer to them, guards and clean-ups; \<open>AssetSafety\<close>
    (\<^verbatim>\<open>ecommerce_storage.go\<close>): the clean-up loop and the deletion of an asset, the
    step relation in which they interleave with writes that the triggers let through, and
    its invariant; \<open>AssetClaims\<close>: the handlers are runs of that relation, and what
    deletions guarantee.
  \<^item> \<open>Limiter\<close> (\<^verbatim>\<open>limiter.go\<close>): rate and concurrency limits.
  \<^item> \<open>Categories\<close> (\<^verbatim>\<open>categories.go\<close>): the product categories and their
    seeds; \<open>CategoryClaims\<close> their properties. \<open>Catalog\<close> (\<^verbatim>\<open>service.go\<close>): brands,
    products and SKUs. \<open>SkuMatrix\<close> (\<^verbatim>\<open>sku_matrix.go\<close>): the SKUs that the
    specifications of a product combine to; \<open>MatrixFacts\<close> and \<open>MatrixClaims\<close>: what
    a preview partitions, default SKUs stay usable, applied requests replay.
  \<^item> \<open>Amounts\<close>: amounts as the payment provider prints and the code reads them, with
    \<^verbatim>\<open>strconv.ParseFloat\<close> and its IEEE rounding. \<open>Payments\<close>
    (\<^verbatim>\<open>payment_risk.go\<close>, \<^verbatim>\<open>credit_estimate.go\<close>, \<^verbatim>\<open>signup_bonus.go\<close>): orders of
    credit packages, their guards, payment records and the crediting of a paid order.
    \<open>Alipay\<close> (\<^verbatim>\<open>alipay_handlers.go\<close>, \<^verbatim>\<open>alipay_config.go\<close>, refunds of
    \<^verbatim>\<open>finance_handlers.go\<close>) and \<open>WechatPay\<close> (the payments of
    \<^verbatim>\<open>wechat_handlers.go\<close>): every handler as a function of the request, the answers of the
    provider and the database, to the reply and the database after it.
    \<open>PaymentSafety\<close>: the abstract order book with its invariant; \<open>PaymentSteps\<close>: every
    handler is a run of it; \<open>PaymentClaims\<close>: histories of requests and what they guarantee.
  \<^item> \<open>ProviderFailures\<close> (\<^verbatim>\<open>app.go\<close>, \<^verbatim>\<open>generation.go\<close>): what an error of
    an AI provider tells the user, and whether it is tried again.
  \<^item> \<open>ImageQueue\<close> (\<^verbatim>\<open>generation_queue.go\<close>, \<^verbatim>\<open>generation.go\<close>): the
    persistent queue of single images with its execution slots, and what an execution writes.
    \<open>ImageHolds\<close>: the credits of its jobs as an abstract relation of quiet, opening and
    closing steps, with its invariant and what it conserves; \<open>ImageSteps\<close>: every request is
    a run of it; \<open>ImageClaims\<close>: credits, limits, slots and the order of service.
  \<^item> \<open>Observations\<close>: behaviour of the code that its callers may not expect.
  \<^item> \<open>Demo\<close>, \<open>DemoRecipe\<close>, \<open>DemoDetail\<close> and \<open>DemoShop\<close>: small
    concrete states for the witnesses.

  How the parts interact. Every operation is a function from the database, with its other
  arguments, to an error or a result and the database after it; a transaction that fails leaves
  the database as it was (\<open>run_tx\<close>, \<open>attempt\<close>). Operations that run at the same time
  interleave as steps of a relation: the service and its workers (\<open>System\<close>), the worker loop
  (\<open>Executors\<close>), object guards and clean-ups (\<open>AssetSafety\<close>), the catalogue
  (\<open>MatrixClaims\<close>), categories (\<open>CategoryClaims\<close>), payments (\<open>PaymentClaims\<close>)
  and the image queue (\<open>ImageSteps\<close>); their invariants are proved by rule induction.

  Bounds and fuel. No definition runs on fuel: loops are folds over the rows they read or
  recursions with a measure (the free SKU code of \<open>SkuMatrix\<close> counts down the codes in use).
  Times are nanoseconds as integers, identifiers and credits are unbounded; where the code's
  result depends on floating-point arithmetic (retry delays, amounts) the IEEE rounding is written
  out. Amounts are read back exactly below 2^50 cents.

  Parameters. JSON, SHA-256, HMAC, RSA, base64, random identifiers and order numbers, the clock,
  the object store, the AI executors and the answers of the payment providers are arguments of
  the definitions; what a property relies on is a hypothesis of it and is met in its witness.

  Not modelled: the HTTP layer (routing, decoding requests, shaping responses, sessions and
  cookies), SQL text and migrations, drawing of images, the HTTP clients of the providers, login
  and the binding of phones, the administration's lists and exports, the calls of the models with
  the failover over channels, and the workflows for videos and novels, which mainly compose
  prompts and call remote models. The step relation of the image queue persists an image only
  while its job is not released; what happens otherwise is a property of its own.
\<close>

section \<open>The credit ledger\<close>

text \<open>
  C21. Settling an item closes its hold on the abstract account: the smaller of the hold and the
  actual cost is settled and the rest released. It keeps the ledger invariant, marks this item
  only as settled, and does nothing for an item settled before.
\<close>
theorem settle_refines_account:
  assumes "ledger_ok s" and "settle_item_tx req s = Inr s'"
  shows "ledger_ok s' \<and> account_of s' =
    (if item_settled (sr_item req) s then account_of s
     else close_hold (sr_user req) (sr_reservation req) (settled_part (sr_held req) (sr_actual req))
       (sr_held req - settled_part (sr_held req) (sr_actual req)) (account_of s)) \<and>
    (\<forall>k. item_settled k s' \<longleftrightarrow> item_settled k s \<or> k = sr_item req)"
  using assms by (rule settle_item_tx_account)

theorem settle_refines_account_witness:
  "\<exists>s'. settle_item_tx (settle_request_of (demo_item 1 ItemRunning) 6) demo_db = Inr s' \<and>
     account_of s' = close_hold 7 1 6 4 (account_of demo_db)"
proof -
  obtain s' where s': "settle_item_tx (settle_request_of (demo_item 1 ItemRunning) 6) demo_db = Inr s'"
    by (simp add: demo_defs settle_request_of_def settle_item_tx_def claim_commerce_settlement_def
        first_where_def settle_claimed_def settle_row_def settle_amounts_def load_commerce_settlement_scope_def
        move_reserved_credits_def update_commerce_reservation_settlement_def table_defs
        create_commerce_release_transaction_def record_item_settlement_def Let_def)
  from settle_refines_account [OF demo_ledger_ok s'] show ?thesis
    using s' by (auto simp: item_settled_def demo_defs settle_request_of_def settled_part_def)
qed

text \<open>
  C22. Releasing an item closes its hold on the abstract account and returns all of it to the
  available credits of the user. It keeps the ledger invariant, and does nothing for an item
  settled before.
\<close>
theorem release_refines_account:
  assumes "ledger_ok s" and "release_item_tx req s = Inr s'"
  shows "ledger_ok s' \<and> account_of s' =
    (if item_settled (lr_item req) s then account_of s
     else close_hold (lr_user req) (lr_reservation req) 0 (lr_held req) (account_of s)) \<and>
    (\<forall>k. item_settled k s' \<longleftrightarrow> item_settled k s \<or> k = lr_item req)"
  using assms by (rule release_item_tx_account)

theorem release_refines_account_witness:
  "\<exists>s'. release_item_tx (release_request_of (demo_item 2 ItemQueued) ''user_canceled'' ''cancel'') demo_db = Inr s' \<and>
     account_of s' = close_hold 7 1 0 10 (account_of demo_db)"
proof -
  obtain s' where s': "release_item_tx (release_request_of (demo_item 2 ItemQueued) ''user_canceled'' ''cancel'') demo_db = Inr s'"
    by (simp add: demo_defs release_request_of_def release_item_tx_def claim_commerce_settlement_def
        first_where_def release_claimed_def release_row_def load_commerce_settlement_scope_def
        move_reserved_credits_def update_commerce_reservation_settlement_def table_defs
        create_commerce_release_transaction_def record_item_settlement_def Let_def)
  from release_refines_account [OF demo_ledger_ok s'] show ?thesis
    using s' by (auto simp: item_settled_def demo_defs release_request_of_def)
qed

text \<open>
  C23. A new reservation opens a hold on the abstract account under the identifier it returns; a
  replayed one changes nothing.
\<close>
theorem reserve_refines_account:
  assumes "ledger_ok s" and "reserve_tx req s = Inr (snap, s')"
  shows "ledger_ok s' \<and> account_of s' = (if replayed req s then account_of s
     else open_hold (rr_user req) (rs_reservation snap) (rr_amount req) (account_of s))"
  using assms by (rule reserve_tx_account)

definition demo_reserve :: reserve_request where
  "demo_reserve = \<lparr>rr_user = 7, rr_project = 3, rr_batch = Some 2, rr_scope_type = ''batch'', rr_scope_key = ''2'',
     rr_amount = 30, rr_idempotency_key = ''t''\<rparr>"

theorem reserve_refines_account_witness:
  "\<exists>snap s'. reserve_tx demo_reserve demo_db = Inr (snap, s') \<and> rs_available snap = 50 \<and>
     account_of s' = open_hold 7 2 30 (account_of demo_db)"
proof -
  obtain snap s' where s': "reserve_tx demo_reserve demo_db = Inr (snap, s')" "rs_available snap = 50"
      "rs_reservation snap = 2"
    by (simp add: demo_reserve_def demo_defs reserve_tx_def first_where_def table_defs
        insert_transaction_def reservation_row_def next_key_def Let_def)
  from reserve_refines_account [OF demo_ledger_ok s'(1)] show ?thesis
    using s' by (auto simp: replayed_def demo_reserve_def demo_defs)
qed

text \<open>
  Once an item is settled, neither settling nor releasing it again changes the database.
\<close>
theorem settled_item_is_final:
  assumes "item_settled k s" and "sr_item sr = k" and "lr_item lr = k"
  shows "(settle_item_tx sr s = Inr s' \<longrightarrow> s' = s) \<and> (release_item_tx lr s = Inr s' \<longrightarrow> s' = s)"
  using assms settle_again [of sr s s'] release_again [of lr s s'] by auto

definition demo_settled :: commerce_db where
  "demo_settled = demo_db\<lparr>settlements := [settle_row (settle_request_of (demo_item 1 ItemRunning) 6)]\<rparr>"

theorem settled_item_is_final_witness:
  "settle_item_tx (settle_request_of (demo_item 1 ItemRunning) 9) demo_settled = Inr demo_settled \<and>
   release_item_tx (release_request_of (demo_item 1 ItemRunning) ''x'' ''cancel'') demo_settled = Inr demo_settled"
proof -
  have settled: "item_settled 1 demo_settled"
    by (simp add: demo_settled_def item_settled_def settle_request_of_def demo_item_def)
  obtain s1 where "settle_item_tx (settle_request_of (demo_item 1 ItemRunning) 9) demo_settled = Inr s1"
    by (simp add: demo_settled_def settle_item_tx_def claim_commerce_settlement_def first_where_def
        settle_request_of_def demo_item_def settle_row_def settle_amounts_def)
  moreover obtain s2 where
    "release_item_tx (release_request_of (demo_item 1 ItemRunning) ''x'' ''cancel'') demo_settled = Inr s2"
    by (simp add: demo_settled_def release_item_tx_def claim_commerce_settlement_def first_where_def
        settle_request_of_def release_request_of_def demo_item_def settle_row_def release_row_def settle_amounts_def)
  moreover have i: "sr_item (settle_request_of (demo_item 1 ItemRunning) 9) = 1"
    "lr_item (release_request_of (demo_item 1 ItemRunning) ''x'' ''cancel'') = 1"
    by (simp_all add: settle_request_of_def release_request_of_def demo_item_def)
  ultimately show ?thesis
    using settled_item_is_final [OF settled i, of s1] settled_item_is_final [OF settled i, of s2] by simp
qed

section \<open>Batch counters and delays\<close>

text \<open>
  The remaining time of a batch is between 10 and 600 seconds for each unfinished item.
\<close>
theorem batch_eta_bounds:
  "10 * pending_items its \<le> commerce_batch_eta_seconds its \<and>
   commerce_batch_eta_seconds its \<le> 600 * pending_items its"
  by (rule commerce_batch_eta_bounds)

text \<open>
  The counter arithmetic of a refresh gives the status one reads off the items themselves.
\<close>
theorem batch_status_matches_items: "batch_status_of its = batch_status_spec its"
  by (rule batch_status_of_spec)

text \<open>
  After a refresh the batch row carries the numbers, sums and status of its items.
\<close>
theorem refreshed_batch_is_counted:
  assumes "b \<in> set (batches (refresh_batch_counters u k now s))" and "bat_id b = k" and "bat_user b = u"
  shows "batch_counted (refresh_batch_counters u k now s) b"
  using assms by (rule refresh_counts)

theorem refreshed_batch_is_counted_witness:
  "\<exists>b \<in> set (batches (refresh_batch_counters 7 1 50 demo_settled)). batch_counted (refresh_batch_counters 7 1 50 demo_settled) b"
proof -
  let ?b = "refreshed_batch (batch_items 7 1 demo_settled) 50 demo_batch"
  have b: "?b \<in> set (batches (refresh_batch_counters 7 1 50 demo_settled))"
    by (simp add: batches_refresh demo_settled_def demo_db_def demo_batch_def)
  have "batch_counted (refresh_batch_counters 7 1 50 demo_settled) ?b"
    by (rule refreshed_batch_is_counted [OF b]) (simp_all add: demo_batch_def)
  with b show ?thesis by blast
qed

text \<open>
  A retry waits between 5 seconds and 5 minutes and the jitter adds at most a fifth.
\<close>
theorem retry_delay_bounds:
  "5 * second \<le> retry_delay n j \<and> retry_delay n j \<le> 5 * minute \<and>
   retry_base n \<le> retry_delay n j \<and> retry_delay n j \<le> retry_base n + retry_base n div 5"
  using retry_delay_bounds_aux [of n j] retry_delay_le_fifth [of n j] retry_base_bounds [of n] by linarith

text \<open>
  A cleanup is retried after 1 to 1024 minutes.
\<close>
theorem cleanup_delay_bounds: "minute \<le> cleanup_retry_delay n \<and> cleanup_retry_delay n \<le> 1024 * minute"
  by (rule cleanup_retry_delay_bounds)

section \<open>The queue\<close>

text \<open>
  C24. Completing, failing, canceling or prolonging a job under a lease that no running job has
  fails with a lease mismatch and changes nothing.
\<close>
theorem wrong_lease_changes_nothing:
  assumes "\<forall>j \<in> set (jobs s). \<not> (job_id j = ls_job lease \<and> job_lease_owner j = ls_owner lease \<and>
      job_lease_token j = ls_token lease \<and> job_status j = JobRunning)"
    and q_def: "q = commerce_worker_queue json host pid token"
  shows "complete q lease result now s = (Inl ErrLeaseMismatch, s) \<and>
    fail q lease failure now jitter s = (Inl ErrLeaseMismatch, s) \<and>
    cancel q lease reason now s = (Inl ErrLeaseMismatch, s) \<and>
    (0 < d \<longrightarrow> heartbeat q lease now d s = (Inl ErrLeaseMismatch, s))"
proof -
  have "first_where (leased_row lease) (jobs s) = None" using assms(1) by (auto simp: first_where_None leased_row_def)
  then have "load_running_leased_job lease s = Inl ErrLeaseMismatch"
    by (simp add: load_running_leased_job_def)
  moreover have "validate_queue q = Inr ()"
    using new_queue_worker_named by (simp add: q_def validate_queue_def commerce_worker_queue_def)
  ultimately show ?thesis
    by (simp add: complete_def fail_def cancel_def heartbeat_def finish_operation_def run_tx_def
        complete_tx_def fail_tx_def heartbeat_tx_def)
qed

theorem wrong_lease_changes_nothing_witness:
  "complete demo_queue \<lparr>ls_job = 2, ls_owner = ''w'', ls_token = ''t''\<rparr> \<lparr>jr_execution = None, jr_metadata = ''''\<rparr> 9 demo_db
     = (Inl ErrLeaseMismatch, demo_db)"
proof -
  have "\<forall>j \<in> set (jobs demo_db). \<not> (job_id j = ls_job \<lparr>ls_job = 2, ls_owner = ''w'', ls_token = ''t''\<rparr> \<and>
      job_lease_owner j = ls_owner \<lparr>ls_job = 2, ls_owner = ''w'', ls_token = ''t''\<rparr> \<and>
      job_lease_token j = ls_token \<lparr>ls_job = 2, ls_owner = ''w'', ls_token = ''t''\<rparr> \<and> job_status j = JobRunning)"
    by (simp add: demo_defs)
  from wrong_lease_changes_nothing [OF this demo_queue_def] show ?thesis by simp
qed

text \<open>
  C25. A claim on a consistent database succeeds, keeps it consistent and leases at most limit
  distinct jobs, each running under the token of the claim with a lease of the full duration.
\<close>
theorem claim_never_fails:
  assumes "work_ok s" and "\<forall>k. \<not> blank (token k)"
    and q_def: "q = commerce_worker_queue json host pid worker_token"
  shows "\<exists>claimed s'. claim_tx q token sel_now now limit d s = Inr (claimed, s') \<and> work_ok s' \<and>
    length claimed \<le> limit \<and> distinct (map (\<lambda>(j, _). job_id j) claimed) \<and>
    (\<forall>(j, item) \<in> set claimed. j \<in> set (jobs s') \<and> job_status j = JobRunning \<and>
       job_lease_owner j = q_worker q \<and> job_lease_token j = token (job_id j) \<and>
       job_lease_expires_at j = Some (now + d))"
proof -
  have g: "worker.good s" using assms(1) by (simp add: good_iff_work_ok)
  show ?thesis
    using worker.claim_tx_total [OF g, of token json host pid worker_token sel_now now limit d] assms(2) g
    unfolding q_def worker.keeps_def by (force simp: good_iff_work_ok)
qed

theorem claim_never_fails_witness:
  "\<exists>claimed s'. claim_tx demo_queue (\<lambda>_. ''t'') 2000 2000 5 60 demo_db = Inr (claimed, s') \<and> work_ok s'"
  using claim_never_fails [OF demo_work_ok _ demo_queue_def, of "\<lambda>_. ''t''" 2000 2000 5 60] by auto

section \<open>Product analysis and recipes\<close>

text \<open>
  The normalisation of identifiers leaves exactly the strictly increasing lists without zero
  unchanged.
\<close>
theorem unique_sorted_ids_fixpoint: "unique_sorted_ids vs = vs \<longleftrightarrow> sorted vs \<and> distinct vs \<and> 0 \<notin> set vs"
  by (rule unique_sorted_ids_canonical)

text \<open>
  Registering a recipe keeps the registry consistent and changes the lookup of its own key
  only.
\<close>
theorem register_keeps_registry:
  assumes "registry_ok r" and "register (Some c) r = Inr r'"
  shows "registry_ok r' \<and> (\<forall>p k v. registry_get r' p k v =
    (if registry_key p k v = definition_key (cm_definition c)
     then Some (c\<lparr>cm_definition := default_max_attempts (cm_definition c)\<rparr>) else registry_get r p k v))"
  using register_registry_ok [OF assms] register_get [OF assms(2)] by blast

theorem register_keeps_registry_witness:
  "registry_ok demo_registry \<and> registry_get demo_registry ''general'' ''card'' 1 =
     Some (demo_compiler\<lparr>cm_definition := default_max_attempts demo_recipe\<rparr>)"
  using register_keeps_registry [OF registry_ok_Nil demo_register]
  by (simp add: demo_compiler_def definition_key_def demo_recipe_def)

text \<open>
  A compilation yields exactly the requested number of items, each of the requested recipe,
  and shared or for the primary or a selected SKU.
\<close>
theorem compiled_items_match_input:
  assumes "registry_compile r input = Inr its"
  shows "int (length its) = ci_output_count input \<and> (\<forall>i \<in> set its.
    cp_pipeline i = ci_pipeline input \<and> cp_recipe_key i = ci_recipe_key input \<and>
    cp_recipe_version i = ci_recipe_version input \<and>
    (cp_scope i = ''shared'' \<or> cp_sku i \<noteq> 0 \<and> cp_sku i \<in> set (ci_primary_sku input # ci_selected_skus input)))"
  using assms by (rule registry_compile_items)

theorem compiled_items_match_input_witness:
  "\<exists>its. registry_compile demo_registry demo_input = Inr its \<and> length its = 1 \<and>
     (\<forall>i \<in> set its. cp_pipeline i = ''general'' \<and> cp_sku i = 5)"
  using demo_compile compiled_items_match_input [OF demo_compile]
  by (simp add: demo_input_def demo_compiled_def)

section \<open>Layouts\<close>

text \<open>
  The default layout of at most 20 texts is a valid document.
\<close>
theorem default_layout_valid:
  assumes "length texts \<le> 20" and "valid_layout_template template"
  shows "validate_layout_document (default_product_detail_layout sect template ratio texts) = Inr ()"
  using assms by (rule default_product_detail_layout_valid)

theorem default_layout_valid_witness:
  "validate_layout_document (default_product_detail_layout ''hero'' ''clean'' ''3:4'' [''a'', ''b'']) = Inr ()"
  by (rule default_layout_valid) (simp_all add: valid_layout_template_def)

text \<open>
  Wrapping keeps every code point in order, within the allowed lines, and every line of more
  than one code point within the width.
\<close>
theorem wrapped_text_complete:
  assumes "wrap_layout_text wd text width max_lines = Some ls" and "text \<noteq> []"
  shows "concat ls = text \<and> int (length ls) \<le> max_lines \<and> (\<forall>l \<in> set ls. length l \<le> 1 \<or> wd l \<le> width)"
  using assms by (rule wrap_layout_text_lines)

theorem wrapped_text_complete_witness:
  "wrap_layout_text (\<lambda>l. 10 * int (length l)) [65, 66, 67] 20 2 = Some [[65, 66], [67]] \<and>
   concat [[65, 66], [67]] = [65, 66, 67 :: nat]"
proof -
  have w: "wrap_layout_text (\<lambda>l. 10 * int (length l)) [65, 66, 67] 20 2 = Some [[65, 66], [67]]"
    by (simp add: wrap_layout_text_def)
  show ?thesis using w wrapped_text_complete [OF w] by simp
qed

end
